(* ===== verification/Prelude.thy ===== *)
theory Prelude
  imports Complex_Main "HOL-Library.AList" "HOL-Library.Sublist"
begin

text \<open>
  Shared vocabulary of the development.

  The gateway and the web client are TypeScript programs. This theory fixes how the parts of
  the language they rely on are represented:

  \<^item> a JavaScript number is an exact rational (\<open>js_number\<close>); rounding above \<open>2^53\<close> and the
    values \<open>NaN\<close> and \<open>Infinity\<close> are not represented. A function of the language that may
    return \<open>NaN\<close> (\<open>Number\<close>, \<open>Date.parse\<close>) returns an \<open>option\<close> instead;
  \<^item> a JavaScript string is a \<open>string\<close>, one element per UTF-16 code unit. A \<open>char\<close> has 256
    values: text outside Latin-1 (the Chinese messages of the program) is written as its UTF-8
    bytes, and no function of the model depends on the difference;
  \<^item> an \<open>unknown\<close> value that came out of \<open>JSON.parse\<close> is a \<open>json\<close>; \<open>undefined\<close> is the
    \<open>None\<close> of \<open>json option\<close>;
  \<^item> a \<open>Map\<close> is an association list in insertion order: \<open>set\<close> keeps the place of a key that
    is present and appends a new one (\<open>AList.update\<close>), \<open>delete\<close> is \<open>AList.delete\<close>,
    \<open>keys().next()\<close> is the head. A \<open>Set\<close> is the list of its elements in insertion order;
  \<^item> an optional object property is an \<open>opt_prop\<close>, which tells an absent property from one that is
    present with the value \<open>undefined\<close>: the object spread \<open>{...a, ...b}\<close> keeps the
    property of \<open>a\<close> in the first case and overwrites it in the second.

  The second half collects the lemmas on these representations that the components share,
  and the interface \<open>recency_cache\<close> of the bounded maps of the program.
\<close>

named_theorems js_simps \<open>unfolding the representation of JavaScript values\<close>
named_theorems wf_intros \<open>preservation of the well-formedness of maps and sets\<close>

type_synonym js_number = rat
type_synonym ('k, 'v) js_map = "('k \<times> 'v) list"
type_synonym 'a js_set = "'a list"

section \<open>JSON values\<close>

datatype json =
    JNull
  | JBool bool
  | JNum js_number
  | JStr string
  | JArr "json list"
  | JObj "(string \<times> json) list"

text \<open>\<open>typeof v === "object" && v\<close>: objects and arrays.\<close>

definition is_object :: "json \<Rightarrow> bool" where
  "is_object v = (case v of JObj _ \<Rightarrow> True | JArr _ \<Rightarrow> True | _ \<Rightarrow> False)"

text \<open>Reading the property \<open>k\<close>; only plain objects have named properties.\<close>

definition jget :: "json \<Rightarrow> string \<Rightarrow> json option" where
  "jget v k = (case v of JObj fs \<Rightarrow> map_of fs k | _ \<Rightarrow> None)"

text \<open>\<open>v?.k\<close> on a value that may be \<open>undefined\<close>.\<close>

definition jchain :: "json option \<Rightarrow> string \<Rightarrow> json option" where
  "jchain v k = (case v of None \<Rightarrow> None | Some x \<Rightarrow> jget x k)"

definition truthy :: "json option \<Rightarrow> bool" where
  "truthy v = (case v of
       None \<Rightarrow> False
     | Some JNull \<Rightarrow> False
     | Some (JBool b) \<Rightarrow> b
     | Some (JNum n) \<Rightarrow> n \<noteq> 0
     | Some (JStr s) \<Rightarrow> s \<noteq> []
     | Some (JArr _) \<Rightarrow> True
     | Some (JObj _) \<Rightarrow> True)"

text \<open>\<open>a ?? b\<close> and \<open>a || b\<close>.\<close>

definition nullish :: "json option \<Rightarrow> bool" where
  "nullish v = (v = None \<or> v = Some JNull)"

definition jcoalesce :: "json option \<Rightarrow> json option \<Rightarrow> json option" where
  "jcoalesce a b = (if nullish a then b else a)"

definition jor :: "json option \<Rightarrow> json option \<Rightarrow> json option" where
  "jor a b = (if truthy a then a else b)"

text \<open>\<open>typeof x === "string" ? x : undefined\<close> and its relatives.\<close>

definition as_str :: "json option \<Rightarrow> string option" where
  "as_str v = (case v of Some (JStr s) \<Rightarrow> Some s | _ \<Rightarrow> None)"

definition as_num :: "json option \<Rightarrow> js_number option" where
  "as_num v = (case v of Some (JNum n) \<Rightarrow> Some n | _ \<Rightarrow> None)"

definition as_arr :: "json option \<Rightarrow> json list option" where
  "as_arr v = (case v of Some (JArr xs) \<Rightarrow> Some xs | _ \<Rightarrow> None)"

definition str_field :: "json \<Rightarrow> string \<Rightarrow> string option" where
  "str_field v k = as_str (jget v k)"

definition jstr_or_undef :: "string option \<Rightarrow> json option" where
  "jstr_or_undef s = map_option JStr s"

text \<open>
  An object literal whose properties may be \<open>undefined\<close>: such a property is dropped by
  \<open>JSON.stringify\<close> and reads as \<open>undefined\<close>, so it is left out.
\<close>

fun jobj :: "(string \<times> json option) list \<Rightarrow> (string \<times> json) list" where
  "jobj [] = []"
| "jobj ((k, None) # fs) = jobj fs"
| "jobj ((k, Some v) # fs) = (k, v) # jobj fs"

text \<open>\<open>Number.isSafeInteger\<close>.\<close>

definition is_safe_integer :: "js_number \<Rightarrow> bool" where
  "is_safe_integer n = (snd (quotient_of n) = 1 \<and> \<bar>n\<bar> \<le> 9007199254740991)"

lemmas json_defs [js_simps] =
  is_object_def jget_def jchain_def truthy_def nullish_def jcoalesce_def jor_def
  as_str_def as_num_def as_arr_def str_field_def jstr_or_undef_def

section \<open>Optional properties\<close>

datatype 'a opt_prop = Missing | Undef | Val 'a

definition prop_get :: "'a opt_prop \<Rightarrow> 'a option" where
  "prop_get p = (case p of Val v \<Rightarrow> Some v | _ \<Rightarrow> None)"

text \<open>The value an explicitly written property \<open>k: e\<close> gets from \<open>e\<close>.\<close>

definition prop_of :: "'a option \<Rightarrow> 'a opt_prop" where
  "prop_of v = (case v of Some x \<Rightarrow> Val x | None \<Rightarrow> Undef)"

text \<open>Property \<open>k\<close> of \<open>{...old, ...new}\<close>.\<close>

definition prop_spread :: "'a opt_prop \<Rightarrow> 'a opt_prop \<Rightarrow> 'a opt_prop" where
  "prop_spread old new = (case new of Missing \<Rightarrow> old | _ \<Rightarrow> new)"

lemma prop_get_simps [simp]:
  "prop_get Missing = None" "prop_get Undef = None" "prop_get (Val v) = Some v"
  by (simp_all add: prop_get_def)

lemma prop_of_simps [simp]: "prop_of None = Undef" "prop_of (Some v) = Val v"
  by (simp_all add: prop_of_def)

lemma prop_get_of [simp]: "prop_get (prop_of v) = v"
  by (cases v) simp_all

lemma prop_spread_simps [simp]:
  "prop_spread old Missing = old"
  "prop_spread old Undef = Undef"
  "prop_spread old (Val v) = Val v"
  by (simp_all add: prop_spread_def)

section \<open>Strings and arrays\<close>

definition is_ws :: "char \<Rightarrow> bool" where
  "is_ws c = (of_char c \<in> {9, 10, 11, 12, 13, 32, 160 :: nat})"

definition trim_start :: "string \<Rightarrow> string" where
  "trim_start s = dropWhile is_ws s"

definition trim_end :: "string \<Rightarrow> string" where
  "trim_end s = rev (dropWhile is_ws (rev s))"

definition trim :: "string \<Rightarrow> string" where
  "trim s = trim_end (trim_start s)"

definition starts_with :: "string \<Rightarrow> string \<Rightarrow> bool" where
  "starts_with s p = (take (length p) s = p)"

definition ends_with :: "string \<Rightarrow> string \<Rightarrow> bool" where
  "ends_with s p = (length p \<le> length s \<and> drop (length s - length p) s = p)"

fun includes_str :: "string \<Rightarrow> string \<Rightarrow> bool" where
  "includes_str [] p = (p = [])"
| "includes_str (c # s) p = (starts_with (c # s) p \<or> includes_str s p)"

text \<open>\<open>s.split(c)\<close> for a one-character separator: never empty.\<close>

fun split_on :: "char \<Rightarrow> string \<Rightarrow> string list" where
  "split_on c [] = [[]]"
| "split_on c (x # s) =
     (if x = c then [] # split_on c s
      else (case split_on c s of [] \<Rightarrow> [[x]] | w # ws \<Rightarrow> (x # w) # ws))"

text \<open>\<open>parts.join(sep)\<close>.\<close>

fun join :: "string \<Rightarrow> string list \<Rightarrow> string" where
  "join sep [] = []"
| "join sep [s] = s"
| "join sep (s # t # ss) = s @ sep @ join sep (t # ss)"

text \<open>\<open>xs.slice(-n)\<close> for \<open>n > 0\<close> and \<open>xs.at(-1)\<close>.\<close>

definition slice_last :: "nat \<Rightarrow> 'a list \<Rightarrow> 'a list" where
  "slice_last n xs = drop (length xs - n) xs"

definition at_last :: "'a list \<Rightarrow> 'a option" where
  "at_last xs = (if xs = [] then None else Some (last xs))"

lemma starts_with_iff: "starts_with s p \<longleftrightarrow> (\<exists>t. s = p @ t)"
  unfolding starts_with_def by (metis append_eq_conv_conj append_take_drop_id)

lemma starts_with_append [simp]: "starts_with (p @ t) p"
  by (simp add: starts_with_def)

lemma split_on_nonempty [simp]: "split_on c s \<noteq> []"
  by (cases s) (auto split: list.splits)

lemma length_slice_last [simp]: "length (slice_last n xs) = min n (length xs)"
  by (simp add: slice_last_def)

lemma set_slice_last: "set (slice_last n xs) \<subseteq> set xs"
  unfolding slice_last_def by (rule set_drop_subset)

lemma distinct_slice_last: "distinct xs \<Longrightarrow> distinct (slice_last n xs)"
  by (simp add: slice_last_def)

lemma slice_last_all: "length xs \<le> n \<Longrightarrow> slice_last n xs = xs"
  by (simp add: slice_last_def)

lemma last_in_slice_last: "xs \<noteq> [] \<Longrightarrow> 0 < n \<Longrightarrow> last xs \<in> set (slice_last n xs)"
  by (metis diff_less last_drop last_in_set length_greater_0_conv slice_last_def drop_eq_Nil not_le)

lemma at_last_simps [simp]: "at_last [] = None" "at_last (xs @ [x]) = Some x"
  by (simp_all add: at_last_def)

lemma at_last_SomeD: "at_last xs = Some x \<Longrightarrow> xs \<noteq> [] \<and> x = last xs"
  by (auto simp: at_last_def split: if_splits)

section \<open>Text of numbers and JSON values\<close>

definition digit_char :: "nat \<Rightarrow> char" where
  "digit_char n = char_of (48 + n)"

fun nat_str :: "nat \<Rightarrow> string" where
  "nat_str n = (if n < 10 then [digit_char n] else nat_str (n div 10) @ [digit_char (n mod 10)])"

declare nat_str.simps [simp del]

definition int_str :: "int \<Rightarrow> string" where
  "int_str i = (if i < 0 then CHR ''-'' # nat_str (nat (- i)) else nat_str (nat i))"

text \<open>\<open>String(n)\<close>: exact for integers; of a fraction the first \<open>k\<close> decimals.\<close>

fun fraction_digits :: "nat \<Rightarrow> js_number \<Rightarrow> string" where
  "fraction_digits 0 x = []"
| "fraction_digits (Suc k) x =
     (if x = 0 then [] else digit_char (nat \<lfloor>10 * x\<rfloor>) # fraction_digits k (10 * x - of_int \<lfloor>10 * x\<rfloor>))"

definition num_str :: "js_number \<Rightarrow> string" where
  "num_str n =
     (if n = of_int \<lfloor>n\<rfloor> then int_str \<lfloor>n\<rfloor>
      else (if n < 0 then ''-'' else []) @ int_str \<lfloor>\<bar>n\<bar>\<rfloor> @ ''.''
           @ fraction_digits 17 (\<bar>n\<bar> - of_int \<lfloor>\<bar>n\<bar>\<rfloor>))"

text \<open>\<open>JSON.stringify\<close>.\<close>

definition hex_low :: "nat \<Rightarrow> char" where
  "hex_low n = ''0123456789abcdef'' ! n"

definition escape_char :: "char \<Rightarrow> string" where
  "escape_char c =
     (if c = CHR 0x22 then [CHR 0x5C, CHR 0x22]
      else if c = CHR 0x5C then [CHR 0x5C, CHR 0x5C]
      else if c = CHR 0x08 then [CHR 0x5C, CHR ''b'']
      else if c = CHR 0x0C then [CHR 0x5C, CHR ''f'']
      else if c = CHR 0x0A then [CHR 0x5C, CHR ''n'']
      else if c = CHR 0x0D then [CHR 0x5C, CHR ''r'']
      else if c = CHR 0x09 then [CHR 0x5C, CHR ''t'']
      else if of_char c < (32 :: nat)
        then [CHR 0x5C, CHR ''u'', CHR ''0'', CHR ''0'', hex_low (of_char c div 16), hex_low (of_char c mod 16)]
      else [c])"

definition quote_str :: "string \<Rightarrow> string" where
  "quote_str s = [CHR 0x22] @ concat (map escape_char s) @ [CHR 0x22]"

fun stringify :: "json \<Rightarrow> string" where
  "stringify JNull = ''null''"
| "stringify (JBool b) = (if b then ''true'' else ''false'')"
| "stringify (JNum n) = num_str n"
| "stringify (JStr s) = quote_str s"
| "stringify (JArr xs) = ''['' @ join '','' (map stringify xs) @ '']''"
| "stringify (JObj fs) = ''{'' @ join '','' (map (\<lambda>(k, v). quote_str k @ '':'' @ stringify v) fs) @ ''}''"

text \<open>\<open>String(v)\<close>.\<close>

fun js_String :: "json \<Rightarrow> string" where
  "js_String JNull = ''null''"
| "js_String (JBool b) = (if b then ''true'' else ''false'')"
| "js_String (JNum n) = num_str n"
| "js_String (JStr s) = s"
| "js_String (JArr xs) = join '','' (map (\<lambda>x. if x = JNull then [] else js_String x) xs)"
| "js_String (JObj fs) = ''[object Object]''"

text \<open>\<open>new Date(ms).toISOString()\<close>, for years 0 to 9999: the civil date of a day number, counted in eras
  of 400 years that begin in March.\<close>

definition pad_str :: "nat \<Rightarrow> int \<Rightarrow> string" where
  "pad_str k n = (let s = int_str n in replicate (k - length s) (CHR ''0'') @ s)"

definition civil_date :: "int \<Rightarrow> int \<times> int \<times> int" where
  "civil_date days =
     (let z = days + 719468;
          era = z div 146097;
          doe = z mod 146097;
          yoe = (doe - doe div 1460 + doe div 36524 - doe div 146096) div 365;
          doy = doe - (365 * yoe + yoe div 4 - yoe div 100);
          mp = (5 * doy + 2) div 153;
          month = (if mp < 10 then mp + 3 else mp - 9)
      in (yoe + era * 400 + (if month \<le> 2 then 1 else 0), month, doy - (153 * mp + 2) div 5 + 1))"

definition toISOString :: "int \<Rightarrow> string" where
  "toISOString ms =
     (let (y, mo, d) = civil_date (ms div 86400000); t = ms mod 86400000
      in pad_str 4 y @ ''-'' @ pad_str 2 mo @ ''-'' @ pad_str 2 d @ ''T''
         @ pad_str 2 (t div 3600000) @ '':'' @ pad_str 2 (t div 60000 mod 60) @ '':''
         @ pad_str 2 (t div 1000 mod 60) @ ''.'' @ pad_str 3 (t mod 1000) @ ''Z'')"

text \<open>\<open>Buffer.byteLength(s, "utf8")\<close>.\<close>

definition utf8_length :: "string \<Rightarrow> nat" where
  "utf8_length s = sum_list (map (\<lambda>c. if of_char c < (128 :: nat) then 1 else 2) s)"

definition to_lower :: "char \<Rightarrow> char" where
  "to_lower c = (let n = of_char c :: nat in if 65 \<le> n \<and> n \<le> 90 then char_of (n + 32) else c)"

definition toLowerCase :: "string \<Rightarrow> string" where
  "toLowerCase s = map to_lower s"

section \<open>Maps in insertion order\<close>

abbreviation map_wf :: "('k, 'v) js_map \<Rightarrow> bool" where
  "map_wf m \<equiv> distinct (map fst m)"

abbreviation map_has :: "('k, 'v) js_map \<Rightarrow> 'k \<Rightarrow> bool" where
  "map_has m k \<equiv> map_of m k \<noteq> None"

text \<open>\<open>set.add(x)\<close> and \<open>set.delete(x)\<close>.\<close>

definition set_add :: "'a \<Rightarrow> 'a js_set \<Rightarrow> 'a js_set" where
  "set_add x s = (if x \<in> set s then s else s @ [x])"

definition set_del :: "'a \<Rightarrow> 'a js_set \<Rightarrow> 'a js_set" where
  "set_del x s = filter (\<lambda>y. y \<noteq> x) s"

lemma set_add_set [simp]: "set (set_add x s) = insert x (set s)"
  by (auto simp: set_add_def)

lemma set_del_set [simp]: "set (set_del x s) = set s - {x}"
  by (auto simp: set_del_def)

lemma set_add_distinct [wf_intros]: "distinct s \<Longrightarrow> distinct (set_add x s)"
  by (simp add: set_add_def)

lemma set_del_distinct [wf_intros]: "distinct s \<Longrightarrow> distinct (set_del x s)"
  by (simp add: set_del_def)

lemma map_of_update [simp]: "map_of (AList.update k v m) = (map_of m)(k \<mapsto> v)"
  by (rule update_conv')

lemma map_of_delete [simp]: "map_of (AList.delete k m) = (map_of m)(k := None)"
  by (rule delete_conv')

lemma map_wf_update [wf_intros]: "map_wf m \<Longrightarrow> map_wf (AList.update k v m)"
  by (rule distinct_update)

lemma map_wf_delete [wf_intros]: "map_wf m \<Longrightarrow> map_wf (AList.delete k m)"
  by (rule distinct_delete)

lemma map_wf_filter [wf_intros]: "map_wf m \<Longrightarrow> map_wf (filter P m)"
  by (induction m) auto

lemma map_of_filter:
  "map_wf m \<Longrightarrow> map_of (filter P m) k =
     (case map_of m k of None \<Rightarrow> None | Some v \<Rightarrow> if P (k, v) then Some v else None)"
proof (induction m)
  case Nil
  then show ?case by simp
next
  case (Cons p m)
  obtain a b where p: "p = (a, b)" by (cases p)
  have "a \<notin> fst ` set m" using Cons.prems p by simp
  then have none: "map_of m a = None" by (simp add: map_of_eq_None_iff)
  show ?case
    using Cons.IH Cons.prems none by (cases "k = a") (auto simp: p split: option.splits)
qed

lemma delete_fresh: "k \<notin> fst ` set m \<Longrightarrow> AList.delete k m = m"
  by (rule delete_id)

lemma delete_head: "map_wf ((k, v) # m) \<Longrightarrow> AList.delete k ((k, v) # m) = m"
  by (simp add: delete_fresh)

lemma set_delete_subset: "set (AList.delete k m) \<subseteq> set m"
  by (auto simp: AList.delete_eq)

lemma dom_delete_keys: "fst ` set (AList.delete k m) = fst ` set m - {k}"
  by (auto simp: AList.delete_eq image_iff)

lemma set_update_cases: "q \<in> set (AList.update k v m) \<Longrightarrow> q = (k, v) \<or> q \<in> set m"
  by (induction m) (auto split: if_splits)

lemma update_fresh: "k \<notin> fst ` set m \<Longrightarrow> AList.update k v m = m @ [(k, v)]"
  by (induction m) auto

lemma length_update: "length (AList.update k v m) = (if map_has m k then length m else Suc (length m))"
  by (induction m) auto

lemma length_delete_less: "length (AList.delete k ((k, v) # m)) < Suc (length m)"
  by (simp add: length_delete_le less_Suc_eq_le)

lemma map_of_append_wf:
  assumes "map_wf (m @ m')" "map_of m' k = Some v" shows "map_of (m @ m') k = Some v"
proof -
  have "k \<in> fst ` set m'" using assms(2) by (metis map_of_eq_None_iff option.distinct(1))
  then have "k \<notin> fst ` set m" using assms(1) by auto
  then have "map_of m k = None" by (simp add: map_of_eq_None_iff)
  with assms(2) show ?thesis by (simp add: map_add_def)
qed

lemma map_of_dropD:
  assumes "map_wf m" "map_of (drop n m) k = Some v" shows "map_of m k = Some v"
  using map_of_append_wf [of "take n m" "drop n m" k v] assms by simp

section \<open>Evicting the oldest entries\<close>

text \<open>
  The loop \<open>while (m.size > cap) m.delete(m.keys().next().value)\<close>, which the program writes in
  the policy map of the bridge, the event cache, the reservation maps of the store and the
  authentication sessions.
\<close>

function evict_oldest :: "nat \<Rightarrow> ('k, 'v) js_map \<Rightarrow> ('k, 'v) js_map" where
  "evict_oldest cap m =
     (if length m \<le> cap then m
      else (case m of [] \<Rightarrow> m | (k, v) # rest \<Rightarrow> evict_oldest cap (AList.delete k m)))"
  by pat_completeness auto
termination
  by (relation "measure (\<lambda>(cap, m). length m)")
    (auto simp: length_delete_le less_Suc_eq_le)

declare evict_oldest.simps [simp del]

lemma evict_oldest_drop: "map_wf m \<Longrightarrow> evict_oldest cap m = drop (length m - cap) m"
proof (induction cap m rule: evict_oldest.induct)
  case (1 cap m)
  show ?case
  proof (cases "length m \<le> cap")
    case True
    then show ?thesis by (simp add: evict_oldest.simps [of cap m])
  next
    case False
    then obtain k v rest where m: "m = (k, v) # rest" by (cases m) auto
    have del: "AList.delete k m = rest" using "1.prems" unfolding m by (rule delete_head)
    have IH: "evict_oldest cap rest = drop (length rest - cap) rest"
      using "1.IH" [OF False m refl] "1.prems" del by (simp add: m)
    have len: "length m - cap = Suc (length rest - cap)" using False by (simp add: m)
    have "evict_oldest cap m = evict_oldest cap (AList.delete k m)"
      using False unfolding evict_oldest.simps [of cap m] by (simp add: m)
    then have "evict_oldest cap m = evict_oldest cap rest" by (simp only: del)
    with IH len show ?thesis by (simp add: m)
  qed
qed

lemma evict_oldest_length: "map_wf m \<Longrightarrow> length (evict_oldest cap m) \<le> cap"
  by (simp add: evict_oldest_drop)

lemma evict_oldest_wf [wf_intros]: "map_wf m \<Longrightarrow> map_wf (evict_oldest cap m)"
  by (simp add: evict_oldest_drop drop_map distinct_drop flip: drop_map)

lemma evict_oldest_get:
  "map_wf m \<Longrightarrow> map_of (evict_oldest cap m) k = Some v \<Longrightarrow> map_of m k = Some v"
  by (simp add: evict_oldest_drop map_of_dropD)

lemma evict_oldest_id: "length m \<le> cap \<Longrightarrow> evict_oldest cap m = m"
  by (simp add: evict_oldest.simps [of cap m])

lemma evict_oldest_snoc:
  assumes "map_wf (m @ [(k, v)])" "0 < cap"
  shows "map_of (evict_oldest cap (m @ [(k, v)])) k = Some v"
proof -
  have fresh: "k \<notin> fst ` set m" using assms(1) by auto
  have "evict_oldest cap (m @ [(k, v)]) = drop (Suc (length m) - cap) m @ [(k, v)]"
    using assms by (simp add: evict_oldest_drop)
  moreover have "map_of (drop (Suc (length m) - cap) m) k = None"
    using fresh by (auto simp: map_of_eq_None_iff dest: in_set_dropD)
  ultimately show ?thesis by (simp add: map_add_def)
qed

section \<open>Recency caches\<close>

text \<open>
  The idiom \<open>m.delete(k); m.set(k, v); while (m.size > cap) ...\<close>: a write moves the key to the
  newest place and evicts from the oldest. \<open>touch\<close> is its common meaning; the components state
  their own operation as the source writes it and prove it an instance of the interface.
\<close>

locale recency_cache =
  fixes put :: "'k \<Rightarrow> 'v \<Rightarrow> ('k, 'v) js_map \<Rightarrow> ('k, 'v) js_map"
    and cap :: nat
  assumes put_wf: "map_wf m \<Longrightarrow> map_wf (put k v m)"
    and put_bound: "map_wf m \<Longrightarrow> length (put k v m) \<le> cap"
    and put_same: "map_wf m \<Longrightarrow> map_of (put k v m) k = Some v"
    and put_other: "map_wf m \<Longrightarrow> k' \<noteq> k \<Longrightarrow> map_of (put k v m) k' = Some w \<Longrightarrow> map_of m k' = Some w"
begin

text \<open>A sequence of writes, oldest first.\<close>

definition put_all :: "('k \<times> 'v) list \<Rightarrow> ('k, 'v) js_map \<Rightarrow> ('k, 'v) js_map" where
  "put_all ops m = fold (\<lambda>(k, v) m. put k v m) ops m"

lemma put_all_simps [simp]:
  "put_all [] m = m" "put_all ((k, v) # ops) m = put_all ops (put k v m)"
  by (simp_all add: put_all_def)

lemma put_all_wf: "map_wf m \<Longrightarrow> map_wf (put_all ops m)"
  by (induction ops arbitrary: m) (auto simp: put_wf)

text \<open>A cache never serves a stale value: what it holds for a key is the last value written.\<close>

lemma put_all_fresh:
  "map_wf m \<Longrightarrow> map_of (put_all ops m) k = Some w \<Longrightarrow>
   map_of (rev ops) k = Some w \<or> map_of (rev ops) k = None \<and> map_of m k = Some w"
proof (induction ops arbitrary: m)
  case Nil
  then show ?case by simp
next
  case (Cons op ops)
  obtain a b where op: "op = (a, b)" by (cases op)
  have "map_of (rev ops) k = Some w \<or> map_of (rev ops) k = None \<and> map_of (put a b m) k = Some w"
    using Cons.IH [of "put a b m"] Cons.prems by (simp add: op put_wf)
  then show ?case
    using Cons.prems(1) put_same [of m a b] put_other [of m k a b w]
    by (cases "k = a") (auto simp: op map_add_def)
qed

lemma put_all_bound: "map_wf m \<Longrightarrow> length m \<le> cap \<Longrightarrow> length (put_all ops m) \<le> cap"
  by (induction ops arbitrary: m) (auto simp: put_wf put_bound)

lemma put_all_last: "map_wf m \<Longrightarrow> map_of (put_all (ops @ [(k, v)]) m) k = Some v"
  by (simp add: put_all_def put_same put_all_wf [unfolded put_all_def])

end

definition touch :: "nat \<Rightarrow> 'k \<Rightarrow> 'v \<Rightarrow> ('k, 'v) js_map \<Rightarrow> ('k, 'v) js_map" where
  "touch cap k v m = evict_oldest cap (AList.update k v (AList.delete k m))"

lemma touch_eq:
  "touch cap k v m = evict_oldest cap (AList.delete k m @ [(k, v)])"
  by (simp add: touch_def update_fresh delete_notin_dom)

lemma touch_wf [wf_intros]: "map_wf m \<Longrightarrow> map_wf (touch cap k v m)"
  by (simp add: touch_def wf_intros)

lemma touch_length: "map_wf m \<Longrightarrow> length (touch cap k v m) \<le> cap"
  by (simp add: touch_def wf_intros evict_oldest_length)

lemma touch_same: "map_wf m \<Longrightarrow> 0 < cap \<Longrightarrow> map_of (touch cap k v m) k = Some v"
  unfolding touch_eq
  by (rule evict_oldest_snoc) (simp_all add: map_wf_delete delete_notin_dom)

lemma touch_other:
  assumes "map_wf m" "k' \<noteq> k" "map_of (touch cap k v m) k' = Some w"
  shows "map_of m k' = Some w"
proof -
  have "map_of (AList.update k v (AList.delete k m)) k' = Some w"
    using assms(1,3) unfolding touch_def by (blast intro: evict_oldest_get wf_intros)
  with assms(2) show ?thesis by simp
qed

lemma recency_cache_touch: "0 < cap \<Longrightarrow> recency_cache (touch cap) cap"
  by unfold_locales (simp_all add: touch_wf touch_length touch_same touch_other)

end
