(* ===== verification/Gate.thy ===== *)
theory Gate
  imports Prelude
begin

text \<open>
  The two small synchronisation objects of the gateway: \<open>TurnGate\<close>
  (\<^verbatim>\<open>server/src/turnGate.ts\<close>), which admits one top-level turn per session, and
  \<open>SessionRunState\<close> (\<^verbatim>\<open>server/src/sessionRunState.ts\<close>), whose generation numbers let a
  background task find out that it has been cancelled.

  \<open>exclusive_gate\<close> is the contract the request handlers rely on; mutual exclusion over any
  sequence of admissions and releases is proved from it once.
\<close>

section \<open>TurnGate\<close>

datatype turn_admission = Accepted | Duplicate | Busy

record turn_gate =
  activeSessions :: "string js_set"

definition new_turn_gate :: turn_gate where
  "new_turn_gate = \<lparr>activeSessions = []\<rparr>"

definition acquire :: "turn_gate \<Rightarrow> string \<Rightarrow> string option \<Rightarrow> string option \<Rightarrow> turn_admission \<times> turn_gate" where
  "acquire g sessionId clientRequestId persistedRequestId =
     (if (case clientRequestId of Some c \<Rightarrow> c \<noteq> [] \<and> persistedRequestId = Some c | None \<Rightarrow> False)
      then (Duplicate, g)
      else if sessionId \<in> set (activeSessions g) then (Busy, g)
      else (Accepted, g\<lparr>activeSessions := set_add sessionId (activeSessions g)\<rparr>))"

definition release :: "turn_gate \<Rightarrow> string \<Rightarrow> turn_gate" where
  "release g sessionId = g\<lparr>activeSessions := set_del sessionId (activeSessions g)\<rparr>"

definition isActive :: "turn_gate \<Rightarrow> string \<Rightarrow> bool" where
  "isActive g sessionId = (sessionId \<in> set (activeSessions g))"

section \<open>SessionRunState\<close>

record run_state =
  generations :: "(string, nat) js_map"

definition new_run_state :: run_state where
  "new_run_state = \<lparr>generations = []\<rparr>"

definition begin_run :: "run_state \<Rightarrow> string \<Rightarrow> nat \<times> run_state" where
  "begin_run r sessionId =
     (let generation = (case map_of (generations r) sessionId of Some n \<Rightarrow> n | None \<Rightarrow> 0) + 1
      in (generation, r\<lparr>generations := AList.update sessionId generation (generations r)\<rparr>))"

definition cancel_run :: "run_state \<Rightarrow> string \<Rightarrow> nat \<times> run_state" where
  "cancel_run r sessionId = begin_run r sessionId"

definition isCurrent :: "run_state \<Rightarrow> string \<Rightarrow> nat \<Rightarrow> bool" where
  "isCurrent r sessionId generation = (map_of (generations r) sessionId = Some generation)"

section \<open>Sequences of operations\<close>

text \<open>
  The handlers of the gateway run on one event loop, so the calls on a gate form a sequence.
  \<open>gate_run\<close> collects the answer of every acquisition.
\<close>

datatype ('k, 'r) gate_op = Acquire 'k "'r option" "'r option" | Release 'k

fun gate_run ::
  "('g \<Rightarrow> 'k \<Rightarrow> 'r option \<Rightarrow> 'r option \<Rightarrow> turn_admission \<times> 'g) \<Rightarrow> ('g \<Rightarrow> 'k \<Rightarrow> 'g) \<Rightarrow>
   'g \<Rightarrow> ('k, 'r) gate_op list \<Rightarrow> turn_admission option list \<times> 'g" where
  "gate_run acq rel g [] = ([], g)"
| "gate_run acq rel g (Acquire k c p # ops) =
     (let admission = acq g k c p; rest = gate_run acq rel (snd admission) ops
      in (Some (fst admission) # fst rest, snd rest))"
| "gate_run acq rel g (Release k # ops) =
     (let rest = gate_run acq rel (rel g k) ops in (None # fst rest, snd rest))"

datatype run_op = BeginRun string | CancelRun string

fun run_step :: "run_state \<Rightarrow> run_op \<Rightarrow> run_state" where
  "run_step r (BeginRun sid) = snd (begin_run r sid)"
| "run_step r (CancelRun sid) = snd (cancel_run r sid)"

fun op_session :: "run_op \<Rightarrow> string" where
  "op_session (BeginRun sid) = sid"
| "op_session (CancelRun sid) = sid"

section \<open>The contract of a gate\<close>

locale exclusive_gate =
  fixes acq :: "'g \<Rightarrow> 'k \<Rightarrow> 'r option \<Rightarrow> 'r option \<Rightarrow> turn_admission \<times> 'g"
    and rel :: "'g \<Rightarrow> 'k \<Rightarrow> 'g"
    and active :: "'g \<Rightarrow> 'k \<Rightarrow> bool"
  assumes acq_accepted: "acq g k c p = (Accepted, g') \<Longrightarrow> \<not> active g k \<and> active g' k"
    and acq_refused: "acq g k c p = (a, g') \<Longrightarrow> a \<noteq> Accepted \<Longrightarrow> g' = g"
    and acq_frame: "acq g k c p = (a, g') \<Longrightarrow> k' \<noteq> k \<Longrightarrow> active g' k' = active g k'"
    and rel_inactive: "\<not> active (rel g k) k"
    and rel_frame: "k' \<noteq> k \<Longrightarrow> active (rel g k) k' = active g k'"
begin

lemma acq_keeps_active: "active g k' \<Longrightarrow> active (snd (acq g k c p)) k'"
  using acq_accepted [of g k c p] acq_refused [of g k c p] acq_frame [of g k c p]
  by (cases "acq g k c p") (metis snd_conv)

text \<open>A session that is active stays active until it is released, and admits nobody meanwhile.\<close>

lemma refused_until_release:
  "active g k \<Longrightarrow> Release k \<notin> set (take j ops) \<Longrightarrow> j < length ops \<Longrightarrow> ops ! j = Acquire k c p \<Longrightarrow>
   fst (gate_run acq rel g ops) ! j \<noteq> Some Accepted"
proof (induction ops arbitrary: g j)
  case Nil
  then show ?case by simp
next
  case (Cons op ops)
  show ?case
  proof (cases j)
    case 0
    with Cons.prems show ?thesis
      using acq_accepted [of g k c p "snd (acq g k c p)"] by (auto simp: Let_def prod_eq_iff)
  next
    case (Suc j')
    with Cons.prems have tail: "Release k \<notin> set (take j' ops)" "j' < length ops" "ops ! j' = Acquire k c p"
      by auto
    show ?thesis
    proof (cases op)
      case (Acquire k' c' p')
      from Cons.IH [OF acq_keeps_active [OF Cons.prems(1)] tail] show ?thesis
        by (simp add: Acquire Suc Let_def)
    next
      case (Release k')
      with Cons.prems Suc have "active (rel g k') k" by (auto simp: rel_frame)
      from Cons.IH [OF this tail] show ?thesis
        by (simp add: Release Suc Let_def)
    qed
  qed
qed

text \<open>Mutual exclusion: a session is admitted twice only with a release in between.\<close>

lemma admitted_twice_released_between:
  assumes "i < j" "j < length ops"
    and "ops ! i = Acquire k c p" "fst (gate_run acq rel g ops) ! i = Some Accepted"
    and "ops ! j = Acquire k c' p'" "fst (gate_run acq rel g ops) ! j = Some Accepted"
  shows "\<exists>m. i < m \<and> m < j \<and> ops ! m = Release k"
  using assms
proof (induction ops arbitrary: g i j)
  case Nil
  then show ?case by simp
next
  case (Cons op ops)
  obtain j' where j: "j = Suc j'" using Cons.prems(1) by (cases j) auto
  show ?case
  proof (cases i)
    case 0
    with Cons.prems have op: "op = Acquire k c p" by simp
    obtain g' where a: "acq g k c p = (Accepted, g')"
      using 0 Cons.prems(4) by (cases "acq g k c p") (simp add: op Let_def)
    then have act: "active g' k" using acq_accepted by blast
    have acc': "fst (gate_run acq rel g' ops) ! j' = Some Accepted"
      using Cons.prems(6) by (simp add: op a j Let_def)
    have "Release k \<in> set (take j' ops)"
      using refused_until_release [OF act] acc' Cons.prems(2,5) unfolding j by fastforce
    then obtain m where "m < j'" "ops ! m = Release k" using Cons.prems(2) j
      by (auto simp: in_set_conv_nth)
    then show ?thesis using 0 j by (intro exI [of _ "Suc m"]) simp
  next
    case (Suc i')
    have tail: "i' < j'" "j' < length ops" "ops ! i' = Acquire k c p" "ops ! j' = Acquire k c' p'"
      using Cons.prems Suc j by auto
    obtain g' where
      "fst (gate_run acq rel g' ops) ! i' = Some Accepted"
      "fst (gate_run acq rel g' ops) ! j' = Some Accepted"
      using Cons.prems(4,6) Suc j
      by (cases op) (auto simp: Let_def intro: that)
    from Cons.IH [OF tail(1,2,3) this(1) tail(4) this(2)] obtain m where
      "i' < m" "m < j'" "ops ! m = Release k" by blast
    then show ?thesis using Suc j by (intro exI [of _ "Suc m"]) simp
  qed
qed

end

interpretation tg: exclusive_gate acquire release isActive
  by unfold_locales (auto simp: acquire_def release_def isActive_def split: if_splits)

section \<open>Generations\<close>

lemma isCurrent_begin: "isCurrent (snd (begin_run r sid)) sid (fst (begin_run r sid))"
  by (simp add: isCurrent_def begin_run_def Let_def)

lemma run_step_generation:
  "map_of (generations (run_step r op)) sid =
     (if op_session op = sid
      then Some (Suc (case map_of (generations r) sid of Some n \<Rightarrow> n | None \<Rightarrow> 0))
      else map_of (generations r) sid)"
  by (cases op) (auto simp: begin_run_def cancel_run_def Let_def split: option.splits)

text \<open>A session that has a generation gains one for every begin or cancel.\<close>

lemma run_generation:
  "map_of (generations r) sid = Some n \<Longrightarrow>
   map_of (generations (foldl run_step r ops)) sid =
     Some (n + length (filter (\<lambda>op. op_session op = sid) ops))"
  by (induction ops arbitrary: r n) (auto simp: run_step_generation)

section \<open>Properties\<close>

text \<open>C4. Whatever sequence of admissions and releases the handlers perform on the turn gate,
  a session that is admitted twice has been released in between: a session never runs two
  top-level turns.\<close>

theorem turn_gate_mutual_exclusion:
  assumes "i < j" "j < length ops"
    and "ops ! i = Acquire sid c p" "fst (gate_run acquire release g ops) ! i = Some Accepted"
    and "ops ! j = Acquire sid c' p'" "fst (gate_run acquire release g ops) ! j = Some Accepted"
  shows "\<exists>m. i < m \<and> m < j \<and> ops ! m = Release sid"
  using assms by (rule tg.admitted_twice_released_between)

lemma turn_gate_mutual_exclusion_witness:
  "\<exists>m. 0 < m \<and> m < (2::nat) \<and>
     [Acquire ''s'' (Some ''r1'') None, Release ''s'', Acquire ''s'' (Some ''r2'') (Some ''r1'')] ! m
       = (Release ''s'' :: (string, string) gate_op)"
  by (rule turn_gate_mutual_exclusion [where g = new_turn_gate and c = "Some ''r1''" and p = None
        and c' = "Some ''r2''" and p' = "Some ''r1''"])
    (simp_all add: acquire_def release_def new_turn_gate_def set_add_def set_del_def Let_def)

text \<open>The generation that a run obtained is current exactly until the next begin or cancel of
  the same session, whatever happens to the other sessions: a background continuation that checks
  \<open>isCurrent\<close> acts if and only if its run has been neither superseded nor cancelled.\<close>

theorem run_generation_current_iff:
  "isCurrent (foldl run_step (snd (begin_run r sid)) ops) sid (fst (begin_run r sid)) =
     (sid \<notin> op_session ` set ops)"
proof -
  have "map_of (generations (snd (begin_run r sid))) sid = Some (fst (begin_run r sid))"
    using isCurrent_begin by (simp add: isCurrent_def)
  from run_generation [OF this] show ?thesis
    by (auto simp: isCurrent_def filter_empty_conv)
qed

end
