(* ===== verification/Store.thy ===== *)
theory Store
  imports Prelude "HOL-Library.List_Lexorder" "HOL-Library.Char_ord"
begin

text \<open>
  The durable session store of the gateway, \<^verbatim>\<open>server/src/gatewayStore.ts\<close>: its data types, its
  state and every operation of the class \<open>GatewayStore\<close>.

  The files the store owns are part of the state (\<open>disk\<close>): the three JSON snapshots and one event
  log per session. \<open>disk_writable\<close> says whether a write succeeds at the moment; a failing write
  takes the error path of the source. Appends to an event log are asynchronous: \<open>appendEvent\<close>
  queues a line on the chain of its file and \<open>write_step\<close> is the completion of the oldest queued
  write of a file. The clock (\<open>now_ms\<close>, \<open>now_iso\<close>) is an argument.

  A message is the JSON object it is written as; a session is a record, and \<open>json_session\<close> is its
  JSON form. \<open>localeCompare\<close> is the lexicographic order on code units, which is what it is on the
  ISO timestamps it is applied to.
\<close>

section \<open>Data\<close>

datatype session_status = Starting | Running | WaitingApproval | Completed | Failed | Cancelled

datatype policy_mode = Confirm | FullAccess

datatype resume_status = Resumable | HistoryOnly | MissingThread

record gateway_session =
  s_id :: string
  provider :: string
  providerSessionId :: string
  title :: string
  workspacePath :: string
  status :: session_status
  sessionPolicyMode :: policy_mode
  activeTurnId :: "string opt_prop"
  canResume :: bool
  resumeStatus :: resume_status
  s_command :: string
  s_args :: "string list"
  s_prompt :: string
  modelLabel :: "string opt_prop"
  modelProvider :: "string opt_prop"
  createdAt :: string
  lastUpdatedAt :: string
  startedAt :: "string opt_prop"
  finishedAt :: "string opt_prop"
  lastTurnStartedAt :: "string opt_prop"
  lastTurnFinishedAt :: "string opt_prop"
  lastClientRequestId :: "string opt_prop"
  recentClientRequestIds :: "string list opt_prop"
  exitCode :: "js_number option opt_prop"
  parentSessionId :: "string opt_prop"
  childSessionIds :: "string list opt_prop"
  threadSource :: "string opt_prop"
  agentNickname :: "string opt_prop"
  agentRole :: "string opt_prop"
  agentPath :: "string opt_prop"

record gateway_message =
  m_type :: string
  m_requestId :: "string option"
  m_sessionId :: "string option"
  m_timestamp :: string
  m_payload :: "(string \<times> json) list"
  m_eventSeq :: "js_number option"

record create_request_record =
  cr_sessionId :: string
  cr_createdAt :: int

record cached_events =
  c_entries :: "gateway_message list"
  c_complete :: bool

definition EVENT_CACHE_MAX_SESSIONS :: nat where "EVENT_CACHE_MAX_SESSIONS = 64"
definition EVENT_CACHE_MAX_ENTRIES :: nat where "EVENT_CACHE_MAX_ENTRIES = 512"
definition REQUEST_RESERVATION_TTL_MS :: int where "REQUEST_RESERVATION_TTL_MS = 10 * 60 * 1000"
definition REQUEST_RESERVATION_MAX :: nat where "REQUEST_RESERVATION_MAX = 10000"

text \<open>The JSON form of a session: a property that is \<open>undefined\<close> is not written.\<close>

fun status_str :: "session_status \<Rightarrow> string" where
  "status_str Starting = ''starting''"
| "status_str Running = ''running''"
| "status_str WaitingApproval = ''waiting-approval''"
| "status_str Completed = ''completed''"
| "status_str Failed = ''failed''"
| "status_str Cancelled = ''cancelled''"

fun policy_str :: "policy_mode \<Rightarrow> string" where
  "policy_str Confirm = ''confirm''"
| "policy_str FullAccess = ''full-access''"

fun resume_str :: "resume_status \<Rightarrow> string" where
  "resume_str Resumable = ''resumable''"
| "resume_str HistoryOnly = ''history-only''"
| "resume_str MissingThread = ''missing-thread''"

definition json_session :: "gateway_session \<Rightarrow> json" where
  "json_session s = JObj (jobj [
     (''id'', Some (JStr (s_id s))),
     (''provider'', Some (JStr (provider s))),
     (''providerSessionId'', Some (JStr (providerSessionId s))),
     (''title'', Some (JStr (title s))),
     (''workspacePath'', Some (JStr (workspacePath s))),
     (''status'', Some (JStr (status_str (status s)))),
     (''sessionPolicyMode'', Some (JStr (policy_str (sessionPolicyMode s)))),
     (''activeTurnId'', map_option JStr (prop_get (activeTurnId s))),
     (''canResume'', Some (JBool (canResume s))),
     (''resumeStatus'', Some (JStr (resume_str (resumeStatus s)))),
     (''command'', Some (JStr (s_command s))),
     (''args'', Some (JArr (map JStr (s_args s)))),
     (''prompt'', Some (JStr (s_prompt s))),
     (''modelLabel'', map_option JStr (prop_get (modelLabel s))),
     (''modelProvider'', map_option JStr (prop_get (modelProvider s))),
     (''createdAt'', Some (JStr (createdAt s))),
     (''lastUpdatedAt'', Some (JStr (lastUpdatedAt s))),
     (''startedAt'', map_option JStr (prop_get (startedAt s))),
     (''finishedAt'', map_option JStr (prop_get (finishedAt s))),
     (''lastTurnStartedAt'', map_option JStr (prop_get (lastTurnStartedAt s))),
     (''lastTurnFinishedAt'', map_option JStr (prop_get (lastTurnFinishedAt s))),
     (''lastClientRequestId'', map_option JStr (prop_get (lastClientRequestId s))),
     (''recentClientRequestIds'', map_option (\<lambda>ids. JArr (map JStr ids)) (prop_get (recentClientRequestIds s))),
     (''exitCode'', map_option (\<lambda>c. case c of None \<Rightarrow> JNull | Some n \<Rightarrow> JNum n) (prop_get (exitCode s))),
     (''parentSessionId'', map_option JStr (prop_get (parentSessionId s))),
     (''childSessionIds'', map_option (\<lambda>ids. JArr (map JStr ids)) (prop_get (childSessionIds s))),
     (''threadSource'', map_option JStr (prop_get (threadSource s))),
     (''agentNickname'', map_option JStr (prop_get (agentNickname s))),
     (''agentRole'', map_option JStr (prop_get (agentRole s))),
     (''agentPath'', map_option JStr (prop_get (agentPath s)))])"

text \<open>\<open>{...a, ...b}\<close> on sessions.\<close>

definition session_spread :: "gateway_session \<Rightarrow> gateway_session \<Rightarrow> gateway_session" where
  "session_spread a b = b\<lparr>
     activeTurnId := prop_spread (activeTurnId a) (activeTurnId b),
     modelLabel := prop_spread (modelLabel a) (modelLabel b),
     modelProvider := prop_spread (modelProvider a) (modelProvider b),
     startedAt := prop_spread (startedAt a) (startedAt b),
     finishedAt := prop_spread (finishedAt a) (finishedAt b),
     lastTurnStartedAt := prop_spread (lastTurnStartedAt a) (lastTurnStartedAt b),
     lastTurnFinishedAt := prop_spread (lastTurnFinishedAt a) (lastTurnFinishedAt b),
     lastClientRequestId := prop_spread (lastClientRequestId a) (lastClientRequestId b),
     recentClientRequestIds := prop_spread (recentClientRequestIds a) (recentClientRequestIds b),
     exitCode := prop_spread (exitCode a) (exitCode b),
     parentSessionId := prop_spread (parentSessionId a) (parentSessionId b),
     childSessionIds := prop_spread (childSessionIds a) (childSessionIds b),
     threadSource := prop_spread (threadSource a) (threadSource b),
     agentNickname := prop_spread (agentNickname a) (agentNickname b),
     agentRole := prop_spread (agentRole a) (agentRole b),
     agentPath := prop_spread (agentPath a) (agentPath b)\<rparr>"

section \<open>Files\<close>

datatype 'a json_file = Absent | Blank | Corrupt | Content 'a

text \<open>
  An entry of the session snapshot: its \<open>sessionPolicyMode\<close> property, which files of older
  releases lack, and the other properties.
\<close>

datatype persisted_session = Persisted (p_policy: "policy_mode option") (p_session: gateway_session)

text \<open>
  A non-blank line of an event log, as \<open>JSON.parse\<close> reads it: not JSON, the literal \<open>null\<close>, a value
  without a \<open>message\<close> object, or an entry.
\<close>

datatype log_line = BadLine | NullLine | OtherLine | EntryLine gateway_message

record disk =
  sessionsFile :: "persisted_session list json_file"
  relationsFile :: "(string, string) js_map json_file"
  createRequestsFile :: "(string, create_request_record) js_map json_file"
  eventFiles :: "(string, log_line list) js_map"
  corruptCopies :: nat
  disk_writable :: bool

text \<open>\<open>readJson\<close>: the value, and whether the file was set aside as corrupt.\<close>

fun readJson :: "'a json_file \<Rightarrow> 'a \<Rightarrow> 'a \<times> 'a json_file" where
  "readJson Absent fallback = (fallback, Absent)"
| "readJson Blank fallback = (fallback, Blank)"
| "readJson Corrupt fallback = (fallback, Absent)"
| "readJson (Content v) fallback = (v, Content v)"

definition writeJsonAtomic :: "bool \<Rightarrow> 'a \<Rightarrow> 'a json_file \<Rightarrow> 'a json_file" where
  "writeJsonAtomic writable v file = (if writable then Content v else file)"

text \<open>\<open>encodeURIComponent\<close>: unreserved characters stand for themselves, any other one is the
  percent form of its UTF-8 bytes.\<close>

definition hex_digit :: "nat \<Rightarrow> char" where
  "hex_digit n = ''0123456789ABCDEF'' ! n"

definition percent_byte :: "nat \<Rightarrow> string" where
  "percent_byte b = [CHR ''%'', hex_digit (b div 16), hex_digit (b mod 16)]"

definition is_unreserved :: "char \<Rightarrow> bool" where
  "is_unreserved c = (let n = of_char c :: nat in
     (48 \<le> n \<and> n \<le> 57) \<or> (65 \<le> n \<and> n \<le> 90) \<or> (97 \<le> n \<and> n \<le> 122)
     \<or> c \<in> {CHR ''-'', CHR ''_'', CHR ''.'', CHR ''!'', CHR ''~'', CHR ''*'', CHR 0x27, CHR ''('', CHR '')''})"

definition encode_char :: "char \<Rightarrow> string" where
  "encode_char c = (let n = of_char c in
     if is_unreserved c then [c]
     else if n < 128 then percent_byte n
     else percent_byte (192 + n div 64) @ percent_byte (128 + n mod 64))"

definition safeFileName :: "string \<Rightarrow> string" where
  "safeFileName sid = concat (map encode_char sid)"

definition event_file :: "string \<Rightarrow> string" where
  "event_file sid = safeFileName sid @ ''.jsonl''"

section \<open>State\<close>

text \<open>
  The promise chain of an event file is the queue of the writes that have not completed, oldest
  first; the flag of a write says that \<open>deleteSession\<close> has registered \<open>removeFile\<close> on it.
  \<open>removeFile\<close> takes the chain out of the map, so the writes queued behind it go on as a chain
  nobody refers to any more (\<open>detachedWrites\<close>).
\<close>

type_synonym write_chain = "(gateway_message \<times> bool) list"

record store =
  sessions :: "(string, gateway_session) js_map"
  subagentRelations :: "(string, string) js_map"
  createRequests :: "(string, create_request_record) js_map"
  latestSeqBySession :: "(string, js_number) js_map"
  eventCache :: "(string, cached_events) js_map"
  eventWriteChains :: "(string, write_chain) js_map"
  detachedWrites :: "(string \<times> write_chain) list"
  eventWriteErrors :: "(string, string) js_map"
  deletedSessions :: "string js_set"
  clientRequestReservations :: "(string, int) js_map"
  createRequestReservations :: "(string, int) js_map"
  sessionPersistTimer :: bool
  sessionPersistDirty :: bool
  disk :: disk

section \<open>Snapshots\<close>

definition listSessions :: "store \<Rightarrow> gateway_session list" where
  "listSessions s = rev (sort_key lastUpdatedAt (rev (map snd (sessions s))))"

definition json_prop :: "'a opt_prop \<Rightarrow> 'a opt_prop" where
  "json_prop p = (case p of Undef \<Rightarrow> Missing | _ \<Rightarrow> p)"

text \<open>What \<open>JSON.parse\<close> returns for a session that \<open>JSON.stringify\<close> wrote.\<close>

definition json_roundtrip_session :: "gateway_session \<Rightarrow> gateway_session" where
  "json_roundtrip_session s = s\<lparr>
     activeTurnId := json_prop (activeTurnId s),
     modelLabel := json_prop (modelLabel s),
     modelProvider := json_prop (modelProvider s),
     startedAt := json_prop (startedAt s),
     finishedAt := json_prop (finishedAt s),
     lastTurnStartedAt := json_prop (lastTurnStartedAt s),
     lastTurnFinishedAt := json_prop (lastTurnFinishedAt s),
     lastClientRequestId := json_prop (lastClientRequestId s),
     recentClientRequestIds := json_prop (recentClientRequestIds s),
     exitCode := json_prop (exitCode s),
     parentSessionId := json_prop (parentSessionId s),
     childSessionIds := json_prop (childSessionIds s),
     threadSource := json_prop (threadSource s),
     agentNickname := json_prop (agentNickname s),
     agentRole := json_prop (agentRole s),
     agentPath := json_prop (agentPath s)\<rparr>"

definition persistSessionsNow :: "store \<Rightarrow> store" where
  "persistSessionsNow s =
     (let snapshot = map (\<lambda>x. Persisted (Some (sessionPolicyMode x)) (json_roundtrip_session x)) (listSessions s);
          d = disk s
      in s\<lparr>disk := d\<lparr>sessionsFile := writeJsonAtomic (disk_writable d) snapshot (sessionsFile d)\<rparr>\<rparr>)"

definition persistSessions :: "store \<Rightarrow> store" where
  "persistSessions s = s\<lparr>sessionPersistDirty := True, sessionPersistTimer := True\<rparr>"

text \<open>The callback of the 100 ms timer.\<close>

definition persist_timer_fires :: "store \<Rightarrow> store" where
  "persist_timer_fires s =
     (if \<not> sessionPersistTimer s then s
      else let s1 = s\<lparr>sessionPersistTimer := False\<rparr>
           in if \<not> sessionPersistDirty s1 then s1
              else persistSessionsNow (s1\<lparr>sessionPersistDirty := False\<rparr>))"

definition persistRelations :: "store \<Rightarrow> store" where
  "persistRelations s = (let d = disk s in
     s\<lparr>disk := d\<lparr>relationsFile := writeJsonAtomic (disk_writable d) (subagentRelations s) (relationsFile d)\<rparr>\<rparr>)"

definition persistCreateRequests :: "store \<Rightarrow> store" where
  "persistCreateRequests s = (let d = disk s in
     s\<lparr>disk := d\<lparr>createRequestsFile := writeJsonAtomic (disk_writable d) (createRequests s) (createRequestsFile d)\<rparr>\<rparr>)"

definition normalizePersistedSession :: "string \<Rightarrow> persisted_session \<Rightarrow> gateway_session" where
  "normalizePersistedSession now_iso p =
     (let session = p_session p;
          recent = (case recentClientRequestIds session of
              Val ids \<Rightarrow> slice_last 128 (filter (\<lambda>v. v \<noteq> []) ids)
            | _ \<Rightarrow> (case prop_get (lastClientRequestId session) of
                     Some r \<Rightarrow> if r = [] then [] else [r]
                   | None \<Rightarrow> []));
          normalized = session\<lparr>
            sessionPolicyMode := (case p_policy p of Some m \<Rightarrow> m | None \<Rightarrow> Confirm),
            recentClientRequestIds := Val recent\<rparr>
      in if status normalized \<noteq> Running \<and> status normalized \<noteq> Starting then normalized
         else normalized\<lparr>
           status := Completed,
           activeTurnId := Undef,
           finishedAt := Val (case prop_get (finishedAt normalized) of Some t \<Rightarrow> t | None \<Rightarrow> now_iso),
           lastTurnFinishedAt := Val (case prop_get (lastTurnFinishedAt normalized) of Some t \<Rightarrow> t | None \<Rightarrow> now_iso)\<rparr>)"

definition new_store :: "string \<Rightarrow> disk \<Rightarrow> store" where
  "new_store now_iso d0 =
     (let (snapshot, sf) = readJson (sessionsFile d0) [];
          (relations, rf) = readJson (relationsFile d0) [];
          (creates, cf) = readJson (createRequestsFile d0) [];
          corrupt = (if sessionsFile d0 = Corrupt then 1 else 0)
                  + (if relationsFile d0 = Corrupt then 1 else 0)
                  + (if createRequestsFile d0 = Corrupt then 1 else 0);
          ss = fold (\<lambda>p m. AList.update (s_id (p_session p)) (normalizePersistedSession now_iso p) m) snapshot [];
          rels = fold (\<lambda>(c, p) m. AList.update c p m) relations [];
          reqs = fold (\<lambda>(r, v) m. if map_has ss (cr_sessionId v) then AList.update r v m else m) creates []
      in persistSessions
           \<lparr>sessions = ss, subagentRelations = rels, createRequests = reqs, latestSeqBySession = [],
            eventCache = [], eventWriteChains = [], detachedWrites = [], eventWriteErrors = [],
            deletedSessions = [], clientRequestReservations = [], createRequestReservations = [],
            sessionPersistTimer = False, sessionPersistDirty = False,
            disk = d0\<lparr>sessionsFile := sf, relationsFile := rf, createRequestsFile := cf,
                      corruptCopies := corruptCopies d0 + corrupt\<rparr>\<rparr>)"

section \<open>Sessions\<close>

definition getSession :: "store \<Rightarrow> string \<Rightarrow> gateway_session option" where
  "getSession s sid = map_of (sessions s) sid"

definition saveSession :: "gateway_session \<Rightarrow> store \<Rightarrow> store" where
  "saveSession session s = persistSessions (s\<lparr>
     deletedSessions := set_del (s_id session) (deletedSessions s),
     sessions := AList.update (s_id session) session (sessions s)\<rparr>)"

text \<open>\<open>{ ...existing, ...session, lastUpdatedAt: session.lastUpdatedAt }\<close>.\<close>

definition merge_session :: "gateway_session option \<Rightarrow> gateway_session \<Rightarrow> gateway_session" where
  "merge_session existing session =
     (case existing of
        Some e \<Rightarrow> (session_spread e session)\<lparr>lastUpdatedAt := lastUpdatedAt session\<rparr>
      | None \<Rightarrow> session)"

definition upsertSession :: "gateway_session \<Rightarrow> store \<Rightarrow> store" where
  "upsertSession session s = saveSession (merge_session (getSession s (s_id session)) session) s"

definition upsertSessions :: "gateway_session list \<Rightarrow> store \<Rightarrow> gateway_session list \<times> store" where
  "upsertSessions xs s =
     (let s1 = persistSessions (s\<lparr>sessions :=
            fold (\<lambda>x m. AList.update (s_id x) (merge_session (map_of m (s_id x)) x) m) xs (sessions s)\<rparr>)
      in (listSessions s1, s1))"

definition updateSession ::
  "string \<Rightarrow> (gateway_session \<Rightarrow> gateway_session) \<Rightarrow> store \<Rightarrow> gateway_session option \<times> store" where
  "updateSession sid updater s =
     (case getSession s sid of
        None \<Rightarrow> (None, s)
      | Some existing \<Rightarrow> (let u = updater existing in (Some u, saveSession u s)))"

definition getSubagentParent :: "store \<Rightarrow> string \<Rightarrow> string option" where
  "getSubagentParent s childId = map_of (subagentRelations s) childId"

text \<open>\<open>Array.from(new Set(xs))\<close>: the first occurrence of every element.\<close>

definition unique :: "'a list \<Rightarrow> 'a list" where
  "unique xs = fold set_add xs []"

definition linkSubagent :: "string \<Rightarrow> string \<Rightarrow> store \<Rightarrow> store" where
  "linkSubagent parentId childId s =
     (if parentId = [] \<or> childId = [] \<or> parentId = childId then s
      else
        let s1 = persistRelations (s\<lparr>subagentRelations := AList.update childId parentId (subagentRelations s)\<rparr>);
            s2 = (if map_has (sessions s1) parentId
                  then snd (updateSession parentId (\<lambda>x. x\<lparr>childSessionIds :=
                         Val (unique ((case prop_get (childSessionIds x) of Some ids \<Rightarrow> ids | None \<Rightarrow> []) @ [childId]))\<rparr>) s1)
                  else s1)
        in if map_has (sessions s2) childId
           then snd (updateSession childId (\<lambda>x. x\<lparr>parentSessionId := Val parentId\<rparr>) s2)
           else s2)"

section \<open>Event logs\<close>

text \<open>
  \<open>readEventsFromDisk\<close> renumbers: an entry keeps its sequence number when it is larger than the
  one before, and gets the successor otherwise. A \<open>null\<close> line makes the filter throw, and the
  outer handler returns the empty timeline.
\<close>

fun renumber :: "js_number \<Rightarrow> gateway_message list \<Rightarrow> gateway_message list" where
  "renumber fallbackSeq [] = []"
| "renumber fallbackSeq (m # ms) =
     (let eventSeq = (case m_eventSeq m of
            Some n \<Rightarrow> if n > fallbackSeq then n else fallbackSeq + 1
          | None \<Rightarrow> fallbackSeq + 1)
      in m\<lparr>m_eventSeq := Some eventSeq\<rparr> # renumber eventSeq ms)"

fun line_entry :: "string \<Rightarrow> log_line \<Rightarrow> gateway_message list" where
  "line_entry sid (EntryLine m) = (if m_sessionId m = Some sid then [m] else [])"
| "line_entry sid _ = []"

definition read_lines :: "string \<Rightarrow> log_line list \<Rightarrow> gateway_message list" where
  "read_lines sid ls =
     (if NullLine \<in> set ls then [] else renumber 0 (concat (map (line_entry sid) ls)))"

definition disk_lines :: "store \<Rightarrow> string \<Rightarrow> log_line list" where
  "disk_lines s sid = (case map_of (eventFiles (disk s)) (event_file sid) of Some ls \<Rightarrow> ls | None \<Rightarrow> [])"

definition readEventsFromDisk :: "store \<Rightarrow> string \<Rightarrow> gateway_message list" where
  "readEventsFromDisk s sid = read_lines sid (disk_lines s sid)"

definition hasEvents :: "store \<Rightarrow> string \<Rightarrow> bool" where
  "hasEvents s sid = map_has (eventFiles (disk s)) (event_file sid)"

definition getCachedEvents :: "string \<Rightarrow> store \<Rightarrow> cached_events option \<times> store" where
  "getCachedEvents sid s =
     (case map_of (eventCache s) sid of
        None \<Rightarrow> (None, s)
      | Some c \<Rightarrow> (Some c, s\<lparr>eventCache := AList.update sid c (AList.delete sid (eventCache s))\<rparr>))"

definition bounded_entry :: "gateway_message list \<Rightarrow> bool \<Rightarrow> cached_events" where
  "bounded_entry entries isComplete =
     (let boundedEntries = (if length entries > EVENT_CACHE_MAX_ENTRIES
                            then slice_last EVENT_CACHE_MAX_ENTRIES entries else entries)
      in \<lparr>c_entries = boundedEntries, c_complete = (isComplete \<and> length boundedEntries = length entries)\<rparr>)"

definition cacheEvents :: "string \<Rightarrow> gateway_message list \<Rightarrow> bool \<Rightarrow> store \<Rightarrow> store" where
  "cacheEvents sid entries isComplete s = s\<lparr>eventCache :=
     evict_oldest EVENT_CACHE_MAX_SESSIONS
       (AList.update sid (bounded_entry entries isComplete) (AList.delete sid (eventCache s)))\<rparr>"

definition mergeEvents :: "gateway_message list \<Rightarrow> gateway_message list \<Rightarrow> gateway_message list" where
  "mergeEvents diskEntries cachedEntries =
     (if cachedEntries = [] then diskEntries
      else
        let add = (\<lambda>e m. case m_eventSeq e of Some n \<Rightarrow> AList.update n e m | None \<Rightarrow> m);
            bySequence = fold add cachedEntries (fold add diskEntries [])
        in sort_key (\<lambda>e. case m_eventSeq e of Some n \<Rightarrow> n | None \<Rightarrow> 0) (map snd bySequence))"

text \<open>\<open>entries.at(-1)?.message.eventSeq\<close>.\<close>

definition last_seq :: "gateway_message list \<Rightarrow> js_number option" where
  "last_seq es = (case at_last es of Some e \<Rightarrow> m_eventSeq e | None \<Rightarrow> None)"

definition listEvents :: "string \<Rightarrow> store \<Rightarrow> gateway_message list \<times> store" where
  "listEvents sid s =
     (let (cached, s1) = getCachedEvents sid s;
          entries = (case cached of
              Some c \<Rightarrow> if c_complete c then c_entries c
                        else mergeEvents (readEventsFromDisk s1 sid) (c_entries c)
            | None \<Rightarrow> mergeEvents (readEventsFromDisk s1 sid) []);
          s2 = cacheEvents sid entries (case cached of Some c \<Rightarrow> c_complete c | None \<Rightarrow> True) s1
      in (entries,
          case last_seq entries of
            Some n \<Rightarrow> if n \<noteq> 0 then s2\<lparr>latestSeqBySession := AList.update sid n (latestSeqBySession s2)\<rparr> else s2
          | None \<Rightarrow> s2))"

text \<open>\<open>this.latestSeqBySession.get(sid) ?? this.listEvents(sid).at(-1)?.message.eventSeq\<close>.\<close>

definition latest_seq :: "string \<Rightarrow> store \<Rightarrow> js_number option \<times> store" where
  "latest_seq sid s =
     (case map_of (latestSeqBySession s) sid of
        Some n \<Rightarrow> (Some n, s)
      | None \<Rightarrow> (let (es, s1) = listEvents sid s in (last_seq es, s1)))"

definition nextEventSeq :: "string \<Rightarrow> store \<Rightarrow> js_number \<times> store" where
  "nextEventSeq sid s =
     (let (current, s1) = latest_seq sid s in ((case current of Some n \<Rightarrow> n | None \<Rightarrow> 0) + 1, s1))"

definition queueEventWrite :: "string \<Rightarrow> gateway_message \<Rightarrow> store \<Rightarrow> store" where
  "queueEventWrite file m s = s\<lparr>eventWriteChains :=
     AList.update file
       ((case map_of (eventWriteChains s) file of Some q \<Rightarrow> q | None \<Rightarrow> []) @ [(m, False)])
       (eventWriteChains s)\<rparr>"

definition choose_seq :: "js_number \<Rightarrow> js_number option \<Rightarrow> js_number" where
  "choose_seq currentSeq supplied =
     (case supplied of
        Some n \<Rightarrow> if is_safe_integer n \<and> n > currentSeq then n else currentSeq + 1
      | None \<Rightarrow> currentSeq + 1)"

definition appendEvent :: "gateway_message \<Rightarrow> store \<Rightarrow> gateway_message option \<times> store" where
  "appendEvent message s =
     (case m_sessionId message of
        None \<Rightarrow> (None, s)
      | Some sid \<Rightarrow>
          if sid = [] \<or> sid \<in> set (deletedSessions s) then (None, s)
          else
            let (current, s1) = latest_seq sid s;
                eventSeq = choose_seq (case current of Some n \<Rightarrow> n | None \<Rightarrow> 0) (m_eventSeq message);
                persistedMessage = message\<lparr>m_eventSeq := Some eventSeq\<rparr>;
                (cached, s2) = getCachedEvents sid s1;
                entries = (case cached of
                    Some c \<Rightarrow> c_entries c @ [persistedMessage]
                  | None \<Rightarrow> readEventsFromDisk s2 sid @ [persistedMessage]);
                s3 = cacheEvents sid entries (case cached of Some c \<Rightarrow> c_complete c | None \<Rightarrow> True) s2;
                s4 = queueEventWrite (event_file sid) persistedMessage s3
            in (Some persistedMessage,
                s4\<lparr>latestSeqBySession := AList.update sid eventSeq (latestSeqBySession s4)\<rparr>))"

definition listEventsAfter :: "string \<Rightarrow> js_number \<Rightarrow> store \<Rightarrow> gateway_message list \<times> store" where
  "listEventsAfter sid cursor s =
     (let (es, s1) = listEvents sid s
      in (filter (\<lambda>e. (case m_eventSeq e of Some n \<Rightarrow> n | None \<Rightarrow> 0) > cursor) es, s1))"

record event_page =
  pg_entries :: "gateway_message list"
  pg_nextCursor :: js_number
  pg_truncated :: bool

definition safe_limit :: "js_number \<Rightarrow> nat" where
  "safe_limit limit =
     (let n = \<lfloor>limit\<rfloor> in nat (max 1 (min 5000 (if n = 0 then 1 else n))))"

definition listEventsAfterLimited :: "string \<Rightarrow> js_number \<Rightarrow> js_number \<Rightarrow> store \<Rightarrow> event_page \<times> store" where
  "listEventsAfterLimited sid cursor limit s =
     (let safeLimit = safe_limit limit;
          (es, s1) = listEventsAfter sid cursor s;
          truncated = length es > safeLimit;
          page = (if truncated then take safeLimit es else es)
      in (\<lparr>pg_entries = page,
           pg_nextCursor = (case last_seq page of Some n \<Rightarrow> n | None \<Rightarrow> cursor),
           pg_truncated = truncated\<rparr>, s1))"

definition latestCursors :: "store \<Rightarrow> (string, js_number) js_map \<times> store" where
  "latestCursors s =
     fold (\<lambda>session (cursors, st).
             let (latest, st') = latest_seq (s_id session) st
             in (case latest of
                   Some n \<Rightarrow> if n \<noteq> 0 then AList.update (s_id session) n cursors else cursors
                 | None \<Rightarrow> cursors, st'))
          (map snd (sessions s)) ([], s)"

section \<open>The write chains\<close>

definition append_line :: "string \<Rightarrow> gateway_message \<Rightarrow> disk \<Rightarrow> disk" where
  "append_line file m d = d\<lparr>eventFiles :=
     AList.update file ((case map_of (eventFiles d) file of Some ls \<Rightarrow> ls | None \<Rightarrow> []) @ [EntryLine m])
       (eventFiles d)\<rparr>"

text \<open>The completion of a write: the line is in the file, or the error is recorded.\<close>

definition finish_write :: "string \<Rightarrow> string \<Rightarrow> gateway_message \<Rightarrow> store \<Rightarrow> store" where
  "finish_write err file m s =
     (if disk_writable (disk s) then s\<lparr>disk := append_line file m (disk s)\<rparr>
      else s\<lparr>eventWriteErrors := AList.update file err (eventWriteErrors s)\<rparr>)"

definition remove_file :: "string \<Rightarrow> store \<Rightarrow> store" where
  "remove_file file s = s\<lparr>
     disk := (disk s)\<lparr>eventFiles := AList.delete file (eventFiles (disk s))\<rparr>,
     eventWriteChains := AList.delete file (eventWriteChains s)\<rparr>"

definition write_step :: "string \<Rightarrow> string \<Rightarrow> store \<Rightarrow> store" where
  "write_step err file s =
     (case map_of (eventWriteChains s) file of
        None \<Rightarrow> s
      | Some [] \<Rightarrow> s
      | Some ((m, removes) # rest) \<Rightarrow>
          let s1 = finish_write err file m s
          in if removes
             then (remove_file file s1)\<lparr>detachedWrites :=
                    (if rest = [] then detachedWrites s1 else detachedWrites s1 @ [(file, rest)])\<rparr>
             else if rest = [] then s1\<lparr>eventWriteChains := AList.delete file (eventWriteChains s1)\<rparr>
             else s1\<lparr>eventWriteChains := AList.update file rest (eventWriteChains s1)\<rparr>)"

text \<open>A detached chain makes progress in the same way, but is in no map.\<close>

definition detached_step :: "string \<Rightarrow> nat \<Rightarrow> store \<Rightarrow> store" where
  "detached_step err i s =
     (if i < length (detachedWrites s) then
        (case detachedWrites s ! i of
           (file, []) \<Rightarrow> s
         | (file, (m, removes) # rest) \<Rightarrow>
             let s1 = (finish_write err file m s)\<lparr>detachedWrites := (detachedWrites s)[i := (file, rest)]\<rparr>
             in if removes then remove_file file s1 else s1)
      else s)"

text \<open>
  The completion of the writes of a chain that \<open>flush\<close> waits for. The chain it holds is awaited to
  its end, also when \<open>removeFile\<close> takes it out of the map in between: what is left of it is then the
  youngest detached chain.
\<close>

fun drain_chain :: "nat \<Rightarrow> string \<Rightarrow> string \<Rightarrow> store \<Rightarrow> store" where
  "drain_chain 0 err file s = s"
| "drain_chain (Suc n) err file s = drain_chain n err file
     (if map_has (eventWriteChains s) file then write_step err file s
      else detached_step err (length (detachedWrites s) - 1) s)"

text \<open>\<open>flush\<close>: the pending snapshot, then every write of a chain that is in the map at that moment.\<close>

definition flush_snapshot :: "store \<Rightarrow> store" where
  "flush_snapshot s =
     (let s1 = s\<lparr>sessionPersistTimer := False\<rparr>
      in if sessionPersistDirty s1 then persistSessionsNow (s1\<lparr>sessionPersistDirty := False\<rparr>) else s1)"

definition flush :: "string \<Rightarrow> store \<Rightarrow> store" where
  "flush err s =
     (let s1 = flush_snapshot s
      in fold (\<lambda>(file, q). drain_chain (length q) err file) (eventWriteChains s1) s1)"

definition getEventWriteErrors :: "store \<Rightarrow> (string \<times> string) list" where
  "getEventWriteErrors s = eventWriteErrors s"

definition takeEventWriteErrors :: "store \<Rightarrow> (string \<times> string) list \<times> store" where
  "takeEventWriteErrors s = (getEventWriteErrors s, s\<lparr>eventWriteErrors := []\<rparr>)"

section \<open>Deletion\<close>

definition mark_last :: "write_chain \<Rightarrow> write_chain" where
  "mark_last q = (if q = [] then q else butlast q @ [(fst (last q), True)])"

definition reservation_key :: "string \<Rightarrow> string \<Rightarrow> string" where
  "reservation_key sid rid = sid @ [CHR 0x00] @ rid"

definition deleteSession :: "string \<Rightarrow> store \<Rightarrow> bool \<times> store" where
  "deleteSession sid s =
     (let deleted = map_has (sessions s) sid;
          s1 = s\<lparr>deletedSessions := set_add sid (deletedSessions s),
                 sessions := AList.delete sid (sessions s)\<rparr>;
          s2 = (if deleted then persistSessions s1 else s1);
          parentId = map_of (subagentRelations s2) sid;
          s3 = s2\<lparr>subagentRelations :=
                 filter (\<lambda>(c, p). p \<noteq> sid) (AList.delete sid (subagentRelations s2))\<rparr>;
          s4 = (case parentId of
                  Some p \<Rightarrow>
                    if p \<noteq> [] \<and> map_has (sessions s3) p
                    then snd (updateSession p (\<lambda>x. x\<lparr>childSessionIds :=
                           Val (filter (\<lambda>c. c \<noteq> sid)
                                 (case prop_get (childSessionIds x) of Some ids \<Rightarrow> ids | None \<Rightarrow> []))\<rparr>) s3)
                    else s3
                | None \<Rightarrow> s3);
          s5 = persistRelations s4;
          kept = filter (\<lambda>(r, record). cr_sessionId record \<noteq> sid) (createRequests s5);
          s6 = (if length kept \<noteq> length (createRequests s5)
                then persistCreateRequests (s5\<lparr>createRequests := kept\<rparr>) else s5);
          file = event_file sid;
          s7 = (case map_of (eventWriteChains s6) file of
                  Some q \<Rightarrow> s6\<lparr>eventWriteChains := AList.update file (mark_last q) (eventWriteChains s6)\<rparr>
                | None \<Rightarrow> remove_file file s6)
      in (deleted, s7\<lparr>
            latestSeqBySession := AList.delete sid (latestSeqBySession s7),
            eventCache := AList.delete sid (eventCache s7),
            clientRequestReservations :=
              filter (\<lambda>(k, t). \<not> starts_with k (sid @ [CHR 0x00])) (clientRequestReservations s7)\<rparr>))"

section \<open>Idempotency\<close>

definition pruneReservations :: "int \<Rightarrow> (string, int) js_map \<Rightarrow> (string, int) js_map" where
  "pruneReservations now_ms reservations =
     (let cutoff = now_ms - REQUEST_RESERVATION_TTL_MS
      in evict_oldest REQUEST_RESERVATION_MAX (filter (\<lambda>(k, t). \<not> t \<le> cutoff) reservations))"

definition hasClientRequest :: "store \<Rightarrow> string \<Rightarrow> string \<Rightarrow> bool" where
  "hasClientRequest s sid rid =
     (if rid = [] then False
      else case getSession s sid of
          None \<Rightarrow> False
        | Some session \<Rightarrow>
            (case prop_get (recentClientRequestIds session) of Some ids \<Rightarrow> rid \<in> set ids | None \<Rightarrow> False)
            \<or> prop_get (lastClientRequestId session) = Some rid)"

definition reserveClientRequest :: "int \<Rightarrow> string \<Rightarrow> string \<Rightarrow> store \<Rightarrow> bool \<times> store" where
  "reserveClientRequest now_ms sid rid s =
     (if sid = [] \<or> rid = [] then (True, s)
      else if hasClientRequest s sid rid then (False, s)
      else
        let s1 = s\<lparr>clientRequestReservations := pruneReservations now_ms (clientRequestReservations s)\<rparr>;
            key = reservation_key sid rid
        in if map_has (clientRequestReservations s1) key then (False, s1)
           else (True, s1\<lparr>clientRequestReservations := AList.update key now_ms (clientRequestReservations s1)\<rparr>))"

definition releaseClientRequest :: "string \<Rightarrow> string \<Rightarrow> store \<Rightarrow> store" where
  "releaseClientRequest sid rid s =
     (if sid = [] \<or> rid = [] then s
      else s\<lparr>clientRequestReservations := AList.delete (reservation_key sid rid) (clientRequestReservations s)\<rparr>)"

definition rememberClientRequest :: "string \<Rightarrow> string \<Rightarrow> store \<Rightarrow> store" where
  "rememberClientRequest sid rid s =
     (if rid = [] then s
      else
        let s1 = releaseClientRequest sid rid s
        in case getSession s1 sid of
             None \<Rightarrow> s1
           | Some session \<Rightarrow>
               let ids = slice_last 128 (unique (filter (\<lambda>v. v \<noteq> [])
                     ((case prop_get (recentClientRequestIds session) of Some ids \<Rightarrow> ids | None \<Rightarrow> []) @ [rid])))
               in saveSession (session\<lparr>recentClientRequestIds := Val ids, lastClientRequestId := Val rid\<rparr>) s1)"

definition getCreateRequestSession :: "string \<Rightarrow> store \<Rightarrow> string option \<times> store" where
  "getCreateRequestSession rid s =
     (if rid = [] then (None, s)
      else case map_of (createRequests s) rid of
          None \<Rightarrow> (None, s)
        | Some record \<Rightarrow>
            if map_has (sessions s) (cr_sessionId record) then (Some (cr_sessionId record), s)
            else (None, persistCreateRequests (s\<lparr>createRequests := AList.delete rid (createRequests s)\<rparr>)))"

datatype create_reservation = Reserved | AlreadyCreated string | ReservationPending

definition reserve_new_create :: "int \<Rightarrow> string \<Rightarrow> store \<Rightarrow> create_reservation \<times> store" where
  "reserve_new_create now_ms rid s =
     (let s1 = s\<lparr>createRequestReservations := pruneReservations now_ms (createRequestReservations s)\<rparr>
      in if map_has (createRequestReservations s1) rid then (ReservationPending, s1)
         else (Reserved, s1\<lparr>createRequestReservations := AList.update rid now_ms (createRequestReservations s1)\<rparr>))"

definition reserveCreateRequest :: "int \<Rightarrow> string \<Rightarrow> store \<Rightarrow> create_reservation \<times> store" where
  "reserveCreateRequest now_ms rid s =
     (if rid = [] then (Reserved, s)
      else
        let (existing, s1) = getCreateRequestSession rid s
        in case existing of
             Some sid \<Rightarrow> if sid \<noteq> [] then (AlreadyCreated sid, s1) else reserve_new_create now_ms rid s1
           | None \<Rightarrow> reserve_new_create now_ms rid s1)"

definition releaseCreateRequest :: "string \<Rightarrow> store \<Rightarrow> store" where
  "releaseCreateRequest rid s =
     (if rid = [] then s
      else s\<lparr>createRequestReservations := AList.delete rid (createRequestReservations s)\<rparr>)"

definition rememberCreateRequest :: "int \<Rightarrow> string \<Rightarrow> string \<Rightarrow> store \<Rightarrow> store" where
  "rememberCreateRequest now_ms rid sid s =
     (if rid = [] \<or> sid = [] then s
      else
        let reqs = AList.update rid \<lparr>cr_sessionId = sid, cr_createdAt = now_ms\<rparr> (createRequests s);
            kept = fold (\<lambda>(r, v) m. AList.update r v m) (slice_last 512 reqs) []
        in persistCreateRequests (s\<lparr>
             createRequestReservations := AList.delete rid (createRequestReservations s),
             createRequests := kept\<rparr>))"

end
