(* ===== verification/StoreLog.thy ===== *)
theory StoreLog
  imports Store
begin

text \<open>
  The event logs of the store as an abstract append-only log.

  \<open>timeline\<close> is what a session's log holds once every queued write has reached the file. The
  cache, the sequence table, the write chains and the files together implement it: under the
  invariant \<open>event_inv\<close>, \<open>listEvents\<close> returns the timeline and \<open>appendEvent\<close> extends it, whatever
  part of it is on disk, queued or cached.
\<close>

section \<open>Ascending timelines\<close>

definition seq_of :: "gateway_message \<Rightarrow> js_number" where
  "seq_of m = (case m_eventSeq m of Some n \<Rightarrow> n | None \<Rightarrow> 0)"

text \<open>Every entry is numbered, above \<open>n\<close> and above its predecessors.\<close>

fun ascends :: "js_number \<Rightarrow> gateway_message list \<Rightarrow> bool" where
  "ascends n [] = True"
| "ascends n (m # ms) = (m_eventSeq m = Some (seq_of m) \<and> n < seq_of m \<and> ascends (seq_of m) ms)"

fun end_seq :: "js_number \<Rightarrow> gateway_message list \<Rightarrow> js_number" where
  "end_seq n [] = n"
| "end_seq n (m # ms) = end_seq (seq_of m) ms"

lemma end_seq_append [simp]: "end_seq n (a @ b) = end_seq (end_seq n a) b"
  by (induction a arbitrary: n) auto

lemma ascends_append [simp]: "ascends n (a @ b) \<longleftrightarrow> ascends n a \<and> ascends (end_seq n a) b"
  by (induction a arbitrary: n) auto

lemma ascends_mono: "ascends n ms \<Longrightarrow> k \<le> n \<Longrightarrow> ascends k ms"
  by (cases ms) auto

lemma ascends_end: "ascends n ms \<Longrightarrow> n \<le> end_seq n ms"
  by (induction ms arbitrary: n) force+

lemma ascends_renumber: "ascends n (renumber n ms)"
  by (induction n ms rule: renumber.induct) (auto simp: Let_def seq_of_def split: option.splits)

lemma renumber_id: "ascends n ms \<Longrightarrow> renumber n ms = ms"
  by (induction ms arbitrary: n) (auto simp: Let_def)

lemma renumber_append: "renumber n (a @ b) = renumber n a @ renumber (end_seq n (renumber n a)) b"
  by (induction a arbitrary: n) (auto simp: Let_def seq_of_def)

lemma ascends_seqs:
  "ascends n ms \<longleftrightarrow>
     sorted_wrt (<) (map seq_of ms) \<and> (\<forall>m\<in>set ms. m_eventSeq m = Some (seq_of m) \<and> n < seq_of m)"
proof (induction ms arbitrary: n)
  case Nil
  then show ?case by simp
next
  case (Cons m ms)
  then show ?case by (auto intro: less_trans)
qed

lemma last_seq_end: "ascends n ms \<Longrightarrow> last_seq ms = (if ms = [] then None else Some (end_seq n ms))"
  by (induction ms arbitrary: n rule: rev_induct) (auto simp: last_seq_def)

lemma end_seq_pos: "ascends n ms \<Longrightarrow> ms \<noteq> [] \<Longrightarrow> n < end_seq n ms"
  by (cases ms) (auto dest: ascends_end)

lemma ascends_le_end: "ascends n ms \<Longrightarrow> m \<in> set ms \<Longrightarrow> seq_of m \<le> end_seq n ms"
  by (induction ms arbitrary: n) (auto dest: ascends_end)

lemma choose_seq_greater: "n < choose_seq n k"
  by (simp add: choose_seq_def split: option.splits)

section \<open>Merging the file with the cached tail\<close>

definition add_seq :: "gateway_message \<Rightarrow> (js_number, gateway_message) js_map \<Rightarrow> (js_number, gateway_message) js_map" where
  "add_seq e m = (case m_eventSeq e of Some n \<Rightarrow> AList.update n e m | None \<Rightarrow> m)"

lemma update_same: "map_of m k = Some v \<Longrightarrow> AList.update k v m = m"
  by (induction m) auto

lemma fold_add_known:
  "(\<forall>e\<in>set es. m_eventSeq e = Some (seq_of e) \<and> map_of M (seq_of e) = Some e) \<Longrightarrow> fold add_seq es M = M"
  by (induction es) (auto simp: add_seq_def update_same)

lemma fold_add_fresh:
  assumes "ascends n es" and "\<forall>k\<in>fst ` set M. k \<le> n"
  shows "fold add_seq es M = M @ map (\<lambda>e. (seq_of e, e)) es"
  using assms
proof (induction es arbitrary: n M)
  case Nil
  then show ?case by simp
next
  case (Cons e es)
  have "add_seq e M = M @ [(seq_of e, e)]"
    using Cons.prems by (simp add: add_seq_def) (rule update_fresh, force)
  moreover have "fold add_seq es (M @ [(seq_of e, e)]) = (M @ [(seq_of e, e)]) @ map (\<lambda>e. (seq_of e, e)) es"
    using Cons.prems by (intro Cons.IH [of "seq_of e"]) force+
  ultimately show ?case by simp
qed

lemma ascends_map_of:
  assumes "ascends n es" "e \<in> set es"
  shows "map_of (map (\<lambda>e. (seq_of e, e)) es) (seq_of e) = Some e"
proof (rule map_of_is_SomeI)
  have "distinct (map seq_of es)"
    using assms(1) by (simp add: ascends_seqs strict_sorted_iff)
  then show "distinct (map fst (map (\<lambda>e. (seq_of e, e)) es))" by (simp add: comp_def)
  show "(seq_of e, e) \<in> set (map (\<lambda>e. (seq_of e, e)) es)" using assms(2) by simp
qed

lemma mergeEvents_timeline:
  assumes asc: "ascends 0 T" and D: "T = D @ P" and C: "T = pre @ C" and len: "length pre \<le> length D"
  shows "mergeEvents D C = T"
proof (cases "C = []")
  case True
  then have "length (D @ P) \<le> length D" using C D len by simp
  then have "P = []" by simp
  with D True show ?thesis by (simp add: mergeEvents_def)
next
  case False
  have C': "C = drop (length pre) D @ P"
    using C D len by (metis append_eq_conv_conj drop_append drop_0 diff_is_0_eq')
  have ascD: "ascends 0 D" and ascP: "ascends (end_seq 0 D) P" using asc D by auto
  let ?kv = "map (\<lambda>e. (seq_of e, e))"
  have 1: "fold add_seq D [] = ?kv D"
    using fold_add_fresh [OF ascD, of "[]"] by simp
  have "\<forall>e\<in>set (drop (length pre) D). m_eventSeq e = Some (seq_of e) \<and> map_of (?kv D) (seq_of e) = Some e"
    using ascD by (auto simp: ascends_map_of dest!: in_set_dropD) (simp add: ascends_seqs)
  then have 2: "fold add_seq (drop (length pre) D) (?kv D) = ?kv D"
    by (rule fold_add_known)
  have "\<forall>k\<in>fst ` set (?kv D). k \<le> end_seq 0 D"
    using ascends_le_end [OF ascD] by auto
  then have 3: "fold add_seq P (?kv D) = ?kv D @ ?kv P"
    by (rule fold_add_fresh [OF ascP])
  have "fold add_seq C (fold add_seq D []) = ?kv T"
    by (simp add: 1 2 3 C' D)
  moreover have "sorted (map seq_of T)"
    using asc by (simp add: ascends_seqs strict_sorted_iff)
  ultimately show ?thesis
    using False unfolding mergeEvents_def add_seq_def seq_of_def [abs_def]
    by (simp add: comp_def sorted_sort_id sort_key_id_if_sorted)
qed

section \<open>File names\<close>

lemma hex_digit_inj: "hex_digit i = hex_digit j \<Longrightarrow> i < 16 \<Longrightarrow> j < 16 \<Longrightarrow> i = j"
  using nth_eq_iff_index_eq [of "''0123456789ABCDEF''" i j] by (simp add: hex_digit_def)

lemma percent_byte_inj:
  assumes "percent_byte a @ x = percent_byte b @ y" "a < 256" "b < 256"
  shows "a = b \<and> x = y"
proof -
  have "a div 16 = b div 16" "a mod 16 = b mod 16"
    using assms by (auto simp: percent_byte_def intro!: hex_digit_inj)
  then have "a = b" by (metis div_mult_mod_eq)
  then show ?thesis using assms(1) by (simp add: percent_byte_def)
qed

lemma of_char_less_256: "(of_char c :: nat) < 256"
  using nat_of_char_less_256 [of c] by simp

lemma of_char_div_64: "(of_char c :: nat) div 64 < 64"
proof -
  have "(of_char c :: nat) div 64 \<le> 255 div 64"
    by (rule div_le_mono) (use of_char_less_256 [of c] in linarith)
  then show ?thesis by simp
qed

lemma encode_char_cases:
  obtains (plain) "encode_char c = [c]" "c \<noteq> CHR ''%''"
  | (low) "encode_char c = percent_byte (of_char c)" "(of_char c :: nat) < 128"
  | (high) "encode_char c = percent_byte (192 + of_char c div 64) @ percent_byte (128 + of_char c mod 64)"
           "(of_char c :: nat) div 64 < 64"
proof (cases "is_unreserved c")
  case True
  then have "c \<noteq> CHR ''%''" by (auto simp: is_unreserved_def)
  then show thesis using True plain by (simp add: encode_char_def)
next
  case False
  then show thesis
    using low high of_char_div_64 [of c] by (cases "(of_char c :: nat) < 128") (simp_all add: encode_char_def Let_def)
qed

lemma encode_char_inj_high:
  assumes "percent_byte (192 + n div 64) @ percent_byte (128 + n mod 64) @ x =
           percent_byte (192 + m div 64) @ percent_byte (128 + m mod 64) @ y"
    and "n div 64 < 64" "m div 64 < 64"
  shows "n = m \<and> x = y"
proof -
  from percent_byte_inj [OF assms(1)] assms(2,3) have d: "n div 64 = m div 64"
    and rest: "percent_byte (128 + n mod 64) @ x = percent_byte (128 + m mod 64) @ y" by auto
  from percent_byte_inj [OF rest] have "n mod 64 = m mod 64" "x = y" by auto
  with d show ?thesis by (metis div_mult_mod_eq)
qed

lemma encode_char_inj:
  assumes eq: "encode_char c @ x = encode_char d @ y"
  shows "c = d \<and> x = y"
proof (cases c rule: encode_char_cases)
  case c: plain
  show ?thesis
  proof (cases d rule: encode_char_cases)
    case plain
    then show ?thesis using eq c by simp
  next
    case low
    then show ?thesis using eq c by (simp add: percent_byte_def)
  next
    case high
    then show ?thesis using eq c by (simp add: percent_byte_def)
  qed
next
  case c: low
  show ?thesis
  proof (cases d rule: encode_char_cases)
    case plain
    then show ?thesis using eq c by (simp add: percent_byte_def)
  next
    case low
    then show ?thesis using eq c percent_byte_inj [of "of_char c" x "of_char d" y] by simp
  next
    case high
    then show ?thesis
      using eq c percent_byte_inj [of "of_char c" x "192 + of_char d div 64"] by simp
  qed
next
  case c: high
  show ?thesis
  proof (cases d rule: encode_char_cases)
    case plain
    then show ?thesis using eq c by (simp add: percent_byte_def)
  next
    case low
    then show ?thesis
      using eq c percent_byte_inj [of "192 + of_char c div 64" "percent_byte (128 + of_char c mod 64) @ x" "of_char d" y]
      by simp
  next
    case high
    then show ?thesis
      using eq c encode_char_inj_high [of "of_char c" x "of_char d" y] by simp
  qed
qed

lemma safeFileName_inj: "safeFileName a = safeFileName b \<Longrightarrow> a = b"
proof (induction a arbitrary: b)
  case Nil
  then show ?case
    by (cases b) (auto simp: safeFileName_def encode_char_def percent_byte_def Let_def split: if_splits)
next
  case (Cons c a)
  show ?case
  proof (cases b)
    case Nil
    with Cons.prems show ?thesis
      by (auto simp: safeFileName_def encode_char_def percent_byte_def Let_def split: if_splits)
  next
    case (Cons d b')
    with Cons.prems encode_char_inj [of c "safeFileName a" d "safeFileName b'"]
    have "c = d" "safeFileName a = safeFileName b'" by (simp_all add: safeFileName_def)
    with Cons.IH Cons show ?thesis by simp
  qed
qed

lemma event_file_inj [simp]: "event_file a = event_file b \<longleftrightarrow> a = b"
  by (auto simp: event_file_def dest: safeFileName_inj)

lemma encode_char_no_slash: "CHR ''/'' \<notin> set (encode_char c)"
proof -
  have hex: "hex_digit i \<noteq> CHR ''/''" if "i < 16" for i
  proof -
    have "hex_digit i \<in> set ''0123456789ABCDEF''"
      unfolding hex_digit_def by (rule nth_mem) (use that in simp)
    then show ?thesis by auto
  qed
  have "CHR ''/'' \<notin> set (percent_byte b)" if "b < 256" for b
    using hex [of "b div 16"] hex [of "b mod 16"] that
    by (auto simp: percent_byte_def less_mult_imp_div_less)
  moreover have "\<not> is_unreserved (CHR ''/'')" by (simp add: is_unreserved_def)
  ultimately show ?thesis
    using of_char_less_256 [of c] of_char_div_64 [of c] by (auto simp: encode_char_def Let_def)
qed

lemma safeFileName_no_slash: "CHR ''/'' \<notin> set (safeFileName sid)"
  by (auto simp: safeFileName_def encode_char_no_slash)

section \<open>The timeline and the invariant\<close>

definition chain :: "store \<Rightarrow> string \<Rightarrow> write_chain" where
  "chain s sid = (case map_of (eventWriteChains s) (event_file sid) of Some q \<Rightarrow> q | None \<Rightarrow> [])"

definition pending :: "store \<Rightarrow> string \<Rightarrow> gateway_message list" where
  "pending s sid = map fst (chain s sid)"

definition timeline :: "store \<Rightarrow> string \<Rightarrow> gateway_message list" where
  "timeline s sid = read_lines sid (disk_lines s sid @ map EntryLine (pending s sid))"

text \<open>A cache entry is a tail of the timeline that covers what is not on disk yet.\<close>

definition cache_ok :: "gateway_message list \<Rightarrow> nat \<Rightarrow> cached_events \<Rightarrow> bool" where
  "cache_ok T ndisk c \<longleftrightarrow>
     (\<exists>pre. T = pre @ c_entries c \<and> length pre \<le> ndisk \<and> (c_complete c \<longrightarrow> pre = []))"

definition log_ok :: "store \<Rightarrow> string \<Rightarrow> bool" where
  "log_ok s sid \<longleftrightarrow>
     NullLine \<notin> set (disk_lines s sid)
     \<and> (\<forall>(m, removes)\<in>set (chain s sid). \<not> removes \<and> m_sessionId m = Some sid)
     \<and> event_file sid \<notin> fst ` set (detachedWrites s)
     \<and> ascends (end_seq 0 (readEventsFromDisk s sid)) (pending s sid)
     \<and> (case map_of (eventCache s) sid of
          None \<Rightarrow> pending s sid = []
        | Some c \<Rightarrow> cache_ok (timeline s sid) (length (readEventsFromDisk s sid)) c)
     \<and> (case map_of (latestSeqBySession s) sid of
          None \<Rightarrow> pending s sid = []
        | Some n \<Rightarrow> timeline s sid \<noteq> [] \<and> n = end_seq 0 (timeline s sid))"

text \<open>Sessions are stored under their own id, and none of them is marked as deleted.\<close>

definition keyed :: "string js_set \<Rightarrow> (string, gateway_session) js_map \<Rightarrow> bool" where
  "keyed deleted m \<longleftrightarrow> (\<forall>k x. map_of m k = Some x \<longrightarrow> s_id x = k \<and> k \<notin> set deleted)"

definition sess_inv :: "store \<Rightarrow> bool" where
  "sess_inv s \<longleftrightarrow> keyed (deletedSessions s) (sessions s)"

lemma keyedD: "keyed D m \<Longrightarrow> map_of m k = Some x \<Longrightarrow> s_id x = k \<and> k \<notin> set D"
  unfolding keyed_def by blast

lemma keyed_update: "keyed D m \<Longrightarrow> k \<notin> set D \<Longrightarrow> s_id x = k \<Longrightarrow> keyed D (AList.update k x m)"
  unfolding keyed_def map_of_update by (metis fun_upd_apply option.inject)

lemma keyed_delete: "keyed D m \<Longrightarrow> keyed (set_add k D) (AList.delete k m)"
  unfolding keyed_def map_of_delete set_add_set by (metis fun_upd_apply insertE option.distinct(1))

lemma keyed_mono: "keyed D m \<Longrightarrow> set E \<subseteq> set D \<Longrightarrow> keyed E m"
  unfolding keyed_def by blast

definition event_inv :: "store \<Rightarrow> bool" where
  "event_inv s \<longleftrightarrow>
     map_wf (eventCache s) \<and> length (eventCache s) \<le> EVENT_CACHE_MAX_SESSIONS \<and> sess_inv s
     \<and> (\<forall>sid. sid \<notin> set (deletedSessions s) \<longrightarrow> log_ok s sid)"

lemma read_own_lines:
  "\<forall>m\<in>set ms. m_sessionId m = Some sid \<Longrightarrow> concat (map (line_entry sid) (map EntryLine ms)) = ms"
  by (induction ms) auto

lemma timeline_raw:
  assumes "NullLine \<notin> set (disk_lines s sid)" "\<forall>m\<in>set (pending s sid). m_sessionId m = Some sid"
    and "ascends (end_seq 0 (readEventsFromDisk s sid)) (pending s sid)"
  shows "timeline s sid = readEventsFromDisk s sid @ pending s sid"
proof -
  have "NullLine \<notin> set (disk_lines s sid @ map EntryLine (pending s sid))" using assms(1) by auto
  with assms read_own_lines [OF assms(2)] show ?thesis
    by (simp add: timeline_def readEventsFromDisk_def read_lines_def renumber_append renumber_id)
qed

lemma timeline_split: "log_ok s sid \<Longrightarrow> timeline s sid = readEventsFromDisk s sid @ pending s sid"
  by (rule timeline_raw) (auto simp: log_ok_def pending_def)

lemma timeline_ascends: "log_ok s sid \<Longrightarrow> ascends 0 (timeline s sid)"
  by (simp add: timeline_def read_lines_def ascends_renumber)

section \<open>The cache\<close>

interpretation ec: recency_cache "touch EVENT_CACHE_MAX_SESSIONS" EVENT_CACHE_MAX_SESSIONS
  by (rule recency_cache_touch) (simp add: EVENT_CACHE_MAX_SESSIONS_def)

lemma cacheEvents_touch:
  "cacheEvents sid es c s =
     s\<lparr>eventCache := touch EVENT_CACHE_MAX_SESSIONS sid (bounded_entry es c) (eventCache s)\<rparr>"
  by (simp add: cacheEvents_def touch_def)

lemma delete_update_same: "AList.delete k (AList.update k v m) = AList.delete k m"
  by (induction m) auto

lemma delete_delete_same: "AList.delete k (AList.delete k m) = AList.delete k m"
  by (simp add: delete_idem)

lemma touch_refresh: "touch cap k v (AList.update k w (AList.delete k m)) = touch cap k v m"
  by (simp add: touch_def delete_update_same delete_delete_same)

lemma delete_snoc_fresh: "k \<notin> fst ` set m \<Longrightarrow> AList.delete k (m @ [(k, v)]) = m"
  by (induction m) auto

text \<open>Touching a key twice in a row is touching it once.\<close>

lemma touch_touch:
  assumes "map_wf m" "0 < cap" shows "touch cap k v (touch cap k w m) = touch cap k v m"
proof -
  let ?d = "AList.delete k m"
  have fresh: "k \<notin> fst ` set ?d" by (simp add: delete_notin_dom)
  have wf: "map_wf (?d @ [(k, x)])" for x using fresh assms(1) by (simp add: map_wf_delete)
  have ev: "evict_oldest cap (?d @ [(k, x)]) = drop (Suc (length ?d) - cap) ?d @ [(k, x)]" for x
    using evict_oldest_drop [OF wf, of cap x] assms(2) by simp
  have fresh': "k \<notin> fst ` set (drop n ?d)" for n using fresh by (auto dest: in_set_dropD)
  have "AList.delete k (touch cap k w m) = drop (Suc (length ?d) - cap) ?d"
    by (simp add: touch_eq ev delete_snoc_fresh fresh')
  then show ?thesis
    using assms(2) by (simp add: touch_eq ev evict_oldest_id)
qed

lemma bounded_entry_drop:
  "bounded_entry es c =
     \<lparr>c_entries = drop (length es - EVENT_CACHE_MAX_ENTRIES) es,
      c_complete = (c \<and> length es \<le> EVENT_CACHE_MAX_ENTRIES)\<rparr>"
  by (auto simp: bounded_entry_def slice_last_def EVENT_CACHE_MAX_ENTRIES_def Let_def)

lemma bounded_entry_ok:
  assumes ok: "cache_ok T ndisk \<lparr>c_entries = es, c_complete = c\<rparr>"
    and few: "length T \<le> ndisk + EVENT_CACHE_MAX_ENTRIES"
  shows "cache_ok T ndisk (bounded_entry es c)"
proof -
  from ok obtain pre where T: "T = pre @ es" "length pre \<le> ndisk" "c \<longrightarrow> pre = []"
    by (auto simp: cache_ok_def)
  let ?k = "length es - EVENT_CACHE_MAX_ENTRIES"
  have "T = (pre @ take ?k es) @ drop ?k es" using T by simp
  moreover have "length (pre @ take ?k es) \<le> ndisk" using T few by auto
  moreover have "c \<and> length es \<le> EVENT_CACHE_MAX_ENTRIES \<longrightarrow> pre @ take ?k es = []" using T by simp
  ultimately show ?thesis unfolding cache_ok_def bounded_entry_drop by (metis cached_events.select_convs)
qed

lemma cache_ok_snoc:
  "cache_ok T ndisk c \<Longrightarrow> cache_ok (T @ [m]) ndisk \<lparr>c_entries = c_entries c @ [m], c_complete = c_complete c\<rparr>"
  by (auto simp: cache_ok_def)

lemma cache_ok_full: "cache_ok T ndisk \<lparr>c_entries = T, c_complete = c\<rparr>"
  by (simp add: cache_ok_def)

lemma cache_ok_mono: "cache_ok T n c \<Longrightarrow> n \<le> k \<Longrightarrow> cache_ok T k c"
  by (auto simp: cache_ok_def)

lemma cache_entries_timeline:
  assumes ok: "log_ok s sid" and c: "map_of (eventCache s) sid = Some c"
  shows "(if c_complete c then c_entries c else mergeEvents (readEventsFromDisk s sid) (c_entries c))
         = timeline s sid"
proof -
  from ok c obtain pre where pre: "timeline s sid = pre @ c_entries c"
    "length pre \<le> length (readEventsFromDisk s sid)" "c_complete c \<longrightarrow> pre = []"
    by (auto simp: log_ok_def cache_ok_def)
  show ?thesis
    using pre mergeEvents_timeline [OF timeline_ascends [OF ok] timeline_split [OF ok] pre(1,2)] by auto
qed

section \<open>What the operations return\<close>

definition cached_complete :: "store \<Rightarrow> string \<Rightarrow> bool" where
  "cached_complete s sid = (case map_of (eventCache s) sid of Some c \<Rightarrow> c_complete c | None \<Rightarrow> True)"

definition set_latest :: "string \<Rightarrow> gateway_message list \<Rightarrow> store \<Rightarrow> store" where
  "set_latest sid T s =
     (if T = [] then s
      else s\<lparr>latestSeqBySession := AList.update sid (end_seq 0 T) (latestSeqBySession s)\<rparr>)"

lemma set_latest_cache [simp]: "eventCache (set_latest sid T s) = eventCache s"
  by (simp add: set_latest_def)

lemma readEvents_cache [simp]: "readEventsFromDisk (s\<lparr>eventCache := x\<rparr>) sid = readEventsFromDisk s sid"
  by (simp add: readEventsFromDisk_def disk_lines_def)

lemma listEvents_eq:
  assumes ok: "log_ok s sid"
  shows "listEvents sid s =
    (timeline s sid,
     set_latest sid (timeline s sid)
       (s\<lparr>eventCache := touch EVENT_CACHE_MAX_SESSIONS sid
            (bounded_entry (timeline s sid) (cached_complete s sid)) (eventCache s)\<rparr>))"
proof -
  let ?T = "timeline s sid"
  have latest: "last_seq ?T = (if ?T = [] then None else Some (end_seq 0 ?T))" "?T \<noteq> [] \<Longrightarrow> end_seq 0 ?T \<noteq> 0"
    using timeline_ascends [OF ok] end_seq_pos [of 0 ?T] by (auto simp: last_seq_end)
  show ?thesis
  proof (cases "map_of (eventCache s) sid")
    case None
    with ok have "mergeEvents (readEventsFromDisk s sid) [] = ?T"
      using timeline_split [OF ok] by (simp add: mergeEvents_def log_ok_def)
    with None latest show ?thesis
      by (simp add: listEvents_def getCachedEvents_def cacheEvents_touch set_latest_def cached_complete_def Let_def)
  next
    case (Some c)
    have "c_complete c \<Longrightarrow> c_entries c = ?T"
      "\<not> c_complete c \<Longrightarrow> mergeEvents (readEventsFromDisk s sid) (c_entries c) = ?T"
      using cache_entries_timeline [OF ok Some] by auto
    with Some latest show ?thesis
      by (cases "c_complete c")
        (simp_all add: listEvents_def getCachedEvents_def cacheEvents_touch touch_refresh set_latest_def
          cached_complete_def Let_def)
  qed
qed

definition numbered :: "store \<Rightarrow> string \<Rightarrow> gateway_message \<Rightarrow> gateway_message" where
  "numbered s sid message =
     message\<lparr>m_eventSeq := Some (choose_seq (end_seq 0 (timeline s sid)) (m_eventSeq message))\<rparr>"

definition appended :: "string \<Rightarrow> gateway_message \<Rightarrow> cached_events \<Rightarrow> store \<Rightarrow> store" where
  "appended sid m c s = s\<lparr>
     eventCache := touch EVENT_CACHE_MAX_SESSIONS sid (bounded_entry (c_entries c @ [m]) (c_complete c)) (eventCache s),
     eventWriteChains := AList.update (event_file sid) (chain s sid @ [(m, False)]) (eventWriteChains s),
     latestSeqBySession := AList.update sid (seq_of m) (latestSeqBySession s)\<rparr>"

lemma seq_of_numbered: "seq_of (numbered s sid m) = choose_seq (end_seq 0 (timeline s sid)) (m_eventSeq m)"
  by (simp add: numbered_def seq_of_def)

lemma chain_frame [simp]:
  "chain (s\<lparr>eventCache := x\<rparr>) sid = chain s sid"
  "chain (s\<lparr>latestSeqBySession := y\<rparr>) sid = chain s sid"
  by (simp_all add: chain_def)

lemma update_update_same: "AList.update k a (AList.update k b m) = AList.update k a m"
  by (induction m) auto

lemma touch_update_delete:
  "touch cap k v (AList.update k w (AList.delete k (touch cap k u m))) = touch cap k v (touch cap k u m)"
  by (rule touch_refresh)

text \<open>The cached case, from the state in which the current sequence number is known.\<close>

lemma appendEvent_cached:
  assumes "latest_seq sid s = (cur, s1)" "map_of (eventCache s1) sid = Some c"
    and "m_sessionId message = Some sid" "sid \<noteq> []" "sid \<notin> set (deletedSessions s)"
    and "m = message\<lparr>m_eventSeq := Some (choose_seq (case cur of Some n \<Rightarrow> n | None \<Rightarrow> 0) (m_eventSeq message))\<rparr>"
  shows "appendEvent message s = (Some m, appended sid m c s1)"
  using assms
  by (simp add: appendEvent_def getCachedEvents_def cacheEvents_touch touch_refresh
      queueEventWrite_def appended_def chain_def seq_of_def Let_def)

lemma appendEvent_eq:
  assumes ok: "log_ok s sid" and wf: "map_wf (eventCache s)"
    and msg: "m_sessionId message = Some sid" "sid \<noteq> []" "sid \<notin> set (deletedSessions s)"
  shows "\<exists>c. cache_ok (timeline s sid) (length (readEventsFromDisk s sid)) c
           \<and> appendEvent message s = (Some (numbered s sid message), appended sid (numbered s sid message) c s)"
proof (cases "map_of (latestSeqBySession s) sid")
  case (Some n)
  with ok have n: "n = end_seq 0 (timeline s sid)" by (simp add: log_ok_def)
  let ?m = "numbered s sid message"
  have m: "message\<lparr>m_eventSeq := Some (choose_seq n (m_eventSeq message))\<rparr> = ?m"
    "seq_of ?m = choose_seq n (m_eventSeq message)"
    by (simp_all add: numbered_def n seq_of_numbered seq_of_def)
  show ?thesis
  proof (cases "map_of (eventCache s) sid")
    case None
    then have T: "readEventsFromDisk s sid = timeline s sid"
      using ok timeline_split [OF ok] by (simp add: log_ok_def)
    have "appendEvent message s = (Some ?m, appended sid ?m \<lparr>c_entries = timeline s sid, c_complete = True\<rparr> s)"
      using Some None msg
      by (simp add: appendEvent_def latest_seq_def getCachedEvents_def cacheEvents_touch
          queueEventWrite_def appended_def chain_def Let_def m T)
    then show ?thesis using cache_ok_full by blast
  next
    case (Some c)
    have "appendEvent message s = (Some ?m, appended sid ?m c s)"
      by (rule appendEvent_cached [where cur = "Some n"])
        (use \<open>map_of (latestSeqBySession s) sid = Some n\<close> Some msg m in \<open>simp_all add: latest_seq_def\<close>)
    moreover have "cache_ok (timeline s sid) (length (readEventsFromDisk s sid)) c"
      using ok Some by (simp add: log_ok_def)
    ultimately show ?thesis by blast
  qed
next
  case None
  let ?T = "timeline s sid" and ?m = "numbered s sid message"
  let ?c = "bounded_entry ?T (cached_complete s sid)"
  have P: "pending s sid = []" using ok None by (simp add: log_ok_def)
  have len: "length ?T \<le> length (readEventsFromDisk s sid)" using timeline_split [OF ok] P by simp
  have c: "cache_ok ?T (length (readEventsFromDisk s sid)) ?c"
    by (rule bounded_entry_ok [OF cache_ok_full]) (use len in simp)
  have cur: "(case last_seq ?T of Some n \<Rightarrow> n | None \<Rightarrow> 0) = end_seq 0 ?T"
    using last_seq_end [OF timeline_ascends [OF ok]] by simp
  have get: "map_of (touch EVENT_CACHE_MAX_SESSIONS sid ?c (eventCache s)) sid = Some ?c"
    by (rule ec.put_same [OF wf])
  let ?s1 = "set_latest sid ?T (s\<lparr>eventCache := touch EVENT_CACHE_MAX_SESSIONS sid ?c (eventCache s)\<rparr>)"
  have "appendEvent message s = (Some ?m, appended sid ?m ?c ?s1)"
  proof (rule appendEvent_cached)
    show "latest_seq sid s = (last_seq ?T, ?s1)"
      using None by (simp add: latest_seq_def listEvents_eq [OF ok])
    show "map_of (eventCache ?s1) sid = Some ?c" using get by simp
    show "?m = message\<lparr>m_eventSeq := Some (choose_seq (case last_seq ?T of Some n \<Rightarrow> n | None \<Rightarrow> 0) (m_eventSeq message))\<rparr>"
      by (simp only: numbered_def cur)
  qed (use msg in auto)
  moreover have "appended sid ?m ?c ?s1 = appended sid ?m ?c s"
    using wf by (simp add: appended_def set_latest_def touch_touch update_update_same EVENT_CACHE_MAX_SESSIONS_def)
  ultimately have "appendEvent message s = (Some ?m, appended sid ?m ?c s)" by simp
  with c show ?thesis by blast
qed

end
