(* ===== verification/StoreRefine.thy ===== *)
theory StoreRefine
  imports StoreLog
begin

text \<open>
  The store refines an append-only log per session. \<open>store_step\<close> is any operation of the store and
  \<open>orderly\<close> the condition under which it keeps the logs; \<open>spec_step\<close> is the log they implement;
  \<open>abs_log\<close> relates the two.
\<close>

section \<open>The transition relation\<close>

datatype log_label =
    Appended string gateway_message
  | Listed string "gateway_message list"
  | Deleted string
  | Silent

text \<open>No session with a queued write loses its cache entry.\<close>

definition keeps_pending :: "store \<Rightarrow> store \<Rightarrow> bool" where
  "keeps_pending s s' =
     list_all (\<lambda>(sid, c). map_has (eventCache s') sid \<or> chain s sid = []) (eventCache s)"

text \<open>Nothing is left of a deleted session: its id may be used again.\<close>

definition fresh_log :: "store \<Rightarrow> string \<Rightarrow> bool" where
  "fresh_log s sid =
     (disk_lines s sid = [] \<and> chain s sid = [] \<and> event_file sid \<notin> fst ` set (detachedWrites s)
      \<and> map_of (eventCache s) sid = None \<and> map_of (latestSeqBySession s) sid = None)"

text \<open>
  The operations of the store, with the completion of a write, of a chain in the map or of a
  detached one, at any time. The paged readings change the store as the listing does that they
  start with.
\<close>

datatype store_op =
    OpAppend gateway_message
  | OpList string
  | OpWritten string string
  | OpDetached string nat
  | OpFlush string
  | OpSave gateway_session
  | OpUpsert "gateway_session list"
  | OpUpdate string "gateway_session \<Rightarrow> gateway_session"
  | OpLink string string
  | OpDelete string
  | OpTimer
  | OpReserve int string string
  | OpRelease string string
  | OpRemember string string
  | OpReserveCreate int string
  | OpReleaseCreate string
  | OpRememberCreate int string string
  | OpTakeErrors

fun store_step :: "store_op \<Rightarrow> store \<Rightarrow> log_label \<times> store" where
  "store_step (OpAppend m) s =
     (case (m_sessionId m, appendEvent m s) of
        (Some sid, Some m', s') \<Rightarrow> (Appended sid m', s')
      | (_, _, s') \<Rightarrow> (Silent, s'))"
| "store_step (OpList sid) s = (case listEvents sid s of (es, s') \<Rightarrow> (Listed sid es, s'))"
| "store_step (OpWritten err file) s = (Silent, write_step err file s)"
| "store_step (OpDetached err i) s = (Silent, detached_step err i s)"
| "store_step (OpFlush err) s = (Silent, flush err s)"
| "store_step (OpSave x) s = (Silent, saveSession x s)"
| "store_step (OpUpsert xs) s = (Silent, snd (upsertSessions xs s))"
| "store_step (OpUpdate sid f) s = (Silent, snd (updateSession sid f s))"
| "store_step (OpLink parentId childId) s = (Silent, linkSubagent parentId childId s)"
| "store_step (OpDelete sid) s = (Deleted sid, snd (deleteSession sid s))"
| "store_step OpTimer s = (Silent, persist_timer_fires s)"
| "store_step (OpReserve now_ms sid rid) s = (Silent, snd (reserveClientRequest now_ms sid rid s))"
| "store_step (OpRelease sid rid) s = (Silent, releaseClientRequest sid rid s)"
| "store_step (OpRemember sid rid) s = (Silent, rememberClientRequest sid rid s)"
| "store_step (OpReserveCreate now_ms rid) s = (Silent, snd (reserveCreateRequest now_ms rid s))"
| "store_step (OpReleaseCreate rid) s = (Silent, releaseCreateRequest rid s)"
| "store_step (OpRememberCreate now_ms rid sid) s = (Silent, rememberCreateRequest now_ms rid sid s)"
| "store_step OpTakeErrors s = (Silent, snd (takeEventWriteErrors s))"

fun store_run :: "store_op list \<Rightarrow> store \<Rightarrow> log_label list \<times> store" where
  "store_run [] s = ([], s)"
| "store_run (op # ops) s =
     (case store_step op s of (l, s1) \<Rightarrow> (case store_run ops s1 of (ls, s2) \<Rightarrow> (l # ls, s2)))"

text \<open>
  The conditions under which the logs are kept. An operation is orderly in a state if
  \<^item> an append or a listing pushes no session out of the cache that still has a queued write,
    and the session it is about has at most as many queued writes as the cache keeps of it;
  \<^item> a listing is of a session that has not been deleted;
  \<^item> the disk can be written when a write completes;
  \<^item> a session that has been deleted is not saved again, unless its file, its queued writes and
    its cached entries are gone;
  \<^item> an update keeps the id of the session.
  Outside of them the store does lose events; see \<open>evicted_pending_event_is_lost\<close> and
  \<open>resaved_session_loses_event\<close>.
\<close>

fun orderly :: "store \<Rightarrow> store_op \<Rightarrow> bool" where
  "orderly s (OpAppend m) =
     (case m_sessionId m of
        None \<Rightarrow> True
      | Some sid \<Rightarrow> length (pending s sid) < EVENT_CACHE_MAX_ENTRIES \<and> keeps_pending s (snd (appendEvent m s)))"
| "orderly s (OpList sid) =
     (sid \<notin> set (deletedSessions s) \<and> length (pending s sid) \<le> EVENT_CACHE_MAX_ENTRIES
      \<and> keeps_pending s (snd (listEvents sid s)))"
| "orderly s (OpWritten err file) = disk_writable (disk s)"
| "orderly s (OpFlush err) = disk_writable (disk s)"
| "orderly s (OpSave x) = (s_id x \<notin> set (deletedSessions s) \<or> fresh_log s (s_id x))"
| "orderly s (OpUpsert xs) = list_all (\<lambda>x. s_id x \<notin> set (deletedSessions s)) xs"
| "orderly s (OpUpdate sid f) =
     (case getSession s sid of None \<Rightarrow> True | Some x \<Rightarrow> s_id (f x) = s_id x)"
| "orderly s _ = True"

fun orderly_run :: "store \<Rightarrow> store_op list \<Rightarrow> bool" where
  "orderly_run s [] = True"
| "orderly_run s (op # ops) = (orderly s op \<and> orderly_run (snd (store_step op s)) ops)"

type_synonym log_spec = "string \<Rightarrow> gateway_message list"

inductive spec_step :: "log_spec \<Rightarrow> log_label \<Rightarrow> log_spec \<Rightarrow> bool" where
  spec_append: "m_sessionId m = Some sid \<Longrightarrow> ascends (end_seq 0 (L sid)) [m] \<Longrightarrow>
     spec_step L (Appended sid m) (L(sid := L sid @ [m]))"
| spec_list: "spec_step L (Listed sid (L sid)) L"
| spec_delete: "spec_step L (Deleted sid) (L(sid := []))"
| spec_silent: "spec_step L Silent L"

definition abs_log :: "store \<Rightarrow> log_spec" where
  "abs_log s = (\<lambda>sid. if sid \<in> set (deletedSessions s) then [] else timeline s sid)"

section \<open>Frames\<close>

text \<open>The part of the store that the timelines depend on.\<close>

definition event_view where
  "event_view s = (eventFiles (disk s), eventWriteChains s, detachedWrites s, eventCache s, latestSeqBySession s)"

lemma log_cong:
  assumes "disk_lines s' sid = disk_lines s sid" "chain s' sid = chain s sid"
  shows "timeline s' sid = timeline s sid"
    "event_file sid \<notin> fst ` set (detachedWrites s') \<longleftrightarrow> event_file sid \<notin> fst ` set (detachedWrites s) \<Longrightarrow>
     map_of (eventCache s') sid = map_of (eventCache s) sid \<or>
       map_of (eventCache s') sid = None \<and> chain s sid = [] \<Longrightarrow>
     map_of (latestSeqBySession s') sid = map_of (latestSeqBySession s) sid \<Longrightarrow>
     log_ok s sid \<Longrightarrow> log_ok s' sid"
proof -
  have p: "pending s' sid = pending s sid" using assms(2) by (simp add: pending_def)
  then show t: "timeline s' sid = timeline s sid" using assms(1) by (simp add: timeline_def)
  have r: "readEventsFromDisk s' sid = readEventsFromDisk s sid"
    using assms(1) by (simp add: readEventsFromDisk_def)
  show "log_ok s' sid"
    if "event_file sid \<notin> fst ` set (detachedWrites s') \<longleftrightarrow> event_file sid \<notin> fst ` set (detachedWrites s)"
      "map_of (eventCache s') sid = map_of (eventCache s) sid \<or>
         map_of (eventCache s') sid = None \<and> chain s sid = []"
      "map_of (latestSeqBySession s') sid = map_of (latestSeqBySession s) sid" "log_ok s sid"
    using that unfolding log_ok_def p t r assms by (auto simp: pending_def)
qed

lemma view_cong:
  assumes "event_view s' = event_view s"
  shows "timeline s' sid = timeline s sid" "log_ok s sid \<Longrightarrow> log_ok s' sid"
proof -
  have eq: "disk_lines s' sid = disk_lines s sid" "chain s' sid = chain s sid"
    using assms by (simp_all add: event_view_def disk_lines_def chain_def)
  show "timeline s' sid = timeline s sid" by (rule log_cong(1) [OF eq])
  show "log_ok s sid \<Longrightarrow> log_ok s' sid"
    by (rule log_cong(2) [OF eq]) (use assms in \<open>simp_all add: event_view_def\<close>)
qed

lemma view_simps [simp]:
  "event_view (persistSessions s) = event_view s"
  "event_view (persistSessionsNow s) = event_view s"
  "event_view (persistRelations s) = event_view s"
  "event_view (persistCreateRequests s) = event_view s"
  "event_view (saveSession x s) = event_view s"
  "event_view (s\<lparr>sessions := ss\<rparr>) = event_view s"
  "event_view (s\<lparr>subagentRelations := rr\<rparr>) = event_view s"
  "event_view (s\<lparr>createRequests := cc\<rparr>) = event_view s"
  "event_view (s\<lparr>deletedSessions := dd\<rparr>) = event_view s"
  "event_view (s\<lparr>clientRequestReservations := kk\<rparr>) = event_view s"
  "event_view (s\<lparr>createRequestReservations := ll\<rparr>) = event_view s"
  "event_view (s\<lparr>sessionPersistTimer := b\<rparr>) = event_view s"
  "event_view (s\<lparr>sessionPersistDirty := b\<rparr>) = event_view s"
  by (simp_all add: event_view_def persistSessions_def persistSessionsNow_def persistRelations_def
      persistCreateRequests_def saveSession_def Let_def)

lemma sess_frame [simp]:
  "sessions (persistSessions s) = sessions s" "deletedSessions (persistSessions s) = deletedSessions s"
  "sessions (persistSessionsNow s) = sessions s" "deletedSessions (persistSessionsNow s) = deletedSessions s"
  "sessions (persistRelations s) = sessions s" "deletedSessions (persistRelations s) = deletedSessions s"
  "sessions (persistCreateRequests s) = sessions s"
  "deletedSessions (persistCreateRequests s) = deletedSessions s"
  by (simp_all add: persistSessions_def persistSessionsNow_def persistRelations_def
      persistCreateRequests_def Let_def)

lemma updateSession_view [simp]: "event_view (snd (updateSession sid f s)) = event_view s"
  by (simp add: updateSession_def Let_def split: option.splits)

text \<open>A step that leaves the event state alone and marks nothing as deleted keeps everything,
  provided that what it revives is fresh.\<close>

definition session_step :: "store \<Rightarrow> store \<Rightarrow> bool" where
  "session_step s s' \<longleftrightarrow>
     event_view s' = event_view s \<and> sess_inv s' \<and> deletedSessions s' = deletedSessions s"

lemma event_inv_view:
  assumes "event_inv s" "event_view s' = event_view s" "sess_inv s'"
    and "\<forall>sid. sid \<notin> set (deletedSessions s') \<longrightarrow> sid \<notin> set (deletedSessions s) \<or> fresh_log s sid"
  shows "event_inv s'"
proof -
  have "log_ok s' sid" if "sid \<notin> set (deletedSessions s')" for sid
  proof (cases "sid \<in> set (deletedSessions s)")
    case True
    with that assms(4) have "fresh_log s sid" by blast
    then have "log_ok s sid"
      by (simp add: fresh_log_def log_ok_def pending_def readEventsFromDisk_def read_lines_def)
    then show ?thesis using view_cong(2) [OF assms(2)] by simp
  next
    case False
    then show ?thesis using assms(1) view_cong(2) [OF assms(2)] by (simp add: event_inv_def)
  qed
  moreover have "eventCache s' = eventCache s" using assms(2) by (simp add: event_view_def)
  ultimately show ?thesis using assms(1,3) by (simp add: event_inv_def)
qed

lemma session_step_sim:
  assumes "event_inv s" "session_step s s'"
  shows "event_inv s' \<and> abs_log s' = abs_log s"
proof
  show "event_inv s'"
    by (rule event_inv_view [OF assms(1)]) (use assms(2) in \<open>simp_all add: session_step_def\<close>)
  show "abs_log s' = abs_log s"
    using assms(2) view_cong(1) [of s' s] by (simp add: session_step_def abs_log_def fun_eq_iff)
qed

lemma session_step_trans: "session_step s t \<Longrightarrow> session_step t u \<Longrightarrow> session_step s u"
  by (simp add: session_step_def)

lemma session_step_update_own:
  assumes "sess_inv s" "\<And>x. getSession s sid = Some x \<Longrightarrow> s_id (f x) = s_id x"
  shows "session_step s (snd (updateSession sid f s))"
proof (cases "getSession s sid")
  case None
  then show ?thesis using assms(1) by (simp add: session_step_def updateSession_def)
next
  case (Some x)
  then have x: "s_id x = sid" "sid \<notin> set (deletedSessions s)"
    using assms(1) by (auto simp: sess_inv_def getSession_def dest: keyedD)
  then have "set_del sid (deletedSessions s) = deletedSessions s"
    by (auto simp: set_del_def filter_id_conv)
  then show ?thesis
    using assms x Some
    by (simp add: session_step_def updateSession_def saveSession_def sess_inv_def keyed_update Let_def)
qed

lemma session_step_updateSession:
  "sess_inv s \<Longrightarrow> (\<And>x. s_id (f x) = s_id x) \<Longrightarrow> session_step s (snd (updateSession sid f s))"
  by (rule session_step_update_own)

lemma session_step_same_sessions:
  "sess_inv s \<Longrightarrow> event_view s' = event_view s \<Longrightarrow> sessions s' = sessions s \<Longrightarrow>
   deletedSessions s' = deletedSessions s \<Longrightarrow> session_step s s'"
  by (simp add: session_step_def sess_inv_def)

section \<open>Silent steps\<close>

lemma session_step_upsert:
  assumes inv: "sess_inv s" and live: "\<forall>x\<in>set xs. s_id x \<notin> set (deletedSessions s)"
  shows "session_step s (snd (upsertSessions xs s))"
proof -
  let ?f = "\<lambda>x m. AList.update (s_id x) (merge_session (map_of m (s_id x)) x) m"
  have id: "s_id (merge_session e x) = s_id x" for e x
    by (simp add: merge_session_def session_spread_def split: option.splits)
  have "keyed (deletedSessions s) (fold ?f xs (sessions s))"
    by (rule fold_invariant [where Q = "\<lambda>x. x \<in> set xs"])
      (use inv live in \<open>simp_all add: sess_inv_def keyed_update id\<close>)
  then show ?thesis
    by (simp add: session_step_def upsertSessions_def sess_inv_def Let_def)
qed

lemma session_step_cond_update:
  assumes "session_step s t" "\<And>x. s_id (f x) = s_id x"
  shows "session_step s (if b then snd (updateSession sid f t) else t)"
proof -
  have "session_step t (snd (updateSession sid f t))"
    by (rule session_step_updateSession) (use assms in \<open>simp_all add: session_step_def\<close>)
  with assms(1) show ?thesis by (simp add: session_step_trans)
qed

lemma session_step_refl: "sess_inv s \<Longrightarrow> session_step s s"
  by (simp add: session_step_def)

lemma session_step_link:
  assumes inv: "sess_inv s" shows "session_step s (linkSubagent p c s)"
proof (cases "p = [] \<or> c = [] \<or> p = c")
  case True
  then show ?thesis using session_step_refl [OF inv] by (auto simp: linkSubagent_def)
next
  case False
  have "session_step s (persistRelations (s\<lparr>subagentRelations := AList.update c p (subagentRelations s)\<rparr>))"
    by (rule session_step_same_sessions [OF inv]) simp_all
  then show ?thesis
    unfolding linkSubagent_def Let_def if_not_P [OF False]
    by (intro session_step_cond_update) simp_all
qed

lemma session_step_release: "sess_inv s \<Longrightarrow> session_step s (releaseClientRequest sid rid s)"
  by (rule session_step_same_sessions) (simp_all add: releaseClientRequest_def)

lemma session_step_remember:
  assumes inv: "sess_inv s" shows "session_step s (rememberClientRequest sid rid s)"
proof -
  let ?s1 = "releaseClientRequest sid rid s"
  let ?f = "\<lambda>x. x\<lparr>recentClientRequestIds := Val (slice_last 128 (unique (filter (\<lambda>v. v \<noteq> [])
       ((case prop_get (recentClientRequestIds x) of Some ids \<Rightarrow> ids | None \<Rightarrow> []) @ [rid])))),
       lastClientRequestId := Val rid\<rparr>"
  have s1: "session_step s ?s1" by (rule session_step_release [OF inv])
  then have "session_step ?s1 (snd (updateSession sid ?f ?s1))"
    by (intro session_step_updateSession) (simp_all add: session_step_def)
  moreover have "rememberClientRequest sid rid s = (if rid = [] then s else snd (updateSession sid ?f ?s1))"
    by (simp add: rememberClientRequest_def updateSession_def Let_def split: option.splits)
  ultimately show ?thesis
    using session_step_trans [OF s1] session_step_refl [OF inv] by presburger
qed

lemma session_step_timer: "sess_inv s \<Longrightarrow> session_step s (persist_timer_fires s)"
  by (rule session_step_same_sessions) (simp_all add: persist_timer_fires_def Let_def)

lemma session_step_reserve: "sess_inv s \<Longrightarrow> session_step s (snd (reserveClientRequest now_ms sid rid s))"
  by (rule session_step_same_sessions) (simp_all add: reserveClientRequest_def Let_def)

lemma session_step_take_errors: "sess_inv s \<Longrightarrow> session_step s (snd (takeEventWriteErrors s))"
  by (rule session_step_same_sessions) (simp_all add: takeEventWriteErrors_def event_view_def)

lemma session_step_release_create: "sess_inv s \<Longrightarrow> session_step s (releaseCreateRequest rid s)"
  by (rule session_step_same_sessions) (simp_all add: releaseCreateRequest_def)

lemma getCreate_frame:
  "event_view (snd (getCreateRequestSession rid s)) = event_view s"
  "sessions (snd (getCreateRequestSession rid s)) = sessions s"
  "deletedSessions (snd (getCreateRequestSession rid s)) = deletedSessions s"
  by (simp_all add: getCreateRequestSession_def split: option.splits)

lemma reserve_new_frame:
  "event_view (snd (reserve_new_create now_ms rid s)) = event_view s"
  "sessions (snd (reserve_new_create now_ms rid s)) = sessions s"
  "deletedSessions (snd (reserve_new_create now_ms rid s)) = deletedSessions s"
  by (simp_all add: reserve_new_create_def Let_def)

lemma session_step_reserve_create:
  "sess_inv s \<Longrightarrow> session_step s (snd (reserveCreateRequest now_ms rid s))"
  using getCreate_frame [of rid s]
  by (intro session_step_same_sessions)
    (auto simp: reserveCreateRequest_def reserve_new_frame Let_def split: prod.splits option.splits)

lemma session_step_remember_create:
  "sess_inv s \<Longrightarrow> session_step s (rememberCreateRequest now_ms rid sid s)"
  by (rule session_step_same_sessions) (simp_all add: rememberCreateRequest_def Let_def)

lemmas session_steps =
  session_step_link session_step_remember session_step_release session_step_release_create
  session_step_timer session_step_reserve session_step_reserve_create session_step_remember_create
  session_step_take_errors

section \<open>Steps on the logs\<close>

lemma keeps_pendingD:
  "keeps_pending s s' \<Longrightarrow> map_of (eventCache s) sid = Some c \<Longrightarrow>
   map_has (eventCache s') sid \<or> chain s sid = []"
  by (force simp: keeps_pending_def list_all_iff dest: map_of_SomeD)

text \<open>The sessions a step does not address: their cache entry stays, or is evicted when nothing of
  them is queued.\<close>

lemma other_log_ok:
  assumes "log_ok s sid'" "keeps_pending s s'" "sid' \<noteq> sid" "map_wf (eventCache s)"
    and "eventCache s' = touch EVENT_CACHE_MAX_SESSIONS sid e (eventCache s)"
    and "disk_lines s' sid' = disk_lines s sid'" "chain s' sid' = chain s sid'"
    and "detachedWrites s' = detachedWrites s"
    and "map_of (latestSeqBySession s') sid' = map_of (latestSeqBySession s) sid'"
  shows "log_ok s' sid'" and "timeline s' sid' = timeline s sid'"
proof -
  have "map_of (eventCache s') sid' = map_of (eventCache s) sid' \<or>
        map_of (eventCache s') sid' = None \<and> chain s sid' = []"
  proof (cases "map_of (eventCache s') sid'")
    case (Some w)
    then show ?thesis using ec.put_other [OF assms(4,3)] assms(5) by metis
  next
    case None
    show ?thesis
    proof (cases "map_of (eventCache s) sid'")
      case None
      with assms(1) show ?thesis
        using \<open>map_of (eventCache s') sid' = None\<close> by simp
    next
      case (Some c)
      from keeps_pendingD [OF assms(2) Some] \<open>map_of (eventCache s') sid' = None\<close> show ?thesis by simp
    qed
  qed
  then show "log_ok s' sid'"
    using log_cong(2) [OF assms(6,7)] assms(1,8,9) by simp
  show "timeline s' sid' = timeline s sid'" by (rule log_cong(1) [OF assms(6,7)])
qed

text \<open>A listing returns the timeline and can be repeated, whatever it does to other sessions.\<close>

lemma listed_own:
  assumes ok: "log_ok s sid" and wf: "map_wf (eventCache s)" and l: "listEvents sid s = (es, s')"
    and few: "length (pending s sid) \<le> EVENT_CACHE_MAX_ENTRIES"
  shows "es = timeline s sid" "log_ok s' sid" "timeline s' sid = timeline s sid"
    "pending s' sid = pending s sid" "map_wf (eventCache s')"
    "length (eventCache s') \<le> EVENT_CACHE_MAX_SESSIONS"
proof -
  let ?T = "timeline s sid" and ?n = "length (readEventsFromDisk s sid)"
  let ?e = "bounded_entry ?T (cached_complete s sid)"
  have s': "s' = set_latest sid ?T (s\<lparr>eventCache := touch EVENT_CACHE_MAX_SESSIONS sid ?e (eventCache s)\<rparr>)"
    using l listEvents_eq [OF ok] by auto
  show "es = ?T" using l listEvents_eq [OF ok] by auto
  have cache: "eventCache s' = touch EVENT_CACHE_MAX_SESSIONS sid ?e (eventCache s)" by (simp add: s')
  then show "map_wf (eventCache s')" "length (eventCache s') \<le> EVENT_CACHE_MAX_SESSIONS"
    using ec.put_wf [OF wf] ec.put_bound [OF wf] by simp_all
  have frame: "disk_lines s' x = disk_lines s x" "chain s' x = chain s x" "detachedWrites s' = detachedWrites s" for x
    by (simp_all add: s' set_latest_def disk_lines_def chain_def)
  show pend: "pending s' sid = pending s sid" and T: "timeline s' sid = ?T"
    using frame by (simp_all add: pending_def timeline_def)
  have read: "readEventsFromDisk s' sid = readEventsFromDisk s sid"
    using frame by (simp add: readEventsFromDisk_def)
  have "cache_ok ?T ?n ?e"
    by (rule bounded_entry_ok [OF cache_ok_full]) (use few timeline_split [OF ok] in simp)
  moreover have "map_of (eventCache s') sid = Some ?e" unfolding cache by (rule ec.put_same [OF wf])
  moreover have "map_of (latestSeqBySession s') sid =
      (if ?T = [] then map_of (latestSeqBySession s) sid else Some (end_seq 0 ?T))"
    by (simp add: s' set_latest_def)
  ultimately show "log_ok s' sid"
    using ok unfolding log_ok_def read pend T frame by (auto split: option.splits)
qed

lemma listed_sim:
  assumes inv: "event_inv s" and live: "sid \<notin> set (deletedSessions s)"
    and l: "listEvents sid s = (es, s')" and keep: "keeps_pending s s'"
    and few: "length (pending s sid) \<le> EVENT_CACHE_MAX_ENTRIES"
  shows "event_inv s' \<and> es = timeline s sid \<and> abs_log s' = abs_log s"
proof -
  let ?e = "bounded_entry (timeline s sid) (cached_complete s sid)"
  have ok: "log_ok s sid" and wf: "map_wf (eventCache s)" using inv live by (auto simp: event_inv_def)
  have s': "s' = set_latest sid (timeline s sid) (s\<lparr>eventCache := touch EVENT_CACHE_MAX_SESSIONS sid ?e (eventCache s)\<rparr>)"
    using l listEvents_eq [OF ok] by auto
  have frame: "eventCache s' = touch EVENT_CACHE_MAX_SESSIONS sid ?e (eventCache s)"
    "disk_lines s' x = disk_lines s x" "chain s' x = chain s x" "detachedWrites s' = detachedWrites s"
    "sessions s' = sessions s" "deletedSessions s' = deletedSessions s" for x
    by (simp_all add: s' set_latest_def disk_lines_def chain_def)
  note own = listed_own [OF ok wf l few]
  have "log_ok s' x \<and> timeline s' x = timeline s x" if "x \<noteq> sid" "x \<notin> set (deletedSessions s)" for x
    using other_log_ok [OF _ keep that(1) wf frame(1)] frame that inv
    by (simp add: event_inv_def s' set_latest_def)
  then have logs: "log_ok s' x \<and> timeline s' x = timeline s x" if "x \<notin> set (deletedSessions s)" for x
    using that own(2,3) by (cases "x = sid") auto
  then show ?thesis
    using inv own frame(5,6) by (simp add: event_inv_def sess_inv_def abs_log_def fun_eq_iff)
qed

lemma appended_sim:
  assumes inv: "event_inv s" and a: "appendEvent m s = (Some m', s')" and sid: "m_sessionId m = Some sid"
    and few: "length (pending s sid) < EVENT_CACHE_MAX_ENTRIES" and keep: "keeps_pending s s'"
  shows "event_inv s' \<and> sid \<notin> set (deletedSessions s) \<and> m' = numbered s sid m
         \<and> abs_log s' = (abs_log s)(sid := timeline s sid @ [m'])"
proof -
  let ?T = "timeline s sid" and ?n = "length (readEventsFromDisk s sid)"
  have live: "sid \<noteq> []" "sid \<notin> set (deletedSessions s)"
    using a sid by (auto simp: appendEvent_def split: if_splits)
  then have ok: "log_ok s sid" and wf: "map_wf (eventCache s)" using inv by (auto simp: event_inv_def)
  from appendEvent_eq [OF ok wf sid live] a obtain c where
    c: "cache_ok ?T ?n c" and m': "m' = numbered s sid m" and s': "s' = appended sid m' c s" by auto
  let ?e = "bounded_entry (c_entries c @ [m']) (c_complete c)"
  have cache: "eventCache s' = touch EVENT_CACHE_MAX_SESSIONS sid ?e (eventCache s)"
    by (simp add: s' appended_def)
  have frame: "disk_lines s' x = disk_lines s x" "readEventsFromDisk s' x = readEventsFromDisk s x"
    "detachedWrites s' = detachedWrites s" "sessions s' = sessions s" "deletedSessions s' = deletedSessions s" for x
    by (simp_all add: s' appended_def disk_lines_def readEventsFromDisk_def)
  have ch: "chain s' x = (if x = sid then chain s sid @ [(m', False)] else chain s x)" for x
    by (simp add: s' appended_def chain_def)
  then have p: "pending s' sid = pending s sid @ [m']" by (simp add: pending_def)
  have seq: "m_eventSeq m' = Some (seq_of m')" "end_seq 0 ?T < seq_of m'" "m_sessionId m' = Some sid"
    using sid by (simp_all add: m' seq_of_numbered choose_seq_greater) (simp_all add: numbered_def)
  have asc: "ascends (end_seq 0 (readEventsFromDisk s sid)) (pending s sid @ [m'])"
    using ok seq timeline_split [OF ok] by (simp add: log_ok_def)
  have own: "NullLine \<notin> set (disk_lines s sid)" "\<forall>x\<in>set (pending s sid). m_sessionId x = Some sid"
    using ok by (auto simp: log_ok_def pending_def)
  have T': "timeline s' sid = ?T @ [m']"
    using timeline_raw [of s' sid] asc own seq(3) timeline_split [OF ok] by (simp add: frame p)
  have "cache_ok (?T @ [m']) ?n ?e"
    by (rule bounded_entry_ok [OF cache_ok_snoc [OF c]])
      (use few timeline_split [OF ok] in simp)
  moreover have "map_of (eventCache s') sid = Some ?e" unfolding cache by (rule ec.put_same [OF wf])
  moreover have "map_of (latestSeqBySession s') x =
      (if x = sid then Some (seq_of m') else map_of (latestSeqBySession s) x)" for x
    by (simp add: s' appended_def)
  ultimately have "log_ok s' sid"
    using ok asc seq unfolding log_ok_def frame p T' by (auto simp: ch)
  moreover have "log_ok s' x \<and> timeline s' x = timeline s x" if "x \<noteq> sid" "x \<notin> set (deletedSessions s)" for x
    using other_log_ok [OF _ keep that(1) wf cache] frame ch that inv
    by (simp add: event_inv_def s' appended_def)
  ultimately have logs: "log_ok s' x \<and> timeline s' x = (if x = sid then ?T @ [m'] else timeline s x)"
    if "x \<notin> set (deletedSessions s)" for x
    using that T' by (cases "x = sid") auto
  then show ?thesis
    using inv live m' frame ec.put_wf [OF wf] ec.put_bound [OF wf]
    by (simp add: event_inv_def sess_inv_def cache abs_log_def fun_eq_iff)
qed

text \<open>A write reaches the file: the event moves from the queue to the disk.\<close>

lemma write_step_other:
  assumes "event_file x \<noteq> file"
  shows "disk_lines (write_step err file s) x = disk_lines s x" "chain (write_step err file s) x = chain s x"
    "event_file x \<notin> fst ` set (detachedWrites (write_step err file s)) \<longleftrightarrow> event_file x \<notin> fst ` set (detachedWrites s)"
  using assms
  by (auto simp: write_step_def finish_write_def append_line_def remove_file_def disk_lines_def chain_def Let_def
      split: option.splits list.splits)

lemma write_step_frame [simp]:
  "eventCache (write_step err file s) = eventCache s"
  "latestSeqBySession (write_step err file s) = latestSeqBySession s"
  "sessions (write_step err file s) = sessions s"
  "deletedSessions (write_step err file s) = deletedSessions s"
  by (auto simp: write_step_def finish_write_def remove_file_def Let_def split: option.splits list.splits)

lemma write_step_own:
  assumes "disk_writable (disk s)" "chain s sid = (m, False) # rest"
  shows "disk_lines (write_step err (event_file sid) s) sid = disk_lines s sid @ [EntryLine m]"
    "chain (write_step err (event_file sid) s) sid = rest"
    "detachedWrites (write_step err (event_file sid) s) = detachedWrites s"
  using assms
  by (auto simp: write_step_def finish_write_def append_line_def disk_lines_def chain_def Let_def
      split: option.splits)

lemma write_own_sim:
  assumes ok: "log_ok s sid" and w: "disk_writable (disk s)" and q: "chain s sid = (m, False) # rest"
  shows "log_ok (write_step err (event_file sid) s) sid
         \<and> timeline (write_step err (event_file sid) s) sid = timeline s sid"
proof -
  let ?s' = "write_step err (event_file sid) s"
  note own = write_step_own [OF w q, of err]
  have p: "pending s sid = m # map fst rest" "pending ?s' sid = map fst rest"
    using q own(2) by (simp_all add: pending_def)
  have m: "m_sessionId m = Some sid" "ascends (end_seq 0 (readEventsFromDisk s sid)) (m # map fst rest)"
    "NullLine \<notin> set (disk_lines s sid)"
    using ok q p by (auto simp: log_ok_def)
  then have D': "readEventsFromDisk ?s' sid = readEventsFromDisk s sid @ [m]"
    by (simp add: readEventsFromDisk_def read_lines_def own renumber_append renumber_id)
  have T': "timeline ?s' sid = timeline s sid" by (simp add: timeline_def own p)
  moreover have "log_ok ?s' sid"
    using ok m q unfolding log_ok_def T' D' own p
    by (auto intro: cache_ok_mono split: option.splits)
  ultimately show ?thesis by simp
qed

lemma write_step_nothing: "chain s sid = [] \<Longrightarrow> write_step err (event_file sid) s = s"
  by (auto simp: write_step_def chain_def split: option.splits)

lemma written_sim:
  assumes inv: "event_inv s" and w: "disk_writable (disk s)"
  shows "event_inv (write_step err file s) \<and> abs_log (write_step err file s) = abs_log s"
proof -
  let ?s' = "write_step err file s"
  have "log_ok ?s' x \<and> timeline ?s' x = timeline s x" if x: "x \<notin> set (deletedSessions s)" for x
  proof (cases "event_file x = file")
    case False
    note other = write_step_other [OF this, of err s]
    then show ?thesis
      using log_cong [OF other(1,2)] other(3) x inv by (simp add: event_inv_def)
  next
    case True
    have ok: "log_ok s x" using inv x by (simp add: event_inv_def)
    show ?thesis
    proof (cases "chain s x")
      case Nil
      then show ?thesis using ok True write_step_nothing by auto
    next
      case (Cons q rest)
      with ok obtain m where "chain s x = (m, False) # rest" by (cases q) (auto simp: log_ok_def)
      then show ?thesis using write_own_sim [OF ok w] True by simp
    qed
  qed
  then show ?thesis
    using inv by (simp add: event_inv_def sess_inv_def abs_log_def fun_eq_iff)
qed

text \<open>A detached write goes to a file of a deleted session.\<close>

lemma detached_step_frame [simp]:
  "eventCache (detached_step err i s) = eventCache s"
  "latestSeqBySession (detached_step err i s) = latestSeqBySession s"
  "sessions (detached_step err i s) = sessions s"
  "deletedSessions (detached_step err i s) = deletedSessions s"
  "fst ` set (detachedWrites (detached_step err i s)) = fst ` set (detachedWrites s)"
  by (auto simp: detached_step_def finish_write_def remove_file_def Let_def image_iff set_conv_nth
      nth_list_update split: list.splits prod.splits)
    (metis fst_conv length_list_update nth_list_update)+

lemma detached_step_other:
  assumes "event_file x \<notin> fst ` set (detachedWrites s)"
  shows "disk_lines (detached_step err i s) x = disk_lines s x" "chain (detached_step err i s) x = chain s x"
proof -
  have "event_file x \<noteq> fst (detachedWrites s ! i)" if "i < length (detachedWrites s)"
    using assms nth_mem [OF that] by (metis imageI)
  then show "disk_lines (detached_step err i s) x = disk_lines s x" "chain (detached_step err i s) x = chain s x"
    by (auto simp: detached_step_def finish_write_def append_line_def remove_file_def disk_lines_def chain_def
        Let_def split: list.splits prod.splits)
qed

lemma detached_sim:
  assumes inv: "event_inv s"
  shows "event_inv (detached_step err i s) \<and> abs_log (detached_step err i s) = abs_log s"
proof -
  let ?s' = "detached_step err i s"
  have "log_ok ?s' x \<and> timeline ?s' x = timeline s x" if x: "x \<notin> set (deletedSessions s)" for x
  proof -
    have ok: "log_ok s x" using inv x by (simp add: event_inv_def)
    then have "event_file x \<notin> fst ` set (detachedWrites s)" by (simp add: log_ok_def)
    note other = detached_step_other [OF this, of err i]
    show ?thesis using log_cong [OF other] ok by simp
  qed
  then show ?thesis using inv by (simp add: event_inv_def sess_inv_def abs_log_def fun_eq_iff)
qed

text \<open>A flush is a sequence of such completions.\<close>

lemma write_step_writable: "disk_writable (disk (write_step err f s)) = disk_writable (disk s)"
  by (simp add: write_step_def finish_write_def append_line_def remove_file_def Let_def
      split: option.splits list.splits)

lemma detached_step_writable: "disk_writable (disk (detached_step err i s)) = disk_writable (disk s)"
  by (simp add: detached_step_def finish_write_def append_line_def remove_file_def Let_def
      split: list.splits prod.splits)

lemma drain_sim:
  "event_inv s \<Longrightarrow> disk_writable (disk s) \<Longrightarrow>
   event_inv (drain_chain n err f s) \<and> abs_log (drain_chain n err f s) = abs_log s
   \<and> disk_writable (disk (drain_chain n err f s))
   \<and> deletedSessions (drain_chain n err f s) = deletedSessions s"
  by (induction n arbitrary: s) (simp_all add: written_sim detached_sim write_step_writable detached_step_writable)

abbreviation drain_all :: "string \<Rightarrow> (string, write_chain) js_map \<Rightarrow> store \<Rightarrow> store" where
  "drain_all err qs s \<equiv> fold (\<lambda>(f, q). drain_chain (length q) err f) qs s"

lemma drain_all_sim:
  "event_inv s \<Longrightarrow> disk_writable (disk s) \<Longrightarrow>
   event_inv (drain_all err qs s) \<and> abs_log (drain_all err qs s) = abs_log s
   \<and> deletedSessions (drain_all err qs s) = deletedSessions s"
proof (induction qs arbitrary: s)
  case Nil
  then show ?case by simp
next
  case (Cons p qs)
  obtain f q where p: "p = (f, q)" by (cases p)
  show ?case using Cons.IH [of "drain_chain (length q) err f s"] Cons.prems drain_sim [of s "length q" err f]
    by (simp add: p)
qed

lemma flush_snapshot_step: "sess_inv s \<Longrightarrow> session_step s (flush_snapshot s)"
  by (rule session_step_same_sessions) (simp_all add: flush_snapshot_def Let_def)

lemma flush_snapshot_frame:
  "disk_writable (disk (flush_snapshot s)) = disk_writable (disk s)"
  "eventWriteChains (flush_snapshot s) = eventWriteChains s"
  by (simp_all add: flush_snapshot_def persistSessionsNow_def Let_def)

lemma flush_sim:
  assumes inv: "event_inv s" and w: "disk_writable (disk s)"
  shows "event_inv (flush err s) \<and> abs_log (flush err s) = abs_log s
         \<and> deletedSessions (flush err s) = deletedSessions s"
proof -
  let ?s1 = "flush_snapshot s"
  have step: "session_step s ?s1" using inv flush_snapshot_step by (simp add: event_inv_def)
  from session_step_sim [OF inv this] have "event_inv ?s1" and abs: "abs_log ?s1 = abs_log s" by auto
  with drain_all_sim [of ?s1 err "eventWriteChains s"] w show ?thesis
    using step abs by (simp add: flush_def flush_snapshot_frame session_step_def Let_def)
qed

lemma saved_sim:
  assumes inv: "event_inv s" and ok: "s_id x \<notin> set (deletedSessions s) \<or> fresh_log s (s_id x)"
  shows "event_inv (saveSession x s) \<and> abs_log (saveSession x s) = abs_log s"
proof -
  let ?s' = "saveSession x s"
  have del: "deletedSessions ?s' = set_del (s_id x) (deletedSessions s)" by (simp add: saveSession_def)
  have sess: "sess_inv ?s'"
    using inv keyed_mono [of "deletedSessions s" "sessions s" "set_del (s_id x) (deletedSessions s)"]
    by (auto simp: sess_inv_def saveSession_def event_inv_def intro!: keyed_update)
  have "event_inv ?s'"
    by (rule event_inv_view [OF inv _ sess]) (use ok in \<open>auto simp: del\<close>)
  moreover have "timeline s (s_id x) = []" if "fresh_log s (s_id x)"
    using that by (simp add: fresh_log_def timeline_def pending_def read_lines_def)
  then have "abs_log ?s' = abs_log s"
    using ok view_cong(1) [of ?s' s] by (auto simp: abs_log_def fun_eq_iff del)
  ultimately show ?thesis by simp
qed

section \<open>Deletion\<close>

text \<open>The session part of \<open>deleteSession\<close>, and the part that clears the log.\<close>

definition delete_sessions_part :: "string \<Rightarrow> store \<Rightarrow> store" where
  "delete_sessions_part sid s =
     (let s1 = s\<lparr>deletedSessions := set_add sid (deletedSessions s),
                 sessions := AList.delete sid (sessions s)\<rparr>;
          s2 = (if map_has (sessions s) sid then persistSessions s1 else s1);
          s3 = s2\<lparr>subagentRelations :=
                 filter (\<lambda>(c, p). p \<noteq> sid) (AList.delete sid (subagentRelations s2))\<rparr>;
          s4 = (case map_of (subagentRelations s2) sid of
                  Some p \<Rightarrow>
                    if p \<noteq> [] \<and> map_has (sessions s3) p
                    then snd (updateSession p (\<lambda>x. x\<lparr>childSessionIds :=
                           Val (filter (\<lambda>c. c \<noteq> sid)
                                 (case prop_get (childSessionIds x) of Some ids \<Rightarrow> ids | None \<Rightarrow> []))\<rparr>) s3)
                    else s3
                | None \<Rightarrow> s3);
          s5 = persistRelations s4;
          kept = filter (\<lambda>(r, record). cr_sessionId record \<noteq> sid) (createRequests s5)
      in if length kept \<noteq> length (createRequests s5)
         then persistCreateRequests (s5\<lparr>createRequests := kept\<rparr>) else s5)"

definition delete_log_part :: "string \<Rightarrow> store \<Rightarrow> store" where
  "delete_log_part sid s =
     (let file = event_file sid;
          s7 = (case map_of (eventWriteChains s) file of
                  Some q \<Rightarrow> s\<lparr>eventWriteChains := AList.update file (mark_last q) (eventWriteChains s)\<rparr>
                | None \<Rightarrow> remove_file file s)
      in s7\<lparr>
            latestSeqBySession := AList.delete sid (latestSeqBySession s7),
            eventCache := AList.delete sid (eventCache s7),
            clientRequestReservations :=
              filter (\<lambda>(k, t). \<not> starts_with k (sid @ [CHR 0x00])) (clientRequestReservations s7)\<rparr>)"

lemma deleteSession_parts:
  "deleteSession sid s = (map_has (sessions s) sid, delete_log_part sid (delete_sessions_part sid s))"
  unfolding deleteSession_def delete_log_part_def delete_sessions_part_def Let_def by (rule refl)

lemma delete_sessions_part_step:
  assumes inv: "sess_inv s"
  shows "event_view (delete_sessions_part sid s) = event_view s \<and> sess_inv (delete_sessions_part sid s)
         \<and> deletedSessions (delete_sessions_part sid s) = set_add sid (deletedSessions s)"
proof -
  let ?s1 = "s\<lparr>deletedSessions := set_add sid (deletedSessions s), sessions := AList.delete sid (sessions s)\<rparr>"
  have s1: "sess_inv ?s1" using inv by (simp add: sess_inv_def keyed_delete)
  have "session_step ?s1 (delete_sessions_part sid s)"
  proof -
    let ?s3 = "(if map_has (sessions s) sid then persistSessions ?s1 else ?s1)
       \<lparr>subagentRelations := filter (\<lambda>(c, p). p \<noteq> sid)
          (AList.delete sid (subagentRelations (if map_has (sessions s) sid then persistSessions ?s1 else ?s1)))\<rparr>"
    have s3: "session_step ?s1 ?s3" by (rule session_step_same_sessions [OF s1]) simp_all
    have s4: "session_step ?s1
        (case r of Some p \<Rightarrow> if p \<noteq> [] \<and> map_has (sessions ?s3) p then snd (updateSession p f ?s3) else ?s3
         | None \<Rightarrow> ?s3)" if "\<And>x. s_id (f x) = s_id x" for r f
      using session_step_cond_update [OF s3, of f] s3 that by (cases r) (simp_all only: option.case)
    have last: "session_step ?s1
        (if b then persistCreateRequests ((persistRelations t)\<lparr>createRequests := k\<rparr>) else persistRelations t)"
      if "session_step ?s1 t" for t b k
      using that by (auto simp: session_step_def sess_inv_def)
    show ?thesis
      unfolding delete_sessions_part_def Let_def by (rule last, rule s4) simp
  qed
  then show ?thesis by (simp add: session_step_def)
qed

lemma delete_log_part_other:
  assumes "x \<noteq> sid"
  shows "disk_lines (delete_log_part sid s) x = disk_lines s x" "chain (delete_log_part sid s) x = chain s x"
    "detachedWrites (delete_log_part sid s) = detachedWrites s"
    "map_of (eventCache (delete_log_part sid s)) x = map_of (eventCache s) x"
    "map_of (latestSeqBySession (delete_log_part sid s)) x = map_of (latestSeqBySession s) x"
  using assms
  by (simp_all add: delete_log_part_def remove_file_def disk_lines_def chain_def Let_def split: option.splits)

lemma delete_log_part_frame:
  "sessions (delete_log_part sid s) = sessions s"
  "deletedSessions (delete_log_part sid s) = deletedSessions s"
  "eventCache (delete_log_part sid s) = AList.delete sid (eventCache s)"
  by (simp_all add: delete_log_part_def remove_file_def Let_def split: option.splits)

lemma deleted_sim:
  assumes inv: "event_inv s" and d: "deleteSession sid s = (b, s')"
  shows "event_inv s' \<and> abs_log s' = (abs_log s)(sid := [])"
proof -
  let ?t = "delete_sessions_part sid s"
  have s': "s' = delete_log_part sid ?t" using d by (simp add: deleteSession_parts)
  have t: "event_view ?t = event_view s" "sess_inv ?t" "deletedSessions ?t = set_add sid (deletedSessions s)"
    using delete_sessions_part_step [of s sid] inv by (simp_all add: event_inv_def)
  have logs: "log_ok s' x \<and> timeline s' x = timeline s x" if "x \<noteq> sid" "x \<notin> set (deletedSessions s)" for x
  proof -
    note other = delete_log_part_other [OF that(1), of ?t]
    have "log_ok ?t x" using view_cong(2) [OF t(1)] inv that(2) by (simp add: event_inv_def)
    then show ?thesis
      using log_cong [OF other(1,2)] other(3-5) view_cong(1) [OF t(1), of x] by (simp add: s')
  qed
  have cache: "eventCache s' = AList.delete sid (eventCache s)"
    using t(1) by (simp add: s' delete_log_part_frame event_view_def)
  have "length (eventCache s') \<le> EVENT_CACHE_MAX_SESSIONS"
    using inv length_delete_le [of sid "eventCache s"] by (simp add: cache event_inv_def)
  moreover have "map_wf (eventCache s')" using inv by (simp add: cache map_wf_delete event_inv_def)
  moreover have "deletedSessions s' = set_add sid (deletedSessions s)" "sess_inv s'"
    using t by (simp_all add: s' delete_log_part_frame sess_inv_def)
  ultimately show ?thesis using logs by (simp add: event_inv_def abs_log_def fun_eq_iff)
qed

section \<open>The simulation\<close>

lemma orderly_append_sim:
  assumes inv: "event_inv s" and ord: "orderly s (OpAppend m)" and step: "store_step (OpAppend m) s = (l, s')"
  shows "event_inv s' \<and> spec_step (abs_log s) l (abs_log s')"
proof (cases "appendEvent m s")
  case (Pair a t)
  show ?thesis
  proof (cases a)
    case None
    then have "t = s"
      using Pair by (auto simp: appendEvent_def Let_def split: option.splits if_splits prod.splits)
    then show ?thesis using step inv Pair None spec_silent by (auto split: option.splits)
  next
    case (Some m')
    then obtain sid where sid: "m_sessionId m = Some sid"
      using Pair by (auto simp: appendEvent_def split: option.splits)
    with Pair Some step have eq: "l = Appended sid m'" "s' = t" by auto
    from appended_sim [OF inv Pair [unfolded Some] sid] ord sid Pair
    have app: "event_inv t" "sid \<notin> set (deletedSessions s)" "m' = numbered s sid m"
      "abs_log t = (abs_log s)(sid := timeline s sid @ [m'])" by auto
    have "spec_step (abs_log s) (Appended sid m') ((abs_log s)(sid := abs_log s sid @ [m']))"
    proof (rule spec_append)
      show "m_sessionId m' = Some sid" using sid app(3) by (simp add: numbered_def)
      show "ascends (end_seq 0 (abs_log s sid)) [m']"
        using app(2,3) by (simp add: abs_log_def seq_of_numbered choose_seq_greater)
          (simp add: numbered_def)
    qed
    then show ?thesis using app eq by (simp add: abs_log_def)
  qed
qed

lemma orderly_sim:
  assumes inv: "event_inv s" and ord: "orderly s op" and step: "store_step op s = (l, s')"
  shows "event_inv s' \<and> spec_step (abs_log s) l (abs_log s')"
proof -
  have silent: "event_inv t \<and> spec_step (abs_log s) Silent (abs_log t)" if "session_step s t" for t
    using session_step_sim [OF inv that] spec_silent by metis
  have sess: "sess_inv s" using inv by (simp add: event_inv_def)
  show ?thesis
  proof (cases op)
    case (OpAppend m)
    then show ?thesis using orderly_append_sim [OF inv] ord step by blast
  next
    case (OpList sid)
    obtain es t where lt: "listEvents sid s = (es, t)" by fastforce
    with OpList ord step have o: "sid \<notin> set (deletedSessions s)" "keeps_pending s t"
      "length (pending s sid) \<le> EVENT_CACHE_MAX_ENTRIES" "l = Listed sid es" "s' = t" by auto
    from listed_sim [OF inv o(1) lt o(2,3)] have "event_inv t" "es = abs_log s sid" "abs_log t = abs_log s"
      using o(1) by (auto simp: abs_log_def)
    then show ?thesis using o(4,5) spec_list by simp
  next
    case (OpWritten err f)
    then show ?thesis using written_sim [OF inv] spec_silent ord step by auto
  next
    case (OpDetached err i)
    then show ?thesis using detached_sim [OF inv] spec_silent step by auto
  next
    case (OpFlush err)
    then show ?thesis using flush_sim [OF inv] spec_silent ord step by auto
  next
    case (OpSave x)
    then show ?thesis using saved_sim [OF inv] spec_silent ord step by auto
  next
    case (OpDelete sid)
    then show ?thesis using deleted_sim [OF inv, of sid] spec_delete step by (cases "deleteSession sid s") auto
  next
    case (OpUpsert xs)
    then show ?thesis using silent session_step_upsert [OF sess] ord step by (auto simp: list_all_iff)
  next
    case (OpUpdate sid f)
    with ord step have "session_step s s'" "l = Silent"
      using session_step_update_own [OF sess, of sid f] by (auto split: option.splits)
    then show ?thesis using silent by simp
  qed (use silent session_steps [OF sess] step in auto)
qed

end
