(* ===== verification/StorePaging.thy ===== *)
theory StorePaging
  imports StoreProps
begin

text \<open>
  Reading a log page by page, and reading it after a restart: the two ways in which a client gets
  the events it has missed.
\<close>

section \<open>Paging\<close>

text \<open>A reader that follows \<open>nextCursor\<close> while the answer says it was truncated.\<close>

fun page_all :: "nat \<Rightarrow> string \<Rightarrow> js_number \<Rightarrow> js_number \<Rightarrow> store \<Rightarrow> gateway_message list option" where
  "page_all 0 sid cursor limit s = None"
| "page_all (Suc fuel) sid cursor limit s =
     (let (page, s') = listEventsAfterLimited sid cursor limit s
      in if pg_truncated page
         then map_option (append (pg_entries page)) (page_all fuel sid (pg_nextCursor page) limit s')
         else Some (pg_entries page))"

definition after :: "js_number \<Rightarrow> gateway_message list \<Rightarrow> gateway_message list" where
  "after cursor T = filter (\<lambda>e. cursor < seq_of e) T"

lemma after_ascends: "ascends n T \<Longrightarrow> ascends n (after c T)"
  by (auto simp: ascends_seqs after_def sorted_wrt_filter sorted_wrt_map)

lemma after_after: "c \<le> c' \<Longrightarrow> after c' (after c T) = after c' T"
  by (auto simp: after_def intro!: filter_cong)

lemma after_page:
  assumes asc: "ascends 0 T" and k: "0 < k" "k < length (after c T)"
  shows "last_seq (take k (after c T)) = Some (end_seq 0 (take k (after c T)))
         \<and> after (end_seq 0 (take k (after c T))) T = drop k (after c T)"
proof -
  let ?es = "after c T"
  let ?p = "take k ?es" and ?r = "drop k ?es" and ?c = "end_seq 0 (take k (after c T))"
  have es: "ascends 0 (?p @ ?r)" using after_ascends [OF asc] by simp
  then have p: "ascends 0 ?p" and r: "ascends ?c ?r" unfolding ascends_append by auto
  have ne: "?p \<noteq> []" using k by auto
  have low: "after ?c ?p = []"
    using ascends_le_end [OF p] unfolding after_def [of "end_seq 0 (take k (after c T))"]
    by (auto simp: filter_empty_conv not_less)
  have high: "after ?c ?r = ?r"
    using r by (auto simp: after_def ascends_seqs filter_id_conv)
  have "c < ?c"
  proof -
    obtain e where e: "e \<in> set ?p" using ne by (cases ?p) auto
    then have "c < seq_of e" by (auto simp: after_def dest!: in_set_takeD)
    then show ?thesis using ascends_le_end [OF p e] by simp
  qed
  then have "after ?c T = after ?c ?es" by (simp add: after_after)
  also have "\<dots> = after ?c ?p @ after ?c ?r"
    by (metis after_def append_take_drop_id filter_append)
  finally show ?thesis using low high last_seq_end [OF p] ne by simp
qed

lemma safe_limit_bounds: "1 \<le> safe_limit l \<and> safe_limit l \<le> 5000"
  by (auto simp: safe_limit_def Let_def)

text \<open>The states from which a session can be listed over and over, whatever the listing does to
  the cache entries of other sessions.\<close>

definition listable :: "store \<Rightarrow> string \<Rightarrow> bool" where
  "listable s sid \<longleftrightarrow> log_ok s sid \<and> map_wf (eventCache s) \<and> length (pending s sid) \<le> EVENT_CACHE_MAX_ENTRIES"

lemma listable_listEvents:
  assumes "listable s sid"
  shows "fst (listEvents sid s) = timeline s sid" "listable (snd (listEvents sid s)) sid"
    "timeline (snd (listEvents sid s)) sid = timeline s sid"
  using assms listed_own [of s sid, OF _ _ prod.collapse [symmetric]]
  by (simp_all add: listable_def)

lemma orderly_listable:
  assumes "clean_disk d" "orderly_run (new_store t d) ops" "store_run ops (new_store t d) = (ls, s)"
    and "sid \<notin> set (deletedSessions s)" "length (pending s sid) \<le> EVENT_CACHE_MAX_ENTRIES"
  shows "listable s sid"
  using new_store_run(1) [OF assms(1-3)] assms(4,5) by (simp add: listable_def event_inv_def)

lemma listEventsAfter_eq:
  assumes "listable s sid"
  shows "listEventsAfter sid c s = (after c (timeline s sid), snd (listEvents sid s))"
  using listable_listEvents(1) [OF assms]
  by (cases "listEvents sid s") (simp add: listEventsAfter_def after_def seq_of_def)

lemma listable_pages:
  assumes "listable s sid" and "length (after cursor (timeline s sid)) < fuel"
  shows "page_all fuel sid cursor limit s = Some (after cursor (timeline s sid))"
  using assms
proof (induction fuel arbitrary: cursor s)
  case 0
  then show ?case by simp
next
  case (Suc fuel)
  let ?T = "timeline s sid" and ?k = "safe_limit limit" and ?s' = "snd (listEvents sid s)"
  let ?es = "after cursor ?T"
  note next_state = listable_listEvents [OF Suc.prems(1)]
  have asc: "ascends 0 ?T"
    using Suc.prems(1) by (auto simp: listable_def timeline_ascends)
  show ?case
  proof (cases "?k < length ?es")
    case False
    then show ?thesis
      by (simp add: listEventsAfterLimited_def listEventsAfter_eq [OF Suc.prems(1)] Let_def)
  next
    case True
    have k: "0 < ?k" using safe_limit_bounds [of limit] by simp
    note page = after_page [OF asc k True]
    let ?c = "end_seq 0 (take ?k ?es)"
    have "length (after ?c (timeline ?s' sid)) < fuel"
      using page Suc.prems(2) k True by (simp add: next_state)
    then have "page_all fuel sid ?c limit ?s' = Some (drop ?k ?es)"
      using Suc.IH [OF next_state(2)] page by (simp add: next_state)
    then show ?thesis
      using True page
      by (simp add: listEventsAfterLimited_def listEventsAfter_eq [OF Suc.prems(1)] Let_def)
  qed
qed

text \<open>C8. Following the pages from any cursor and with any page size ends, and returns exactly the
  events numbered above the cursor, in order: no event is skipped or returned twice. This holds in
  every state that an orderly run of the store reaches (the conditions of the refinement of the
  log: no session pushed out of the cache with a write queued, at most 512 queued writes for a session,
  no failed write, no deleted session listed or saved again before it is gone), for a session that is not deleted
  and has at most 512 queued writes. The listings that the pages start with may push any other
  session out of the cache.\<close>

theorem paging_complete:
  assumes "clean_disk d" "orderly_run (new_store t d) ops" "store_run ops (new_store t d) = (ls, s)"
    and "sid \<notin> set (deletedSessions s)" "length (pending s sid) \<le> EVENT_CACHE_MAX_ENTRIES"
    and "length (after cursor (timeline s sid)) < fuel"
  shows "page_all fuel sid cursor limit s = Some (after cursor (timeline s sid))
         \<and> after cursor (timeline s sid) = filter (\<lambda>e. cursor < seq_of e) (fst (listEvents sid s))"
  using listable_pages [OF orderly_listable [OF assms(1-5)] assms(6)]
    listable_listEvents(1) [OF orderly_listable [OF assms(1-5)]]
  by (simp add: after_def)

lemma sample_stored_facts:
  "''s'' \<notin> set (deletedSessions sample_stored)" "length (pending sample_stored ''s'') \<le> EVENT_CACHE_MAX_ENTRIES"
  "disk_writable (disk sample_stored)"
  by code_simp+

lemmas sample_stored_run =
  sample_clean sample_append_orderly [unfolded sample_store_def] sample_append_run [unfolded sample_store_def]

lemma paging_complete_witness:
  "page_all 2 ''s'' 0 1 sample_stored = Some (after 0 (timeline sample_stored ''s''))"
proof -
  have "length (after 0 (timeline sample_stored ''s'')) < 2" by code_simp
  with paging_complete [OF sample_stored_run sample_stored_facts(1,2)] show ?thesis by blast
qed

end
