(* ===== verification/StoreRestart.thy ===== *)
theory StoreRestart
  imports StorePaging "HOL-Library.Multiset"
begin

text \<open>
  Shutdown and restart: \<open>flush\<close> writes what is pending, and the next process reads back the same
  sessions and the same logs.
\<close>

section \<open>Draining the write chains\<close>

lemma drain_other:
  "event_inv s \<Longrightarrow> disk_writable (disk s) \<Longrightarrow> x \<notin> set (deletedSessions s) \<Longrightarrow> event_file x \<noteq> f \<Longrightarrow>
   chain (drain_chain n err f s) x = chain s x"
proof (induction n arbitrary: s)
  case (Suc n)
  have "event_file x \<notin> fst ` set (detachedWrites s)"
    using Suc.prems by (simp add: event_inv_def log_ok_def)
  then show ?case
    using Suc.IH Suc.prems
    by (simp add: write_step_other detached_step_other written_sim detached_sim write_step_writable
        detached_step_writable)
qed simp

lemma drain_own:
  "event_inv s \<Longrightarrow> disk_writable (disk s) \<Longrightarrow> x \<notin> set (deletedSessions s) \<Longrightarrow> length (chain s x) \<le> n \<Longrightarrow>
   chain (drain_chain n err (event_file x) s) x = []"
proof (induction n arbitrary: s)
  case 0
  then show ?case by simp
next
  case (Suc n)
  let ?w = "write_step err (event_file x) s" and ?d = "detached_step err (length (detachedWrites s) - 1) s"
  have ok: "log_ok s x" using Suc.prems by (simp add: event_inv_def)
  have "length (chain ?w x) \<le> n"
  proof (cases "chain s x")
    case Nil
    then show ?thesis by (simp add: write_step_nothing)
  next
    case (Cons q rest)
    with ok obtain m where "chain s x = (m, False) # rest" by (cases q) (auto simp: log_ok_def)
    then show ?thesis using write_step_own(2) [OF Suc.prems(2)] Suc.prems(4) Cons by simp
  qed
  moreover have "chain ?d x = []" if "map_of (eventWriteChains s) (event_file x) = None"
    using that ok detached_step_other(2) by (simp add: log_ok_def chain_def)
  ultimately show ?case
    using Suc.IH [of ?w] Suc.IH [of ?d] Suc.prems
    by (simp add: written_sim detached_sim write_step_writable detached_step_writable)
qed

lemma drain_all_empty:
  assumes "map_wf qs" "\<forall>q. (event_file x, q) \<in> set qs \<longrightarrow> chain s x = q"
    and "event_file x \<in> fst ` set qs \<or> chain s x = []"
    and "event_inv s" "disk_writable (disk s)" "x \<notin> set (deletedSessions s)"
  shows "chain (drain_all err qs s) x = []"
  using assms
proof (induction qs arbitrary: s)
  case Nil
  then show ?case by simp
next
  case (Cons p qs)
  obtain f q where p: "p = (f, q)" by (cases p)
  let ?s' = "drain_chain (length q) err f s"
  note sim = drain_sim [OF Cons.prems(4,5), of "length q" err f]
  have fresh: "f \<notin> fst ` set qs" using Cons.prems(1) by (simp add: p)
  have "chain (drain_all err qs ?s') x = []"
  proof (rule Cons.IH)
    show "map_wf qs" using Cons.prems(1) by (simp add: p)
    show "\<forall>q'. (event_file x, q') \<in> set qs \<longrightarrow> chain ?s' x = q'"
      using Cons.prems(2) fresh drain_other [OF Cons.prems(4-6), of f "length q" err] by (cases "event_file x = f") (auto simp: p image_iff)
    show "event_file x \<in> fst ` set qs \<or> chain ?s' x = []"
    proof (cases "event_file x = f")
      case True
      then have "chain s x = q" using Cons.prems(2) by (simp add: p)
      then show ?thesis using drain_own [OF Cons.prems(4-6)] True by auto
    next
      case False
      then show ?thesis using Cons.prems(3) drain_other [OF Cons.prems(4-6) False] by (auto simp: p)
    qed
  qed (use sim Cons.prems(6) in auto)
  then show ?case by (simp add: p)
qed

lemma flush_drains:
  assumes inv: "event_inv s" and w: "disk_writable (disk s)" and wf: "map_wf (eventWriteChains s)"
    and live: "x \<notin> set (deletedSessions s)"
  shows "log_ok (flush err s) x" "timeline (flush err s) x = timeline s x" "chain (flush err s) x = []"
proof -
  let ?s1 = "flush_snapshot s"
  note sim = flush_sim [OF inv w, of err]
  then show "log_ok (flush err s) x" using live by (simp add: event_inv_def)
  show "timeline (flush err s) x = timeline s x" using sim live by (metis abs_log_def)
  have step: "session_step s ?s1" using inv flush_snapshot_step by (simp add: event_inv_def)
  from session_step_sim [OF inv this] have inv1: "event_inv ?s1" by simp
  have w1: "disk_writable (disk ?s1)" and ch1: "eventWriteChains ?s1 = eventWriteChains s"
    using w by (simp_all add: flush_snapshot_frame)
  have live1: "x \<notin> set (deletedSessions ?s1)" using live step by (simp add: session_step_def)
  have "chain (drain_all err (eventWriteChains s) ?s1) x = []"
  proof (rule drain_all_empty [OF wf _ _ inv1 w1 live1])
    show "\<forall>q. (event_file x, q) \<in> set (eventWriteChains s) \<longrightarrow> chain ?s1 x = q"
      using wf by (simp add: chain_def ch1)
    show "event_file x \<in> fst ` set (eventWriteChains s) \<or> chain ?s1 x = []"
      by (auto simp: chain_def ch1 map_of_eq_None_iff split: option.splits)
        (metis map_of_eq_None_iff option.distinct(1))
  qed
  then show "chain (flush err s) x = []" by (simp add: flush_def ch1 Let_def)
qed

section \<open>The chains stay a map\<close>

lemma chains_wf_append:
  assumes "event_inv s" "appendEvent m s = (Some m', s')" "map_wf (eventWriteChains s)"
  shows "map_wf (eventWriteChains s')"
proof -
  from assms(2) obtain sid where sid: "m_sessionId m = Some sid" "sid \<noteq> []" "sid \<notin> set (deletedSessions s)"
    by (auto simp: appendEvent_def split: option.splits if_splits)
  with assms(1) appendEvent_eq [of s sid m] obtain c where "s' = appended sid m' c s"
    using assms(2) by (auto simp: event_inv_def)
  then show ?thesis using assms(3) by (simp add: appended_def map_wf_update)
qed

lemma chains_wf_view:
  "event_view s' = event_view s \<Longrightarrow> map_wf (eventWriteChains s) \<Longrightarrow> map_wf (eventWriteChains s')"
  by (simp add: event_view_def)

lemma chains_wf_written: "map_wf (eventWriteChains s) \<Longrightarrow> map_wf (eventWriteChains (write_step err f s))"
  by (auto simp: write_step_def finish_write_def remove_file_def Let_def
      intro!: map_wf_update map_wf_delete split: option.splits list.splits)

lemma chains_wf_detached: "map_wf (eventWriteChains s) \<Longrightarrow> map_wf (eventWriteChains (detached_step err i s))"
  by (auto simp: detached_step_def finish_write_def remove_file_def Let_def
      intro!: map_wf_delete split: list.splits prod.splits)

lemma chains_wf_drain: "map_wf (eventWriteChains s) \<Longrightarrow> map_wf (eventWriteChains (drain_chain n err f s))"
  by (induction n arbitrary: s) (simp_all add: chains_wf_written chains_wf_detached)

lemma chains_wf_flush:
  assumes "map_wf (eventWriteChains s)" shows "map_wf (eventWriteChains (flush err s))"
proof -
  have "map_wf (eventWriteChains (drain_all err qs t))" if "map_wf (eventWriteChains t)" for qs t
    by (rule fold_invariant [where Q = "\<lambda>_. True"]) (use that chains_wf_drain in auto)
  then show ?thesis using assms by (simp add: flush_def flush_snapshot_frame Let_def)
qed

lemma chains_wf_delete:
  assumes "sess_inv s" "map_wf (eventWriteChains s)"
  shows "map_wf (eventWriteChains (snd (deleteSession sid s)))"
proof -
  have "event_view (delete_sessions_part sid s) = event_view s"
    using delete_sessions_part_step [OF assms(1)] by blast
  then have "map_wf (eventWriteChains (delete_sessions_part sid s))" using assms(2) chains_wf_view by blast
  then show ?thesis
    by (auto simp: deleteSession_parts delete_log_part_def remove_file_def Let_def
        intro!: map_wf_update map_wf_delete split: option.splits)
qed

lemma chains_wf_step:
  assumes inv: "event_inv s" and ord: "orderly s op" and step: "store_step op s = (l, s')"
    and wf: "map_wf (eventWriteChains s)"
  shows "map_wf (eventWriteChains s')"
proof -
  have sess: "sess_inv s" using inv by (simp add: event_inv_def)
  have silent: "map_wf (eventWriteChains t)" if "session_step s t" for t
    using that wf chains_wf_view [of t s] by (simp add: session_step_def)
  show ?thesis
  proof (cases op)
    case (OpAppend m)
    obtain a t where a: "appendEvent m s = (a, t)" by fastforce
    have "s' = t" using step OpAppend a by (auto split: option.splits)
    moreover have "t = s" if "a = None"
      using that a by (auto simp: appendEvent_def Let_def split: option.splits if_splits prod.splits)
    ultimately show ?thesis using chains_wf_append [OF inv _ wf] wf a by (cases a) auto
  next
    case (OpList sid)
    then have "log_ok s sid" using inv ord by (simp add: event_inv_def)
    then show ?thesis using step OpList listEvents_eq [of s sid] wf by (auto simp: set_latest_def)
  next
    case (OpSave x)
    then show ?thesis using wf step chains_wf_view [of s' s] by auto
  next
    case (OpUpsert xs)
    then show ?thesis using silent session_step_upsert [OF sess] ord step by (auto simp: list_all_iff)
  next
    case (OpUpdate sid f)
    then show ?thesis using wf step chains_wf_view [of s' s] by auto
  qed (use silent session_steps [OF sess] step wf chains_wf_written chains_wf_detached chains_wf_flush
       chains_wf_delete [OF sess] in auto)
qed

lemma chains_wf_run:
  "event_inv s \<Longrightarrow> orderly_run s ops \<Longrightarrow> store_run ops s = (ls, t) \<Longrightarrow> map_wf (eventWriteChains s) \<Longrightarrow>
   map_wf (eventWriteChains t)"
proof (induction ops arbitrary: s ls)
  case (Cons op ops)
  obtain l s1 where 1: "store_step op s = (l, s1)" by fastforce
  have "event_inv s1" "map_wf (eventWriteChains s1)"
    using Cons.prems orderly_sim [OF Cons.prems(1) _ 1] chains_wf_step [OF Cons.prems(1) _ 1] by auto
  then show ?case
    using Cons.IH [of s1] Cons.prems 1 by (auto split: prod.splits)
qed simp

section \<open>Reading back\<close>

lemma restart_lines:
  "disk_lines (new_store now_iso (disk s)) x = disk_lines s x"
  by (simp add: disk_lines_def new_store_fields)

lemma restart_timeline:
  "chain s x = [] \<Longrightarrow> timeline (new_store now_iso (disk s)) x = timeline s x"
  by (simp add: timeline_def restart_lines pending_def chain_def new_store_fields)

lemma restart_list:
  assumes "NullLine \<notin> set (disk_lines s x)" "chain s x = []"
  shows "fst (listEvents x (new_store now_iso (disk s))) = timeline s x"
proof -
  let ?t = "new_store now_iso (disk s)"
  have "log_ok ?t x"
    using assms by (simp add: log_ok_def restart_lines pending_def chain_def new_store_fields)
  then show ?thesis using listEvents_eq restart_timeline [OF assms(2)] by simp
qed

lemma map_of_fold_update:
  "distinct (map k xs) \<Longrightarrow> p \<in> set xs \<Longrightarrow> map_of (fold (\<lambda>p. AList.update (k p) (v p)) xs m) (k p) = Some (v p)"
proof (induction xs rule: rev_induct)
  case Nil
  then show ?case by simp
next
  case (snoc x xs)
  then show ?case by (cases "p = x") (auto simp: image_iff)
qed

lemma listSessions_perm: "mset (listSessions s) = mset (map snd (sessions s))"
  by (simp add: listSessions_def)

lemma listSessions_distinct:
  assumes "sess_inv s" "map_wf (sessions s)"
  shows "distinct (map s_id (listSessions s))"
proof -
  have "map s_id (map snd (sessions s)) = map fst (sessions s)"
    using assms by (auto simp: sess_inv_def keyed_def)
  then have "distinct (map s_id (map snd (sessions s)))" using assms(2) by (simp only:)
  then show ?thesis
    using listSessions_perm [of s] by (metis mset_eq_imp_distinct_iff mset_map)
qed

text \<open>A session as the next process sees it.\<close>

definition restarted :: "string \<Rightarrow> gateway_session \<Rightarrow> gateway_session" where
  "restarted now_iso x =
     normalizePersistedSession now_iso (Persisted (Some (sessionPolicyMode x)) (json_roundtrip_session x))"

lemma json_roundtrip_id: "s_id (json_roundtrip_session x) = s_id x"
  by (simp add: json_roundtrip_session_def)

lemma restart_session:
  assumes inv: "sess_inv s" "map_wf (sessions s)" and x: "map_of (sessions s) sid = Some x"
    and f: "sessionsFile d = Content (map (\<lambda>x. Persisted (Some (sessionPolicyMode x)) (json_roundtrip_session x)) (listSessions s))"
  shows "map_of (sessions (new_store now_iso d)) sid = Some (restarted now_iso x)"
proof -
  let ?P = "\<lambda>x. Persisted (Some (sessionPolicyMode x)) (json_roundtrip_session x)"
  have sid: "s_id x = sid" using inv(1) x by (auto simp: sess_inv_def dest: keyedD)
  have mem: "x \<in> set (listSessions s)"
    using x listSessions_perm [of s] by (metis image_eqI map_of_SomeD set_map set_mset_mset snd_conv)
  have "map_of (fold (\<lambda>p. AList.update (s_id (p_session p)) (normalizePersistedSession now_iso p)) (map ?P (listSessions s)) [])
      (s_id (p_session (?P x))) = Some (normalizePersistedSession now_iso (?P x))"
    by (rule map_of_fold_update)
      (use mem listSessions_distinct [OF inv] in \<open>simp_all add: comp_def json_roundtrip_id\<close>)
  then show ?thesis
    by (simp add: new_store_fields f restarted_def sid json_roundtrip_id)
qed

text \<open>C7. A flush followed by a restart loses no event: after any orderly run of the store, with the disk
  writable until the flush is over, the new process lists for every session that is not deleted
  exactly what the old one would have listed, whatever part of it was still queued when the flush
  began. The conditions of an orderly run are those of the refinement of the log; in particular no
  deleted session is saved again before its file, queue and cached entries are gone, which is needed:
  see \<open>resaved_session_loses_event\<close>.\<close>

theorem flush_restart_keeps_logs:
  assumes "clean_disk d" "orderly_run (new_store t d) ops" "store_run ops (new_store t d) = (ls, s)"
    and "disk_writable (disk s)" "sid \<notin> set (deletedSessions s)"
  shows "fst (listEvents sid (new_store t' (disk (flush err s)))) = fst (listEvents sid s)
         \<and> fst (listEvents sid s) = timeline s sid"
proof -
  have inv: "event_inv s" by (rule new_store_run(1) [OF assms(1-3)])
  have wf: "map_wf (eventWriteChains s)"
    by (rule chains_wf_run [OF new_store_inv [OF assms(1)] assms(2,3)]) (simp add: new_store_fields)
  note fl = flush_drains [OF inv assms(4) wf assms(5), of err]
  have "NullLine \<notin> set (disk_lines (flush err s) sid)" using fl(1) by (simp add: log_ok_def)
  from restart_list [OF this fl(3)] fl(2) show ?thesis
    using listEvents_eq [of s sid] inv assms(5) by (simp add: event_inv_def)
qed

lemma flush_restart_keeps_logs_witness:
  "fst (listEvents ''s'' (new_store ''2026-01-02T00:00:00.000Z'' (disk (flush ''EIO'' sample_stored)))) =
   fst (listEvents ''s'' sample_stored)"
  using flush_restart_keeps_logs [OF sample_stored_run sample_stored_facts(3,1)] by blast

text \<open>The condition on deleted sessions is needed: an event is appended, the session is deleted with
  the write still queued and saved again, and a second event is appended; when the first write
  completes, \<open>removeFile\<close> takes the chain with the second event out of the map. A flush then does
  not wait for it: the process has listed the event, and the next one does not.\<close>

definition resaved_store :: store where
  "resaved_store =
     write_step ''EIO'' (event_file ''s'')
       (snd (appendEvent (sample_message ''s'')
         (saveSession (sample_session ''s'') (snd (deleteSession ''s'' sample_stored)))))"

lemma resaved_session_loses_event:
  "fst (listEvents ''s'' resaved_store) = [(sample_message ''s'')\<lparr>m_eventSeq := Some 1\<rparr>]
   \<and> fst (listEvents ''s'' (new_store ''2026-01-02T00:00:00.000Z'' (disk (flush ''EIO'' resaved_store)))) = []"
  by code_simp

section \<open>A queued event that drops out of the cache\<close>

text \<open>One event in each of \<open>n\<close> new sessions.\<close>

definition nth_session :: "nat \<Rightarrow> string" where
  "nth_session i = replicate (Suc i) (CHR ''s'')"

fun many_appends :: "nat \<Rightarrow> store" where
  "many_appends 0 = sample_store"
| "many_appends (Suc n) = snd (appendEvent (sample_message (nth_session n)) (many_appends n))"

lemma nth_session_inj [simp]: "nth_session i = nth_session j \<longleftrightarrow> i = j"
  unfolding nth_session_def by (metis length_replicate old.nat.inject)

text \<open>The first event of a session that the store knows nothing about.\<close>

lemma append_fresh:
  assumes fresh: "fresh_log s sid" and wf: "map_wf (eventCache s)"
    and msg: "m_sessionId m = Some sid" "sid \<noteq> []" "sid \<notin> set (deletedSessions s)" "m_eventSeq m = None"
  shows "appendEvent m s = (Some (m\<lparr>m_eventSeq := Some 1\<rparr>),
     appended sid (m\<lparr>m_eventSeq := Some 1\<rparr>) \<lparr>c_entries = [], c_complete = True\<rparr> s)"
proof -
  have ok: "log_ok s sid" and T: "timeline s sid = []" and D: "readEventsFromDisk s sid = []"
    using fresh
    by (simp_all add: fresh_log_def log_ok_def timeline_def pending_def readEventsFromDisk_def read_lines_def)
  have m: "numbered s sid m = m\<lparr>m_eventSeq := Some 1\<rparr>"
    by (simp add: numbered_def T choose_seq_def msg(4))
  have latest: "latest_seq sid s = (None, s\<lparr>eventCache := touch EVENT_CACHE_MAX_SESSIONS sid
      \<lparr>c_entries = [], c_complete = True\<rparr> (eventCache s)\<rparr>)"
    using fresh
    by (simp add: latest_seq_def listEvents_eq [OF ok] T set_latest_def last_seq_def cached_complete_def
        bounded_entry_drop fresh_log_def)
  have "appendEvent m s = (Some (m\<lparr>m_eventSeq := Some 1\<rparr>), appended sid (m\<lparr>m_eventSeq := Some 1\<rparr>)
      \<lparr>c_entries = [], c_complete = True\<rparr> (s\<lparr>eventCache := touch EVENT_CACHE_MAX_SESSIONS sid
      \<lparr>c_entries = [], c_complete = True\<rparr> (eventCache s)\<rparr>))"
    by (rule appendEvent_cached [OF latest]) (use msg ec.put_same [OF wf] in \<open>simp_all add: choose_seq_def\<close>)
  then show ?thesis
    using wf by (simp add: appended_def touch_touch EVENT_CACHE_MAX_SESSIONS_def)
qed

lemma touch_keys_fresh:
  assumes "map_wf m" "k \<notin> fst ` set m"
  shows "map fst (touch cap k v m) = drop (Suc (length m) - cap) (map fst m @ [k])"
proof -
  have "map_wf (m @ [(k, v)])" using assms by simp
  then show ?thesis
    using assms(2) by (simp add: touch_eq delete_fresh evict_oldest_drop del: drop_append flip: drop_map)
qed

lemma many_appends_state:
  defines "ev \<equiv> \<lambda>i. (sample_message (nth_session i))\<lparr>m_eventSeq := Some 1\<rparr>"
  shows "map fst (eventCache (many_appends n)) = drop (n - EVENT_CACHE_MAX_SESSIONS) (map nth_session [0..<n])
    \<and> (\<forall>i. chain (many_appends n) (nth_session i) = (if i < n then [(ev i, False)] else []))
    \<and> (\<forall>i\<ge>n. map_of (latestSeqBySession (many_appends n)) (nth_session i) = None)
    \<and> eventFiles (disk (many_appends n)) = [] \<and> detachedWrites (many_appends n) = []
    \<and> deletedSessions (many_appends n) = []"
proof (induction n)
  case 0
  show ?case by (simp add: sample_store_def new_store_fields chain_def empty_disk_def)
next
  case (Suc n)
  let ?s = "many_appends n" and ?sid = "nth_session n" and ?cap = EVENT_CACHE_MAX_SESSIONS
  have wf: "map_wf (eventCache ?s)" using Suc by (simp add: distinct_map inj_on_def)
  have notin: "?sid \<notin> fst ` set (eventCache ?s)"
    using Suc set_drop_subset [of "n - ?cap" "map nth_session [0..<n]"] unfolding set_map [symmetric] by auto
  then have none: "map_of (eventCache ?s) ?sid = None" by (simp add: map_of_eq_None_iff)
  then have fresh: "fresh_log ?s ?sid" using Suc by (simp add: fresh_log_def disk_lines_def)
  have step: "many_appends (Suc n) = appended ?sid (ev n) \<lparr>c_entries = [], c_complete = True\<rparr> ?s"
    using append_fresh [OF fresh wf, of "sample_message ?sid"] Suc
    by (simp add: sample_message_def ev_def) (simp add: nth_session_def)
  have len: "length (eventCache ?s) = n - (n - ?cap)"
    using Suc by (metis length_drop length_map length_upt minus_nat.diff_0)
  have keys: "map fst (eventCache (many_appends (Suc n))) = drop (Suc n - ?cap) (map nth_session [0..<Suc n])"
    unfolding step appended_def
    using touch_keys_fresh [OF wf notin, of ?cap] Suc len
    by (simp add: EVENT_CACHE_MAX_SESSIONS_def)
      (rule arg_cong [where f = "\<lambda>k. drop k (map nth_session [0..<n])"], arith)
  show ?case
    using Suc keys unfolding step by (auto simp: appended_def chain_def split: if_splits)
qed

text \<open>The condition of the refinement on evictions is needed: after one event in each of 65
  sessions, with no write completed yet, the first session has left the cache while its event is
  still queued, and a listing answers that it has no events.\<close>

theorem evicted_pending_event_is_lost:
  "pending (many_appends 65) (nth_session 0) = [(sample_message (nth_session 0))\<lparr>m_eventSeq := Some 1\<rparr>]
   \<and> fst (listEvents (nth_session 0) (many_appends 65)) = []"
proof
  let ?s = "many_appends 65"
  note st = many_appends_state [of 65]
  then show "pending ?s (nth_session 0) = [(sample_message (nth_session 0))\<lparr>m_eventSeq := Some 1\<rparr>]"
    by (simp add: pending_def)
  have "drop 1 (map nth_session [0..<65]) = map nth_session [1..<65]" by (simp add: drop_map)
  with st have "nth_session 0 \<notin> set (map fst (eventCache ?s))"
    by (auto simp: EVENT_CACHE_MAX_SESSIONS_def)
  then have "map_of (eventCache ?s) (nth_session 0) = None" by (simp add: map_of_eq_None_iff)
  with st show "fst (listEvents (nth_session 0) ?s) = []"
    by (simp add: listEvents_def getCachedEvents_def mergeEvents_def readEventsFromDisk_def read_lines_def
        disk_lines_def last_seq_def Let_def)
qed

end
