(* ===== verification/StoreLedger.thy ===== *)
theory StoreLedger
  imports StoreRestart
begin

text \<open>
  The idempotency ledgers and the relations of the store: retried client requests, retried create
  requests, reservations of requests in flight, subagent links and the deletion of a session.
\<close>

section \<open>Recency windows\<close>

text \<open>
  Both the ledger of a session and the reservation maps keep the newest entries. \<open>recent_within n x
  xs\<close> says that at most \<open>n\<close> entries are newer than \<open>x\<close>.
\<close>

definition recent_within :: "nat \<Rightarrow> 'a \<Rightarrow> 'a list \<Rightarrow> bool" where
  "recent_within n x xs \<longleftrightarrow> (\<exists>us vs. xs = us @ x # vs \<and> length vs \<le> n)"

lemma recent_within_mem: "recent_within n x xs \<Longrightarrow> x \<in> set xs"
  by (auto simp: recent_within_def)

lemma recent_within_snoc: "recent_within 0 x (xs @ [x])"
  by (auto simp: recent_within_def)

lemma recent_within_push: "recent_within n x xs \<Longrightarrow> recent_within (Suc n) x (xs @ [y])"
proof -
  assume "recent_within n x xs"
  then obtain us vs where "xs = us @ x # vs" "length vs \<le> n" by (auto simp: recent_within_def)
  then have "xs @ [y] = us @ x # (vs @ [y])" "length (vs @ [y]) \<le> Suc n" by auto
  then show ?thesis unfolding recent_within_def by blast
qed

lemma recent_within_mono: "recent_within n x xs \<Longrightarrow> n \<le> k \<Longrightarrow> recent_within k x xs"
  unfolding recent_within_def by (elim exE conjE) (intro exI conjI, assumption, erule (1) le_trans)

lemma recent_within_slice:
  assumes "recent_within n x xs" "n < cap" shows "recent_within n x (slice_last cap xs)"
proof -
  from assms obtain us vs where xs: "xs = us @ x # vs" "length vs \<le> n" by (auto simp: recent_within_def)
  then have "slice_last cap xs = drop (length us + Suc (length vs) - cap) us @ x # vs"
    using assms(2) by (simp add: slice_last_def)
  then show ?thesis using xs(2) unfolding recent_within_def by blast
qed

lemma recent_within_filter:
  assumes "recent_within n x xs" "P x" shows "recent_within n x (filter P xs)"
proof -
  from assms obtain us vs where xs: "xs = us @ x # vs" "length vs \<le> n" by (auto simp: recent_within_def)
  then have "filter P xs = filter P us @ x # filter P vs" "length (filter P vs) \<le> n"
    using assms(2) by (auto intro: order_trans [OF length_filter_le])
  then show ?thesis unfolding recent_within_def by blast
qed

section \<open>Retried turn requests\<close>

lemma unique_snoc: "unique (xs @ [x]) = set_add x (unique xs)"
  by (simp add: unique_def)

lemma unique_distinct: "distinct xs \<Longrightarrow> unique xs = xs"
proof (induction xs rule: rev_induct)
  case Nil
  then show ?case by (simp add: unique_def)
next
  case (snoc x xs)
  then show ?case by (simp add: unique_snoc set_add_def)
qed

lemma unique_set [simp]: "set (unique xs) = set xs"
  by (induction xs rule: rev_induct) (simp_all add: unique_snoc, simp add: unique_def)

lemma distinct_unique [simp]: "distinct (unique xs)"
  by (induction xs rule: rev_induct) (simp_all add: unique_snoc set_add_distinct, simp add: unique_def)

definition ledger_ids :: "gateway_session \<Rightarrow> string list" where
  "ledger_ids x = (case prop_get (recentClientRequestIds x) of Some ids \<Rightarrow> ids | None \<Rightarrow> [])"

text \<open>The ledger of a session holds at most 128 distinct, non-empty request ids.\<close>

definition ledger_ok :: "store \<Rightarrow> string \<Rightarrow> bool" where
  "ledger_ok s sid =
     (case getSession s sid of
        Some x \<Rightarrow> s_id x = sid \<and> distinct (ledger_ids x) \<and> [] \<notin> set (ledger_ids x) \<and> length (ledger_ids x) \<le> 128
      | None \<Rightarrow> False)"

definition push_id :: "string \<Rightarrow> string list \<Rightarrow> string list" where
  "push_id rid ids = slice_last 128 (set_add rid ids)"

lemma remember_ledger:
  assumes "ledger_ok s sid" "getSession s sid = Some x" "rid \<noteq> []"
  shows "ledger_ok (rememberClientRequest sid rid s) sid
    \<and> (\<exists>x'. getSession (rememberClientRequest sid rid s) sid = Some x' \<and> ledger_ids x' = push_id rid (ledger_ids x))"
proof -
  have x: "s_id x = sid" "distinct (ledger_ids x)" "[] \<notin> set (ledger_ids x)"
    using assms by (auto simp: ledger_ok_def)
  have f: "filter (\<lambda>v. v \<noteq> []) (ledger_ids x @ [rid]) = ledger_ids x @ [rid]"
    using x(3) assms(3) by (auto simp: filter_id_conv)
  then have ids: "slice_last 128 (unique (filter (\<lambda>v. v \<noteq> []) (ledger_ids x @ [rid]))) = push_id rid (ledger_ids x)"
    unfolding push_id_def by (simp only: f unique_snoc unique_distinct [OF x(2)])
  let ?y = "x\<lparr>recentClientRequestIds := Val (push_id rid (ledger_ids x)), lastClientRequestId := Val rid\<rparr>"
  have get: "getSession (releaseClientRequest sid rid s) sid = Some x"
    using assms(2) by (simp add: getSession_def releaseClientRequest_def)
  have "rememberClientRequest sid rid s = saveSession ?y (releaseClientRequest sid rid s)"
    using assms(3) get ids by (simp add: rememberClientRequest_def ledger_ids_def Let_def)
  then have "getSession (rememberClientRequest sid rid s) sid = Some ?y"
    using x(1) by (simp add: saveSession_def persistSessions_def getSession_def)
  moreover have "distinct (push_id rid (ledger_ids x))" "[] \<notin> set (push_id rid (ledger_ids x))"
    "length (push_id rid (ledger_ids x)) \<le> 128"
    using x assms(3) set_slice_last [of 128 "set_add rid (ledger_ids x)"]
    by (auto simp: push_id_def set_add_distinct distinct_slice_last)
  ultimately show ?thesis using x(1) by (simp add: ledger_ok_def) (simp add: ledger_ids_def)
qed

lemma push_id_recent:
  "recent_within n rid ids \<Longrightarrow> Suc n < 128 \<Longrightarrow> recent_within (Suc n) rid (push_id r ids)"
  unfolding push_id_def set_add_def
  by (auto intro!: recent_within_slice intro: recent_within_push recent_within_mono)

text \<open>The ledger of a session through any operation of the store.\<close>

definition ledger_at :: "store \<Rightarrow> string \<Rightarrow> string list opt_prop option" where
  "ledger_at s sid = map_option recentClientRequestIds (getSession s sid)"

text \<open>
  An operation leaves the ledger of a session alone if it does not delete the session, and whatever
  it writes as the session carries the ledger that is stored at that moment; a partial session
  passed to \<open>upsertSessions\<close> may also have none. An update keeps the id of the session it changes.
\<close>

fun leaves_ledger :: "string \<Rightarrow> store \<Rightarrow> store_op \<Rightarrow> bool" where
  "leaves_ledger sid s (OpDelete x) = (x \<noteq> sid)"
| "leaves_ledger sid s (OpSave x) = (s_id x \<noteq> sid \<or> ledger_at s sid = Some (recentClientRequestIds x))"
| "leaves_ledger sid s (OpUpsert xs) =
     list_all (\<lambda>x. s_id x \<noteq> sid \<or> recentClientRequestIds x = Missing
                   \<or> ledger_at s sid = Some (recentClientRequestIds x)) xs"
| "leaves_ledger sid s (OpUpdate y f) =
     (case getSession s y of
        None \<Rightarrow> True
      | Some x \<Rightarrow> s_id (f x) = s_id x \<and> (y \<noteq> sid \<or> recentClientRequestIds (f x) = recentClientRequestIds x))"
| "leaves_ledger sid s _ = True"

fun ledger_run :: "string \<Rightarrow> store \<Rightarrow> store_op list \<Rightarrow> bool" where
  "ledger_run sid s [] = True"
| "ledger_run sid s (op # ops) = (leaves_ledger sid s op \<and> ledger_run sid (snd (store_step op s)) ops)"

fun remembers :: "string \<Rightarrow> store_op \<Rightarrow> bool" where
  "remembers sid (OpRemember x r) = (x = sid)"
| "remembers sid _ = False"

definition own_ids :: "store \<Rightarrow> bool" where
  "own_ids s = keyed [] (sessions s)"

lemma event_ops_sessions [simp]:
  "sessions (snd (listEvents sid s)) = sessions s"
  "sessions (snd (latest_seq sid s)) = sessions s"
  "sessions (snd (appendEvent m s)) = sessions s"
  "sessions (drain_chain n err f s) = sessions s"
  "sessions (flush_snapshot s) = sessions s"
  "sessions (persist_timer_fires s) = sessions s"
  "sessions (releaseClientRequest sid rid s) = sessions s"
  "sessions (releaseCreateRequest rid s) = sessions s"
  "sessions (snd (takeEventWriteErrors s)) = sessions s"
  "sessions (snd (reserveClientRequest now_ms sid rid s)) = sessions s"
  "sessions (snd (reserveCreateRequest now_ms rid s)) = sessions s"
  "sessions (rememberCreateRequest now_ms rid sid s) = sessions s"
proof -
  show list: "sessions (snd (listEvents sid s)) = sessions s" for sid s
    by (simp add: listEvents_def getCachedEvents_def cacheEvents_def Let_def split: option.splits)
  show latest: "sessions (snd (latest_seq sid s)) = sessions s" for sid s
    using list [of sid s] by (auto simp: latest_seq_def split: option.splits prod.splits)
  show "sessions (snd (appendEvent m s)) = sessions s"
    using latest [of _ s]
    by (auto simp: appendEvent_def getCachedEvents_def cacheEvents_def queueEventWrite_def Let_def
        split: option.splits prod.splits) (metis snd_conv)+
  show "sessions (drain_chain n err f s) = sessions s" by (induction n arbitrary: s) simp_all
  show "sessions (snd (reserveCreateRequest now_ms rid s)) = sessions s"
    using getCreate_frame(2) [of rid s]
    by (auto simp: reserveCreateRequest_def reserve_new_frame Let_def split: prod.splits option.splits)
qed (simp_all add: flush_snapshot_def persist_timer_fires_def releaseClientRequest_def releaseCreateRequest_def
      takeEventWriteErrors_def reserveClientRequest_def rememberCreateRequest_def Let_def)

lemma flush_sessions [simp]: "sessions (flush err s) = sessions s"
proof -
  have "sessions (drain_all err qs t) = sessions t" for qs t
    by (induction qs arbitrary: t) auto
  then show ?thesis by (simp add: flush_def Let_def)
qed

text \<open>What the operations keep: every session is stored under its own id, and the ledger.\<close>

definition keeps_ledger :: "string \<Rightarrow> store \<Rightarrow> store \<Rightarrow> bool" where
  "keeps_ledger sid s t \<longleftrightarrow> (own_ids s \<longrightarrow> own_ids t \<and> ledger_at t sid = ledger_at s sid)"

lemma keeps_ledger_trans: "keeps_ledger sid s t \<Longrightarrow> keeps_ledger sid t u \<Longrightarrow> keeps_ledger sid s u"
  by (simp add: keeps_ledger_def)

lemma same_sessions_ledger: "sessions t = sessions s \<Longrightarrow> keeps_ledger sid s t"
  by (simp add: keeps_ledger_def ledger_at_def getSession_def own_ids_def)

lemma update_ledger:
  assumes "\<And>x. getSession s y = Some x \<Longrightarrow> s_id (f x) = s_id x"
    and "\<And>x. getSession s y = Some x \<Longrightarrow> y \<noteq> sid \<or> recentClientRequestIds (f x) = recentClientRequestIds x"
  shows "keeps_ledger sid s (snd (updateSession y f s))"
proof (cases "getSession s y")
  case (Some x)
  have "sessions (snd (updateSession y f s)) = AList.update (s_id x) (f x) (sessions s)"
    using Some assms(1) by (simp add: updateSession_def saveSession_def Let_def)
  moreover have "s_id x = y" if "own_ids s"
    using that Some by (auto simp: own_ids_def getSession_def dest: keyedD)
  ultimately show ?thesis
    using Some assms by (auto simp: keeps_ledger_def own_ids_def ledger_at_def getSession_def intro!: keyed_update)
qed (simp add: updateSession_def keeps_ledger_def)

lemma cond_update_ledger:
  assumes "keeps_ledger sid s t"
    and "\<And>x. s_id (f x) = s_id x" "\<And>x. recentClientRequestIds (f x) = recentClientRequestIds x"
  shows "keeps_ledger sid s (if b then snd (updateSession y f t) else t)"
  using assms keeps_ledger_trans [OF assms(1) update_ledger] by simp

lemma link_ledger: "keeps_ledger sid s (linkSubagent p c s)"
proof (cases "p = [] \<or> c = [] \<or> p = c")
  case False
  show ?thesis
    unfolding linkSubagent_def Let_def if_not_P [OF False]
    by (intro cond_update_ledger same_sessions_ledger) simp_all
qed (auto simp: linkSubagent_def keeps_ledger_def)

lemma delete_ledger:
  assumes "x \<noteq> sid" shows "keeps_ledger sid s (snd (deleteSession x s))"
proof -
  let ?s1 = "s\<lparr>deletedSessions := set_add x (deletedSessions s), sessions := AList.delete x (sessions s)\<rparr>"
  let ?s2 = "if map_has (sessions s) x then persistSessions ?s1 else ?s1"
  let ?s3 = "?s2\<lparr>subagentRelations := filter (\<lambda>(c, p). p \<noteq> x) (AList.delete x (subagentRelations ?s2))\<rparr>"
  have s1: "keeps_ledger sid s ?s1"
    using assms by (auto simp: keeps_ledger_def own_ids_def ledger_at_def getSession_def keyed_def map_of_delete)
  have s3: "keeps_ledger sid s ?s3"
    by (rule keeps_ledger_trans [OF s1 same_sessions_ledger]) simp
  have s4: "keeps_ledger sid s
      (case r of Some p \<Rightarrow> if p \<noteq> [] \<and> map_has (sessions ?s3) p then snd (updateSession p f ?s3) else ?s3
       | None \<Rightarrow> ?s3)"
    if "\<And>x. s_id (f x) = s_id x" "\<And>x. recentClientRequestIds (f x) = recentClientRequestIds x" for r f
    using cond_update_ledger [OF s3 that] s3 by (cases r) (simp_all only: option.case)
  have last: "keeps_ledger sid s
      (if b then persistCreateRequests ((persistRelations t)\<lparr>createRequests := k\<rparr>) else persistRelations t)"
    if "keeps_ledger sid s t" for t b k
    by (rule keeps_ledger_trans [OF that same_sessions_ledger]) simp
  have part: "keeps_ledger sid s (delete_sessions_part x s)"
    unfolding delete_sessions_part_def Let_def by (rule last, rule s4) simp_all
  then show ?thesis
    unfolding deleteSession_parts snd_conv
    by (rule keeps_ledger_trans [OF _ same_sessions_ledger]) (simp add: delete_log_part_frame)
qed

lemma upsert_ledger:
  assumes "ledger_at s sid = Some L" "leaves_ledger sid s (OpUpsert xs)"
  shows "keeps_ledger sid s (snd (upsertSessions xs s))"
proof -
  let ?f = "\<lambda>x m. AList.update (s_id x) (merge_session (map_of m (s_id x)) x) m"
  have id: "s_id (merge_session e x) = s_id x" for e x
    by (simp add: merge_session_def session_spread_def split: option.splits)
  have rec: "recentClientRequestIds (merge_session (Some e) x) = prop_spread (recentClientRequestIds e) (recentClientRequestIds x)" for e x
    by (simp add: merge_session_def session_spread_def)
  have "keyed [] (fold ?f xs (sessions s)) \<and> map_option recentClientRequestIds (map_of (fold ?f xs (sessions s)) sid) = Some L"
    if "own_ids s"
  proof (rule fold_invariant [where Q = "\<lambda>x. x \<in> set xs"])
    fix x m
    assume x: "x \<in> set xs" and m: "keyed [] m \<and> map_option recentClientRequestIds (map_of m sid) = Some L"
    then have "s_id x \<noteq> sid \<or> recentClientRequestIds x = Missing \<or> recentClientRequestIds x = L"
      using assms by (auto simp: list_all_iff)
    then show "keyed [] (?f x m) \<and> map_option recentClientRequestIds (map_of (?f x m) sid) = Some L"
      using m by (auto simp: id rec prop_spread_def intro!: keyed_update split: opt_prop.splits)
  qed (use that assms in \<open>simp_all add: own_ids_def ledger_at_def getSession_def\<close>)
  then show ?thesis
    using assms by (simp add: keeps_ledger_def own_ids_def upsertSessions_def Let_def)
      (simp add: ledger_at_def getSession_def)
qed

lemma remember_own_ids: "own_ids s \<Longrightarrow> own_ids (rememberClientRequest x rid s)"
  by (auto simp: rememberClientRequest_def own_ids_def saveSession_def Let_def intro!: keyed_update
      split: option.splits)

lemma remember_other_ledger:
  assumes "x \<noteq> sid" shows "keeps_ledger sid s (rememberClientRequest x rid s)"
proof -
  have "getSession (rememberClientRequest x rid s) sid = getSession s sid" if "own_ids s"
    using that assms
    by (auto simp: rememberClientRequest_def saveSession_def getSession_def own_ids_def Let_def
        split: option.splits dest: keyedD)
  then show ?thesis by (simp add: keeps_ledger_def remember_own_ids ledger_at_def)
qed

lemma op_ledger:
  assumes "leaves_ledger sid s op" "\<not> remembers sid op" "ledger_at s sid = Some L"
  shows "keeps_ledger sid s (snd (store_step op s))"
proof (cases op)
  case (OpAppend m)
  then have "snd (store_step op s) = snd (appendEvent m s)" by (auto split: option.splits prod.splits)
  then show ?thesis by (simp add: same_sessions_ledger)
next
  case (OpSave x)
  have "keyed [] (AList.update (s_id x) x (sessions s))" if "own_ids s"
    using that by (simp add: own_ids_def keyed_update)
  then show ?thesis
    using OpSave assms(1) by (auto simp: keeps_ledger_def own_ids_def saveSession_def)
      (auto simp: ledger_at_def getSession_def)
next
  case (OpUpdate y f)
  then show ?thesis using assms(1) by (auto intro!: update_ledger)
qed (use assms upsert_ledger [OF assms(3)] link_ledger delete_ledger remember_other_ledger in
     \<open>auto intro!: same_sessions_ledger simp: case_prod_beta\<close>)

lemma ledger_run_recent:
  assumes "own_ids s" "ledger_ok s sid" "getSession s sid = Some x" "recent_within n rid (ledger_ids x)"
    and "n + length (filter (remembers sid) ops) < 128" "ledger_run sid s ops"
  shows "\<exists>x'. getSession (snd (store_run ops s)) sid = Some x' \<and> rid \<in> set (ledger_ids x')"
  using assms
proof (induction ops arbitrary: s x n)
  case Nil
  then show ?case by (auto dest: recent_within_mem)
next
  case (Cons op ops)
  let ?t = "snd (store_step op s)"
  have run: "snd (store_run (op # ops) s) = snd (store_run ops ?t)" by (simp add: case_prod_beta)
  have "\<exists>x' k. own_ids ?t \<and> ledger_ok ?t sid \<and> getSession ?t sid = Some x'
     \<and> recent_within k rid (ledger_ids x') \<and> k + length (filter (remembers sid) ops) < 128"
  proof (cases "\<exists>r. op = OpRemember sid r \<and> r \<noteq> []")
    case True
    then obtain r where r: "op = OpRemember sid r" "r \<noteq> []" by blast
    have "Suc n + length (filter (remembers sid) ops) < 128" using Cons.prems(5) r(1) by simp
    moreover from this have "recent_within (Suc n) rid (push_id r (ledger_ids x))"
      using push_id_recent [OF Cons.prems(4)] by simp
    ultimately show ?thesis
      using remember_ledger [OF Cons.prems(2,3) r(2)] remember_own_ids [OF Cons.prems(1)] r(1)
      by (metis snd_conv store_step.simps(14))
  next
    case False
    then have "keeps_ledger sid s ?t"
      using op_ledger [of sid s op] Cons.prems(3,6)
      by (cases op) (auto simp: ledger_at_def rememberClientRequest_def keeps_ledger_def)
    then have t: "own_ids ?t" "ledger_at ?t sid = ledger_at s sid"
      using Cons.prems(1) by (auto simp: keeps_ledger_def)
    then obtain x' where x': "getSession ?t sid = Some x'" "recentClientRequestIds x' = recentClientRequestIds x"
      using Cons.prems(3) by (auto simp: ledger_at_def)
    moreover have "s_id x' = sid" using t(1) x'(1) by (auto simp: own_ids_def getSession_def dest: keyedD)
    ultimately have "ledger_ok ?t sid" "ledger_ids x' = ledger_ids x"
      using Cons.prems(2,3) by (simp_all add: ledger_ok_def ledger_ids_def)
    moreover have "n + length (filter (remembers sid) ops) < 128"
      using Cons.prems(5) by (simp split: if_splits)
    ultimately show ?thesis using t(1) x'(1) Cons.prems(4) by auto
  qed
  then show ?case using Cons.IH [of ?t] Cons.prems(6) unfolding run by auto
qed

text \<open>C30. A turn request that has been remembered is refused when it is retried after any sequence
  of operations of the store in which fewer than 128 further requests of the session are remembered,
  the session is not deleted, and whatever is saved as the session in between carries the ledger
  that is stored at that moment (\<open>leaves_ledger\<close>). The last condition is needed: a caller that saves a session
  it has read before the request was remembered reverts the ledger, as the gateway does when a turn is accepted.\<close>

theorem remembered_request_is_refused:
  assumes "own_ids s" "ledger_ok s sid" "\<not> hasClientRequest s sid rid" "rid \<noteq> []" "sid \<noteq> []"
    and "ledger_run sid (rememberClientRequest sid rid s) ops" "length (filter (remembers sid) ops) < 128"
  shows "\<not> fst (reserveClientRequest now_ms sid rid (snd (store_run ops (rememberClientRequest sid rid s))))"
proof -
  let ?s1 = "rememberClientRequest sid rid s"
  obtain x where x: "getSession s sid = Some x" using assms(2) by (auto simp: ledger_ok_def split: option.splits)
  have new: "rid \<notin> set (ledger_ids x)"
    using assms(3,4) x by (auto simp: hasClientRequest_def ledger_ids_def split: option.splits)
  from remember_ledger [OF assms(2) x assms(4)] obtain x1 where
    x1: "ledger_ok ?s1 sid" "getSession ?s1 sid = Some x1" "ledger_ids x1 = push_id rid (ledger_ids x)" by blast
  have "recent_within 0 rid (ledger_ids x1)"
    using new unfolding x1(3) push_id_def set_add_def
    by (auto intro!: recent_within_slice recent_within_snoc)
  from ledger_run_recent [OF remember_own_ids [OF assms(1)] x1(1,2) this _ assms(6)] assms(7) obtain x2 where
    "getSession (snd (store_run ops ?s1)) sid = Some x2" "rid \<in> set (ledger_ids x2)" by auto
  then have "hasClientRequest (snd (store_run ops ?s1)) sid rid"
    using assms(4) by (auto simp: hasClientRequest_def ledger_ids_def split: option.splits)
  then show ?thesis using assms(4,5) by (simp add: reserveClientRequest_def)
qed

lemma remembered_request_is_refused_witness:
  "\<not> fst (reserveClientRequest 0 ''s'' ''r1''
       (snd (store_run [OpRemember ''s'' ''r2'', OpLink ''s'' ''t'', OpAppend (sample_message ''s''), OpDelete ''t'']
         (rememberClientRequest ''s'' ''r1'' (saveSession (sample_session ''s'') sample_store)))))"
proof (rule remembered_request_is_refused)
  show "own_ids (saveSession (sample_session ''s'') sample_store)"
    by (simp add: own_ids_def saveSession_def sample_store_def new_store_fields empty_disk_def keyed_def)
  show "ledger_ok (saveSession (sample_session ''s'') sample_store) ''s''" by code_simp
  show "\<not> hasClientRequest (saveSession (sample_session ''s'') sample_store) ''s'' ''r1''" by code_simp
qed simp_all

section \<open>Reservations of requests in flight\<close>

lemma pruneReservations_keeps:
  assumes "map_wf m" "recent_within n (key, t) m" "n < REQUEST_RESERVATION_MAX"
    and "now_ms < t + REQUEST_RESERVATION_TTL_MS"
  shows "map_wf (pruneReservations now_ms m)" "recent_within n (key, t) (pruneReservations now_ms m)"
proof -
  let ?f = "filter (\<lambda>(k, t). \<not> t \<le> now_ms - REQUEST_RESERVATION_TTL_MS) m"
  have wf: "map_wf ?f" by (rule map_wf_filter [OF assms(1)])
  have "recent_within n (key, t) ?f"
    by (rule recent_within_filter [OF assms(2)]) (use assms(4) in simp)
  then have "recent_within n (key, t) (slice_last REQUEST_RESERVATION_MAX ?f)"
    by (rule recent_within_slice [OF _ assms(3)])
  then show "recent_within n (key, t) (pruneReservations now_ms m)"
    using evict_oldest_drop [OF wf] by (simp add: pruneReservations_def slice_last_def Let_def)
  show "map_wf (pruneReservations now_ms m)"
    using evict_oldest_wf [OF wf] by (simp add: pruneReservations_def Let_def)
qed

lemma recent_within_has: "map_wf m \<Longrightarrow> recent_within n (k, t) m \<Longrightarrow> map_of m k = Some t"
  by (auto dest: recent_within_mem)

text \<open>A reservation of another request, at a time at which the first one is still valid.\<close>

definition reserve_other :: "int \<times> string \<times> string \<Rightarrow> store \<Rightarrow> store" where
  "reserve_other op s = (case op of (now_ms, sid, rid) \<Rightarrow> snd (reserveClientRequest now_ms sid rid s))"

lemma reserve_other_keeps:
  assumes "map_wf (clientRequestReservations s)" "recent_within n (key, t) (clientRequestReservations s)"
    and "n < REQUEST_RESERVATION_MAX" "now_ms < t + REQUEST_RESERVATION_TTL_MS"
  shows "map_wf (clientRequestReservations (snd (reserveClientRequest now_ms sid rid s)))
    \<and> recent_within (Suc n) (key, t) (clientRequestReservations (snd (reserveClientRequest now_ms sid rid s)))"
proof -
  let ?p = "pruneReservations now_ms (clientRequestReservations s)"
  let ?k = "reservation_key sid rid"
  note p = pruneReservations_keeps [OF assms]
  have "?k \<notin> fst ` set ?p \<Longrightarrow> AList.update ?k now_ms ?p = ?p @ [(?k, now_ms)]" by (rule update_fresh)
  moreover have "map_of ?p ?k = None \<longleftrightarrow> ?k \<notin> fst ` set ?p" by (rule map_of_eq_None_iff)
  ultimately show ?thesis
    using p recent_within_push [OF p(2), of "(?k, now_ms)"] recent_within_mono [OF p(2), of "Suc n"]
      recent_within_mono [OF assms(2), of "Suc n"] assms(1)
    by (auto simp: reserveClientRequest_def Let_def)
qed

lemma reserve_sessions [simp]: "sessions (snd (reserveClientRequest now_ms sid rid s)) = sessions s"
  by (simp add: reserveClientRequest_def Let_def)

lemma reserve_many_keeps:
  assumes "map_wf (clientRequestReservations s)" "recent_within n (key, t) (clientRequestReservations s)"
    and "n + length ops < REQUEST_RESERVATION_MAX" "\<forall>(u, sid, rid)\<in>set ops. u < t + REQUEST_RESERVATION_TTL_MS"
  shows "map_wf (clientRequestReservations (fold reserve_other ops s))
    \<and> recent_within (n + length ops) (key, t) (clientRequestReservations (fold reserve_other ops s))
    \<and> sessions (fold reserve_other ops s) = sessions s"
  using assms
proof (induction ops arbitrary: s n)
  case Nil
  then show ?case by simp
next
  case (Cons op ops)
  obtain u sid rid where op: "op = (u, sid, rid)" by (cases op)
  let ?s = "snd (reserveClientRequest u sid rid s)"
  have "map_wf (clientRequestReservations ?s) \<and> recent_within (Suc n) (key, t) (clientRequestReservations ?s)"
    by (rule reserve_other_keeps) (use Cons.prems op in auto)
  with Cons.IH [of ?s "Suc n"] Cons.prems show ?case by (simp add: op reserve_other_def)
qed

lemma reserved_newest:
  assumes "map_wf (clientRequestReservations s)" "reserveClientRequest t sid rid s = (True, s1)" "sid \<noteq> []" "rid \<noteq> []"
  shows "map_wf (clientRequestReservations s1)"
    "recent_within 0 (reservation_key sid rid, t) (clientRequestReservations s1)"
proof -
  let ?p = "pruneReservations t (clientRequestReservations s)" and ?k = "reservation_key sid rid"
  have wf: "map_wf ?p"
    using assms(1) by (simp add: pruneReservations_def Let_def evict_oldest_wf map_wf_filter)
  have new: "\<not> hasClientRequest s sid rid" "map_of ?p ?k = None"
    and s1: "s1 = s\<lparr>clientRequestReservations := AList.update ?k t ?p\<rparr>"
    using assms(2-4) by (auto simp: reserveClientRequest_def Let_def split: if_splits)
  have "AList.update ?k t ?p = ?p @ [(?k, t)]"
    using new(2) by (intro update_fresh) (simp add: map_of_eq_None_iff)
  then show "recent_within 0 (?k, t) (clientRequestReservations s1)" by (simp add: s1 recent_within_snoc)
  show "map_wf (clientRequestReservations s1)" using wf by (simp add: s1 map_wf_update)
qed

text \<open>While a turn request is in flight no second caller gets it: after a successful reservation
  every further attempt within ten minutes is refused, whatever fewer than 10,000 other
  reservations happen in between.\<close>

theorem reservation_is_exclusive:
  assumes "map_wf (clientRequestReservations s)" "reserveClientRequest t sid rid s = (True, s1)"
    and "sid \<noteq> []" "rid \<noteq> []" "length ops < REQUEST_RESERVATION_MAX"
    and "\<forall>(u, sid', rid')\<in>set ops. u < t + REQUEST_RESERVATION_TTL_MS" "t' < t + REQUEST_RESERVATION_TTL_MS"
  shows "\<not> fst (reserveClientRequest t' sid rid (fold reserve_other ops s1))"
proof -
  let ?k = "reservation_key sid rid"
  let ?s = "fold reserve_other ops s1"
  note r = reserved_newest [OF assms(1-4)]
  have s: "map_wf (clientRequestReservations ?s)"
    "recent_within (length ops) (?k, t) (clientRequestReservations ?s)"
    using reserve_many_keeps [OF r(1,2)] assms(5,6) by auto
  note p = pruneReservations_keeps [OF s assms(5,7)]
  have "map_of (pruneReservations t' (clientRequestReservations ?s)) ?k = Some t"
    by (rule recent_within_has [OF p])
  then show ?thesis using assms(3,4) by (simp add: reserveClientRequest_def Let_def)
qed

lemma reservation_is_exclusive_witness:
  "\<not> fst (reserveClientRequest 2 ''s'' ''r''
       (fold reserve_other [(1, ''s'', ''q'')]
         (snd (reserveClientRequest 0 ''s'' ''r'' sample_store))))"
proof (rule reservation_is_exclusive)
  show "map_wf (clientRequestReservations sample_store)" by code_simp
  show "reserveClientRequest 0 ''s'' ''r'' sample_store = (True, snd (reserveClientRequest 0 ''s'' ''r'' sample_store))"
    by code_simp
qed (simp_all add: REQUEST_RESERVATION_MAX_def REQUEST_RESERVATION_TTL_MS_def)

section \<open>Retried create requests\<close>

lemma fold_update_id:
  "map_wf (ys @ xs) \<Longrightarrow> fold (\<lambda>(r, v) m. AList.update r v m) xs ys = ys @ xs"
proof (induction xs arbitrary: ys)
  case Nil
  then show ?case by simp
next
  case (Cons p xs)
  obtain r v where p: "p = (r, v)" by (cases p)
  have "AList.update r v ys = ys @ [(r, v)]" using Cons.prems by (intro update_fresh) (auto simp: p)
  with Cons.IH [of "ys @ [(r, v)]"] Cons.prems show ?case by (simp add: p)
qed

lemma rememberCreate_requests:
  assumes "map_wf (createRequests s)" "length (createRequests s) \<le> 512" "rid \<noteq> []" "sid \<noteq> []"
  shows "map_wf (createRequests (rememberCreateRequest t rid sid s))
    \<and> length (createRequests (rememberCreateRequest t rid sid s)) \<le> 512
    \<and> map_of (createRequests (rememberCreateRequest t rid sid s)) rid = Some \<lparr>cr_sessionId = sid, cr_createdAt = t\<rparr>"
proof -
  let ?rec = "\<lparr>cr_sessionId = sid, cr_createdAt = t\<rparr>"
  let ?reqs = "AList.update rid ?rec (createRequests s)"
  have wf: "map_wf ?reqs" using assms(1) by (rule map_wf_update)
  then have wf': "map_wf (slice_last 512 ?reqs)"
    by (simp add: slice_last_def distinct_drop flip: drop_map)
  have eq: "createRequests (rememberCreateRequest t rid sid s) = slice_last 512 ?reqs"
    using fold_update_id [of "[]", OF _] wf' assms(3,4)
    by (simp add: rememberCreateRequest_def persistCreateRequests_def Let_def)
  have "(rid, ?rec) \<in> set (slice_last 512 ?reqs)"
  proof (cases "map_of (createRequests s) rid")
    case None
    then have "?reqs = createRequests s @ [(rid, ?rec)]"
      by (intro update_fresh) (simp add: map_of_eq_None_iff)
    then show ?thesis using last_in_slice_last [of ?reqs 512] by simp
  next
    case Some
    then have "slice_last 512 ?reqs = ?reqs" using assms(2) by (intro slice_last_all) (simp add: length_update)
    then show ?thesis using map_of_SomeD [of ?reqs rid ?rec] by simp
  qed
  then show ?thesis using wf' by (simp add: eq)
qed

lemma getCreate_repeat:
  assumes "getCreateRequestSession rid s = (r, s1)" "r = None \<or> r = Some []"
    and "createRequests t = createRequests s1" "sessions t = sessions s1"
  shows "fst (getCreateRequestSession rid t) = r"
  using assms
  by (auto simp: getCreateRequestSession_def persistCreateRequests_def Let_def split: if_splits option.splits)

text \<open>A create request starts one thread: while the first caller works the second one is told
  that the request is pending, and once the session is recorded every retry gets that session.\<close>

theorem create_request_is_idempotent:
  assumes "reserveCreateRequest t rid s = (Reserved, s1)" "rid \<noteq> []"
    and "map_wf (createRequestReservations s)" "t' < t + REQUEST_RESERVATION_TTL_MS"
    and "map_wf (createRequests s2)" "length (createRequests s2) \<le> 512" "map_has (sessions s2) sid" "sid \<noteq> []"
  shows "fst (reserveCreateRequest t' rid s1) = ReservationPending
    \<and> fst (reserveCreateRequest t' rid (rememberCreateRequest t2 rid sid s2)) = AlreadyCreated sid"
proof
  obtain r s0 where g: "getCreateRequestSession rid s = (r, s0)" by fastforce
  have r: "r = None \<or> r = Some []" and new: "reserve_new_create t rid s0 = (Reserved, s1)"
    using assms(1,2) g by (auto simp: reserveCreateRequest_def Let_def split: option.splits if_splits)
  let ?p = "pruneReservations t (createRequestReservations s0)"
  have res0: "createRequestReservations s0 = createRequestReservations s"
    using g by (auto simp: getCreateRequestSession_def persistCreateRequests_def Let_def split: if_splits option.splits)
  have none: "map_of ?p rid = None"
    and s1: "s1 = s0\<lparr>createRequestReservations := AList.update rid t ?p\<rparr>"
    using new by (auto simp: reserve_new_create_def Let_def split: if_splits)
  have wf: "map_wf ?p"
    using assms(3) by (simp add: res0 pruneReservations_def Let_def evict_oldest_wf map_wf_filter)
  have "AList.update rid t ?p = ?p @ [(rid, t)]"
    using none by (intro update_fresh) (simp add: map_of_eq_None_iff)
  then have newest: "recent_within 0 (rid, t) (createRequestReservations s1)"
    by (simp add: s1 recent_within_snoc)
  have wf1: "map_wf (createRequestReservations s1)" using wf by (simp add: s1 map_wf_update)
  obtain s1' where g': "getCreateRequestSession rid s1 = (r, s1')"
    using getCreate_repeat [OF g r, of s1] s1 by (cases "getCreateRequestSession rid s1") simp
  have res1: "createRequestReservations s1' = createRequestReservations s1"
    using g' by (auto simp: getCreateRequestSession_def persistCreateRequests_def Let_def split: if_splits option.splits)
  have "map_of (pruneReservations t' (createRequestReservations s1')) rid = Some t"
    unfolding res1
    by (rule recent_within_has [OF pruneReservations_keeps [OF wf1 newest]])
      (use assms(4) in \<open>simp_all add: REQUEST_RESERVATION_MAX_def\<close>)
  then show "fst (reserveCreateRequest t' rid s1) = ReservationPending"
    using r g' assms(2) by (auto simp: reserveCreateRequest_def reserve_new_create_def Let_def)
next
  have "map_of (createRequests (rememberCreateRequest t2 rid sid s2)) rid = Some \<lparr>cr_sessionId = sid, cr_createdAt = t2\<rparr>"
    using rememberCreate_requests [OF assms(5,6,2,8)] by blast
  moreover have "sessions (rememberCreateRequest t2 rid sid s2) = sessions s2"
    by (simp add: rememberCreateRequest_def Let_def)
  ultimately show "fst (reserveCreateRequest t' rid (rememberCreateRequest t2 rid sid s2)) = AlreadyCreated sid"
    using assms(2,7,8) by (simp add: reserveCreateRequest_def getCreateRequestSession_def)
qed

lemma create_request_is_idempotent_witness:
  "fst (reserveCreateRequest 1 ''r'' (snd (reserveCreateRequest 0 ''r'' sample_store))) = ReservationPending
   \<and> fst (reserveCreateRequest 1 ''r'' (rememberCreateRequest 1 ''r'' ''s''
        (saveSession (sample_session ''s'') sample_store))) = AlreadyCreated ''s''"
proof (rule create_request_is_idempotent)
  show "reserveCreateRequest 0 ''r'' sample_store = (Reserved, snd (reserveCreateRequest 0 ''r'' sample_store))"
    by code_simp
  show "map_wf (createRequestReservations sample_store)" by code_simp
  show "map_wf (createRequests (saveSession (sample_session ''s'') sample_store))" by code_simp
  show "length (createRequests (saveSession (sample_session ''s'') sample_store)) \<le> 512" by code_simp
  show "map_has (sessions (saveSession (sample_session ''s'') sample_store)) ''s''" by code_simp
qed (simp_all add: REQUEST_RESERVATION_TTL_MS_def)

section \<open>Deletion\<close>

lemma updateSession_other_fields [simp]:
  "subagentRelations (snd (updateSession sid f s)) = subagentRelations s"
  "createRequests (snd (updateSession sid f s)) = createRequests s"
  "clientRequestReservations (snd (updateSession sid f s)) = clientRequestReservations s"
  by (simp_all add: updateSession_def saveSession_def persistSessions_def Let_def split: option.splits)

lemma delete_sessions_part_result:
  assumes inv: "sess_inv s"
  shows "\<not> map_has (sessions (delete_sessions_part sid s)) sid"
    "subagentRelations (delete_sessions_part sid s) =
       filter (\<lambda>(c, p). p \<noteq> sid) (AList.delete sid (subagentRelations s))"
    "createRequests (delete_sessions_part sid s) = filter (\<lambda>(r, record). cr_sessionId record \<noteq> sid) (createRequests s)"
    "clientRequestReservations (delete_sessions_part sid s) = clientRequestReservations s"
proof -
  let ?t = "delete_sessions_part sid s"
  have "sess_inv ?t" "deletedSessions ?t = set_add sid (deletedSessions s)"
    using delete_sessions_part_step [OF inv] by auto
  then show "\<not> map_has (sessions ?t) sid"
    using keyedD [of "deletedSessions ?t" "sessions ?t" sid]
    by (cases "map_of (sessions ?t) sid") (auto simp: sess_inv_def)
  have len: "length (filter P xs) = length xs \<longleftrightarrow> filter P xs = xs" for P and xs :: "(string \<times> create_request_record) list"
    by (metis filter_True length_filter_less less_irrefl)
  show "subagentRelations ?t = filter (\<lambda>(c, p). p \<noteq> sid) (AList.delete sid (subagentRelations s))"
    "createRequests ?t = filter (\<lambda>(r, record). cr_sessionId record \<noteq> sid) (createRequests s)"
    "clientRequestReservations ?t = clientRequestReservations s"
    by (simp_all add: delete_sessions_part_def Let_def persistCreateRequests_def persistRelations_def persistSessions_def
        len split: option.splits)
qed

text \<open>A deletion leaves nothing behind: the session, every subagent relation from or to it,
  every create request that led to it and its reservations are gone, and events that still arrive
  for it are dropped.\<close>

theorem deleteSession_leaves_nothing:
  assumes "sess_inv s" "sid \<noteq> []"
  shows "let s' = snd (deleteSession sid s) in
     \<not> map_has (sessions s') sid
     \<and> sid \<notin> fst ` set (subagentRelations s') \<and> sid \<notin> snd ` set (subagentRelations s')
     \<and> sid \<notin> (cr_sessionId \<circ> snd) ` set (createRequests s')
     \<and> reservation_key sid rid \<notin> fst ` set (clientRequestReservations s')
     \<and> (m_sessionId m = Some sid \<longrightarrow> appendEvent m s' = (None, s'))"
proof -
  let ?t = "delete_sessions_part sid s"
  let ?s' = "delete_log_part sid ?t"
  note res = delete_sessions_part_result [OF assms(1), of sid]
  have frame: "subagentRelations ?s' = subagentRelations ?t" "createRequests ?s' = createRequests ?t"
    "clientRequestReservations ?s' =
       filter (\<lambda>(k, t). \<not> starts_with k (sid @ [CHR 0x00])) (clientRequestReservations ?t)"
    by (simp_all add: delete_log_part_def remove_file_def Let_def split: option.splits)
  have "sid \<in> set (deletedSessions ?s')"
    using delete_sessions_part_step [OF assms(1), of sid] by (simp add: delete_log_part_frame)
  then have "m_sessionId m = Some sid \<longrightarrow> appendEvent m ?s' = (None, ?s')"
    by (simp add: appendEvent_def)
  moreover have "sid \<notin> fst ` set (subagentRelations ?s')" "sid \<notin> snd ` set (subagentRelations ?s')"
    using delete_notin_dom [of sid "subagentRelations s"] by (auto simp: frame res)
  moreover have "reservation_key sid rid \<notin> fst ` set (clientRequestReservations ?s')"
    by (auto simp: frame reservation_key_def starts_with_def)
  ultimately show ?thesis
    using res(1) by (auto simp: deleteSession_parts frame res delete_log_part_frame Let_def)
qed

lemma deleteSession_leaves_nothing_witness:
  "let s' = snd (deleteSession ''s'' (saveSession (sample_session ''s'') sample_store)) in
     \<not> map_has (sessions s') ''s''
     \<and> ''s'' \<notin> fst ` set (subagentRelations s') \<and> ''s'' \<notin> snd ` set (subagentRelations s')
     \<and> ''s'' \<notin> (cr_sessionId \<circ> snd) ` set (createRequests s')
     \<and> reservation_key ''s'' ''r'' \<notin> fst ` set (clientRequestReservations s')
     \<and> (m_sessionId (sample_message ''s'') = Some ''s'' \<longrightarrow> appendEvent (sample_message ''s'') s' = (None, s'))"
proof (rule deleteSession_leaves_nothing)
  have "event_inv sample_store" using new_store_inv [OF sample_clean] by (simp add: sample_store_def)
  then have "event_inv (saveSession (sample_session ''s'') sample_store)"
    by (rule saved_sim [THEN conjunct1]) (simp add: sample_store_def new_store_fields)
  then show "sess_inv (saveSession (sample_session ''s'') sample_store)" by (simp add: event_inv_def)
qed simp

end
