(* ===== verification/Paths.thy ===== *)
theory Paths
  imports Prelude
begin

text \<open>
  The functions of Node's \<^verbatim>\<open>path\<close> module that the gateway uses, for POSIX paths, and the interface
  of the path guards built on them. A normalised absolute path is the list of its components;
  \<open>path_str\<close> is its text.
\<close>

section \<open>Components\<close>

text \<open>\<open>path.normalize\<close> of an absolute path: empty and \<open>.\<close> components disappear, \<open>..\<close> removes the
  component before it and stops at the root.\<close>

definition push_component :: "string list \<Rightarrow> string \<Rightarrow> string list" where
  "push_component stack c =
     (if c = [] \<or> c = ''.'' then stack
      else if c = ''..'' then (if stack = [] then [] else butlast stack)
      else stack @ [c])"

definition components :: "string \<Rightarrow> string list" where
  "components p = foldl push_component [] (split_on (CHR ''/'') p)"

definition path_str :: "string list \<Rightarrow> string" where
  "path_str cs = CHR ''/'' # join ''/'' cs"

definition isAbsolute :: "string \<Rightarrow> bool" where
  "isAbsolute p = starts_with p ''/''"

text \<open>\<open>path.resolve(...parts)\<close> in the working directory \<open>cwd\<close>: the parts are joined from the last
  absolute one on.\<close>

definition resolve_step :: "string \<Rightarrow> string \<Rightarrow> string" where
  "resolve_step acc part = (if isAbsolute part then part else acc @ ''/'' @ part)"

definition resolve_components :: "string \<Rightarrow> string list \<Rightarrow> string list" where
  "resolve_components cwd parts = components (foldl resolve_step cwd parts)"

definition path_resolve :: "string \<Rightarrow> string list \<Rightarrow> string" where
  "path_resolve cwd parts = path_str (resolve_components cwd parts)"

text \<open>\<open>path.relative(from, to)\<close>: up to the common ancestor, then down.\<close>

fun relative_components :: "string list \<Rightarrow> string list \<Rightarrow> string list" where
  "relative_components (a # as) (b # bs) =
     (if a = b then relative_components as bs else replicate (Suc (length as)) ''..'' @ b # bs)"
| "relative_components [] bs = bs"
| "relative_components as [] = replicate (length as) ''..''"

definition path_relative :: "string \<Rightarrow> string \<Rightarrow> string \<Rightarrow> string" where
  "path_relative cwd src dst =
     join ''/'' (relative_components (resolve_components cwd [src]) (resolve_components cwd [dst]))"

text \<open>\<open>path.join\<close>: the parts are joined and normalized. A path that stays relative keeps a \<open>..\<close> that has
  nothing to remove. A slash at the end of the last part is not kept; no caller passes one.\<close>

definition push_relative :: "string list \<Rightarrow> string \<Rightarrow> string list" where
  "push_relative stack c =
     (if c = [] \<or> c = ''.'' then stack
      else if c = ''..'' then (if stack = [] \<or> last stack = ''..'' then stack @ [''..''] else butlast stack)
      else stack @ [c])"

definition path_join :: "string list \<Rightarrow> string" where
  "path_join parts =
     (let joined = join ''/'' (filter (\<lambda>p. p \<noteq> []) parts);
          cs = foldl push_relative [] (split_on (CHR ''/'') joined)
      in if isAbsolute joined then path_str (components joined)
         else if cs = [] then ''.'' else join ''/'' cs)"

text \<open>\<open>path.basename\<close> and \<open>path.extname\<close>.\<close>

definition basename :: "string \<Rightarrow> string" where
  "basename p = (case filter (\<lambda>c. c \<noteq> []) (split_on (CHR ''/'') p) of [] \<Rightarrow> [] | cs \<Rightarrow> last cs)"

text \<open>\<open>path.dirname\<close> of an absolute path in normal form.\<close>

definition dirname :: "string \<Rightarrow> string" where
  "dirname p = path_str (butlast (components p))"

definition extname :: "string \<Rightarrow> string" where
  "extname p =
     (let base = basename p;
          tail = rev (takeWhile (\<lambda>c. c \<noteq> CHR ''.'') (rev base))
      in if CHR ''.'' \<notin> set base \<or> length tail + 1 = length base \<or> base = ''..'' then []
         else CHR ''.'' # tail)"

section \<open>Well-formed component lists\<close>

definition component_ok :: "string \<Rightarrow> bool" where
  "component_ok c \<longleftrightarrow> c \<noteq> [] \<and> c \<noteq> ''.'' \<and> c \<noteq> ''..'' \<and> CHR ''/'' \<notin> set c"

lemma split_on_no_sep: "c \<notin> set w \<Longrightarrow> split_on c (w @ s) = (case split_on c s of [] \<Rightarrow> [w] | x # xs \<Rightarrow> (w @ x) # xs)"
  by (induction w) (auto split: list.splits)

lemma split_on_word: "c \<notin> set w \<Longrightarrow> split_on c w = [w]"
  using split_on_no_sep [of c w "[]"] by simp

lemma split_on_sep: "c \<notin> set w \<Longrightarrow> split_on c (w @ c # s) = w # split_on c s"
  by (simp add: split_on_no_sep)

lemma split_on_elem: "w \<in> set (split_on c s) \<Longrightarrow> c \<notin> set w"
proof (induction s arbitrary: w)
  case Nil
  then show ?case by simp
next
  case (Cons x s)
  then show ?case by (cases "split_on c s") (auto split: if_splits)
qed

lemma split_on_append_sep: "split_on c (a @ c # b) = split_on c a @ split_on c b"
proof (induction a)
  case Nil
  then show ?case by simp
next
  case (Cons x a)
  show ?case
  proof (cases "split_on c a")
    case Nil
    then show ?thesis by simp
  next
    case (Cons w ws)
    then show ?thesis using Cons.IH by simp
  qed
qed

lemma push_component_ok:
  "\<forall>c\<in>set st. component_ok c \<Longrightarrow> CHR ''/'' \<notin> set c \<Longrightarrow> \<forall>c\<in>set (push_component st c). component_ok c"
  by (auto simp: push_component_def component_ok_def dest: in_set_butlastD)

lemma foldl_push_ok:
  "\<forall>c\<in>set st. component_ok c \<Longrightarrow> \<forall>c\<in>set cs. CHR ''/'' \<notin> set c \<Longrightarrow>
   \<forall>c\<in>set (foldl push_component st cs). component_ok c"
proof (induction cs arbitrary: st)
  case (Cons c cs)
  have "\<forall>x\<in>set (push_component st c). component_ok x"
    by (rule push_component_ok) (use Cons.prems in simp_all)
  from Cons.IH [OF this] Cons.prems(2) show ?case by simp
qed simp

lemma components_ok: "\<forall>c\<in>set (components p). component_ok c"
  unfolding components_def by (rule foldl_push_ok) (auto dest: split_on_elem)

lemma resolve_components_ok: "\<forall>c\<in>set (resolve_components cwd ps). component_ok c"
  by (simp add: resolve_components_def components_ok)

lemma foldl_push_id: "\<forall>c\<in>set cs. component_ok c \<Longrightarrow> foldl push_component st cs = st @ cs"
  by (induction cs arbitrary: st) (auto simp: push_component_def component_ok_def)

lemma split_on_join: "cs \<noteq> [] \<Longrightarrow> \<forall>c\<in>set cs. CHR ''/'' \<notin> set c \<Longrightarrow> split_on (CHR ''/'') (join ''/'' cs) = cs"
  by (induction cs rule: induct_list012) (auto simp: split_on_word split_on_sep)

lemma components_path_str: "\<forall>c\<in>set cs. component_ok c \<Longrightarrow> components (path_str cs) = cs"
proof (cases "cs = []")
  case False
  assume ok: "\<forall>c\<in>set cs. component_ok c"
  then have "split_on (CHR ''/'') (join ''/'' cs) = cs"
    using split_on_join [OF False] by (auto simp: component_ok_def)
  then show ?thesis using foldl_push_id [OF ok, of "[]"] by (simp add: components_def path_str_def push_component_def)
qed (simp add: components_def path_str_def push_component_def)

lemma join_starts: "c # cs = ws \<Longrightarrow> \<exists>t. join ''/'' ws = c @ t"
  by (cases cs) auto

lemma components_append: "components (a @ ''/'' @ b) = foldl push_component (components a) (split_on (CHR ''/'') b)"
  by (simp add: components_def split_on_append_sep)

text \<open>Resolving a single good component below a directory appends it.\<close>

lemma resolve_child:
  assumes "component_ok c"
  shows "resolve_components cwd [dir, c] = resolve_components cwd [dir] @ [c]"
proof -
  have "\<not> isAbsolute c" using assms by (cases c) (auto simp: isAbsolute_def starts_with_def component_ok_def)
  then have "resolve_components cwd [dir, c] = components (resolve_step cwd dir @ ''/'' @ c)"
    by (simp add: resolve_components_def resolve_step_def)
  also have "\<dots> = components (resolve_step cwd dir) @ [c]"
    using assms split_on_word [of "CHR ''/''" c]
    by (simp only: components_append) (simp add: component_ok_def push_component_def)
  finally show ?thesis by (simp add: resolve_components_def)
qed

lemma resolve_absolute_components:
  "\<forall>c\<in>set cs. component_ok c \<Longrightarrow> resolve_components cwd [path_str cs] = cs"
  by (simp add: resolve_components_def resolve_step_def isAbsolute_def starts_with_def components_path_str)
     (simp add: path_str_def)

section \<open>The relative path tells containment\<close>

lemma relative_prefix: "relative_components as (as @ bs) = bs"
  by (induction as) auto

lemma relative_outside: "\<not> prefix as bs \<Longrightarrow> \<exists>rest. relative_components as bs = ''..'' # rest"
  by (induction as bs rule: relative_components.induct) auto

lemma join_not_absolute:
  "\<forall>c\<in>set cs. c \<noteq> [] \<and> CHR ''/'' \<notin> set c \<Longrightarrow> \<not> isAbsolute (join ''/'' cs)"
proof (cases cs)
  case (Cons c cs')
  assume "\<forall>c\<in>set cs. c \<noteq> [] \<and> CHR ''/'' \<notin> set c"
  then obtain x xs where "c = x # xs" "x \<noteq> CHR ''/''" using Cons by (cases c) auto
  then show ?thesis using Cons by (cases cs') (auto simp: isAbsolute_def starts_with_def)
qed (simp add: isAbsolute_def starts_with_def)

lemma relative_chars:
  assumes "\<forall>c\<in>set bs. component_ok c"
  shows "\<forall>c\<in>set (relative_components as bs). c \<noteq> [] \<and> CHR ''/'' \<notin> set c"
proof -
  have "set (relative_components as bs) \<subseteq> insert ''..'' (set bs)"
    by (induction as bs rule: relative_components.induct) auto
  then have "c = ''..'' \<or> component_ok c" if "c \<in> set (relative_components as bs)" for c
    using assms that by blast
  then show ?thesis unfolding component_ok_def by fastforce
qed

text \<open>The test \<open>relative.startsWith("..") || path.isAbsolute(relative)\<close> of the program.\<close>

definition escapes :: "string \<Rightarrow> string \<Rightarrow> string \<Rightarrow> bool" where
  "escapes cwd parent child =
     (let relative = path_relative cwd parent child in starts_with relative ''..'' \<or> isAbsolute relative)"

lemma escapes_iff:
  "escapes cwd parent child \<longleftrightarrow>
     (let as = resolve_components cwd [parent]; bs = resolve_components cwd [child]
      in \<not> prefix as bs \<or> (\<exists>c rest. bs = as @ c # rest \<and> starts_with c ''..''))"
proof -
  let ?as = "resolve_components cwd [parent]" and ?bs = "resolve_components cwd [child]"
  let ?rel = "relative_components ?as ?bs"
  have abs: "\<not> isAbsolute (join ''/'' ?rel)"
    by (rule join_not_absolute [OF relative_chars [OF resolve_components_ok]])
  have dots: "starts_with (join ''/'' ?rel) ''..'' \<longleftrightarrow> (\<exists>c rest. ?rel = c # rest \<and> starts_with c ''..'')"
  proof (cases ?rel)
    case (Cons c rest)
    have c: "c \<noteq> []" "CHR ''/'' \<notin> set c"
      using relative_chars [OF resolve_components_ok, of ?as cwd "[child]"] Cons by auto
    show ?thesis
    proof (cases rest)
      case Nil
      with Cons show ?thesis by simp
    next
      case (Cons d ds)
      then have "join ''/'' ?rel = c @ CHR ''/'' # join ''/'' (d # ds)" using \<open>?rel = c # rest\<close> by simp
      moreover obtain x xs where "c = x # xs" using c(1) by (cases c) auto
      ultimately show ?thesis using c(2) \<open>?rel = c # rest\<close> by (cases xs) (auto simp: starts_with_def)
    qed
  qed (simp add: starts_with_def)
  show ?thesis
  proof (cases "prefix ?as ?bs")
    case True
    then obtain cs where cs: "?bs = ?as @ cs" by (auto simp: prefix_def)
    then have "?rel = cs" by (simp add: relative_prefix)
    then show ?thesis using abs dots cs by (auto simp: escapes_def path_relative_def Let_def)
  next
    case False
    then obtain rest where "?rel = ''..'' # rest" using relative_outside by blast
    then show ?thesis using dots False by (auto simp: escapes_def path_relative_def starts_with_def Let_def)
  qed
qed

section \<open>Path guards\<close>

text \<open>
  A guard decides whether a path may be used below a root. Its clients rely on soundness only: a
  path it admits is the root or lies below it.
\<close>

locale path_guard =
  fixes admits :: "string \<Rightarrow> string \<Rightarrow> string \<Rightarrow> bool"
  assumes sound: "admits cwd base p \<Longrightarrow> prefix (resolve_components cwd [base]) (resolve_components cwd [p])"
begin

lemma nested:
  "admits cwd base dir \<Longrightarrow> admits cwd dir p \<Longrightarrow>
   prefix (resolve_components cwd [base]) (resolve_components cwd [p])"
  using sound prefix_order.trans by blast

lemma disjoint_roots:
  "admits cwd base p \<Longrightarrow> admits cwd base' p \<Longrightarrow>
   prefix (resolve_components cwd [base]) (resolve_components cwd [base'])
   \<or> prefix (resolve_components cwd [base']) (resolve_components cwd [base])"
  by (meson prefix_same_cases sound)

end

end
