(* ===== verification/Attachments.thy ===== *)
theory Attachments
  imports Paths
begin

text \<open>
  Uploaded attachments, \<^verbatim>\<open>server/src/attachments.ts\<close>: validation, storage below the workspace and
  the input that is passed on to Codex.

  The file system is an argument: \<open>mkdirs\<close> says whether the recursive \<open>mkdir\<close> succeeds on a path,
  \<open>realp\<close> is \<open>realpath\<close> after it (\<open>None\<close> where it rejects), \<open>writes\<close> says
  whether \<open>writeFile\<close> succeeds on a path; the files that exist are threaded as a list, the directories
  that \<open>mkdir\<close> creates are not. The random
  identifiers are a list of arguments, and so is the Unicode normalisation \<open>nfkc\<close>.
\<close>

section \<open>Data\<close>

definition maxAttachmentsPerTurn :: nat where "maxAttachmentsPerTurn = 8"
definition maxAttachmentBytes :: int where "maxAttachmentBytes = 15 * 1024 * 1024"
definition maxAttachmentBase64Chars :: int where
  "maxAttachmentBase64Chars = \<lceil>(of_int maxAttachmentBytes * 4 / 3 :: rat)\<rceil> + 512"

definition imageExtensions :: "string list" where
  "imageExtensions = [''.png'', ''.jpg'', ''.jpeg'', ''.webp'', ''.gif'', ''.bmp'']"

definition fileExtensions :: "string list" where
  "fileExtensions =
    [''.txt'', ''.md'', ''.markdown'', ''.json'', ''.yaml'', ''.yml'', ''.csv'', ''.log'', ''.pdf'',
     ''.doc'', ''.docx'', ''.xls'', ''.xlsx'', ''.ppt'', ''.pptx'', ''.zip'', ''.js'', ''.jsx'',
     ''.ts'', ''.tsx'', ''.py'', ''.java'', ''.kt'', ''.swift'', ''.go'', ''.rs'', ''.c'', ''.h'',
     ''.cpp'', ''.hpp'', ''.cs'', ''.php'', ''.rb'', ''.sh'', ''.bash'', ''.zsh'', ''.ps1'',
     ''.html'', ''.css'', ''.scss'', ''.xml'', ''.toml'', ''.ini'', ''.conf'', ''.env'',
     ''.gradle'', ''.sql'']"

record uploaded_attachment =
  u_name :: string
  u_mimeType :: "string option"
  u_size :: "js_number option"
  u_dataBase64 :: string

datatype attachment_kind = ImageKind | FileKind

record stored_attachment =
  a_id :: string
  originalName :: string
  a_mimeType :: string
  a_size :: nat
  a_kind :: attachment_kind
  relativePath :: string
  absolutePath :: string

datatype attachment_error =
    TooManyAttachments | AttachmentPathEscape | InvalidAttachmentSize | AttachmentTooLarge
  | UnsupportedAttachmentType | InvalidAttachment | MakeDirectoryFailed | WriteFileFailed

fun error_status :: "attachment_error \<Rightarrow> nat" where
  "error_status AttachmentTooLarge = 413"
| "error_status MakeDirectoryFailed = 500"
| "error_status WriteFileFailed = 500"
| "error_status _ = 400"

section \<open>Names and types\<close>

text \<open>\<open>.replace(/\s+/g, " ")\<close>.\<close>

fun collapse_ws :: "string \<Rightarrow> string" where
  "collapse_ws [] = []"
| "collapse_ws [c] = [if is_ws c then CHR '' '' else c]"
| "collapse_ws (c # d # s) =
     (if is_ws c then (if is_ws d then collapse_ws (d # s) else CHR '' '' # collapse_ws (d # s))
      else c # collapse_ws (d # s))"

definition is_control :: "char \<Rightarrow> bool" where
  "is_control c = (of_char c < (32 :: nat) \<or> of_char c = (127 :: nat))"

definition sanitizeAttachmentFileName :: "(string \<Rightarrow> string) \<Rightarrow> string \<Rightarrow> string" where
  "sanitizeAttachmentFileName nfkc fileName =
     (let baseName = basename (if fileName = [] then ''attachment'' else fileName);
          cleaned = trim (collapse_ws
            (map (\<lambda>c. if c = CHR 0x5C \<or> c = CHR ''/'' then CHR ''-'' else c)
              (filter (\<lambda>c. \<not> is_control c) (nfkc baseName))))
      in if cleaned = [] \<or> cleaned = ''.'' \<or> cleaned = ''..'' then ''attachment'' else take 120 cleaned)"

definition classifyAttachment :: "string \<Rightarrow> string \<Rightarrow> attachment_error + attachment_kind" where
  "classifyAttachment fileName mimeType =
     (let extension = toLowerCase (extname fileName);
          normalizedMime = toLowerCase mimeType
      in if starts_with normalizedMime ''image/'' \<or> extension \<in> set imageExtensions then Inr ImageKind
         else if extension \<in> set fileExtensions \<or> starts_with normalizedMime ''text/''
                 \<or> normalizedMime = ''application/octet-stream'' then Inr FileKind
         else Inl UnsupportedAttachmentType)"

section \<open>Base64\<close>

definition b64_value :: "char \<Rightarrow> nat option" where
  "b64_value c = (let n = of_char c :: nat in
     if 65 \<le> n \<and> n \<le> 90 then Some (n - 65)
     else if 97 \<le> n \<and> n \<le> 122 then Some (n - 71)
     else if 48 \<le> n \<and> n \<le> 57 then Some (n + 4)
     else if c = CHR ''+'' then Some 62
     else if c = CHR ''/'' then Some 63 else None)"

text \<open>The regular expression \<open>^[A-Za-z0-9+/]*={0,2}$\<close>.\<close>

definition b64_shape :: "string \<Rightarrow> bool" where
  "b64_shape s = (let rest = dropWhile (\<lambda>c. b64_value c \<noteq> None) s
     in rest = [] \<or> rest = ''='' \<or> rest = ''==''  )"

text \<open>\<open>Buffer.from(s, "base64")\<close> on the sextets before the padding.\<close>

fun b64_bytes :: "nat list \<Rightarrow> nat list" where
  "b64_bytes (a # b # c # d # rest) =
     (a * 4 + b div 16) # ((b mod 16) * 16 + c div 4) # ((c mod 4) * 64 + d) # b64_bytes rest"
| "b64_bytes [a, b, c] = [a * 4 + b div 16, (b mod 16) * 16 + c div 4]"
| "b64_bytes [a, b] = [a * 4 + b div 16]"
| "b64_bytes _ = []"

definition b64_decode :: "string \<Rightarrow> nat list" where
  "b64_decode s = b64_bytes (map (the \<circ> b64_value) (takeWhile (\<lambda>c. b64_value c \<noteq> None) s))"

definition after_comma :: "string \<Rightarrow> string" where
  "after_comma value =
     (if CHR '','' \<in> set value then tl (dropWhile (\<lambda>c. c \<noteq> CHR '','') value) else value)"

definition decodeBase64 :: "string \<Rightarrow> attachment_error + nat list" where
  "decodeBase64 value =
     (let compact = filter (\<lambda>c. c \<notin> {CHR 0x0D, CHR 0x0A, CHR 0x09, CHR '' ''}) (after_comma value)
      in if compact = [] \<or> int (length compact) > maxAttachmentBase64Chars \<or> length compact mod 4 = 1
            \<or> \<not> b64_shape compact
         then Inl InvalidAttachment
         else let buffer = b64_decode compact in if buffer = [] then Inl InvalidAttachment else Inr buffer)"

section \<open>Storing\<close>

text \<open>\<open>ensurePathInside\<close>: whether it returns instead of throwing.\<close>

definition ensurePathInside :: "string \<Rightarrow> string \<Rightarrow> string \<Rightarrow> bool" where
  "ensurePathInside cwd parentPath childPath = (\<not> escapes cwd parentPath childPath)"

definition attachment_relative :: "string \<Rightarrow> string \<Rightarrow> string" where
  "attachment_relative threadId storedName =
     path_join [''.acode'', ''attachments'', threadId, storedName]"

definition prepare_attachment ::
  "(string \<Rightarrow> string) \<Rightarrow> string \<Rightarrow> string \<Rightarrow> string \<Rightarrow> string \<Rightarrow> uploaded_attachment \<Rightarrow>
   attachment_error + stored_attachment" where
  "prepare_attachment nfkc cwd dir threadId uuid attachment =
     (let name = sanitizeAttachmentFileName nfkc (u_name attachment);
          mime = (case map_option trim (u_mimeType attachment) of
                    Some t \<Rightarrow> if t = [] then ''application/octet-stream'' else t
                  | None \<Rightarrow> ''application/octet-stream'')
      in case decodeBase64 (u_dataBase64 attachment) of
           Inl e \<Rightarrow> Inl e
         | Inr buffer \<Rightarrow>
             let size = (case u_size attachment of Some n \<Rightarrow> n | None \<Rightarrow> of_nat (length buffer))
             in if size \<noteq> of_nat (length buffer) then Inl InvalidAttachmentSize
                else if int (length buffer) > maxAttachmentBytes then Inl AttachmentTooLarge
                else case classifyAttachment name mime of
                    Inl e \<Rightarrow> Inl e
                  | Inr kind \<Rightarrow>
                      let attId = ''att_'' @ uuid;
                          storedName = attId @ ''-'' @ name;
                          target = path_resolve cwd [dir, storedName]
                      in if \<not> ensurePathInside cwd dir target then Inl AttachmentPathEscape
                         else Inr \<lparr>a_id = attId, originalName = name, a_mimeType = mime,
                                   a_size = length buffer, a_kind = kind,
                                   relativePath = attachment_relative threadId storedName,
                                   absolutePath = target\<rparr>)"

fun store_loop ::
  "(string \<Rightarrow> string) \<Rightarrow> (string \<Rightarrow> bool) \<Rightarrow> string \<Rightarrow> string \<Rightarrow> string \<Rightarrow>
   (uploaded_attachment \<times> string) list \<Rightarrow> stored_attachment list \<Rightarrow> string list \<Rightarrow>
   (attachment_error + stored_attachment list) \<times> stored_attachment list \<times> string list" where
  "store_loop nfkc writes cwd dir threadId [] stored files = (Inr stored, stored, files)"
| "store_loop nfkc writes cwd dir threadId ((attachment, uuid) # rest) stored files =
     (case prepare_attachment nfkc cwd dir threadId uuid attachment of
        Inl e \<Rightarrow> (Inl e, stored, files)
      | Inr a \<Rightarrow>
          if \<not> writes (absolutePath a) then (Inl WriteFileFailed, stored, files)
          else store_loop nfkc writes cwd dir threadId rest (stored @ [a]) (absolutePath a # files))"

definition storeAttachments ::
  "(string \<Rightarrow> string) \<Rightarrow> (string \<Rightarrow> bool) \<Rightarrow> (string \<Rightarrow> string option) \<Rightarrow> (string \<Rightarrow> bool) \<Rightarrow> string \<Rightarrow> string list \<Rightarrow>
   string \<Rightarrow> string \<Rightarrow> uploaded_attachment list \<Rightarrow> string list \<Rightarrow>
   (attachment_error + stored_attachment list) \<times> string list" where
  "storeAttachments nfkc mkdirs realp writes procCwd uuids cwd threadId attachments files =
     (if length attachments > maxAttachmentsPerTurn then (Inl TooManyAttachments, files)
      else if attachments = [] then (Inr [], files)
      else
        let attachmentDir = path_resolve procCwd [cwd, ''.acode'', ''attachments'', threadId]
        in if \<not> mkdirs attachmentDir then (Inl MakeDirectoryFailed, files)
           else case (realp cwd, realp attachmentDir) of
             (Some workspaceRoot, Some resolvedDir) \<Rightarrow>
               if \<not> ensurePathInside procCwd workspaceRoot resolvedDir then (Inl AttachmentPathEscape, files)
               else (case store_loop nfkc writes procCwd resolvedDir threadId (zip attachments uuids) [] files of
                   (Inr stored, _, files') \<Rightarrow> (Inr stored, files')
                 | (Inl e, stored, files') \<Rightarrow>
                     (Inl e, filter (\<lambda>f. f \<notin> absolutePath ` set stored) files'))
           | _ \<Rightarrow> (Inl AttachmentPathEscape, files))"

section \<open>The input of a turn\<close>

definition formatBytes :: "nat \<Rightarrow> string" where
  "formatBytes bytes =
     (if bytes < 1024 then nat_str bytes @ '' B''
      else if bytes < 1024 * 1024 then nat_str ((bytes * 2 + 1024) div 2048) @ '' KB''
      else let tenths = (bytes * 20 + 1048576) div 2097152
           in nat_str (tenths div 10) @ ''.'' @ nat_str (tenths mod 10) @ '' MB'')"

definition attachment_notice :: string where
  "attachment_notice = map char_of
    [230, 156, 172, 232, 189, 174, 233, 153, 132, 229, 184, 166, 228, 186, 134, 228, 187, 165, 228,
     184, 139, 233, 153, 132, 228, 187, 182, 227, 128, 130, 229, 155, 190, 231, 137, 135, 229, 183,
     178, 228, 189, 156, 228, 184, 186, 230, 156, 172, 229, 156, 176, 229, 155, 190, 231, 137, 135,
     232, 190, 147, 229, 133, 165, 239, 188, 140, 229, 144, 140, 230, 151, 182, 228, 185, 159, 228,
     191, 157, 229, 173, 152, 229, 156, 168, 232, 183, 175, 229, 190, 132, 228, 184, 173, 239, 188,
     155, 230, 153, 174, 233, 128, 154, 230, 150, 135, 228, 187, 182, 232, 175, 183, 230, 140, 137,
     233, 156, 128, 232, 175, 187, 229, 143, 150, 239, 188, 154 :: nat]"

definition appendAttachmentPrompt :: "string \<Rightarrow> stored_attachment list \<Rightarrow> string" where
  "appendAttachmentPrompt txt attachments =
     (if attachments = [] then txt
      else join [CHR 0x0A] ([trim_end txt, [], attachment_notice]
             @ map (\<lambda>a. ''- '' @ originalName a @ '' ('' @ a_mimeType a @ '', '' @ formatBytes (a_size a) @ ''): ''
                        @ relativePath a) attachments))"

definition buildCodexInput :: "string \<Rightarrow> stored_attachment list \<Rightarrow> json" where
  "buildCodexInput txt attachments =
     JArr (JObj [(''type'', JStr ''text''), (''text'', JStr (appendAttachmentPrompt txt attachments)), (''text_elements'', JArr [])]
           # map (\<lambda>a. JObj [(''type'', JStr ''localImage''), (''path'', JStr (absolutePath a))])
               (filter (\<lambda>a. a_kind a = ImageKind) attachments))"

section \<open>Lemmas\<close>

interpretation ag: path_guard ensurePathInside
  by unfold_locales (auto simp: ensurePathInside_def escapes_iff Let_def)

lemma set_trim: "set (trim s) \<subseteq> set s"
  by (auto simp: trim_def trim_start_def trim_end_def dest!: set_dropWhileD)

lemma set_collapse_ws: "set (collapse_ws s) \<subseteq> insert (CHR '' '') (set s)"
  by (induction s rule: collapse_ws.induct) auto

lemma sanitized_no_slash: "CHR ''/'' \<notin> set (sanitizeAttachmentFileName nfkc n)"
proof -
  let ?m = "map (\<lambda>c. if c = CHR 0x5C \<or> c = CHR ''/'' then CHR ''-'' else c)
     (filter (\<lambda>c. \<not> is_control c) (nfkc (basename (if n = [] then ''attachment'' else n))))"
  have "CHR ''/'' \<notin> set ?m" by auto
  then have "CHR ''/'' \<notin> set (trim (collapse_ws ?m))"
    using set_trim [of "collapse_ws ?m"] set_collapse_ws [of ?m] by auto
  then show ?thesis
    by (auto simp: sanitizeAttachmentFileName_def Let_def dest: in_set_takeD)
qed

lemma stored_name_component:
  "CHR ''/'' \<notin> set uuid \<Longrightarrow>
   component_ok ((''att_'' @ uuid) @ ''-'' @ sanitizeAttachmentFileName nfkc n)"
  using sanitized_no_slash [of nfkc n] by (simp add: component_ok_def)

text \<open>What a prepared attachment guarantees: its name is built from its random identifier.\<close>

definition stored_ok :: "string \<Rightarrow> string \<Rightarrow> string \<Rightarrow> stored_attachment \<Rightarrow> bool" where
  "stored_ok cwd dir uuid a \<longleftrightarrow>
     (let c = ''att_'' @ uuid @ ''-'' @ originalName a
      in component_ok c \<and> resolve_components cwd [absolutePath a] = resolve_components cwd [dir] @ [c])
     \<and> 0 < a_size a \<and> int (a_size a) \<le> maxAttachmentBytes"

lemma prepare_ok:
  assumes "prepare_attachment nfkc cwd dir threadId uuid u = Inr a" "CHR ''/'' \<notin> set uuid"
  shows "stored_ok cwd dir uuid a"
proof -
  let ?c = "(''att_'' @ uuid) @ ''-'' @ sanitizeAttachmentFileName nfkc (u_name u)"
  have c: "component_ok ?c" by (rule stored_name_component [OF assms(2)])
  from assms(1) obtain buf where buf: "decodeBase64 (u_dataBase64 u) = Inr buf"
    "a_size a = length buf" "int (length buf) \<le> maxAttachmentBytes"
    "absolutePath a = path_str (resolve_components cwd [dir, ?c])"
    "originalName a = sanitizeAttachmentFileName nfkc (u_name u)"
    by (auto simp: prepare_attachment_def path_resolve_def Let_def split: sum.splits if_splits)
  have "buf \<noteq> []" using buf(1) by (auto simp: decodeBase64_def Let_def split: if_splits)
  moreover have "resolve_components cwd [absolutePath a] = resolve_components cwd [dir] @ [?c]"
    unfolding buf(4) resolve_absolute_components [OF resolve_components_ok] by (rule resolve_child [OF c])
  ultimately show ?thesis using c buf(2,3,5) unfolding stored_ok_def by auto
qed

text \<open>The guard on the stored name never fires: the name is a single plain component.\<close>

lemma prepare_never_escapes:
  assumes "CHR ''/'' \<notin> set uuid"
  shows "prepare_attachment nfkc cwd dir threadId uuid u \<noteq> Inl AttachmentPathEscape"
proof -
  let ?c = "(''att_'' @ uuid) @ ''-'' @ sanitizeAttachmentFileName nfkc (u_name u)"
  have c: "component_ok ?c" by (rule stored_name_component [OF assms])
  have "resolve_components cwd [path_resolve cwd [dir, ?c]] = resolve_components cwd [dir] @ [?c]"
    unfolding path_resolve_def resolve_absolute_components [OF resolve_components_ok] by (rule resolve_child [OF c])
  then have "ensurePathInside cwd dir (path_resolve cwd [dir, ?c])"
    by (simp add: ensurePathInside_def escapes_iff starts_with_def)
  then show ?thesis
    by (auto simp: prepare_attachment_def decodeBase64_def classifyAttachment_def Let_def
        split: sum.splits if_splits)
qed

lemma store_loop_ok:
  assumes "\<forall>(u, uuid)\<in>set us. CHR ''/'' \<notin> set uuid"
    and "store_loop nfkc writes cwd dir threadId us stored files = (r, stored', files')"
  shows "\<exists>new. stored' = stored @ new \<and> files' = rev (map absolutePath new) @ files
    \<and> list_all2 (stored_ok cwd dir) (take (length new) (map snd us)) new
    \<and> (\<forall>xs. r = Inr xs \<longrightarrow> xs = stored' \<and> length new = length us)"
  using assms
proof (induction us arbitrary: stored files)
  case Nil
  then show ?case by auto
next
  case (Cons p us)
  obtain u uuid where p: "p = (u, uuid)" by (cases p)
  show ?case
  proof (cases "prepare_attachment nfkc cwd dir threadId uuid u")
    case (Inl e)
    then show ?thesis using Cons.prems by (auto simp: p)
  next
    case (Inr a)
    have a: "stored_ok cwd dir uuid a" using prepare_ok [OF Inr] Cons.prems(1) by (simp add: p)
    show ?thesis
    proof (cases "writes (absolutePath a)")
      case False
      then show ?thesis using Cons.prems Inr by (auto simp: p)
    next
      case True
      have "store_loop nfkc writes cwd dir threadId us (stored @ [a]) (absolutePath a # files) = (r, stored', files')"
        using Cons.prems(2) True Inr by (simp add: p)
      from Cons.IH [OF _ this] Cons.prems(1) obtain new where
        new: "stored' = (stored @ [a]) @ new" "files' = rev (map absolutePath new) @ absolutePath a # files"
        "list_all2 (stored_ok cwd dir) (take (length new) (map snd us)) new"
        "\<forall>xs. r = Inr xs \<longrightarrow> xs = stored' \<and> length new = length us" by auto
      then show ?thesis using a by (intro exI [of _ "a # new"]) (simp add: p)
    qed
  qed
qed

text \<open>Names with different identifiers are different.\<close>

lemma stored_name_inj:
  assumes "''att_'' @ u @ ''-'' @ m = ''att_'' @ v @ ''-'' @ n" "CHR ''-'' \<notin> set u" "CHR ''-'' \<notin> set v"
  shows "u = v"
proof -
  have "takeWhile (\<lambda>c. c \<noteq> CHR ''-'') (w @ CHR ''-'' # k) = w" if "CHR ''-'' \<notin> set w" for w k :: string
    using that by (induction w) auto
  then show ?thesis using assms by (metis append_Cons append_Nil same_append_eq)
qed

lemma stored_distinct:
  assumes "list_all2 (stored_ok cwd dir) ids stored" "distinct ids" "\<forall>u\<in>set ids. CHR ''-'' \<notin> set u"
  shows "distinct (map absolutePath stored)"
  using assms
proof (induction ids stored rule: list_all2_induct)
  case (Cons u us a as)
  have "absolutePath b \<noteq> absolutePath a" if "b \<in> set as" for b
  proof
    assume same: "absolutePath b = absolutePath a"
    obtain i where "i < length as" "b = as ! i" using \<open>b \<in> set as\<close> by (auto simp: in_set_conv_nth)
    then have "stored_ok cwd dir (us ! i) b" "us ! i \<in> set us"
      using Cons.hyps by (auto simp: list_all2_conv_all_nth)
    then show False
      using Cons.hyps(1) Cons.prems same stored_name_inj [of "us ! i" "originalName b" u "originalName a"]
      by (auto simp: stored_ok_def Let_def)
  qed
  then have "absolutePath a \<notin> absolutePath ` set as" by (metis imageE)
  then show ?case using Cons by simp
qed simp

section \<open>Properties\<close>

text \<open>C32. When a turn's attachments are stored, there are at most eight of them, each has between
  one byte and 15 MiB, and the \<open>i\<close>-th file is, in the real path of the directory
  \<^verbatim>\<open>.acode/attachments/<thread id>\<close> of the workspace, which lies in the real workspace root, the entry
  named \<open>att_\<close>, the \<open>i\<close>-th random identifier, \<open>-\<close> and the cleaned name, a single plain component.
  The files are pairwise distinct, they are the only ones written, and no file is removed. The
  identifiers are pairwise distinct and contain no slash and no hyphen, as a random UUID with its
  hyphens removed; a file that exists is overwritten only if its name starts with one of these identifiers.\<close>

theorem storeAttachments_inside_workspace:
  assumes "storeAttachments nfkc mkdirs realp writes procCwd uuids cwd threadId us files = (Inr stored, files')"
    and "us \<noteq> []" "length us \<le> length uuids" "distinct uuids"
    and "\<forall>uuid\<in>set uuids. CHR ''/'' \<notin> set uuid \<and> CHR ''-'' \<notin> set uuid"
  shows "length stored = length us \<and> length stored \<le> 8 \<and> distinct (map absolutePath stored)
    \<and> set files' = absolutePath ` set stored \<union> set files
    \<and> (\<exists>wsRoot dir. realp cwd = Some wsRoot
         \<and> realp (path_resolve procCwd [cwd, ''.acode'', ''attachments'', threadId]) = Some dir
         \<and> prefix (resolve_components procCwd [wsRoot]) (resolve_components procCwd [dir])
         \<and> (\<forall>i. i < length stored \<longrightarrow>
              0 < a_size (stored ! i) \<and> int (a_size (stored ! i)) \<le> 15 * 1024 * 1024
              \<and> component_ok (''att_'' @ uuids ! i @ ''-'' @ originalName (stored ! i))
              \<and> resolve_components procCwd [absolutePath (stored ! i)]
                  = resolve_components procCwd [dir] @ [''att_'' @ uuids ! i @ ''-'' @ originalName (stored ! i)]))"
proof -
  from assms(1,2) obtain wsRoot dir st where
    n: "length us \<le> maxAttachmentsPerTurn" and r: "realp cwd = Some wsRoot"
    and d: "realp (path_resolve procCwd [cwd, ''.acode'', ''attachments'', threadId]) = Some dir"
    and ins: "ensurePathInside procCwd wsRoot dir"
    and loop: "store_loop nfkc writes procCwd dir threadId (zip us uuids) [] files = (Inr stored, st, files')"
    by (auto simp: storeAttachments_def Let_def split: if_splits option.splits sum.splits prod.splits)
  have ids: "\<forall>(u, uuid)\<in>set (zip us uuids). CHR ''/'' \<notin> set uuid"
    using assms(5) by (auto dest: set_zip_rightD)
  have "map snd (zip us uuids) = take (length us) uuids" using assms(3) by (simp add: map_snd_zip_take)
  with store_loop_ok [OF ids loop] assms(3) have len: "length stored = length us"
    and new: "files' = rev (map absolutePath stored) @ files"
    "list_all2 (stored_ok procCwd dir) (take (length us) uuids) stored" by auto
  have dist: "distinct (map absolutePath stored)"
    by (rule stored_distinct [OF new(2)]) (use assms(4,5) in \<open>auto dest: in_set_takeD\<close>)
  have each: "stored_ok procCwd dir (uuids ! i) (stored ! i)" if "i < length stored" for i
    using list_all2_nthD2 [OF new(2) that] that len assms(3) by simp
  have set: "set files' = absolutePath ` set stored \<union> set files" by (simp add: new(1))
  show ?thesis
    using len n dist set r d ag.sound [OF ins] each
    unfolding stored_ok_def maxAttachmentsPerTurn_def maxAttachmentBytes_def Let_def by simp
qed

definition sample_upload :: uploaded_attachment where
  "sample_upload = \<lparr>u_name = ''../../etc/passwd.txt'', u_mimeType = None, u_size = None, u_dataBase64 = ''aGk=''\<rparr>"

lemma storeAttachments_inside_workspace_witness:
  "\<exists>dir. prefix (resolve_components ''/'' [''/w'']) (resolve_components ''/'' [dir])
     \<and> (\<exists>c. component_ok c \<and> resolve_components ''/'' [''/w/.acode/attachments/t1/att_u1-passwd.txt''] =
             resolve_components ''/'' [dir] @ [c])"
proof -
  have run: "storeAttachments (\<lambda>s. s) (\<lambda>_. True) Some (\<lambda>_. True) ''/'' [''u1''] ''/w'' ''t1'' [sample_upload] [] =
     (Inr [\<lparr>a_id = ''att_u1'', originalName = ''passwd.txt'', a_mimeType = ''application/octet-stream'',
           a_size = 2, a_kind = FileKind, relativePath = ''.acode/attachments/t1/att_u1-passwd.txt'',
           absolutePath = ''/w/.acode/attachments/t1/att_u1-passwd.txt''\<rparr>],
      [''/w/.acode/attachments/t1/att_u1-passwd.txt''])"
    by code_simp
  show ?thesis using storeAttachments_inside_workspace [OF run] by auto
qed

text \<open>When storing fails, for whatever reason and after however many files, no file of this turn
  is left behind: every file that exists afterwards existed before.\<close>

theorem storeAttachments_failure_leaves_nothing:
  assumes "storeAttachments nfkc mkdirs realp writes procCwd uuids cwd threadId us files = (Inl e, files')"
    and "\<forall>uuid\<in>set uuids. CHR ''/'' \<notin> set uuid"
  shows "set files' \<subseteq> set files"
proof -
  have ids: "\<forall>(u, uuid)\<in>set (zip us uuids). CHR ''/'' \<notin> set uuid"
    using assms(2) by (auto dest: set_zip_rightD)
  have "set (filter (\<lambda>f. f \<notin> absolutePath ` set st) fs) \<subseteq> set files"
    if "store_loop nfkc writes procCwd dir threadId (zip us uuids) [] files = (Inl e, st, fs)" for dir st fs
    using store_loop_ok [OF ids that] by auto
  with assms(1) show ?thesis
    by (fastforce simp: storeAttachments_def Let_def split: if_splits option.splits sum.splits prod.splits)
qed

lemma storeAttachments_failure_leaves_nothing_witness:
  "set (snd (storeAttachments (\<lambda>s. s) (\<lambda>_. True) Some (\<lambda>_. True) ''/'' [''u1'', ''u2''] ''/w'' ''t1''
      [sample_upload, sample_upload\<lparr>u_dataBase64 := ''??''\<rparr>] [''/w/old''])) \<subseteq> set [''/w/old'']"
  by (rule storeAttachments_failure_leaves_nothing [where e = InvalidAttachment and nfkc = "\<lambda>s. s"
        and mkdirs = "\<lambda>_. True" and realp = Some and writes = "\<lambda>_. True" and procCwd = "''/''" and uuids = "[''u1'', ''u2'']"
        and cwd = "''/w''" and threadId = "''t1''" and us = "[sample_upload, sample_upload\<lparr>u_dataBase64 := ''??''\<rparr>]"])
    (code_simp, simp)

end
