(* ===== verification/Auth.thy ===== *)
theory Auth
  imports Prelude
begin

text \<open>
  Authentication, \<^verbatim>\<open>server/src/auth.ts\<close>, with the two login routes of \<^verbatim>\<open>server/src/index.ts\<close>:
  hashed bearer sessions with an expiry, the static gateway token and the per-address limit on
  failed logins.

  \<open>hmac\<close> is the keyed hash of the sessions, an argument; the random token of \<open>createSession\<close> and
  the clock are arguments as well. The session file is the field \<open>sessionsFileContent\<close>
  (\<open>None\<close> while it is missing or unreadable).
\<close>

section \<open>State\<close>

record auth_session =
  tokenHash :: string
  expiresAt :: int
  as_createdAt :: int

record login_attempt =
  la_startedAt :: int
  failures :: nat

record auth_config =
  gatewayAuthToken :: string
  gatewayAuthUsername :: string
  gatewayAuthPassword :: string
  adminToken :: string
  sessionTtlHours :: int
  allowQueryToken :: bool

record auth_state =
  authSessions :: "(string, auth_session) js_map"
  loginAttempts :: "(string, login_attempt) js_map"
  sessionsFileContent :: "auth_session option list option"
  cacheWritable :: bool

definition loginWindowMs :: int where "loginWindowMs = 60000"
definition maxLoginFailures :: nat where "maxLoginFailures = 8"
definition maxAuthSessions :: nat where "maxAuthSessions = 10000"

section \<open>Sessions\<close>

definition persistAuthSessions :: "auth_state \<Rightarrow> auth_state" where
  "persistAuthSessions a =
     (if cacheWritable a then a\<lparr>sessionsFileContent := Some (map (Some \<circ> snd) (authSessions a))\<rparr> else a)"

definition pruneSessions :: "int \<Rightarrow> auth_state \<Rightarrow> auth_state" where
  "pruneSessions now a = a\<lparr>authSessions :=
     evict_oldest maxAuthSessions (filter (\<lambda>(h, s). \<not> expiresAt s \<le> now) (authSessions a))\<rparr>"

text \<open>\<open>loadSessions\<close> at start-up. The content of the file is \<open>None\<close> when it cannot be read, parsed or is not an
  array; an entry that is not an object with the three properties at their types is \<open>None\<close> and skipped.\<close>

definition loadSessions :: "int \<Rightarrow> auth_state \<Rightarrow> auth_state" where
  "loadSessions now a =
     (case sessionsFileContent a of
        None \<Rightarrow> a
      | Some items \<Rightarrow> pruneSessions now (a\<lparr>authSessions :=
          fold (\<lambda>item m. case item of
              None \<Rightarrow> m
            | Some s \<Rightarrow> if expiresAt s > now then AList.update (tokenHash s) s m else m) items (authSessions a)\<rparr>))"

definition createSession ::
  "(string \<Rightarrow> string) \<Rightarrow> auth_config \<Rightarrow> int \<Rightarrow> string \<Rightarrow> auth_state \<Rightarrow> (string \<times> int) \<times> auth_state" where
  "createSession hmac cfg now token a =
     (let a1 = pruneSessions now a;
          a2 = (if length (authSessions a1) \<ge> maxAuthSessions
                then (case authSessions a1 of
                        [] \<Rightarrow> a1
                      | (oldest, s) # rest \<Rightarrow> a1\<lparr>authSessions := AList.delete oldest (authSessions a1)\<rparr>)
                else a1);
          h = hmac token;
          s = \<lparr>tokenHash = h, expiresAt = now + sessionTtlHours cfg * 60 * 60 * 1000, as_createdAt = now\<rparr>;
          a3 = persistAuthSessions (a2\<lparr>authSessions := AList.update h s (authSessions a2)\<rparr>)
      in ((token, expiresAt s), a3))"

definition verifySession ::
  "(string \<Rightarrow> string) \<Rightarrow> auth_config \<Rightarrow> int \<Rightarrow> string option \<Rightarrow> auth_state \<Rightarrow> bool \<times> auth_state" where
  "verifySession hmac cfg now token a =
     (case token of
        None \<Rightarrow> (False, a)
      | Some t \<Rightarrow>
          if t = [] then (False, a)
          else if t = gatewayAuthToken cfg then (True, a)
          else (case map_of (authSessions a) (hmac t) of
              None \<Rightarrow> (False, a)
            | Some s \<Rightarrow>
                if expiresAt s < now
                then (False, persistAuthSessions (a\<lparr>authSessions := AList.delete (hmac t) (authSessions a)\<rparr>))
                else (True, a)))"

definition revokeSession :: "(string \<Rightarrow> string) \<Rightarrow> string option \<Rightarrow> auth_state \<Rightarrow> bool \<times> auth_state" where
  "revokeSession hmac token a =
     (case token of
        None \<Rightarrow> (False, a)
      | Some t \<Rightarrow>
          if t = [] then (False, a)
          else if map_has (authSessions a) (hmac t)
          then (True, persistAuthSessions (a\<lparr>authSessions := AList.delete (hmac t) (authSessions a)\<rparr>))
          else (False, a))"

section \<open>Tokens of a request\<close>

definition getBearerToken :: "string option \<Rightarrow> string option" where
  "getBearerToken authorization =
     (case authorization of
        None \<Rightarrow> None
      | Some header \<Rightarrow>
          if header = [] then None
          else (case split_on (CHR '' '') header of
              scheme # token # _ \<Rightarrow> if toLowerCase scheme = ''bearer'' then Some token else None
            | _ \<Rightarrow> None))"

text \<open>\<open>allowQueryToken\<close> is \<open>NODE_ENV !== "production" || CODEHARBOR_ALLOW_QUERY_TOKEN === "true"\<close>.\<close>

definition getRequestToken :: "auth_config \<Rightarrow> string option \<Rightarrow> json option \<Rightarrow> string option" where
  "getRequestToken cfg authorization queryToken =
     (case getBearerToken authorization of
        Some t \<Rightarrow> Some t
      | None \<Rightarrow> if allowQueryToken cfg then as_str queryToken else None)"

definition protocol_token :: "string \<Rightarrow> string option" where
  "protocol_token raw =
     (let protocol = trim raw
      in if starts_with protocol ''codeharbor-v1.''
         then (let token = trim (drop (length ''codeharbor-v1.'') protocol) in if token = [] then None else Some token)
         else None)"

fun first_some :: "('a \<Rightarrow> 'b option) \<Rightarrow> 'a list \<Rightarrow> 'b option" where
  "first_some f [] = None"
| "first_some f (x # xs) = (case f x of Some y \<Rightarrow> Some y | None \<Rightarrow> first_some f xs)"

text \<open>A header is absent, one value or several: the list of its values. An empty value carries no token.\<close>

definition getWebSocketProtocolToken :: "string list \<Rightarrow> string option" where
  "getWebSocketProtocolToken header =
     first_some (\<lambda>v. first_some protocol_token (split_on (CHR '','') v)) header"

section \<open>Passwords\<close>

definition utf8_bytes :: "char \<Rightarrow> nat list" where
  "utf8_bytes c = (let n = of_char c in if n < 128 then [n] else [192 + n div 64, 128 + n mod 64])"

definition safeEqual :: "string \<Rightarrow> string \<Rightarrow> bool" where
  "safeEqual a b =
     (let left = concat (map utf8_bytes a); right = concat (map utf8_bytes b)
      in length left = length right \<and> left = right)"

definition verifyAdminToken :: "(string \<Rightarrow> string) \<Rightarrow> auth_config \<Rightarrow> string \<Rightarrow> bool" where
  "verifyAdminToken hmac cfg token = safeEqual (hmac token) (hmac (adminToken cfg))"

definition validateGatewayLogin :: "auth_config \<Rightarrow> string \<Rightarrow> string \<Rightarrow> bool" where
  "validateGatewayLogin cfg username password =
     (safeEqual username (gatewayAuthUsername cfg) \<and> safeEqual password (gatewayAuthPassword cfg))"

section \<open>Login attempts\<close>

definition allowLoginAttempt :: "int \<Rightarrow> string \<Rightarrow> auth_state \<Rightarrow> bool \<times> auth_state" where
  "allowLoginAttempt now ip a =
     (let fresh = (True, a\<lparr>loginAttempts := AList.update ip \<lparr>la_startedAt = now, failures = 0\<rparr> (loginAttempts a)\<rparr>)
      in case map_of (loginAttempts a) ip of
           None \<Rightarrow> fresh
         | Some attempt \<Rightarrow>
             if now - la_startedAt attempt \<ge> loginWindowMs then fresh
             else (failures attempt < maxLoginFailures, a))"

text \<open>The clean-up loop: expired entries are deleted until at most 5,000 are left.\<close>

fun drop_expired :: "int \<Rightarrow> (string \<times> login_attempt) list \<Rightarrow> (string, login_attempt) js_map \<Rightarrow> (string, login_attempt) js_map" where
  "drop_expired now [] m = m"
| "drop_expired now ((k, v) # rest) m =
     (let m' = (if now - la_startedAt v \<ge> loginWindowMs then AList.delete k m else m)
      in if length m' \<le> 5000 then m' else drop_expired now rest m')"

definition recordLoginFailure :: "int \<Rightarrow> string \<Rightarrow> auth_state \<Rightarrow> auth_state" where
  "recordLoginFailure now ip a =
     (let m = (case map_of (loginAttempts a) ip of
                 None \<Rightarrow> AList.update ip \<lparr>la_startedAt = now, failures = 1\<rparr> (loginAttempts a)
               | Some attempt \<Rightarrow>
                   if now - la_startedAt attempt \<ge> loginWindowMs
                   then AList.update ip \<lparr>la_startedAt = now, failures = 1\<rparr> (loginAttempts a)
                   else AList.update ip (attempt\<lparr>failures := failures attempt + 1\<rparr>) (loginAttempts a))
      in a\<lparr>loginAttempts := (if length m > 10000 then drop_expired now m m else m)\<rparr>)"

definition clearLoginFailures :: "string \<Rightarrow> auth_state \<Rightarrow> auth_state" where
  "clearLoginFailures ip a = a\<lparr>loginAttempts := AList.delete ip (loginAttempts a)\<rparr>"

section \<open>The login routes\<close>

datatype login_reply = RateLimited | InvalidRequest | Unauthorized | GatewayToken string | NewSession string int

text \<open>\<open>POST /auth/login\<close>: the body is \<open>None\<close> when it does not parse.\<close>

definition post_gateway_login ::
  "auth_config \<Rightarrow> int \<Rightarrow> string \<Rightarrow> (string \<times> string) option \<Rightarrow> auth_state \<Rightarrow> login_reply \<times> auth_state" where
  "post_gateway_login cfg now ip body a =
     (let (allowed, a1) = allowLoginAttempt now ip a
      in if \<not> allowed then (RateLimited, a1)
         else case body of
             None \<Rightarrow> (InvalidRequest, recordLoginFailure now ip a1)
           | Some (username, password) \<Rightarrow>
               if \<not> validateGatewayLogin cfg username password then (Unauthorized, recordLoginFailure now ip a1)
               else (GatewayToken (gatewayAuthToken cfg), clearLoginFailures ip a1))"

text \<open>\<open>POST /api/auth/login\<close>.\<close>

definition post_admin_login ::
  "(string \<Rightarrow> string) \<Rightarrow> auth_config \<Rightarrow> int \<Rightarrow> string \<Rightarrow> string \<Rightarrow> string option \<Rightarrow> auth_state \<Rightarrow>
   login_reply \<times> auth_state" where
  "post_admin_login hmac cfg now ip newToken body a =
     (let (allowed, a1) = allowLoginAttempt now ip a
      in if \<not> allowed then (RateLimited, a1)
         else case body of
             None \<Rightarrow> (Unauthorized, recordLoginFailure now ip a1)
           | Some token \<Rightarrow>
               if length token < 16 \<or> \<not> verifyAdminToken hmac cfg token
               then (Unauthorized, recordLoginFailure now ip a1)
               else let ((t, e), a2) = createSession hmac cfg now newToken (clearLoginFailures ip a1)
                    in (NewSession t e, a2))"

section \<open>Access control of the routes\<close>

definition isLoopbackAddress :: "string \<Rightarrow> bool" where
  "isLoopbackAddress v = (v = ''127.0.0.1'' \<or> v = ''::1'' \<or> v = ''::ffff:127.0.0.1'')"

definition isGatewayProtectedPath :: "string \<Rightarrow> bool" where
  "isGatewayProtectedPath url =
     list_ex (starts_with url)
       [''/sessions'', ''/filesystem'', ''/files'', ''/approval-rules'', ''/diagnostics'', ''/widget'',
        ''/importable-threads'', ''/documents'']"

datatype access = Public | NeedsSession | Unprotected

text \<open>The decision of the \<open>preHandler\<close> hook, before the token is looked at.\<close>

definition route_access :: "string \<Rightarrow> string \<Rightarrow> string \<Rightarrow> access" where
  "route_access httpMethod url ip =
     (if httpMethod = ''OPTIONS'' \<or> starts_with url ''/api/auth/login'' \<or> starts_with url ''/download/aCode-latest.apk''
         \<or> url = ''/healthz'' \<or> url = ''/protocol'' \<or> starts_with url ''/auth/login''
         \<or> (url = ''/api/health'' \<and> isLoopbackAddress ip) then Public
      else if starts_with url ''/api/'' \<or> isGatewayProtectedPath url then NeedsSession
      else Unprotected)"

definition preHandler ::
  "(string \<Rightarrow> string) \<Rightarrow> auth_config \<Rightarrow> int \<Rightarrow> string \<Rightarrow> string \<Rightarrow> string \<Rightarrow> string option \<Rightarrow> json option \<Rightarrow>
   auth_state \<Rightarrow> bool \<times> auth_state" where
  "preHandler hmac cfg now httpMethod url ip authorization queryToken a =
     (case route_access httpMethod url ip of
        NeedsSession \<Rightarrow> verifySession hmac cfg now (getRequestToken cfg authorization queryToken) a
      | _ \<Rightarrow> (True, a))"

section \<open>Lemmas\<close>

lemma utf8_bytes_inj: "concat (map utf8_bytes a) = concat (map utf8_bytes b) \<Longrightarrow> a = b"
proof (induction a arbitrary: b)
  case Nil
  then show ?case by (cases b) (auto simp: utf8_bytes_def Let_def split: if_splits)
next
  case (Cons c a)
  then obtain d b' where b: "b = d # b'"
    by (cases b) (auto simp: utf8_bytes_def Let_def split: if_splits)
  have eq: "utf8_bytes c @ concat (map utf8_bytes a) = utf8_bytes d @ concat (map utf8_bytes b')"
    using Cons.prems by (simp add: b)
  have "(of_char c :: nat) = of_char d \<and> concat (map utf8_bytes a) = concat (map utf8_bytes b')"
  proof (cases "(of_char c :: nat) < 128"; cases "(of_char d :: nat) < 128")
    assume "\<not> (of_char c :: nat) < 128" "\<not> (of_char d :: nat) < 128"
    then have "(of_char c :: nat) div 64 = of_char d div 64" "(of_char c :: nat) mod 64 = of_char d mod 64"
      "concat (map utf8_bytes a) = concat (map utf8_bytes b')"
      using eq by (auto simp: utf8_bytes_def Let_def)
    then show ?thesis by (metis div_mult_mod_eq)
  qed (use eq in \<open>auto simp: utf8_bytes_def Let_def\<close>)
  then show ?case using Cons.IH by (simp add: b)
qed

lemma safeEqual_iff: "safeEqual a b \<longleftrightarrow> a = b"
  by (auto simp: safeEqual_def Let_def dest: utf8_bytes_inj)

lemma drop_expired_keeps:
  "map_of m ip = Some v \<Longrightarrow> now - la_startedAt v < loginWindowMs \<Longrightarrow>
   \<forall>w. (ip, w) \<in> set xs \<longrightarrow> w = v \<Longrightarrow> map_of (drop_expired now xs m) ip = Some v"
proof (induction now xs m rule: drop_expired.induct)
  case (2 now k w rest m)
  let ?m' = "if now - la_startedAt w \<ge> loginWindowMs then AList.delete k m else m"
  have "map_of ?m' ip = Some v" using "2.prems" by (cases "k = ip") auto
  then show ?case using "2.IH" [OF refl] "2.prems" by (auto simp: Let_def)
qed simp

lemma prune_wf: "map_wf (authSessions a) \<Longrightarrow> map_wf (authSessions (pruneSessions now a))"
  by (simp add: pruneSessions_def evict_oldest_wf map_wf_filter)

lemma prune_bound: "map_wf (authSessions a) \<Longrightarrow> length (authSessions (pruneSessions now a)) \<le> maxAuthSessions"
  by (simp add: pruneSessions_def evict_oldest_length map_wf_filter)

lemma persist_frame [simp]:
  "authSessions (persistAuthSessions a) = authSessions a" "loginAttempts (persistAuthSessions a) = loginAttempts a"
  by (simp_all add: persistAuthSessions_def)

lemma prune_get:
  assumes "map_wf (authSessions a)" "map_of (authSessions (pruneSessions now a)) h = Some s"
  shows "map_of (authSessions a) h = Some s"
proof -
  let ?P = "\<lambda>(h, s). \<not> expiresAt s \<le> now"
  have "map_of (filter ?P (authSessions a)) h = Some s"
    using evict_oldest_get [OF map_wf_filter [OF assms(1)]] assms(2) by (simp add: pruneSessions_def)
  then show ?thesis using map_of_filter [OF assms(1), of ?P h] by (simp split: option.splits if_splits)
qed

lemma createSession_sessions:
  assumes "map_wf (authSessions a)" "createSession hmac cfg now token a = (r, a')"
  shows "map_wf (authSessions a') \<and> length (authSessions a') \<le> maxAuthSessions
    \<and> map_of (authSessions a') (hmac token) =
        Some \<lparr>tokenHash = hmac token, expiresAt = now + sessionTtlHours cfg * 60 * 60 * 1000, as_createdAt = now\<rparr>
    \<and> (\<forall>h s. h \<noteq> hmac token \<longrightarrow> map_of (authSessions a') h = Some s \<longrightarrow> map_of (authSessions a) h = Some s)
    \<and> r = (token, now + sessionTtlHours cfg * 60 * 60 * 1000)"
proof -
  let ?a1 = "pruneSessions now a" and ?h = "hmac token"
  let ?m = "if length (authSessions ?a1) \<ge> maxAuthSessions
     then (case authSessions ?a1 of [] \<Rightarrow> authSessions ?a1 | (oldest, s) # rest \<Rightarrow> AList.delete oldest (authSessions ?a1))
     else authSessions ?a1"
  have wf1: "map_wf (authSessions ?a1)" and len1: "length (authSessions ?a1) \<le> maxAuthSessions"
    using assms(1) prune_wf prune_bound by auto
  have pos: "0 < maxAuthSessions" by (simp add: maxAuthSessions_def)
  have m: "map_wf ?m \<and> length ?m < maxAuthSessions \<and> (\<forall>h s. map_of ?m h = Some s \<longrightarrow> map_of (authSessions ?a1) h = Some s)"
  proof (cases "authSessions ?a1")
    case Nil
    then show ?thesis using pos by simp
  next
    case (Cons p rest)
    obtain k v where p: "p = (k, v)" by (cases p)
    have "AList.delete k (authSessions ?a1) = rest"
      using wf1 unfolding Cons p by (rule delete_head)
    moreover have "\<forall>h s. map_of rest h = Some s \<longrightarrow> map_of ((k, v) # rest) h = Some s"
      using wf1 unfolding Cons p by (force dest: map_of_SomeD)
    ultimately show ?thesis using wf1 len1 Cons p by (cases "maxAuthSessions \<le> Suc (length rest)") simp_all
  qed
  define m where "m = ?m"
  have wf: "map_wf m" and len: "length m < maxAuthSessions" using m by (simp_all only: m_def)
  have old: "map_of (authSessions a) h = Some s" if "map_of m h = Some s" for h s
  proof (rule prune_get [OF assms(1)])
    show "map_of (authSessions (pruneSessions now a)) h = Some s" using m that unfolding m_def by blast
  qed
  have a': "authSessions a' = AList.update ?h
      \<lparr>tokenHash = ?h, expiresAt = now + sessionTtlHours cfg * 60 * 60 * 1000, as_createdAt = now\<rparr> m"
    and r: "r = (token, now + sessionTtlHours cfg * 60 * 60 * 1000)"
    using assms(2) by (auto simp: createSession_def m_def Let_def split: list.splits if_splits)
  have "length (authSessions a') \<le> maxAuthSessions" using len unfolding a' length_update by simp
  then show ?thesis using wf r old unfolding a' by (simp add: map_wf_update)
qed

section \<open>Properties\<close>

text \<open>A token handed out by a login is accepted up to the moment it was promised to expire and at
  no time after, and no longer once it has been revoked.\<close>

theorem session_token_lifetime:
  assumes "map_wf (authSessions a)" "createSession hmac cfg now token a = ((token', expiry), a')"
    and "token \<noteq> []" "token \<noteq> gatewayAuthToken cfg"
  shows "token' = token
    \<and> (fst (verifySession hmac cfg t (Some token) a') \<longleftrightarrow> t \<le> expiry)
    \<and> \<not> fst (verifySession hmac cfg t (Some token) (snd (revokeSession hmac (Some token) a')))"
  using createSession_sessions [OF assms(1,2)] assms(3,4)
  by (auto simp: verifySession_def revokeSession_def)

definition sample_auth :: auth_state where
  "sample_auth = \<lparr>authSessions = [], loginAttempts = [], sessionsFileContent = None, cacheWritable = True\<rparr>"

definition sample_auth_config :: auth_config where
  "sample_auth_config = \<lparr>gatewayAuthToken = ''static'', gatewayAuthUsername = ''u'', gatewayAuthPassword = ''p'',
     adminToken = ''0123456789abcdef'', sessionTtlHours = 1, allowQueryToken = False\<rparr>"

lemma session_token_lifetime_witness:
  "fst (verifySession rev sample_auth_config 3600000 (Some ''tok'') (snd (createSession rev sample_auth_config 0 ''tok'' sample_auth)))
     = (3600000 \<le> (3600000 :: int))"
  using session_token_lifetime [of sample_auth rev sample_auth_config 0 "''tok''" "''tok''" 3600000
      "snd (createSession rev sample_auth_config 0 ''tok'' sample_auth)" 3600000]
  by (simp add: sample_auth_def sample_auth_config_def createSession_def pruneSessions_def evict_oldest_id
      persistAuthSessions_def maxAuthSessions_def Let_def)

text \<open>The requests and events that change the state of the authentication. A restart of the process
  keeps the session file only; the token of a login is the random one it would hand out.\<close>

datatype auth_op =
    GatewayLogin int string "(string \<times> string) option"
  | AdminLogin int string string "string option"
  | Verify int "string option"
  | Logout "string option"
  | Restart int bool

definition restart_auth :: "int \<Rightarrow> bool \<Rightarrow> auth_state \<Rightarrow> auth_state" where
  "restart_auth now writable a = loadSessions now
     \<lparr>authSessions = [], loginAttempts = [], sessionsFileContent = sessionsFileContent a, cacheWritable = writable\<rparr>"

fun auth_step :: "(string \<Rightarrow> string) \<Rightarrow> auth_config \<Rightarrow> auth_op \<Rightarrow> auth_state \<Rightarrow> auth_state" where
  "auth_step hmac cfg (GatewayLogin now ip body) a = snd (post_gateway_login cfg now ip body a)"
| "auth_step hmac cfg (AdminLogin now ip token body) a = snd (post_admin_login hmac cfg now ip token body a)"
| "auth_step hmac cfg (Verify now token) a = snd (verifySession hmac cfg now token a)"
| "auth_step hmac cfg (Logout token) a = snd (revokeSession hmac token a)"
| "auth_step hmac cfg (Restart now writable) a = restart_auth now writable a"

text \<open>The tokens of all admin logins, and those of the logins that presented the admin token.\<close>

definition generated :: "auth_op list \<Rightarrow> string set" where
  "generated ops = {token. \<exists>now ip body. AdminLogin now ip token body \<in> set ops}"

definition issued :: "(string \<Rightarrow> string) \<Rightarrow> auth_config \<Rightarrow> auth_op list \<Rightarrow> string set" where
  "issued hmac cfg ops = {token. \<exists>now ip admin. AdminLogin now ip token (Some admin) \<in> set ops
     \<and> 16 \<le> length admin \<and> hmac admin = hmac (adminToken cfg)}"

text \<open>The sessions in memory and on disk are of hashes of a given set, each under its own hash.\<close>

definition hashed_sessions :: "string set \<Rightarrow> (string, auth_session) js_map \<Rightarrow> bool" where
  "hashed_sessions S m \<longleftrightarrow> (\<forall>(h, s)\<in>set m. tokenHash s = h \<and> h \<in> S)"

definition known_auth :: "string set \<Rightarrow> auth_state \<Rightarrow> bool" where
  "known_auth S a \<longleftrightarrow> hashed_sessions S (authSessions a)
     \<and> (\<forall>items s. sessionsFileContent a = Some items \<longrightarrow> Some s \<in> set items \<longrightarrow> tokenHash s \<in> S)"

lemma evict_oldest_subset: "set (evict_oldest cap m) \<subseteq> set m"
proof (induction cap m rule: evict_oldest.induct)
  case (1 cap m)
  show ?case
  proof (cases "length m \<le> cap \<or> m = []")
    case True
    then show ?thesis using evict_oldest.simps [of cap m] by auto
  next
    case False
    then obtain k v rest where m: "m = (k, v) # rest" by (cases m) auto
    with False have "evict_oldest cap m = evict_oldest cap (AList.delete k m)"
      using evict_oldest.simps [of cap m] by simp
    moreover have "set (evict_oldest cap (AList.delete k m)) \<subseteq> set (AList.delete k m)"
      using 1 [OF _ m refl] False by simp
    ultimately show ?thesis using set_delete_subset [of k m] by simp
  qed
qed

lemma set_update_subset: "set (AList.update k v m) \<subseteq> insert (k, v) (set m)"
  by (induction m) auto

lemma known_subset: "hashed_sessions S m \<Longrightarrow> set m' \<subseteq> set m \<Longrightarrow> hashed_sessions S m'"
  by (auto simp: hashed_sessions_def)

lemma known_delete: "hashed_sessions S m \<Longrightarrow> hashed_sessions S (AList.delete h m)"
  by (rule known_subset [OF _ set_delete_subset])

lemma known_update: "hashed_sessions S m \<Longrightarrow> tokenHash s = h \<Longrightarrow> h \<in> S \<Longrightarrow> hashed_sessions S (AList.update h s m)"
  using set_update_subset [of h s m] by (fastforce simp: hashed_sessions_def)

lemma known_mono: "known_auth S a \<Longrightarrow> S \<subseteq> T \<Longrightarrow> known_auth T a"
  by (fastforce simp: known_auth_def hashed_sessions_def)

lemma known_persist: "hashed_sessions S (authSessions a) \<Longrightarrow> known_auth S a \<Longrightarrow> known_auth S (persistAuthSessions a)"
  by (fastforce simp: known_auth_def hashed_sessions_def persistAuthSessions_def)

lemma known_prune: "known_auth S a \<Longrightarrow> known_auth S (pruneSessions now a)"
  using evict_oldest_subset [of maxAuthSessions "filter (\<lambda>(h, s). \<not> expiresAt s \<le> now) (authSessions a)"]
  by (auto simp: known_auth_def pruneSessions_def elim!: known_subset)

lemma known_delete_session:
  "known_auth S a \<Longrightarrow> known_auth S (persistAuthSessions (a\<lparr>authSessions := AList.delete h (authSessions a)\<rparr>))"
  by (rule known_persist) (auto simp: known_auth_def known_delete)

lemma known_createSession:
  assumes "known_auth S a" "hmac token \<in> S"
  shows "known_auth S (snd (createSession hmac cfg now token a))"
proof -
  let ?a1 = "pruneSessions now a"
  let ?a2 = "if length (authSessions ?a1) \<ge> maxAuthSessions
     then (case authSessions ?a1 of [] \<Rightarrow> ?a1
           | (oldest, s) # rest \<Rightarrow> ?a1\<lparr>authSessions := AList.delete oldest (authSessions ?a1)\<rparr>)
     else ?a1"
  have a1: "known_auth S ?a1" using assms(1) by (rule known_prune)
  then have del: "known_auth S (?a1\<lparr>authSessions := AList.delete h (authSessions ?a1)\<rparr>)" for h
    by (simp add: known_auth_def known_delete)
  have "known_auth S ?a2" using a1 del by (cases "authSessions ?a1") (auto simp del: delete_simps)
  then show ?thesis
    unfolding createSession_def Let_def snd_conv
    using assms(2) by (intro known_persist) (auto simp: known_auth_def intro!: known_update)
qed

lemma known_loadSessions:
  assumes "known_auth S a" shows "known_auth S (loadSessions now a)"
proof (cases "sessionsFileContent a")
  case (Some items)
  let ?f = "\<lambda>item m. case item of None \<Rightarrow> m
     | Some s \<Rightarrow> if expiresAt s > now then AList.update (tokenHash s) s m else m"
  have "hashed_sessions S (fold ?f items (authSessions a))"
    by (rule fold_invariant [where Q = "\<lambda>x. x \<in> set items"])
      (use assms Some in \<open>auto simp: known_auth_def intro!: known_update split: option.splits\<close>)
  then have "known_auth S (a\<lparr>authSessions := fold ?f items (authSessions a)\<rparr>)"
    using assms by (simp add: known_auth_def)
  then show ?thesis using Some by (simp add: loadSessions_def known_prune)
qed (use assms in \<open>simp add: loadSessions_def\<close>)

lemma attempts_known:
  "known_auth S (snd (allowLoginAttempt now ip a)) = known_auth S a"
  "known_auth S (recordLoginFailure now ip a) = known_auth S a"
  "known_auth S (clearLoginFailures ip a) = known_auth S a"
  by (auto simp: known_auth_def allowLoginAttempt_def recordLoginFailure_def clearLoginFailures_def Let_def
      split: option.splits)

lemma auth_step_known:
  assumes "known_auth S a" "hmac ` issued hmac cfg [op] \<subseteq> S"
  shows "known_auth S (auth_step hmac cfg op a)"
proof (cases op)
  case (GatewayLogin now ip body)
  then show ?thesis
    using assms(1) by (auto simp: post_gateway_login_def attempts_known case_prod_beta split: option.splits)
next
  case (AdminLogin now ip token body)
  have "known_auth S (snd (allowLoginAttempt now ip a))" using assms(1) by (simp add: attempts_known)
  moreover have "hmac token \<in> S" if "body = Some t" "\<not> length t < 16" "verifyAdminToken hmac cfg t" for t
    using assms(2) that AdminLogin by (force simp: issued_def verifyAdminToken_def safeEqual_iff)
  ultimately show ?thesis
    using AdminLogin
    by (auto simp: post_admin_login_def attempts_known known_createSession case_prod_beta Let_def split: option.splits)
next
  case (Verify now token)
  then show ?thesis
    using assms(1) by (auto simp: verifySession_def known_delete_session split: option.splits)
next
  case (Logout token)
  then show ?thesis
    using assms(1) by (auto simp: revokeSession_def known_delete_session split: option.splits)
next
  case (Restart now writable)
  have "known_auth S \<lparr>authSessions = [], loginAttempts = [], sessionsFileContent = sessionsFileContent a, cacheWritable = writable\<rparr>"
    using assms(1) by (simp add: known_auth_def hashed_sessions_def)
  then show ?thesis using Restart by (simp add: restart_auth_def known_loadSessions)
qed

lemma auth_run_known:
  "known_auth S a \<Longrightarrow> hmac ` issued hmac cfg ops \<subseteq> S \<Longrightarrow> known_auth S (fold (auth_step hmac cfg) ops a)"
proof (induction ops arbitrary: a)
  case (Cons op ops)
  have "issued hmac cfg (op # ops) = issued hmac cfg [op] \<union> issued hmac cfg ops" by (auto simp: issued_def)
  with Cons show ?case by (simp add: image_Un auth_step_known)
qed simp

text \<open>C33. Nobody gets in without a token of the gateway. Take a new installation (no session in memory
  or on disk) and any history of login requests on both routes, checks, logouts and restarts, which load the
  session file. A token that is accepted then is the configured one, or was handed out by a login of
  that history whose request presented an admin token of at least 16 characters with the hash of the configured one,
  provided that the hash of the token is the hash of no other token generated in the history.\<close>

theorem accepted_token_was_issued:
  assumes "authSessions a = []" "sessionsFileContent a = None"
    and "fst (verifySession hmac cfg now (Some token) (fold (auth_step hmac cfg) ops a))"
    and "\<And>t. t \<in> generated ops \<Longrightarrow> hmac t = hmac token \<Longrightarrow> t = token"
  shows "token = gatewayAuthToken cfg \<or> token \<in> issued hmac cfg ops"
proof (cases "token = gatewayAuthToken cfg")
  case False
  then obtain s where "map_of (authSessions (fold (auth_step hmac cfg) ops a)) (hmac token) = Some s"
    using assms(3) by (auto simp: verifySession_def split: if_splits option.splits)
  moreover have "known_auth (hmac ` issued hmac cfg ops) (fold (auth_step hmac cfg) ops a)"
    by (rule auth_run_known) (use assms(1,2) in \<open>simp_all add: known_auth_def hashed_sessions_def\<close>)
  ultimately have "hmac token \<in> hmac ` issued hmac cfg ops"
    by (auto simp: known_auth_def hashed_sessions_def dest!: map_of_SomeD)
  then obtain t where t: "t \<in> issued hmac cfg ops" "hmac t = hmac token" by auto
  then have "t \<in> generated ops" by (auto simp: issued_def generated_def)
  with t assms(4) show ?thesis by auto
qed simp

lemma accepted_token_was_issued_witness:
  "''tok'' = gatewayAuthToken sample_auth_config
   \<or> ''tok'' \<in> issued rev sample_auth_config [AdminLogin 0 ''9.9.9.9'' ''tok'' (Some ''0123456789abcdef''), Restart 3 True]"
proof (rule accepted_token_was_issued [where a = sample_auth and now = 5])
  show "authSessions sample_auth = []" "sessionsFileContent sample_auth = None" by (simp_all add: sample_auth_def)
  show "fst (verifySession rev sample_auth_config 5 (Some ''tok'') (fold (auth_step rev sample_auth_config)
      [AdminLogin 0 ''9.9.9.9'' ''tok'' (Some ''0123456789abcdef''), Restart 3 True] sample_auth))"
    by (simp add: sample_auth_def sample_auth_config_def post_admin_login_def allowLoginAttempt_def verifyAdminToken_def
        safeEqual_iff clearLoginFailures_def createSession_def pruneSessions_def evict_oldest_id restart_auth_def
        loadSessions_def persistAuthSessions_def maxAuthSessions_def verifySession_def Let_def)
qed (simp add: generated_def)

section \<open>Guessing passwords\<close>

text \<open>A login request on either route, and a series of them with time and address. The answers in order.\<close>

datatype login_request = GatewayCredentials "(string \<times> string) option" | AdminCredentials string "string option"

fun post_login ::
  "(string \<Rightarrow> string) \<Rightarrow> auth_config \<Rightarrow> int \<Rightarrow> string \<Rightarrow> login_request \<Rightarrow> auth_state \<Rightarrow> login_reply \<times> auth_state" where
  "post_login hmac cfg now ip (GatewayCredentials body) a = post_gateway_login cfg now ip body a"
| "post_login hmac cfg now ip (AdminCredentials newToken body) a = post_admin_login hmac cfg now ip newToken body a"

fun login_series ::
  "(string \<Rightarrow> string) \<Rightarrow> auth_config \<Rightarrow> (int \<times> string \<times> login_request) list \<Rightarrow> auth_state \<Rightarrow> (string \<times> login_reply) list" where
  "login_series hmac cfg [] a = []"
| "login_series hmac cfg ((now, ip, body) # rest) a =
     (let (r, a') = post_login hmac cfg now ip body a in (ip, r) # login_series hmac cfg rest a')"

fun wrong_body :: "(string \<Rightarrow> string) \<Rightarrow> auth_config \<Rightarrow> login_request \<Rightarrow> bool" where
  "wrong_body hmac cfg (GatewayCredentials body) =
     (case body of None \<Rightarrow> True | Some (u, p) \<Rightarrow> \<not> (u = gatewayAuthUsername cfg \<and> p = gatewayAuthPassword cfg))"
| "wrong_body hmac cfg (AdminCredentials newToken body) =
     (case body of None \<Rightarrow> True | Some t \<Rightarrow> length t < 16 \<or> hmac t \<noteq> hmac (adminToken cfg))"

lemma map_wf_unique: "map_wf m \<Longrightarrow> map_of m k = Some v \<Longrightarrow> (k, w) \<in> set m \<Longrightarrow> w = v"
  by (metis map_of_is_SomeI option.inject)

lemma recordLoginFailure_other:
  assumes "map_wf (loginAttempts a)" "map_of (loginAttempts a) ip = Some v" "now - la_startedAt v < loginWindowMs" "ip' \<noteq> ip"
  shows "map_of (loginAttempts (recordLoginFailure now ip' a)) ip = Some v"
    and "map_wf (loginAttempts (recordLoginFailure now ip' a))"
proof -
  have *: "map_wf (AList.update ip' w (loginAttempts a)) \<and> map_of (AList.update ip' w (loginAttempts a)) ip = Some v" for w
    using assms by (simp add: map_wf_update)
  have keep: "map_of (drop_expired now m m) ip = Some v" if "map_wf m" "map_of m ip = Some v" for m
    by (rule drop_expired_keeps [OF that(2) assms(3)]) (use map_wf_unique [OF that] in simp)
  have wf: "map_wf (drop_expired now xs m)" if "map_wf m" for xs m
    using that by (induction now xs m rule: drop_expired.induct) (auto simp: Let_def map_wf_delete)
  show "map_of (loginAttempts (recordLoginFailure now ip' a)) ip = Some v"
    using * keep by (auto simp: recordLoginFailure_def Let_def simp del: map_of_eq_Some_iff split: option.splits if_splits)
  show "map_wf (loginAttempts (recordLoginFailure now ip' a))"
    using * wf by (auto simp: recordLoginFailure_def Let_def simp del: map_of_eq_Some_iff split: option.splits if_splits)
qed

lemma recordLoginFailure_same:
  assumes "map_wf (loginAttempts a)" "map_of (loginAttempts a) ip = Some v" "now - la_startedAt v < loginWindowMs"
  shows "map_of (loginAttempts (recordLoginFailure now ip a)) ip = Some (v\<lparr>failures := failures v + 1\<rparr>)"
    and "map_wf (loginAttempts (recordLoginFailure now ip a))"
proof -
  let ?v = "v\<lparr>failures := failures v + 1\<rparr>"
  let ?m = "AList.update ip ?v (loginAttempts a)"
  have wf: "map_wf ?m" using assms(1) by (rule map_wf_update)
  have "map_of (drop_expired now ?m ?m) ip = Some ?v"
    by (rule drop_expired_keeps) (use assms(3) map_wf_unique [OF wf, of ip ?v] in simp_all)
  moreover have "map_wf (drop_expired now xs m)" if "map_wf m" for xs m
    using that by (induction now xs m rule: drop_expired.induct) (auto simp: Let_def map_wf_delete)
  ultimately show "map_of (loginAttempts (recordLoginFailure now ip a)) ip = Some ?v"
    "map_wf (loginAttempts (recordLoginFailure now ip a))"
    using assms wf by (simp_all add: recordLoginFailure_def Let_def del: map_of_eq_Some_iff)
qed

lemma createSession_attempts [simp]: "loginAttempts (snd (createSession hmac cfg now token a)) = loginAttempts a"
  by (simp add: createSession_def pruneSessions_def Let_def split: list.splits)

lemma login_other:
  assumes "map_wf (loginAttempts a)" "map_of (loginAttempts a) ip = Some v" "now - la_startedAt v < loginWindowMs" "ip' \<noteq> ip"
    and "post_login hmac cfg now ip' body a = (r, a')"
  shows "map_wf (loginAttempts a') \<and> map_of (loginAttempts a') ip = Some v"
proof -
  obtain ok a1 where a1: "allowLoginAttempt now ip' a = (ok, a1)" by fastforce
  then have wf1: "map_wf (loginAttempts a1)" and get1: "map_of (loginAttempts a1) ip = Some v"
    using assms by (auto simp: allowLoginAttempt_def Let_def map_wf_update split: option.splits if_splits)
  have cleared: "map_wf (loginAttempts (clearLoginFailures ip' a1))"
    "map_of (loginAttempts (clearLoginFailures ip' a1)) ip = Some v"
    using wf1 get1 assms(4) by (simp_all add: clearLoginFailures_def map_wf_delete)
  have "loginAttempts a' \<in> {loginAttempts a1, loginAttempts (recordLoginFailure now ip' a1),
      loginAttempts (clearLoginFailures ip' a1)}"
  proof (cases body)
    case (GatewayCredentials b)
    then show ?thesis
      using assms(5) a1 by (auto simp: post_gateway_login_def split: option.splits if_splits prod.splits)
  next
    case (AdminCredentials newToken b)
    then have "snd (post_login hmac cfg now ip' body a) =
        (if \<not> ok then a1 else case b of None \<Rightarrow> recordLoginFailure now ip' a1
         | Some t \<Rightarrow> if length t < 16 \<or> \<not> verifyAdminToken hmac cfg t then recordLoginFailure now ip' a1
             else snd (createSession hmac cfg now newToken (clearLoginFailures ip' a1)))"
      using a1 by (simp add: post_admin_login_def case_prod_beta Let_def split: option.splits)
    then show ?thesis using assms(5) by (auto split: option.splits if_splits)
  qed
  then show ?thesis
    using wf1 get1 cleared recordLoginFailure_other [OF wf1 get1 assms(3,4)] by auto
qed

lemma login_same:
  assumes "map_wf (loginAttempts a)" "map_of (loginAttempts a) ip = Some v" "now - la_startedAt v < loginWindowMs"
    and "wrong_body hmac cfg body" "post_login hmac cfg now ip body a = (r, a')"
  shows "map_wf (loginAttempts a') \<and>
    (if failures v < maxLoginFailures
     then r \<noteq> RateLimited \<and> map_of (loginAttempts a') ip = Some (v\<lparr>failures := failures v + 1\<rparr>)
     else r = RateLimited \<and> map_of (loginAttempts a') ip = Some v)"
  using assms recordLoginFailure_same [OF assms(1-3)]
  by (cases body)
    (auto simp: post_gateway_login_def post_admin_login_def allowLoginAttempt_def validateGatewayLogin_def
      verifyAdminToken_def safeEqual_iff Let_def split: option.splits if_splits prod.splits)

text \<open>C37. Guessing is limited: as long as no request from an address carries the right password of the
  gateway or an admin token with the right hash, at most eight requests from it are checked in a
  window of a minute, on the two login routes together, however many it sends and whatever other
  addresses do meanwhile, right credentials included; the rest is turned away as rate limited. The
  window starts with the first attempt of the address. (A login with right credentials deletes the counter of
  its address.)\<close>

theorem login_guesses_limited:
  assumes "map_wf (loginAttempts a)" "map_of (loginAttempts a) ip = Some v" "failures v = 0"
    and "\<forall>(now, ip', body)\<in>set reqs. now < la_startedAt v + loginWindowMs \<and> (ip' = ip \<longrightarrow> wrong_body hmac cfg body)"
  shows "length (filter (\<lambda>(ip', r). ip' = ip \<and> r \<noteq> RateLimited) (login_series hmac cfg reqs a)) \<le> 8"
proof -
  have "length (filter (\<lambda>(ip', r). ip' = ip \<and> r \<noteq> RateLimited) (login_series hmac cfg reqs a)) \<le> 8 - failures v"
    if "map_wf (loginAttempts a)" "map_of (loginAttempts a) ip = Some v"
      "\<forall>(now, ip', body)\<in>set reqs. now < la_startedAt v + loginWindowMs \<and> (ip' = ip \<longrightarrow> wrong_body hmac cfg body)"
    for a v using that
  proof (induction reqs arbitrary: a v)
    case Nil
    then show ?case by simp
  next
    case (Cons q reqs)
    obtain now ip' body where q: "q = (now, ip', body)" by (cases q)
    obtain r a' where r: "post_login hmac cfg now ip' body a = (r, a')" by fastforce
    have win: "now - la_startedAt v < loginWindowMs" using Cons.prems(3) by (simp add: q)
    show ?case
    proof (cases "ip' = ip")
      case False
      then have "map_wf (loginAttempts a')" "map_of (loginAttempts a') ip = Some v"
        using login_other [OF Cons.prems(1,2) win False r] by auto
      from Cons.IH [OF this] Cons.prems(3) False show ?thesis by (simp add: q r)
    next
      case True
      then have wrong: "wrong_body hmac cfg body" using Cons.prems(3) by (simp add: q)
      let ?w = "if failures v < maxLoginFailures then v\<lparr>failures := failures v + 1\<rparr> else v"
      have step: "map_wf (loginAttempts a')" "map_of (loginAttempts a') ip = Some ?w"
        "r \<noteq> RateLimited \<longleftrightarrow> failures v < maxLoginFailures"
        using login_same [OF Cons.prems(1,2) win wrong] r True by (auto split: if_splits)
      have "\<forall>(now, ip', body)\<in>set reqs. now < la_startedAt ?w + loginWindowMs \<and> (ip' = ip \<longrightarrow> wrong_body hmac cfg body)"
        using Cons.prems(3) by simp
      from Cons.IH [OF step(1,2) this] step(3) True show ?thesis
        using r by (auto simp: q maxLoginFailures_def)
    qed
  qed
  from this [OF assms(1,2,4)] show ?thesis by simp
qed

lemma login_guesses_limited_witness:
  "length (filter (\<lambda>(ip', r). ip' = ''9.9.9.9'' \<and> r \<noteq> RateLimited)
     (login_series rev sample_auth_config
       [(1, ''9.9.9.9'', AdminCredentials ''n'' None), (2, ''9.9.9.9'', GatewayCredentials (Some (''u'', ''x'')))]
       (snd (allowLoginAttempt 0 ''9.9.9.9'' sample_auth)))) \<le> 8"
  by (rule login_guesses_limited [where v = "\<lparr>la_startedAt = 0, failures = 0\<rparr>"])
    (simp_all add: allowLoginAttempt_def sample_auth_def loginWindowMs_def sample_auth_config_def)

end
