(* ===== verification/Bridge.thy ===== *)
theory Bridge
  imports Store Attachments
begin

text \<open>
  The JSON-RPC bridge to the Codex app-server (\<open>codexBridge.ts\<close>).

  The class keeps its fields in the record \<open>bridge\<close>. What an operation does to the outside (events
  for the gateway, messages written to the child process, promises settled, signals sent) is
  appended to the field \<open>effects\<close>. An \<open>async\<close> method is cut at its awaits: the call is parked in
  the state and a continuation is a further operation, so that other operations can come between.

  \<^item> a request of the app-server passes through \<open>auditing\<close> (the first audit entry is being written),
    \<open>announcing\<close> (the second one), \<open>deciding\<close> (an approval is pending, its timer armed) and \<open>decided\<close>
    (the promise is settled, the continuation is queued);
  \<^item> a request to the app-server that needs a connection waits in \<open>waiting\<close>.

  \<open>JSON.parse\<close> is an argument \<open>parse\<close> of the operations that read the child's output; every theorem
  holds for all functions in its place. Chunks are taken after \<open>StringDecoder\<close>.
\<close>

section \<open>State\<close>

datatype js_error = JsError (err_code: "string option") (err_message: string)

record child_process =
  killed :: bool
  stdin_writable :: bool

record pending_request =
  pr_method :: string
  pr_timeoutMs :: int

record pending_approval =
  pa_threadId :: string
  pa_turnId :: "string option"
  pa_method :: string
  pa_call :: nat

datatype verdict = Approve | Deny

record approval_decision =
  verdict :: verdict
  execpolicyAmendment :: "string list option"

record server_call =
  sc_id :: json
  sc_method :: string
  sc_params :: "json option"

record deciding_call =
  dc_call :: server_call
  dc_threadId :: string
  dc_expiresAt :: string

datatype outcome = Resolved json | Rejected js_error

datatype bridge_effect =
    EmitEvent string "json option"
  | EmitLog string
  | Write json
  | Settled json outcome
  | CallFailed string js_error
  | KillChild

datatype connect_state = NotConnecting | AwaitingInitialize json | InitializeAnswered "js_error option"

record bridge =
  child :: "child_process option"
  nextId :: nat
  pending :: "(json, pending_request) js_map"
  pendingApprovals :: "(string, pending_approval) js_map"
  policyByThread :: "(string, policy_mode) js_map"
  modelCache :: "(int \<times> string list) option"
  connecting :: connect_state
  ready :: bool
  stdoutBuffer :: string
  waiting :: "(string \<times> json \<times> int) list"
  nextCall :: nat
  auditing :: "(nat, server_call) js_map"
  announcing :: "(nat, server_call) js_map"
  deciding :: "(nat, deciding_call) js_map"
  decided :: "(server_call \<times> approval_decision) list"
  effects :: "bridge_effect list"

definition maxPendingApprovals :: nat where "maxPendingApprovals = 256"
definition maxPendingRequests :: nat where "maxPendingRequests = 1024"
definition maxStdoutBufferBytes :: int where "maxStdoutBufferBytes = 32 * 1024 * 1024"
definition maxPolicyEntries :: nat where "maxPolicyEntries = 10000"

definition new_bridge :: bridge where
  "new_bridge = \<lparr>child = None, nextId = 1, pending = [], pendingApprovals = [], policyByThread = [],
     modelCache = None, connecting = NotConnecting, ready = False, stdoutBuffer = [], waiting = [],
     nextCall = 0, auditing = [], announcing = [], deciding = [], decided = [], effects = []\<rparr>"

definition fx :: "bridge_effect list \<Rightarrow> bridge \<Rightarrow> bridge" where
  "fx es b = b\<lparr>effects := effects b @ es\<rparr>"

section \<open>Helpers\<close>

definition errorMessageParts :: "json \<Rightarrow> js_error" where
  "errorMessageParts error =
     (if \<not> is_object error then JsError None (stringify error)
      else JsError
        (case str_field error ''code'' of Some c \<Rightarrow> Some c | None \<Rightarrow> str_field error ''type'')
        (case str_field error ''message'' of
           Some t \<Rightarrow> t
         | None \<Rightarrow> (case str_field error ''error'' of Some t \<Rightarrow> t | None \<Rightarrow> stringify error)))"

text \<open>An empty code is not attached to the error.\<close>

definition messageError :: "json \<Rightarrow> js_error option" where
  "messageError message =
     (case jget message ''error'' of
        None \<Rightarrow> None
      | Some (JStr t) \<Rightarrow> Some (JsError None t)
      | Some error \<Rightarrow>
          (case errorMessageParts error of
             JsError c t \<Rightarrow> Some (JsError (if c = Some [] then None else c) t)))"

definition shouldUseShell :: "bool \<Rightarrow> string \<Rightarrow> bool" where
  "shouldUseShell win32 command =
     (win32 \<and> (CHR 0x5C \<notin> set command \<and> CHR ''/'' \<notin> set command
        \<or> ends_with (toLowerCase command) ''.cmd'' \<or> ends_with (toLowerCase command) ''.bat''))"

text \<open>The pattern \<open>(?:^|_)(?:API_KEY|TOKEN|SECRET|PASSWORD|PRIVATE_KEY|ACCESS_KEY)$\<close>.\<close>

definition secret_suffix :: "string \<Rightarrow> bool" where
  "secret_suffix key =
     list_ex (\<lambda>w. key = w \<or> ends_with key (''_'' @ w))
       [''API_KEY'', ''TOKEN'', ''SECRET'', ''PASSWORD'', ''PRIVATE_KEY'', ''ACCESS_KEY'']"

definition scrubbed_key :: "string \<Rightarrow> bool" where
  "scrubbed_key key =
     (starts_with key ''CODEHARBOR_'' \<or> starts_with key ''RELAY_'' \<or> starts_with key ''GATEWAY_AUTH_''
      \<or> key = ''ADMIN_TOKEN'' \<or> key = ''SESSION_SECRET'' \<or> key = ''DATABASE_URL'' \<or> key = ''REDIS_URL''
      \<or> starts_with key ''POSTGRES_'' \<or> starts_with key ''PG'' \<or> secret_suffix key)"

definition extraPath :: "string list" where
  "extraPath = [''/opt/homebrew/bin'', ''/usr/local/bin'', ''/usr/bin'', ''/bin'', ''/usr/sbin'', ''/sbin'']"

definition processEnvWithToolPath :: "char \<Rightarrow> (string, string) js_map \<Rightarrow> (string, string) js_map" where
  "processEnvWithToolPath delimiter env =
     (let existingPath = (case map_of env ''PATH'' of Some p \<Rightarrow> p | None \<Rightarrow> []);
          childEnv = filter (\<lambda>(key, v). \<not> scrubbed_key key) env
      in AList.update ''PATH'' (join [delimiter] (filter (\<lambda>p. p \<noteq> []) (extraPath @ [existingPath]))) childEnv)"

text \<open>\<open>JSON.stringify(undefined)\<close> is \<open>undefined\<close>, and an absent value stays absent.\<close>

definition summarizeParams :: "json option \<Rightarrow> json option" where
  "summarizeParams params =
     (case params of
        None \<Rightarrow> None
      | Some p \<Rightarrow>
          let t = stringify p
          in if length t > 2000 then Some (JStr (take 2000 t @ ''...'')) else Some p)"

section \<open>Requests to the app-server\<close>

definition child_open :: "bridge \<Rightarrow> bool" where
  "child_open b = (case child b of None \<Rightarrow> False | Some c \<Rightarrow> \<not> killed c \<and> stdin_writable c)"

definition stdio_closed :: js_error where
  "stdio_closed = JsError None ''Codex app-server stdio is not open''"

definition writeMessage :: "json \<Rightarrow> bridge \<Rightarrow> js_error option \<times> bridge" where
  "writeMessage payload b =
     (if \<not> child_open b then (Some stdio_closed, b) else (None, fx [Write payload] b))"

definition sendRequest :: "string \<Rightarrow> json \<Rightarrow> int \<Rightarrow> bridge \<Rightarrow> (js_error + json) \<times> bridge" where
  "sendRequest rpc params timeoutMs b =
     (if \<not> child_open b then (Inl stdio_closed, b)
      else if length (pending b) \<ge> maxPendingRequests then (Inl (JsError None ''too_many_pending_requests''), b)
      else
        let reqId = JNum (of_nat (nextId b));
            b1 = b\<lparr>nextId := nextId b + 1,
                   pending := AList.update reqId \<lparr>pr_method = rpc, pr_timeoutMs = timeoutMs\<rparr> (pending b)\<rparr>
        in (Inr reqId, snd (writeMessage (JObj [(''id'', reqId), (''method'', JStr rpc), (''params'', params)]) b1)))"

text \<open>A promise of a request is settled; the connection attempt may be what waits for it.\<close>

definition settle :: "json \<Rightarrow> outcome \<Rightarrow> bridge \<Rightarrow> bridge" where
  "settle reqId out b =
     fx [Settled reqId out] (b\<lparr>connecting :=
       (if connecting b = AwaitingInitialize reqId
        then InitializeAnswered (case out of Resolved _ \<Rightarrow> None | Rejected e \<Rightarrow> Some e)
        else connecting b)\<rparr>)"

text \<open>The timer of a request.\<close>

definition request_timeout :: "json \<Rightarrow> bridge \<Rightarrow> bridge" where
  "request_timeout reqId b =
     (case map_of (pending b) reqId of
        None \<Rightarrow> b
      | Some r \<Rightarrow>
          settle reqId (Rejected (JsError None
              (pr_method r @ '' timed out after '' @ int_str (pr_timeoutMs r) @ ''ms'')))
            (b\<lparr>pending := AList.delete reqId (pending b)\<rparr>))"

text \<open>An async method whose \<open>sendRequest\<close> throws returns a rejected promise.\<close>

definition send_or_fail :: "string \<Rightarrow> json \<Rightarrow> int \<Rightarrow> bridge \<Rightarrow> bridge" where
  "send_or_fail rpc params timeoutMs b =
     (case sendRequest rpc params timeoutMs b of
        (Inl e, b') \<Rightarrow> fx [CallFailed rpc e] b'
      | (Inr _, b') \<Rightarrow> b')"

definition initialize_params :: json where
  "initialize_params =
     JObj [(''clientInfo'', JObj [(''name'', JStr ''codex-remote-control''), (''title'', JStr ''Codex Remote Control''),
                                  (''version'', JStr ''0.1.0'')]),
           (''capabilities'', JObj [(''experimentalApi'', JBool True)])]"

text \<open>\<open>spawn\<close> returns a child; a failure to start is reported by its \<open>error\<close> event.\<close>

definition ensureServerProcess :: "bridge \<Rightarrow> bridge" where
  "ensureServerProcess b =
     (case child b of
        Some c \<Rightarrow> if \<not> killed c then b
                  else b\<lparr>stdoutBuffer := [], child := Some \<lparr>killed = False, stdin_writable = True\<rparr>\<rparr>
      | None \<Rightarrow> b\<lparr>stdoutBuffer := [], child := Some \<lparr>killed = False, stdin_writable = True\<rparr>\<rparr>)"

text \<open>\<open>connect\<close> up to the answer of \<open>initialize\<close>.\<close>

definition connect :: "bridge \<Rightarrow> bridge" where
  "connect b =
     (case sendRequest ''initialize'' initialize_params 120000 (ensureServerProcess (b\<lparr>ready := False\<rparr>)) of
        (Inl e, b') \<Rightarrow> b'\<lparr>connecting := InitializeAnswered (Some e)\<rparr>
      | (Inr reqId, b') \<Rightarrow> b'\<lparr>connecting := AwaitingInitialize reqId\<rparr>)"

definition ensureReady :: "bridge \<Rightarrow> bool \<times> bridge" where
  "ensureReady b =
     (if ready b \<and> (case child b of None \<Rightarrow> False | Some c \<Rightarrow> \<not> killed c) then (True, b)
      else if connecting b \<noteq> NotConnecting then (False, b)
      else (False, connect b))"

definition request :: "string \<Rightarrow> json \<Rightarrow> int \<Rightarrow> bridge \<Rightarrow> bridge" where
  "request rpc params timeoutMs b =
     (let (ok, b1) = ensureReady b
      in if ok then send_or_fail rpc params timeoutMs b1
         else b1\<lparr>waiting := waiting b1 @ [(rpc, params, timeoutMs)]\<rparr>)"

text \<open>The continuation of \<open>connect\<close> and of the requests that waited for it.\<close>

definition finish_connect :: "bridge \<Rightarrow> bridge" where
  "finish_connect b =
     (case connecting b of
        InitializeAnswered refused \<Rightarrow>
          let (failure, b1) = (if refused = None then writeMessage (JObj [(''method'', JStr ''initialized'')]) b
                               else (refused, b));
              b2 = b1\<lparr>connecting := NotConnecting, waiting := []\<rparr>
          in (case failure of
                None \<Rightarrow> fold (\<lambda>(rpc, params, t). send_or_fail rpc params t) (waiting b) (b2\<lparr>ready := True\<rparr>)
              | Some e \<Rightarrow> fx (map (\<lambda>(rpc, params, t). CallFailed rpc e) (waiting b)) b2)
      | _ \<Rightarrow> b)"

section \<open>Threads and turns\<close>

record run_options =
  ro_model :: "string option"
  ro_effort :: "string option"
  ro_threadSource :: "string option"
  ro_multiAgentMode :: "string option"

text \<open>\<open>...(x ? {k: x} : {})\<close>.\<close>

definition spread_opt :: "string \<Rightarrow> string option \<Rightarrow> (string \<times> json) list" where
  "spread_opt k v = (case v of Some s \<Rightarrow> if s = [] then [] else [(k, JStr s)] | None \<Rightarrow> [])"

definition approval_policy :: "policy_mode \<Rightarrow> json" where
  "approval_policy mode = JStr (if mode = FullAccess then ''never'' else ''on-request'')"

definition sandbox_policy :: "policy_mode \<Rightarrow> json" where
  "sandbox_policy mode = JObj [(''type'', JStr (if mode = FullAccess then ''dangerFullAccess'' else ''readOnly''))]"

definition rememberPolicy :: "string \<Rightarrow> policy_mode \<Rightarrow> bridge \<Rightarrow> bridge" where
  "rememberPolicy threadId mode b =
     b\<lparr>policyByThread := evict_oldest maxPolicyEntries (AList.update threadId mode (AList.delete threadId (policyByThread b)))\<rparr>"

definition policy_of :: "bridge \<Rightarrow> string \<Rightarrow> policy_mode" where
  "policy_of b threadId = (case map_of (policyByThread b) threadId of Some m \<Rightarrow> m | None \<Rightarrow> Confirm)"

definition policy_or :: "bridge \<Rightarrow> string \<Rightarrow> policy_mode option \<Rightarrow> policy_mode" where
  "policy_or b threadId mode = (case mode of Some m \<Rightarrow> m | None \<Rightarrow> policy_of b threadId)"

definition listThreads :: "js_number \<Rightarrow> string option \<Rightarrow> bridge \<Rightarrow> bridge" where
  "listThreads limit cursor =
     request ''thread/list'' (JObj [(''limit'', JNum limit),
       (''cursor'', case cursor of Some c \<Rightarrow> JStr c | None \<Rightarrow> JNull),
       (''sortKey'', JStr ''updated_at''), (''sortDirection'', JStr ''desc''),
       (''archived'', JBool False), (''useStateDbOnly'', JBool True)]) 120000"

definition readThread :: "string \<Rightarrow> bridge \<Rightarrow> bridge" where
  "readThread threadId =
     request ''thread/read'' (JObj [(''threadId'', JStr threadId), (''includeTurns'', JBool True)]) 15000"

definition resumeThread :: "string \<Rightarrow> policy_mode option \<Rightarrow> bridge \<Rightarrow> bridge" where
  "resumeThread threadId modeArg b =
     (let mode = policy_or b threadId modeArg
      in request ''thread/resume''
           (JObj [(''threadId'', JStr threadId), (''approvalPolicy'', approval_policy mode),
                  (''sandbox'', JStr (if mode = FullAccess then ''danger-full-access'' else ''read-only'')),
                  (''excludeTurns'', JBool False)]) 120000 (rememberPolicy threadId mode b))"

definition listModels :: "bridge \<Rightarrow> bridge" where
  "listModels = request ''model/list'' (JObj []) 15000"

definition setPolicyMode :: "string \<Rightarrow> policy_mode \<Rightarrow> bridge \<Rightarrow> bridge" where
  "setPolicyMode threadId mode = rememberPolicy threadId mode"

definition forkThread :: "string \<Rightarrow> policy_mode option \<Rightarrow> string \<Rightarrow> bridge \<Rightarrow> bridge" where
  "forkThread threadId modeArg src b =
     request ''thread/fork'' (JObj [(''threadId'', JStr threadId), (''threadSource'', JStr src)]) 120000
       (rememberPolicy threadId (policy_or b threadId modeArg) b)"

definition model_ids :: "json \<Rightarrow> string list" where
  "model_ids body =
     (let entries = (case as_arr (jget body ''data'') of
            Some xs \<Rightarrow> xs
          | None \<Rightarrow> (case as_arr (jget body ''models'') of
                Some xs \<Rightarrow> xs
              | None \<Rightarrow> (case as_arr (Some body) of Some xs \<Rightarrow> xs | None \<Rightarrow> [])))
      in fold (\<lambda>entry ids.
           case (case entry of
                   JStr s \<Rightarrow> Some (JStr s)
                 | _ \<Rightarrow> jor (jor (jget entry ''id'') (jget entry ''model'')) (jget entry ''slug'')) of
             Some (JStr mid) \<Rightarrow>
               if mid \<noteq> [] \<and> jget entry ''hidden'' \<noteq> Some (JBool True) then set_add mid ids else ids
           | _ \<Rightarrow> ids) entries [])"

text \<open>\<open>ensureModelAvailable\<close>: whether the model list has to be fetched, what the answer leaves in the
  cache, and the final test.\<close>

definition needs_model_list :: "string option \<Rightarrow> int \<Rightarrow> bridge \<Rightarrow> bool" where
  "needs_model_list model now b =
     (model \<noteq> None \<and> model \<noteq> Some [] \<and>
      (case modelCache b of None \<Rightarrow> True | Some (expiry, ids) \<Rightarrow> expiry \<le> now))"

definition model_list_answered :: "int \<Rightarrow> json \<Rightarrow> bridge \<Rightarrow> bridge" where
  "model_list_answered now response b = b\<lparr>modelCache := Some (now + 60000, model_ids response)\<rparr>"

definition ensureModelAvailable :: "string option \<Rightarrow> bridge \<Rightarrow> js_error option" where
  "ensureModelAvailable model b =
     (case model of
        None \<Rightarrow> None
      | Some name \<Rightarrow>
          if name = [] then None
          else if (case modelCache b of None \<Rightarrow> False | Some (expiry, ids) \<Rightarrow> name \<in> set ids) then None
          else Some (JsError (Some ''model_not_available'') (''model_not_available: '' @ name)))"

definition startThread :: "string \<Rightarrow> policy_mode \<Rightarrow> run_options \<Rightarrow> bridge \<Rightarrow> bridge" where
  "startThread cwd mode options b =
     (case ensureModelAvailable (ro_model options) b of
        Some e \<Rightarrow> fx [CallFailed ''thread/start'' e] b
      | None \<Rightarrow>
          request ''thread/start''
            (JObj ([(''cwd'', JStr cwd)] @ spread_opt ''model'' (ro_model options) @ spread_opt ''effort'' (ro_effort options)
               @ spread_opt ''threadSource'' (ro_threadSource options)
               @ spread_opt ''multiAgentMode'' (ro_multiAgentMode options)
               @ [(''approvalPolicy'', approval_policy mode), (''sandboxPolicy'', sandbox_policy mode),
                  (''ephemeral'', JBool False)])) 120000 b)"

definition startTurn ::
  "string \<Rightarrow> string \<Rightarrow> stored_attachment list \<Rightarrow> policy_mode option \<Rightarrow> run_options \<Rightarrow> bridge \<Rightarrow> bridge" where
  "startTurn threadId txt attachments modeArg options b =
     (case ensureModelAvailable (ro_model options) b of
        Some e \<Rightarrow> fx [CallFailed ''turn/start'' e] b
      | None \<Rightarrow>
          let mode = policy_or b threadId modeArg
          in request ''turn/start''
            (JObj ([(''threadId'', JStr threadId)] @ spread_opt ''model'' (ro_model options)
               @ spread_opt ''effort'' (ro_effort options) @ spread_opt ''multiAgentMode'' (ro_multiAgentMode options)
               @ [(''input'', buildCodexInput txt attachments), (''approvalPolicy'', approval_policy mode),
                  (''sandboxPolicy'', sandbox_policy mode)])) 600000 (rememberPolicy threadId mode b))"

definition steerTurn :: "string \<Rightarrow> string \<Rightarrow> string \<Rightarrow> stored_attachment list \<Rightarrow> bridge \<Rightarrow> bridge" where
  "steerTurn threadId expectedTurnId txt attachments =
     request ''turn/steer'' (JObj [(''threadId'', JStr threadId), (''expectedTurnId'', JStr expectedTurnId),
       (''input'', buildCodexInput txt attachments), (''responsesapiClientMetadata'', JNull)]) 600000"

definition interruptTurn :: "string \<Rightarrow> string \<Rightarrow> bridge \<Rightarrow> bridge" where
  "interruptTurn threadId turnId =
     request ''turn/interrupt'' (JObj [(''threadId'', JStr threadId), (''turnId'', JStr turnId)]) 120000"

section \<open>Approvals\<close>

definition isApprovalRequest :: "string \<Rightarrow> bool" where
  "isApprovalRequest rpc =
     (rpc \<in> {''item/commandExecution/requestApproval'', ''item/fileChange/requestApproval'',
             ''execCommandApproval'', ''applyPatchApproval'', ''item/tool/requestUserInput''})"

definition approvalResult :: "string \<Rightarrow> approval_decision \<Rightarrow> json" where
  "approvalResult rpc d =
     (if rpc = ''item/tool/requestUserInput''
      then JObj [(''answers'', if verdict d = Approve then JObj [] else JNull)]
      else case (verdict d, execpolicyAmendment d) of
          (Approve, Some (r # rs)) \<Rightarrow>
            JObj [(''decision'', JObj [(''acceptWithExecpolicyAmendment'',
              JObj [(''execpolicy_amendment'', JArr (map JStr (r # rs)))])])]
        | _ \<Rightarrow>
            if rpc = ''execCommandApproval'' \<or> rpc = ''applyPatchApproval''
            then JObj [(''decision'', JStr (if verdict d = Approve then ''approved_for_session'' else ''cancel''))]
            else JObj [(''decision'', JStr (if verdict d = Approve then ''accept'' else ''cancel''))])"

definition deny :: approval_decision where
  "deny = \<lparr>verdict = Deny, execpolicyAmendment = None\<rparr>"

text \<open>The promise of a pending approval is settled: its call waits for the continuation. A promise
  that is settled already stays as it is.\<close>

definition settle_call :: "nat \<Rightarrow> approval_decision \<Rightarrow> bridge \<Rightarrow> bridge" where
  "settle_call c d b =
     (case map_of (deciding b) c of
        None \<Rightarrow> b
      | Some dc \<Rightarrow> b\<lparr>deciding := AList.delete c (deciding b), decided := decided b @ [(dc_call dc, d)]\<rparr>)"

definition resolveApproval ::
  "string \<Rightarrow> verdict \<Rightarrow> string option \<Rightarrow> string option \<Rightarrow> string list option \<Rightarrow> bridge \<Rightarrow> bool \<times> bridge" where
  "resolveApproval requestId v threadId turnId amendment b =
     (case map_of (pendingApprovals b) requestId of
        None \<Rightarrow> (False, b)
      | Some p \<Rightarrow>
          if (case threadId of Some t \<Rightarrow> t \<noteq> [] \<and> pa_threadId p \<noteq> t | None \<Rightarrow> False) then (False, b)
          else if pa_turnId p = None \<or> pa_turnId p = Some [] \<or> turnId = None \<or> turnId = Some [] \<or> pa_turnId p \<noteq> turnId
          then (False, b)
          else (True, settle_call (pa_call p) \<lparr>verdict = v, execpolicyAmendment = amendment\<rparr>
                        (b\<lparr>pendingApprovals := AList.delete requestId (pendingApprovals b)\<rparr>)))"

definition rejectAll :: "js_error \<Rightarrow> bridge \<Rightarrow> bridge" where
  "rejectAll e b =
     (let b1 = (fold (\<lambda>(reqId, r). settle reqId (Rejected e)) (pending b) b)\<lparr>pending := []\<rparr>
      in (fold (\<lambda>(requestId, p). settle_call (pa_call p) deny) (pendingApprovals b1) b1)\<lparr>pendingApprovals := []\<rparr>)"

definition shutdown :: "bridge \<Rightarrow> bridge" where
  "shutdown b =
     (let b1 = rejectAll (JsError None ''Codex app-server shutting down'') (b\<lparr>ready := False\<rparr>)
      in (case child b1 of
            Some c \<Rightarrow> if \<not> killed c then fx [KillChild] (b1\<lparr>child := None\<rparr>) else b1\<lparr>child := None\<rparr>
          | None \<Rightarrow> b1))"

section \<open>Events of the child process\<close>

definition child_stdin_error :: "string \<Rightarrow> bridge \<Rightarrow> bridge" where
  "child_stdin_error txt b =
     fx [EmitLog (''Codex app-server stdin failed: '' @ txt)] (rejectAll (JsError None txt) (b\<lparr>ready := False\<rparr>))"

definition child_error :: "string \<Rightarrow> string \<Rightarrow> bridge \<Rightarrow> bridge" where
  "child_error command txt b =
     fx [EmitLog (''Failed to start Codex app-server: '' @ txt),
         EmitEvent ''codex/app-server/error'' (Some (JObj [(''message'', JStr txt), (''command'', JStr command)]))]
       (rejectAll (JsError None txt) (b\<lparr>ready := False, child := None\<rparr>))"

definition child_exit :: "int option \<Rightarrow> string option \<Rightarrow> bridge \<Rightarrow> bridge" where
  "child_exit code signal b =
     fx [EmitEvent ''codex/app-server/exited''
           (Some (JObj [(''code'', case code of Some n \<Rightarrow> JNum (of_int n) | None \<Rightarrow> JNull),
                        (''signal'', case signal of Some t \<Rightarrow> JStr t | None \<Rightarrow> JNull)]))]
       (rejectAll (JsError None
           (''Codex app-server exited with code '' @ (case code of Some n \<Rightarrow> int_str n | None \<Rightarrow> ''null'')
            @ '' signal '' @ (case signal of Some t \<Rightarrow> t | None \<Rightarrow> ''null'')))
         (b\<lparr>ready := False, child := None\<rparr>))"

section \<open>Requests of the app-server\<close>

text \<open>The \<open>catch\<close> handler of a failed \<open>handleServerRequest\<close>.\<close>

definition request_failed :: "server_call \<Rightarrow> string \<Rightarrow> bridge \<Rightarrow> bridge" where
  "request_failed call txt b =
     snd (writeMessage
       (JObj [(''id'', sc_id call),
              (''error'', JObj [(''code'', JStr ''internal_error''), (''message'', JStr ''request handling failed'')])])
       (fx [EmitEvent ''codex/app-server/request-error''
              (Some (JObj [(''requestId'', sc_id call), (''method'', JStr (sc_method call)), (''message'', JStr txt)]))] b))"

definition write_result :: "server_call \<Rightarrow> json \<Rightarrow> bridge \<Rightarrow> bridge" where
  "write_result call result b =
     (case writeMessage (JObj [(''id'', sc_id call), (''result'', result)]) b of
        (None, b') \<Rightarrow> b'
      | (Some e, b') \<Rightarrow> request_failed call (err_message e) b')"

text \<open>\<open>handleServerRequest\<close> up to its first await.\<close>

definition handleServerRequest :: "json \<Rightarrow> string \<Rightarrow> json option \<Rightarrow> bridge \<Rightarrow> bridge" where
  "handleServerRequest reqId rpc params b =
     b\<lparr>nextCall := nextCall b + 1,
       auditing := AList.update (nextCall b) \<lparr>sc_id = reqId, sc_method = rpc, sc_params = params\<rparr> (auditing b)\<rparr>"

text \<open>The record of the parameters and the thread they name.\<close>

definition call_field :: "server_call \<Rightarrow> string \<Rightarrow> string option" where
  "call_field call k =
     (case sc_params call of Some p \<Rightarrow> if is_object p then str_field p k else None | None \<Rightarrow> None)"

definition call_mode :: "bridge \<Rightarrow> server_call \<Rightarrow> policy_mode" where
  "call_mode b call =
     (case call_field call ''threadId'' of
        Some t \<Rightarrow> if t = [] then Confirm else policy_of b t
      | None \<Rightarrow> Confirm)"

text \<open>The answers that are given without asking, with the event of the first branch.\<close>

definition unattended :: "server_call \<Rightarrow> bridge \<Rightarrow> bridge" where
  "unattended call b =
     (if sc_method call = ''item/commandExecution/requestApproval''
      then write_result call (JObj [(''decision'', JStr ''accept'')])
             (fx [EmitEvent ''gateway/codex/serverRequest''
                    (Some (JObj (jobj [(''backendRequestId'', Some (sc_id call)), (''requestMethod'', Some (JStr (sc_method call))),
                                       (''params'', summarizeParams (sc_params call))])))] b)
      else if sc_method call = ''item/fileChange/requestApproval''
      then write_result call (JObj [(''decision'', JStr ''accept'')]) b
      else if sc_method call = ''execCommandApproval'' \<or> sc_method call = ''applyPatchApproval''
      then write_result call (JObj [(''decision'', JStr ''approved_for_session'')]) b
      else if sc_method call = ''item/tool/requestUserInput''
      then write_result call (JObj [(''answers'', JObj [])]) b
      else write_result call JNull b)"

text \<open>After the first audit entry; \<open>failure\<close> is the message of an error in writing it.\<close>

definition after_request_audit :: "string option \<Rightarrow> nat \<Rightarrow> bridge \<Rightarrow> bridge" where
  "after_request_audit failure c b =
     (case map_of (auditing b) c of
        None \<Rightarrow> b
      | Some call \<Rightarrow>
          let b1 = b\<lparr>auditing := AList.delete c (auditing b)\<rparr>
          in if failure \<noteq> None then request_failed call (the failure) b1
             else if call_mode b1 call = Confirm \<and> isApprovalRequest (sc_method call)
             then (case call_field call ''threadId'' of
                     Some t \<Rightarrow>
                       if t = [] then write_result call (approvalResult (sc_method call) deny) b1
                       else b1\<lparr>announcing := AList.update c call (announcing b1)\<rparr>
                   | None \<Rightarrow> write_result call (approvalResult (sc_method call) deny) b1)
             else unattended call b1)"

definition approval_event :: "server_call \<Rightarrow> string \<Rightarrow> string \<Rightarrow> json" where
  "approval_event call threadId expiry =
     JObj (jobj
       [(''requestId'', Some (JStr (js_String (sc_id call)))),
        (''threadId'', Some (JStr threadId)),
        (''turnId'', map_option JStr (call_field call ''turnId'')),
        (''requestMethod'', Some (JStr (sc_method call))),
        (''expiresAt'', Some (JStr expiry)),
        (''itemId'', map_option JStr (call_field call ''itemId'')),
        (''summary'', map_option (JStr \<circ> take 2000)
           (case call_field call ''reason'' of Some t \<Rightarrow> Some t | None \<Rightarrow> call_field call ''message'')),
        (''command'', map_option (JStr \<circ> take 12000) (call_field call ''command'')),
        (''cwd'', map_option (JStr \<circ> take 2000) (call_field call ''cwd'')),
        (''proposedExecpolicyAmendment'',
           map_option (\<lambda>rules. JArr (map (\<lambda>r. JStr (take 300 r))
               (take 50 (concat (map (\<lambda>v. case v of JStr s \<Rightarrow> [s] | _ \<Rightarrow> []) rules)))))
             (as_arr (jchain (sc_params call) ''proposedExecpolicyAmendment''))),
        (''params'', summarizeParams (sc_params call))])"

text \<open>After the second audit entry: the approval is announced, and either refused because too many
  are pending or registered with a timer of ten minutes.\<close>

definition after_approval_audit :: "string option \<Rightarrow> int \<Rightarrow> nat \<Rightarrow> bridge \<Rightarrow> bridge" where
  "after_approval_audit failure now c b =
     (case map_of (announcing b) c of
        None \<Rightarrow> b
      | Some call \<Rightarrow>
          let b1 = b\<lparr>announcing := AList.delete c (announcing b)\<rparr>;
              requestId = js_String (sc_id call);
              threadId = (case call_field call ''threadId'' of Some t \<Rightarrow> t | None \<Rightarrow> []);
              expiry = toISOString (now + 10 * 60 * 1000);
              b2 = fx [EmitEvent ''gateway/codex/approvalRequested'' (Some (approval_event call threadId expiry))] b1
          in if failure \<noteq> None then request_failed call (the failure) b1
             else if length (pendingApprovals b2) \<ge> maxPendingApprovals
             then write_result call (approvalResult (sc_method call) deny) b2
             else b2\<lparr>deciding := AList.update c \<lparr>dc_call = call, dc_threadId = threadId, dc_expiresAt = expiry\<rparr> (deciding b2),
                     pendingApprovals := AList.update requestId
                       \<lparr>pa_threadId = threadId, pa_turnId = call_field call ''turnId'', pa_method = sc_method call, pa_call = c\<rparr>
                       (pendingApprovals b2)\<rparr>)"

text \<open>The timer of a pending approval fires.\<close>

definition approval_timeout :: "nat \<Rightarrow> bridge \<Rightarrow> bridge" where
  "approval_timeout c b =
     (case map_of (deciding b) c of
        None \<Rightarrow> b
      | Some dc \<Rightarrow>
          settle_call c deny
            (fx [EmitEvent ''gateway/codex/approvalExpired''
                   (Some (JObj [(''requestId'', JStr (js_String (sc_id (dc_call dc)))), (''threadId'', JStr (dc_threadId dc)),
                                (''requestMethod'', JStr (sc_method (dc_call dc))), (''expiresAt'', JStr (dc_expiresAt dc))]))]
              (b\<lparr>pendingApprovals := AList.delete (js_String (sc_id (dc_call dc))) (pendingApprovals b)\<rparr>)))"

text \<open>The continuation of a settled approval.\<close>

definition run_decided :: "bridge \<Rightarrow> bridge" where
  "run_decided b =
     (case decided b of
        [] \<Rightarrow> b
      | (call, d) # rest \<Rightarrow> write_result call (approvalResult (sc_method call) d) (b\<lparr>decided := rest\<rparr>))"

section \<open>Output of the child process\<close>

definition handleMessage :: "(string \<Rightarrow> json option) \<Rightarrow> string \<Rightarrow> bridge \<Rightarrow> bridge" where
  "handleMessage parse raw b =
     (case parse raw of
        None \<Rightarrow> fx [EmitEvent ''codex/unparseable'' (Some (JObj [(''raw'', JStr raw)]))] b
      | Some message \<Rightarrow>
          if \<not> is_object message then b
          else
            (case jget message ''id'' of
               Some reqId \<Rightarrow>
                 if map_has (pending b) reqId
                 then settle reqId
                        (case messageError message of
                           Some e \<Rightarrow> Rejected e
                         | None \<Rightarrow> Resolved (the (jcoalesce (jget message ''result'') (Some message))))
                        (b\<lparr>pending := AList.delete reqId (pending b)\<rparr>)
                 else (case str_field message ''method'' of
                         Some rpc \<Rightarrow> handleServerRequest reqId rpc (jget message ''params'') b
                       | None \<Rightarrow> b)
             | None \<Rightarrow>
                 (case str_field message ''method'' of
                    Some rpc \<Rightarrow> fx [EmitEvent rpc (jget message ''params'')] b
                  | None \<Rightarrow> b)))"

text \<open>The loop over the complete lines of the buffer.\<close>

function drain :: "(string \<Rightarrow> json option) \<Rightarrow> string \<Rightarrow> bridge \<Rightarrow> bridge" where
  "drain parse buf b =
     (if CHR 0x0A \<notin> set buf then b\<lparr>stdoutBuffer := buf\<rparr>
      else
        let raw = trim (takeWhile (\<lambda>x. x \<noteq> CHR 0x0A) buf);
            rest = tl (dropWhile (\<lambda>x. x \<noteq> CHR 0x0A) buf);
            b1 = b\<lparr>stdoutBuffer := rest\<rparr>
        in drain parse rest (if raw \<noteq> [] then handleMessage parse raw b1 else b1))"
  by pat_completeness auto
termination
proof (relation "measure (\<lambda>(parse, buf, b). length buf)")
  fix buf :: string
  assume "\<not> CHR 0x0A \<notin> set buf"
  then have "dropWhile (\<lambda>x. x \<noteq> CHR 0x0A) buf \<noteq> []" by auto
  then have "length (tl (dropWhile (\<lambda>x. x \<noteq> CHR 0x0A) buf)) < length (dropWhile (\<lambda>x. x \<noteq> CHR 0x0A) buf)"
    by (cases "dropWhile (\<lambda>x. x \<noteq> CHR 0x0A) buf") auto
  also have "\<dots> \<le> length buf" by (rule length_dropWhile_le)
  finally have *: "length (tl (dropWhile (\<lambda>x. x \<noteq> CHR 0x0A) buf)) < length buf" .
  show "((parse, rest, if raw \<noteq> [] then handleMessage parse raw b1 else b1), parse, buf, b)
      \<in> measure (\<lambda>(parse, buf, b). length buf)"
    if "rest = tl (dropWhile (\<lambda>x. x \<noteq> CHR 0x0A) buf)" for parse rest raw b1 b
    using * that by simp
qed simp

declare drain.simps [simp del]

definition handleStdoutChunk :: "(string \<Rightarrow> json option) \<Rightarrow> string \<Rightarrow> bridge \<Rightarrow> bridge" where
  "handleStdoutChunk parse chunk b =
     (let buf = stdoutBuffer b @ chunk
      in if int (utf8_length buf) > maxStdoutBufferBytes
         then let b1 = rejectAll (JsError None ''Codex app-server output exceeded the safety limit'') (b\<lparr>stdoutBuffer := []\<rparr>);
                  b2 = (case child b1 of
                          Some c \<Rightarrow> if \<not> killed c then fx [KillChild] (b1\<lparr>child := Some (c\<lparr>killed := True\<rparr>)\<rparr>) else b1
                        | None \<Rightarrow> b1)
              in fx [EmitEvent ''codex/app-server/output-limit''
                       (Some (JObj [(''maxBytes'', JNum (of_int maxStdoutBufferBytes))]))] b2
         else drain parse buf b)"

section \<open>Runs\<close>

text \<open>What can happen to the bridge: calls of the gateway, continuations, timers and events of the child.\<close>

datatype bridge_op =
    OpRequest string json int
  | OpSetPolicy string policy_mode
  | OpResume string "policy_mode option"
  | OpFork string "policy_mode option" string
  | OpStartThread string policy_mode run_options
  | OpStartTurn string string "stored_attachment list" "policy_mode option" run_options
  | OpModelsAnswered int json
  | OpFinishConnect
  | OpRequestTimeout json
  | OpChunk string
  | OpRequestAudited "string option" nat
  | OpApprovalAudited "string option" int nat
  | OpApprovalTimeout nat
  | OpRunDecided
  | OpResolve string verdict "string option" "string option" "string list option"
  | OpStdinClosed
  | OpStdinError string
  | OpChildError string string
  | OpChildExit "int option" "string option"
  | OpShutdown

fun bridge_step :: "(string \<Rightarrow> json option) \<Rightarrow> bridge_op \<Rightarrow> bridge \<Rightarrow> bridge" where
  "bridge_step parse (OpRequest rpc params t) b = request rpc params t b"
| "bridge_step parse (OpSetPolicy threadId mode) b = setPolicyMode threadId mode b"
| "bridge_step parse (OpResume threadId mode) b = resumeThread threadId mode b"
| "bridge_step parse (OpFork threadId mode src) b = forkThread threadId mode src b"
| "bridge_step parse (OpStartThread cwd mode options) b = startThread cwd mode options b"
| "bridge_step parse (OpStartTurn threadId txt atts mode options) b = startTurn threadId txt atts mode options b"
| "bridge_step parse (OpModelsAnswered now response) b = model_list_answered now response b"
| "bridge_step parse OpFinishConnect b = finish_connect b"
| "bridge_step parse (OpRequestTimeout reqId) b = request_timeout reqId b"
| "bridge_step parse (OpChunk chunk) b = handleStdoutChunk parse chunk b"
| "bridge_step parse (OpRequestAudited failure c) b = after_request_audit failure c b"
| "bridge_step parse (OpApprovalAudited failure now c) b = after_approval_audit failure now c b"
| "bridge_step parse (OpApprovalTimeout c) b = approval_timeout c b"
| "bridge_step parse OpRunDecided b = run_decided b"
| "bridge_step parse (OpResolve rid v threadId turnId amendment) b = snd (resolveApproval rid v threadId turnId amendment b)"
| "bridge_step parse OpStdinClosed b = b\<lparr>child := map_option (\<lambda>c. c\<lparr>stdin_writable := False\<rparr>) (child b)\<rparr>"
| "bridge_step parse (OpStdinError txt) b = child_stdin_error txt b"
| "bridge_step parse (OpChildError command txt) b = child_error command txt b"
| "bridge_step parse (OpChildExit code signal) b = child_exit code signal b"
| "bridge_step parse OpShutdown b = shutdown b"

definition bridge_run :: "(string \<Rightarrow> json option) \<Rightarrow> bridge_op list \<Rightarrow> bridge \<Rightarrow> bridge" where
  "bridge_run parse ops b = fold (bridge_step parse) ops b"

end
