(* ===== verification/BridgeApprovals.thy ===== *)
theory BridgeApprovals
  imports Bridge "HOL-Library.Multiset"
begin

text \<open>
  Approvals fail closed: the replies that let the app-server run a command or change a file are
  accounted for, one by one, by approvals that came through \<open>resolveApproval\<close>, as long as no thread
  has been given full access.
\<close>

section \<open>Accounting\<close>

definition accepts :: "json \<Rightarrow> bool" where
  "accepts result =
     (case jget result ''decision'' of
        Some d \<Rightarrow> d \<noteq> JStr ''cancel''
      | None \<Rightarrow> (case jget result ''answers'' of Some a \<Rightarrow> a \<noteq> JNull | None \<Rightarrow> False))"

definition accepted_by :: "bridge_effect \<Rightarrow> string list" where
  "accepted_by e =
     (case e of
        Write w \<Rightarrow>
          (case (jget w ''id'', jget w ''result'') of
             (Some reqId, Some r) \<Rightarrow> if accepts r then [js_String reqId] else []
           | _ \<Rightarrow> [])
      | _ \<Rightarrow> [])"

definition accepted_ids :: "bridge_effect list \<Rightarrow> string list" where
  "accepted_ids es = concat (map accepted_by es)"

definition granted :: "(server_call \<times> approval_decision) list \<Rightarrow> string list" where
  "granted ds = map (\<lambda>(call, d). js_String (sc_id call)) (filter (\<lambda>(call, d). verdict d = Approve) ds)"

text \<open>The request ids that approvals were given for in a run.\<close>

fun approved :: "(string \<Rightarrow> json option) \<Rightarrow> bridge_op list \<Rightarrow> bridge \<Rightarrow> string list" where
  "approved parse [] b = []"
| "approved parse (OpResolve rid Approve threadId turnId amendment # ops) b =
     (let (ok, b') = resolveApproval rid Approve threadId turnId amendment b
      in (if ok then [rid] else []) @ approved parse ops b')"
| "approved parse (op # ops) b = approved parse ops (bridge_step parse op b)"

fun grants_full_access :: "bridge_op \<Rightarrow> bool" where
  "grants_full_access (OpSetPolicy threadId mode) = (mode = FullAccess)"
| "grants_full_access (OpResume threadId mode) = (mode = Some FullAccess)"
| "grants_full_access (OpFork threadId mode src) = (mode = Some FullAccess)"
| "grants_full_access (OpStartTurn threadId txt atts mode options) = (mode = Some FullAccess)"
| "grants_full_access op = False"

text \<open>The part of the state that approvals live in.\<close>

definition approval_view where
  "approval_view b = (pendingApprovals b, policyByThread b, nextCall b, auditing b, announcing b, deciding b, decided b,
     accepted_ids (effects b))"

text \<open>A pending approval that is still open belongs to a call with its request id.\<close>

definition linked :: "(nat, deciding_call) js_map \<Rightarrow> string \<times> pending_approval \<Rightarrow> bool" where
  "linked m q \<longleftrightarrow> (\<forall>dc. map_of m (pa_call (snd q)) = Some dc \<longrightarrow> js_String (sc_id (dc_call dc)) = fst q)"

definition calls_ok :: "bridge \<Rightarrow> bool" where
  "calls_ok b \<longleftrightarrow>
     (\<forall>c\<in>fst ` set (auditing b). c < nextCall b) \<and> (\<forall>c\<in>fst ` set (announcing b). c < nextCall b)
     \<and> fst ` set (auditing b) \<inter> fst ` set (announcing b) = {}
     \<and> (\<forall>p\<in>snd ` set (pendingApprovals b). pa_call p < nextCall b
          \<and> pa_call p \<notin> fst ` set (auditing b) \<and> pa_call p \<notin> fst ` set (announcing b))
     \<and> (\<forall>q\<in>set (pendingApprovals b). linked (deciding b) q)"

definition all_confirm :: "bridge \<Rightarrow> bool" where
  "all_confirm b \<longleftrightarrow> (\<forall>m\<in>snd ` set (policyByThread b). m = Confirm)"

definition accounted :: "string multiset \<Rightarrow> bridge \<Rightarrow> bool" where
  "accounted g b \<longleftrightarrow> calls_ok b \<and> all_confirm b
     \<and> mset (accepted_ids (effects b)) + mset (granted (decided b)) \<subseteq># g"

lemma accepted_ids_simps [simp]:
  "accepted_ids [] = []" "accepted_ids (e # es) = accepted_by e @ accepted_ids es"
  "accepted_ids (es @ es') = accepted_ids es @ accepted_ids es'"
  by (simp_all add: accepted_ids_def)

lemma granted_simps [simp]:
  "granted [] = []"
  "granted ((call, d) # ds) = (if verdict d = Approve then js_String (sc_id call) # granted ds else granted ds)"
  "granted (ds @ ds') = granted ds @ granted ds'"
  by (simp_all add: granted_def)

lemma view_accounted: "approval_view b' = approval_view b \<Longrightarrow> accounted g b' = accounted g b"
  by (simp add: approval_view_def accounted_def calls_ok_def all_confirm_def)

section \<open>Operations outside the approvals\<close>

lemma fx_fields [simp]:
  "child (fx es b) = child b" "nextId (fx es b) = nextId b" "pending (fx es b) = pending b"
  "pendingApprovals (fx es b) = pendingApprovals b" "policyByThread (fx es b) = policyByThread b"
  "modelCache (fx es b) = modelCache b" "connecting (fx es b) = connecting b" "ready (fx es b) = ready b"
  "stdoutBuffer (fx es b) = stdoutBuffer b" "waiting (fx es b) = waiting b" "nextCall (fx es b) = nextCall b"
  "auditing (fx es b) = auditing b" "announcing (fx es b) = announcing b" "deciding (fx es b) = deciding b"
  "decided (fx es b) = decided b" "effects (fx es b) = effects b @ es"
  by (simp_all add: fx_def)

lemma fx_view: "accepted_ids es = [] \<Longrightarrow> approval_view (fx es b) = approval_view b"
  by (simp add: approval_view_def)

lemma view_fields [simp]:
  "approval_view (b\<lparr>connecting := x1\<rparr>) = approval_view b" "approval_view (b\<lparr>ready := x2\<rparr>) = approval_view b"
  "approval_view (b\<lparr>child := x3\<rparr>) = approval_view b" "approval_view (b\<lparr>stdoutBuffer := x4\<rparr>) = approval_view b"
  "approval_view (b\<lparr>pending := x5\<rparr>) = approval_view b" "approval_view (b\<lparr>nextId := x6\<rparr>) = approval_view b"
  "approval_view (b\<lparr>waiting := x7\<rparr>) = approval_view b" "approval_view (b\<lparr>modelCache := x8\<rparr>) = approval_view b"
  by (simp_all add: approval_view_def)

lemma accepted_by_simps [simp]:
  "accepted_by (EmitEvent m p) = []" "accepted_by (EmitLog t) = []" "accepted_by (Settled i out) = []"
  "accepted_by (CallFailed m e) = []" "accepted_by KillChild = []"
  by (simp_all add: accepted_by_def)

lemma settle_view [simp]: "approval_view (settle i out b) = approval_view b"
  by (simp add: settle_def fx_view)

lemma sendRequest_view: "sendRequest rpc params t b = (r, b') \<Longrightarrow> approval_view b' = approval_view b"
  by (auto simp: sendRequest_def writeMessage_def Let_def fx_view accepted_by_def jget_def split: if_splits)

lemma send_or_fail_view [simp]: "approval_view (send_or_fail rpc params t b) = approval_view b"
  by (auto simp: send_or_fail_def fx_view split: prod.splits sum.splits dest: sendRequest_view)

lemma connect_view [simp]: "approval_view (connect b) = approval_view b"
  by (auto simp: connect_def ensureServerProcess_def split: prod.splits sum.splits option.splits dest!: sendRequest_view)

lemma request_view [simp]: "approval_view (request rpc params t b) = approval_view b"
  by (auto simp: request_def ensureReady_def Let_def split: prod.splits if_splits)

lemma send_all_view:
  "approval_view (fold (\<lambda>(rpc, params, t). send_or_fail rpc params t) ws b) = approval_view b"
  by (induction ws arbitrary: b) auto

lemma failed_all: "accepted_ids (map (\<lambda>(rpc, params, t). CallFailed rpc e) ws) = []"
  by (induction ws) auto

lemma finish_connect_view [simp]: "approval_view (finish_connect b) = approval_view b"
  by (auto simp: finish_connect_def writeMessage_def Let_def send_all_view fx_view failed_all accepted_by_def jget_def
      split: connect_state.splits prod.splits if_splits option.splits)

lemma request_timeout_view [simp]: "approval_view (request_timeout i b) = approval_view b"
  by (simp add: request_timeout_def split: option.splits)

lemma reject_pending_view:
  "approval_view (fold (\<lambda>(i, r). settle i (Rejected e)) ps b) = approval_view b"
  by (induction ps arbitrary: b) auto

section \<open>Operations on approvals\<close>

lemma accounted_fx: "accounted g b \<Longrightarrow> accepted_ids es = [] \<Longrightarrow> accounted g (fx es b)"
  by (simp add: fx_view cong: view_accounted)

lemma writeMessage_ids:
  "effects (snd (writeMessage w b)) = effects b \<or> effects (snd (writeMessage w b)) = effects b @ [Write w]"
  by (simp add: writeMessage_def)

lemma writeMessage_frame:
  "approval_view (snd (writeMessage w b)) =
     (pendingApprovals b, policyByThread b, nextCall b, auditing b, announcing b, deciding b, decided b,
      accepted_ids (effects b) @ (if child_open b then accepted_by (Write w) else []))"
  by (simp add: writeMessage_def approval_view_def)

lemma accounted_intro:
  assumes "approval_view b' = (pendingApprovals b, policyByThread b, nextCall b, auditing b, announcing b, deciding b,
      decided b, accepted_ids (effects b) @ xs)" "calls_ok b" "all_confirm b"
    "mset (accepted_ids (effects b)) + mset xs + mset (granted (decided b)) \<subseteq># g"
  shows "accounted g b'"
  using assms by (simp add: approval_view_def accounted_def calls_ok_def all_confirm_def)

lemma request_failed_accounted:
  assumes "accounted g b" shows "accounted g (request_failed call txt b)"
proof -
  let ?b = "fx [EmitEvent ''codex/app-server/request-error''
    (Some (JObj [(''requestId'', sc_id call), (''method'', JStr (sc_method call)), (''message'', JStr txt)]))] b"
  have "accounted g ?b" by (rule accounted_fx [OF assms]) simp
  then show ?thesis unfolding request_failed_def
    by (intro accounted_intro [OF writeMessage_frame]) (auto simp: accounted_def accepted_by_def jget_def)
qed

lemma write_result_accounted:
  assumes "calls_ok b" "all_confirm b"
    and "mset (accepted_ids (effects b)) + mset (if accepts r then [js_String (sc_id call)] else [])
      + mset (granted (decided b)) \<subseteq># g"
  shows "accounted g (write_result call r b)"
proof (cases "child_open b")
  case True
  have "accounted g (snd (writeMessage (JObj [(''id'', sc_id call), (''result'', r)]) b))"
    using assms True
    by (intro accounted_intro [OF writeMessage_frame]) (auto simp: accepted_by_def jget_def)
  then show ?thesis using True by (simp add: write_result_def writeMessage_def)
next
  case False
  have "mset (accepted_ids (effects b)) + mset (granted (decided b)) \<subseteq># g"
    by (rule subset_mset.order_trans [OF _ assms(3)]) simp
  then have "accounted g b" using assms by (simp add: accounted_def)
  then show ?thesis using False by (simp add: write_result_def writeMessage_def request_failed_accounted)
qed

lemma deny_refused: "\<not> accepts (approvalResult rpc deny)"
  by (simp add: approvalResult_def deny_def accepts_def jget_def)

lemma write_deny_accounted:
  "accounted g b \<Longrightarrow> accounted g (write_result call (approvalResult rpc deny) b)"
  by (rule write_result_accounted) (auto simp: accounted_def deny_refused)

lemma linked_delete: "linked m q \<Longrightarrow> linked (AList.delete c m) q"
  by (simp add: linked_def)

lemma linked_update_other: "pa_call (snd q) \<noteq> c \<Longrightarrow> linked m q \<Longrightarrow> linked (AList.update c dc m) q"
  by (simp add: linked_def)

lemma linked_update_same: "pa_call p = c \<Longrightarrow> linked (AList.update c dc m) (js_String (sc_id (dc_call dc)), p)"
  by (simp add: linked_def)

lemma settle_call_calls_ok: "calls_ok b \<Longrightarrow> calls_ok (settle_call c d b)"
  by (auto simp: settle_call_def calls_ok_def linked_delete split: option.splits)

lemma settle_call_deny: "accounted g b \<Longrightarrow> accounted g (settle_call c deny b)"
  using settle_call_calls_ok [of b c deny]
  by (auto simp: accounted_def all_confirm_def settle_call_def deny_def split: option.splits)

lemma calls_ok_delete_approval:
  "calls_ok b \<Longrightarrow> calls_ok (b\<lparr>pendingApprovals := AList.delete k (pendingApprovals b)\<rparr>)"
  unfolding calls_ok_def by (auto dest!: subsetD [OF set_delete_subset])

lemma accounted_delete_approval:
  "accounted g b \<Longrightarrow> accounted g (b\<lparr>pendingApprovals := AList.delete k (pendingApprovals b)\<rparr>)"
  using calls_ok_delete_approval [of b k] by (simp add: accounted_def all_confirm_def)

lemma deny_all_accounted:
  "accounted g b \<Longrightarrow> accounted g (fold (\<lambda>(rid, p). settle_call (pa_call p) deny) ps b)"
  by (induction ps arbitrary: b) (auto intro: settle_call_deny)

lemma rejectAll_accounted:
  assumes "accounted g b" shows "accounted g (rejectAll e b)"
proof -
  let ?b1 = "(fold (\<lambda>(i, r). settle i (Rejected e)) (pending b) b)\<lparr>pending := []\<rparr>"
  have "accounted g ?b1" using assms reject_pending_view [of e "pending b" b] by (simp cong: view_accounted)
  then have "accounted g (fold (\<lambda>(rid, p). settle_call (pa_call p) deny) (pendingApprovals ?b1) ?b1)"
    by (rule deny_all_accounted)
  then show ?thesis by (simp add: rejectAll_def Let_def accounted_def calls_ok_def all_confirm_def)
qed

lemma accounted_set_fields:
  "accounted g b \<Longrightarrow> accounted g (b\<lparr>ready := x1\<rparr>)" "accounted g b \<Longrightarrow> accounted g (b\<lparr>child := x2\<rparr>)"
  "accounted g b \<Longrightarrow> accounted g (b\<lparr>ready := x1, child := x2\<rparr>)" "accounted g b \<Longrightarrow> accounted g (b\<lparr>stdoutBuffer := x3\<rparr>)"
  by (simp_all add: accounted_def calls_ok_def all_confirm_def)

lemma resolveApproval_accounted:
  assumes "accounted g b" "resolveApproval rid v threadId turnId amendment b = (ok, b')"
  shows "accounted (g + (if ok \<and> v = Approve then {#rid#} else {#})) b'"
proof (cases ok)
  case False
  then have "b' = b" using assms(2)
    unfolding resolveApproval_def by (auto simp: Let_def split: option.splits if_splits)
  with False assms(1) show ?thesis by simp
next
  case True
  then obtain p where p: "map_of (pendingApprovals b) rid = Some p"
    and b': "b' = settle_call (pa_call p) \<lparr>verdict = v, execpolicyAmendment = amendment\<rparr>
                        (b\<lparr>pendingApprovals := AList.delete rid (pendingApprovals b)\<rparr>)"
    using assms(2) unfolding resolveApproval_def by (auto split: option.splits if_splits)
  let ?b = "b\<lparr>pendingApprovals := AList.delete rid (pendingApprovals b)\<rparr>"
  have acc: "accounted g ?b" by (rule accounted_delete_approval [OF assms(1)])
  show ?thesis
  proof (cases "map_of (deciding b) (pa_call p)")
    case None
    then have "b' = ?b" by (simp add: b' settle_call_def)
    with acc show ?thesis by (auto simp: accounted_def intro: subset_mset.order_trans)
  next
    case (Some dc)
    have "(rid, p) \<in> set (pendingApprovals b)" using p by (rule map_of_SomeD)
    then have rid: "js_String (sc_id (dc_call dc)) = rid"
      using assms(1) Some by (auto simp: accounted_def calls_ok_def linked_def)
    have "calls_ok b'" unfolding b' using acc by (intro settle_call_calls_ok) (simp add: accounted_def)
    then show ?thesis using acc True rid by (cases v) (auto simp: accounted_def all_confirm_def b' settle_call_def Some)
  qed
qed

lemma accounted_delete_calls:
  assumes "accounted g b"
  shows "accounted g (b\<lparr>auditing := AList.delete c (auditing b)\<rparr>)"
    "accounted g (b\<lparr>announcing := AList.delete c (announcing b)\<rparr>)"
  using assms by (auto simp: accounted_def calls_ok_def all_confirm_def dom_delete_keys)

lemma call_mode_confirm: "all_confirm b \<Longrightarrow> call_mode b call = Confirm"
  by (auto simp: call_mode_def policy_of_def all_confirm_def split: option.splits dest!: map_of_SomeD)

lemma unattended_harmless:
  assumes "accounted g b" "\<not> isApprovalRequest (sc_method call)"
  shows "accounted g (unattended call b)"
proof -
  have "accounted g (write_result call JNull b)"
    using assms(1) by (intro write_result_accounted) (auto simp: accounted_def accepts_def jget_def)
  then show ?thesis using assms(2) by (simp add: unattended_def isApprovalRequest_def)
qed

lemma after_request_audit_accounted:
  assumes "accounted g b" shows "accounted g (after_request_audit failure c b)"
proof (cases "map_of (auditing b) c")
  case None
  then show ?thesis using assms by (simp add: after_request_audit_def)
next
  case (Some call)
  let ?b1 = "b\<lparr>auditing := AList.delete c (auditing b)\<rparr>"
  have acc: "accounted g ?b1" by (rule accounted_delete_calls [OF assms])
  have c: "c \<in> fst ` set (auditing b)" using Some by (force dest: map_of_SomeD)
  have "accounted g (?b1\<lparr>announcing := AList.update c call (announcing b)\<rparr>)"
    using assms c by (auto simp: accounted_def calls_ok_def all_confirm_def dom_update dom_delete_keys)
  moreover have "call_mode ?b1 call = Confirm" using acc by (intro call_mode_confirm) (simp add: accounted_def)
  ultimately show ?thesis
    using acc request_failed_accounted [OF acc] write_deny_accounted [OF acc] unattended_harmless [OF acc]
    by (auto simp: after_request_audit_def Some Let_def split: option.splits)
qed

lemma register_calls_ok:
  assumes "calls_ok b" "c \<in> fst ` set (announcing b)" "pa_call p = c"
  shows "calls_ok (b\<lparr>announcing := AList.delete c (announcing b), deciding := AList.update c dc (deciding b),
     pendingApprovals := AList.update (js_String (sc_id (dc_call dc))) p (pendingApprovals b)\<rparr>)"
proof -
  let ?r = "js_String (sc_id (dc_call dc))"
  have mem: "q \<in> set (AList.update ?r p (pendingApprovals b)) \<Longrightarrow> q = (?r, p) \<or> q \<in> set (pendingApprovals b)" for q
    by (rule set_update_cases)
  have new: "pa_call p < nextCall b" "pa_call p \<notin> fst ` set (auditing b)"
    using assms by (auto simp: calls_ok_def)
  have "linked (AList.update c dc (deciding b)) q \<and> pa_call (snd q) < nextCall b
      \<and> pa_call (snd q) \<notin> fst ` set (auditing b) \<and> pa_call (snd q) \<notin> fst ` set (announcing b) - {c}"
    if "q \<in> set (AList.update ?r p (pendingApprovals b))" for q
    using mem [OF that]
  proof
    assume "q = (?r, p)"
    then show ?thesis
      using new assms(3) by (simp add: linked_update_same)
  next
    assume q: "q \<in> set (pendingApprovals b)"
    then have "pa_call (snd q) \<noteq> c" using assms(1,2) unfolding calls_ok_def by blast
    then show ?thesis using q assms(1) unfolding calls_ok_def by (auto intro: linked_update_other)
  qed
  then show ?thesis using assms(1) unfolding calls_ok_def by (auto simp: dom_delete_keys)
qed

lemma after_approval_audit_accounted:
  assumes "accounted g b" shows "accounted g (after_approval_audit failure now c b)"
proof (cases "map_of (announcing b) c")
  case None
  then show ?thesis using assms by (simp add: after_approval_audit_def)
next
  case (Some call)
  let ?b1 = "b\<lparr>announcing := AList.delete c (announcing b)\<rparr>"
  have acc: "accounted g ?b1" by (rule accounted_delete_calls [OF assms])
  have acc2: "accounted g (fx [EmitEvent m p] ?b1)" for m p by (rule accounted_fx [OF acc]) simp
  have c: "c \<in> fst ` set (announcing b)" using Some by (force dest: map_of_SomeD)
  have reg: "accounted g (b\<lparr>announcing := AList.delete c (announcing b), effects := effects b @ [EmitEvent m x],
      deciding := AList.update c dc (deciding b),
      pendingApprovals := AList.update (js_String (sc_id (dc_call dc))) p (pendingApprovals b)\<rparr>)"
    if "pa_call p = c" for m x dc p
  proof -
    have "calls_ok b" using assms by (simp add: accounted_def)
    note register_calls_ok [OF this c that, of dc]
    then show ?thesis using assms unfolding accounted_def calls_ok_def all_confirm_def by simp
  qed
  show ?thesis
  proof (cases "failure = None")
    case False
    then show ?thesis using request_failed_accounted [OF acc] by (simp add: after_approval_audit_def Some)
  next
    case True
    show ?thesis
    proof (cases "maxPendingApprovals \<le> length (pendingApprovals b)")
      case False
      with True show ?thesis unfolding after_approval_audit_def Some Let_def option.case
        by (simp add: fx_def) (rule reg [where dc = "\<lparr>dc_call = call, dc_threadId = x, dc_expiresAt = y\<rparr>" for x y, unfolded deciding_call.simps], simp)
    qed (use True write_deny_accounted [OF acc2] in \<open>simp add: after_approval_audit_def Some Let_def\<close>)
  qed
qed

lemma approval_timeout_accounted: "accounted g b \<Longrightarrow> accounted g (approval_timeout c b)"
  by (auto simp: approval_timeout_def split: option.splits
      intro!: settle_call_deny accounted_fx accounted_delete_approval)

lemma accepting_was_approved: "accepts (approvalResult rpc d) \<Longrightarrow> verdict d = Approve"
  by (cases "verdict d") (auto simp: approvalResult_def accepts_def jget_def split: if_splits)

lemma run_decided_accounted:
  assumes "accounted g b" shows "accounted g (run_decided b)"
proof (cases "decided b")
  case Nil
  then show ?thesis using assms by (simp add: run_decided_def)
next
  case (Cons x rest)
  obtain call d where x: "x = (call, d)" by (cases x)
  have "accounted g (write_result call (approvalResult (sc_method call) d) (b\<lparr>decided := rest\<rparr>))"
  proof (rule write_result_accounted)
    have "mset (accepted_ids (effects b)) + mset (granted ((call, d) # rest)) \<subseteq># g"
      using assms by (simp add: accounted_def Cons x)
    moreover have "mset (if accepts (approvalResult (sc_method call) d) then [js_String (sc_id call)] else []) + mset (granted rest)
        \<subseteq># mset (granted ((call, d) # rest))"
      using accepting_was_approved by auto
    ultimately show "mset (accepted_ids (effects (b\<lparr>decided := rest\<rparr>)))
        + mset (if accepts (approvalResult (sc_method call) d) then [js_String (sc_id call)] else [])
        + mset (granted (decided (b\<lparr>decided := rest\<rparr>))) \<subseteq># g"
      by (simp add: add.assoc subset_mset.order_trans [OF subset_mset.add_left_mono])
  qed (use assms in \<open>auto simp: accounted_def calls_ok_def all_confirm_def\<close>)
  then show ?thesis by (simp add: run_decided_def Cons x)
qed

lemma handleServerRequest_accounted:
  assumes "accounted g b" shows "accounted g (handleServerRequest i rpc params b)"
  using assms by (auto simp: handleServerRequest_def accounted_def calls_ok_def all_confirm_def dom_update)

lemma handleMessage_accounted:
  assumes "accounted g b" shows "accounted g (handleMessage parse raw b)"
proof -
  have "accounted g (settle i out (b\<lparr>pending := ps\<rparr>))" for i out ps
    using assms by (simp cong: view_accounted)
  then show ?thesis
    using assms handleServerRequest_accounted [OF assms] accounted_fx [OF assms]
    by (auto simp: handleMessage_def split: option.splits)
qed

lemma drain_accounted: "accounted g b \<Longrightarrow> accounted g (drain parse buf b)"
proof (induction parse buf b rule: drain.induct)
  case (1 parse buf b)
  have "accounted g (b\<lparr>stdoutBuffer := x\<rparr>)" for x by (rule accounted_set_fields [OF "1.prems"])
  then show ?case
    using "1.IH" [OF _ refl refl refl] handleMessage_accounted by (simp add: drain.simps [of parse buf] Let_def)
qed

lemma handleStdoutChunk_accounted:
  assumes "accounted g b" shows "accounted g (handleStdoutChunk parse chunk b)"
proof -
  have "accounted g (rejectAll e (b\<lparr>stdoutBuffer := x\<rparr>))" for e x
    by (intro rejectAll_accounted accounted_set_fields assms)
  then show ?thesis
    using drain_accounted [OF assms]
    by (auto simp: handleStdoutChunk_def Let_def intro!: accounted_fx accounted_set_fields split: option.splits)
qed

lemma shutdown_accounted: "accounted g b \<Longrightarrow> accounted g (shutdown b)"
  using rejectAll_accounted [OF accounted_set_fields(1)]
  by (auto simp: shutdown_def Let_def intro!: accounted_fx accounted_set_fields split: option.splits)

lemma set_evict_oldest: "set (evict_oldest cap m) \<subseteq> set m"
proof (induction cap m rule: evict_oldest.induct)
  case (1 cap m)
  show ?case
  proof (cases "length m \<le> cap \<or> m = []")
    case True
    then show ?thesis by (auto simp: evict_oldest.simps [of cap m])
  next
    case False
    then obtain k v rest where m: "m = (k, v) # rest" by (cases m) auto
    have "set (evict_oldest cap (AList.delete k m)) \<subseteq> set (AList.delete k m)"
      using "1.IH" [OF _ m refl] False by simp
    then have "set (evict_oldest cap m) \<subseteq> set (AList.delete k m)"
      using False unfolding evict_oldest.simps [of cap m] by (simp add: m)
    then show ?thesis using set_delete_subset by (rule order_trans)
  qed
qed

lemma rememberPolicy_confirm:
  assumes "accounted g b" "mode = Confirm" shows "accounted g (rememberPolicy threadId mode b)"
proof -
  have "m = Confirm" if "(t, m) \<in> set (policyByThread (rememberPolicy threadId mode b))" for t m
  proof -
    have "(t, m) \<in> set (AList.update threadId mode (AList.delete threadId (policyByThread b)))"
      using that set_evict_oldest by (fastforce simp: rememberPolicy_def)
    then have "(t, m) = (threadId, mode) \<or> (t, m) \<in> set (policyByThread b)"
      using set_update_cases set_delete_subset by fastforce
    then show ?thesis using assms by (force simp: accounted_def all_confirm_def)
  qed
  then show ?thesis
    using assms by (auto simp: accounted_def calls_ok_def all_confirm_def rememberPolicy_def)
qed

lemma policy_or_confirm: "all_confirm b \<Longrightarrow> mode \<noteq> Some FullAccess \<Longrightarrow> policy_or b t mode = Confirm"
  by (cases mode; cases "the mode")
    (force simp: policy_or_def policy_of_def all_confirm_def split: option.splits dest!: map_of_SomeD)+

lemma turn_calls_accounted:
  assumes "accounted g b" "mode \<noteq> Some FullAccess"
  shows "accounted g (resumeThread t mode b)" "accounted g (forkThread t mode src b)"
    "accounted g (startTurn t txt atts mode options b)" "accounted g (startThread cwd pm options b)"
proof -
  have "policy_or b t mode = Confirm" using assms by (simp add: policy_or_confirm accounted_def)
  then have "accounted g (request rpc params tm (rememberPolicy t (policy_or b t mode) b))" for rpc params tm
    using rememberPolicy_confirm [OF assms(1)] by (simp cong: view_accounted)
  moreover have "accounted g (fx [CallFailed rpc e] b)" for rpc e by (rule accounted_fx [OF assms(1)]) simp
  moreover have "accounted g (request rpc params tm b)" for rpc params tm using assms(1) by (simp cong: view_accounted)
  ultimately show "accounted g (resumeThread t mode b)" "accounted g (forkThread t mode src b)"
    "accounted g (startTurn t txt atts mode options b)" "accounted g (startThread cwd pm options b)"
    by (simp_all add: resumeThread_def forkThread_def startTurn_def startThread_def Let_def split: option.splits)
qed

lemma child_events_accounted:
  assumes "accounted g b"
  shows "accounted g (child_stdin_error txt b)" "accounted g (child_error command txt b)" "accounted g (child_exit code signal b)"
  unfolding child_stdin_error_def child_error_def child_exit_def
  by (intro accounted_fx rejectAll_accounted accounted_set_fields assms; simp)+

lemmas accounted_steps =
  turn_calls_accounted child_events_accounted shutdown_accounted handleStdoutChunk_accounted run_decided_accounted
  approval_timeout_accounted after_approval_audit_accounted after_request_audit_accounted rememberPolicy_confirm
  accounted_set_fields

lemma step_accounted:
  assumes "accounted g b" "\<not> grants_full_access op" "\<forall>rid v x y z. op \<noteq> OpResolve rid v x y z"
  shows "accounted g (bridge_step parse op b)"
proof -
  have view: "accounted g b'" if "approval_view b' = approval_view b" for b'
    using view_accounted [OF that] assms(1) by simp
  show ?thesis
  proof (cases op)
    case (OpSetPolicy t m)
    then show ?thesis using assms(1,2) by (cases m) (simp_all add: setPolicyMode_def rememberPolicy_confirm)
  next
    case (OpStartThread cwd m options)
    then show ?thesis using turn_calls_accounted(4) [OF assms(1), of None] by simp
  next
    case (OpResolve rid v x y z)
    then show ?thesis using assms(3) by simp
  qed (use assms(1,2) in \<open>simp_all add: view accounted_steps model_list_answered_def\<close>)
qed

lemma run_accounted:
  "accounted g b \<Longrightarrow> \<forall>op\<in>set ops. \<not> grants_full_access op \<Longrightarrow>
   accounted (g + mset (approved parse ops b)) (bridge_run parse ops b)"
proof (induction ops arbitrary: g b)
  case Nil
  then show ?case by (simp add: bridge_run_def)
next
  case (Cons op ops)
  have ops: "\<forall>op\<in>set ops. \<not> grants_full_access op" using Cons.prems(2) by simp
  show ?case
  proof (cases "\<exists>rid v x y z. op = OpResolve rid v x y z")
    case False
    then have "accounted g (bridge_step parse op b)" using step_accounted Cons.prems by auto
    moreover have "approved parse (op # ops) b = approved parse ops (bridge_step parse op b)"
      using False by (cases op) auto
    ultimately show ?thesis using Cons.IH [OF _ ops] by (simp add: bridge_run_def)
  next
    case True
    then obtain rid v x y z where op: "op = OpResolve rid v x y z" by blast
    obtain ok b' where r: "resolveApproval rid v x y z b = (ok, b')" by fastforce
    have "accounted (g + (if ok \<and> v = Approve then {#rid#} else {#})) b'"
      by (rule resolveApproval_accounted [OF Cons.prems(1) r])
    from Cons.IH [OF this ops] show ?thesis
      using r by (cases v) (auto simp: op bridge_run_def add.assoc split: if_splits)
  qed
qed

section \<open>Properties\<close>

lemma no_grants_accounted:
  assumes "\<forall>op\<in>set ops. \<not> grants_full_access op"
  shows "mset (accepted_ids (effects (bridge_run parse ops new_bridge))) \<subseteq># mset (approved parse ops new_bridge)"
proof -
  have "accounted {#} new_bridge"
    by (simp add: accounted_def calls_ok_def all_confirm_def new_bridge_def)
  from run_accounted [OF this assms, of parse]
  have "mset (accepted_ids (effects (bridge_run parse ops new_bridge)))
      + mset (granted (decided (bridge_run parse ops new_bridge))) \<subseteq># mset (approved parse ops new_bridge)"
    by (simp add: accounted_def)
  then show ?thesis by (rule subset_mset.order_trans [OF mset_subset_eq_add_left])
qed

text \<open>C2. Approvals fail closed. In any run of the bridge in which no thread is given full access, in any
  order of messages, timers, crashes and decisions, every reply that accepts a command, a file
  change or a question of the app-server is paid for by an approval of the same request id that
  \<open>resolveApproval\<close> has taken, one approval per reply.\<close>

theorem approvals_fail_closed:
  assumes "\<forall>op\<in>set ops. \<not> grants_full_access op"
  shows "mset (accepted_ids (effects (bridge_run parse ops new_bridge))) \<subseteq># mset (approved parse ops new_bridge)"
  using assms by (rule no_grants_accounted)

text \<open>A run with one approval: the app-server asks, the client approves, the reply is written.\<close>

definition sample_parse :: "string \<Rightarrow> json option" where
  "sample_parse raw =
     (if raw = ''ask'' then Some (JObj [(''id'', JNum 7), (''method'', JStr ''execCommandApproval''),
         (''params'', JObj [(''threadId'', JStr ''t''), (''turnId'', JStr ''u'')])])
      else None)"

definition sample_approval_run :: "bridge_op list" where
  "sample_approval_run =
     [OpRequest ''model/list'' (JObj []) 15000, OpChunk (''ask'' @ [CHR 0x0A]), OpRequestAudited None 0,
      OpApprovalAudited None 0 0, OpResolve ''7'' Approve (Some ''t'') (Some ''u'') None, OpRunDecided]"

lemma approvals_fail_closed_witness:
  "accepted_ids (effects (bridge_run sample_parse sample_approval_run new_bridge)) = [''7''] \<and>
   mset (accepted_ids (effects (bridge_run sample_parse sample_approval_run new_bridge)))
     \<subseteq># mset (approved sample_parse sample_approval_run new_bridge)"
proof
  show "accepted_ids (effects (bridge_run sample_parse sample_approval_run new_bridge)) = [''7'']"
    by code_simp
  show "mset (accepted_ids (effects (bridge_run sample_parse sample_approval_run new_bridge)))
     \<subseteq># mset (approved sample_parse sample_approval_run new_bridge)"
    by (rule approvals_fail_closed) (simp add: sample_approval_run_def)
qed

end
