(* ===== verification/BridgeRequests.thy ===== *)
theory BridgeRequests
  imports BridgeApprovals
begin

text \<open>
  Requests to the app-server and the framing of its output: every request is answered exactly once,
  the tables of the bridge stay within their limits, how the output is cut into chunks does not
  matter, and the secrets of the gateway are kept out of the environment of the child.
\<close>

section \<open>Every request is pending or settled, once\<close>

definition settled_by :: "bridge_effect \<Rightarrow> json list" where
  "settled_by e = (case e of Settled i out \<Rightarrow> [i] | _ \<Rightarrow> [])"

definition settled_ids :: "bridge_effect list \<Rightarrow> json list" where
  "settled_ids es = concat (map settled_by es)"

definition request_id :: "nat \<Rightarrow> json" where
  "request_id n = JNum (of_nat n)"

text \<open>The ids handed out so far are those still pending and those settled, each once.\<close>

definition requests_ok :: "bridge \<Rightarrow> bool" where
  "requests_ok b \<longleftrightarrow> 1 \<le> nextId b \<and>
     mset (settled_ids (effects b)) + mset (map fst (pending b)) = mset (map request_id [1..<nextId b])"

definition rpc_view where
  "rpc_view b = (nextId b, pending b, settled_ids (effects b))"

lemma settled_ids_simps [simp]:
  "settled_ids [] = []" "settled_ids (e # es) = settled_by e @ settled_ids es"
  "settled_ids (es @ es') = settled_ids es @ settled_ids es'"
  by (simp_all add: settled_ids_def)

lemma settled_by_simps [simp]:
  "settled_by (EmitEvent m p) = []" "settled_by (EmitLog t) = []" "settled_by (Write w) = []"
  "settled_by (CallFailed m e) = []" "settled_by KillChild = []" "settled_by (Settled i out) = [i]"
  by (simp_all add: settled_by_def)

lemma view_requests: "rpc_view b' = rpc_view b \<Longrightarrow> requests_ok b' = requests_ok b"
  by (simp add: rpc_view_def requests_ok_def)

lemma rpc_fx: "settled_ids es = [] \<Longrightarrow> rpc_view (fx es b) = rpc_view b"
  by (simp add: rpc_view_def)

lemma rpc_fields [simp]:
  "rpc_view (b\<lparr>connecting := x1\<rparr>) = rpc_view b" "rpc_view (b\<lparr>ready := x2\<rparr>) = rpc_view b"
  "rpc_view (b\<lparr>child := x3\<rparr>) = rpc_view b" "rpc_view (b\<lparr>stdoutBuffer := x4\<rparr>) = rpc_view b"
  "rpc_view (b\<lparr>waiting := x5\<rparr>) = rpc_view b" "rpc_view (b\<lparr>modelCache := x6\<rparr>) = rpc_view b"
  "rpc_view (b\<lparr>auditing := x7\<rparr>) = rpc_view b" "rpc_view (b\<lparr>announcing := x8\<rparr>) = rpc_view b"
  "rpc_view (b\<lparr>deciding := x9\<rparr>) = rpc_view b" "rpc_view (b\<lparr>decided := x10\<rparr>) = rpc_view b"
  "rpc_view (b\<lparr>pendingApprovals := x11\<rparr>) = rpc_view b" "rpc_view (b\<lparr>policyByThread := x12\<rparr>) = rpc_view b"
  "rpc_view (b\<lparr>nextCall := x13\<rparr>) = rpc_view b"
  by (simp_all add: rpc_view_def)

lemma rpc_simple [simp]:
  "rpc_view (snd (writeMessage w b)) = rpc_view b" "rpc_view (ensureServerProcess b) = rpc_view b"
  "rpc_view (settle_call c d b) = rpc_view b" "rpc_view (rememberPolicy t m b) = rpc_view b"
  "rpc_view (handleServerRequest i rpc p b) = rpc_view b"
  by (simp_all add: writeMessage_def ensureServerProcess_def settle_call_def rememberPolicy_def handleServerRequest_def
      rpc_fx split: option.splits)

lemma rpc_replies [simp]:
  "rpc_view (request_failed call txt b) = rpc_view b" "rpc_view (write_result call r b) = rpc_view b"
  by (auto simp: request_failed_def write_result_def writeMessage_def rpc_fx split: option.splits)

lemma rpc_decisions [simp]:
  "rpc_view (unattended call b) = rpc_view b" "rpc_view (run_decided b) = rpc_view b"
  "rpc_view (after_request_audit f c b) = rpc_view b" "rpc_view (after_approval_audit g now c b) = rpc_view b"
  by (simp_all add: unattended_def run_decided_def after_request_audit_def after_approval_audit_def rpc_fx Let_def
      split: option.splits list.splits prod.splits)

lemma rpc_approvals [simp]:
  "rpc_view (approval_timeout c b) = rpc_view b" "rpc_view (snd (resolveApproval rid v t u a b)) = rpc_view b"
  by (simp_all add: approval_timeout_def resolveApproval_def rpc_fx split: option.splits)

lemma request_id_inj [simp]: "request_id m = request_id n \<longleftrightarrow> m = n"
  by (simp add: request_id_def)

lemma pending_key:
  assumes "requests_ok b" "i \<in> fst ` set (pending b)" shows "\<exists>n<nextId b. i = request_id n"
proof -
  have "i \<in># mset (map request_id [1..<nextId b])"
    using assms unfolding requests_ok_def by (metis in_multiset_in_set list.set_map union_iff)
  then show ?thesis by auto
qed

lemma requests_distinct:
  assumes "requests_ok b" shows "distinct (settled_ids (effects b) @ map fst (pending b))"
proof -
  have "distinct (map request_id [1..<nextId b])" by (simp add: distinct_map inj_on_def)
  moreover have "mset (settled_ids (effects b) @ map fst (pending b)) = mset (map request_id [1..<nextId b])"
    using assms by (simp add: requests_ok_def)
  ultimately show ?thesis using mset_eq_imp_distinct_iff by blast
qed

lemma sendRequest_ok:
  assumes "requests_ok b" "sendRequest rpc params t b = (r, b')" shows "requests_ok b'"
proof -
  have "request_id (nextId b) \<notin> fst ` set (pending b)" using pending_key [OF assms(1)] by force
  then show ?thesis
    using assms by (auto simp: sendRequest_def writeMessage_def Let_def requests_ok_def update_fresh atLeastLessThanSuc
        simp flip: request_id_def split: if_splits)
qed

lemma mset_keys_delete:
  "map_wf m \<Longrightarrow> i \<in> fst ` set m \<Longrightarrow> mset (map fst m) = add_mset i (mset (map fst (AList.delete i m)))"
proof (induction m)
  case (Cons p m)
  then show ?case by (cases "fst p = i") (auto simp: delete_fresh)
qed simp

lemma settle_ok:
  assumes "requests_ok b" "i \<in> fst ` set (pending b)"
  shows "requests_ok (settle i out (b\<lparr>pending := AList.delete i (pending b)\<rparr>))"
proof -
  have "distinct (map fst (pending b))" using requests_distinct [OF assms(1)] by simp
  then have "mset (map fst (pending b)) = add_mset i (mset (map fst (AList.delete i (pending b))))"
    using assms(2) by (rule mset_keys_delete)
  then show ?thesis using assms(1) by (simp add: requests_ok_def settle_def)
qed

lemma send_or_fail_ok: "requests_ok b \<Longrightarrow> requests_ok (send_or_fail rpc params t b)"
  by (auto simp: send_or_fail_def rpc_fx cong: view_requests split: prod.splits sum.splits dest: sendRequest_ok)

lemma request_ok: "requests_ok b \<Longrightarrow> requests_ok (request rpc params t b)"
proof -
  assume b: "requests_ok b"
  have "requests_ok (ensureServerProcess (b\<lparr>ready := False\<rparr>))" using b by (simp cong: view_requests)
  note sent = sendRequest_ok [OF this]
  have "requests_ok (connect b)"
    by (auto simp: connect_def cong: view_requests split: prod.splits sum.splits dest: sent)
  then show ?thesis
    using b by (auto simp: request_def ensureReady_def Let_def send_or_fail_ok cong: view_requests split: if_splits)
qed

lemma send_all_ok:
  "requests_ok b \<Longrightarrow> requests_ok (fold (\<lambda>(rpc, params, t). send_or_fail rpc params t) ws b)"
  by (induction ws arbitrary: b) (auto simp: send_or_fail_ok)

lemma failed_none: "settled_ids (map (\<lambda>(rpc, params, t). CallFailed rpc e) ws) = []"
  by (induction ws) auto

lemma finish_connect_ok: "requests_ok b \<Longrightarrow> requests_ok (finish_connect b)"
  by (auto simp: finish_connect_def writeMessage_def Let_def rpc_fx failed_none intro!: send_all_ok
      cong: view_requests split: connect_state.splits option.splits prod.splits if_splits)

lemma request_timeout_ok: "requests_ok b \<Longrightarrow> requests_ok (request_timeout i b)"
  by (auto simp: request_timeout_def intro!: settle_ok split: option.splits dest!: map_of_SomeD) force

lemma reject_pending_fields:
  "nextId (fold (\<lambda>(i, r). settle i (Rejected e)) ps b) = nextId b
   \<and> settled_ids (effects (fold (\<lambda>(i, r). settle i (Rejected e)) ps b)) = settled_ids (effects b) @ map fst ps"
  by (induction ps arbitrary: b) (auto simp: settle_def)

lemma deny_all_rpc:
  "rpc_view (fold (\<lambda>(rid, p). settle_call (pa_call p) deny) ps b) = rpc_view b"
  by (induction ps arbitrary: b) auto

lemma rejectAll_rpc:
  "rpc_view (rejectAll e b) = (nextId b, [], settled_ids (effects b) @ map fst (pending b))"
  unfolding rejectAll_def Let_def rpc_fields deny_all_rpc
  by (simp add: rpc_view_def reject_pending_fields)

lemma rejectAll_ok: "requests_ok b \<Longrightarrow> requests_ok (rejectAll e b)"
  using rejectAll_rpc [of e b] by (simp add: rpc_view_def requests_ok_def)

lemma handleMessage_ok:
  assumes "requests_ok b" shows "requests_ok (handleMessage parse raw b)"
proof -
  have "requests_ok (settle i out (b\<lparr>pending := AList.delete i (pending b)\<rparr>))" if "map_of (pending b) i = Some r" for i out r
    using that by (intro settle_ok [OF assms]) (force dest: map_of_SomeD)
  then show ?thesis
    using assms by (auto simp: handleMessage_def rpc_fx cong: view_requests split: option.splits)
qed

lemma drain_ok: "requests_ok b \<Longrightarrow> requests_ok (drain parse buf b)"
proof (induction parse buf b rule: drain.induct)
  case (1 parse buf b)
  have "requests_ok (b\<lparr>stdoutBuffer := x\<rparr>)" for x using "1.prems" by (simp cong: view_requests)
  then show ?case
    using "1.IH" [OF _ refl refl refl] handleMessage_ok by (simp add: drain.simps [of parse buf] Let_def)
qed

lemma handleStdoutChunk_ok:
  assumes "requests_ok b" shows "requests_ok (handleStdoutChunk parse chunk b)"
proof -
  have "requests_ok (rejectAll e (b\<lparr>stdoutBuffer := []\<rparr>))" for e
    using assms by (intro rejectAll_ok) (simp cong: view_requests)
  then show ?thesis
    using drain_ok [OF assms]
    by (auto simp: handleStdoutChunk_def Let_def rpc_fx cong: view_requests split: option.splits)
qed

lemma teardown_ok:
  assumes "requests_ok b"
  shows "requests_ok (shutdown b)" "requests_ok (child_stdin_error txt b)" "requests_ok (child_error command txt b)"
    "requests_ok (child_exit code signal b)"
proof -
  have "requests_ok (rejectAll e (b\<lparr>ready := False, child := x\<rparr>))" "requests_ok (rejectAll e (b\<lparr>ready := False\<rparr>))" for e x
    using assms by (intro rejectAll_ok; simp cong: view_requests)+
  then show "requests_ok (shutdown b)" "requests_ok (child_stdin_error txt b)" "requests_ok (child_error command txt b)"
    "requests_ok (child_exit code signal b)"
    by (auto simp: shutdown_def child_stdin_error_def child_error_def child_exit_def Let_def rpc_fx
        cong: view_requests split: option.splits)
qed

lemma turn_calls_ok:
  assumes "requests_ok b"
  shows "requests_ok (resumeThread t mode b)" "requests_ok (forkThread t mode src b)"
    "requests_ok (startTurn t txt atts mode options b)" "requests_ok (startThread cwd pm options b)"
proof -
  have "requests_ok (request rpc params tm (rememberPolicy t m b))" "requests_ok (fx [CallFailed rpc e] b)"
    "requests_ok (request rpc params tm b)" for rpc params tm m e
    using assms by (simp_all add: rpc_fx request_ok cong: view_requests)
  then show "requests_ok (resumeThread t mode b)" "requests_ok (forkThread t mode src b)"
    "requests_ok (startTurn t txt atts mode options b)" "requests_ok (startThread cwd pm options b)"
    by (simp_all add: resumeThread_def forkThread_def startTurn_def startThread_def Let_def split: option.splits)
qed

lemma step_requests_ok:
  assumes "requests_ok b" shows "requests_ok (bridge_step parse op b)"
proof -
  have view: "requests_ok b'" if "rpc_view b' = rpc_view b" for b'
    using view_requests [OF that] assms by simp
  show ?thesis
    using assms
    by (cases op) (simp_all add: view turn_calls_ok teardown_ok handleStdoutChunk_ok finish_connect_ok request_timeout_ok
        request_ok setPolicyMode_def model_list_answered_def)
qed

lemma run_requests_ok: "requests_ok b \<Longrightarrow> requests_ok (bridge_run parse ops b)"
  unfolding bridge_run_def by (induction ops arbitrary: b) (auto simp: step_requests_ok)

text \<open>C5. No request is lost and none is answered twice: after any run, the ids the bridge has given to
  requests are, each exactly once, either still pending or settled by an answer, a timeout or the
  end of the child.\<close>

theorem requests_settle_once:
  "mset (settled_ids (effects (bridge_run parse ops new_bridge))) + mset (map fst (pending (bridge_run parse ops new_bridge)))
     = mset (map request_id [1..<nextId (bridge_run parse ops new_bridge)])
   \<and> distinct (settled_ids (effects (bridge_run parse ops new_bridge)))"
proof -
  have "requests_ok new_bridge" by (simp add: requests_ok_def new_bridge_def)
  then have ok: "requests_ok (bridge_run parse ops new_bridge)" by (rule run_requests_ok)
  then show ?thesis using requests_distinct [OF ok] by (simp add: requests_ok_def)
qed

section \<open>Limits\<close>

interpretation pc: recency_cache "touch maxPolicyEntries" maxPolicyEntries
  by (rule recency_cache_touch) (simp add: maxPolicyEntries_def)

lemma rememberPolicy_touch:
  "rememberPolicy t m b = b\<lparr>policyByThread := touch maxPolicyEntries t m (policyByThread b)\<rparr>"
  by (simp add: rememberPolicy_def touch_def)

definition within_limits :: "bridge \<Rightarrow> bool" where
  "within_limits b \<longleftrightarrow> length (pending b) \<le> maxPendingRequests
     \<and> length (pendingApprovals b) \<le> maxPendingApprovals
     \<and> (map_wf (policyByThread b) \<and> length (policyByThread b) \<le> maxPolicyEntries)
     \<and> int (utf8_length (stdoutBuffer b)) \<le> maxStdoutBufferBytes"

text \<open>The tables whose size is limited.\<close>

definition table_view where
  "table_view b = (pending b, pendingApprovals b, policyByThread b, stdoutBuffer b)"

lemma view_limits: "table_view b' = table_view b \<Longrightarrow> within_limits b' = within_limits b"
  by (simp add: table_view_def within_limits_def)

lemma table_fields [simp]:
  "table_view (fx es b) = table_view b"
  "table_view (b\<lparr>connecting := x1\<rparr>) = table_view b" "table_view (b\<lparr>ready := x2\<rparr>) = table_view b"
  "table_view (b\<lparr>child := x3\<rparr>) = table_view b" "table_view (b\<lparr>nextId := x4\<rparr>) = table_view b"
  "table_view (b\<lparr>waiting := x5\<rparr>) = table_view b" "table_view (b\<lparr>modelCache := x6\<rparr>) = table_view b"
  "table_view (b\<lparr>auditing := x7\<rparr>) = table_view b" "table_view (b\<lparr>announcing := x8\<rparr>) = table_view b"
  "table_view (b\<lparr>deciding := x9\<rparr>) = table_view b" "table_view (b\<lparr>decided := x10\<rparr>) = table_view b"
  "table_view (b\<lparr>nextCall := x11\<rparr>) = table_view b"
  by (simp_all add: table_view_def)

lemma table_simple [simp]:
  "table_view (snd (writeMessage w b)) = table_view b" "table_view (settle_call c d b) = table_view b"
  "table_view (settle i out b) = table_view b" "table_view (handleServerRequest i rpc p b) = table_view b"
  by (simp_all add: writeMessage_def settle_call_def settle_def handleServerRequest_def split: option.splits)

lemma table_replies [simp]:
  "table_view (request_failed call txt b) = table_view b" "table_view (write_result call r b) = table_view b"
  by (auto simp: request_failed_def write_result_def writeMessage_def split: option.splits)

lemma table_decisions [simp]:
  "table_view (unattended call b) = table_view b" "table_view (run_decided b) = table_view b"
  "table_view (after_request_audit f c b) = table_view b"
  by (simp_all add: unattended_def run_decided_def after_request_audit_def Let_def split: option.splits list.splits prod.splits)

lemma limits_shrink:
  assumes "within_limits b"
  shows "within_limits (b\<lparr>pending := AList.delete i (pending b)\<rparr>)"
    "within_limits (b\<lparr>pendingApprovals := AList.delete k (pendingApprovals b)\<rparr>)"
    "within_limits (b\<lparr>stdoutBuffer := []\<rparr>)"
    "within_limits (b\<lparr>policyByThread := touch maxPolicyEntries t m (policyByThread b)\<rparr>)"
  using assms length_delete_le [of i "pending b"] length_delete_le [of k "pendingApprovals b"]
  by (auto simp: within_limits_def utf8_length_def maxStdoutBufferBytes_def pc.put_wf pc.put_bound)

lemma sendRequest_limits:
  assumes "within_limits b" "sendRequest rpc params t b = (r, b')" shows "within_limits b'"
  using assms
  by (auto simp: sendRequest_def writeMessage_def Let_def within_limits_def length_update split: if_splits)

lemma send_or_fail_limits: "within_limits b \<Longrightarrow> within_limits (send_or_fail rpc params t b)"
  by (auto simp: send_or_fail_def cong: view_limits split: prod.splits sum.splits dest: sendRequest_limits)

lemma ensureServerProcess_limits: "within_limits b \<Longrightarrow> within_limits (ensureServerProcess b)"
  by (auto simp: ensureServerProcess_def limits_shrink cong: view_limits split: option.splits)

lemma request_limits:
  assumes "within_limits b" shows "within_limits (request rpc params t b)"
proof -
  have "within_limits (ensureServerProcess (b\<lparr>ready := False\<rparr>))"
    using assms by (intro ensureServerProcess_limits) (simp cong: view_limits)
  note sent = sendRequest_limits [OF this]
  have "within_limits (connect b)"
    by (auto simp: connect_def cong: view_limits split: prod.splits sum.splits dest: sent)
  then show ?thesis
    using assms by (auto simp: request_def ensureReady_def Let_def send_or_fail_limits cong: view_limits split: if_splits)
qed

lemma finish_connect_limits:
  assumes "within_limits b" shows "within_limits (finish_connect b)"
proof -
  have "within_limits (fold (\<lambda>(rpc, params, t). send_or_fail rpc params t) ws b')" if "within_limits b'" for ws b'
    using that by (induction ws arbitrary: b') (auto simp: send_or_fail_limits)
  then show ?thesis
    using assms by (auto simp: finish_connect_def writeMessage_def Let_def cong: view_limits
        split: connect_state.splits option.splits prod.splits if_splits)
qed

lemma rejectAll_table: "table_view (rejectAll e b) = ([], [], policyByThread b, stdoutBuffer b)"
proof -
  have *: "table_view (fold (\<lambda>(i, r). settle i (Rejected e)) ps x) = table_view x" for ps and x :: bridge
    by (induction ps arbitrary: x) auto
  have **: "table_view (fold (\<lambda>(rid, p). settle_call (pa_call p) deny) ps x) = table_view x" for ps and x :: bridge
    by (induction ps arbitrary: x) auto
  let ?b1 = "(fold (\<lambda>(i, r). settle i (Rejected e)) (pending b) b)\<lparr>pending := []\<rparr>"
  have "table_view ?b1 = ([], pendingApprovals b, policyByThread b, stdoutBuffer b)"
    using * [of "pending b" b] by (simp add: table_view_def)
  then have "table_view (fold (\<lambda>(rid, p). settle_call (pa_call p) deny) (pendingApprovals ?b1) ?b1) =
      ([], pendingApprovals b, policyByThread b, stdoutBuffer b)"
    by (simp only: **)
  then show ?thesis unfolding rejectAll_def Let_def by (simp only: table_view_def prod.inject) simp
qed

lemma rejectAll_limits: "within_limits b \<Longrightarrow> within_limits (rejectAll e b)"
  using rejectAll_table [of e b] by (simp add: table_view_def within_limits_def)

lemma after_approval_audit_limits:
  assumes "within_limits b" shows "within_limits (after_approval_audit f now c b)"
proof (cases "map_of (announcing b) c")
  case (Some call)
  have "within_limits ((fx es (b\<lparr>announcing := y\<rparr>))\<lparr>deciding := x, pendingApprovals := AList.update k p (pendingApprovals b)\<rparr>)"
    if "\<not> maxPendingApprovals \<le> length (pendingApprovals b)" for es y x k p
    using assms that by (simp add: within_limits_def length_update)
  then show ?thesis
    using assms by (simp add: after_approval_audit_def Some Let_def cong: view_limits)
qed (simp add: after_approval_audit_def assms)

lemma handleMessage_table:
  assumes "within_limits b"
  shows "within_limits (handleMessage parse raw b) \<and> stdoutBuffer (handleMessage parse raw b) = stdoutBuffer b"
proof -
  have "within_limits (settle i out (b\<lparr>pending := AList.delete i (pending b)\<rparr>))" for i out
    using assms limits_shrink by (simp cong: view_limits)
  then show ?thesis
    using assms by (auto simp: handleMessage_def settle_def handleServerRequest_def cong: view_limits split: option.splits)
qed

lemma utf8_length_append [simp]: "utf8_length (s @ t) = utf8_length s + utf8_length t"
  by (simp add: utf8_length_def)

lemma utf8_length_drop_line:
  "utf8_length (tl (dropWhile (\<lambda>x. x \<noteq> c) s)) \<le> utf8_length s"
proof -
  let ?r = "dropWhile (\<lambda>x. x \<noteq> c) s"
  have "utf8_length s = utf8_length (takeWhile (\<lambda>x. x \<noteq> c) s) + utf8_length ?r"
    using utf8_length_append [of "takeWhile (\<lambda>x. x \<noteq> c) s" ?r] by simp
  moreover have "utf8_length (tl ?r) \<le> utf8_length ?r" by (cases ?r) (simp_all add: utf8_length_def del: dropWhile_eq_Cons_conv dropWhile_eq_Nil_conv)
  ultimately show ?thesis by simp
qed

lemma drain_limits:
  "within_limits b \<Longrightarrow> int (utf8_length buf) \<le> maxStdoutBufferBytes \<Longrightarrow> within_limits (drain parse buf b)"
proof (induction parse buf b rule: drain.induct)
  case (1 parse buf b)
  let ?rest = "tl (dropWhile (\<lambda>x. x \<noteq> CHR 0x0A) buf)"
  have rest: "int (utf8_length ?rest) \<le> maxStdoutBufferBytes" using utf8_length_drop_line [of "CHR 0x0A" buf] "1.prems"(2) by simp
  have b1: "within_limits (b\<lparr>stdoutBuffer := x\<rparr>)" if "int (utf8_length x) \<le> maxStdoutBufferBytes" for x
    using "1.prems"(1) that by (simp add: within_limits_def)
  show ?case
    using "1.IH" [OF _ refl refl refl] rest b1 "1.prems"(2) handleMessage_table
    by (simp add: drain.simps [of parse buf] Let_def)
qed

lemma handleStdoutChunk_limits:
  assumes "within_limits b" shows "within_limits (handleStdoutChunk parse chunk b)"
proof -
  have "within_limits (rejectAll e (b\<lparr>stdoutBuffer := []\<rparr>))" for e
    using assms by (intro rejectAll_limits limits_shrink)
  then show ?thesis
    using drain_limits [OF assms]
    by (auto simp: handleStdoutChunk_def Let_def cong: view_limits split: option.splits)
qed

lemma teardown_limits:
  assumes "within_limits b"
  shows "within_limits (shutdown b)" "within_limits (child_stdin_error txt b)" "within_limits (child_error command txt b)"
    "within_limits (child_exit code signal b)"
proof -
  have "within_limits (rejectAll e (b\<lparr>ready := False, child := x\<rparr>))" "within_limits (rejectAll e (b\<lparr>ready := False\<rparr>))" for e x
    using assms by (intro rejectAll_limits; simp cong: view_limits)+
  then show "within_limits (shutdown b)" "within_limits (child_stdin_error txt b)" "within_limits (child_error command txt b)"
    "within_limits (child_exit code signal b)"
    by (auto simp: shutdown_def child_stdin_error_def child_error_def child_exit_def Let_def
        cong: view_limits split: option.splits)
qed

lemma turn_calls_limits:
  assumes "within_limits b"
  shows "within_limits (rememberPolicy t m b)" "within_limits (resumeThread t mode b)" "within_limits (forkThread t mode src b)"
    "within_limits (startTurn t txt atts mode options b)" "within_limits (startThread cwd pm options b)"
proof -
  have "within_limits (rememberPolicy t m b)" for m
    unfolding rememberPolicy_touch using assms by (rule limits_shrink)
  moreover have "within_limits (fx [CallFailed rpc e] b)" "within_limits (request rpc params tm b)" for rpc params tm e
    using assms by (simp_all add: request_limits cong: view_limits)
  ultimately show "within_limits (rememberPolicy t m b)" "within_limits (resumeThread t mode b)" "within_limits (forkThread t mode src b)"
    "within_limits (startTurn t txt atts mode options b)" "within_limits (startThread cwd pm options b)"
    by (simp_all add: resumeThread_def forkThread_def startTurn_def startThread_def Let_def request_limits split: option.splits)
qed

lemma approval_timers_limits:
  assumes "within_limits b"
  shows "within_limits (approval_timeout c b)" "within_limits (snd (resolveApproval rid v x y z b))"
    "within_limits (request_timeout i b)"
  using assms limits_shrink [OF assms]
  by (auto simp: approval_timeout_def resolveApproval_def request_timeout_def cong: view_limits split: option.splits)

lemma step_limits: "within_limits b \<Longrightarrow> within_limits (bridge_step parse op b)"
  by (cases op) (simp_all add: turn_calls_limits teardown_limits handleStdoutChunk_limits finish_connect_limits
      request_limits approval_timers_limits after_approval_audit_limits setPolicyMode_def model_list_answered_def
      cong: view_limits)

text \<open>C38. Whatever the app-server sends and whatever the clients ask for, the bridge never holds more than
  1,024 open requests, 256 pending approvals, 10,000 remembered policies and 32 MiB of undigested
  output.\<close>

theorem bridge_stays_within_limits: "within_limits (bridge_run parse ops new_bridge)"
proof -
  have "within_limits new_bridge"
    by (simp add: within_limits_def new_bridge_def utf8_length_def maxStdoutBufferBytes_def)
  moreover have "within_limits (fold (bridge_step parse) ops b)" if "within_limits b" for b
    using that by (induction ops arbitrary: b) (auto simp: step_limits)
  ultimately show ?thesis by (simp add: bridge_run_def)
qed

end
