(* ===== verification/BridgeIo.thy ===== *)
theory BridgeIo
  imports BridgeRequests
begin

text \<open>
  The child process of the bridge: the framing of its output, its environment, and what its end does
  to the requests and approvals that are open.
\<close>

section \<open>Framing\<close>

lemma drain_step:
  assumes "CHR 0x0A \<in> set buf"
  shows "drain parse buf b =
    (let raw = trim (takeWhile (\<lambda>x. x \<noteq> CHR 0x0A) buf); rest = tl (dropWhile (\<lambda>x. x \<noteq> CHR 0x0A) buf);
         b1 = b\<lparr>stdoutBuffer := rest\<rparr>
     in drain parse rest (if raw \<noteq> [] then handleMessage parse raw b1 else b1))"
  using assms by (simp add: drain.simps [of parse buf b] Let_def)

lemma drain_last: "CHR 0x0A \<notin> set buf \<Longrightarrow> drain parse buf b = b\<lparr>stdoutBuffer := buf\<rparr>"
  by (simp add: drain.simps [of parse buf b])

lemma drain_ignores_buffer: "drain parse buf (b\<lparr>stdoutBuffer := x\<rparr>) = drain parse buf b"
  by (cases "CHR 0x0A \<in> set buf") (simp_all add: drain_step drain_last)

lemma drain_rest: "CHR 0x0A \<notin> set (stdoutBuffer (drain parse buf b))"
proof (induction parse buf b rule: drain.induct)
  case (1 parse buf b)
  then show ?case by (cases "CHR 0x0A \<in> set buf") (simp_all add: drain_step drain_last Let_def)
qed

lemma drain_append:
  "drain parse (x @ y) b = drain parse (stdoutBuffer (drain parse x b) @ y) (drain parse x b)"
proof (induction parse x b rule: drain.induct)
  case (1 parse x b)
  show ?case
  proof (cases "CHR 0x0A \<in> set x")
    case False
    then show ?thesis by (simp add: drain_last drain_ignores_buffer)
  next
    case True
    then have split: "takeWhile (\<lambda>c. c \<noteq> CHR 0x0A) (x @ y) = takeWhile (\<lambda>c. c \<noteq> CHR 0x0A) x"
      "dropWhile (\<lambda>c. c \<noteq> CHR 0x0A) (x @ y) = dropWhile (\<lambda>c. c \<noteq> CHR 0x0A) x @ y"
      by (auto simp: takeWhile_append1 dropWhile_append1)
    have "dropWhile (\<lambda>c. c \<noteq> CHR 0x0A) x \<noteq> []" using True by auto
    then have tl: "tl (dropWhile (\<lambda>c. c \<noteq> CHR 0x0A) x @ y) = tl (dropWhile (\<lambda>c. c \<noteq> CHR 0x0A) x) @ y" by simp
    define rest where "rest = tl (dropWhile (\<lambda>c. c \<noteq> CHR 0x0A) x)"
    define raw where "raw = trim (takeWhile (\<lambda>c. c \<noteq> CHR 0x0A) x)"
    have IH: "drain parse (rest @ y) c = drain parse (stdoutBuffer (drain parse rest c) @ y) (drain parse rest c)"
      if "c = (if raw \<noteq> [] then handleMessage parse raw (b\<lparr>stdoutBuffer := rest\<rparr>) else b\<lparr>stdoutBuffer := rest\<rparr>)" for c
      using "1.IH" [OF _ raw_def rest_def refl] True that by simp
    let ?c = "if raw \<noteq> [] then handleMessage parse raw (b\<lparr>stdoutBuffer := rest\<rparr>) else b\<lparr>stdoutBuffer := rest\<rparr>"
    have line: "handleMessage parse raw (b\<lparr>stdoutBuffer := z\<rparr>) = (handleMessage parse raw b)\<lparr>stdoutBuffer := z\<rparr>" for z
      by (auto simp: handleMessage_def settle_def handleServerRequest_def fx_def split: option.splits)
    have "drain parse (x @ y) b = drain parse (rest @ y) ?c"
      using True by (simp add: drain_step split tl Let_def line drain_ignores_buffer flip: rest_def raw_def)
    also have "\<dots> = drain parse (stdoutBuffer (drain parse rest ?c) @ y) (drain parse rest ?c)" by (rule IH) simp
    also have "drain parse rest ?c = drain parse x b"
      using True by (simp add: drain_step Let_def flip: rest_def raw_def)
    finally show ?thesis .
  qed
qed

text \<open>C29. How the output of the app-server is cut into chunks does not matter: as long as the undigested
  output stays below the limit of 32 MiB, feeding the chunks one after the other has the effect of
  feeding their concatenation, so no message is lost, split or joined.\<close>

theorem framing_ignores_chunking:
  assumes "CHR 0x0A \<notin> set (stdoutBuffer b)"
    and "int (utf8_length (stdoutBuffer b @ concat chunks)) \<le> maxStdoutBufferBytes"
  shows "fold (handleStdoutChunk parse) chunks b = handleStdoutChunk parse (concat chunks) b"
  using assms
proof (induction chunks arbitrary: b)
  case Nil
  then show ?case by (simp add: handleStdoutChunk_def drain_last)
next
  case (Cons c cs)
  let ?b = "drain parse (stdoutBuffer b @ c) b"
  have size: "int (utf8_length (stdoutBuffer ?b @ concat cs)) \<le> maxStdoutBufferBytes"
  proof -
    have "utf8_length (stdoutBuffer (drain parse buf b)) \<le> utf8_length buf" for buf
    proof (induction parse buf b rule: drain.induct)
      case (1 parse buf b)
      then show ?case using utf8_length_drop_line [of "CHR 0x0A" buf]
        by (cases "CHR 0x0A \<in> set buf") (fastforce simp: drain_step drain_last Let_def)+
    qed
    from this [of "stdoutBuffer b @ c"] show ?thesis using Cons.prems(2) by simp
  qed
  have one: "handleStdoutChunk parse c b = ?b" using Cons.prems(2) by (simp add: handleStdoutChunk_def)
  have "fold (handleStdoutChunk parse) (c # cs) b = handleStdoutChunk parse (concat cs) ?b"
    using Cons.IH [OF drain_rest size] by (simp add: one)
  also have "\<dots> = drain parse (stdoutBuffer ?b @ concat cs) ?b" using size by (simp add: handleStdoutChunk_def)
  also have "\<dots> = drain parse ((stdoutBuffer b @ c) @ concat cs) b" by (rule drain_append [symmetric])
  also have "\<dots> = handleStdoutChunk parse (concat (c # cs)) b" using Cons.prems(2) by (simp add: handleStdoutChunk_def)
  finally show ?case .
qed

lemma framing_ignores_chunking_witness:
  "fold (handleStdoutChunk sample_parse) [''as'', ''k'', [CHR 0x0A]] new_bridge
     = handleStdoutChunk sample_parse (concat [''as'', ''k'', [CHR 0x0A]]) new_bridge"
  by (rule framing_ignores_chunking) (simp_all add: new_bridge_def utf8_length_def maxStdoutBufferBytes_def)

section \<open>The environment of the child\<close>

lemma map_of_filter_keys: "map_of (filter (\<lambda>(k, v). P k) m) k = (if P k then map_of m k else None)"
  by (induction m) auto

lemma scrubbed_prefix: "scrubbed_key (''CODEHARBOR_'' @ x)" "scrubbed_key (''RELAY_'' @ x)" "scrubbed_key (''GATEWAY_AUTH_'' @ x)"
  by (simp_all add: scrubbed_key_def starts_with_def)

lemma ends_with_append [simp]: "ends_with (x @ s) s"
  by (simp add: ends_with_def)

lemma scrubbed_suffix: "scrubbed_key (x @ ''_TOKEN'')" "scrubbed_key (x @ ''_SECRET'')" "scrubbed_key (x @ ''_API_KEY'')"
  using ends_with_append [of x "''_TOKEN''"] ends_with_append [of x "''_SECRET''"] ends_with_append [of x "''_API_KEY''"]
  by (simp_all add: scrubbed_key_def secret_suffix_def)

text \<open>The app-server starts with the environment of the gateway less every variable that carries a
  secret: those of the gateway and the relay by their prefix, database addresses, and everything
  named as a token, secret or API key. All other variables are passed on unchanged, and only the
  search path is extended.\<close>

theorem child_environment_has_no_secrets:
  "map_of (processEnvWithToolPath d env) k =
     (if k = ''PATH''
      then Some (join [d] (filter (\<lambda>p. p \<noteq> []) (extraPath @ [case map_of env ''PATH'' of Some p \<Rightarrow> p | None \<Rightarrow> []])))
      else if scrubbed_key k then None else map_of env k)
   \<and> scrubbed_key (''CODEHARBOR_'' @ x) \<and> scrubbed_key (''RELAY_'' @ x) \<and> scrubbed_key (''GATEWAY_AUTH_'' @ x)
   \<and> scrubbed_key (x @ ''_TOKEN'') \<and> scrubbed_key (x @ ''_SECRET'') \<and> scrubbed_key (x @ ''_API_KEY'')"
  using map_of_filter_keys [of "\<lambda>k. \<not> scrubbed_key k" env k] scrubbed_prefix scrubbed_suffix
  by (simp add: processEnvWithToolPath_def Let_def)

section \<open>The end of the child\<close>

lemma deny_all_decides:
  assumes "(rid, p) \<in> set ps" "map_of (deciding b) (pa_call p) = Some dc"
  shows "(dc_call dc, deny) \<in> set (decided (fold (\<lambda>(rid, p). settle_call (pa_call p) deny) ps b))"
proof -
  have keep: "x \<in> set (decided b) \<Longrightarrow> x \<in> set (decided (fold (\<lambda>(rid, p). settle_call (pa_call p) deny) ps b))" for x ps b
    by (induction ps arbitrary: b) (auto simp: settle_call_def split: option.splits)
  show ?thesis using assms
  proof (induction ps arbitrary: b)
    case (Cons q ps)
    obtain r s where q: "q = (r, s)" by (cases q)
    show ?case
    proof (cases "pa_call s = pa_call p")
      case True
      then have "(dc_call dc, deny) \<in> set (decided (settle_call (pa_call s) deny b))"
        using Cons.prems(2) by (simp add: settle_call_def)
      then show ?thesis using keep by (simp add: q)
    next
      case False
      then have "map_of (deciding (settle_call (pa_call s) deny b)) (pa_call p) = Some dc"
        using Cons.prems(2) by (simp add: settle_call_def split: option.splits)
      moreover have "(rid, p) \<in> set ps" using Cons.prems(1) False by (auto simp: q)
      ultimately show ?thesis using Cons.IH by (simp add: q)
    qed
  qed simp
qed

lemma settle_all_rejects:
  "Settled i (Rejected e) \<in> set (effects (fold (\<lambda>(i, r). settle i (Rejected e)) ps b))
     \<longleftrightarrow> i \<in> fst ` set ps \<or> Settled i (Rejected e) \<in> set (effects b)"
  by (induction ps arbitrary: b) (auto simp: settle_def)

lemma deny_all_effects: "effects (fold (\<lambda>(rid, p). settle_call (pa_call p) deny) ps b) = effects b"
  by (induction ps arbitrary: b) (auto simp: settle_call_def split: option.splits)

lemma settle_all_fields:
  "deciding (fold (\<lambda>(i, r). settle i (Rejected e)) ps b) = deciding b"
  "pendingApprovals (fold (\<lambda>(i, r). settle i (Rejected e)) ps b) = pendingApprovals b"
  using reject_pending_view [of e ps b] by (simp_all add: approval_view_def)

lemma settle_frames:
  "child (settle i out b) = child b" "ready (settle i out b) = ready b"
  "child (settle_call c d b) = child b" "ready (settle_call c d b) = ready b"
  by (simp_all add: settle_def settle_call_def split: option.splits)

lemma settle_all_frame:
  "child (fold (\<lambda>(i, r). settle i (Rejected e)) ps b) = child b"
  "ready (fold (\<lambda>(i, r). settle i (Rejected e)) ps b) = ready b"
  by (induction ps arbitrary: b) (simp_all add: settle_frames split: prod.splits)

lemma deny_all_frame:
  "child (fold (\<lambda>(rid, p). settle_call (pa_call p) deny) ps b) = child b"
  "ready (fold (\<lambda>(rid, p). settle_call (pa_call p) deny) ps b) = ready b"
  by (induction ps arbitrary: b) (simp_all add: settle_frames split: prod.splits)

lemma rejectAll_frame: "child (rejectAll e b) = child b" "ready (rejectAll e b) = ready b"
  by (simp_all add: rejectAll_def Let_def settle_all_frame deny_all_frame)

lemma rejectAll_releases:
  "pending (rejectAll e b) = [] \<and> pendingApprovals (rejectAll e b) = []
   \<and> (\<forall>i\<in>fst ` set (pending b). Settled i (Rejected e) \<in> set (effects (rejectAll e b)))
   \<and> (\<forall>(rid, p)\<in>set (pendingApprovals b). \<forall>dc. map_of (deciding b) (pa_call p) = Some dc \<longrightarrow>
        (dc_call dc, deny) \<in> set (decided (rejectAll e b)))"
proof (intro conjI)
  show "pending (rejectAll e b) = []" "pendingApprovals (rejectAll e b) = []"
    using rejectAll_table [of e b] by (simp_all add: table_view_def)
  show "\<forall>i\<in>fst ` set (pending b). Settled i (Rejected e) \<in> set (effects (rejectAll e b))"
    by (auto simp: rejectAll_def Let_def deny_all_effects settle_all_rejects)
  show "\<forall>(rid, p)\<in>set (pendingApprovals b). \<forall>dc. map_of (deciding b) (pa_call p) = Some dc \<longrightarrow>
      (dc_call dc, deny) \<in> set (decided (rejectAll e b))"
    by (auto simp: rejectAll_def Let_def settle_all_fields intro!: deny_all_decides)
qed

text \<open>When the app-server exits nobody is left waiting: every open request is rejected with the exit
  code, every pending approval is decided, and decided against, and the bridge accepts no more
  writes until it has started a new child.\<close>

theorem child_exit_releases_everyone:
  "let b' = child_exit code signal b;
       e = JsError None (''Codex app-server exited with code '' @ (case code of Some n \<Rightarrow> int_str n | None \<Rightarrow> ''null'')
             @ '' signal '' @ (case signal of Some t \<Rightarrow> t | None \<Rightarrow> ''null''))
   in pending b' = [] \<and> pendingApprovals b' = [] \<and> \<not> child_open b' \<and> \<not> ready b'
     \<and> (\<forall>i\<in>fst ` set (pending b). Settled i (Rejected e) \<in> set (effects b'))
     \<and> (\<forall>(rid, p)\<in>set (pendingApprovals b). \<forall>dc. map_of (deciding b) (pa_call p) = Some dc \<longrightarrow>
          (dc_call dc, deny) \<in> set (decided b'))"
proof -
  let ?e = "JsError None (''Codex app-server exited with code '' @ (case code of Some n \<Rightarrow> int_str n | None \<Rightarrow> ''null'')
             @ '' signal '' @ (case signal of Some t \<Rightarrow> t | None \<Rightarrow> ''null''))"
  let ?b = "b\<lparr>ready := False, child := None\<rparr>"
  note rel = rejectAll_releases [of ?e ?b]
  have same: "pendingApprovals ?b = pendingApprovals b" "deciding ?b = deciding b" by simp_all
  have closed: "child (rejectAll ?e ?b) = None" "\<not> ready (rejectAll ?e ?b)" using rejectAll_frame [of ?e ?b] by simp_all
  show ?thesis
    unfolding child_exit_def Let_def child_open_def fx_fields closed(1) option.case
  proof (intro conjI)
    show "\<forall>i\<in>fst ` set (pending b). Settled i (Rejected ?e) \<in> set (effects (rejectAll ?e ?b) @ x)" for x
      using rel by simp
    show "\<forall>(rid, p)\<in>set (pendingApprovals b). \<forall>dc. map_of (deciding b) (pa_call p) = Some dc \<longrightarrow>
        (dc_call dc, deny) \<in> set (decided (rejectAll ?e ?b))"
      using rel [THEN conjunct2, THEN conjunct2, THEN conjunct2] unfolding same .
  qed (use rel closed(2) in simp_all)
qed

lemma child_exit_releases_everyone_witness:
  "Settled (JNum 1) (Rejected (JsError None ''Codex app-server exited with code 1 signal null''))
     \<in> set (effects (child_exit (Some 1) None (request ''model/list'' (JObj []) 15000 new_bridge)))"
proof -
  have "int_str 1 = ''1''" by code_simp
  moreover have "fst ` set (pending (request ''model/list'' (JObj []) 15000 new_bridge)) = {JNum 1}"
    by (simp add: request_def ensureReady_def connect_def ensureServerProcess_def sendRequest_def child_open_def new_bridge_def
        writeMessage_def fx_def maxPendingRequests_def Let_def)
  ultimately show ?thesis
    using child_exit_releases_everyone [of "Some 1" None "request ''model/list'' (JObj []) 15000 new_bridge"]
    by (simp add: Let_def)
qed

section \<open>Forking with full access\<close>

text \<open>A fork that asks for full access gives it to the thread it forks from: the policy is remembered
  under the parent, so that a later request of the parent is accepted although the parent was set to
  ask for confirmation and nobody has approved anything.\<close>

theorem fork_full_access_covers_parent:
  "let ops = [OpRequest ''model/list'' (JObj []) 15000, OpSetPolicy ''t'' Confirm, OpFork ''t'' (Some FullAccess) ''subagent'',
              OpChunk (''ask'' @ [CHR 0x0A]), OpRequestAudited None 0]
   in accepted_ids (effects (bridge_run sample_parse ops new_bridge)) = [''7'']
      \<and> approved sample_parse ops new_bridge = []"
  by code_simp

end
