(* ===== verification/Threads.thy ===== *)
theory Threads
  imports Store Paths "HOL-Library.Product_Lexorder"
begin

text \<open>
  The Codex history on disk (\<open>threads.ts\<close>): the session index, the rollout files and the SQLite state.

  The files are arguments: the index and a rollout as their text, the directory of rollouts as a tree
  (\<open>fs_entry\<close>; a symbolic link is not followed), the answer of the \<open>sqlite3\<close> process as a list of
  rows. \<open>JSON.parse\<close>, \<open>Date.parse\<close> and \<open>Number\<close> are arguments too. A property of a parsed value whose
  type is not the declared one counts as absent. \<open>None\<close> in a result stands for an exception.
\<close>

section \<open>Data\<close>

record thread_summary =
  t_id :: string
  t_title :: string
  t_cwd :: string
  t_preview :: string
  t_model :: "string option"
  t_modelProvider :: string
  t_source :: string
  t_status :: string
  t_createdAtMs :: js_number
  t_updatedAtMs :: js_number
  t_tokensUsed :: js_number
  t_archived :: bool
  t_gitBranch :: "string option"

record thread_row =
  row_id :: string
  row_title :: string
  row_cwd :: string
  row_preview :: string
  row_model :: "string option"
  row_model_provider :: string
  row_source :: string
  row_created_at_ms :: "js_number option"
  row_updated_at_ms :: "js_number option"
  row_created_at :: js_number
  row_updated_at :: js_number
  row_tokens_used :: js_number
  row_archived :: js_number
  row_git_branch :: "string option"
  row_rollout_path :: string
  row_cli_version :: string

record index_row =
  ix_id :: string
  ix_thread_name :: "string option"
  ix_updated_at :: "string option"

record rollout_metadata =
  rm_cwd :: "string option"
  rm_preview :: "string option"
  rm_model :: "string option"
  rm_modelProvider :: "string option"
  rm_source :: "string option"
  rm_createdAtMs :: "js_number option"
  rm_updatedAtMs :: "js_number option"

definition no_metadata :: rollout_metadata where
  "no_metadata = \<lparr>rm_cwd = None, rm_preview = None, rm_model = None, rm_modelProvider = None, rm_source = None,
     rm_createdAtMs = None, rm_updatedAtMs = None\<rparr>"

datatype fs_entry = FsFile (fs_name: string) | FsDir (fs_name: string) (fs_entries: "fs_entry list")

section \<open>Language\<close>

text \<open>\<open>text.split(/\r?\n/)\<close>.\<close>

fun strip_cr :: "string list \<Rightarrow> string list" where
  "strip_cr [] = []"
| "strip_cr [l] = [l]"
| "strip_cr (l # m # ls) =
     (if l \<noteq> [] \<and> last l = CHR 0x0D then butlast l else l) # strip_cr (m # ls)"

definition split_lines :: "string \<Rightarrow> string list" where
  "split_lines txt = strip_cr (split_on (CHR 0x0A) txt)"

definition nonempty_lines :: "string \<Rightarrow> string list" where
  "nonempty_lines txt = filter (\<lambda>l. l \<noteq> []) (split_lines txt)"

text \<open>\<open>a || b\<close> on strings and numbers that may be absent.\<close>

definition str_or :: "string option \<Rightarrow> string \<Rightarrow> string" where
  "str_or a b = (case a of Some s \<Rightarrow> if s = [] then b else s | None \<Rightarrow> b)"

definition num_or :: "js_number option \<Rightarrow> js_number option \<Rightarrow> js_number option" where
  "num_or a b = (case a of Some n \<Rightarrow> if n = 0 then b else Some n | None \<Rightarrow> b)"

definition opt_or :: "'a option \<Rightarrow> 'a option \<Rightarrow> 'a option" where
  "opt_or a b = (case a of Some x \<Rightarrow> Some x | None \<Rightarrow> b)"

text \<open>\<open>Math.min(Math.max(limit || 40, 1), 100)\<close>.\<close>

definition safe_thread_limit :: "js_number \<Rightarrow> nat" where
  "safe_thread_limit limit = nat \<lfloor>min (max (if limit = 0 then 40 else limit) 1) 100\<rfloor>"

section \<open>SQLite state\<close>

definition mapThreadRow :: "thread_row \<Rightarrow> thread_summary" where
  "mapThreadRow row =
     \<lparr>t_id = row_id row,
      t_title = str_or (Some (row_title row)) (str_or (Some (row_preview row)) ''Untitled''),
      t_cwd = row_cwd row, t_preview = row_preview row, t_model = row_model row,
      t_modelProvider = row_model_provider row, t_source = row_source row, t_status = ''notLoaded'',
      t_createdAtMs = (case row_created_at_ms row of Some n \<Rightarrow> n | None \<Rightarrow> row_created_at row * 1000),
      t_updatedAtMs = (case row_updated_at_ms row of Some n \<Rightarrow> n | None \<Rightarrow> row_updated_at row * 1000),
      t_tokensUsed = row_tokens_used row, t_archived = (row_archived row = 1), t_gitBranch = row_git_branch row\<rparr>"

definition columnOr :: "string list \<Rightarrow> string \<Rightarrow> string \<Rightarrow> string" where
  "columnOr schema col fallback = (if col \<in> set schema then col else fallback)"

definition quote :: string where "quote = [CHR 0x27]"

definition sql_empty :: string where "sql_empty = [CHR 0x27, CHR 0x27]"

definition threadPreviewExpr :: "string list \<Rightarrow> string" where
  "threadPreviewExpr schema =
     (if ''preview'' \<in> set schema \<and> ''first_user_message'' \<in> set schema
      then ''coalesce(nullif(preview, '' @ sql_empty @ ''), first_user_message, '' @ sql_empty @ '')''
      else if ''preview'' \<in> set schema then ''coalesce(preview, '' @ sql_empty @ '')''
      else if ''first_user_message'' \<in> set schema then ''coalesce(first_user_message, '' @ sql_empty @ '')''
      else sql_empty)"

definition threadSourceExpr :: "string list \<Rightarrow> string" where
  "threadSourceExpr schema =
     (if ''source'' \<in> set schema then ''source''
      else if ''thread_source'' \<in> set schema then ''thread_source''
      else quote @ ''codex'' @ quote)"

definition threadCreatedAtMsExpr :: "string list \<Rightarrow> string" where
  "threadCreatedAtMsExpr schema =
     (if ''created_at_ms'' \<in> set schema \<and> ''created_at'' \<in> set schema then ''coalesce(created_at_ms, created_at * 1000)''
      else if ''created_at_ms'' \<in> set schema then ''created_at_ms''
      else if ''created_at'' \<in> set schema then ''created_at * 1000''
      else ''0'')"

definition threadUpdatedAtMsExpr :: "string list \<Rightarrow> string" where
  "threadUpdatedAtMsExpr schema =
     (if ''updated_at_ms'' \<in> set schema \<and> ''updated_at'' \<in> set schema then ''coalesce(updated_at_ms, updated_at * 1000)''
      else if ''updated_at_ms'' \<in> set schema then ''updated_at_ms''
      else if ''updated_at'' \<in> set schema then ''updated_at * 1000''
      else threadCreatedAtMsExpr schema)"

definition threadCreatedAtExpr :: "string list \<Rightarrow> string" where
  "threadCreatedAtExpr schema =
     (if ''created_at'' \<in> set schema then ''created_at''
      else ''cast(('' @ threadCreatedAtMsExpr schema @ '') / 1000 as integer)'')"

definition threadUpdatedAtExpr :: "string list \<Rightarrow> string" where
  "threadUpdatedAtExpr schema =
     (if ''updated_at'' \<in> set schema then ''updated_at''
      else ''cast(('' @ threadUpdatedAtMsExpr schema @ '') / 1000 as integer)'')"

definition buildThreadSelect :: "string list \<Rightarrow> bool \<Rightarrow> string" where
  "buildThreadSelect schema includeDetail =
     (let detail = [columnOr schema ''rollout_path'' sql_empty @ '' as rollout_path''];
          columns =
            [columnOr schema ''id'' sql_empty @ '' as id''] @ (if includeDetail then detail else []) @
            [columnOr schema ''title'' sql_empty @ '' as title'',
             columnOr schema ''cwd'' sql_empty @ '' as cwd'',
             threadPreviewExpr schema @ '' as preview'',
             columnOr schema ''model'' ''null'' @ '' as model'',
             columnOr schema ''model_provider'' (quote @ ''codex'' @ quote) @ '' as model_provider'',
             threadSourceExpr schema @ '' as source'',
             threadCreatedAtMsExpr schema @ '' as created_at_ms'',
             threadUpdatedAtMsExpr schema @ '' as updated_at_ms'',
             threadCreatedAtExpr schema @ '' as created_at'',
             threadUpdatedAtExpr schema @ '' as updated_at'',
             columnOr schema ''tokens_used'' ''0'' @ '' as tokens_used'',
             columnOr schema ''archived'' ''0'' @ '' as archived'',
             columnOr schema ''git_branch'' ''null'' @ '' as git_branch''] @
            (if includeDetail then [columnOr schema ''cli_version'' sql_empty @ '' as cli_version''] else [])
      in join ('','' @ [CHR 0x0A] @ replicate 12 (CHR '' '')) columns)"

definition readThreadSchema :: "string option list \<Rightarrow> string list option" where
  "readThreadSchema names =
     (let cols = fold (\<lambda>n acc. case n of Some c \<Rightarrow> if c = [] then acc else set_add c acc | None \<Rightarrow> acc) names []
      in if ''id'' \<in> set cols then Some cols else None)"

definition escapeSql :: "string \<Rightarrow> string" where
  "escapeSql value = concat (map (\<lambda>c. if c = CHR 0x27 then [CHR 0x27, CHR 0x27] else [c]) value)"

definition thread_by_id_sql :: "string list \<Rightarrow> string \<Rightarrow> string" where
  "thread_by_id_sql schema threadId =
     ''select '' @ buildThreadSelect schema True @ [CHR 0x0A] @ replicate 9 (CHR '' '') @ ''from threads'' @ [CHR 0x0A]
     @ replicate 8 (CHR '' '') @ ''where id = '' @ quote @ escapeSql threadId @ quote @ [CHR 0x0A]
     @ replicate 8 (CHR '' '') @ ''limit 1;''"

definition thread_list_sql :: "(string \<Rightarrow> js_number option) \<Rightarrow> string list \<Rightarrow> js_number \<Rightarrow> string option \<Rightarrow> string" where
  "thread_list_sql js_Number schema limit cursor =
     (let cursorMs = (case cursor of Some c \<Rightarrow> if c = [] then None else js_Number c | None \<Rightarrow> None);
          archivedExpr = (if ''archived'' \<in> set schema then ''coalesce(archived, 0)'' else ''0'');
          cursorClause = (case cursorMs of
              Some n \<Rightarrow> if n = 0 then [] else ''and ('' @ threadUpdatedAtMsExpr schema @ '') < '' @ num_str n
            | None \<Rightarrow> [])
      in ''select '' @ buildThreadSelect schema False @ [CHR 0x0A] @ replicate 7 (CHR '' '') @ ''from threads'' @ [CHR 0x0A]
         @ replicate 6 (CHR '' '') @ ''where ('' @ archivedExpr @ '') = 0 '' @ cursorClause @ [CHR 0x0A]
         @ replicate 6 (CHR '' '') @ ''order by updated_at_ms desc, id desc'' @ [CHR 0x0A]
         @ replicate 6 (CHR '' '') @ ''limit '' @ nat_str (safe_thread_limit limit + 1) @ '';'')"

text \<open>The end of \<open>listThreads\<close>: the page of the rows the query returned.\<close>

definition thread_page :: "js_number \<Rightarrow> thread_row list \<Rightarrow> thread_summary list \<times> string option" where
  "thread_page limit rows =
     (let n = safe_thread_limit limit;
          data = map mapThreadRow (take n rows)
      in (data, if length rows > n
                then Some (case at_last data of Some t \<Rightarrow> num_str (t_updatedAtMs t) | None \<Rightarrow> [])
                else None))"

section \<open>Rollout files\<close>

text \<open>The search for the rollout of a thread: directories are kept on a stack, and the entries of the one
  popped are scanned in order. \<open>scan_rollout\<close> is the inner loop.\<close>

fun scan_rollout :: "string \<Rightarrow> string \<Rightarrow> fs_entry list \<Rightarrow> (string \<times> fs_entry list) list \<Rightarrow>
    string + (string \<times> fs_entry list) list" where
  "scan_rollout threadId dir [] stack = Inr stack"
| "scan_rollout threadId dir (FsDir name es # rest) stack =
     scan_rollout threadId dir rest ((path_join [dir, name], es) # stack)"
| "scan_rollout threadId dir (FsFile name # rest) stack =
     (if includes_str name threadId \<and> ends_with name ''.jsonl'' then Inl (path_join [dir, name])
      else scan_rollout threadId dir rest stack)"

definition stack_size :: "(string \<times> fs_entry list) list \<Rightarrow> nat" where
  "stack_size stack = sum_list (map (\<lambda>(d, es). Suc (size_list size es)) stack)"

lemma scan_rollout_size:
  "scan_rollout threadId dir es stack = Inr stack' \<Longrightarrow> stack_size stack' \<le> size_list size es + stack_size stack"
proof (induction threadId dir es stack rule: scan_rollout.induct)
  case (2 threadId dir name es rest stack)
  then show ?case by (fastforce simp: stack_size_def)
next
  case (3 threadId dir name rest stack)
  then show ?case by (auto split: if_splits)
qed (simp add: stack_size_def)

function rollout_loop :: "string \<Rightarrow> (string \<times> fs_entry list) list \<Rightarrow> string option" where
  "rollout_loop threadId [] = None"
| "rollout_loop threadId ((dir, es) # stack) =
     (case scan_rollout threadId dir es stack of
        Inl found \<Rightarrow> Some found
      | Inr stack' \<Rightarrow> rollout_loop threadId stack')"
  by pat_completeness auto
termination
proof (relation "measure (\<lambda>(threadId, stack). stack_size stack)")
  fix threadId dir es stack stack'
  assume "scan_rollout threadId dir es stack = Inr stack'"
  from scan_rollout_size [OF this]
  show "((threadId, stack'), threadId, (dir, es) # stack) \<in> measure (\<lambda>(threadId, stack). stack_size stack)"
    by (simp add: stack_size_def)
qed simp

text \<open>\<open>sessionsDir\<close> is \<open>None\<close> when the directory does not exist.\<close>

definition findRolloutPath :: "string \<Rightarrow> fs_entry list option \<Rightarrow> string \<Rightarrow> string option" where
  "findRolloutPath base sessionsDir threadId =
     (case sessionsDir of None \<Rightarrow> None | Some es \<Rightarrow> rollout_loop threadId [(base, es)])"

text \<open>The pattern \<open>[0-9a-f]{8}-[0-9a-f-]{27,}\<close>, case-insensitive: the leftmost longest match.\<close>

definition is_hex :: "char \<Rightarrow> bool" where
  "is_hex c = (let n = of_char c :: nat in 48 \<le> n \<and> n \<le> 57 \<or> 65 \<le> n \<and> n \<le> 70 \<or> 97 \<le> n \<and> n \<le> 102)"

definition uuid_prefix :: "string \<Rightarrow> string option" where
  "uuid_prefix s =
     (let tail = takeWhile (\<lambda>c. is_hex c \<or> c = CHR ''-'') (drop 9 s)
      in if length s \<ge> 9 \<and> list_all is_hex (take 8 s) \<and> s ! 8 = CHR ''-'' \<and> length tail \<ge> 27
         then Some (take 9 s @ tail) else None)"

fun uuid_match :: "string \<Rightarrow> string option" where
  "uuid_match [] = None"
| "uuid_match (c # s) = (case uuid_prefix (c # s) of Some u \<Rightarrow> Some u | None \<Rightarrow> uuid_match s)"

text \<open>The walk of \<open>buildRolloutPathIndex\<close>, with its map of the paths found so far.\<close>

fun scan_index :: "string \<Rightarrow> fs_entry list \<Rightarrow> (string \<times> fs_entry list) list \<Rightarrow> (string, string) js_map \<Rightarrow>
    (string \<times> fs_entry list) list \<times> (string, string) js_map" where
  "scan_index dir [] stack m = (stack, m)"
| "scan_index dir (FsDir name es # rest) stack m = scan_index dir rest ((path_join [dir, name], es) # stack) m"
| "scan_index dir (FsFile name # rest) stack m =
     scan_index dir rest stack
       (if ends_with name ''.jsonl''
        then (case uuid_match name of Some u \<Rightarrow> AList.update u (path_join [dir, name]) m | None \<Rightarrow> m)
        else m)"

lemma scan_index_size:
  "stack_size (fst (scan_index dir es stack m)) \<le> size_list size es + stack_size stack"
  by (induction dir es stack m rule: scan_index.induct) (fastforce simp: stack_size_def)+

function index_loop :: "(string \<times> fs_entry list) list \<Rightarrow> (string, string) js_map \<Rightarrow> (string, string) js_map" where
  "index_loop [] m = m"
| "index_loop ((dir, es) # stack) m = (let (stack', m') = scan_index dir es stack m in index_loop stack' m')"
  by pat_completeness auto
termination
proof (relation "measure (\<lambda>(stack, m). stack_size stack)")
  fix dir es stack m x stack' m'
  assume "x = scan_index dir es stack m" "(stack', m') = x"
  then have "scan_index dir es stack m = (stack', m')" by simp
  with scan_index_size [of dir es stack m]
  show "((stack', m'), (dir, es) # stack, m) \<in> measure (\<lambda>(stack, m). stack_size stack)"
    by (simp add: stack_size_def)
qed simp

text \<open>The index is kept for ten seconds: the state is the expiry and the map.\<close>

definition buildRolloutPathIndex ::
  "int \<Rightarrow> string \<Rightarrow> fs_entry list option \<Rightarrow> (int \<times> (string, string) js_map) option \<Rightarrow>
   (string, string) js_map \<times> (int \<times> (string, string) js_map) option" where
  "buildRolloutPathIndex now base sessionsDir cache =
     (case cache of
        Some (expiry, value) \<Rightarrow>
          if expiry > now then (value, cache)
          else (case sessionsDir of
                  None \<Rightarrow> ([], cache)
                | Some es \<Rightarrow> let r = index_loop [(base, es)] [] in (r, Some (now + 10000, r)))
      | None \<Rightarrow>
          (case sessionsDir of
             None \<Rightarrow> ([], cache)
           | Some es \<Rightarrow> let r = index_loop [(base, es)] [] in (r, Some (now + 10000, r))))"

text \<open>The body of the loop of \<open>readRolloutMetadata\<close> on a parsed line. In the loop a line that is not JSON
  is skipped and the literal \<open>null\<close> makes the first property access throw.\<close>

definition metadata_line ::
  "(string \<Rightarrow> js_number option) \<Rightarrow> json \<Rightarrow> rollout_metadata \<Rightarrow> rollout_metadata" where
  "metadata_line date_parse entry md =
     (let ts = date_parse (case jcoalesce (jget entry ''timestamp'') (Some (JStr [])) of Some v \<Rightarrow> js_String v | None \<Rightarrow> []);
          md1 = (case ts of
                   Some n \<Rightarrow> md\<lparr>rm_createdAtMs := opt_or (rm_createdAtMs md) (Some n), rm_updatedAtMs := Some n\<rparr>
                 | None \<Rightarrow> md);
          payload = jget entry ''payload'';
          entryType = as_str (jget entry ''type'');
          md2 = (if entryType = Some ''session_meta''
                 then md1\<lparr>rm_cwd := opt_or (as_str (jchain payload ''cwd'')) (rm_cwd md1),
                          rm_model := opt_or (as_str (jchain payload ''model'')) (rm_model md1),
                          rm_modelProvider := opt_or (as_str (jchain payload ''model_provider'')) (rm_modelProvider md1),
                          rm_source := opt_or (as_str (jchain payload ''source'')) (rm_source md1)\<rparr>
                 else md1)
      in if (rm_preview md2 = None \<or> rm_preview md2 = Some []) \<and> entryType = Some ''event_msg''
            \<and> as_str (jchain payload ''type'') = Some ''user_message''
         then md2\<lparr>rm_preview := Some (take 240
                (case jcoalesce (jchain payload ''message'') (Some (JStr [])) of Some v \<Rightarrow> js_String v | None \<Rightarrow> []))\<rparr>
         else md2)"

fun metadata_loop ::
  "(string \<Rightarrow> json option) \<Rightarrow> (string \<Rightarrow> js_number option) \<Rightarrow> nat \<Rightarrow> string list \<Rightarrow> rollout_metadata \<Rightarrow> rollout_metadata option" where
  "metadata_loop parse date_parse i [] md = Some md"
| "metadata_loop parse date_parse i (l # ls) md =
     (case parse l of
        None \<Rightarrow> metadata_loop parse date_parse (Suc i) ls md
      | Some entry \<Rightarrow>
          if entry = JNull then None
          else let md' = metadata_line date_parse entry md
               in if i > 80 \<and> str_or (rm_preview md') [] \<noteq> [] \<and> str_or (rm_cwd md') [] \<noteq> [] then Some md'
                  else metadata_loop parse date_parse (Suc i) ls md')"

definition readRolloutMetadata ::
  "(string \<Rightarrow> json option) \<Rightarrow> (string \<Rightarrow> js_number option) \<Rightarrow> string \<Rightarrow> rollout_metadata option" where
  "readRolloutMetadata parse date_parse txt = metadata_loop parse date_parse 0 (nonempty_lines txt) no_metadata"

section \<open>The session index\<close>

definition parseIndexLine :: "(string \<Rightarrow> json option) \<Rightarrow> string \<Rightarrow> index_row option" where
  "parseIndexLine parse l =
     (case parse l of
        None \<Rightarrow> None
      | Some row \<Rightarrow>
          (case str_field row ''id'' of
             None \<Rightarrow> None
           | Some i \<Rightarrow> Some \<lparr>ix_id = i, ix_thread_name = str_field row ''thread_name'', ix_updated_at = str_field row ''updated_at''\<rparr>))"

text \<open>\<open>metadata\<close> is that of the rollout of the row, empty when there is none.\<close>

definition indexRowToThreadSummary ::
  "(string \<Rightarrow> js_number option) \<Rightarrow> js_number \<Rightarrow> index_row \<Rightarrow> rollout_metadata \<Rightarrow> thread_summary" where
  "indexRowToThreadSummary date_parse now row metadata =
     (let updated = the (num_or (date_parse (case ix_updated_at row of Some t \<Rightarrow> t | None \<Rightarrow> []))
                          (num_or (rm_updatedAtMs metadata) (Some now)))
      in \<lparr>t_id = ix_id row,
          t_title = str_or (ix_thread_name row) (str_or (rm_preview metadata) ''Untitled''),
          t_cwd = (case rm_cwd metadata of Some c \<Rightarrow> c | None \<Rightarrow> []),
          t_preview = (case rm_preview metadata of Some p \<Rightarrow> p | None \<Rightarrow> []),
          t_model = rm_model metadata,
          t_modelProvider = (case rm_modelProvider metadata of Some m \<Rightarrow> m | None \<Rightarrow> ''codex''),
          t_source = (case rm_source metadata of Some t \<Rightarrow> t | None \<Rightarrow> ''session_index''),
          t_status = ''notLoaded'',
          t_createdAtMs = the (num_or (rm_createdAtMs metadata) (Some updated)),
          t_updatedAtMs = updated, t_tokensUsed = 0, t_archived = False, t_gitBranch = None\<rparr>)"

text \<open>Newest first, ties by descending id.\<close>

definition thread_key :: "thread_summary \<Rightarrow> js_number \<times> string" where
  "thread_key t = (t_updatedAtMs t, t_id t)"

definition newest_first :: "thread_summary list \<Rightarrow> thread_summary list" where
  "newest_first ts = rev (sort_key thread_key (rev ts))"

text \<open>The filter, the order and the page of \<open>listThreadsFromIndex\<close>.\<close>

definition index_page ::
  "(string \<Rightarrow> js_number option) \<Rightarrow> js_number \<Rightarrow> string option \<Rightarrow> thread_summary list \<Rightarrow> thread_summary list \<times> string option" where
  "index_page js_Number limit cursor threads =
     (let n = safe_thread_limit limit;
          cursorMs = (case cursor of
              Some c \<Rightarrow> if c = [] then None else Some (case js_Number c of Some v \<Rightarrow> v | None \<Rightarrow> 0)
            | None \<Rightarrow> None);
          rows = newest_first (filter (\<lambda>t. case cursorMs of None \<Rightarrow> True | Some v \<Rightarrow> v = 0 \<or> t_updatedAtMs t < v) threads);
          page = take (n + 1) rows;
          data = take n page
      in (data, if length page > n
                then Some (case at_last data of Some t \<Rightarrow> num_str (t_updatedAtMs t) | None \<Rightarrow> [])
                else None))"

text \<open>\<open>rollout\<close> gives the text of the rollout of a thread id, when there is one.\<close>

fun summaries ::
  "(string \<Rightarrow> json option) \<Rightarrow> (string \<Rightarrow> js_number option) \<Rightarrow> js_number \<Rightarrow> (string \<Rightarrow> string option) \<Rightarrow>
   index_row list \<Rightarrow> thread_summary list option" where
  "summaries parse date_parse now rollout [] = Some []"
| "summaries parse date_parse now rollout (row # rows) =
     (case (case rollout (ix_id row) of None \<Rightarrow> Some no_metadata | Some txt \<Rightarrow> readRolloutMetadata parse date_parse txt) of
        None \<Rightarrow> None
      | Some md \<Rightarrow>
          map_option (\<lambda>ts. indexRowToThreadSummary date_parse now row md # ts)
            (summaries parse date_parse now rollout rows))"

definition listThreadsFromIndex ::
  "(string \<Rightarrow> json option) \<Rightarrow> (string \<Rightarrow> js_number option) \<Rightarrow> (string \<Rightarrow> js_number option) \<Rightarrow> js_number \<Rightarrow>
   (string \<Rightarrow> string option) \<Rightarrow> string option \<Rightarrow> js_number \<Rightarrow> string option \<Rightarrow>
   (thread_summary list \<times> string option) option" where
  "listThreadsFromIndex parse date_parse js_Number now rollout indexText limit cursor =
     (case indexText of
        None \<Rightarrow> None
      | Some txt \<Rightarrow>
          map_option (index_page js_Number limit cursor)
            (summaries parse date_parse now rollout
               (concat (map (\<lambda>l. case parseIndexLine parse l of Some r \<Rightarrow> [r] | None \<Rightarrow> []) (nonempty_lines txt)))))"

section \<open>The items of a rollout\<close>

text \<open>A value in a template literal, \<open>array.join(sep)\<close> and the parts of a message.\<close>

definition template :: "json option \<Rightarrow> string" where
  "template v = (case v of Some x \<Rightarrow> js_String x | None \<Rightarrow> ''undefined'')"

definition array_join :: "string \<Rightarrow> json list \<Rightarrow> string" where
  "array_join sep xs = join sep (map (\<lambda>x. if x = JNull then [] else js_String x) xs)"

definition part_text :: "json \<Rightarrow> json" where
  "part_text part =
     the (jcoalesce (jcoalesce (jget part ''text'') (jget part ''output_text'')) (Some (JStr [])))"

definition message_text :: "json option \<Rightarrow> string" where
  "message_text content =
     (case as_arr content of
        Some parts \<Rightarrow> array_join [CHR 0x0A] (filter (\<lambda>v. truthy (Some v)) (map part_text parts))
      | None \<Rightarrow> [])"

text \<open>The callback of \<open>readRolloutItems\<close> on a parsed line: the items it pushes.\<close>

definition rollout_item :: "nat \<Rightarrow> json \<Rightarrow> json list" where
  "rollout_item i entry =
     (let iid = (''id'', Some (JStr (js_String (the (jcoalesce (jget entry ''timestamp'') (Some (JNum (of_nat i))))) @ '':'' @ nat_str i)));
          payload = jget entry ''payload'';
          kind = as_str (jchain payload ''type'');
          entryType = as_str (jget entry ''type'')
      in if entryType = Some ''event_msg'' \<and> kind = Some ''user_message''
         then [JObj (jobj [iid, (''type'', Some (JStr ''userMessage'')),
                (''content'', Some (JArr [JObj [(''type'', JStr ''text''),
                   (''text'', the (jcoalesce (jchain payload ''message'') (Some (JStr []))))]]))])]
         else if entryType \<noteq> Some ''response_item'' \<or> \<not> truthy payload then []
         else if kind = Some ''message''
         then (let txt = message_text (jchain payload ''content'');
                   user = (as_str (jchain payload ''role'') = Some ''user'')
               in [JObj (jobj [iid, (''type'', Some (JStr (if user then ''userMessage'' else ''agentMessage''))),
                     (''text'', Some (JStr txt)),
                     (''content'', if user then Some (JArr [JObj [(''type'', JStr ''text''), (''text'', JStr txt)]]) else None)])])
         else if kind = Some ''function_call''
         then [JObj (jobj [iid, (''type'', Some (JStr ''commandExecution'')),
                (''command'', Some (JStr (template (jchain payload ''name'') @ '' ''
                   @ js_String (the (jcoalesce (jchain payload ''arguments'') (Some (JStr []))))))),
                (''status'', Some (JStr ''completed'')), (''aggregatedOutput'', Some JNull)])]
         else if kind = Some ''function_call_output''
         then [JObj (jobj [iid, (''type'', Some (JStr ''commandExecution'')),
                (''command'', Some (JStr (''output for '' @ js_String (the (jcoalesce (jchain payload ''call_id'') (Some (JStr ''call'')))))) ),
                (''status'', Some (JStr ''completed'')),
                (''aggregatedOutput'', case jchain payload ''output'' of
                     Some (JStr t) \<Rightarrow> Some (JStr t)
                   | v \<Rightarrow> map_option (JStr \<circ> stringify) v)])]
         else if kind = Some ''reasoning''
         then (let summary = (case as_arr (jchain payload ''summary'') of Some xs \<Rightarrow> array_join [CHR 0x0A] xs | None \<Rightarrow> [])
               in if summary \<noteq> []
                  then [JObj (jobj [iid, (''type'', Some (JStr ''reasoning'')), (''text'', Some (JStr summary))])]
                  else [])
         else [])"

text \<open>The literal \<open>null\<close> as a line or as a part of a message makes a property access throw.\<close>

definition item_throws :: "json \<Rightarrow> bool" where
  "item_throws entry =
     (entry = JNull \<or>
      as_str (jget entry ''type'') = Some ''response_item'' \<and> as_str (jchain (jget entry ''payload'') ''type'') = Some ''message'' \<and>
      (case as_arr (jchain (jget entry ''payload'') ''content'') of Some parts \<Rightarrow> JNull \<in> set parts | None \<Rightarrow> False))"

fun items_loop :: "(string \<Rightarrow> json option) \<Rightarrow> nat \<Rightarrow> string list \<Rightarrow> json list option" where
  "items_loop parse i [] = Some []"
| "items_loop parse i (l # ls) =
     (case parse l of
        None \<Rightarrow> items_loop parse (Suc i) ls
      | Some entry \<Rightarrow>
          if item_throws entry then None
          else map_option (\<lambda>xs. rollout_item i entry @ xs) (items_loop parse (Suc i) ls))"

definition readRolloutItems :: "(string \<Rightarrow> json option) \<Rightarrow> string \<Rightarrow> json list option" where
  "readRolloutItems parse txt = items_loop parse 0 (nonempty_lines txt)"

definition rollout_turn :: "string \<Rightarrow> json \<Rightarrow> json \<Rightarrow> json list \<Rightarrow> json" where
  "rollout_turn threadId t0 t1 items =
     JArr [JObj [(''id'', JStr (threadId @ '':rollout'')), (''status'', JStr ''completed''), (''error'', JNull),
       (''startedAt'', t0), (''completedAt'', t1), (''durationMs'', JNull), (''items'', JArr items)]]"

text \<open>\<open>rollout\<close> is the path found for the thread and the text of the file; \<open>None\<close> stands for the exceptions.\<close>

definition readThreadFallbackFromRollout ::
  "(string \<Rightarrow> json option) \<Rightarrow> (string \<Rightarrow> js_number option) \<Rightarrow> js_number \<Rightarrow> (string \<times> string) option \<Rightarrow> string \<Rightarrow> json option" where
  "readThreadFallbackFromRollout parse date_parse now rollout threadId =
     (case rollout of
        None \<Rightarrow> None
      | Some (rolloutPath, txt) \<Rightarrow>
          (case (readRolloutMetadata parse date_parse txt, readRolloutItems parse txt) of
             (Some md, Some items) \<Rightarrow>
               let created = JNum (of_int \<lfloor>(case rm_createdAtMs md of Some n \<Rightarrow> n | None \<Rightarrow> now) / 1000\<rfloor>);
                   updated = JNum (of_int \<lfloor>the (opt_or (rm_updatedAtMs md) (opt_or (rm_createdAtMs md) (Some now))) / 1000\<rfloor>)
               in Some (JObj [(''fallback'', JBool True), (''thread'', JObj [
                    (''id'', JStr threadId), (''name'', JStr (str_or (rm_preview md) ''Untitled'')),
                    (''preview'', JStr (case rm_preview md of Some p \<Rightarrow> p | None \<Rightarrow> [])), (''ephemeral'', JBool False),
                    (''modelProvider'', JStr (case rm_modelProvider md of Some m \<Rightarrow> m | None \<Rightarrow> ''codex'')),
                    (''createdAt'', created), (''updatedAt'', updated),
                    (''status'', JObj [(''type'', JStr ''notLoaded'')]), (''path'', JStr rolloutPath),
                    (''cwd'', JStr (case rm_cwd md of Some c \<Rightarrow> c | None \<Rightarrow> [])), (''cliVersion'', JNull),
                    (''source'', JStr (case rm_source md of Some t \<Rightarrow> t | None \<Rightarrow> ''rollout'')),
                    (''agentNickname'', JNull), (''agentRole'', JNull), (''gitInfo'', JNull),
                    (''turns'', rollout_turn threadId created updated items)])])
           | _ \<Rightarrow> None))"

text \<open>\<open>rows\<close> is the answer of the query, \<open>None\<close> when it fails; \<open>files\<close> gives the text of an existing file.\<close>

definition readThreadFallback ::
  "(string \<Rightarrow> json option) \<Rightarrow> (string \<Rightarrow> js_number option) \<Rightarrow> js_number \<Rightarrow> (string \<Rightarrow> string option) \<Rightarrow>
   (string \<Rightarrow> string option) \<Rightarrow> thread_row list option \<Rightarrow> string \<Rightarrow> json option" where
  "readThreadFallback parse date_parse now files found rows threadId =
     (let fromRollout = readThreadFallbackFromRollout parse date_parse now
            (case found threadId of Some p \<Rightarrow> map_option (\<lambda>txt. (p, txt)) (files p) | None \<Rightarrow> None) threadId
      in case rows of
           None \<Rightarrow> fromRollout
         | Some [] \<Rightarrow> fromRollout
         | Some (row # _) \<Rightarrow>
             let rolloutPath = str_or (Some (row_rollout_path row)) (case found (row_id row) of Some p \<Rightarrow> p | None \<Rightarrow> [])
             in map_option (\<lambda>items. JObj [(''fallback'', JBool True), (''thread'', JObj [
                  (''id'', JStr (row_id row)),
                  (''name'', JStr (str_or (Some (row_title row)) (str_or (Some (row_preview row)) ''Untitled''))),
                  (''preview'', JStr (row_preview row)), (''ephemeral'', JBool False),
                  (''modelProvider'', JStr (row_model_provider row)),
                  (''createdAt'', JNum (row_created_at row)), (''updatedAt'', JNum (row_updated_at row)),
                  (''status'', JObj [(''type'', JStr ''notLoaded'')]), (''path'', JStr rolloutPath),
                  (''cwd'', JStr (row_cwd row)), (''cliVersion'', JStr (row_cli_version row)), (''source'', JStr (row_source row)),
                  (''agentNickname'', JNull), (''agentRole'', JNull),
                  (''gitInfo'', case row_git_branch row of
                       Some g \<Rightarrow> if g = [] then JNull else JObj [(''branch'', JStr g)] | None \<Rightarrow> JNull),
                  (''turns'', rollout_turn (row_id row) (JNum (row_created_at row)) (JNum (row_updated_at row)) items)])])
                (if rolloutPath = [] then Some []
                 else (case files rolloutPath of Some txt \<Rightarrow> readRolloutItems parse txt | None \<Rightarrow> Some [])))"

end
