(* ===== verification/ThreadsProps.thy ===== *)
theory ThreadsProps
  imports Threads "HOL-Library.Multiset"
begin

text \<open>
  Properties of the Codex history: the search for a rollout is exhaustive and ends, thread ids cannot
  leave their SQL literal, and the pages of the session index.
\<close>

section \<open>Searching for a rollout\<close>

text \<open>The specification: the paths of all files below a directory whose names fit the thread.\<close>

fun fits :: "string \<Rightarrow> string \<Rightarrow> fs_entry \<Rightarrow> string list" where
  "fits threadId dir (FsFile name) =
     (if includes_str name threadId \<and> ends_with name ''.jsonl'' then [path_join [dir, name]] else [])"
| "fits threadId dir (FsDir name es) = concat (map (fits threadId (path_join [dir, name])) es)"

definition fits_stack :: "string \<Rightarrow> (string \<times> fs_entry list) list \<Rightarrow> string set" where
  "fits_stack threadId stack = (\<Union>(d, es)\<in>set stack. \<Union>e\<in>set es. set (fits threadId d e))"

lemma fits_stack_simps [simp]:
  "fits_stack threadId [] = {}"
  "fits_stack threadId ((d, es) # stack) = (\<Union>e\<in>set es. set (fits threadId d e)) \<union> fits_stack threadId stack"
  by (simp_all add: fits_stack_def)

lemma scan_rollout_correct:
  "case scan_rollout threadId dir es stack of
     Inl p \<Rightarrow> p \<in> fits_stack threadId ((dir, es) # stack)
   | Inr stack' \<Rightarrow> fits_stack threadId stack' = fits_stack threadId ((dir, es) # stack)"
proof (induction threadId dir es stack rule: scan_rollout.induct)
  case (2 threadId dir name es rest stack)
  have "fits_stack threadId ((dir, rest) # (path_join [dir, name], es) # stack)
      = fits_stack threadId ((dir, FsDir name es # rest) # stack)"
    by auto
  then show ?case using 2 by (simp split: sum.splits)
next
  case (3 threadId dir name rest stack)
  then show ?case by (auto split: sum.splits)
qed simp

lemma rollout_loop_correct:
  "case rollout_loop threadId stack of
     Some p \<Rightarrow> p \<in> fits_stack threadId stack
   | None \<Rightarrow> fits_stack threadId stack = {}"
proof (induction threadId stack rule: rollout_loop.induct)
  case (1 threadId)
  then show ?case by simp
next
  case (2 threadId dir es stack)
  then show ?case
    using scan_rollout_correct [of threadId dir es stack] by (auto split: sum.splits option.splits)
qed

text \<open>The search for the rollout file of a thread always ends, returns only a file below the sessions
  directory whose name contains the thread id and ends in \<open>.jsonl\<close>, and comes back empty-handed only
  when there is no such file anywhere below.\<close>

theorem findRolloutPath_exhaustive:
  "case findRolloutPath base (Some es) threadId of
     Some p \<Rightarrow> p \<in> (\<Union>e\<in>set es. set (fits threadId base e))
   | None \<Rightarrow> (\<Union>e\<in>set es. set (fits threadId base e)) = {}"
  using rollout_loop_correct [of threadId "[(base, es)]"]
  by (simp add: findRolloutPath_def split: option.splits)

section \<open>SQL literals\<close>

text \<open>How SQLite reads a string literal after its opening quote: the value and the rest of the text.\<close>

fun read_literal :: "string \<Rightarrow> (string \<times> string) option" where
  "read_literal [] = None"
| "read_literal (c # s) =
     (if c = CHR 0x27
      then (case s of
              d # s' \<Rightarrow> if d = CHR 0x27 then map_option (\<lambda>(v, r). (c # v, r)) (read_literal s') else Some ([], s)
            | [] \<Rightarrow> Some ([], []))
      else map_option (\<lambda>(v, r). (c # v, r)) (read_literal s))"

lemma read_escaped:
  assumes "rest = [] \<or> hd rest \<noteq> CHR 0x27"
  shows "read_literal (escapeSql v @ CHR 0x27 # rest) = Some (v, rest)"
proof (induction v)
  case Nil
  then show ?case using assms by (cases rest) (simp_all add: escapeSql_def)
next
  case (Cons c v)
  then show ?case by (simp add: escapeSql_def)
qed

text \<open>A thread id cannot break out of the query: whatever characters it has, SQLite reads the literal
  of the statement back as exactly that id, followed by the fixed end of the statement.\<close>

theorem thread_id_stays_in_its_literal:
  "\<exists>before after. thread_by_id_sql schema threadId = before @ CHR 0x27 # after
     \<and> before = ''select '' @ buildThreadSelect schema True @ [CHR 0x0A] @ replicate 9 (CHR '' '') @ ''from threads'' @ [CHR 0x0A]
         @ replicate 8 (CHR '' '') @ ''where id = ''
     \<and> read_literal after = Some (threadId, [CHR 0x0A] @ replicate 8 (CHR '' '') @ ''limit 1;'')"
proof (intro exI conjI)
  let ?after = "escapeSql threadId @ CHR 0x27 # [CHR 0x0A] @ replicate 8 (CHR '' '') @ ''limit 1;''"
  show "read_literal ?after = Some (threadId, [CHR 0x0A] @ replicate 8 (CHR '' '') @ ''limit 1;'')"
    by (rule read_escaped) simp
qed (simp_all add: thread_by_id_sql_def quote_def)

section \<open>Pages of the session index\<close>

lemma set_newest_first [simp]: "set (newest_first ts) = set ts"
  by (simp add: newest_first_def)

lemma filter_newest_first: "newest_first (filter P ts) = filter P (newest_first ts)"
  by (simp add: newest_first_def filter_sort flip: rev_filter)

text \<open>Strictly descending times, which is what distinct times give.\<close>

abbreviation descending :: "thread_summary list \<Rightarrow> bool" where
  "descending \<equiv> sorted_wrt (\<lambda>x y. t_updatedAtMs y < t_updatedAtMs x)"

lemma newest_first_descending:
  assumes "distinct (map t_updatedAtMs ts)" shows "descending (newest_first ts)"
proof -
  have "sorted_wrt (\<lambda>x y. thread_key y \<le> thread_key x) (newest_first ts)"
    unfolding newest_first_def sorted_wrt_rev
    using sorted_sort_key [of thread_key "rev ts"] by (simp add: sorted_map)
  moreover have "distinct (map t_updatedAtMs (newest_first ts))"
  proof -
    have "mset (map t_updatedAtMs (newest_first ts)) = mset (map t_updatedAtMs ts)"
      by (simp add: newest_first_def)
    then show ?thesis using assms mset_eq_imp_distinct_iff by blast
  qed
  moreover have "t_updatedAtMs y \<le> t_updatedAtMs x" if "thread_key y \<le> thread_key x" for x y
    using that by (auto simp: thread_key_def less_eq_prod_def)
  ultimately show ?thesis
    by (fastforce simp: sorted_wrt_iff_nth_less distinct_conv_nth order.strict_iff_order)
qed

lemma descending_after:
  assumes "descending (a @ x # s)" shows "filter (\<lambda>t. t_updatedAtMs t < t_updatedAtMs x) (a @ x # s) = s"
proof -
  have "filter (\<lambda>t. t_updatedAtMs t < t_updatedAtMs x) a = []"
    using assms by (fastforce simp: sorted_wrt_append filter_empty_conv)
  moreover have "filter (\<lambda>t. t_updatedAtMs t < t_updatedAtMs x) s = s"
    using assms by (simp add: sorted_wrt_append filter_id_conv)
  ultimately show ?thesis by simp
qed

lemma nat_str_nonempty: "nat_str n \<noteq> []"
  by (simp add: nat_str.simps [of n])

lemma num_str_nonempty: "num_str n \<noteq> []"
  by (simp add: num_str_def int_str_def nat_str_nonempty)

text \<open>Following the cursors from page to page, at most \<open>fuel\<close> pages.\<close>

fun index_pages ::
  "(string \<Rightarrow> js_number option) \<Rightarrow> js_number \<Rightarrow> nat \<Rightarrow> string option \<Rightarrow> thread_summary list \<Rightarrow> thread_summary list" where
  "index_pages js_Number limit 0 cursor threads = []"
| "index_pages js_Number limit (Suc fuel) cursor threads =
     (case index_page js_Number limit cursor threads of
        (data, None) \<Rightarrow> data
      | (data, Some next) \<Rightarrow> data @ index_pages js_Number limit fuel (Some next) threads)"

lemma safe_thread_limit_pos: "0 < safe_thread_limit limit"
  by (auto simp: safe_thread_limit_def)

text \<open>The rows that a cursor leaves.\<close>

definition rows_after :: "(string \<Rightarrow> js_number option) \<Rightarrow> string option \<Rightarrow> thread_summary list \<Rightarrow> thread_summary list" where
  "rows_after js_Number cursor ts =
     filter (\<lambda>t. case cursor of
         None \<Rightarrow> True
       | Some c \<Rightarrow> c = [] \<or> (case js_Number c of Some v \<Rightarrow> v = 0 \<or> t_updatedAtMs t < v | None \<Rightarrow> True)) (newest_first ts)"

lemma index_page_eq:
  "index_page js_Number limit cursor ts =
     (let n = safe_thread_limit limit; rows = rows_after js_Number cursor ts
      in (take n rows, if length rows > n then Some (num_str (t_updatedAtMs (last (take n rows)))) else None))"
proof -
  have rows: "newest_first (filter (\<lambda>t. case (case cursor of
              Some c \<Rightarrow> if c = [] then None else Some (case js_Number c of Some v \<Rightarrow> v | None \<Rightarrow> 0)
            | None \<Rightarrow> None) of None \<Rightarrow> True | Some v \<Rightarrow> v = 0 \<or> t_updatedAtMs t < v) ts) = rows_after js_Number cursor ts"
    unfolding filter_newest_first rows_after_def by (rule filter_cong) (auto split: option.splits)
  show ?thesis
    unfolding index_page_def Let_def rows using safe_thread_limit_pos [of limit]
    by (auto simp: at_last_def min_def)
qed

lemma index_pages_suffix:
  assumes "descending (newest_first ts)"
    and "\<And>t. t \<in> set ts \<Longrightarrow> js_Number (num_str (t_updatedAtMs t)) = Some (t_updatedAtMs t) \<and> t_updatedAtMs t \<noteq> 0"
  shows "length (rows_after js_Number cursor ts) < fuel \<Longrightarrow> newest_first ts = a @ rows_after js_Number cursor ts \<Longrightarrow>
    index_pages js_Number limit fuel cursor ts = rows_after js_Number cursor ts"
proof (induction fuel arbitrary: cursor a)
  case (Suc fuel)
  let ?n = "safe_thread_limit limit" and ?s = "rows_after js_Number cursor ts"
  show ?case
  proof (cases "length ?s > ?n")
    case False
    then show ?thesis by (simp add: index_page_eq Let_def)
  next
    case True
    let ?x = "last (take ?n ?s)"
    have ne: "take ?n ?s \<noteq> []" using True safe_thread_limit_pos [of limit] by auto
    then have split: "newest_first ts = (a @ butlast (take ?n ?s)) @ ?x # drop ?n ?s"
      using Suc.prems(2) by (metis append.assoc append_Cons append_Nil append_butlast_last_id append_take_drop_id)
    have "?x \<in> set ts" using split by (metis in_set_conv_decomp set_newest_first)
    note x = assms(2) [OF this]
    have older: "rows_after js_Number (Some (num_str (t_updatedAtMs ?x))) ts = drop ?n ?s"
      using descending_after [of "a @ butlast (take ?n ?s)" ?x "drop ?n ?s"] assms(1) x
      unfolding rows_after_def [of js_Number "Some (num_str (t_updatedAtMs ?x))"] split [symmetric]
      by (simp add: num_str_nonempty)
    have "length (drop ?n ?s) < fuel" using Suc.prems(1) True safe_thread_limit_pos [of limit] by auto
    then have "index_pages js_Number limit fuel (Some (num_str (t_updatedAtMs ?x))) ts = drop ?n ?s"
      using Suc.IH [of "Some (num_str (t_updatedAtMs ?x))" "a @ take ?n ?s"] Suc.prems safe_thread_limit_pos [of limit]
      unfolding older by (simp add: True)
    then show ?thesis using True by (simp add: index_page_eq Let_def)
  qed
qed simp

text \<open>A client that follows the cursors of the session index sees every thread once, newest first, as
  long as no two threads have the same time of their last update; \<open>Number\<close> is only required to read
  back what \<open>String\<close> wrote.\<close>

theorem index_pages_complete:
  assumes "distinct (map t_updatedAtMs ts)"
    and "\<And>t. t \<in> set ts \<Longrightarrow> js_Number (num_str (t_updatedAtMs t)) = Some (t_updatedAtMs t) \<and> t_updatedAtMs t \<noteq> 0"
  shows "index_pages js_Number limit (Suc (length ts)) None ts = newest_first ts"
proof -
  have all: "rows_after js_Number None ts = newest_first ts" by (simp add: rows_after_def)
  have "length (newest_first ts) = length ts" by (simp add: newest_first_def)
  then have "index_pages js_Number limit (Suc (length ts)) None ts = rows_after js_Number None ts"
    by (intro index_pages_suffix [where a = "[]"] newest_first_descending assms) (simp_all add: all)
  then show ?thesis by (simp only: all)
qed

definition sample_thread :: "string \<Rightarrow> js_number \<Rightarrow> thread_summary" where
  "sample_thread i ms = \<lparr>t_id = i, t_title = [], t_cwd = [], t_preview = [], t_model = None, t_modelProvider = ''codex'',
     t_source = [], t_status = ''notLoaded'', t_createdAtMs = ms, t_updatedAtMs = ms, t_tokensUsed = 0, t_archived = False,
     t_gitBranch = None\<rparr>"

definition sample_Number :: "string \<Rightarrow> js_number option" where
  "sample_Number s = (if s = ''5'' then Some 5 else if s = ''7'' then Some 7 else None)"

lemma index_pages_complete_witness:
  "index_pages sample_Number 1 (Suc (length [sample_thread ''a'' 5, sample_thread ''b'' 7])) None
     [sample_thread ''a'' 5, sample_thread ''b'' 7] = newest_first [sample_thread ''a'' 5, sample_thread ''b'' 7]"
proof (rule index_pages_complete)
  have "num_str 5 = ''5''" "num_str 7 = ''7''" by code_simp+
  then show "sample_Number (num_str (t_updatedAtMs t)) = Some (t_updatedAtMs t) \<and> t_updatedAtMs t \<noteq> 0"
    if "t \<in> set [sample_thread ''a'' 5, sample_thread ''b'' 7]" for t
    using that by (auto simp: sample_thread_def sample_Number_def)
qed (simp add: sample_thread_def)

text \<open>Without that proviso a thread can be missed: two threads with the same time of their last update
  on either side of a page boundary, and the second is on no page, because the cursor excludes
  everything that is not strictly older.\<close>

theorem index_pages_lose_ties:
  "index_pages sample_Number 1 9 None [sample_thread ''a'' 5, sample_thread ''b'' 5] = [sample_thread ''b'' 5]"
  by code_simp

end
