(* ===== verification/GatewayEvents.thy ===== *)
theory GatewayEvents
  imports Bridge Threads
begin

text \<open>
  The conversions of the gateway (\<open>index.ts\<close>): between the events and answers of Codex, threads,
  sessions and the messages for the clients. They are functions without effects, but for
  \<open>normalizeCodexEvent\<close>, which maintains the map \<open>subagentParents\<close>.

  \<open>Date.parse\<close> and \<open>Number\<close> are arguments; the clock is an argument \<open>now\<close> in milliseconds, and one
  evaluation of a function reads it once.
\<close>

section \<open>Reading answers of Codex\<close>

definition extractThreadId :: "json option \<Rightarrow> string option" where
  "extractThreadId response =
     (case response of
        None \<Rightarrow> None
      | Some r \<Rightarrow>
          (case as_str (jchain (jget r ''thread'') ''id'') of
             Some i \<Rightarrow> Some i
           | None \<Rightarrow> opt_or (str_field r ''threadId'') (str_field r ''id'')))"

definition extractTurnId :: "json option \<Rightarrow> string option" where
  "extractTurnId response =
     (case response of
        None \<Rightarrow> None
      | Some r \<Rightarrow> opt_or (as_str (jchain (jget r ''turn'') ''id'')) (str_field r ''turnId''))"

definition objectTypeField :: "json option \<Rightarrow> string option" where
  "objectTypeField v = as_str (jcoalesce (jchain v ''type'') (jchain v ''status''))"

definition mapThreadStatus :: "string \<Rightarrow> session_status" where
  "mapThreadStatus s =
     (if s \<in> {''running'', ''inProgress'', ''active''} then Running
      else if s \<in> {''failed'', ''systemError''} then Failed
      else if s \<in> {''interrupted'', ''cancelled''} then Cancelled
      else Completed)"

definition normalizeThreadStatus :: "json option \<Rightarrow> session_status" where
  "normalizeThreadStatus v =
     (case as_str v of
        Some s \<Rightarrow> mapThreadStatus s
      | None \<Rightarrow> (case objectTypeField v of Some s \<Rightarrow> mapThreadStatus s | None \<Rightarrow> Running))"

definition turn_is_active :: "json \<Rightarrow> bool" where
  "turn_is_active turn =
     ((case opt_or (str_field turn ''status'') (objectTypeField (jget turn ''status'')) of
         Some s \<Rightarrow> s \<in> {''running'', ''inProgress'', ''active'', ''starting''}
       | None \<Rightarrow> False))"

text \<open>The last turn of the thread that is active.\<close>

definition findActiveTurnId :: "json option \<Rightarrow> string option" where
  "findActiveTurnId detail =
     (let turns = (case as_arr (jchain (jchain detail ''thread'') ''turns'') of Some ts \<Rightarrow> ts | None \<Rightarrow> [])
      in case filter (\<lambda>t. str_field t ''id'' \<noteq> None \<and> turn_is_active t) (rev turns) of
           t # _ \<Rightarrow> str_field t ''id''
         | [] \<Rightarrow> None)"

definition inferFinishedStatus :: "gateway_message \<Rightarrow> session_status" where
  "inferFinishedStatus message =
     (let s = (case as_str (jchain (map_of (m_payload message) ''turn'') ''status'') of Some t \<Rightarrow> t | None \<Rightarrow> [])
      in if s \<in> {''failed'', ''error''} then Failed
         else if s \<in> {''cancelled'', ''interrupted''} then Cancelled
         else Completed)"

text \<open>The error of a steering request: its code or its text, without regard to case.\<close>

definition isActiveTurnNotSteerableError :: "js_error \<Rightarrow> bool" where
  "isActiveTurnNotSteerableError e =
     (err_code e = Some ''activeTurnNotSteerable''
      \<or> includes_str (toLowerCase (err_message e)) ''activeturnnotsteerable''
      \<or> includes_str (toLowerCase (err_message e)) ''not steerable'')"

text \<open>\<open>sqlite3.*ENOENT\<close> on one line.\<close>

fun includes_then :: "string \<Rightarrow> string \<Rightarrow> string \<Rightarrow> bool" where
  "includes_then [] p q = False"
| "includes_then (c # s) p q =
     (starts_with (c # s) p \<and> includes_str (takeWhile (\<lambda>x. x \<noteq> CHR 0x0A) (drop (length p) (c # s))) q \<or> includes_then s p q)"

definition isSqliteFallbackError :: "js_error \<Rightarrow> bool" where
  "isSqliteFallbackError e =
     (let t = toLowerCase (err_message e)
      in includes_then t ''sqlite3'' ''enoent''
         \<or> list_ex (includes_str t)
             [''spawn sqlite3 enoent'', ''not found'', ''unable to open database'', ''database is locked'', ''no such table'',
              ''no such column'', ''parse error''])"

section \<open>Thread lists of Codex\<close>

definition numberField :: "json \<Rightarrow> string \<Rightarrow> js_number option" where
  "numberField v k = as_num (jget v k)"

definition numberOrDateMs ::
  "(string \<Rightarrow> js_number option) \<Rightarrow> (string \<Rightarrow> js_number option) \<Rightarrow> json option \<Rightarrow> js_number option" where
  "numberOrDateMs js_Number date_parse v =
     (let ms = (\<lambda>n. if n > 10000000000 then n else n * 1000)
      in case v of
           Some (JNum n) \<Rightarrow> Some (ms n)
         | Some (JStr s) \<Rightarrow> (case js_Number s of Some n \<Rightarrow> Some (ms n) | None \<Rightarrow> date_parse s)
         | _ \<Rightarrow> None)"

definition first_of :: "json \<Rightarrow> string list \<Rightarrow> json option" where
  "first_of v ks = fold (\<lambda>k acc. jcoalesce acc (jget v k)) ks None"

definition first_str :: "json \<Rightarrow> string list \<Rightarrow> string option" where
  "first_str v ks = fold (\<lambda>k acc. opt_or acc (str_field v k)) ks None"

definition mapCodexThreadSummary ::
  "(string \<Rightarrow> js_number option) \<Rightarrow> (string \<Rightarrow> js_number option) \<Rightarrow> js_number \<Rightarrow> json \<Rightarrow> thread_summary option" where
  "mapCodexThreadSummary js_Number date_parse now raw =
     (if \<not> is_object raw then None
      else case first_str raw [''id'', ''threadId''] of
          None \<Rightarrow> None
        | Some i \<Rightarrow>
            if i = [] then None
            else
              let created = the (opt_or (numberOrDateMs js_Number date_parse
                     (first_of raw [''createdAtMs'', ''created_at_ms'', ''createdAt'', ''created_at''])) (Some now));
                  updated = the (opt_or (numberOrDateMs js_Number date_parse
                     (first_of raw [''updatedAtMs'', ''updated_at_ms'', ''updatedAt'', ''updated_at''])) (Some created))
              in Some \<lparr>t_id = i,
                   t_title = the (opt_or (first_str raw [''title'', ''name'', ''preview'']) (Some ''Untitled'')),
                   t_cwd = the (opt_or (first_str raw [''cwd'', ''workspacePath'']) (Some [])),
                   t_preview = the (opt_or (first_str raw [''preview'', ''lastMessage'']) (Some [])),
                   t_model = str_field raw ''model'',
                   t_modelProvider = the (opt_or (first_str raw [''modelProvider'', ''model_provider'']) (Some ''codex'')),
                   t_source = the (opt_or (str_field raw ''source'') (Some ''codex-app-server'')),
                   t_status = the (opt_or (opt_or (str_field raw ''status'') (objectTypeField (jget raw ''status''))) (Some ''notLoaded'')),
                   t_createdAtMs = created, t_updatedAtMs = updated,
                   t_tokensUsed = the (opt_or (opt_or (numberField raw ''tokensUsed'') (numberField raw ''tokens_used'')) (Some 0)),
                   t_archived = truthy (jget raw ''archived''),
                   t_gitBranch = first_str raw [''gitBranch'', ''git_branch'']\<rparr>)"

definition mapCodexThreadList ::
  "(string \<Rightarrow> js_number option) \<Rightarrow> (string \<Rightarrow> js_number option) \<Rightarrow> js_number \<Rightarrow> json \<Rightarrow> thread_summary list \<times> string option" where
  "mapCodexThreadList js_Number date_parse now response =
     (let raw = the (opt_or (opt_or (as_arr (jget response ''data'')) (as_arr (jget response ''threads''))) (Some []))
      in (concat (map (\<lambda>t. case mapCodexThreadSummary js_Number date_parse now t of Some x \<Rightarrow> [x] | None \<Rightarrow> []) raw),
          first_str response [''nextCursor'', ''cursor'']))"

section \<open>Sessions and threads\<close>

text \<open>\<open>new Date(ms).toISOString()\<close> of a number: fractions of a millisecond are cut off.\<close>

definition date_iso :: "js_number \<Rightarrow> string" where
  "date_iso ms = toISOString (if ms < 0 then \<lceil>ms\<rceil> else \<lfloor>ms\<rfloor>)"

definition codex_session_title :: string where
  "codex_session_title = ''Codex '' @ map char_of [228, 188, 154, 232, 175, 157 :: nat]"

definition bare_session :: "string \<Rightarrow> gateway_session" where
  "bare_session i =
     \<lparr>s_id = i, provider = ''codex'', providerSessionId = i, title = [], workspacePath = [], status = Completed,
      sessionPolicyMode = Confirm, activeTurnId = Missing, canResume = True, resumeStatus = Resumable, s_command = [],
      s_args = [], s_prompt = [], modelLabel = Missing, modelProvider = Missing, createdAt = [], lastUpdatedAt = [],
      startedAt = Missing, finishedAt = Missing, lastTurnStartedAt = Missing, lastTurnFinishedAt = Missing,
      lastClientRequestId = Missing, recentClientRequestIds = Missing, exitCode = Missing, parentSessionId = Missing,
      childSessionIds = Missing, threadSource = Missing, agentNickname = Missing, agentRole = Missing, agentPath = Missing\<rparr>"

definition threadToSession :: "string \<Rightarrow> thread_summary \<Rightarrow> session_status option \<Rightarrow> gateway_session" where
  "threadToSession codexBin thread overrideStatus =
     (let st = (case overrideStatus of Some x \<Rightarrow> x | None \<Rightarrow> mapThreadStatus (t_status thread));
          created = date_iso (t_createdAtMs thread);
          updated = date_iso (t_updatedAtMs thread)
      in (bare_session (t_id thread))\<lparr>
           title := t_title thread, workspacePath := t_cwd thread, status := st,
           s_command := codexBin @ '' app-server'', s_args := [''thread/import'', ''history/replay''],
           s_prompt := t_preview thread, modelLabel := prop_of (t_model thread), modelProvider := Val (t_modelProvider thread),
           createdAt := created, lastUpdatedAt := updated, startedAt := Val created,
           finishedAt := (if st = Completed then Val updated else Undef),
           lastTurnFinishedAt := (if st = Completed then Val updated else Undef)\<rparr>)"

definition minimalSession :: "string \<Rightarrow> string \<Rightarrow> js_number \<Rightarrow> string \<Rightarrow> string \<Rightarrow> session_status \<Rightarrow> gateway_session" where
  "minimalSession codexBin cwd now i prompt st =
     (bare_session i)\<lparr>
       title := (if take 32 prompt = [] then codex_session_title else take 32 prompt), workspacePath := cwd, status := st,
       s_command := codexBin @ '' app-server'', s_args := [''thread/start'', ''turn/start''], s_prompt := prompt,
       createdAt := date_iso now, lastUpdatedAt := date_iso now, startedAt := Val (date_iso now)\<rparr>"

text \<open>\<open>Date.parse(t) || fallback\<close>.\<close>

definition parse_or :: "(string \<Rightarrow> js_number option) \<Rightarrow> string \<Rightarrow> js_number \<Rightarrow> js_number" where
  "parse_or date_parse t fallback = the (num_or (date_parse t) (Some fallback))"

definition sessionToThreadSummary :: "(string \<Rightarrow> js_number option) \<Rightarrow> js_number \<Rightarrow> gateway_session \<Rightarrow> thread_summary" where
  "sessionToThreadSummary date_parse now s =
     \<lparr>t_id = s_id s, t_title = title s, t_cwd = workspacePath s, t_preview = s_prompt s,
      t_model = prop_get (modelLabel s),
      t_modelProvider = (case prop_get (modelProvider s) of Some m \<Rightarrow> m | None \<Rightarrow> ''codex''),
      t_source = ''gateway'', t_status = status_str (status s),
      t_createdAtMs = parse_or date_parse (createdAt s) now, t_updatedAtMs = parse_or date_parse (lastUpdatedAt s) now,
      t_tokensUsed = 0, t_archived = False, t_gitBranch = None\<rparr>"

definition latestIso :: "string option \<Rightarrow> string \<Rightarrow> string" where
  "latestIso left right =
     (case left of None \<Rightarrow> right | Some l \<Rightarrow> if l = [] then right else if l > right then l else right)"

section \<open>Compaction\<close>

function compactUnknown :: "json \<Rightarrow> json" where
  "compactUnknown (JStr s) = JStr (if length s > 2000 then take 2000 s @ ''...'' else s)"
| "compactUnknown (JArr xs) = JArr (map compactUnknown (take 20 xs))"
| "compactUnknown (JObj fs) = JObj (map (\<lambda>(k, v). (k, compactUnknown v)) (take 40 fs))"
| "compactUnknown JNull = JNull"
| "compactUnknown (JBool b) = JBool b"
| "compactUnknown (JNum n) = JNum n"
  by pat_completeness auto
termination
proof (relation "measure size")
  fix xs :: "json list" and x
  assume "x \<in> set (take 20 xs)"
  then have "x \<in> set xs" by (rule in_set_takeD)
  then show "(x, JArr xs) \<in> measure size" by (induction xs) auto
next
  fix fs :: "(string \<times> json) list" and p k v
  assume "p \<in> set (take 40 fs)" "(k, v) = p"
  then have "(k, v) \<in> set fs" by (auto dest: in_set_takeD)
  then show "(v, JObj fs) \<in> measure size" by (induction fs) auto
qed simp

definition compactEventParams :: "(string \<times> json) list \<Rightarrow> (string \<times> json) list" where
  "compactEventParams fs = map (\<lambda>(k, v). (k, compactUnknown v)) (take 40 fs)"

section \<open>Events of Codex\<close>

definition gateway_msg :: "string \<Rightarrow> string \<Rightarrow> string option \<Rightarrow> string \<Rightarrow> (string \<times> json option) list \<Rightarrow> gateway_message" where
  "gateway_msg ty sid rid ts payload =
     \<lparr>m_type = ty, m_requestId = rid, m_sessionId = Some sid, m_timestamp = ts, m_payload = jobj payload, m_eventSeq = None\<rparr>"

text \<open>\<open>record.params\<close> when it is an object, else an empty one.\<close>

definition nested_params :: "json \<Rightarrow> json" where
  "nested_params record = (case jget record ''params'' of Some p \<Rightarrow> if is_object p then p else JObj [] | None \<Rightarrow> JObj [])"

definition auto_approved_note :: string where
  "auto_approved_note = map char_of [232, 135, 170, 229, 138, 168, 230, 142, 136, 230, 157, 131 :: nat]"

definition auto_approval :: "js_number \<Rightarrow> json \<Rightarrow> json \<Rightarrow> string \<Rightarrow> json" where
  "auto_approval now r nested tid =
     (let ts = JStr (date_iso now);
          requestMethod = JStr (the (opt_or (str_field r ''requestMethod'') (Some ''approval'')))
      in JObj (jobj [
           (''id'', Some (JStr (js_String (the (jcoalesce (jget r ''backendRequestId'') (Some (JStr (num_str now)))))))),
           (''sessionId'', Some (JStr tid)), (''threadId'', Some (JStr tid)),
           (''turnId'', map_option JStr (str_field nested ''turnId'')),
           (''itemId'', map_option JStr (str_field nested ''itemId'')),
           (''backendRequestId'', jget r ''backendRequestId''),
           (''status'', Some (JStr ''approved'')), (''summary'', Some requestMethod),
           (''reason'', Some (JStr (js_String (the (jcoalesce (jcoalesce (jget nested ''reason'') (jget nested ''message''))
              (Some (JStr auto_approved_note))))))),
           (''source'', Some (JStr ''event'')), (''requestMethod'', Some requestMethod),
           (''command'', map_option JStr (str_field nested ''command'')),
           (''cwd'', map_option JStr (str_field nested ''cwd'')),
           (''rawEvent'', Some (JStr (stringify (compactUnknown nested)))),
           (''autoApproved'', Some (JBool True)), (''createdAt'', Some ts), (''resolvedAt'', Some ts),
           (''decisionNote'', Some (JStr ''auto-approved-by-remote-gateway''))]))"

definition normalize_server_request :: "js_number \<Rightarrow> json \<Rightarrow> gateway_message option" where
  "normalize_server_request now r =
     (case str_field (nested_params r) ''threadId'' of
        None \<Rightarrow> None
      | Some tid \<Rightarrow>
          if tid = [] then None
          else Some (gateway_msg ''approval-resolved'' tid None (date_iso now)
                 [(''sessionId'', Some (JStr tid)), (''approval'', Some (auto_approval now r (nested_params r) tid)),
                  (''decision'', Some (JStr ''approved''))]))"

definition approval_payload :: "json \<Rightarrow> json \<Rightarrow> string \<Rightarrow> (string \<times> json option) list" where
  "approval_payload r nested tid =
     (let either = (\<lambda>k. (k, jcoalesce (jget r k) (jget nested k)))
      in [(''sessionId'', Some (JStr tid)), (''requestId'', jget r ''requestId''), either ''requestMethod'',
          (''turnId'', map_option JStr (opt_or (str_field r ''turnId'') (str_field nested ''turnId''))),
          either ''itemId'', either ''summary'', either ''command'', either ''cwd'',
          either ''proposedExecpolicyAmendment'', either ''expiresAt'',
          (''params'', jget r ''params''), (''status'', Some (JStr ''pending''))])"

definition normalize_approval_requested :: "js_number \<Rightarrow> json \<Rightarrow> gateway_message option" where
  "normalize_approval_requested now r =
     (case str_field r ''threadId'' of
        None \<Rightarrow> None
      | Some tid \<Rightarrow>
          if tid = [] then None
          else Some (gateway_msg ''approval-requested'' tid (str_field r ''requestId'') (date_iso now)
                 (approval_payload r (nested_params r) tid)))"

definition normalize_approval_expired :: "js_number \<Rightarrow> json \<Rightarrow> gateway_message option" where
  "normalize_approval_expired now r =
     (case (str_field r ''threadId'', str_field r ''requestId'') of
        (Some tid, Some rid) \<Rightarrow>
          if tid = [] \<or> rid = [] then None
          else Some (gateway_msg ''approval-expired'' tid (Some rid) (date_iso now)
                 [(''sessionId'', Some (JStr tid)), (''requestId'', Some (JStr rid)), (''requestMethod'', jget r ''requestMethod'')])
      | _ \<Rightarrow> None)"

text \<open>The fields of the parameters, for \<open>Object.entries\<close>.\<close>

definition entries_of :: "json \<Rightarrow> (string \<times> json) list" where
  "entries_of v = (case v of JObj fs \<Rightarrow> fs | JArr xs \<Rightarrow> zip (map nat_str [0..<length xs]) xs | _ \<Rightarrow> [])"

definition is_final :: "session_status \<Rightarrow> bool" where
  "is_final st = (st = Completed \<or> st = Failed \<or> st = Cancelled)"

definition normalize_status_changed ::
  "js_number \<Rightarrow> store \<Rightarrow> string \<Rightarrow> json \<Rightarrow> (string, string) js_map \<Rightarrow> gateway_message \<times> (string, string) js_map" where
  "normalize_status_changed now st tid r parents =
     (let s = normalizeThreadStatus (jget r ''status'');
          parent = opt_or (map_of parents tid) (getSubagentParent st tid);
          js = Some (JStr (status_str s));
          own = (gateway_msg (if is_final s then ''session-finished'' else ''session-status'') tid None (date_iso now)
                   [(''threadId'', Some (JStr tid)), (''status'', js), (''turn'', Some (JObj (jobj [(''status'', js)])))], parents)
      in case parent of
           Some p \<Rightarrow>
             if p \<noteq> [] \<and> is_final s
             then (gateway_msg ''subagent-finished'' p None (date_iso now)
                     [(''threadId'', Some (JStr p)), (''childThreadId'', Some (JStr tid)), (''status'', js)],
                   AList.delete tid parents)
             else own
         | None \<Rightarrow> own)"

definition normalize_subagent_item ::
  "js_number \<Rightarrow> string \<Rightarrow> string option \<Rightarrow> json \<Rightarrow> (string, string) js_map \<Rightarrow> (gateway_message \<times> (string, string) js_map) option" where
  "normalize_subagent_item now tid turnId item parents =
     (let base = [(''threadId'', Some (JStr tid)), (''turnId'', map_option JStr turnId)]
      in if str_field item ''type'' = Some ''subAgentActivity''
         then let kind = str_field item ''kind'';
                  parents' = (case str_field item ''agentThreadId'' of
                      Some a \<Rightarrow> if kind = Some ''started'' then AList.update a tid parents else parents
                    | None \<Rightarrow> parents)
              in Some (gateway_msg (if kind \<in> {Some ''completed'', Some ''stopped'', Some ''failed''} then ''subagent-finished'' else ''subagent-started'')
                         tid None (date_iso now) (base @ [(''activity'', Some (compactUnknown item))]), parents')
         else if str_field item ''type'' = Some ''collabAgentToolCall''
         then Some (gateway_msg ''subagent-tool'' tid None (date_iso now) (base @ [(''toolCall'', Some (compactUnknown item))]), parents)
         else None)"

definition normalize_output ::
  "js_number \<Rightarrow> string \<Rightarrow> string \<Rightarrow> string option \<Rightarrow> json \<Rightarrow> gateway_message option" where
  "normalize_output now rpc tid turnId r =
     (let base = [(''threadId'', Some (JStr tid)), (''turnId'', map_option JStr turnId)];
          compact = JObj (compactEventParams (entries_of r))
      in if rpc = ''item/agentMessage/delta'' \<or> rpc = ''item/commandExecution/outputDelta''
         then Some (gateway_msg ''session-output'' tid None (date_iso now)
                (base @ [(''stream'', Some (JStr (if rpc = ''item/agentMessage/delta'' then ''event'' else ''stdout''))),
                         (''eventType'', Some (JStr rpc)), (''itemId'', map_option JStr (str_field r ''itemId'')),
                         (''chunk'', Some (JStr (the (opt_or (str_field r ''delta'') (Some []))))), (''jsonPayload'', Some compact)]))
         else if rpc = ''item/completed'' \<or> rpc = ''turn/diff/updated'' \<or> rpc = ''thread/tokenUsage/updated''
         then Some (gateway_msg ''session-output'' tid None (date_iso now)
                (base @ [(''stream'', Some (JStr ''event'')), (''eventType'', Some (JStr rpc)),
                         (''chunk'', Some (JStr (stringify compact))), (''jsonPayload'', Some compact)]))
         else None)"

definition normalizeCodexEvent ::
  "js_number \<Rightarrow> store \<Rightarrow> string \<Rightarrow> json option \<Rightarrow> (string, string) js_map \<Rightarrow> gateway_message option \<times> (string, string) js_map" where
  "normalizeCodexEvent now st rpc params parents =
     (case params of
        None \<Rightarrow> (None, parents)
      | Some r \<Rightarrow>
          if \<not> is_object r then (None, parents)
          else if rpc = ''gateway/codex/serverRequest'' then (normalize_server_request now r, parents)
          else if rpc = ''gateway/codex/approvalRequested'' then (normalize_approval_requested now r, parents)
          else if rpc = ''gateway/codex/approvalExpired'' then (normalize_approval_expired now r, parents)
          else
            (case str_field r ''threadId'' of
               None \<Rightarrow> (None, parents)
             | Some tid \<Rightarrow>
                 if tid = [] then (None, parents)
                 else
                   let turnId = str_field r ''turnId'';
                       sub = (case jget r ''item'' of
                                Some item \<Rightarrow>
                                  if rpc = ''item/completed'' \<and> is_object item
                                  then normalize_subagent_item now tid turnId item parents else None
                              | None \<Rightarrow> None)
                   in (case sub of
                         Some (msg, parents') \<Rightarrow> (Some msg, parents')
                       | None \<Rightarrow>
                           if rpc = ''thread/status/changed''
                           then (let (msg, parents') = normalize_status_changed now st tid r parents in (Some msg, parents'))
                           else if rpc = ''turn/completed''
                           then (Some (gateway_msg ''session-finished'' tid None (date_iso now)
                                   [(''threadId'', Some (JStr tid)), (''turn'', jget r ''turn'')]), parents)
                           else (normalize_output now rpc tid turnId r, parents))))"

section \<open>Timelines\<close>

definition gatewayEventToTimelineItem :: "gateway_message \<Rightarrow> (string \<times> string \<times> string \<times> gateway_message)" where
  "gatewayEventToTimelineItem m =
     (let p = JObj (m_payload m);
          ty = the (opt_or (str_field p ''eventType'') (Some (m_type m)));
          txt = the (opt_or (opt_or (str_field p ''chunk'') (str_field p ''prompt'')) (Some (stringify p)))
      in (m_timestamp m @ '':'' @ ty, ty, txt, m))"

definition timelineItemText :: "json \<Rightarrow> string" where
  "timelineItemText r =
     (case str_field r ''text'' of
        Some t \<Rightarrow> t
      | None \<Rightarrow>
          (case as_arr (jget r ''content'') of
             Some parts \<Rightarrow>
               join [CHR 0x0A] (filter (\<lambda>t. t \<noteq> [])
                 (map (\<lambda>part. case jget part ''text'' of
                        Some v \<Rightarrow> (if v = JNull then [] else js_String v) | None \<Rightarrow> []) parts))
           | None \<Rightarrow> the (opt_or (opt_or (str_field r ''command'') (str_field r ''aggregatedOutput'')) (Some []))))"

text \<open>The items of all turns, numbered from 1. A turn without items contributes none.\<close>

definition detail_items :: "json \<Rightarrow> json list" where
  "detail_items detail =
     concat (map (\<lambda>turn. case as_arr (jget turn ''items'') of Some xs \<Rightarrow> xs | None \<Rightarrow> [])
       (case as_arr (jchain (jget detail ''thread'') ''turns'') of Some ts \<Rightarrow> ts | None \<Rightarrow> []))"

definition threadDetailToGatewayEvents :: "js_number \<Rightarrow> json \<Rightarrow> gateway_message list" where
  "threadDetailToGatewayEvents now detail =
     (let sid = (case as_str (jchain (jget detail ''thread'') ''id'') of Some i \<Rightarrow> i | None \<Rightarrow> [])
      in map (\<lambda>(i, item).
           \<lparr>m_type = ''session-output'', m_requestId = None, m_sessionId = Some sid, m_timestamp = date_iso now,
            m_payload = jobj [(''sessionId'', Some (JStr sid)),
              (''stream'', Some (JStr (if str_field item ''type'' = Some ''commandExecution'' then ''stdout'' else ''event''))),
              (''chunk'', Some (JStr (timelineItemText item))), (''format'', Some (JStr ''jsonl'')),
              (''eventType'', jget item ''type''), (''jsonPayload'', Some (compactUnknown item))],
            m_eventSeq = Some (of_nat (Suc i))\<rparr>)
         (zip [0..<length (detail_items detail)] (detail_items detail)))"

text \<open>The page of such a timeline that \<open>GET /sessions/:id/events\<close> serves.\<close>

definition detail_page ::
  "js_number \<Rightarrow> nat \<Rightarrow> gateway_message list \<Rightarrow> gateway_message list \<times> js_number \<times> bool" where
  "detail_page after limit events =
     (let pending = filter (\<lambda>m. (case m_eventSeq m of Some n \<Rightarrow> n | None \<Rightarrow> 0) > after) events;
          page = take limit pending
      in (page,
          (case at_last page of Some m \<Rightarrow> (case m_eventSeq m of Some n \<Rightarrow> n | None \<Rightarrow> after) | None \<Rightarrow> after),
          length page < length pending))"

definition gatewaySessionToThreadDetail :: "(string \<Rightarrow> js_number option) \<Rightarrow> js_number \<Rightarrow> gateway_session \<Rightarrow> gateway_message list \<Rightarrow> json" where
  "gatewaySessionToThreadDetail date_parse now s events =
     (let created = JNum (of_int \<lfloor>parse_or date_parse (createdAt s) now / 1000\<rfloor>);
          updated = JNum (of_int \<lfloor>parse_or date_parse (lastUpdatedAt s) now / 1000\<rfloor>);
          raw = (\<lambda>m. JObj (jobj [(''type'', Some (JStr (m_type m))), (''requestId'', map_option JStr (m_requestId m)),
                   (''sessionId'', map_option JStr (m_sessionId m)), (''timestamp'', Some (JStr (m_timestamp m))),
                   (''payload'', Some (JObj (m_payload m))), (''eventSeq'', map_option JNum (m_eventSeq m))]));
          item = (\<lambda>m. case gatewayEventToTimelineItem m of (i, ty, txt, msg) \<Rightarrow>
                   JObj [(''id'', JStr i), (''type'', JStr ty), (''text'', JStr txt), (''raw'', raw msg)])
      in JObj [(''fallback'', JBool True), (''degraded'', JBool True), (''thread'', JObj [
           (''id'', JStr (s_id s)), (''name'', JStr (str_or (Some (title s)) (str_or (Some (s_prompt s)) codex_session_title))),
           (''preview'', JStr (s_prompt s)), (''ephemeral'', JBool False),
           (''modelProvider'', JStr (case prop_get (modelProvider s) of Some m \<Rightarrow> m | None \<Rightarrow> ''codex'')),
           (''createdAt'', created), (''updatedAt'', updated), (''status'', JObj [(''type'', JStr (status_str (status s)))]),
           (''path'', JStr []), (''cwd'', JStr (workspacePath s)), (''cliVersion'', JNull), (''source'', JStr ''gateway''),
           (''agentNickname'', JNull), (''agentRole'', JNull), (''gitInfo'', JNull),
           (''turns'', JArr [JObj [(''id'', JStr (s_id s @ '':gateway'')), (''status'', JStr (status_str (status s))),
              (''error'', JNull), (''startedAt'', created), (''completedAt'', updated), (''durationMs'', JNull),
              (''items'', JArr (map item events))]])])])"

end
