(* ===== verification/EventProps.thy ===== *)
theory EventProps
  imports GatewayEvents
begin

text \<open>
  Properties of the conversions: compaction, the session an event of Codex is attributed to, and the
  status a session ends with.
\<close>

section \<open>Compaction\<close>

text \<open>Within the limits at every level: strings of at most 2,003 characters, arrays of at most 20 and
  objects of at most 40 entries.\<close>

fun compact :: "json \<Rightarrow> bool" where
  "compact (JStr s) = (length s \<le> 2003)"
| "compact (JArr xs) = (length xs \<le> 20 \<and> list_all compact xs)"
| "compact (JObj fs) = (length fs \<le> 40 \<and> list_all (\<lambda>(k, v). compact v) fs)"
| "compact _ = True"

lemma compact_string_twice:
  "(let t = (if length s > 2000 then take 2000 s @ ''...'' else s) in if length t > 2000 then take 2000 t @ ''...'' else t)
     = (if length s > 2000 then take 2000 s @ ''...'' else s)"
  by (simp add: Let_def)

text \<open>Compaction bounds what a client gets: the result is within the limits at every level, whatever
  the depth, and a value that has been compacted is not changed by compacting it again.\<close>

theorem compactUnknown_bounded_and_stable:
  "compact (compactUnknown v) \<and> compactUnknown (compactUnknown v) = compactUnknown v"
proof (induction v rule: compactUnknown.induct)
  case (1 s)
  then show ?case using compact_string_twice [of s] by (simp add: Let_def)
next
  case (2 xs)
  then show ?case by (auto simp: list_all_iff)
next
  case (3 fs)
  have "compact (compactUnknown v) \<and> compactUnknown (compactUnknown v) = compactUnknown v"
    if "(k, v) \<in> set (take 40 fs)" for k v
    using 3 [OF that refl] by simp
  then show ?case by (auto simp: list_all_iff split: prod.splits)
qed simp_all

section \<open>Attribution\<close>

text \<open>The thread an event names: in its parameters, or, for a request answered by the gateway, in the
  parameters of that request.\<close>

definition named_thread :: "string \<Rightarrow> json \<Rightarrow> string option" where
  "named_thread rpc r =
     (if rpc = ''gateway/codex/serverRequest'' then str_field (nested_params r) ''threadId'' else str_field r ''threadId'')"

lemma gateway_msg_fields [simp]:
  "m_sessionId (gateway_msg ty sid rid ts p) = Some sid" "m_type (gateway_msg ty sid rid ts p) = ty"
  "m_payload (gateway_msg ty sid rid ts p) = jobj p" "m_timestamp (gateway_msg ty sid rid ts p) = ts"
  by (simp_all add: gateway_msg_def)

lemma normalized_requests_attributed:
  "normalize_server_request now r = Some msg \<Longrightarrow> m_sessionId msg = str_field (nested_params r) ''threadId''"
  "normalize_approval_requested now r = Some msg \<Longrightarrow> m_sessionId msg = str_field r ''threadId''"
  unfolding normalize_server_request_def normalize_approval_requested_def
  by (auto split: option.splits if_splits)

lemma normalized_expiry_attributed:
  assumes "normalize_approval_expired now r = Some msg"
  shows "m_sessionId msg = str_field r ''threadId''"
proof -
  from assms obtain t u where tu: "str_field r ''threadId'' = Some t" "str_field r ''requestId'' = Some u"
    unfolding normalize_approval_expired_def by (cases "str_field r ''threadId''"; cases "str_field r ''requestId''") simp_all
  from assms have "m_sessionId msg = Some t"
    unfolding normalize_approval_expired_def tu prod.case option.case
    by (cases "t = [] \<or> u = []") (simp_all only: if_True if_False option.inject option.distinct simp_thms, drule sym, simp only: gateway_msg_fields)
  with tu show ?thesis by simp
qed

lemma chosen_message_attributed:
  "(if c then Some (gateway_msg ty tid rid ts p) else if d then Some (gateway_msg ty' tid rid' ts' p') else None) = Some msg
     \<Longrightarrow> m_sessionId msg = Some tid"
  by (auto split: if_splits)

lemma normalized_output_attributed: "normalize_output now rpc tid turnId r = Some msg \<Longrightarrow> m_sessionId msg = Some tid"
  unfolding normalize_output_def Let_def by (rule chosen_message_attributed)

lemma chosen_item_attributed:
  "(if c then Some (gateway_msg ty tid rid ts p, q) else if d then Some (gateway_msg ty' tid rid' ts' p', q') else None) = Some (msg, parents')
     \<Longrightarrow> m_sessionId msg = Some tid"
  by (auto split: if_splits)

lemma normalized_item_attributed:
  "normalize_subagent_item now tid turnId item parents = Some (msg, parents') \<Longrightarrow> m_sessionId msg = Some tid"
  unfolding normalize_subagent_item_def Let_def by (rule chosen_item_attributed)

text \<open>The state that a status notification reports: the value itself or its type field. Every
  state except the three names of a running thread is an end.\<close>

definition reports_end :: "json \<Rightarrow> bool" where
  "reports_end r =
     (case (case as_str (jget r ''status'') of Some s \<Rightarrow> Some s | None \<Rightarrow> objectTypeField (jget r ''status'')) of
        Some s \<Rightarrow> s \<notin> {''running'', ''inProgress'', ''active''}
      | None \<Rightarrow> False)"

lemma reports_end_final: "is_final (normalizeThreadStatus (jget r ''status'')) = reports_end r"
  by (auto simp: reports_end_def normalizeThreadStatus_def mapThreadStatus_def is_final_def split: option.splits)

text \<open>The parent on record of a thread: the one learnt in this process, or else the stored one.\<close>

definition recorded_parent :: "store \<Rightarrow> (string, string) js_map \<Rightarrow> string \<Rightarrow> string option" where
  "recorded_parent st parents tid =
     (case (case map_of parents tid of Some p \<Rightarrow> Some p | None \<Rightarrow> map_of (subagentRelations st) tid) of
        Some p \<Rightarrow> if p = [] then None else Some p
      | None \<Rightarrow> None)"

definition ended_child :: "store \<Rightarrow> (string, string) js_map \<Rightarrow> string \<Rightarrow> json \<Rightarrow> (string \<times> string) option" where
  "ended_child st parents rpc r =
     (if rpc = ''thread/status/changed'' \<and> reports_end r
      then (case named_thread rpc r of
              Some tid \<Rightarrow> map_option (\<lambda>p. (p, tid)) (recorded_parent st parents tid)
            | None \<Rightarrow> None)
      else None)"

lemma normalized_status_attributed:
  assumes "normalize_status_changed now st tid r parents = (msg, parents')"
  shows "case recorded_parent st parents tid of
      Some p \<Rightarrow> if reports_end r
        then m_sessionId msg = Some p \<and> m_type msg = ''subagent-finished'' \<and> parents' = AList.delete tid parents
          \<and> map_of (m_payload msg) ''childThreadId'' = Some (JStr tid)
        else m_sessionId msg = Some tid
    | None \<Rightarrow> m_sessionId msg = Some tid"
  using assms reports_end_final [of r]
  by (auto simp: normalize_status_changed_def recorded_parent_def opt_or_def getSubagentParent_def Let_def
      split: option.splits if_splits)

text \<open>C34. Every message made from an event of Codex goes to exactly one session: the one of the thread
  that the event names, unless the event is a status notification that reports the end of a thread
  with a parent on record (in the process or, failing that, in the store). In that case, and only in
  that case, the message goes to the parent: it is a \<open>subagent-finished\<close> with the id of the child, and the child is taken
  out of the process's record. An end is any reported state but \<open>running\<close>, \<open>inProgress\<close> and \<open>active\<close>.
  (A \<open>turn/completed\<close> event of a sub-agent goes to the sub-agent's own session.)\<close>

theorem codex_events_reach_their_session:
  assumes "normalizeCodexEvent now st rpc (Some r) parents = (Some msg, parents')"
  shows "case ended_child st parents rpc r of
      Some (p, tid) \<Rightarrow> m_sessionId msg = Some p \<and> m_type msg = ''subagent-finished''
        \<and> map_of (m_payload msg) ''childThreadId'' = Some (JStr tid) \<and> map_of parents' tid = None
    | None \<Rightarrow> m_sessionId msg = named_thread rpc r"
proof (cases "rpc \<in> {''gateway/codex/serverRequest'', ''gateway/codex/approvalRequested'', ''gateway/codex/approvalExpired''}")
  case True
  then have "ended_child st parents rpc r = None" by (auto simp: ended_child_def)
  then show ?thesis
    using True assms by (auto simp: normalizeCodexEvent_def named_thread_def split: if_splits dest: normalized_requests_attributed normalized_expiry_attributed)
next
  case False
  then obtain tid where tid: "str_field r ''threadId'' = Some tid"
    using assms by (auto simp: normalizeCodexEvent_def split: if_splits option.splits)
  then have named: "named_thread rpc r = Some tid" using False by (simp add: named_thread_def)
  show ?thesis
  proof (cases "rpc = ''thread/status/changed''")
    case True
    obtain m1 p1 where s: "normalize_status_changed now st tid r parents = (m1, p1)" by fastforce
    then have "msg = m1" "parents' = p1"
      using assms tid True by (auto simp: normalizeCodexEvent_def Let_def split: if_splits option.splits)
    then show ?thesis
      using normalized_status_attributed [OF s] named True
      by (auto simp: ended_child_def map_of_delete split: option.splits if_splits)
  next
    case other: False
    then have "ended_child st parents rpc r = None" by (simp add: ended_child_def)
    moreover have "m_sessionId msg = Some tid"
      using assms tid False other
      by (auto simp: normalizeCodexEvent_def Let_def split: if_splits option.splits
          dest: normalized_item_attributed normalized_output_attributed)
    ultimately show ?thesis by (simp add: named)
  qed
qed

definition no_store :: store where
  "no_store = new_store [] \<lparr>sessionsFile = Absent, relationsFile = Absent, createRequestsFile = Absent, eventFiles = [],
     corruptCopies = 0, disk_writable = True\<rparr>"

lemma codex_events_reach_their_session_witness:
  "m_sessionId (the (fst (normalizeCodexEvent 0 no_store ''thread/status/changed''
     (Some (JObj [(''threadId'', JStr ''t''), (''status'', JStr ''completed'')])) [(''t'', ''p'')]))) = Some ''p''"
proof -
  let ?r = "JObj [(''threadId'', JStr ''t''), (''status'', JStr ''completed'')]"
  obtain msg parents' where e: "normalizeCodexEvent 0 no_store ''thread/status/changed'' (Some ?r) [(''t'', ''p'')] = (Some msg, parents')"
  proof -
    have "fst (normalizeCodexEvent 0 no_store ''thread/status/changed'' (Some ?r) [(''t'', ''p'')]) \<noteq> None"
      by (simp add: normalizeCodexEvent_def is_object_def str_field_def as_str_def jget_def case_prod_beta Let_def)
    then show thesis using that by (metis not_None_eq prod.collapse)
  qed
  have "ended_child no_store [(''t'', ''p'')] ''thread/status/changed'' ?r = Some (''p'', ''t'')"
    by (simp add: ended_child_def reports_end_def named_thread_def recorded_parent_def str_field_def as_str_def jget_def)
  with codex_events_reach_their_session [OF e] e show ?thesis by simp
qed

section \<open>How sessions end\<close>

text \<open>The status that Codex reports for a finished thread is the status that the gateway reads back
  from the message it makes of the report.\<close>

theorem reported_status_is_kept:
  assumes "normalize_status_changed now st tid r parents = (msg, parents')" "m_type msg = ''session-finished''"
  shows "inferFinishedStatus msg = normalizeThreadStatus (jget r ''status'')"
proof -
  let ?s = "normalizeThreadStatus (jget r ''status'')"
  have "m_payload msg = jobj [(''threadId'', Some (JStr tid)), (''status'', Some (JStr (status_str ?s))),
      (''turn'', Some (JObj (jobj [(''status'', Some (JStr (status_str ?s)))])))] \<and> is_final ?s"
    using assms by (auto simp: normalize_status_changed_def Let_def split: option.splits if_splits)
  then show ?thesis
    by (cases ?s) (auto simp: inferFinishedStatus_def is_final_def jchain_def as_str_def jget_def)
qed

lemma reported_status_is_kept_witness:
  "inferFinishedStatus (fst (normalize_status_changed 0 no_store ''t'' (JObj [(''status'', JStr ''interrupted'')]) [])) = Cancelled"
proof -
  let ?n = "normalize_status_changed 0 no_store ''t'' (JObj [(''status'', JStr ''interrupted'')]) []"
  have none: "getSubagentParent no_store ''t'' = None" by code_simp
  have st: "normalizeThreadStatus (jget (JObj [(''status'', JStr ''interrupted'')]) ''status'') = Cancelled"
    by (simp add: normalizeThreadStatus_def as_str_def jget_def mapThreadStatus_def)
  have ty: "m_type (fst ?n) = ''session-finished''"
    unfolding normalize_status_changed_def Let_def st by (simp add: opt_or_def none is_final_def)
  show ?thesis using reported_status_is_kept [OF prod.collapse [symmetric] ty] st by simp
qed

end
