(* ===== verification/Workspace.thy ===== *)
theory Workspace
  imports GatewayEvents
begin

text \<open>
  The boundary of the file system (\<open>index.ts\<close>): which workspaces Codex may be started in, which
  directories may be listed and which files may be downloaded.

  The file system is an argument, the record \<open>fs_view\<close>: \<open>realpath\<close>, \<open>stat\<close> and \<open>readdir\<close> as they
  answer during the request.
\<close>

record fs_view =
  fs_realpath :: "string \<Rightarrow> string option"
  fs_isDirectory :: "string \<Rightarrow> bool"
  fs_fileSize :: "string \<Rightarrow> nat option"
  fs_modifiedAt :: "string \<Rightarrow> string option"
  fs_readdir :: "string \<Rightarrow> (string \<times> bool) list option"

definition maxFileDownloadBytes :: int where "maxFileDownloadBytes = 8 * 1024 * 1024"
definition maxFilesystemEntries :: nat where "maxFilesystemEntries = 2000"

section \<open>Allowed roots\<close>

definition isPathWithin :: "string \<Rightarrow> string \<Rightarrow> string \<Rightarrow> bool" where
  "isPathWithin cwd rootPath targetPath =
     (let resolvedRoot = path_resolve cwd [rootPath];
          resolvedTarget = path_resolve cwd [targetPath];
          relative = path_relative cwd resolvedRoot resolvedTarget
      in relative = [] \<or> \<not> starts_with relative ''..'' \<and> \<not> isAbsolute relative)"

definition isPathWithinAllowedRoots :: "string \<Rightarrow> string list \<Rightarrow> string \<Rightarrow> bool" where
  "isPathWithinAllowedRoots cwd roots targetPath =
     (let resolvedTarget = path_resolve cwd [targetPath]
      in list_ex (\<lambda>r. isPathWithin cwd (path_resolve cwd [r]) resolvedTarget) roots)"

definition resolveAllowedWorkspaceUnbounded ::
  "fs_view \<Rightarrow> string \<Rightarrow> string list \<Rightarrow> string \<Rightarrow> bool \<Rightarrow> string option" where
  "resolveAllowedWorkspaceUnbounded fs cwd roots rawPath allowTrustedOutsideRoots =
     (case fs_realpath fs (path_resolve cwd [rawPath]) of
        None \<Rightarrow> None
      | Some workspace \<Rightarrow>
          if workspace = [] \<or> \<not> fs_isDirectory fs workspace then None
          else if allowTrustedOutsideRoots then Some workspace
          else if list_ex (\<lambda>rootPath. case fs_realpath fs (path_resolve cwd [rootPath]) of
                    Some r \<Rightarrow> r \<noteq> [] \<and> isPathWithin cwd r workspace | None \<Rightarrow> False) roots
          then Some workspace else None)"

text \<open>The race against the timer of five seconds: \<open>timedOut\<close> says that the timer has won.\<close>

definition resolveAllowedWorkspace ::
  "fs_view \<Rightarrow> string \<Rightarrow> string list \<Rightarrow> bool \<Rightarrow> string \<Rightarrow> bool \<Rightarrow> string option" where
  "resolveAllowedWorkspace fs cwd roots timedOut rawPath trusted =
     (if rawPath = [] \<or> trim rawPath = [] then None
      else if timedOut then None
      else resolveAllowedWorkspaceUnbounded fs cwd roots rawPath trusted)"

text \<open>The two filters, with the timeouts of the single checks.\<close>

definition filterAllowedThreads :: "(string \<Rightarrow> bool \<Rightarrow> string option) \<Rightarrow> thread_summary list \<Rightarrow> thread_summary list" where
  "filterAllowedThreads resolve threads =
     filter (\<lambda>t. trim (t_cwd t) \<noteq> [] \<and> resolve (t_cwd t) False \<noteq> None) (take 10000 threads)"

definition filterAllowedSessions :: "(string \<Rightarrow> bool \<Rightarrow> string option) \<Rightarrow> gateway_session list \<Rightarrow> gateway_session list" where
  "filterAllowedSessions resolve ss =
     filter (\<lambda>s. trim (workspacePath s) \<noteq> [] \<and> resolve (workspacePath s) True \<noteq> None) (take 10000 ss)"

section \<open>Listing a directory\<close>

record dir_entry =
  de_name :: string
  de_path :: string
  de_directory :: bool
  de_size :: "nat option"
  de_modifiedAt :: "string option"

datatype listing =
    ListForbidden
  | ListFailed
  | Listing (l_path: string) (l_parent: "string option") (l_entries: "dir_entry list") (l_truncated: bool)

definition list_entry :: "fs_view \<Rightarrow> string \<Rightarrow> string list \<Rightarrow> string \<Rightarrow> string \<times> bool \<Rightarrow> dir_entry option" where
  "list_entry fs cwd roots dir entry =
     (let entryPath = path_join [dir, fst entry]
      in case fs_realpath fs entryPath of
           None \<Rightarrow> None
         | Some resolved \<Rightarrow>
             if resolved = [] \<or> \<not> isPathWithinAllowedRoots cwd roots resolved then None
             else Some \<lparr>de_name = fst entry, de_path = resolved, de_directory = snd entry,
                        de_size = fs_fileSize fs entryPath, de_modifiedAt = fs_modifiedAt fs entryPath\<rparr>)"

definition get_filesystem_list :: "fs_view \<Rightarrow> string \<Rightarrow> string list \<Rightarrow> bool \<Rightarrow> string \<Rightarrow> listing" where
  "get_filesystem_list fs cwd roots timedOut queryPath =
     (case resolveAllowedWorkspace fs cwd roots timedOut queryPath False of
        None \<Rightarrow> ListForbidden
      | Some requested \<Rightarrow>
          (case fs_readdir fs requested of
             None \<Rightarrow> ListFailed
           | Some raw \<Rightarrow>
               let allEntries = sort_key fst raw;
                   entries = map (list_entry fs cwd roots requested) (take maxFilesystemEntries allEntries);
                   parent = (case fs_realpath fs (dirname requested) of
                               Some p \<Rightarrow> if p \<noteq> [] \<and> isPathWithinAllowedRoots cwd roots p then Some p else None
                             | None \<Rightarrow> None)
               in Listing requested parent (concat (map (\<lambda>e. case e of Some x \<Rightarrow> [x] | None \<Rightarrow> []) entries))
                    (length allEntries > maxFilesystemEntries)))"

section \<open>Downloading a file\<close>

datatype download =
    NoSession
  | NoWorkspace
  | DownloadForbidden
  | NoFile
  | TooLarge
  | SendFile string nat

text \<open>\<open>persisted\<close> and \<open>threadCwd\<close> are the workspace of the stored session and of the indexed thread.\<close>

definition get_files_download ::
  "fs_view \<Rightarrow> string \<Rightarrow> string list \<Rightarrow> string option \<Rightarrow> string option \<Rightarrow> string \<Rightarrow> download" where
  "get_files_download fs cwd roots persisted threadCwd queryPath =
     (case opt_or persisted (if persisted = None then threadCwd else None) of
        None \<Rightarrow> NoSession
      | Some workspaceRaw \<Rightarrow>
          if workspaceRaw = [] then NoSession
          else (case fs_realpath fs workspaceRaw of
              None \<Rightarrow> NoWorkspace
            | Some workspace \<Rightarrow>
                if workspace = [] then NoWorkspace
                else
                  let candidate = (if isAbsolute queryPath then path_resolve cwd [queryPath]
                                   else path_resolve cwd [workspace, queryPath])
                  in case fs_realpath fs candidate of
                       None \<Rightarrow> DownloadForbidden
                     | Some requested \<Rightarrow>
                         if requested = [] \<or> \<not> isPathWithin cwd workspace requested
                            \<or> persisted = None \<and> \<not> isPathWithinAllowedRoots cwd roots requested
                         then DownloadForbidden
                         else (case fs_fileSize fs requested of
                             None \<Rightarrow> NoFile
                           | Some bytes \<Rightarrow> if int bytes > maxFileDownloadBytes then TooLarge else SendFile requested bytes)))"

section \<open>Lemmas\<close>

lemma resolved_again: "resolve_components cwd [path_resolve cwd ps] = resolve_components cwd ps"
  unfolding path_resolve_def by (rule resolve_absolute_components [OF resolve_components_ok])

lemma isPathWithin_iff: "isPathWithin cwd r t \<longleftrightarrow> \<not> escapes cwd r t"
  by (simp add: isPathWithin_def escapes_def path_relative_def resolved_again Let_def)
    (auto simp: starts_with_def isAbsolute_def)

interpretation wg: path_guard isPathWithin
  by unfold_locales (auto simp: isPathWithin_iff escapes_iff Let_def)

lemma allowed_roots_sound:
  "isPathWithinAllowedRoots cwd roots t \<Longrightarrow>
   \<exists>r\<in>set roots. prefix (resolve_components cwd [r]) (resolve_components cwd [t])"
  by (auto simp: isPathWithinAllowedRoots_def Let_def list_ex_iff resolved_again dest!: wg.sound)

lemma concat_options:
  "e \<in> set (concat (map (\<lambda>v. case v of Some x \<Rightarrow> [x] | None \<Rightarrow> []) vs)) \<Longrightarrow> Some e \<in> set vs"
  by (induction vs) (auto split: option.splits)

section \<open>Properties\<close>

lemma resolved_inside_a_root:
  assumes "resolveAllowedWorkspace fs cwd roots timedOut rawPath False = Some workspace"
  shows "fs_realpath fs (path_resolve cwd [rawPath]) = Some workspace \<and> fs_isDirectory fs workspace
    \<and> (\<exists>rootPath\<in>set roots. \<exists>r. fs_realpath fs (path_resolve cwd [rootPath]) = Some r
         \<and> prefix (resolve_components cwd [r]) (resolve_components cwd [workspace]))"
  using assms
  by (auto simp: resolveAllowedWorkspace_def resolveAllowedWorkspaceUnbounded_def list_ex_iff
      split: if_splits option.splits dest!: wg.sound)

text \<open>A workspace that passes the check without special trust is an existing directory, is the real
  path behind what was asked for, so that no symbolic link can lead out, and lies in the real path of
  one of the configured roots.\<close>

theorem allowed_workspace_is_inside_a_root:
  assumes "resolveAllowedWorkspace fs cwd roots timedOut rawPath False = Some workspace"
  shows "fs_realpath fs (path_resolve cwd [rawPath]) = Some workspace \<and> fs_isDirectory fs workspace
    \<and> (\<exists>rootPath\<in>set roots. \<exists>r. fs_realpath fs (path_resolve cwd [rootPath]) = Some r
         \<and> prefix (resolve_components cwd [r]) (resolve_components cwd [workspace]))"
  using assms by (rule resolved_inside_a_root)

text \<open>A file system with a root, a directory below it and a link that leads out.\<close>

definition sample_fs :: fs_view where
  "sample_fs = \<lparr>fs_realpath = (\<lambda>p. if p = ''/w/link'' then Some ''/etc'' else Some p),
     fs_isDirectory = (\<lambda>p. p \<in> {''/w'', ''/w/a'', ''/etc''}), fs_fileSize = (\<lambda>p. if p = ''/w/a/f'' then Some 3 else None),
     fs_modifiedAt = (\<lambda>p. None), fs_readdir = (\<lambda>p. Some [(''f'', False)])\<rparr>"

lemma allowed_workspace_is_inside_a_root_witness:
  "resolveAllowedWorkspace sample_fs ''/'' [''/w''] False ''/w/a'' False = Some ''/w/a''
   \<and> resolveAllowedWorkspace sample_fs ''/'' [''/w''] False ''/w/link'' False = None
   \<and> fs_isDirectory sample_fs ''/w/a''"
proof (intro conjI)
  show w: "resolveAllowedWorkspace sample_fs ''/'' [''/w''] False ''/w/a'' False = Some ''/w/a''" by code_simp
  show "resolveAllowedWorkspace sample_fs ''/'' [''/w''] False ''/w/link'' False = None" by code_simp
  show "fs_isDirectory sample_fs ''/w/a''" using allowed_workspace_is_inside_a_root [OF w] by simp
qed

text \<open>A file that is sent lies, as a real path, in the real workspace of its session, is at most 8 MiB
  long and, unless the session is one the gateway has stored, also lies in a configured root.\<close>

theorem download_stays_in_workspace:
  assumes "get_files_download fs cwd roots persisted threadCwd queryPath = SendFile p bytes"
  shows "\<exists>raw workspace. fs_realpath fs raw = Some workspace
      \<and> (persisted = Some raw \<or> persisted = None \<and> threadCwd = Some raw)
      \<and> prefix (resolve_components cwd [workspace]) (resolve_components cwd [p])
      \<and> fs_fileSize fs p = Some bytes \<and> int bytes \<le> 8388608
      \<and> (persisted = None \<longrightarrow> (\<exists>r\<in>set roots. prefix (resolve_components cwd [r]) (resolve_components cwd [p])))"
  using assms
  by (auto simp: get_files_download_def opt_or_def Let_def maxFileDownloadBytes_def
      split: option.splits if_splits dest!: wg.sound dest: allowed_roots_sound)

lemma download_stays_in_workspace_witness:
  "get_files_download sample_fs ''/'' [''/w''] None (Some ''/w/a'') ''f'' = SendFile ''/w/a/f'' 3
   \<and> (\<exists>r\<in>set [''/w'']. prefix (resolve_components ''/'' [r]) (resolve_components ''/'' [''/w/a/f'']))"
proof
  show d: "get_files_download sample_fs ''/'' [''/w''] None (Some ''/w/a'') ''f'' = SendFile ''/w/a/f'' 3" by code_simp
  show "\<exists>r\<in>set [''/w'']. prefix (resolve_components ''/'' [r]) (resolve_components ''/'' [''/w/a/f''])"
    using download_stays_in_workspace [OF d] by blast
qed

text \<open>A directory listing shows nothing outside: the directory itself passes the workspace check, every
  entry is given by its real path in a configured root, and so is the parent, if it is offered.\<close>

theorem listing_stays_in_roots:
  assumes "get_filesystem_list fs cwd roots timedOut queryPath = Listing p parent entries truncated"
  shows "resolveAllowedWorkspace fs cwd roots timedOut queryPath False = Some p
    \<and> length entries \<le> 2000
    \<and> (\<forall>e\<in>set entries. fs_realpath fs (path_join [p, de_name e]) = Some (de_path e)
         \<and> (\<exists>r\<in>set roots. prefix (resolve_components cwd [r]) (resolve_components cwd [de_path e])))
    \<and> (\<forall>q. parent = Some q \<longrightarrow> (\<exists>r\<in>set roots. prefix (resolve_components cwd [r]) (resolve_components cwd [q])))"
proof -
  obtain raw where raw: "resolveAllowedWorkspace fs cwd roots timedOut queryPath False = Some p" "fs_readdir fs p = Some raw"
    "entries = concat (map (\<lambda>e. case e of Some x \<Rightarrow> [x] | None \<Rightarrow> [])
       (map (list_entry fs cwd roots p) (take maxFilesystemEntries (sort_key fst raw))))"
    "parent = (case fs_realpath fs (dirname p) of
       Some q \<Rightarrow> if q \<noteq> [] \<and> isPathWithinAllowedRoots cwd roots q then Some q else None | None \<Rightarrow> None)"
    using assms by (auto simp: get_filesystem_list_def Let_def split: option.splits)
  have "length (concat (map (\<lambda>e. case e of Some x \<Rightarrow> [x] | None \<Rightarrow> []) xs)) \<le> length xs" for xs :: "dir_entry option list"
    by (induction xs) (auto split: option.splits)
  from this [of "map (list_entry fs cwd roots p) (take maxFilesystemEntries (sort_key fst raw))"]
  have len: "length entries \<le> 2000" unfolding raw(3) by (simp add: maxFilesystemEntries_def)
  have entry: "fs_realpath fs (path_join [p, de_name e]) = Some (de_path e) \<and> isPathWithinAllowedRoots cwd roots (de_path e)"
    if "e \<in> set entries" for e
  proof -
    have "Some e \<in> set (map (list_entry fs cwd roots p) (take maxFilesystemEntries (sort_key fst raw)))"
      using that unfolding raw(3) by (rule concat_options)
    then obtain x where "list_entry fs cwd roots p x = Some e" by (metis (no_types, lifting) ex_map_conv)
    then show ?thesis by (auto simp: list_entry_def Let_def split: option.splits if_splits)
  qed
  have up: "isPathWithinAllowedRoots cwd roots q" if "parent = Some q" for q
    using that unfolding raw(4) by (auto split: option.splits if_splits)
  show ?thesis
  proof (intro conjI ballI allI impI)
    fix e assume e: "e \<in> set entries"
    show "fs_realpath fs (path_join [p, de_name e]) = Some (de_path e)" using entry [OF e] by simp
    show "\<exists>r\<in>set roots. prefix (resolve_components cwd [r]) (resolve_components cwd [de_path e])"
      using entry [OF e] by (intro allowed_roots_sound) simp
  next
    fix q assume "parent = Some q"
    then show "\<exists>r\<in>set roots. prefix (resolve_components cwd [r]) (resolve_components cwd [q])"
      by (intro allowed_roots_sound up)
  qed (use raw(1) len in simp_all)
qed

lemma listing_stays_in_roots_witness:
  "get_filesystem_list sample_fs ''/'' [''/w''] False ''/w/a'' =
     Listing ''/w/a'' (Some ''/w'') [\<lparr>de_name = ''f'', de_path = ''/w/a/f'', de_directory = False, de_size = Some 3, de_modifiedAt = None\<rparr>] False
   \<and> resolveAllowedWorkspace sample_fs ''/'' [''/w''] False ''/w/a'' False = Some ''/w/a''"
proof
  show l: "get_filesystem_list sample_fs ''/'' [''/w''] False ''/w/a'' =
     Listing ''/w/a'' (Some ''/w'') [\<lparr>de_name = ''f'', de_path = ''/w/a/f'', de_directory = False, de_size = Some 3, de_modifiedAt = None\<rparr>] False"
    by code_simp
  show "resolveAllowedWorkspace sample_fs ''/'' [''/w''] False ''/w/a'' False = Some ''/w/a''"
    using listing_stays_in_roots [OF l] by blast
qed

end
