(* ===== verification/Clients.thy ===== *)
theory Clients
  imports Store
begin

text \<open>
  The WebSocket clients of the gateway (\<open>index.ts\<close>): sending with backpressure, broadcasting, the
  heartbeat and the replay of missed events.

  A socket is modelled by what the gateway observes of it: its state, the bytes it has buffered,
  whether \<open>send\<close> throws at the moment, and the texts handed to it. \<open>drained\<close> is the network taking
  bytes from the buffer.
\<close>

section \<open>Sockets\<close>

datatype ready_state = SockOpen | SockClosing | SockClosed

record client =
  readyState :: ready_state
  bufferedAmount :: int
  send_throws :: bool
  sent :: "string list"
  isAlive :: bool
  lastResumeAt :: int

definition maxClientBufferedBytes :: int where "maxClientBufferedBytes = 32 * 1024 * 1024"
definition maxResumeEvents :: nat where "maxResumeEvents = 5000"
definition maxResumeBytes :: int where "maxResumeBytes = 32 * 1024 * 1024"
definition maxResumeSessions :: nat where "maxResumeSessions = 512"

definition new_client :: client where
  "new_client = \<lparr>readyState = SockOpen, bufferedAmount = 0, send_throws = False, sent = [], isAlive = True, lastResumeAt = 0\<rparr>"

definition close_socket :: "client \<Rightarrow> client" where
  "close_socket c = (if readyState c = SockOpen then c\<lparr>readyState := SockClosing\<rparr> else c)"

definition terminate :: "client \<Rightarrow> client" where
  "terminate c = c\<lparr>readyState := SockClosed\<rparr>"

definition sendClient :: "string \<Rightarrow> client \<Rightarrow> bool \<times> client" where
  "sendClient txt c =
     (if readyState c \<noteq> SockOpen then (False, c)
      else if bufferedAmount c + int (utf8_length txt) > maxClientBufferedBytes then (False, close_socket c)
      else if send_throws c then (False, close_socket c)
      else (True, c\<lparr>sent := sent c @ [txt], bufferedAmount := bufferedAmount c + int (utf8_length txt)\<rparr>))"

definition drained :: "int \<Rightarrow> client \<Rightarrow> client" where
  "drained n c = c\<lparr>bufferedAmount := max 0 (bufferedAmount c - max 0 n)\<rparr>"

definition broadcast :: "json \<Rightarrow> (nat, client) js_map \<Rightarrow> (nat, client) js_map" where
  "broadcast payload clients = map (\<lambda>(i, c). (i, snd (sendClient (stringify payload) c))) clients"

text \<open>The heartbeat of 30 s: a client that has not answered the last ping is cut off. \<open>pingThrows\<close> says
  whether sending the ping fails.\<close>

definition heartbeat :: "bool \<Rightarrow> client \<Rightarrow> client" where
  "heartbeat pingThrows c =
     (if readyState c \<noteq> SockOpen then c
      else if \<not> isAlive c then terminate c
      else if pingThrows then terminate (c\<lparr>isAlive := False\<rparr>)
      else c\<lparr>isAlive := False\<rparr>)"

definition pong :: "client \<Rightarrow> client" where
  "pong c = c\<lparr>isAlive := True\<rparr>"

section \<open>Messages\<close>

definition json_message :: "gateway_message \<Rightarrow> json" where
  "json_message m = JObj (jobj [(''type'', Some (JStr (m_type m))), (''requestId'', map_option JStr (m_requestId m)),
     (''sessionId'', map_option JStr (m_sessionId m)), (''timestamp'', Some (JStr (m_timestamp m))),
     (''payload'', Some (JObj (m_payload m))), (''eventSeq'', map_option JNum (m_eventSeq m))])"

definition gateway_ready :: "string \<Rightarrow> string \<Rightarrow> json \<Rightarrow> (string, js_number) js_map \<Rightarrow> json" where
  "gateway_ready now gatewayName codexStatus cursors =
     JObj [(''type'', JStr ''gateway-ready''), (''timestamp'', JStr now),
       (''payload'', JObj [(''gatewayName'', JStr gatewayName),
          (''supportedMessages'', JArr [JStr ''ping'', JStr ''resume'']),
          (''eventCursor'', JObj (map (\<lambda>(k, n). (k, JNum n)) cursors))]),
       (''codex'', codexStatus)]"

definition ws_connect :: "string \<Rightarrow> string \<Rightarrow> json \<Rightarrow> store \<Rightarrow> client \<times> store" where
  "ws_connect now gatewayName codexStatus st =
     (let (cursors, st1) = latestCursors st
      in (snd (sendClient (stringify (gateway_ready now gatewayName codexStatus cursors)) new_client), st1))"

definition pong_message :: "string \<Rightarrow> string \<Rightarrow> json \<Rightarrow> json" where
  "pong_message now gatewayName message =
     JObj (jobj [(''type'', Some (JStr ''pong'')), (''requestId'', map_option JStr (str_field message ''requestId'')),
       (''sessionId'', map_option JStr (str_field message ''sessionId'')), (''timestamp'', Some (JStr now)),
       (''payload'', Some (JObj [(''gatewayName'', JStr gatewayName)]))])"

section \<open>Replay\<close>

text \<open>The counters of one replay.\<close>

record replay =
  r_client :: client
  replayedEvents :: nat
  replayedBytes :: int
  r_truncated :: bool
  r_latest :: "(string, js_number) js_map"

text \<open>The inner loop: the pending events of one session, up to the limits or the first failure to send.\<close>

fun replay_events :: "string \<Rightarrow> gateway_message list \<Rightarrow> replay \<Rightarrow> replay" where
  "replay_events sid [] r = r"
| "replay_events sid (m # ms) r =
     (let txt = stringify (json_message m); bytes = int (utf8_length txt)
      in if replayedEvents r \<ge> maxResumeEvents \<or> replayedBytes r + bytes > maxResumeBytes then r\<lparr>r_truncated := True\<rparr>
         else case sendClient txt (r_client r) of
             (False, c) \<Rightarrow> r\<lparr>r_client := c\<rparr>
           | (True, c) \<Rightarrow>
               replay_events sid ms (r\<lparr>r_client := c, replayedEvents := replayedEvents r + 1,
                 replayedBytes := replayedBytes r + bytes,
                 r_latest := (case m_eventSeq m of
                     Some n \<Rightarrow> if n > (case map_of (r_latest r) sid of Some l \<Rightarrow> l | None \<Rightarrow> 0)
                               then AList.update sid n (r_latest r) else r_latest r
                   | None \<Rightarrow> r_latest r)\<rparr>))"

text \<open>The outer loop over the cursors of the client.\<close>

fun replay_sessions :: "nat \<Rightarrow> (string \<times> json) list \<Rightarrow> replay \<Rightarrow> store \<Rightarrow> replay \<times> store" where
  "replay_sessions processed [] r st = (r, st)"
| "replay_sessions processed ((sid, raw) # rest) r st =
     (if processed \<ge> maxResumeSessions then (r\<lparr>r_truncated := True\<rparr>, st)
      else if sid = [] \<or> length sid > 256 then replay_sessions (processed + 1) rest (r\<lparr>r_truncated := True\<rparr>) st
      else
        let cursor = (case raw of JNum n \<Rightarrow> n | _ \<Rightarrow> 0);
            (pendingEvents, st1) = listEventsAfter sid cursor st;
            r1 = replay_events sid pendingEvents (r\<lparr>r_latest := AList.update sid cursor (r_latest r)\<rparr>)
        in if r_truncated r1 then (r1, st1) else replay_sessions (processed + 1) rest r1 st1)"

definition resume_complete :: "string \<Rightarrow> replay \<Rightarrow> json" where
  "resume_complete now r =
     JObj [(''type'', JStr ''resume-complete''), (''timestamp'', JStr now),
       (''payload'', JObj [(''cursors'', JObj (map (\<lambda>(k, n). (k, JNum n)) (r_latest r))), (''truncated'', JBool (r_truncated r))])]"

definition resume_cursors :: "json \<Rightarrow> (string \<times> json) list" where
  "resume_cursors message =
     (case jget message ''cursors'' of
        Some (JObj fs) \<Rightarrow> fs
      | Some (JArr xs) \<Rightarrow> zip (map nat_str [0..<length xs]) xs
      | _ \<Rightarrow> [])"

definition ws_resume :: "int \<Rightarrow> json \<Rightarrow> client \<Rightarrow> store \<Rightarrow> client \<times> store" where
  "ws_resume now message c st =
     (if now - lastResumeAt c < 1000
      then (snd (sendClient (stringify (JObj [(''type'', JStr ''resume-rate-limited''), (''retryAfterMs'', JNum 1000)])) c), st)
      else
        let start = \<lparr>r_client = c\<lparr>lastResumeAt := now\<rparr>, replayedEvents = 0, replayedBytes = 0, r_truncated = False, r_latest = []\<rparr>;
            (r, st1) = replay_sessions 0 (resume_cursors message) start st
        in (snd (sendClient (stringify (resume_complete (toISOString now) r)) (r_client r)), st1))"

text \<open>A message of a client; a text that is not JSON is ignored.\<close>

definition ws_message :: "(string \<Rightarrow> json option) \<Rightarrow> string \<Rightarrow> int \<Rightarrow> string \<Rightarrow> client \<Rightarrow> store \<Rightarrow> client \<times> store" where
  "ws_message parse gatewayName now raw c st =
     (case parse raw of
        None \<Rightarrow> (c, st)
      | Some message \<Rightarrow>
          if \<not> is_object message then (c, st)
          else if jget message ''type'' = Some (JStr ''ping'')
          then (snd (sendClient (stringify (pong_message (toISOString now) gatewayName message)) c), st)
          else if jget message ''type'' = Some (JStr ''resume'') then ws_resume now message c st
          else (c, st))"

end
