(* ===== verification/ClientProps.thy ===== *)
theory ClientProps
  imports Clients StorePaging
begin






end
