(* ===== verification/Gateway.thy ===== *)
theory Gateway
  imports Gate Clients Workspace
begin

text \<open>
  The core of the gateway (\<open>index.ts\<close>): its state, the distribution of messages and the functions
  that the request handlers share.

  The state gathers the store, the turn gate, the run generations and the bridge with the sets and
  maps that \<open>index.ts\<close> keeps itself. The bridge is changed only by \<open>do_bridge\<close>, which runs one
  operation of it and passes the events it emits to the listener; \<open>bridgeOps\<close> records the
  operations. Everything that runs without an await is one definition, and the clock is read once in
  it (\<open>now\<close>, in milliseconds).
\<close>

section \<open>Requests and suspended handlers\<close>

record gateway_config =
  cf_parse :: "string \<Rightarrow> json option"
  cf_date_parse :: "string \<Rightarrow> js_number option"
  cf_is_datetime :: "string \<Rightarrow> bool"
  cf_codexBin :: string
  cf_gatewayName :: string
  cf_cwd :: string
  cf_roots :: "string list"

record create_body =
  cb_workspacePath :: string
  cb_prompt :: string
  cb_clientRequestId :: "string option"
  cb_expiresAt :: "string option"
  cb_title :: "string option"
  cb_policy :: policy_mode
  cb_confirm :: "bool option"
  cb_options :: run_options

record turn_body =
  tb_prompt :: string
  tb_clientRequestId :: "string option"
  tb_requestId :: "string option"
  tb_expiresAt :: "string option"
  tb_attachments :: "uploaded_attachment list option"
  tb_policy :: "policy_mode option"
  tb_confirm :: "bool option"
  tb_options :: run_options

record interject_body =
  ib_text :: string
  ib_turnId :: "string option"
  ib_attachments :: "uploaded_attachment list option"
  ib_requestId :: "string option"
  ib_expiresAt :: "string option"

record policy_body =
  pb_policy :: "policy_mode option"
  pb_confirm :: "bool option"
  pb_threadSource :: string
  pb_expiresAt :: "string option"

record stop_body =
  sb_turnId :: "string option"
  sb_expiresAt :: "string option"

record approval_body =
  ab_decision :: verdict
  ab_requestId :: "string option"
  ab_turnId :: "string option"
  ab_amendment :: "string list option"
  ab_expiresAt :: "string option"

text \<open>The three routes that stop a turn.\<close>

datatype stop_kind = GatewayInterrupt | ApiInterrupt | ApiStop

record thread_context =
  cx_session :: "gateway_session option"
  cx_thread :: "thread_summary option"
  cx_workspace :: "string option"

text \<open>A handler that waits: the await it stands at, with the values it has captured.\<close>

datatype fg_task =
    CreateWorkspace create_body
  | CreateAudit create_body string
  | CreateThread create_body string
  | ApiThreadWorkspace create_body
  | ApiThreadAudit create_body string
  | ApiThreadStart create_body
  | ApiThreadTurn string json
  | PolicyContext string policy_body "gateway_session option"
  | PolicyAudit string policy_mode gateway_session string
  | PolicySync gateway_session
  | ResumeLookup string policy_mode "gateway_session option"
  | ResumeAudit string policy_mode
  | ResumeCodex string policy_mode
  | TurnLookup string turn_body int
  | ApiTurnLookup string turn_body "gateway_session option"
  | ApiTurnResume string turn_body "gateway_session option" "thread_summary option"
  | ApiTurnAttach string turn_body "gateway_session option" "thread_summary option"
  | ApiTurnStart string turn_body "gateway_session option" "thread_summary option"
  | InterjectContext string interject_body "gateway_session option"
  | InterjectTurn string interject_body thread_context "string option"
  | InterjectAudit string interject_body thread_context string
  | InterjectAttach string interject_body thread_context string
  | InterjectSteer string interject_body thread_context string "stored_attachment list"
  | StopContext stop_kind string stop_body "gateway_session option"
  | StopAudit stop_kind string gateway_session "string option"
  | ForkLookup string policy_body "gateway_session option"
  | ForkAudit string policy_mode string
  | ForkCodex string policy_mode
  | ApprovalContext string string approval_body "gateway_session option"
  | ApprovalAudit string string approval_body
  | ImportLookup string "string option"
  | SessionsFilter "gateway_session list"
  | SessionsImport
  | ThreadsList js_number "string option"

text \<open>A task that goes on after its request has been answered.\<close>

record turn_run =
  tr_session :: string
  tr_body :: turn_body
  tr_policy :: policy_mode
  tr_generation :: nat

datatype bg_task =
    FirstTurn create_body string json
  | TurnResume turn_run
  | TurnAttach turn_run
  | TurnStart turn_run

record response =
  rs_code :: nat
  rs_body :: json

datatype fg_next = Await fg_task | Reply response "bg_task option"

datatype bg_next = Continue bg_task | Finished

section \<open>State\<close>

record gateway =
  g_store :: store
  g_gate :: turn_gate
  g_runs :: run_state
  g_bridge :: bridge
  processLiveSessionIds :: "string js_set"
  cancelledSessions :: "string js_set"
  subagentParents :: "(string, string) js_map"
  g_clients :: "(nat, client) js_map"
  fg_tasks :: "(nat, fg_task) js_map"
  bg_tasks :: "(nat, bg_task) js_map"
  replies :: "(nat \<times> response) list"
  nextRequest :: nat
  bridgeOps :: "bridge_op list"

definition new_gateway :: "store \<Rightarrow> gateway" where
  "new_gateway st = \<lparr>g_store = st, g_gate = new_turn_gate, g_runs = new_run_state, g_bridge = new_bridge,
     processLiveSessionIds = [], cancelledSessions = [], subagentParents = [], g_clients = [], fg_tasks = [], bg_tasks = [],
     replies = [], nextRequest = 0, bridgeOps = []\<rparr>"

definition on_store :: "(store \<Rightarrow> store) \<Rightarrow> gateway \<Rightarrow> gateway" where
  "on_store f g = g\<lparr>g_store := f (g_store g)\<rparr>"

definition set_live :: "string \<Rightarrow> gateway \<Rightarrow> gateway" where
  "set_live sid g = g\<lparr>processLiveSessionIds := set_add sid (processLiveSessionIds g)\<rparr>"

text \<open>The two deletions that always go together.\<close>

definition set_idle :: "string \<Rightarrow> gateway \<Rightarrow> gateway" where
  "set_idle sid g = g\<lparr>processLiveSessionIds := set_del sid (processLiveSessionIds g), g_gate := release (g_gate g) sid\<rparr>"

definition open_gate :: "string \<Rightarrow> gateway \<Rightarrow> gateway" where
  "open_gate sid g = g\<lparr>g_gate := release (g_gate g) sid\<rparr>"

definition send_all :: "json \<Rightarrow> gateway \<Rightarrow> gateway" where
  "send_all payload g = g\<lparr>g_clients := broadcast payload (g_clients g)\<rparr>"

section \<open>Replies\<close>

definition respond :: "nat \<Rightarrow> (string \<times> json option) list \<Rightarrow> fg_next" where
  "respond code fs = Reply \<lparr>rs_code = code, rs_body = JObj (jobj fs)\<rparr> None"

text \<open>\<open>reply.code(c).send({ error, ... })\<close>; the texts for people are left out.\<close>

definition refuse :: "nat \<Rightarrow> string \<Rightarrow> (string \<times> json option) list \<Rightarrow> fg_next" where
  "refuse code error extra = respond code ((''error'', Some (JStr error)) # extra)"

datatype http_error = ValidationError | HttpError "nat option" "string option" string

definition error_handler :: "http_error \<Rightarrow> response" where
  "error_handler e =
     (case e of
        ValidationError \<Rightarrow>
          \<lparr>rs_code = 400, rs_body = JObj [(''error'', JStr ''invalid_request''), (''code'', JStr ''invalid_request'')]\<rparr>
      | HttpError st code txt \<Rightarrow>
          let statusCode = (if code = Some ''model_not_available'' then 400
                            else case st of Some n \<Rightarrow> if n \<ge> 400 then n else 500 | None \<Rightarrow> 500)
          in \<lparr>rs_code = statusCode,
              rs_body = JObj [(''error'', JStr (if statusCode \<ge> 500 then ''internal_error'' else txt)),
                              (''code'', JStr (case code of Some c \<Rightarrow> c | None \<Rightarrow> ''internal_error''))]\<rparr>)"

definition throw :: "http_error \<Rightarrow> fg_next" where
  "throw e = Reply (error_handler e) None"

text \<open>An error of the bridge, of a file operation or of the audit log carries no status code.\<close>

definition rethrow :: "js_error \<Rightarrow> fg_next" where
  "rethrow e = throw (HttpError None (err_code e) (err_message e))"

section \<open>Checks\<close>

definition isRequestExpired :: "gateway_config \<Rightarrow> int \<Rightarrow> string option \<Rightarrow> bool" where
  "isRequestExpired cfg now expiresAt =
     (case expiresAt of
        None \<Rightarrow> False
      | Some t \<Rightarrow>
          if t = [] then False
          else case cf_date_parse cfg t of None \<Rightarrow> True | Some parsed \<Rightarrow> parsed \<le> of_int now)"

definition fullAccessConfirmationRequired :: "policy_mode option \<Rightarrow> bool option \<Rightarrow> policy_mode option \<Rightarrow> bool" where
  "fullAccessConfirmationRequired requestedMode confirmed currentMode =
     (requestedMode = Some FullAccess \<and> currentMode \<noteq> Some FullAccess \<and> confirmed \<noteq> Some True)"

text \<open>The schemas: \<open>z.string().uuid()\<close>, lengths of strings, dates.\<close>

definition is_uuid :: "string \<Rightarrow> bool" where
  "is_uuid s =
     (map length (split_on (CHR ''-'') s) = [8, 4, 4, 4, 12] \<and> list_all (list_all is_hex) (split_on (CHR ''-'') s))"

definition len_in :: "nat \<Rightarrow> nat \<Rightarrow> string \<Rightarrow> bool" where
  "len_in lo hi s = (lo \<le> length s \<and> length s \<le> hi)"

definition opt_ok :: "('a \<Rightarrow> bool) \<Rightarrow> 'a option \<Rightarrow> bool" where
  "opt_ok P v = (case v of None \<Rightarrow> True | Some x \<Rightarrow> P x)"

definition valid_options :: "run_options \<Rightarrow> bool" where
  "valid_options opts =
     (opt_ok (len_in 1 100) (ro_model opts) \<and> opt_ok (len_in 1 30) (ro_effort opts)
      \<and> opt_ok (len_in 1 80) (ro_threadSource opts) \<and> opt_ok (len_in 1 80) (ro_multiAgentMode opts))"

definition valid_attachment :: "uploaded_attachment \<Rightarrow> bool" where
  "valid_attachment a =
     (len_in 1 240 (u_name a) \<and> opt_ok (len_in 0 160) (u_mimeType a)
      \<and> opt_ok (\<lambda>n. of_int \<lfloor>n\<rfloor> = n \<and> 0 \<le> n \<and> n \<le> of_int maxAttachmentBytes) (u_size a)
      \<and> 1 \<le> length (u_dataBase64 a) \<and> int (length (u_dataBase64 a)) \<le> maxAttachmentBase64Chars)"

definition valid_create :: "gateway_config \<Rightarrow> create_body \<Rightarrow> bool" where
  "valid_create cfg b =
     (1 \<le> length (cb_workspacePath b) \<and> len_in 1 80000 (cb_prompt b) \<and> opt_ok (len_in 1 120) (cb_clientRequestId b)
      \<and> opt_ok (cf_is_datetime cfg) (cb_expiresAt b) \<and> opt_ok (len_in 0 200) (cb_title b) \<and> valid_options (cb_options b))"

definition valid_turn :: "gateway_config \<Rightarrow> turn_body \<Rightarrow> bool" where
  "valid_turn cfg b =
     (length (tb_prompt b) \<le> 80000 \<and> opt_ok (len_in 1 120) (tb_clientRequestId b) \<and> opt_ok (len_in 1 120) (tb_requestId b)
      \<and> opt_ok (cf_is_datetime cfg) (tb_expiresAt b)
      \<and> opt_ok (\<lambda>xs. length xs \<le> maxAttachmentsPerTurn \<and> list_all valid_attachment xs) (tb_attachments b)
      \<and> valid_options (tb_options b)
      \<and> (trim (tb_prompt b) \<noteq> [] \<or> (tb_attachments b \<noteq> None \<and> tb_attachments b \<noteq> Some [])))"

definition valid_interjection :: "gateway_config \<Rightarrow> interject_body \<Rightarrow> bool" where
  "valid_interjection cfg b =
     (len_in 1 80000 (ib_text b) \<and> opt_ok (\<lambda>t. t \<noteq> []) (ib_turnId b) \<and> opt_ok (len_in 1 120) (ib_requestId b)
      \<and> opt_ok (\<lambda>xs. length xs \<le> maxAttachmentsPerTurn \<and> list_all valid_attachment xs) (ib_attachments b)
      \<and> opt_ok (cf_is_datetime cfg) (ib_expiresAt b))"

definition valid_stop :: "gateway_config \<Rightarrow> stop_body \<Rightarrow> bool" where
  "valid_stop cfg b = (opt_ok (\<lambda>t. t \<noteq> []) (sb_turnId b) \<and> opt_ok (cf_is_datetime cfg) (sb_expiresAt b))"

definition valid_approval :: "gateway_config \<Rightarrow> string \<Rightarrow> approval_body \<Rightarrow> bool" where
  "valid_approval cfg requestId b =
     (len_in 1 200 requestId \<and> opt_ok (len_in 0 200) (ab_requestId b) \<and> opt_ok (len_in 1 200) (ab_turnId b)
      \<and> opt_ok (\<lambda>xs. length xs \<le> 50 \<and> list_all (len_in 1 300) xs) (ab_amendment b)
      \<and> opt_ok (cf_is_datetime cfg) (ab_expiresAt b))"

section \<open>Distribution of messages\<close>

fun parse_status :: "string \<Rightarrow> session_status option" where
  "parse_status s =
     (if s = ''starting'' then Some Starting else if s = ''running'' then Some Running
      else if s = ''waiting-approval'' then Some WaitingApproval else if s = ''completed'' then Some Completed
      else if s = ''failed'' then Some Failed else if s = ''cancelled'' then Some Cancelled else None)"

definition is_busy :: "session_status \<Rightarrow> bool" where
  "is_busy st = (st = Running \<or> st = Starting \<or> st = WaitingApproval)"

definition persistSubagentRelation :: "gateway_message \<Rightarrow> store \<Rightarrow> store" where
  "persistSubagentRelation m st =
     (if m_type m \<notin> {''subagent-started'', ''subagent-finished'', ''session-forked''} then st
      else
        let body = JObj (m_payload m);
            parentId = opt_or (str_field body ''parentSessionId'')
                         (if m_type m = ''subagent-started'' then str_field body ''threadId'' else None);
            childId = opt_or (opt_or (str_field body ''childThreadId'') (as_str (jchain (jget body ''activity'') ''agentThreadId'')))
                        (if m_type m = ''session-forked'' then str_field body ''sessionId'' else None)
        in case (parentId, childId) of
             (Some p, Some c) \<Rightarrow> if p = [] \<or> c = [] \<or> p = c then st else linkSubagent p c st
           | _ \<Rightarrow> st)"

text \<open>
  What \<open>broadcastGateway\<close> does with a session that is part of the message: nothing more when the
  session has been cancelled and is reported busy, in which case the message is not sent either.
\<close>

definition take_session :: "gateway_session \<Rightarrow> gateway \<Rightarrow> bool \<times> gateway" where
  "take_session session g =
     (if s_id session \<in> set (cancelledSessions g) \<and> is_busy (status session) then (False, g)
      else (True, on_store (upsertSession session)
              (if is_busy (status session) then set_live (s_id session) g else set_idle (s_id session) g)))"

definition take_finished :: "string \<Rightarrow> gateway_message \<Rightarrow> gateway \<Rightarrow> gateway" where
  "take_finished sid m g =
     on_store (\<lambda>st. snd (updateSession sid (\<lambda>x. x\<lparr>status := inferFinishedStatus m, activeTurnId := Undef,
         finishedAt := Val (m_timestamp m), lastTurnFinishedAt := Val (m_timestamp m), lastUpdatedAt := m_timestamp m\<rparr>) st))
       (set_idle sid g)"

text \<open>Every sender of a status message uses one of the six values.\<close>

definition take_status :: "string \<Rightarrow> gateway_message \<Rightarrow> gateway \<Rightarrow> bool \<times> gateway" where
  "take_status sid m g =
     (case Option.bind (str_field (JObj (m_payload m)) ''status'') parse_status of
        Some s \<Rightarrow>
          if sid \<in> set (cancelledSessions g) \<and> is_busy s then (False, g)
          else (True, on_store (\<lambda>st. snd (updateSession sid (\<lambda>x. x\<lparr>status := s, lastUpdatedAt := m_timestamp m\<rparr>) st))
                  (if is_busy s then set_live sid g else set_idle sid g))
      | None \<Rightarrow> (True, g))"

definition take_approval :: "string \<Rightarrow> gateway_message \<Rightarrow> gateway \<Rightarrow> gateway" where
  "take_approval sid m g =
     on_store (\<lambda>st. snd (updateSession sid (\<lambda>x. x\<lparr>status := WaitingApproval, lastUpdatedAt := m_timestamp m\<rparr>) st)) g"

text \<open>The effect of a message on the sessions, and whether it is sent to the clients.\<close>

definition apply_message :: "gateway_message \<Rightarrow> gateway_session option \<Rightarrow> gateway \<Rightarrow> bool \<times> gateway" where
  "apply_message m session g =
     (case session of
        Some s \<Rightarrow> take_session s g
      | None \<Rightarrow>
          (case m_sessionId m of
             None \<Rightarrow> (True, g)
           | Some sid \<Rightarrow>
               if sid = [] then (True, g)
               else if m_type m = ''session-finished'' then (True, take_finished sid m g)
               else if m_type m = ''session-status'' then take_status sid m g
               else if m_type m = ''approval-requested'' then (True, take_approval sid m g)
               else (True, g)))"

text \<open>
  \<open>broadcastGateway\<close>. \<open>session\<close> is the session object in the payload, when there is one; its JSON form is
  part of the payload.
\<close>

definition broadcastGateway :: "gateway_message \<Rightarrow> gateway_session option \<Rightarrow> gateway \<Rightarrow> gateway" where
  "broadcastGateway m session g =
     (let (persisted, st1) = appendEvent m (g_store g);
          gatewayPayload = (case persisted of Some p \<Rightarrow> p | None \<Rightarrow> m);
          st2 = snd (takeEventWriteErrors st1);
          g1 = g\<lparr>g_store := persistSubagentRelation gatewayPayload st2\<rparr>;
          (forward, g2) = apply_message gatewayPayload session g1
      in if forward then send_all (json_message gatewayPayload) g2 else g2)"

section \<open>Events of Codex\<close>

definition on_codex_event :: "int \<Rightarrow> string \<Rightarrow> json option \<Rightarrow> gateway \<Rightarrow> gateway" where
  "on_codex_event now rpc params g =
     (let g1 = send_all (JObj (jobj [(''type'', Some (JStr ''codex'')), (''method'', Some (JStr rpc)), (''params'', params)])) g;
          (normalized, parents) = normalizeCodexEvent (of_int now) (g_store g1) rpc params (subagentParents g1);
          g2 = g1\<lparr>subagentParents := parents\<rparr>
      in case normalized of Some m \<Rightarrow> broadcastGateway m None g2 | None \<Rightarrow> g2)"

fun on_effect :: "int \<Rightarrow> bridge_effect \<Rightarrow> gateway \<Rightarrow> gateway" where
  "on_effect now (EmitEvent rpc params) g = on_codex_event now rpc params g"
| "on_effect now (EmitLog txt) g = send_all (JObj [(''type'', JStr ''codex-log''), (''text'', JStr txt)]) g"
| "on_effect now _ g = g"

text \<open>An operation of the bridge. The listeners do not call the bridge and the bridge does not read the
  state of the gateway, so the events can be delivered after the operation.\<close>

definition do_bridge :: "gateway_config \<Rightarrow> int \<Rightarrow> bridge_op \<Rightarrow> gateway \<Rightarrow> gateway" where
  "do_bridge cfg now op g =
     (let b = bridge_step (cf_parse cfg) op (g_bridge g)
      in fold (on_effect now) (drop (length (effects (g_bridge g))) (effects b))
           (g\<lparr>g_bridge := b, bridgeOps := bridgeOps g @ [op]\<rparr>))"

section \<open>Looking up threads\<close>

type_synonym thread_listing = "thread_summary list \<times> string option"

text \<open>The three sources in the order they are tried.\<close>

definition listThreadsPortable ::
  "(js_error + thread_listing) \<Rightarrow> (js_error + thread_listing) \<Rightarrow> (js_error + json) \<Rightarrow>
   (json \<Rightarrow> thread_listing) \<Rightarrow> js_error + thread_listing" where
  "listThreadsPortable index sqlite appServer mapList =
     (case index of
        Inr l \<Rightarrow> Inr l
      | Inl _ \<Rightarrow>
          (case sqlite of
             Inr l \<Rightarrow> Inr l
           | Inl e \<Rightarrow>
               if \<not> isSqliteFallbackError e then Inl e
               else (case appServer of Inr response \<Rightarrow> Inr (mapList response) | Inl e2 \<Rightarrow> Inl e2)))"

text \<open>\<open>pages\<close> is the listing with a limit of 100 for each cursor, as it is during the search.\<close>

fun find_pages :: "nat \<Rightarrow> (string option \<Rightarrow> js_error + thread_listing) \<Rightarrow> string option \<Rightarrow> string \<Rightarrow> js_error + thread_summary option" where
  "find_pages 0 pages cursor threadId = Inr None"
| "find_pages (Suc n) pages cursor threadId =
     (case pages cursor of
        Inl e \<Rightarrow> Inl e
      | Inr (data, next) \<Rightarrow>
          (case filter (\<lambda>t. t_id t = threadId) data of
             t # _ \<Rightarrow> Inr (Some t)
           | [] \<Rightarrow> (case next of
                      Some c \<Rightarrow> if c = [] then Inr None else find_pages n pages (Some c) threadId
                    | None \<Rightarrow> Inr None)))"

definition findThreadSummary :: "(string option \<Rightarrow> js_error + thread_listing) \<Rightarrow> string \<Rightarrow> js_error + thread_summary option" where
  "findThreadSummary pages threadId = find_pages 10 pages None threadId"

text \<open>What an await ends with: a rejection, nothing of interest, a value of Codex, the file system for a
  workspace check (and whether its timer wins), the thread listings and the file system, the stored
  attachments.\<close>

datatype answer =
    AnsError js_error
  | AnsDone
  | AnsJson json
  | AnsFs fs_view bool
  | AnsLookup "string option \<Rightarrow> js_error + thread_listing" fs_view bool
  | AnsStored "stored_attachment list"

definition resolve_ws :: "gateway_config \<Rightarrow> fs_view \<Rightarrow> bool \<Rightarrow> string \<Rightarrow> bool \<Rightarrow> string option" where
  "resolve_ws cfg fs timedOut = resolveAllowedWorkspace fs (cf_cwd cfg) (cf_roots cfg) timedOut"

text \<open>\<open>authorizedThreadContext\<close>, with the session read before the await.\<close>

definition authorizedThreadContext ::
  "gateway_config \<Rightarrow> gateway_session option \<Rightarrow> (string option \<Rightarrow> js_error + thread_listing) \<Rightarrow> fs_view \<Rightarrow> bool \<Rightarrow> string \<Rightarrow>
   js_error + thread_context option" where
  "authorizedThreadContext cfg session pages fs timedOut i =
     (let ws = (\<lambda>raw trusted. if raw = [] then None else resolve_ws cfg fs timedOut raw trusted)
      in case session of
           Some s \<Rightarrow> Inr (Some \<lparr>cx_session = Some s, cx_thread = None, cx_workspace = ws (workspacePath s) True\<rparr>)
         | None \<Rightarrow>
             (case findThreadSummary pages i of
                Inl e \<Rightarrow> Inl e
              | Inr None \<Rightarrow> Inr None
              | Inr (Some t) \<Rightarrow> Inr (Some \<lparr>cx_session = None, cx_thread = Some t, cx_workspace = ws (t_cwd t) False\<rparr>)))"

section \<open>Stopping\<close>

definition plain_msg :: "string \<Rightarrow> string \<Rightarrow> int \<Rightarrow> (string \<times> json option) list \<Rightarrow> gateway_message" where
  "plain_msg ty sid now payload = gateway_msg ty sid None (toISOString now) payload"

text \<open>A set of at most 10,000 tombstones; the oldest one goes first.\<close>

definition add_tombstone :: "string \<Rightarrow> string js_set \<Rightarrow> string js_set" where
  "add_tombstone sid ts = (let ts' = set_add sid ts in if length ts' > 10000 then tl ts' else ts')"

definition settleInterruptedSession ::
  "int \<Rightarrow> string \<Rightarrow> gateway_session \<Rightarrow> string option \<Rightarrow> gateway \<Rightarrow> gateway_session option \<times> gateway" where
  "settleInterruptedSession now i base turnId g =
     (let g1 = set_idle i (g\<lparr>g_runs := snd (cancel_run (g_runs g) i), cancelledSessions := add_tombstone i (cancelledSessions g)\<rparr>);
          ts = toISOString now;
          g2 = on_store (upsertSession (base\<lparr>status := Cancelled, activeTurnId := Undef, finishedAt := Val ts,
                 lastTurnFinishedAt := Val ts, lastUpdatedAt := ts\<rparr>)) g1;
          session = getSession (g_store g2) (s_id base);
          g3 = broadcastGateway (plain_msg ''session-finished'' i now
                 ([(''sessionId'', Some (JStr i)), (''status'', Some (JStr ''cancelled''))]
                  @ map (\<lambda>(k, v). (k, Some v)) (spread_opt ''turnId'' turnId))) None g2
      in (session, g3))"

definition interrupt_op :: "string \<Rightarrow> string \<Rightarrow> bridge_op" where
  "interrupt_op threadId turnId =
     OpRequest ''turn/interrupt'' (JObj [(''threadId'', JStr threadId), (''turnId'', JStr turnId)]) 120000"

definition requestCodexInterrupt :: "gateway_config \<Rightarrow> int \<Rightarrow> string \<Rightarrow> string option \<Rightarrow> gateway \<Rightarrow> gateway" where
  "requestCodexInterrupt cfg now threadId turnId g =
     (case turnId of
        Some t \<Rightarrow> if t = [] then g else do_bridge cfg now (interrupt_op threadId t) g
      | None \<Rightarrow> g)"

section \<open>The status of listed threads\<close>

definition withGatewayThreadStatus :: "gateway_config \<Rightarrow> int \<Rightarrow> thread_summary \<Rightarrow> gateway \<Rightarrow> thread_summary \<times> gateway" where
  "withGatewayThreadStatus cfg now thread g =
     (case getSession (g_store g) (t_id thread) of
        None \<Rightarrow> (thread, g)
      | Some existing \<Rightarrow>
          let active = (status existing = Running \<or> status existing = Starting);
              updated = the (num_or (cf_date_parse cfg (lastUpdatedAt existing)) (Some 0))
          in if active \<and> t_id thread \<notin> set (processLiveSessionIds g) then (thread, g)
             else if active \<and> of_int now - updated > 10 * 60 * 1000 then (thread, set_idle (t_id thread) g)
             else (thread\<lparr>t_status := status_str (status existing),
                     t_updatedAtMs := max (t_updatedAtMs thread) (if updated = 0 then t_updatedAtMs thread else updated)\<rparr>, g))"

fun with_statuses :: "gateway_config \<Rightarrow> int \<Rightarrow> thread_summary list \<Rightarrow> gateway \<Rightarrow> thread_summary list \<times> gateway" where
  "with_statuses cfg now [] g = ([], g)"
| "with_statuses cfg now (t # ts) g =
     (let (t', g1) = withGatewayThreadStatus cfg now t g; (ts', g2) = with_statuses cfg now ts g1 in (t' # ts', g2))"

end
