(* ===== verification/GatewayRoutes.thy ===== *)
theory GatewayRoutes
  imports Gateway
begin

text \<open>
  The request handlers of the gateway that change its state (\<open>index.ts\<close>), cut at their awaits. The
  first definition of a handler runs from the arrival of the request to the first await; each further
  one is the continuation of an await and gets the answer of that await. A handler returns what it
  waits for next or its reply, and the state.

  Saving a session only changes maps and arms a timer, so the handlers' \<open>catch\<close> clauses around it are
  not reachable and have no counterpart here.
\<close>

text \<open>The first definitions share the checks that end a request at once.\<close>

definition checked :: "bool \<Rightarrow> (nat \<times> string) list \<Rightarrow> fg_next \<times> gateway \<Rightarrow> gateway \<Rightarrow> fg_next \<times> gateway" where
  "checked valid refusals cont g =
     (if \<not> valid then (throw ValidationError, g)
      else case refusals of (code, error) # _ \<Rightarrow> (refuse code error [], g) | [] \<Rightarrow> cont)"

definition expired_check :: "gateway_config \<Rightarrow> int \<Rightarrow> string option \<Rightarrow> (nat \<times> string) list" where
  "expired_check cfg now expiresAt = (if isRequestExpired cfg now expiresAt then [(400, ''request_expired'')] else [])"

definition access_check :: "policy_mode option \<Rightarrow> bool option \<Rightarrow> policy_mode option \<Rightarrow> (nat \<times> string) list" where
  "access_check requested confirmed current =
     (if fullAccessConfirmationRequired requested confirmed current then [(400, ''full_access_confirmation_required'')] else [])"

definition not_found :: "string \<Rightarrow> fg_next" where
  "not_found i = refuse 404 ''session_not_found'' [(''sessionId'', Some (JStr i))]"

definition forbidden :: fg_next where
  "forbidden = refuse 403 ''forbidden'' []"

definition json_opt_session :: "gateway_session option \<Rightarrow> json option" where
  "json_opt_session s = map_option json_session s"

definition accepted_duplicate :: "gateway_session option \<Rightarrow> bool \<Rightarrow> fg_next" where
  "accepted_duplicate s isPending =
     respond 202 ([(''session'', json_opt_session s), (''accepted'', Some (JBool True)), (''duplicate'', Some (JBool True))]
       @ (if isPending then [(''pending'', Some (JBool True))] else []))"

text \<open>\<open>if (id) gatewayStore.release...(id)\<close>.\<close>

definition release_create :: "string option \<Rightarrow> gateway \<Rightarrow> gateway" where
  "release_create rid g = (case rid of Some r \<Rightarrow> on_store (releaseCreateRequest r) g | None \<Rightarrow> g)"

definition release_client :: "string \<Rightarrow> string option \<Rightarrow> gateway \<Rightarrow> gateway" where
  "release_client i rid g = (case rid of Some r \<Rightarrow> on_store (releaseClientRequest i r) g | None \<Rightarrow> g)"

definition remember_client :: "string \<Rightarrow> string option \<Rightarrow> gateway \<Rightarrow> gateway" where
  "remember_client i rid g = (case rid of Some r \<Rightarrow> on_store (rememberClientRequest i r) g | None \<Rightarrow> g)"

definition reserve_client :: "int \<Rightarrow> string \<Rightarrow> string option \<Rightarrow> gateway \<Rightarrow> bool \<times> gateway" where
  "reserve_client now i rid g =
     (case rid of
        Some r \<Rightarrow> (let (ok, st) = reserveClientRequest now i r (g_store g) in (ok, g\<lparr>g_store := st\<rparr>))
      | None \<Rightarrow> (True, g))"

definition try_acquire :: "string \<Rightarrow> string option \<Rightarrow> string option \<Rightarrow> gateway \<Rightarrow> turn_admission \<times> gateway" where
  "try_acquire i rid persistedRid g = (let (a, gate) = acquire (g_gate g) i rid persistedRid in (a, g\<lparr>g_gate := gate\<rparr>))"

definition last_request :: "gateway_session option \<Rightarrow> string option" where
  "last_request s = (case s of Some x \<Rightarrow> prop_get (lastClientRequestId x) | None \<Rightarrow> None)"

definition opt_prop :: "'a option \<Rightarrow> 'a opt_prop" where
  "opt_prop v = (case v of Some x \<Rightarrow> Val x | None \<Rightarrow> Undef)"

section \<open>Creating a session: \<open>POST /sessions\<close>\<close>

definition post_sessions :: "gateway_config \<Rightarrow> int \<Rightarrow> create_body \<Rightarrow> gateway \<Rightarrow> fg_next \<times> gateway" where
  "post_sessions cfg now b g =
     checked (valid_create cfg b) (expired_check cfg now (cb_expiresAt b) @ access_check (Some (cb_policy b)) (cb_confirm b) None)
       (case cb_clientRequestId b of
          None \<Rightarrow> (Await (CreateWorkspace b), g)
        | Some rid \<Rightarrow>
            let (r, st) = reserveCreateRequest now rid (g_store g); g1 = g\<lparr>g_store := st\<rparr>
            in (case r of
                  Reserved \<Rightarrow> (Await (CreateWorkspace b), g1)
                | AlreadyCreated sid \<Rightarrow>
                    (respond 202 [(''session'', json_opt_session (getSession st sid)), (''accepted'', Some (JBool True)),
                       (''duplicate'', Some (JBool True))], g1)
                | ReservationPending \<Rightarrow>
                    (respond 202 [(''accepted'', Some (JBool True)), (''duplicate'', Some (JBool True)),
                       (''pending'', Some (JBool True))], g1))) g"

definition create_workspace :: "gateway_config \<Rightarrow> create_body \<Rightarrow> answer \<Rightarrow> gateway \<Rightarrow> fg_next \<times> gateway" where
  "create_workspace cfg b ans g =
     (case ans of
        AnsFs fs timedOut \<Rightarrow>
          (case resolve_ws cfg fs timedOut (cb_workspacePath b) False of
             Some ws \<Rightarrow> if ws = [] then (forbidden, release_create (cb_clientRequestId b) g) else (Await (CreateAudit b ws), g)
           | None \<Rightarrow> (forbidden, release_create (cb_clientRequestId b) g))
      | AnsError e \<Rightarrow> (rethrow e, release_create (cb_clientRequestId b) g)
      | _ \<Rightarrow> (Await (CreateWorkspace b), g))"

definition create_audited :: "gateway_config \<Rightarrow> int \<Rightarrow> create_body \<Rightarrow> string \<Rightarrow> answer \<Rightarrow> gateway \<Rightarrow> fg_next \<times> gateway" where
  "create_audited cfg now b ws ans g =
     (case ans of
        AnsDone \<Rightarrow> (Await (CreateThread b ws), do_bridge cfg now (OpStartThread ws (cb_policy b) (cb_options b)) g)
      | AnsError e \<Rightarrow> (rethrow e, release_create (cb_clientRequestId b) g)
      | _ \<Rightarrow> (Await (CreateAudit b ws), g))"

definition created_session :: "gateway_config \<Rightarrow> int \<Rightarrow> create_body \<Rightarrow> string \<Rightarrow> string \<Rightarrow> gateway_session" where
  "created_session cfg now b ws threadId =
     (threadToSession (cf_codexBin cfg)
        \<lparr>t_id = threadId,
         t_title = (case cb_title b of
             Some t \<Rightarrow> if t \<noteq> [] then t else if take 32 (cb_prompt b) \<noteq> [] then take 32 (cb_prompt b) else codex_session_title
           | None \<Rightarrow> if take 32 (cb_prompt b) \<noteq> [] then take 32 (cb_prompt b) else codex_session_title),
         t_cwd = ws, t_preview = cb_prompt b, t_model = None, t_modelProvider = ''codex'', t_source = ''web'',
         t_status = ''starting'', t_createdAtMs = of_int now, t_updatedAtMs = of_int now, t_tokensUsed = 0,
         t_archived = False, t_gitBranch = None\<rparr> None)\<lparr>sessionPolicyMode := cb_policy b\<rparr>"

definition create_started :: "gateway_config \<Rightarrow> int \<Rightarrow> create_body \<Rightarrow> string \<Rightarrow> answer \<Rightarrow> gateway \<Rightarrow> fg_next \<times> gateway" where
  "create_started cfg now b ws ans g =
     (case ans of
        AnsJson response \<Rightarrow>
          (case extractThreadId (Some response) of
             None \<Rightarrow> (throw (HttpError None None ''Codex app-server did not return a thread id''), release_create (cb_clientRequestId b) g)
           | Some threadId \<Rightarrow>
               if threadId = []
               then (throw (HttpError None None ''Codex app-server did not return a thread id''), release_create (cb_clientRequestId b) g)
               else
                 let (admission, g1) = try_acquire threadId (cb_clientRequestId b) None g
                 in if admission = Busy then (refuse 409 ''turn_already_running'' [], release_create (cb_clientRequestId b) g1)
                    else
                      let session = created_session cfg now b ws threadId;
                          g2 = on_store (saveSession (session\<lparr>status := Starting, activeTurnId := Undef,
                                 s_args := [''thread/start'', ''turn/start''], lastClientRequestId := opt_prop (cb_clientRequestId b),
                                 lastTurnStartedAt := Val (toISOString now)\<rparr>)) g1;
                          g3 = (case cb_clientRequestId b of
                                  Some rid \<Rightarrow> on_store (\<lambda>st. rememberClientRequest threadId rid (rememberCreateRequest now rid threadId st)) g2
                                | None \<Rightarrow> g2);
                          g4 = broadcastGateway (plain_msg ''session-started'' threadId now [(''session'', Some (json_session session))])
                                 (Some session) (set_live threadId g3);
                          g5 = do_bridge cfg now (OpStartTurn threadId (cb_prompt b) [] (Some (cb_policy b))
                                 ((cb_options b)\<lparr>ro_threadSource := None\<rparr>)) g4
                      in (Reply \<lparr>rs_code = 201, rs_body = JObj [(''session'', json_session session)]\<rparr>
                            (Some (FirstTurn b threadId response)), g5))
      | AnsError e \<Rightarrow> (rethrow e, release_create (cb_clientRequestId b) g)
      | _ \<Rightarrow> (Await (CreateThread b ws), g))"

text \<open>A turn that could not be started: \<open>status\<close> and the message that reports it.\<close>

definition fail_turn :: "int \<Rightarrow> string \<Rightarrow> js_error \<Rightarrow> gateway \<Rightarrow> gateway" where
  "fail_turn now i e g =
     (let ts = toISOString now;
          g1 = on_store (\<lambda>st. snd (updateSession i (\<lambda>x. x\<lparr>status := Failed, activeTurnId := Undef,
                 finishedAt := Val ts, lastUpdatedAt := ts\<rparr>) st)) (set_idle i g)
      in broadcastGateway (plain_msg ''session-finished'' i now
           [(''sessionId'', Some (JStr i)), (''status'', Some (JStr ''failed'')), (''error'', Some (JStr (err_message e)))]) None g1)"

definition first_turn :: "int \<Rightarrow> create_body \<Rightarrow> string \<Rightarrow> json \<Rightarrow> answer \<Rightarrow> gateway \<Rightarrow> bg_next \<times> gateway" where
  "first_turn now b threadId response ans g =
     (case ans of
        AnsJson turn \<Rightarrow>
          let turnId = extractTurnId (Some turn);
              ts = toISOString now;
              g1 = on_store (\<lambda>st. snd (updateSession threadId (\<lambda>x. x\<lparr>status := Running, activeTurnId := opt_prop turnId,
                     lastUpdatedAt := ts\<rparr>) st)) g;
              g2 = broadcastGateway (plain_msg ''session-status'' threadId now
                     [(''sessionId'', Some (JStr threadId)), (''threadId'', Some (JStr threadId)),
                      (''status'', Some (JStr ''running'')), (''activeTurnId'', map_option JStr turnId)]) None g1
          in (Finished, send_all (JObj [(''method'', JStr ''remote/thread/started''),
                (''params'', JObj [(''threadId'', JStr threadId), (''response'', response), (''turn'', turn)])]) g2)
      | AnsError e \<Rightarrow> (Finished, fail_turn now threadId e g)
      | _ \<Rightarrow> (Continue (FirstTurn b threadId response), g))"

section \<open>Creating a thread: \<open>POST /api/threads\<close>\<close>

text \<open>The body has the fields of \<open>POST /sessions\<close> under other names, and no request id.\<close>

definition post_threads :: "gateway_config \<Rightarrow> int \<Rightarrow> create_body \<Rightarrow> gateway \<Rightarrow> fg_next \<times> gateway" where
  "post_threads cfg now b g =
     checked (valid_create cfg b) (expired_check cfg now (cb_expiresAt b) @ access_check (Some (cb_policy b)) (cb_confirm b) None)
       (Await (ApiThreadWorkspace b), g) g"

definition threads_workspace :: "gateway_config \<Rightarrow> create_body \<Rightarrow> answer \<Rightarrow> gateway \<Rightarrow> fg_next \<times> gateway" where
  "threads_workspace cfg b ans g =
     (case ans of
        AnsFs fs timedOut \<Rightarrow>
          (case resolve_ws cfg fs timedOut (cb_workspacePath b) False of
             Some ws \<Rightarrow> if ws = [] then (forbidden, g) else (Await (ApiThreadAudit b ws), g)
           | None \<Rightarrow> (forbidden, g))
      | AnsError e \<Rightarrow> (rethrow e, g)
      | _ \<Rightarrow> (Await (ApiThreadWorkspace b), g))"

definition threads_audited :: "gateway_config \<Rightarrow> int \<Rightarrow> create_body \<Rightarrow> string \<Rightarrow> answer \<Rightarrow> gateway \<Rightarrow> fg_next \<times> gateway" where
  "threads_audited cfg now b ws ans g =
     (case ans of
        AnsDone \<Rightarrow> (Await (ApiThreadStart b), do_bridge cfg now (OpStartThread ws (cb_policy b) (cb_options b)) g)
      | AnsError e \<Rightarrow> (rethrow e, g)
      | _ \<Rightarrow> (Await (ApiThreadAudit b ws), g))"

definition threads_started :: "gateway_config \<Rightarrow> int \<Rightarrow> create_body \<Rightarrow> answer \<Rightarrow> gateway \<Rightarrow> fg_next \<times> gateway" where
  "threads_started cfg now b ans g =
     (case ans of
        AnsJson response \<Rightarrow>
          (case extractThreadId (Some response) of
             None \<Rightarrow> (throw (HttpError None None ''Codex app-server did not return a thread id''), g)
           | Some threadId \<Rightarrow>
               if threadId = [] then (throw (HttpError None None ''Codex app-server did not return a thread id''), g)
               else (Await (ApiThreadTurn threadId response),
                     do_bridge cfg now (OpStartTurn threadId (cb_prompt b) [] (Some (cb_policy b))
                       ((cb_options b)\<lparr>ro_threadSource := None, ro_multiAgentMode := None\<rparr>)) g))
      | AnsError e \<Rightarrow> (rethrow e, g)
      | _ \<Rightarrow> (Await (ApiThreadStart b), g))"

definition threads_turn :: "string \<Rightarrow> json \<Rightarrow> answer \<Rightarrow> gateway \<Rightarrow> fg_next \<times> gateway" where
  "threads_turn threadId response ans g =
     (let params = (\<lambda>turn. [(''threadId'', Some (JStr threadId)), (''response'', Some response), (''turn'', Some turn)])
      in case ans of
           AnsJson turn \<Rightarrow>
             (respond 200 (params turn),
              send_all (JObj [(''method'', JStr ''remote/thread/started''), (''params'', JObj (jobj (params turn)))]) g)
         | AnsError e \<Rightarrow> (rethrow e, g)
         | _ \<Rightarrow> (Await (ApiThreadTurn threadId response), g))"

end
