(* ===== verification/GatewayTurns.thy ===== *)
theory GatewayTurns
  imports GatewayRoutes
begin

text \<open>
  The handlers that start turns and that speak into a running one (\<open>index.ts\<close>):
  \<open>POST /sessions/:id/turns\<close>, \<open>POST /api/threads/:id/turns\<close> and
  \<open>POST /api/threads/:id/interjections\<close>.
\<close>

section \<open>\<open>POST /sessions/:id/turns\<close>\<close>

definition turn_request_id :: "turn_body \<Rightarrow> string option" where
  "turn_request_id b = opt_or (tb_clientRequestId b) (tb_requestId b)"

definition turn_policy :: "turn_body \<Rightarrow> gateway_session option \<Rightarrow> policy_mode" where
  "turn_policy b persisted =
     (case tb_policy b of
        Some m \<Rightarrow> m
      | None \<Rightarrow> (case persisted of Some s \<Rightarrow> sessionPolicyMode s | None \<Rightarrow> Confirm))"

text \<open>The object \<open>session\<close> of the handler, made from what it has read before its awaits.\<close>

definition turn_session ::
  "gateway_config \<Rightarrow> int \<Rightarrow> turn_body \<Rightarrow> gateway_session option \<Rightarrow> thread_summary option \<Rightarrow> gateway_session option" where
  "turn_session cfg receivedAt b persisted trusted =
     (case persisted of
        Some s \<Rightarrow> Some (s\<lparr>status := Running, sessionPolicyMode := turn_policy b persisted,
                     lastTurnStartedAt := Val (toISOString receivedAt), lastUpdatedAt := toISOString receivedAt\<rparr>)
      | None \<Rightarrow> map_option (\<lambda>t. (threadToSession (cf_codexBin cfg) t (Some Running))\<lparr>s_prompt := tb_prompt b,
                     sessionPolicyMode := turn_policy b persisted\<rparr>) trusted)"

definition attachment_metadata :: "uploaded_attachment \<Rightarrow> json" where
  "attachment_metadata a = JObj (jobj [(''name'', Some (JStr (u_name a))), (''mimeType'', map_option JStr (u_mimeType a)),
     (''size'', map_option JNum (u_size a))])"

definition user_input_payload :: "string \<Rightarrow> turn_body \<Rightarrow> (string \<times> json option) list" where
  "user_input_payload i b =
     [(''sessionId'', Some (JStr i)), (''prompt'', Some (JStr (tb_prompt b))),
      (''attachments'', Some (JArr (map attachment_metadata (case tb_attachments b of Some xs \<Rightarrow> xs | None \<Rightarrow> [])))),
      (''clientRequestId'', map_option JStr (turn_request_id b))]"

text \<open>The admission of a turn is granted: from there to the reply.\<close>

definition turn_admitted ::
  "gateway_config \<Rightarrow> int \<Rightarrow> string \<Rightarrow> turn_body \<Rightarrow> int \<Rightarrow> gateway_session option \<Rightarrow> gateway_session \<Rightarrow> gateway \<Rightarrow> fg_next \<times> gateway" where
  "turn_admitted cfg now i b receivedAt persisted session g =
     (let rid = turn_request_id b;
          policy = turn_policy b persisted;
          (generation, runs) = begin_run (g_runs g) i;
          g1 = set_live i (g\<lparr>cancelledSessions := set_del i (cancelledSessions g), g_runs := runs\<rparr>);
          g2 = on_store (upsertSession (session\<lparr>status := Running, sessionPolicyMode := policy, activeTurnId := Undef,
                 lastClientRequestId := opt_prop (opt_or rid (last_request persisted)),
                 lastTurnStartedAt := Val (toISOString receivedAt), lastUpdatedAt := toISOString receivedAt\<rparr>)) g1;
          g3 = remember_client i rid g2;
          g4 = broadcastGateway (plain_msg ''session-user-input'' i now (user_input_payload i b)) None g3;
          g5 = broadcastGateway (plain_msg ''session-status'' i now
                 [(''sessionId'', Some (JStr i)), (''status'', Some (JStr ''running'')), (''session'', Some (json_session session))])
                 (Some session) g4;
          g6 = do_bridge cfg now (OpResume i (Some policy)) g5
      in (Reply \<lparr>rs_code = 202, rs_body = JObj [(''session'', json_session session), (''accepted'', JBool True)]\<rparr>
            (Some (TurnResume \<lparr>tr_session = i, tr_body = b, tr_policy = policy, tr_generation = generation\<rparr>)), g6))"

text \<open>From the end of the lookups to the admission; \<open>workspace\<close> is the result of the workspace check.\<close>

definition turn_checked ::
  "gateway_config \<Rightarrow> int \<Rightarrow> string \<Rightarrow> turn_body \<Rightarrow> int \<Rightarrow> gateway_session option \<Rightarrow> gateway_session \<Rightarrow> string option \<Rightarrow>
   gateway \<Rightarrow> fg_next \<times> gateway" where
  "turn_checked cfg now i b receivedAt persisted session workspace g =
     (let rid = turn_request_id b
      in if workspace = None \<or> workspace = Some [] then (forbidden, g)
         else if (case rid of Some r \<Rightarrow> hasClientRequest (g_store g) i r | None \<Rightarrow> False)
         then (accepted_duplicate persisted False, g)
         else
           let (reserved, g1) = reserve_client now i rid g
           in if \<not> reserved then (accepted_duplicate persisted True, g1)
              else
                let (admission, g2) = try_acquire i rid (last_request persisted) g1
                in (case admission of
                      Duplicate \<Rightarrow> (accepted_duplicate persisted False, release_client i rid g2)
                    | Busy \<Rightarrow> (refuse 409 ''turn_already_running'' [], release_client i rid g2)
                    | Accepted \<Rightarrow> turn_admitted cfg now i b receivedAt persisted session g2))"

text \<open>This route has its own test of the expiry: a date that cannot be parsed is not expired.\<close>

definition turn_expired :: "gateway_config \<Rightarrow> int \<Rightarrow> turn_body \<Rightarrow> bool" where
  "turn_expired cfg now b =
     (case tb_expiresAt b of
        Some t \<Rightarrow> t \<noteq> [] \<and> (case cf_date_parse cfg t of Some n \<Rightarrow> n \<le> of_int now | None \<Rightarrow> False)
      | None \<Rightarrow> False)"

text \<open>A session that is stored is handled without any await.\<close>

definition post_turns :: "gateway_config \<Rightarrow> int \<Rightarrow> string \<Rightarrow> turn_body \<Rightarrow> gateway \<Rightarrow> fg_next \<times> gateway" where
  "post_turns cfg now i b g =
     checked (is_uuid i \<and> valid_turn cfg b) (if turn_expired cfg now b then [(400, ''request_expired'')] else [])
       (case getSession (g_store g) i of
          None \<Rightarrow> (Await (TurnLookup i b now), g)
        | Some persisted \<Rightarrow>
            if fullAccessConfirmationRequired (tb_policy b) (tb_confirm b) (Some (sessionPolicyMode persisted))
            then (refuse 400 ''full_access_confirmation_required'' [], g)
            else turn_checked cfg now i b now (Some persisted) (the (turn_session cfg now b (Some persisted) None))
                   (Some (workspacePath persisted)) g) g"

definition turn_looked_up :: "gateway_config \<Rightarrow> int \<Rightarrow> string \<Rightarrow> turn_body \<Rightarrow> int \<Rightarrow> answer \<Rightarrow> gateway \<Rightarrow> fg_next \<times> gateway" where
  "turn_looked_up cfg now i b receivedAt ans g =
     (case ans of
        AnsLookup pages fs timedOut \<Rightarrow>
          (case findThreadSummary pages i of
             Inl e \<Rightarrow> (rethrow e, g)
           | Inr None \<Rightarrow> (not_found i, g)
           | Inr (Some t) \<Rightarrow>
               if fullAccessConfirmationRequired (tb_policy b) (tb_confirm b) None
               then (refuse 400 ''full_access_confirmation_required'' [], g)
               else turn_checked cfg now i b receivedAt None (the (turn_session cfg receivedAt b None (Some t)))
                      (resolve_ws cfg fs timedOut (t_cwd t) False) g)
      | AnsError e \<Rightarrow> (rethrow e, g)
      | _ \<Rightarrow> (Await (TurnLookup i b receivedAt), g))"

text \<open>The background task. A task whose generation is not the current one any more does nothing.\<close>

definition run_current :: "turn_run \<Rightarrow> gateway \<Rightarrow> bool" where
  "run_current r g = isCurrent (g_runs g) (tr_session r) (tr_generation r)"

definition run_failed :: "int \<Rightarrow> turn_run \<Rightarrow> js_error \<Rightarrow> gateway \<Rightarrow> bg_next \<times> gateway" where
  "run_failed now r e g = (Finished, if run_current r g then fail_turn now (tr_session r) e g else g)"

definition turn_resumed :: "int \<Rightarrow> turn_run \<Rightarrow> answer \<Rightarrow> gateway \<Rightarrow> bg_next \<times> gateway" where
  "turn_resumed now r ans g =
     (case ans of
        AnsJson _ \<Rightarrow> (if run_current r g then Continue (TurnAttach r) else Finished, g)
      | AnsError e \<Rightarrow> run_failed now r e g
      | _ \<Rightarrow> (Continue (TurnResume r), g))"

definition turn_attached :: "gateway_config \<Rightarrow> int \<Rightarrow> turn_run \<Rightarrow> answer \<Rightarrow> gateway \<Rightarrow> bg_next \<times> gateway" where
  "turn_attached cfg now r ans g =
     (case ans of
        AnsStored atts \<Rightarrow>
          if \<not> run_current r g then (Finished, g)
          else (Continue (TurnStart r), do_bridge cfg now (OpStartTurn (tr_session r) (tb_prompt (tr_body r)) atts
                  (Some (tr_policy r)) (tb_options (tr_body r))) g)
      | AnsError e \<Rightarrow> run_failed now r e g
      | _ \<Rightarrow> (Continue (TurnAttach r), g))"

definition turn_started :: "gateway_config \<Rightarrow> int \<Rightarrow> turn_run \<Rightarrow> answer \<Rightarrow> gateway \<Rightarrow> bg_next \<times> gateway" where
  "turn_started cfg now r ans g =
     (case ans of
        AnsJson response \<Rightarrow>
          let turnId = extractTurnId (Some response)
          in (Finished,
              if \<not> run_current r g then requestCodexInterrupt cfg now (tr_session r) turnId g
              else case turnId of
                  Some t \<Rightarrow>
                    if t = [] then g
                    else on_store (\<lambda>st. snd (updateSession (tr_session r) (\<lambda>x. x\<lparr>activeTurnId := Val t,
                           lastUpdatedAt := toISOString now\<rparr>) st)) g
                | None \<Rightarrow> g)
      | AnsError e \<Rightarrow> run_failed now r e g
      | _ \<Rightarrow> (Continue (TurnStart r), g))"

section \<open>\<open>POST /api/threads/:id/turns\<close>\<close>

definition post_api_turns :: "gateway_config \<Rightarrow> int \<Rightarrow> string \<Rightarrow> turn_body \<Rightarrow> gateway \<Rightarrow> fg_next \<times> gateway" where
  "post_api_turns cfg now i b g =
     checked (is_uuid i \<and> valid_turn cfg b) (expired_check cfg now (tb_expiresAt b))
       (let persisted = getSession (g_store g) i;
            (reserved, g1) = reserve_client now i (tb_requestId b) g
        in if \<not> reserved then (accepted_duplicate persisted True, g1)
           else (Await (ApiTurnLookup i b persisted), g1)) g"

text \<open>After the audit entry, the search for the thread and the check of its workspace.\<close>

definition api_turn_looked_up ::
  "gateway_config \<Rightarrow> int \<Rightarrow> string \<Rightarrow> turn_body \<Rightarrow> gateway_session option \<Rightarrow> answer \<Rightarrow> gateway \<Rightarrow> fg_next \<times> gateway" where
  "api_turn_looked_up cfg now i b persisted ans g =
     (let rid = tb_requestId b
      in case ans of
           AnsLookup pages fs timedOut \<Rightarrow>
             (case findThreadSummary pages i of
                Inl e \<Rightarrow> (rethrow e, release_client i rid g)
              | Inr thread \<Rightarrow>
                  (case resolve_ws cfg fs timedOut (case thread of Some t \<Rightarrow> t_cwd t | None \<Rightarrow> []) False of
                     None \<Rightarrow> (forbidden, release_client i rid g)
                   | Some ws \<Rightarrow>
                       if ws = [] then (forbidden, release_client i rid g)
                       else
                         let (admission, g1) = try_acquire i rid (last_request persisted) g
                         in (case admission of
                               Duplicate \<Rightarrow> (accepted_duplicate persisted False, release_client i rid g1)
                             | Busy \<Rightarrow> (refuse 409 ''turn_already_running'' [], release_client i rid g1)
                             | Accepted \<Rightarrow> (Await (ApiTurnResume i b persisted thread), do_bridge cfg now (OpResume i None) g1))))
         | AnsError e \<Rightarrow> (rethrow e, release_client i rid g)
         | _ \<Rightarrow> (Await (ApiTurnLookup i b persisted), g))"

definition api_turn_failed :: "string \<Rightarrow> turn_body \<Rightarrow> js_error \<Rightarrow> gateway \<Rightarrow> fg_next \<times> gateway" where
  "api_turn_failed i b e g = (rethrow e, release_client i (tb_requestId b) (open_gate i g))"

definition api_turn_resumed ::
  "string \<Rightarrow> turn_body \<Rightarrow> gateway_session option \<Rightarrow> thread_summary option \<Rightarrow> answer \<Rightarrow> gateway \<Rightarrow> fg_next \<times> gateway" where
  "api_turn_resumed i b persisted thread ans g =
     (case ans of
        AnsJson _ \<Rightarrow> (Await (ApiTurnAttach i b persisted thread), g)
      | AnsError e \<Rightarrow> api_turn_failed i b e g
      | _ \<Rightarrow> (Await (ApiTurnResume i b persisted thread), g))"

definition api_turn_attached ::
  "gateway_config \<Rightarrow> int \<Rightarrow> string \<Rightarrow> turn_body \<Rightarrow> gateway_session option \<Rightarrow> thread_summary option \<Rightarrow> answer \<Rightarrow> gateway \<Rightarrow>
   fg_next \<times> gateway" where
  "api_turn_attached cfg now i b persisted thread ans g =
     (case ans of
        AnsStored atts \<Rightarrow>
          (Await (ApiTurnStart i b persisted thread),
           do_bridge cfg now (OpStartTurn i (tb_prompt b) atts None
             \<lparr>ro_model = None, ro_effort = None, ro_threadSource = None, ro_multiAgentMode = None\<rparr>) g)
      | AnsError e \<Rightarrow> api_turn_failed i b e g
      | _ \<Rightarrow> (Await (ApiTurnAttach i b persisted thread), g))"

definition api_turn_started ::
  "gateway_config \<Rightarrow> int \<Rightarrow> string \<Rightarrow> turn_body \<Rightarrow> gateway_session option \<Rightarrow> thread_summary option \<Rightarrow> answer \<Rightarrow> gateway \<Rightarrow>
   fg_next \<times> gateway" where
  "api_turn_started cfg now i b persisted thread ans g =
     (case ans of
        AnsJson response \<Rightarrow>
          let session = (case thread of
                  Some t \<Rightarrow> threadToSession (cf_codexBin cfg) t (Some Running)
                | None \<Rightarrow> minimalSession (cf_codexBin cfg) (cf_cwd cfg) (of_int now) i (tb_prompt b) Running);
              ts = toISOString now;
              g1 = on_store (upsertSession (session\<lparr>status := Running, activeTurnId := opt_prop (extractTurnId (Some response)),
                     lastClientRequestId := opt_prop (opt_or (tb_requestId b) (last_request persisted)),
                     lastTurnStartedAt := Val ts, lastUpdatedAt := ts\<rparr>)) g;
              g2 = set_live i (remember_client i (tb_requestId b) g1);
              g3 = broadcastGateway (plain_msg ''session-status'' i now
                     [(''sessionId'', Some (JStr i)), (''threadId'', Some (JStr i)), (''status'', Some (JStr ''running'')),
                      (''session'', Some (json_session session))]) (Some session) g2
          in (Reply \<lparr>rs_code = 200, rs_body = response\<rparr> None,
              send_all (JObj [(''method'', JStr ''remote/turn/started''),
                (''params'', JObj [(''threadId'', JStr i), (''response'', response)])]) g3)
      | AnsError e \<Rightarrow> api_turn_failed i b e g
      | _ \<Rightarrow> (Await (ApiTurnStart i b persisted thread), g))"

section \<open>\<open>POST /api/threads/:id/interjections\<close>\<close>

definition post_interjection :: "gateway_config \<Rightarrow> int \<Rightarrow> string \<Rightarrow> interject_body \<Rightarrow> gateway \<Rightarrow> fg_next \<times> gateway" where
  "post_interjection cfg now i b g =
     checked (is_uuid i \<and> valid_interjection cfg b) (expired_check cfg now (ib_expiresAt b))
       (Await (InterjectContext i b (getSession (g_store g) i)), g) g"

definition interject_admit :: "int \<Rightarrow> string \<Rightarrow> interject_body \<Rightarrow> thread_context \<Rightarrow> string option \<Rightarrow> gateway \<Rightarrow> fg_next \<times> gateway" where
  "interject_admit now i b cx expectedTurnId g =
     (case expectedTurnId of
        None \<Rightarrow> (refuse 409 ''no_active_turn'' [], g)
      | Some t \<Rightarrow>
          if t = [] then (refuse 409 ''no_active_turn'' [], g)
          else if (case ib_requestId b of Some r \<Rightarrow> hasClientRequest (g_store g) i r | None \<Rightarrow> False)
          then (respond 202 [(''accepted'', Some (JBool True)), (''duplicate'', Some (JBool True))], g)
          else
            let (reserved, g1) = reserve_client now i (ib_requestId b) g
            in if \<not> reserved
               then (respond 202 [(''accepted'', Some (JBool True)), (''duplicate'', Some (JBool True)), (''pending'', Some (JBool True))], g1)
               else (Await (InterjectAudit i b cx t), g1))"

definition interject_context ::
  "gateway_config \<Rightarrow> int \<Rightarrow> string \<Rightarrow> interject_body \<Rightarrow> gateway_session option \<Rightarrow> answer \<Rightarrow> gateway \<Rightarrow> fg_next \<times> gateway" where
  "interject_context cfg now i b session ans g =
     (case ans of
        AnsLookup pages fs timedOut \<Rightarrow>
          (case authorizedThreadContext cfg session pages fs timedOut i of
             Inl e \<Rightarrow> (rethrow e, g)
           | Inr None \<Rightarrow> (not_found i, g)
           | Inr (Some cx) \<Rightarrow>
               if cx_workspace cx = None \<or> cx_workspace cx = Some [] then (forbidden, g)
               else case ib_turnId b of
                   Some t \<Rightarrow> interject_admit now i b cx (Some t) g
                 | None \<Rightarrow>
                     (Await (InterjectTurn i b cx
                        (case getSession (g_store g) i of Some s \<Rightarrow> prop_get (activeTurnId s) | None \<Rightarrow> None)), g))
      | AnsError e \<Rightarrow> (rethrow e, g)
      | _ \<Rightarrow> (Await (InterjectContext i b session), g))"

text \<open>\<open>resolveActiveTurnId\<close>: the stored turn, else the active turn of the thread as Codex reports it; an
  error in reading the thread counts as no answer.\<close>

definition interject_turn ::
  "int \<Rightarrow> string \<Rightarrow> interject_body \<Rightarrow> thread_context \<Rightarrow> string option \<Rightarrow> answer \<Rightarrow> gateway \<Rightarrow> fg_next \<times> gateway" where
  "interject_turn now i b cx stored ans g =
     (case ans of
        AnsJson detail \<Rightarrow>
          interject_admit now i b cx (if stored = None \<or> stored = Some [] then findActiveTurnId (Some detail) else stored) g
      | AnsError e \<Rightarrow> interject_admit now i b cx (if stored = None \<or> stored = Some [] then None else stored) g
      | _ \<Rightarrow> (Await (InterjectTurn i b cx stored), g))"

text \<open>The audit entry is written outside of the handler's \<open>try\<close> blocks.\<close>

definition interject_audited :: "string \<Rightarrow> interject_body \<Rightarrow> thread_context \<Rightarrow> string \<Rightarrow> answer \<Rightarrow> gateway \<Rightarrow> fg_next \<times> gateway" where
  "interject_audited i b cx t ans g =
     (case ans of
        AnsDone \<Rightarrow> (Await (InterjectAttach i b cx t), g)
      | AnsError e \<Rightarrow> (rethrow e, g)
      | _ \<Rightarrow> (Await (InterjectAudit i b cx t), g))"

definition steer_op :: "string \<Rightarrow> string \<Rightarrow> string \<Rightarrow> stored_attachment list \<Rightarrow> bridge_op" where
  "steer_op threadId turnId txt atts =
     OpRequest ''turn/steer'' (JObj [(''threadId'', JStr threadId), (''expectedTurnId'', JStr turnId),
       (''input'', buildCodexInput txt atts), (''responsesapiClientMetadata'', JNull)]) 600000"

definition interject_attached ::
  "gateway_config \<Rightarrow> int \<Rightarrow> string \<Rightarrow> interject_body \<Rightarrow> thread_context \<Rightarrow> string \<Rightarrow> answer \<Rightarrow> gateway \<Rightarrow> fg_next \<times> gateway" where
  "interject_attached cfg now i b cx t ans g =
     (case ans of
        AnsStored atts \<Rightarrow> (Await (InterjectSteer i b cx t atts), do_bridge cfg now (steer_op i t (ib_text b) atts) g)
      | AnsError e \<Rightarrow> (rethrow e, release_client i (ib_requestId b) g)
      | _ \<Rightarrow> (Await (InterjectAttach i b cx t), g))"

definition json_stored :: "stored_attachment \<Rightarrow> json" where
  "json_stored a = JObj [(''id'', JStr (a_id a)), (''originalName'', JStr (originalName a)), (''mimeType'', JStr (a_mimeType a)),
     (''size'', JNum (of_nat (a_size a))), (''kind'', JStr (case a_kind a of ImageKind \<Rightarrow> ''image'' | FileKind \<Rightarrow> ''file'')),
     (''relativePath'', JStr (relativePath a)), (''absolutePath'', JStr (absolutePath a))]"

definition interject_steered ::
  "gateway_config \<Rightarrow> int \<Rightarrow> string \<Rightarrow> interject_body \<Rightarrow> thread_context \<Rightarrow> string \<Rightarrow> stored_attachment list \<Rightarrow> answer \<Rightarrow> gateway \<Rightarrow>
   fg_next \<times> gateway" where
  "interject_steered cfg now i b cx t atts ans g =
     (case ans of
        AnsJson response \<Rightarrow>
          let session = (case getSession (g_store g) i of
                  Some s \<Rightarrow> s
                | None \<Rightarrow> (case cx_thread cx of
                      Some th \<Rightarrow> threadToSession (cf_codexBin cfg) th (Some Running)
                    | None \<Rightarrow> minimalSession (cf_codexBin cfg) (cf_cwd cfg) (of_int now) i (ib_text b) Running));
              g1 = on_store (upsertSession (session\<lparr>status := Running, activeTurnId := Val t, lastUpdatedAt := toISOString now\<rparr>))
                     (set_live i g);
              g2 = broadcastGateway (plain_msg ''session-user-input'' i now
                     [(''sessionId'', Some (JStr i)), (''threadId'', Some (JStr i)), (''prompt'', Some (JStr (ib_text b))),
                      (''kind'', Some (JStr ''interjection'')), (''attachments'', Some (JArr (map json_stored atts)))]) None
                     (remember_client i (ib_requestId b) g1)
          in (Reply \<lparr>rs_code = 200, rs_body = response\<rparr> None,
              send_all (JObj [(''method'', JStr ''remote/turn/steered''),
                (''params'', JObj [(''threadId'', JStr i), (''turnId'', JStr t), (''response'', response)])]) g2)
      | AnsError e \<Rightarrow>
          (if isActiveTurnNotSteerableError e then refuse 409 ''active_turn_not_steerable'' [] else rethrow e,
           release_client i (ib_requestId b) g)
      | _ \<Rightarrow> (Await (InterjectSteer i b cx t atts), g))"

end
