(* ===== verification/GatewayControl.thy ===== *)
theory GatewayControl
  imports GatewayTurns
begin

text \<open>
  The remaining handlers that change the state (\<open>index.ts\<close>): policy, resuming, stopping, forking,
  approvals, importing and the two listings; and the runs of the gateway, in which requests, answers,
  events of Codex, timers and client messages come in any order.
\<close>

section \<open>Policy: \<open>PATCH /sessions/:id/policy\<close>\<close>

definition patch_policy :: "gateway_config \<Rightarrow> int \<Rightarrow> string \<Rightarrow> policy_body \<Rightarrow> gateway \<Rightarrow> fg_next \<times> gateway" where
  "patch_policy cfg now i b g =
     checked (is_uuid i \<and> pb_policy b \<noteq> None \<and> opt_ok (cf_is_datetime cfg) (pb_expiresAt b)) (expired_check cfg now (pb_expiresAt b))
       (Await (PolicyContext i b (getSession (g_store g) i)), g) g"

definition policy_context ::
  "gateway_config \<Rightarrow> int \<Rightarrow> string \<Rightarrow> policy_body \<Rightarrow> gateway_session option \<Rightarrow> answer \<Rightarrow> gateway \<Rightarrow> fg_next \<times> gateway" where
  "policy_context cfg now i b session ans g =
     (case ans of
        AnsLookup pages fs timedOut \<Rightarrow>
          (case authorizedThreadContext cfg session pages fs timedOut i of
             Inl e \<Rightarrow> (rethrow e, g)
           | Inr None \<Rightarrow> (not_found i, g)
           | Inr (Some cx) \<Rightarrow>
               (case (cx_session cx, pb_policy b) of
                  (Some existing, Some mode) \<Rightarrow>
                    if cx_workspace cx = None \<or> cx_workspace cx = Some [] then (forbidden, g)
                    else if fullAccessConfirmationRequired (Some mode) (pb_confirm b) (Some (sessionPolicyMode existing))
                    then (refuse 400 ''full_access_confirmation_required'' [], g)
                    else
                      let ts = toISOString now;
                          g1 = do_bridge cfg now (OpSetPolicy i mode) g;
                          (updated, st) = updateSession i (\<lambda>x. x\<lparr>sessionPolicyMode := mode, lastUpdatedAt := ts\<rparr>) (g_store g1);
                          session' = (case updated of Some u \<Rightarrow> u | None \<Rightarrow> existing\<lparr>sessionPolicyMode := mode, lastUpdatedAt := ts\<rparr>)
                      in (Await (PolicyAudit i mode session' ts), g1\<lparr>g_store := st\<rparr>)
                | _ \<Rightarrow> (not_found i, g)))
      | AnsError e \<Rightarrow> (rethrow e, g)
      | _ \<Rightarrow> (Await (PolicyContext i b session), g))"

definition policy_message :: "string \<Rightarrow> string \<Rightarrow> policy_mode \<Rightarrow> gateway_session \<Rightarrow> gateway_message" where
  "policy_message i ts mode session =
     gateway_msg ''session-policy-changed'' i None ts
       [(''sessionId'', Some (JStr i)), (''sessionPolicyMode'', Some (JStr (policy_str mode))), (''session'', Some (json_session session))]"

definition policy_audited :: "string \<Rightarrow> policy_mode \<Rightarrow> gateway_session \<Rightarrow> string \<Rightarrow> answer \<Rightarrow> gateway \<Rightarrow> fg_next \<times> gateway" where
  "policy_audited i mode session ts ans g =
     (case ans of
        AnsDone \<Rightarrow> (Await (PolicySync session), broadcastGateway (policy_message i ts mode session) (Some session) g)
      | AnsError e \<Rightarrow> (rethrow e, g)
      | _ \<Rightarrow> (Await (PolicyAudit i mode session ts), g))"

definition policy_synced :: "gateway_session \<Rightarrow> answer \<Rightarrow> gateway \<Rightarrow> fg_next \<times> gateway" where
  "policy_synced session ans g =
     (case ans of
        AnsDone \<Rightarrow> (respond 200 [(''ok'', Some (JBool True)), (''session'', Some (json_session session))], g)
      | AnsError e \<Rightarrow> (rethrow e, g)
      | _ \<Rightarrow> (Await (PolicySync session), g))"

section \<open>Resuming: \<open>POST /api/threads/:id/resume\<close>\<close>

definition post_resume :: "gateway_config \<Rightarrow> int \<Rightarrow> string \<Rightarrow> policy_body \<Rightarrow> gateway \<Rightarrow> fg_next \<times> gateway" where
  "post_resume cfg now i b g =
     (let existing = getSession (g_store g) i;
          current = map_option sessionPolicyMode existing;
          mode = (case opt_or (pb_policy b) current of Some m \<Rightarrow> m | None \<Rightarrow> Confirm)
      in checked (is_uuid i \<and> opt_ok (cf_is_datetime cfg) (pb_expiresAt b))
           (expired_check cfg now (pb_expiresAt b) @ access_check (Some mode) (pb_confirm b) current)
           (Await (ResumeLookup i mode existing), g) g)"

definition resume_looked_up ::
  "gateway_config \<Rightarrow> string \<Rightarrow> policy_mode \<Rightarrow> gateway_session option \<Rightarrow> answer \<Rightarrow> gateway \<Rightarrow> fg_next \<times> gateway" where
  "resume_looked_up cfg i mode session ans g =
     (case ans of
        AnsLookup pages fs timedOut \<Rightarrow>
          (case (case session of Some s \<Rightarrow> Inr (Some (workspacePath s)) | None \<Rightarrow> map_sum (\<lambda>e. e) (map_option t_cwd) (findThreadSummary pages i)) of
             Inl e \<Rightarrow> (rethrow e, g)
           | Inr None \<Rightarrow> (not_found i, g)
           | Inr (Some raw) \<Rightarrow>
               if raw = [] then (not_found i, g)
               else (case resolve_ws cfg fs timedOut raw False of
                       None \<Rightarrow> (forbidden, g)
                     | Some ws \<Rightarrow> if ws = [] then (forbidden, g) else (Await (ResumeAudit i mode), g)))
      | AnsError e \<Rightarrow> (rethrow e, g)
      | _ \<Rightarrow> (Await (ResumeLookup i mode session), g))"

definition resume_audited :: "gateway_config \<Rightarrow> int \<Rightarrow> string \<Rightarrow> policy_mode \<Rightarrow> answer \<Rightarrow> gateway \<Rightarrow> fg_next \<times> gateway" where
  "resume_audited cfg now i mode ans g =
     (case ans of
        AnsDone \<Rightarrow> (Await (ResumeCodex i mode), do_bridge cfg now (OpResume i (Some mode)) g)
      | AnsError e \<Rightarrow> (rethrow e, g)
      | _ \<Rightarrow> (Await (ResumeAudit i mode), g))"

definition resume_answered :: "gateway_config \<Rightarrow> int \<Rightarrow> string \<Rightarrow> policy_mode \<Rightarrow> answer \<Rightarrow> gateway \<Rightarrow> fg_next \<times> gateway" where
  "resume_answered cfg now i mode ans g =
     (case ans of
        AnsJson response \<Rightarrow>
          let g1 = do_bridge cfg now (OpSetPolicy i mode) g;
              (updated, st) = updateSession i (\<lambda>x. x\<lparr>sessionPolicyMode := mode, lastUpdatedAt := toISOString now\<rparr>) (g_store g1);
              g2 = g1\<lparr>g_store := st\<rparr>;
              g3 = (case updated of
                      Some u \<Rightarrow> broadcastGateway (policy_message i (toISOString now) mode u) (Some u) g2
                    | None \<Rightarrow> g2)
          in (Reply \<lparr>rs_code = 200, rs_body = response\<rparr> None,
              send_all (JObj [(''method'', JStr ''remote/thread/resumed''),
                (''params'', JObj [(''threadId'', JStr i), (''response'', response)])]) g3)
      | AnsError e \<Rightarrow> (rethrow e, g)
      | _ \<Rightarrow> (Await (ResumeCodex i mode), g))"

section \<open>Stopping\<close>

text \<open>\<open>POST /sessions/:id/interrupt\<close>, \<open>POST /api/threads/:id/interrupt\<close> and \<open>POST /api/threads/:id/stop\<close>. The
  last one has no expiry; the last two report errors by throwing.\<close>

definition stop_refusal :: "stop_kind \<Rightarrow> nat \<Rightarrow> string \<Rightarrow> (string \<times> json option) list \<Rightarrow> fg_next" where
  "stop_refusal kind code error extra =
     (if kind = GatewayInterrupt then refuse code error extra else throw (HttpError (Some code) (Some error) error))"

definition post_stop :: "gateway_config \<Rightarrow> int \<Rightarrow> stop_kind \<Rightarrow> string \<Rightarrow> stop_body \<Rightarrow> gateway \<Rightarrow> fg_next \<times> gateway" where
  "post_stop cfg now kind i b g =
     (if \<not> (is_uuid i \<and> valid_stop cfg b) then (throw ValidationError, g)
      else if kind \<noteq> ApiStop \<and> isRequestExpired cfg now (sb_expiresAt b) then (stop_refusal kind 400 ''request_expired'' [], g)
      else (Await (StopContext kind i b (getSession (g_store g) i)), g))"

definition stop_context ::
  "gateway_config \<Rightarrow> stop_kind \<Rightarrow> string \<Rightarrow> stop_body \<Rightarrow> gateway_session option \<Rightarrow> answer \<Rightarrow> gateway \<Rightarrow> fg_next \<times> gateway" where
  "stop_context cfg kind i b session ans g =
     (case ans of
        AnsLookup pages fs timedOut \<Rightarrow>
          (case authorizedThreadContext cfg session pages fs timedOut i of
             Inl e \<Rightarrow> (rethrow e, g)
           | Inr None \<Rightarrow> (stop_refusal kind 404 ''session_not_found'' [(''sessionId'', Some (JStr i))], g)
           | Inr (Some cx) \<Rightarrow>
               if cx_workspace cx = None \<or> cx_workspace cx = Some [] then (stop_refusal kind 403 ''forbidden'' [], g)
               else
                 let turnId = opt_or (sb_turnId b) (case cx_session cx of Some s \<Rightarrow> prop_get (activeTurnId s) | None \<Rightarrow> None);
                     base = (case cx_session cx of
                               Some s \<Rightarrow> s
                             | None \<Rightarrow> threadToSession (cf_codexBin cfg) (the (cx_thread cx)) (Some Cancelled))
                 in (Await (StopAudit kind i base turnId), g))
      | AnsError e \<Rightarrow> (rethrow e, g)
      | _ \<Rightarrow> (Await (StopContext kind i b session), g))"

definition stop_audited ::
  "gateway_config \<Rightarrow> int \<Rightarrow> stop_kind \<Rightarrow> string \<Rightarrow> gateway_session \<Rightarrow> string option \<Rightarrow> answer \<Rightarrow> gateway \<Rightarrow> fg_next \<times> gateway" where
  "stop_audited cfg now kind i base turnId ans g =
     (case ans of
        AnsDone \<Rightarrow>
          let (session, g1) = settleInterruptedSession now i base turnId g;
              g2 = requestCodexInterrupt cfg now i turnId g1;
              g3 = (if kind = GatewayInterrupt then g2
                    else send_all (JObj [(''method'', JStr ''remote/turn/interrupted''),
                           (''params'', JObj ((''threadId'', JStr i) # spread_opt ''turnId'' turnId))]) g2)
          in (respond 200 [(''ok'', Some (JBool True)), (''session'', json_opt_session session),
                (''interruptRequested'', Some (JBool (turnId \<noteq> None \<and> turnId \<noteq> Some [])))], g3)
      | AnsError e \<Rightarrow> (rethrow e, g)
      | _ \<Rightarrow> (Await (StopAudit kind i base turnId), g))"

section \<open>Forking: \<open>POST /sessions/:id/fork\<close>\<close>

definition post_fork :: "gateway_config \<Rightarrow> int \<Rightarrow> string \<Rightarrow> policy_body \<Rightarrow> gateway \<Rightarrow> fg_next \<times> gateway" where
  "post_fork cfg now i b g =
     checked (is_uuid i \<and> len_in 1 80 (pb_threadSource b) \<and> opt_ok (cf_is_datetime cfg) (pb_expiresAt b))
       (expired_check cfg now (pb_expiresAt b))
       (Await (ForkLookup i b (getSession (g_store g) i)), g) g"

definition fork_looked_up ::
  "gateway_config \<Rightarrow> string \<Rightarrow> policy_body \<Rightarrow> gateway_session option \<Rightarrow> answer \<Rightarrow> gateway \<Rightarrow> fg_next \<times> gateway" where
  "fork_looked_up cfg i b session ans g =
     (case ans of
        AnsLookup pages fs timedOut \<Rightarrow>
          (case (case session of Some s \<Rightarrow> Inr (Some (workspacePath s)) | None \<Rightarrow> map_sum (\<lambda>e. e) (map_option t_cwd) (findThreadSummary pages i)) of
             Inl e \<Rightarrow> (rethrow e, g)
           | Inr None \<Rightarrow> (not_found i, g)
           | Inr (Some raw) \<Rightarrow>
               (case resolve_ws cfg fs timedOut raw False of
                  None \<Rightarrow> (forbidden, g)
                | Some ws \<Rightarrow>
                    let mode = (case opt_or (pb_policy b) (map_option sessionPolicyMode (getSession (g_store g) i)) of
                                  Some m \<Rightarrow> m | None \<Rightarrow> Confirm)
                    in if ws = [] then (forbidden, g)
                       else if fullAccessConfirmationRequired (Some mode) (pb_confirm b) None
                       then (refuse 400 ''full_access_confirmation_required'' [], g)
                       else (Await (ForkAudit i mode (pb_threadSource b)), g)))
      | AnsError e \<Rightarrow> (rethrow e, g)
      | _ \<Rightarrow> (Await (ForkLookup i b session), g))"

definition fork_audited :: "gateway_config \<Rightarrow> int \<Rightarrow> string \<Rightarrow> policy_mode \<Rightarrow> string \<Rightarrow> answer \<Rightarrow> gateway \<Rightarrow> fg_next \<times> gateway" where
  "fork_audited cfg now i mode src ans g =
     (case ans of
        AnsDone \<Rightarrow> (Await (ForkCodex i mode), do_bridge cfg now (OpFork i (Some mode) src) g)
      | AnsError e \<Rightarrow> (rethrow e, g)
      | _ \<Rightarrow> (Await (ForkAudit i mode src), g))"

text \<open>The thread of the answer as a summary; a text field that is absent is read as empty.\<close>

definition child_ms :: "int \<Rightarrow> json \<Rightarrow> string \<Rightarrow> string \<Rightarrow> js_number" where
  "child_ms now kid msKey sKey =
     (case numberField kid msKey of
        Some n \<Rightarrow> n
      | None \<Rightarrow> (case numberField kid sKey of Some n \<Rightarrow> if n = 0 then of_int now else n * 1000 | None \<Rightarrow> of_int now))"

definition child_summary :: "int \<Rightarrow> json \<Rightarrow> string \<Rightarrow> thread_summary" where
  "child_summary now kid childId =
     (let txt = (\<lambda>k. case str_field kid k of Some t \<Rightarrow> t | None \<Rightarrow> [])
      in \<lparr>t_id = childId, t_title = txt ''title'', t_cwd = txt ''cwd'', t_preview = txt ''preview'',
          t_model = str_field kid ''model'', t_modelProvider = txt ''modelProvider'', t_source = txt ''source'',
          t_status = txt ''status'', t_createdAtMs = child_ms now kid ''createdAtMs'' ''createdAt'',
          t_updatedAtMs = child_ms now kid ''updatedAtMs'' ''updatedAt'', t_tokensUsed = 0,
          t_archived = truthy (jget kid ''archived''), t_gitBranch = str_field kid ''gitBranch''\<rparr>)"

definition fork_answered :: "gateway_config \<Rightarrow> int \<Rightarrow> string \<Rightarrow> policy_mode \<Rightarrow> answer \<Rightarrow> gateway \<Rightarrow> fg_next \<times> gateway" where
  "fork_answered cfg now i mode ans g =
     (case ans of
        AnsJson response \<Rightarrow>
          (case (jget response ''thread'', as_str (jchain (jget response ''thread'') ''id'')) of
             (Some kid, Some childId) \<Rightarrow>
               if childId = [] then (respond 201 [(''thread'', Some response)], g)
               else
                 let session = threadToSession (cf_codexBin cfg) (child_summary now kid childId) (Some Starting);
                     g1 = on_store (upsertSession (session\<lparr>sessionPolicyMode := mode, lastUpdatedAt := toISOString now\<rparr>)) g;
                     g2 = broadcastGateway (plain_msg ''session-forked'' childId now
                            [(''sessionId'', Some (JStr childId)), (''parentSessionId'', Some (JStr i)),
                             (''forkedFromId'', jcoalesce (jget kid ''forkedFromId'') (Some (JStr i))),
                             (''session'', Some (json_session session))]) (Some session) g1
                 in (respond 201 [(''session'', json_opt_session (getSession (g_store g2) childId)), (''thread'', Some response)], g2)
           | _ \<Rightarrow> (respond 201 [(''thread'', Some response)], g))
      | AnsError e \<Rightarrow> (rethrow e, g)
      | _ \<Rightarrow> (Await (ForkCodex i mode), g))"

section \<open>Approvals: \<open>POST /sessions/:id/approvals/:requestId\<close>\<close>

definition post_approval :: "gateway_config \<Rightarrow> int \<Rightarrow> string \<Rightarrow> string \<Rightarrow> approval_body \<Rightarrow> gateway \<Rightarrow> fg_next \<times> gateway" where
  "post_approval cfg now i requestId b g =
     checked (is_uuid i \<and> valid_approval cfg requestId b)
       (expired_check cfg now (ab_expiresAt b)
        @ (case ab_requestId b of Some r \<Rightarrow> if r \<noteq> [] \<and> r \<noteq> requestId then [(400, ''request_id_mismatch'')] else [] | None \<Rightarrow> []))
       (Await (ApprovalContext i requestId b (getSession (g_store g) i)), g) g"

definition approval_context ::
  "gateway_config \<Rightarrow> string \<Rightarrow> string \<Rightarrow> approval_body \<Rightarrow> gateway_session option \<Rightarrow> answer \<Rightarrow> gateway \<Rightarrow> fg_next \<times> gateway" where
  "approval_context cfg i requestId b session ans g =
     (case ans of
        AnsLookup pages fs timedOut \<Rightarrow>
          (case authorizedThreadContext cfg session pages fs timedOut i of
             Inl e \<Rightarrow> (rethrow e, g)
           | Inr None \<Rightarrow> (not_found i, g)
           | Inr (Some cx) \<Rightarrow>
               if cx_workspace cx = None \<or> cx_workspace cx = Some [] then (forbidden, g)
               else (Await (ApprovalAudit i requestId b), g))
      | AnsError e \<Rightarrow> (rethrow e, g)
      | _ \<Rightarrow> (Await (ApprovalContext i requestId b session), g))"

definition approval_audited :: "gateway_config \<Rightarrow> int \<Rightarrow> string \<Rightarrow> string \<Rightarrow> approval_body \<Rightarrow> answer \<Rightarrow> gateway \<Rightarrow> fg_next \<times> gateway" where
  "approval_audited cfg now i requestId b ans g =
     (case ans of
        AnsDone \<Rightarrow>
          let resolved = fst (resolveApproval requestId (ab_decision b) (Some i) (ab_turnId b) (ab_amendment b) (g_bridge g));
              g1 = do_bridge cfg now (OpResolve requestId (ab_decision b) (Some i) (ab_turnId b) (ab_amendment b)) g;
              payload = [(''sessionId'', Some (JStr i)), (''requestId'', Some (JStr requestId)),
                         (''decision'', Some (JStr (case ab_decision b of Approve \<Rightarrow> ''approve'' | Deny \<Rightarrow> ''deny'')))]
          in if \<not> resolved then (refuse 404 ''approval_not_found'' [], g1)
             else (respond 200 ((''ok'', Some (JBool True)) # payload),
                   broadcastGateway (plain_msg ''approval-resolved'' i now payload) None g1)
      | AnsError e \<Rightarrow> (rethrow e, g)
      | _ \<Rightarrow> (Await (ApprovalAudit i requestId b), g))"

section \<open>Importing and listing\<close>

definition post_import :: "string \<Rightarrow> string option \<Rightarrow> gateway \<Rightarrow> fg_next \<times> gateway" where
  "post_import threadId ttl g =
     checked (is_uuid threadId \<and> opt_ok (len_in 0 200) ttl) [] (Await (ImportLookup threadId ttl), g) g"

definition import_looked_up :: "gateway_config \<Rightarrow> string \<Rightarrow> string option \<Rightarrow> answer \<Rightarrow> gateway \<Rightarrow> fg_next \<times> gateway" where
  "import_looked_up cfg threadId ttl ans g =
     (case ans of
        AnsLookup pages fs timedOut \<Rightarrow>
          (case findThreadSummary pages threadId of
             Inl e \<Rightarrow> (rethrow e, g)
           | Inr None \<Rightarrow> (refuse 404 ''session_not_found'' [(''threadId'', Some (JStr threadId))], g)
           | Inr (Some t) \<Rightarrow>
               (case resolve_ws cfg fs timedOut (t_cwd t) False of
                  None \<Rightarrow> (forbidden, g)
                | Some ws \<Rightarrow>
                    if ws = [] then (forbidden, g)
                    else
                      let session = threadToSession (cf_codexBin cfg) (t\<lparr>t_cwd := ws,
                            t_title := (case ttl of Some x \<Rightarrow> if x = [] then t_title t else x | None \<Rightarrow> t_title t)\<rparr>) None;
                          g1 = on_store (upsertSession session) g
                      in (respond 200 [(''session'', json_opt_session (getSession (g_store g1) (s_id session)))], g1)))
      | AnsError e \<Rightarrow> (rethrow e, g)
      | _ \<Rightarrow> (Await (ImportLookup threadId ttl), g))"

definition sessions_reply :: "gateway_session list \<Rightarrow> fg_next" where
  "sessions_reply ss = respond 200 [(''sessions'', Some (JArr (map json_session ss)))]"

definition get_sessions :: "gateway \<Rightarrow> fg_next \<times> gateway" where
  "get_sessions g =
     (let persisted = listSessions (g_store g)
      in (if persisted \<noteq> [] then Await (SessionsFilter persisted) else Await SessionsImport, g))"

definition sessions_filtered :: "gateway_config \<Rightarrow> gateway_session list \<Rightarrow> answer \<Rightarrow> gateway \<Rightarrow> fg_next \<times> gateway" where
  "sessions_filtered cfg ss ans g =
     (case ans of
        AnsFs fs timedOut \<Rightarrow> (sessions_reply (filterAllowedSessions (resolve_ws cfg fs timedOut) ss), g)
      | AnsError e \<Rightarrow> (rethrow e, g)
      | _ \<Rightarrow> (Await (SessionsFilter ss), g))"

definition imported_session :: "gateway_config \<Rightarrow> store \<Rightarrow> thread_summary \<Rightarrow> gateway_session" where
  "imported_session cfg st t =
     (let existing = getSession st (t_id t);
          session = threadToSession (cf_codexBin cfg) t (map_option status existing)
      in session\<lparr>
           status := (case existing of Some e \<Rightarrow> status e | None \<Rightarrow> status session),
           activeTurnId := (case existing of Some e \<Rightarrow> (if activeTurnId e = Missing then Undef else activeTurnId e) | None \<Rightarrow> Undef),
           lastUpdatedAt := latestIso (map_option lastUpdatedAt existing) (lastUpdatedAt session)\<rparr>)"

text \<open>A cold store: the threads of the index, or of the fallback, are imported once. An error in listing them
  counts as no thread.\<close>

definition sessions_imported :: "gateway_config \<Rightarrow> answer \<Rightarrow> gateway \<Rightarrow> fg_next \<times> gateway" where
  "sessions_imported cfg ans g =
     (case ans of
        AnsLookup pages fs timedOut \<Rightarrow>
          let threads = (case pages None of Inr (data, _) \<Rightarrow> data | Inl _ \<Rightarrow> []);
              imported = map (imported_session cfg (g_store g)) (filterAllowedThreads (resolve_ws cfg fs timedOut) threads);
              g1 = on_store (\<lambda>st. snd (upsertSessions imported st)) g
          in (sessions_reply (listSessions (g_store g1)), g1)
      | AnsError e \<Rightarrow> (rethrow e, g)
      | _ \<Rightarrow> (Await SessionsImport, g))"

definition json_thread :: "thread_summary \<Rightarrow> json" where
  "json_thread t = JObj [(''id'', JStr (t_id t)), (''title'', JStr (t_title t)), (''cwd'', JStr (t_cwd t)), (''preview'', JStr (t_preview t)),
     (''model'', case t_model t of Some m \<Rightarrow> JStr m | None \<Rightarrow> JNull), (''modelProvider'', JStr (t_modelProvider t)),
     (''source'', JStr (t_source t)), (''status'', JStr (t_status t)), (''createdAtMs'', JNum (t_createdAtMs t)),
     (''updatedAtMs'', JNum (t_updatedAtMs t)), (''tokensUsed'', JNum (t_tokensUsed t)), (''archived'', JBool (t_archived t)),
     (''gitBranch'', case t_gitBranch t of Some m \<Rightarrow> JStr m | None \<Rightarrow> JNull)]"

definition get_threads :: "js_number option \<Rightarrow> string option \<Rightarrow> gateway \<Rightarrow> fg_next \<times> gateway" where
  "get_threads limit cursor g = (Await (ThreadsList (case limit of Some n \<Rightarrow> n | None \<Rightarrow> 40) cursor), g)"

definition threads_listed :: "gateway_config \<Rightarrow> int \<Rightarrow> js_number \<Rightarrow> string option \<Rightarrow> answer \<Rightarrow> gateway \<Rightarrow> fg_next \<times> gateway" where
  "threads_listed cfg now limit cursor ans g =
     (case ans of
        AnsLookup pages fs timedOut \<Rightarrow>
          (case pages cursor of
             Inr (data, next) \<Rightarrow>
               let (listed, g1) = with_statuses cfg now (filterAllowedThreads (resolve_ws cfg fs timedOut) data) g
               in (respond 200 [(''data'', Some (JArr (map json_thread listed))),
                     (''nextCursor'', Some (case next of Some c \<Rightarrow> JStr c | None \<Rightarrow> JNull))], g1)
           | Inl e \<Rightarrow>
               (respond 200 [(''data'', Some (JArr (map (json_thread \<circ> sessionToThreadSummary (cf_date_parse cfg) (of_int now))
                    (filterAllowedSessions (resolve_ws cfg fs timedOut) (listSessions (g_store g)))))),
                  (''nextCursor'', Some JNull), (''degraded'', Some (JBool True)), (''error'', Some (JStr (err_message e)))], g))
      | AnsError e \<Rightarrow> (rethrow e, g)
      | _ \<Rightarrow> (Await (ThreadsList limit cursor), g))"

end
