(* ===== verification/GatewayRun.thy ===== *)
theory GatewayRun
  imports GatewayControl
begin

text \<open>
  Runs of the gateway. Node runs one piece of code at a time, so a run is a sequence of events: the
  arrival of a request, the end of an await of some handler, an operation of the bridge that its own
  timers, its child process or its audit log cause, the timers and completed writes of the store, and
  what the clients' sockets do. Nothing is assumed about the order of the events or about the answers.
\<close>

datatype route =
    PostSessions create_body
  | PostThreads create_body
  | PatchPolicy string policy_body
  | PostResume string policy_body
  | PostTurns string turn_body
  | PostApiTurns string turn_body
  | PostInterjection string interject_body
  | PostStop stop_kind string stop_body
  | PostFork string policy_body
  | PostApproval string string approval_body
  | PostImport string "string option"
  | GetSessions
  | GetThreads "js_number option" "string option"

fun start_request :: "gateway_config \<Rightarrow> int \<Rightarrow> route \<Rightarrow> gateway \<Rightarrow> fg_next \<times> gateway" where
  "start_request cfg now (PostSessions b) g = post_sessions cfg now b g"
| "start_request cfg now (PostThreads b) g = post_threads cfg now b g"
| "start_request cfg now (PatchPolicy i b) g = patch_policy cfg now i b g"
| "start_request cfg now (PostResume i b) g = post_resume cfg now i b g"
| "start_request cfg now (PostTurns i b) g = post_turns cfg now i b g"
| "start_request cfg now (PostApiTurns i b) g = post_api_turns cfg now i b g"
| "start_request cfg now (PostInterjection i b) g = post_interjection cfg now i b g"
| "start_request cfg now (PostStop kind i b) g = post_stop cfg now kind i b g"
| "start_request cfg now (PostFork i b) g = post_fork cfg now i b g"
| "start_request cfg now (PostApproval i r b) g = post_approval cfg now i r b g"
| "start_request cfg now (PostImport i ttl) g = post_import i ttl g"
| "start_request cfg now GetSessions g = get_sessions g"
| "start_request cfg now (GetThreads limit cursor) g = get_threads limit cursor g"

fun resume_fg :: "gateway_config \<Rightarrow> int \<Rightarrow> fg_task \<Rightarrow> answer \<Rightarrow> gateway \<Rightarrow> fg_next \<times> gateway" where
  "resume_fg cfg now (CreateWorkspace b) ans g = create_workspace cfg b ans g"
| "resume_fg cfg now (CreateAudit b ws) ans g = create_audited cfg now b ws ans g"
| "resume_fg cfg now (CreateThread b ws) ans g = create_started cfg now b ws ans g"
| "resume_fg cfg now (ApiThreadWorkspace b) ans g = threads_workspace cfg b ans g"
| "resume_fg cfg now (ApiThreadAudit b ws) ans g = threads_audited cfg now b ws ans g"
| "resume_fg cfg now (ApiThreadStart b) ans g = threads_started cfg now b ans g"
| "resume_fg cfg now (ApiThreadTurn tid response) ans g = threads_turn tid response ans g"
| "resume_fg cfg now (PolicyContext i b s) ans g = policy_context cfg now i b s ans g"
| "resume_fg cfg now (PolicyAudit i mode s ts) ans g = policy_audited i mode s ts ans g"
| "resume_fg cfg now (PolicySync s) ans g = policy_synced s ans g"
| "resume_fg cfg now (ResumeLookup i mode s) ans g = resume_looked_up cfg i mode s ans g"
| "resume_fg cfg now (ResumeAudit i mode) ans g = resume_audited cfg now i mode ans g"
| "resume_fg cfg now (ResumeCodex i mode) ans g = resume_answered cfg now i mode ans g"
| "resume_fg cfg now (TurnLookup i b receivedAt) ans g = turn_looked_up cfg now i b receivedAt ans g"
| "resume_fg cfg now (ApiTurnLookup i b s) ans g = api_turn_looked_up cfg now i b s ans g"
| "resume_fg cfg now (ApiTurnResume i b s t) ans g = api_turn_resumed i b s t ans g"
| "resume_fg cfg now (ApiTurnAttach i b s t) ans g = api_turn_attached cfg now i b s t ans g"
| "resume_fg cfg now (ApiTurnStart i b s t) ans g = api_turn_started cfg now i b s t ans g"
| "resume_fg cfg now (InterjectContext i b s) ans g = interject_context cfg now i b s ans g"
| "resume_fg cfg now (InterjectTurn i b cx stored) ans g = interject_turn now i b cx stored ans g"
| "resume_fg cfg now (InterjectAudit i b cx t) ans g = interject_audited i b cx t ans g"
| "resume_fg cfg now (InterjectAttach i b cx t) ans g = interject_attached cfg now i b cx t ans g"
| "resume_fg cfg now (InterjectSteer i b cx t atts) ans g = interject_steered cfg now i b cx t atts ans g"
| "resume_fg cfg now (StopContext kind i b s) ans g = stop_context cfg kind i b s ans g"
| "resume_fg cfg now (StopAudit kind i base turnId) ans g = stop_audited cfg now kind i base turnId ans g"
| "resume_fg cfg now (ForkLookup i b s) ans g = fork_looked_up cfg i b s ans g"
| "resume_fg cfg now (ForkAudit i mode src) ans g = fork_audited cfg now i mode src ans g"
| "resume_fg cfg now (ForkCodex i mode) ans g = fork_answered cfg now i mode ans g"
| "resume_fg cfg now (ApprovalContext i r b s) ans g = approval_context cfg i r b s ans g"
| "resume_fg cfg now (ApprovalAudit i r b) ans g = approval_audited cfg now i r b ans g"
| "resume_fg cfg now (ImportLookup i ttl) ans g = import_looked_up cfg i ttl ans g"
| "resume_fg cfg now (SessionsFilter ss) ans g = sessions_filtered cfg ss ans g"
| "resume_fg cfg now SessionsImport ans g = sessions_imported cfg ans g"
| "resume_fg cfg now (ThreadsList limit cursor) ans g = threads_listed cfg now limit cursor ans g"

fun resume_bg :: "gateway_config \<Rightarrow> int \<Rightarrow> bg_task \<Rightarrow> answer \<Rightarrow> gateway \<Rightarrow> bg_next \<times> gateway" where
  "resume_bg cfg now (FirstTurn b tid response) ans g = first_turn now b tid response ans g"
| "resume_bg cfg now (TurnResume r) ans g = turn_resumed now r ans g"
| "resume_bg cfg now (TurnAttach r) ans g = turn_attached cfg now r ans g"
| "resume_bg cfg now (TurnStart r) ans g = turn_started cfg now r ans g"

text \<open>The bookkeeping of the event loop.\<close>

fun settle_fg :: "nat \<Rightarrow> fg_next \<Rightarrow> gateway \<Rightarrow> gateway" where
  "settle_fg k (Await t) g = g\<lparr>fg_tasks := AList.update k t (fg_tasks g)\<rparr>"
| "settle_fg k (Reply r bg) g = g\<lparr>fg_tasks := AList.delete k (fg_tasks g),
     bg_tasks := (case bg of Some t \<Rightarrow> AList.update k t (bg_tasks g) | None \<Rightarrow> bg_tasks g), replies := replies g @ [(k, r)]\<rparr>"

fun settle_bg :: "nat \<Rightarrow> bg_next \<Rightarrow> gateway \<Rightarrow> gateway" where
  "settle_bg k (Continue t) g = g\<lparr>bg_tasks := AList.update k t (bg_tasks g)\<rparr>"
| "settle_bg k Finished g = g\<lparr>bg_tasks := AList.delete k (bg_tasks g)\<rparr>"

text \<open>The operations of the bridge that no handler of this model performs itself. The requests are those of
  the lookups (\<open>thread/list\<close>, \<open>thread/read\<close>) and of the model list.\<close>

fun env_op :: "bridge_op \<Rightarrow> bool" where
  "env_op (OpRequest rpc params t) = (rpc \<in> {''thread/list'', ''thread/read'', ''model/list''})"
| "env_op (OpSetPolicy threadId mode) = False"
| "env_op (OpResume threadId mode) = False"
| "env_op (OpFork threadId mode src) = False"
| "env_op (OpStartThread cwd mode options) = False"
| "env_op (OpStartTurn threadId txt atts mode options) = False"
| "env_op (OpResolve rid v threadId turnId amendment) = False"
| "env_op _ = True"

datatype gateway_event =
    Arrive route
  | AnswerFg nat answer
  | AnswerBg nat answer
  | BridgeRuns bridge_op
  | SnapshotTimer
  | WriteDone string string
  | ClientConnects nat json
  | ClientText nat string
  | ClientDrains nat int
  | ClientBeats nat bool
  | ClientPongs nat
  | ClientFails nat bool
  | ClientCloses nat

definition on_client :: "nat \<Rightarrow> (client \<Rightarrow> client) \<Rightarrow> gateway \<Rightarrow> gateway" where
  "on_client c f g = g\<lparr>g_clients := map (\<lambda>(i, x). (i, if i = c then f x else x)) (g_clients g)\<rparr>"

definition client_text :: "gateway_config \<Rightarrow> int \<Rightarrow> nat \<Rightarrow> string \<Rightarrow> gateway \<Rightarrow> gateway" where
  "client_text cfg now c raw g =
     (case map_of (g_clients g) c of
        None \<Rightarrow> g
      | Some x \<Rightarrow>
          let (x', st) = ws_message (cf_parse cfg) (cf_gatewayName cfg) now raw x (g_store g)
          in g\<lparr>g_store := st, g_clients := AList.update c x' (g_clients g)\<rparr>)"

fun gateway_step :: "gateway_config \<Rightarrow> int \<Rightarrow> gateway_event \<Rightarrow> gateway \<Rightarrow> gateway" where
  "gateway_step cfg now (Arrive r) g =
     (let (n, g1) = start_request cfg now r (g\<lparr>nextRequest := nextRequest g + 1\<rparr>) in settle_fg (nextRequest g) n g1)"
| "gateway_step cfg now (AnswerFg k ans) g =
     (case map_of (fg_tasks g) k of
        None \<Rightarrow> g
      | Some t \<Rightarrow> (let (n, g1) = resume_fg cfg now t ans g in settle_fg k n g1))"
| "gateway_step cfg now (AnswerBg k ans) g =
     (case map_of (bg_tasks g) k of
        None \<Rightarrow> g
      | Some t \<Rightarrow> (let (n, g1) = resume_bg cfg now t ans g in settle_bg k n g1))"
| "gateway_step cfg now (BridgeRuns op) g = (if env_op op then do_bridge cfg now op g else g)"
| "gateway_step cfg now SnapshotTimer g = on_store persist_timer_fires g"
| "gateway_step cfg now (WriteDone err file) g = on_store (write_step err file) g"
| "gateway_step cfg now (ClientConnects c codexStatus) g =
     (let (x, st) = ws_connect (toISOString now) (cf_gatewayName cfg) codexStatus (g_store g)
      in g\<lparr>g_store := st, g_clients := AList.update c x (g_clients g)\<rparr>)"
| "gateway_step cfg now (ClientText c raw) g = client_text cfg now c raw g"
| "gateway_step cfg now (ClientDrains c n) g = on_client c (drained n) g"
| "gateway_step cfg now (ClientBeats c pingThrows) g = on_client c (heartbeat pingThrows) g"
| "gateway_step cfg now (ClientPongs c) g = on_client c pong g"
| "gateway_step cfg now (ClientFails c throws) g = on_client c (\<lambda>x. x\<lparr>send_throws := throws\<rparr>) g"
| "gateway_step cfg now (ClientCloses c) g = g\<lparr>g_clients := AList.delete c (g_clients g)\<rparr>"

text \<open>A run: events with their times.\<close>

definition gateway_run :: "gateway_config \<Rightarrow> (int \<times> gateway_event) list \<Rightarrow> gateway \<Rightarrow> gateway" where
  "gateway_run cfg evs g = fold (\<lambda>(now, ev). gateway_step cfg now ev) evs g"

end
