(* ===== verification/GatewayInv.thy ===== *)
theory GatewayInv
  imports GatewayRun StoreLedger
begin

text \<open>
  Invariants of the gateway. A run of the gateway goes through some fifty pieces of handlers, and an
  invariant has to be kept by each of them. The locale \<open>gateway_invariant\<close> says which changes of the
  state an invariant has to survive, in terms of the primitive updates that the handlers are made of;
  that it then survives every run is proved once, in the locale. The properties of the gateway are
  interpretations of it.
\<close>

section \<open>Sessions in the store\<close>

text \<open>Every stored session satisfies a predicate.\<close>

definition all_sessions :: "(gateway_session \<Rightarrow> bool) \<Rightarrow> store \<Rightarrow> bool" where
  "all_sessions Q st = (\<forall>x\<in>set (sessions st). Q (snd x))"


named_theorems kept \<open>operations that keep a property of the stored sessions\<close>

lemma all_sessions_same: "sessions st' = sessions st \<Longrightarrow> all_sessions Q st \<Longrightarrow> all_sessions Q st'"
  by (simp add: all_sessions_def)

lemma getSession_all: "all_sessions Q st \<Longrightarrow> getSession st i = Some s \<Longrightarrow> Q s"
  unfolding all_sessions_def getSession_def by (auto dest!: map_of_SomeD)

lemma saveSession_kept [kept]: "all_sessions Q st \<Longrightarrow> Q s \<Longrightarrow> all_sessions Q (saveSession s st)"
  unfolding all_sessions_def saveSession_def by (auto dest!: set_update_cases)

lemma updateSession_kept [kept]:
  "all_sessions Q st \<Longrightarrow> (\<And>x. Q x \<Longrightarrow> Q (f x)) \<Longrightarrow> all_sessions Q (snd (updateSession i f st))"
  unfolding updateSession_def by (auto simp: Let_def intro: saveSession_kept dest: getSession_all split: option.splits)

lemma updateSession_result:
  "updateSession i f st = (Some u, st') \<Longrightarrow> all_sessions Q st \<Longrightarrow> (\<And>x. Q x \<Longrightarrow> Q (f x)) \<Longrightarrow> Q u"
  unfolding updateSession_def by (auto simp: Let_def dest: getSession_all split: option.splits)

lemma events_keep_sessions [simp]:
  "sessions (snd (getCachedEvents i st)) = sessions st"
  "sessions (cacheEvents i es c st) = sessions st"
  "sessions (snd (listEventsAfter i n st)) = sessions st"
  by (simp_all add: getCachedEvents_def cacheEvents_def listEventsAfter_def case_prod_beta split: option.splits)

lemma requests_keep_sessions [simp]:
  "sessions (releaseClientRequest i r st) = sessions st"
  "sessions (releaseCreateRequest r st) = sessions st"
  "sessions (rememberCreateRequest now r i st) = sessions st"
  "sessions (snd (reserveCreateRequest now r st)) = sessions st"
  using getCreate_frame(2) [of r st]
  by (auto simp: releaseClientRequest_def releaseCreateRequest_def rememberCreateRequest_def reserveCreateRequest_def
      reserve_new_frame Let_def split: prod.splits option.splits)

lemma latestCursors_keeps_sessions [simp]: "sessions (snd (latestCursors st)) = sessions st"
proof -
  have "sessions (snd (fold (\<lambda>session (cursors, st). let (latest, st') = latest_seq (s_id session) st
             in (case latest of Some n \<Rightarrow> if n \<noteq> 0 then AList.update (s_id session) n cursors else cursors | None \<Rightarrow> cursors, st'))
           xs (c, st))) = sessions st" for xs c st
  proof (induction xs arbitrary: c st)
    case (Cons x xs)
    obtain n st' where q: "latest_seq (s_id x) st = (n, st')" by fastforce
    have "sessions st' = sessions st" using event_ops_sessions(2) [of "s_id x" st] q by simp
    then show ?case using Cons by (simp add: q)
  qed simp
  then show ?thesis by (simp add: latestCursors_def)
qed

text \<open>The predicates of interest depend on the policy of a session only.\<close>

definition mode_ok :: "(policy_mode \<Rightarrow> bool) \<Rightarrow> gateway_session \<Rightarrow> bool" where
  "mode_ok M s = M (sessionPolicyMode s)"

lemma merge_mode [simp]: "sessionPolicyMode (merge_session e s) = sessionPolicyMode s"
  by (simp add: merge_session_def session_spread_def split: option.splits)

lemma upsertSession_kept [kept]:
  "all_sessions (mode_ok M) st \<Longrightarrow> M (sessionPolicyMode s) \<Longrightarrow> all_sessions (mode_ok M) (upsertSession s st)"
  unfolding upsertSession_def by (rule saveSession_kept) (simp_all add: mode_ok_def)

lemma rememberClientRequest_kept [kept]:
  assumes "all_sessions (mode_ok M) st"
  shows "all_sessions (mode_ok M) (rememberClientRequest i r st)"
proof -
  have 1: "all_sessions (mode_ok M) (releaseClientRequest i r st)" using assms by (rule all_sessions_same [rotated]) simp
  then show ?thesis
    using assms by (auto simp: rememberClientRequest_def Let_def mode_ok_def intro!: saveSession_kept dest: getSession_all split: option.splits)
qed

lemma linkSubagent_kept [kept]:
  assumes "all_sessions (mode_ok M) st"
  shows "all_sessions (mode_ok M) (linkSubagent p c st)"
proof -
  have "all_sessions (mode_ok M) (persistRelations (st\<lparr>subagentRelations := r\<rparr>))" for r
    using assms by (rule all_sessions_same [rotated]) simp
  then show ?thesis
    using assms by (auto simp: linkSubagent_def Let_def mode_ok_def intro!: updateSession_kept)
qed

lemma upsertSessions_kept [kept]:
  assumes "all_sessions (mode_ok M) st" "\<forall>s\<in>set xs. M (sessionPolicyMode s)"
  shows "all_sessions (mode_ok M) (snd (upsertSessions xs st))"
proof -
  have "\<forall>x\<in>set m. mode_ok M (snd x) \<Longrightarrow>
      \<forall>x\<in>set (fold (\<lambda>x m. AList.update (s_id x) (merge_session (map_of m (s_id x)) x) m) xs m). mode_ok M (snd x)" for m
    using assms(2)
  proof (induction xs arbitrary: m)
    case (Cons a xs)
    let ?m = "AList.update (s_id a) (merge_session (map_of m (s_id a)) a) m"
    have "\<forall>x\<in>set ?m. mode_ok M (snd x)"
      using Cons.prems by (auto simp: mode_ok_def dest!: set_update_cases)
    from Cons.IH [OF this] Cons.prems(2) show ?case by simp
  qed simp
  then show ?thesis using assms(1) by (simp add: upsertSessions_def all_sessions_def Let_def)
qed

lemma persistSubagentRelation_kept [kept]:
  "all_sessions (mode_ok M) st \<Longrightarrow> all_sessions (mode_ok M) (persistSubagentRelation m st)"
  by (auto simp: persistSubagentRelation_def Let_def intro: linkSubagent_kept split: option.splits)

lemma threadToSession_mode [simp]: "sessionPolicyMode (threadToSession bin t st) = Confirm"
  by (simp add: threadToSession_def bare_session_def Let_def)

lemma minimalSession_mode [simp]: "sessionPolicyMode (minimalSession bin cwd now i p st) = Confirm"
  by (simp add: minimalSession_def bare_session_def)

section \<open>What a handler may carry\<close>

text \<open>\<open>M\<close> is the set of policies that may be in force: those of the stored sessions, of the operations of the
  bridge and of the suspended handlers. \<open>W\<close> is the set of the workspaces that threads may be started in, given that the file system is one of
  \<open>F\<close> whenever a workspace is checked. A body that confirms full access is admissible only when full
  access is in \<open>M\<close>.\<close>

fun op_ok :: "(policy_mode \<Rightarrow> bool) \<Rightarrow> (string \<Rightarrow> bool) \<Rightarrow> bridge_op \<Rightarrow> bool" where
  "op_ok M W (OpSetPolicy threadId mode) = M mode"
| "op_ok M W (OpResume threadId mode) = (mode \<noteq> None \<longrightarrow> M (the mode))"
| "op_ok M W (OpFork threadId mode src) = (mode \<noteq> None \<longrightarrow> M (the mode))"
| "op_ok M W (OpStartTurn threadId txt atts mode options) = (mode \<noteq> None \<longrightarrow> M (the mode))"
| "op_ok M W (OpStartThread ws mode options) = W ws"
| "op_ok M W _ = True"

definition confirm_ok :: "(policy_mode \<Rightarrow> bool) \<Rightarrow> bool option \<Rightarrow> bool" where
  "confirm_ok M confirmed = (confirmed = Some True \<longrightarrow> M FullAccess)"

definition opt_mode_ok :: "(policy_mode \<Rightarrow> bool) \<Rightarrow> gateway_session option \<Rightarrow> bool" where
  "opt_mode_ok M s = (\<forall>x. s = Some x \<longrightarrow> M (sessionPolicyMode x))"

fun task_ok :: "(policy_mode \<Rightarrow> bool) \<Rightarrow> (string \<Rightarrow> bool) \<Rightarrow> fg_task \<Rightarrow> bool" where
  "task_ok M W (CreateWorkspace b) = M (cb_policy b)"
| "task_ok M W (CreateAudit b ws) = (M (cb_policy b) \<and> W ws)"
| "task_ok M W (CreateThread b ws) = M (cb_policy b)"
| "task_ok M W (ApiThreadWorkspace b) = M (cb_policy b)"
| "task_ok M W (ApiThreadAudit b ws) = (M (cb_policy b) \<and> W ws)"
| "task_ok M W (ApiThreadStart b) = M (cb_policy b)"
| "task_ok M W (PolicyContext i b s) = (confirm_ok M (pb_confirm b) \<and> opt_mode_ok M s)"
| "task_ok M W (PolicyAudit i mode s ts) = M (sessionPolicyMode s)"
| "task_ok M W (ResumeLookup i mode s) = M mode"
| "task_ok M W (ResumeAudit i mode) = M mode"
| "task_ok M W (ResumeCodex i mode) = M mode"
| "task_ok M W (TurnLookup i b receivedAt) = confirm_ok M (tb_confirm b)"
| "task_ok M W (StopContext kind i b s) = opt_mode_ok M s"
| "task_ok M W (StopAudit kind i base turnId) = M (sessionPolicyMode base)"
| "task_ok M W (ForkLookup i b s) = confirm_ok M (pb_confirm b)"
| "task_ok M W (ForkAudit i mode src) = M mode"
| "task_ok M W (ForkCodex i mode) = M mode"
| "task_ok M W _ = True"

fun ans_ok :: "(fs_view \<Rightarrow> bool) \<Rightarrow> answer \<Rightarrow> bool" where
  "ans_ok F (AnsFs fs timedOut) = F fs"
| "ans_ok F _ = True"

fun bg_ok :: "(policy_mode \<Rightarrow> bool) \<Rightarrow> bg_task \<Rightarrow> bool" where
  "bg_ok M (FirstTurn b threadId response) = True"
| "bg_ok M (TurnResume r) = M (tr_policy r)"
| "bg_ok M (TurnAttach r) = M (tr_policy r)"
| "bg_ok M (TurnStart r) = M (tr_policy r)"

fun next_ok :: "(policy_mode \<Rightarrow> bool) \<Rightarrow> (string \<Rightarrow> bool) \<Rightarrow> fg_next \<Rightarrow> bool" where
  "next_ok M W (Await t) = task_ok M W t"
| "next_ok M W (Reply r bg) = (\<forall>t. bg = Some t \<longrightarrow> bg_ok M t)"

fun bg_next_ok :: "(policy_mode \<Rightarrow> bool) \<Rightarrow> bg_next \<Rightarrow> bool" where
  "bg_next_ok M (Continue t) = bg_ok M t"
| "bg_next_ok M Finished = True"

fun route_ok :: "(policy_mode \<Rightarrow> bool) \<Rightarrow> route \<Rightarrow> bool" where
  "route_ok M (PostSessions b) = confirm_ok M (cb_confirm b)"
| "route_ok M (PostThreads b) = confirm_ok M (cb_confirm b)"
| "route_ok M (PatchPolicy i b) = confirm_ok M (pb_confirm b)"
| "route_ok M (PostResume i b) = confirm_ok M (pb_confirm b)"
| "route_ok M (PostTurns i b) = confirm_ok M (tb_confirm b)"
| "route_ok M (PostFork i b) = confirm_ok M (pb_confirm b)"
| "route_ok M _ = True"

lemma replies_ok [simp]:
  "next_ok M W (respond c fs)" "next_ok M W (refuse c e fs)" "next_ok M W (throw h)" "next_ok M W (rethrow j)" "next_ok M W forbidden"
  "next_ok M W (not_found i)" "next_ok M W (accepted_duplicate s p)" "next_ok M W (stop_refusal kind c e fs)" "next_ok M W (sessions_reply ss)"
  by (simp_all add: respond_def refuse_def throw_def rethrow_def forbidden_def not_found_def accepted_duplicate_def
      stop_refusal_def sessions_reply_def)

lemma admitted_mode:
  assumes "\<not> fullAccessConfirmationRequired (Some m) c current" "confirm_ok M c" "M Confirm" "\<And>x. current = Some x \<Longrightarrow> M x"
  shows "M m"
  using assms by (cases m) (auto simp: fullAccessConfirmationRequired_def confirm_ok_def)

section \<open>Invariants\<close>

locale gateway_invariant =
  fixes cfg :: gateway_config and P :: "gateway \<Rightarrow> bool" and M :: "policy_mode \<Rightarrow> bool"
    and W :: "string \<Rightarrow> bool" and F :: "fs_view \<Rightarrow> bool"
  assumes confirm_in: "M Confirm"
    and workspace_in: "F fs \<Longrightarrow> resolve_ws cfg fs timedOut raw False = Some ws \<Longrightarrow> W ws"
    and sessions_in: "P g \<Longrightarrow> all_sessions (mode_ok M) (g_store g)"
    and store_kept: "P g \<Longrightarrow> all_sessions (mode_ok M) st \<Longrightarrow> P (g\<lparr>g_store := st\<rparr>)"
    and gate_kept: "P g \<Longrightarrow> P (g\<lparr>g_gate := gate\<rparr>)"
    and live_kept: "P g \<Longrightarrow> P (g\<lparr>processLiveSessionIds := ids\<rparr>)"
    and cancelled_kept: "P g \<Longrightarrow> P (g\<lparr>cancelledSessions := ids\<rparr>)"
    and parents_kept: "P g \<Longrightarrow> P (g\<lparr>subagentParents := m\<rparr>)"
    and clients_kept: "P g \<Longrightarrow> P (g\<lparr>g_clients := cs\<rparr>)"
    and runs_kept: "P g \<Longrightarrow> P (g\<lparr>g_runs := snd (begin_run (g_runs g) i)\<rparr>)"
    and bridge_kept: "P g \<Longrightarrow> op_ok M W op
      \<Longrightarrow> P (g\<lparr>g_bridge := bridge_step (cf_parse cfg) op (g_bridge g), bridgeOps := bridgeOps g @ [op]\<rparr>)"
begin

lemma on_store_kept: "P g \<Longrightarrow> (all_sessions (mode_ok M) (g_store g) \<Longrightarrow> all_sessions (mode_ok M) (f (g_store g))) \<Longrightarrow> P (on_store f g)"
  unfolding on_store_def by (blast intro: store_kept sessions_in)

lemma sets_kept:
  "P g \<Longrightarrow> P (set_live i g)" "P g \<Longrightarrow> P (set_idle i g)" "P g \<Longrightarrow> P (open_gate i g)" "P g \<Longrightarrow> P (send_all j g)"
  by (simp_all add: set_live_def set_idle_def open_gate_def send_all_def live_kept gate_kept clients_kept)

lemma own_session: "P g \<Longrightarrow> getSession (g_store g) i = Some s \<Longrightarrow> M (sessionPolicyMode s)"
  using sessions_in getSession_all unfolding mode_ok_def by metis

lemma requests_kept:
  "P g \<Longrightarrow> P (release_create r g)" "P g \<Longrightarrow> P (release_client i r g)" "P g \<Longrightarrow> P (remember_client i r g)"
  "P g \<Longrightarrow> P (snd (reserve_client now i r g))" "P g \<Longrightarrow> P (snd (try_acquire i r r' g))"
proof -
  assume g: "P g"
  show "P (release_create r g)" "P (release_client i r g)" "P (remember_client i r g)"
    using g by (auto simp: release_create_def release_client_def remember_client_def
        intro!: on_store_kept rememberClientRequest_kept intro: all_sessions_same [rotated] split: option.splits)
  have "all_sessions (mode_ok M) (snd (reserveClientRequest now i x (g_store g)))" for x
    using sessions_in [OF g] by (rule all_sessions_same [rotated]) simp
  then show "P (snd (reserve_client now i r g))"
    using g by (auto simp: reserve_client_def split_beta intro: store_kept split: option.splits)
  show "P (snd (try_acquire i r r' g))" using g by (simp add: try_acquire_def split_beta gate_kept)
qed

lemma apply_message_kept:
  assumes "P g" "opt_mode_ok M s"
  shows "P (snd (apply_message m s g))"
proof -
  have upd: "P (on_store (\<lambda>st. snd (updateSession i f st)) g')"
    if "P g'" "\<And>x. sessionPolicyMode (f x) = sessionPolicyMode x" for i f g'
    using that by (auto intro!: on_store_kept updateSession_kept simp: mode_ok_def)
  have "P (snd (take_session x g))" if "s = Some x" for x
    using that assms by (auto simp: take_session_def opt_mode_ok_def intro!: on_store_kept upsertSession_kept sets_kept)
  moreover have "P (take_finished i m g)" "P (take_approval i m g)" for i
    unfolding take_finished_def take_approval_def by (rule upd; simp add: sets_kept assms)+
  moreover have "P (snd (take_status i m g))" for i
    using assms by (auto simp: take_status_def intro!: upd sets_kept split: option.splits)
  ultimately show ?thesis using assms(1) by (auto simp: apply_message_def split: option.splits)
qed

lemma broadcastGateway_kept:
  assumes "P g" "opt_mode_ok M s"
  shows "P (broadcastGateway m s g)"
proof -
  obtain persisted st1 where a: "appendEvent m (g_store g) = (persisted, st1)" by fastforce
  let ?m = "case persisted of Some p \<Rightarrow> p | None \<Rightarrow> m"
  let ?st = "persistSubagentRelation ?m (snd (takeEventWriteErrors st1))"
  have "all_sessions (mode_ok M) st1"
    using sessions_in [OF assms(1)] event_ops_sessions(3) [of m "g_store g"] a by (auto intro: all_sessions_same [rotated])
  then have "all_sessions (mode_ok M) ?st"
    by (intro persistSubagentRelation_kept all_sessions_same [of "snd (takeEventWriteErrors st1)" st1]) simp_all
  from apply_message_kept [OF store_kept [OF assms(1) this] assms(2)]
  show ?thesis by (auto simp: broadcastGateway_def a Let_def split_beta intro: sets_kept)
qed

lemma on_effect_kept: "P g \<Longrightarrow> P (on_effect now e g)"
proof (cases e)
  case (EmitEvent rpc params)
  assume "P g"
  then show ?thesis
    by (auto simp: EmitEvent on_codex_event_def Let_def opt_mode_ok_def intro!: broadcastGateway_kept parents_kept sets_kept
        split: prod.splits option.splits)
qed (simp_all add: sets_kept)

lemma do_bridge_kept:
  assumes "P g" "op_ok M W op"
  shows "P (do_bridge cfg now op g)"
proof -
  have "P (fold (on_effect now) es g')" if "P g'" for es g'
    using that by (induction es arbitrary: g') (simp_all add: on_effect_kept)
  from this [OF bridge_kept [OF assms]] show ?thesis unfolding do_bridge_def Let_def .
qed

lemmas prims = on_store_kept sets_kept requests_kept broadcastGateway_kept do_bridge_kept

end

end
