(* ===== verification/GatewaySteps.thy ===== *)
theory GatewaySteps
  imports GatewayInv
begin

text \<open>
  Every handler keeps an invariant: the lemmas of the locale \<open>gateway_invariant\<close> for the single
  continuations, for the steps and for the runs of the gateway.
\<close>

definition good :: "(gateway \<Rightarrow> bool) \<Rightarrow> (policy_mode \<Rightarrow> bool) \<Rightarrow> (string \<Rightarrow> bool) \<Rightarrow> fg_next \<times> gateway \<Rightarrow> bool" where
  "good P M W r = (P (snd r) \<and> next_ok M W (fst r))"

definition bg_good :: "(gateway \<Rightarrow> bool) \<Rightarrow> (policy_mode \<Rightarrow> bool) \<Rightarrow> bg_next \<times> gateway \<Rightarrow> bool" where
  "bg_good P M r = (P (snd r) \<and> bg_next_ok M (fst r))"

lemma good_simps [simp]:
  "good P M W (n, g) = (P g \<and> next_ok M W n)" "bg_good P M (b, g) = (P g \<and> bg_next_ok M b)"
  by (simp_all add: good_def bg_good_def)

text \<open>The contents of a message do not matter for an invariant: the simplifier leaves them alone.\<close>

lemma broadcast_cong: "s = s' \<Longrightarrow> g = g' \<Longrightarrow> broadcastGateway m s g = broadcastGateway m s' g'"
  by simp

lemma send_all_cong: "g = g' \<Longrightarrow> send_all j g = send_all j g'"
  by simp

context gateway_invariant
begin

lemma checked_good:
  "P g \<Longrightarrow> (refusals = [] \<Longrightarrow> good P M W cont) \<Longrightarrow> good P M W (checked v refusals cont g)"
  by (auto simp: checked_def split: list.splits)

lemma create_routes:
  "P g \<Longrightarrow> confirm_ok M (cb_confirm b) \<Longrightarrow> good P M W (post_sessions cfg now b g)"
  "P g \<Longrightarrow> confirm_ok M (cb_confirm b) \<Longrightarrow> good P M W (post_threads cfg now b g)"
proof -
  assume g: "P g" and c: "confirm_ok M (cb_confirm b)"
  have m: "M (cb_policy b)" if "access_check (Some (cb_policy b)) (cb_confirm b) None = []"
    using that c confirm_in by (auto simp: access_check_def intro: admitted_mode split: if_splits)
  have r: "all_sessions (mode_ok M) (snd (reserveCreateRequest now rid (g_store g)))" for rid
    using sessions_in [OF g] by (rule all_sessions_same [rotated]) simp
  show "good P M W (post_sessions cfg now b g)"
    unfolding post_sessions_def
    by (rule checked_good) (use g m store_kept [OF g r] in \<open>auto simp: Let_def split_beta split: option.splits create_reservation.splits\<close>)
  show "good P M W (post_threads cfg now b g)"
    unfolding post_threads_def by (rule checked_good) (use g m in auto)
qed

lemma create_steps:
  assumes "P g" "M (cb_policy b)"
  shows "ans_ok F ans \<Longrightarrow> good P M W (create_workspace cfg b ans g)" "W ws \<Longrightarrow> good P M W (create_audited cfg now b ws ans g)"
    "ans_ok F ans \<Longrightarrow> good P M W (threads_workspace cfg b ans g)" "W ws \<Longrightarrow> good P M W (threads_audited cfg now b ws ans g)"
    "good P M W (threads_started cfg now b ans g)"
  unfolding create_workspace_def create_audited_def threads_workspace_def threads_audited_def threads_started_def
  using assms by (auto intro!: prims dest: workspace_in split: answer.splits option.splits)

lemma threads_turn_good: "P g \<Longrightarrow> good P M W (threads_turn tid response ans g)"
  unfolding threads_turn_def Let_def by (auto intro!: sets_kept split: answer.splits)

lemma updates_kept:
  "P g \<Longrightarrow> (\<And>x. sessionPolicyMode (f x) = sessionPolicyMode x) \<Longrightarrow> P (on_store (\<lambda>st. snd (updateSession i f st)) g)"
  by (auto intro!: on_store_kept updateSession_kept simp: mode_ok_def)

lemma fail_turn_kept: "P g \<Longrightarrow> P (fail_turn now i e g)"
  by (auto simp: fail_turn_def Let_def opt_mode_ok_def intro!: broadcastGateway_kept updates_kept sets_kept)

lemma remember_both_kept:
  "P g \<Longrightarrow> P (on_store (\<lambda>st. rememberClientRequest i r (rememberCreateRequest now r i st)) g)"
  by (rule on_store_kept) (auto intro!: rememberClientRequest_kept intro: all_sessions_same [rotated])

lemma create_started_good:
  assumes "P g" "M (cb_policy b)"
  shows "good P M W (create_started cfg now b ws ans g)"
proof -
  have s: "sessionPolicyMode (created_session cfg now b ws tid) = cb_policy b" for tid by (simp add: created_session_def)
  show ?thesis
    unfolding create_started_def Let_def split_beta
    using assms
    by (auto simp: s opt_mode_ok_def mode_ok_def cong: broadcast_cong
        intro!: requests_kept do_bridge_kept broadcastGateway_kept sets_kept remember_both_kept on_store_kept saveSession_kept
        split: answer.splits option.splits)
qed

lemma first_turn_good: "P g \<Longrightarrow> bg_good P M (first_turn now b tid response ans g)"
  unfolding first_turn_def Let_def
  by (auto simp: opt_mode_ok_def cong: broadcast_cong send_all_cong
      intro!: sets_kept broadcastGateway_kept updates_kept fail_turn_kept split: answer.splits)

lemma persisted_mode: "P g \<Longrightarrow> opt_mode_ok M (getSession (g_store g) i)"
  by (auto simp: opt_mode_ok_def intro: own_session)

lemma turn_policy_in:
  assumes "\<not> fullAccessConfirmationRequired (tb_policy b) (tb_confirm b) (map_option sessionPolicyMode s)"
    "confirm_ok M (tb_confirm b)" "opt_mode_ok M s"
  shows "M (turn_policy b s)"
proof (cases "tb_policy b")
  case None
  then show ?thesis using assms(3) confirm_in by (auto simp: turn_policy_def opt_mode_ok_def split: option.splits)
next
  case (Some m)
  have "M m" by (rule admitted_mode [of m "tb_confirm b" "map_option sessionPolicyMode s"])
      (use assms confirm_in Some in \<open>auto simp: opt_mode_ok_def\<close>)
  then show ?thesis by (simp add: turn_policy_def Some)
qed

lemma turn_admitted_good:
  assumes "P g" "M (turn_policy b s)" "sessionPolicyMode x = turn_policy b s"
  shows "good P M W (turn_admitted cfg now i b receivedAt s x g)"
proof -
  have r: "P (g\<lparr>cancelledSessions := ids, g_runs := snd (begin_run (g_runs g) i)\<rparr>)" for ids
    using runs_kept [OF cancelled_kept [OF assms(1), of ids], of i] by simp
  show ?thesis
    unfolding turn_admitted_def Let_def split_beta
    using assms
    by (auto simp: opt_mode_ok_def cong: broadcast_cong
        intro!: do_bridge_kept broadcastGateway_kept requests_kept on_store_kept upsertSession_kept sets_kept r)
qed

lemma turn_checked_good:
  assumes "P g" "M (turn_policy b s)" "sessionPolicyMode x = turn_policy b s"
  shows "good P M W (turn_checked cfg now i b receivedAt s x ws g)"
proof -
  have "P (snd (reserve_client now i rid g))" for rid using assms(1) by (rule requests_kept)
  then have a: "P (snd (try_acquire i rid rid' (snd (reserve_client now i rid g))))" for rid rid' by (rule requests_kept)
  show ?thesis
    unfolding turn_checked_def Let_def split_beta
    using assms requests_kept(4) [OF assms(1)]
    by (auto intro!: turn_admitted_good requests_kept a split: turn_admission.splits)
qed

lemma turn_session_mode:
  "turn_session cfg now b s t = Some x \<Longrightarrow> sessionPolicyMode x = turn_policy b s"
  by (auto simp: turn_session_def split: option.splits)

lemma post_turns_good:
  assumes "P g" "confirm_ok M (tb_confirm b)"
  shows "good P M W (post_turns cfg now i b g)"
proof (unfold post_turns_def, rule checked_good [OF assms(1)])
  show "good P M W (case getSession (g_store g) i of
          None \<Rightarrow> (Await (TurnLookup i b now), g)
        | Some persisted \<Rightarrow>
            if fullAccessConfirmationRequired (tb_policy b) (tb_confirm b) (Some (sessionPolicyMode persisted))
            then (refuse 400 ''full_access_confirmation_required'' [], g)
            else turn_checked cfg now i b now (Some persisted) (the (turn_session cfg now b (Some persisted) None))
                   (Some (workspacePath persisted)) g)"
  proof (cases "getSession (g_store g) i")
    case (Some x)
    then have "M (turn_policy b (Some x))"
      if "\<not> fullAccessConfirmationRequired (tb_policy b) (tb_confirm b) (Some (sessionPolicyMode x))"
      using turn_policy_in [of b "Some x"] that assms persisted_mode [OF assms(1), of i] by simp
    then show ?thesis using Some assms(1) by (auto simp: turn_session_def intro!: turn_checked_good)
  qed (use assms in simp)
qed

lemma turn_looked_up_good:
  assumes "P g" "confirm_ok M (tb_confirm b)"
  shows "good P M W (turn_looked_up cfg now i b receivedAt ans g)"
proof -
  have "M (turn_policy b None)" if "\<not> fullAccessConfirmationRequired (tb_policy b) (tb_confirm b) None"
    using turn_policy_in [of b None] that assms by (simp add: opt_mode_ok_def)
  then show ?thesis
    unfolding turn_looked_up_def using assms
    by (auto simp: turn_session_def intro!: turn_checked_good split: answer.splits sum.splits option.splits)
qed

lemma run_failed_good: "P g \<Longrightarrow> bg_good P M (run_failed now r e g)"
  by (simp add: run_failed_def fail_turn_kept)

lemma interrupt_kept: "P g \<Longrightarrow> P (requestCodexInterrupt cfg now i t g)"
  by (auto simp: requestCodexInterrupt_def interrupt_op_def intro!: do_bridge_kept split: option.splits)

lemma background_good:
  assumes "P g" "M (tr_policy r)"
  shows "bg_good P M (turn_resumed now r ans g)" "bg_good P M (turn_attached cfg now r ans g)" "bg_good P M (turn_started cfg now r ans g)"
  unfolding turn_resumed_def turn_attached_def turn_started_def Let_def
  using assms by (auto intro!: run_failed_good do_bridge_kept interrupt_kept updates_kept split: answer.splits option.splits)

lemma api_turn_routes:
  assumes "P g"
  shows "good P M W (post_api_turns cfg now i b g)" "good P M W (api_turn_looked_up cfg now i b s ans g)"
    "good P M W (api_turn_resumed i b s t ans g)" "good P M W (api_turn_attached cfg now i b s t ans g)"
proof -
  show "good P M W (post_api_turns cfg now i b g)"
    unfolding post_api_turns_def
    by (rule checked_good) (use assms requests_kept(4) [OF assms] in \<open>auto simp: Let_def split_beta\<close>)
  show "good P M W (api_turn_looked_up cfg now i b s ans g)"
    unfolding api_turn_looked_up_def Let_def split_beta
    using assms requests_kept(5) [OF assms]
    by (auto intro!: requests_kept do_bridge_kept split: answer.splits sum.splits option.splits turn_admission.splits)
  show "good P M W (api_turn_resumed i b s t ans g)" "good P M W (api_turn_attached cfg now i b s t ans g)"
    unfolding api_turn_resumed_def api_turn_attached_def api_turn_failed_def
    using assms by (auto intro!: requests_kept sets_kept do_bridge_kept split: answer.splits)
qed

lemma api_turn_started_good:
  assumes "P g"
  shows "good P M W (api_turn_started cfg now i b s t ans g)"
  unfolding api_turn_started_def api_turn_failed_def Let_def
  using assms confirm_in
  by (auto simp: opt_mode_ok_def cong: broadcast_cong send_all_cong
      intro!: sets_kept broadcastGateway_kept requests_kept on_store_kept upsertSession_kept split: answer.splits option.splits)

lemma interjection_routes:
  assumes "P g"
  shows "good P M W (post_interjection cfg now i b g)" "good P M W (interject_admit now i b cx t g)"
    "good P M W (interject_audited i b cx u ans g)" "good P M W (interject_attached cfg now i b cx u ans g)"
proof -
  show "good P M W (post_interjection cfg now i b g)"
    unfolding post_interjection_def by (rule checked_good) (use assms in auto)
  show "good P M W (interject_admit now i b cx t g)"
    unfolding interject_admit_def Let_def split_beta
    using assms requests_kept(4) [OF assms] by (auto split: option.splits)
  show "good P M W (interject_audited i b cx u ans g)" "good P M W (interject_attached cfg now i b cx u ans g)"
    unfolding interject_audited_def interject_attached_def steer_op_def
    using assms by (auto intro!: requests_kept do_bridge_kept split: answer.splits)
qed

lemma interjection_context_good:
  assumes "P g"
  shows "good P M W (interject_context cfg now i b s ans g)" "good P M W (interject_turn now i b cx stored ans g)"
  unfolding interject_context_def interject_turn_def
  using assms by (auto intro!: interjection_routes split: answer.splits sum.splits option.splits)

lemma interject_steered_good:
  assumes "P g"
  shows "good P M W (interject_steered cfg now i b cx t atts ans g)"
proof -
  have "M (sessionPolicyMode (case getSession (g_store g) i of Some s \<Rightarrow> s
      | None \<Rightarrow> (case cx_thread cx of
          Some th \<Rightarrow> threadToSession (cf_codexBin cfg) th (Some Running)
        | None \<Rightarrow> minimalSession (cf_codexBin cfg) (cf_cwd cfg) (of_int now) i (ib_text b) Running)))"
    using confirm_in own_session [OF assms, of i] by (auto split: option.splits)
  then show ?thesis
    unfolding interject_steered_def Let_def
    using assms
    by (auto simp: opt_mode_ok_def simp del: option.case_eq_if cong: broadcast_cong send_all_cong
        intro!: sets_kept broadcastGateway_kept requests_kept on_store_kept upsertSession_kept split: answer.splits)
qed

lemma context_session:
  "authorizedThreadContext cfg s pages fs timedOut i = Inr (Some cx) \<Longrightarrow> opt_mode_ok M s \<Longrightarrow> opt_mode_ok M (cx_session cx)"
  by (auto simp: authorizedThreadContext_def opt_mode_ok_def Let_def split: option.splits sum.splits)

lemma first_parts_good:
  assumes "P g"
  shows "confirm_ok M (pb_confirm b) \<Longrightarrow> good P M W (patch_policy cfg now i b g)"
    "confirm_ok M (pb_confirm b) \<Longrightarrow> good P M W (post_fork cfg now i b g)"
    "good P M W (post_stop cfg now kind i sb g)" "good P M W (post_approval cfg now i r ab g)" "good P M W (post_import i ttl g)"
    "good P M W (get_sessions g)" "good P M W (get_threads limit cursor g)"
  unfolding patch_policy_def post_fork_def post_stop_def post_approval_def post_import_def get_sessions_def get_threads_def
  using assms by (auto intro!: checked_good simp: persisted_mode Let_def)

lemma post_resume_good:
  assumes "P g" "confirm_ok M (pb_confirm b)"
  shows "good P M W (post_resume cfg now i b g)"
proof -
  let ?current = "map_option sessionPolicyMode (getSession (g_store g) i)"
  let ?mode = "case opt_or (pb_policy b) ?current of Some m \<Rightarrow> m | None \<Rightarrow> Confirm"
  have "M ?mode" if "access_check (Some ?mode) (pb_confirm b) ?current = []"
    by (rule admitted_mode [of ?mode "pb_confirm b" ?current])
      (use that assms(2) confirm_in own_session [OF assms(1), of i] in \<open>auto simp: access_check_def split: if_splits\<close>)
  then show ?thesis
    unfolding post_resume_def Let_def by (intro checked_good [OF assms(1)]) (use assms(1) in simp)
qed

lemma set_mode_kept:
  assumes "P g" "M mode"
  shows "P (g\<lparr>g_store := snd (updateSession i (\<lambda>x. x\<lparr>sessionPolicyMode := mode, lastUpdatedAt := ts\<rparr>) (g_store g))\<rparr>)"
  by (rule store_kept [OF assms(1)]) (use assms in \<open>auto intro!: updateSession_kept sessions_in simp: mode_ok_def\<close>)

lemma set_mode_result:
  "fst (updateSession i (\<lambda>x. x\<lparr>sessionPolicyMode := mode, lastUpdatedAt := ts\<rparr>) st) = Some u \<Longrightarrow> sessionPolicyMode u = mode"
  by (auto simp: updateSession_def Let_def split: option.splits)

lemma policy_context_good:
  assumes "P g" "confirm_ok M (pb_confirm b)" "opt_mode_ok M s"
  shows "good P M W (policy_context cfg now i b s ans g)"
proof -
  have *: "M mode" if "authorizedThreadContext cfg s pages fs timedOut i = Inr (Some cx)" "cx_session cx = Some existing"
      "\<not> fullAccessConfirmationRequired (Some mode) (pb_confirm b) (Some (sessionPolicyMode existing))"
    for pages fs timedOut cx existing mode
    by (rule admitted_mode [OF that(3) assms(2) confirm_in])
      (use context_session [OF that(1) assms(3)] that(2) in \<open>auto simp: opt_mode_ok_def\<close>)
  have b: "P (do_bridge cfg now (OpSetPolicy i mode) g)" if "M mode" for mode
    using assms(1) that by (simp add: do_bridge_kept)
  show ?thesis
    unfolding policy_context_def Let_def split_beta
    using assms
    by (auto simp: set_mode_result intro!: set_mode_kept b dest: * set_mode_result split: answer.splits sum.splits option.splits)
qed

lemma policy_steps:
  assumes "P g"
  shows "M (sessionPolicyMode s) \<Longrightarrow> good P M W (policy_audited i mode s ts ans g)" "good P M W (policy_synced s ans g)"
    "M mode \<Longrightarrow> good P M W (resume_looked_up cfg i mode so ans g)" "M mode \<Longrightarrow> good P M W (resume_audited cfg now i mode ans g)"
  unfolding policy_audited_def policy_synced_def resume_looked_up_def resume_audited_def
  using assms
  by (auto simp: opt_mode_ok_def cong: broadcast_cong intro!: broadcastGateway_kept do_bridge_kept
      split: answer.splits sum.splits option.splits)

lemma resume_answered_good:
  assumes "P g" "M mode"
  shows "good P M W (resume_answered cfg now i mode ans g)"
proof -
  have "P (do_bridge cfg now (OpSetPolicy i mode) g)" using assms by (simp add: do_bridge_kept)
  from set_mode_kept [OF this assms(2)] show ?thesis
    unfolding resume_answered_def Let_def split_beta
    using assms
    by (auto simp: opt_mode_ok_def cong: broadcast_cong send_all_cong intro!: sets_kept broadcastGateway_kept dest!: set_mode_result
        split: answer.splits option.splits)
qed

lemma stop_context_good:
  assumes "P g" "opt_mode_ok M s"
  shows "good P M W (stop_context cfg kind i b s ans g)"
  unfolding stop_context_def Let_def
  using assms confirm_in
  by (auto dest!: context_session simp: opt_mode_ok_def split: answer.splits sum.splits option.splits)

lemma settle_kept:
  assumes "P g" "M (sessionPolicyMode base)"
  shows "P (snd (settleInterruptedSession now i base t g))"
proof -
  have "P (g\<lparr>g_runs := snd (cancel_run (g_runs g) i), cancelledSessions := ids\<rparr>)" for ids
    using cancelled_kept [OF runs_kept [OF assms(1), of i], of ids] by (simp add: cancel_run_def)
  then show ?thesis
    unfolding settleInterruptedSession_def Let_def
    using assms
    by (auto simp: opt_mode_ok_def cong: broadcast_cong intro!: broadcastGateway_kept on_store_kept upsertSession_kept sets_kept)
qed

lemma stop_audited_good:
  assumes "P g" "M (sessionPolicyMode base)"
  shows "good P M W (stop_audited cfg now kind i base t ans g)"
  unfolding stop_audited_def Let_def split_beta
  using assms by (auto cong: send_all_cong intro!: sets_kept interrupt_kept settle_kept split: answer.splits)

lemma fork_looked_up_good:
  assumes "P g" "confirm_ok M (pb_confirm b)"
  shows "good P M W (fork_looked_up cfg i b s ans g)"
proof -
  have "M m" if "\<not> fullAccessConfirmationRequired (Some m) (pb_confirm b) None" for m
    by (rule admitted_mode [OF that assms(2) confirm_in]) simp
  then show ?thesis
    unfolding fork_looked_up_def Let_def
    using assms by (auto split: answer.splits sum.splits option.splits)
qed

lemma fork_steps:
  assumes "P g" "M mode"
  shows "good P M W (fork_audited cfg now i mode src ans g)" "good P M W (fork_answered cfg now i mode ans g)"
proof -
  show "good P M W (fork_audited cfg now i mode src ans g)"
    unfolding fork_audited_def using assms by (auto intro!: do_bridge_kept split: answer.splits)
  show "good P M W (fork_answered cfg now i mode ans g)"
    unfolding fork_answered_def Let_def
    using assms confirm_in
    by (auto simp: opt_mode_ok_def cong: broadcast_cong intro!: broadcastGateway_kept on_store_kept upsertSession_kept
        split: answer.splits option.splits)
qed

lemma approval_steps:
  assumes "P g"
  shows "good P M W (approval_context cfg i r b s ans g)" "good P M W (approval_audited cfg now i r b ans g)"
  unfolding approval_context_def approval_audited_def Let_def
  using assms
  by (auto simp: opt_mode_ok_def cong: broadcast_cong intro!: broadcastGateway_kept do_bridge_kept split: answer.splits sum.splits option.splits)

lemma with_statuses_kept: "P g \<Longrightarrow> P (snd (with_statuses cfg now ts g))"
proof (induction ts arbitrary: g)
  case (Cons t ts)
  have "P (snd (withGatewayThreadStatus cfg now t g))"
    using Cons.prems by (auto simp: withGatewayThreadStatus_def Let_def intro: sets_kept split: option.splits)
  from Cons.IH [OF this] show ?case by (simp add: split_beta)
qed simp

lemma listing_steps:
  assumes "P g"
  shows "good P M W (import_looked_up cfg i ttl ans g)" "good P M W (sessions_filtered cfg ss ans g)"
    "good P M W (sessions_imported cfg ans g)" "good P M W (threads_listed cfg now limit cursor ans g)"
proof -
  have "sessionPolicyMode (imported_session cfg st t) = Confirm" for st t by (simp add: imported_session_def Let_def)
  then show "good P M W (sessions_imported cfg ans g)"
    unfolding sessions_imported_def Let_def
    using assms confirm_in by (auto intro!: on_store_kept upsertSessions_kept split: answer.splits)
  show "good P M W (import_looked_up cfg i ttl ans g)"
    unfolding import_looked_up_def Let_def
    using assms confirm_in by (auto intro!: on_store_kept upsertSession_kept split: answer.splits sum.splits option.splits)
  show "good P M W (sessions_filtered cfg ss ans g)"
    unfolding sessions_filtered_def using assms by (auto split: answer.splits)
  show "good P M W (threads_listed cfg now limit cursor ans g)"
    unfolding threads_listed_def Let_def split_beta
    using assms by (auto intro!: with_statuses_kept split: answer.splits sum.splits)
qed

section \<open>Requests and answers\<close>

lemma start_good: "P g \<Longrightarrow> route_ok M r \<Longrightarrow> good P M W (start_request cfg now r g)"
  by (cases r) (simp_all add: create_routes post_turns_good api_turn_routes interjection_routes first_parts_good post_resume_good)

lemma resume_good: "P g \<Longrightarrow> task_ok M W t \<Longrightarrow> ans_ok F ans \<Longrightarrow> good P M W (resume_fg cfg now t ans g)"
  by (cases t) (simp_all add: create_steps threads_turn_good create_started_good turn_looked_up_good api_turn_routes api_turn_started_good
      interjection_routes interjection_context_good interject_steered_good policy_context_good policy_steps resume_answered_good
      stop_context_good stop_audited_good fork_looked_up_good fork_steps approval_steps listing_steps)

lemma resume_bg_good: "P g \<Longrightarrow> bg_ok M t \<Longrightarrow> bg_good P M (resume_bg cfg now t ans g)"
  by (cases t) (simp_all add: first_turn_good background_good)

end

section \<open>Handlers and the event loop\<close>

text \<open>A handler leaves the bookkeeping of the event loop alone.\<close>

definition loop_frame :: "gateway \<Rightarrow> gateway \<Rightarrow> bool" where
  "loop_frame g0 g = (fg_tasks g = fg_tasks g0 \<and> bg_tasks g = bg_tasks g0 \<and> replies g = replies g0 \<and> nextRequest g = nextRequest g0)"

interpretation fr: gateway_invariant cfg "loop_frame g0" "\<lambda>_. True" "\<lambda>_. True" "\<lambda>_. True" for cfg g0
  by unfold_locales (simp_all add: loop_frame_def all_sessions_def mode_ok_def)

lemma any_ok [simp]: "op_ok (\<lambda>_. True) (\<lambda>_. True) op" "confirm_ok (\<lambda>_. True) c" "opt_mode_ok (\<lambda>_. True) s" "task_ok (\<lambda>_. True) (\<lambda>_. True) t"
    "bg_ok (\<lambda>_. True) bt" "route_ok (\<lambda>_. True) r" "ans_ok (\<lambda>_. True) ans"
proof -
  show "ans_ok (\<lambda>_. True) ans" by (cases ans) simp_all
  show "op_ok (\<lambda>_. True) (\<lambda>_. True) op" by (cases op) simp_all
  show c: "confirm_ok (\<lambda>_. True) c" "opt_mode_ok (\<lambda>_. True) s" for c s by (simp_all add: confirm_ok_def opt_mode_ok_def)
  show "task_ok (\<lambda>_. True) (\<lambda>_. True) t" using c by (cases t) simp_all
  show "bg_ok (\<lambda>_. True) bt" by (cases bt) simp_all
  show "route_ok (\<lambda>_. True) r" using c by (cases r) simp_all
qed

lemma loop_frame_refl [simp]: "loop_frame g g"
  by (simp add: loop_frame_def)

lemma handlers_frame:
  "loop_frame g (snd (start_request cfg now r g))" "loop_frame g (snd (resume_fg cfg now t ans g))"
  "loop_frame g (snd (resume_bg cfg now bt ans g))" "loop_frame g (do_bridge cfg now op g)"
  using fr.start_good [of g g r cfg now] fr.resume_good [of g g t ans cfg now] fr.resume_bg_good [of g g bt cfg now ans]
    fr.do_bridge_kept [of g g op cfg now]
  by (simp_all add: good_def bg_good_def)

section \<open>Invariants of runs\<close>

lemma replay_keeps_sessions: "sessions (snd (replay_sessions n cs r st)) = sessions st"
proof (induction n cs r st rule: replay_sessions.induct)
  case (2 n i raw rest r st)
  let ?c = "case raw of JNum n \<Rightarrow> n | _ \<Rightarrow> 0"
  obtain es st1 where l: "listEventsAfter i ?c st = (es, st1)" by fastforce
  have "sessions st1 = sessions st" using events_keep_sessions(3) [of i ?c st] l by simp
  then show ?case using 2 by (simp add: l Let_def)
qed simp

lemma ws_message_keeps_sessions: "sessions (snd (ws_message p name now raw x st)) = sessions st"
  using replay_keeps_sessions
  by (auto simp: ws_message_def ws_resume_def Let_def split_beta split: option.splits)

definition tasks_ok :: "(policy_mode \<Rightarrow> bool) \<Rightarrow> (string \<Rightarrow> bool) \<Rightarrow> gateway \<Rightarrow> bool" where
  "tasks_ok M W g = ((\<forall>x\<in>set (fg_tasks g). task_ok M W (snd x)) \<and> (\<forall>x\<in>set (bg_tasks g). bg_ok M (snd x)))"

fun event_ok :: "(policy_mode \<Rightarrow> bool) \<Rightarrow> (fs_view \<Rightarrow> bool) \<Rightarrow> gateway_event \<Rightarrow> bool" where
  "event_ok M F (Arrive r) = route_ok M r"
| "event_ok M F (AnswerFg k ans) = ans_ok F ans"
| "event_ok M F _ = True"

lemma tasks_ok_frame: "loop_frame g g' \<Longrightarrow> tasks_ok M W g \<Longrightarrow> tasks_ok M W g'"
  by (simp add: loop_frame_def tasks_ok_def)

lemma settle_tasks_ok:
  "tasks_ok M W g \<Longrightarrow> next_ok M W n \<Longrightarrow> tasks_ok M W (settle_fg k n g)"
  "tasks_ok M W g \<Longrightarrow> bg_next_ok M bn \<Longrightarrow> tasks_ok M W (settle_bg k bn g)"
proof -
  have del: "\<forall>x\<in>set (AList.delete k xs). Q (snd x)" if "\<forall>x\<in>set xs. Q (snd x)" for xs k and Q :: "'z \<Rightarrow> bool"
    using that set_delete_subset [of k xs] by blast
  show "tasks_ok M W g \<Longrightarrow> next_ok M W n \<Longrightarrow> tasks_ok M W (settle_fg k n g)"
    using del [of "fg_tasks g" "task_ok M W" k] by (cases n) (auto simp: tasks_ok_def dest!: set_update_cases split: option.splits)
  show "tasks_ok M W g \<Longrightarrow> bg_next_ok M bn \<Longrightarrow> tasks_ok M W (settle_bg k bn g)"
    using del [of "bg_tasks g" "bg_ok M" k] by (cases bn) (auto simp: tasks_ok_def dest!: set_update_cases)
qed

lemma env_op_ok: "env_op op \<Longrightarrow> op_ok M W op"
  by (cases op) simp_all

text \<open>For an invariant that does not speak about the event loop itself.\<close>

locale gateway_run_invariant = gateway_invariant +
  assumes loop_kept: "P g \<Longrightarrow> P (g\<lparr>fg_tasks := a, bg_tasks := b, replies := c, nextRequest := n\<rparr>)"
begin

lemma settle_kept_fg: "P g \<Longrightarrow> P (settle_fg k n g)"
  using loop_kept [where g = g and b = "bg_tasks g" and c = "replies g" and n = "nextRequest g"]
    loop_kept [where g = g and n = "nextRequest g"]
  by (cases n) simp_all

lemma settle_kept_bg: "P g \<Longrightarrow> P (settle_bg k n g)"
  using loop_kept [where g = g and a = "fg_tasks g" and c = "replies g" and n = "nextRequest g"] by (cases n) simp_all

lemma step_kept:
  assumes "P g" "tasks_ok M W g" "event_ok M F ev"
  shows "P (gateway_step cfg now ev g) \<and> tasks_ok M W (gateway_step cfg now ev g)"
proof (cases ev)
  case (Arrive r)
  let ?g = "g\<lparr>nextRequest := Suc (nextRequest g)\<rparr>"
  have g: "P ?g" using loop_kept [OF assms(1), where a = "fg_tasks g" and b = "bg_tasks g" and c = "replies g"] by simp
  have t: "tasks_ok M W ?g" using assms(2) by (simp add: tasks_ok_def)
  obtain n g1 where r: "start_request cfg now r ?g = (n, g1)" by fastforce
  have "P g1" "next_ok M W n" using start_good [OF g, of r now] assms(3) by (simp_all add: Arrive r)
  moreover have "tasks_ok M W g1" using handlers_frame(1) [of ?g cfg now r] tasks_ok_frame [OF _ t] r by simp
  ultimately show ?thesis by (simp add: Arrive r settle_kept_fg settle_tasks_ok)
next
  case (AnswerFg k ans)
  show ?thesis
  proof (cases "map_of (fg_tasks g) k")
    case (Some t)
    obtain n g1 where r: "resume_fg cfg now t ans g = (n, g1)" by fastforce
    have "task_ok M W t" using assms(2) map_of_SomeD [OF Some] by (auto simp: tasks_ok_def)
    then have "P g1" "next_ok M W n" using resume_good [OF assms(1), of t ans now] assms(3) by (simp_all add: AnswerFg r)
    moreover have "tasks_ok M W g1" using handlers_frame(2) [of g cfg now t ans] tasks_ok_frame [OF _ assms(2)] r by simp
    ultimately show ?thesis by (simp add: AnswerFg Some r settle_kept_fg settle_tasks_ok)
  qed (use assms in \<open>simp add: AnswerFg\<close>)
next
  case (AnswerBg k ans)
  show ?thesis
  proof (cases "map_of (bg_tasks g) k")
    case (Some t)
    obtain n g1 where r: "resume_bg cfg now t ans g = (n, g1)" by fastforce
    have "bg_ok M t" using assms(2) map_of_SomeD [OF Some] by (auto simp: tasks_ok_def)
    then have "P g1" "bg_next_ok M n" using resume_bg_good [OF assms(1), of t now ans] by (simp_all add: r)
    moreover have "tasks_ok M W g1" using handlers_frame(3) [of g cfg now t ans] tasks_ok_frame [OF _ assms(2)] r by simp
    ultimately show ?thesis by (simp add: AnswerBg Some r settle_kept_bg settle_tasks_ok)
  qed (use assms in \<open>simp add: AnswerBg\<close>)
next
  case (BridgeRuns op)
  then show ?thesis
    using assms do_bridge_kept [OF assms(1) env_op_ok, of op now] tasks_ok_frame [OF handlers_frame(4) assms(2)] by simp
next
  case SnapshotTimer
  then show ?thesis using assms by (auto simp: tasks_ok_def on_store_def intro!: store_kept intro: all_sessions_same [rotated] sessions_in)
next
  case (WriteDone err f)
  then show ?thesis using assms by (auto simp: tasks_ok_def on_store_def intro!: store_kept intro: all_sessions_same [rotated] sessions_in)
next
  case (ClientConnects c codexStatus)
  have "sessions (snd (ws_connect ts name codexStatus (g_store g))) = sessions (g_store g)" for ts name
    by (simp add: ws_connect_def split_beta)
  then have "P (g\<lparr>g_store := snd (ws_connect ts name codexStatus (g_store g))\<rparr>)" for ts name
    by (intro store_kept assms(1) all_sessions_same [OF _ sessions_in [OF assms(1)]])
  from clients_kept [OF this] show ?thesis
    using assms by (simp add: ClientConnects split_beta tasks_ok_def)
next
  case (ClientText c raw)
  show ?thesis
  proof (cases "map_of (g_clients g) c")
    case (Some x)
    have "sessions (snd (ws_message p name now raw x (g_store g))) = sessions (g_store g)" for p name
      by (rule ws_message_keeps_sessions)
    then have "P (g\<lparr>g_store := snd (ws_message p name now raw x (g_store g))\<rparr>)" for p name
      by (intro store_kept assms(1) all_sessions_same [OF _ sessions_in [OF assms(1)]])
    from clients_kept [OF this] show ?thesis
      using assms by (simp add: ClientText client_text_def Some split_beta tasks_ok_def)
  qed (use assms in \<open>simp add: ClientText client_text_def\<close>)
qed (use assms in \<open>simp_all add: on_client_def clients_kept tasks_ok_def\<close>)

lemma run_kept:
  assumes "P g" "tasks_ok M W g" "\<And>now ev. (now, ev) \<in> set evs \<Longrightarrow> event_ok M F ev"
  shows "P (gateway_run cfg evs g) \<and> tasks_ok M W (gateway_run cfg evs g)"
  using assms
proof (induction evs arbitrary: g)
  case (Cons e evs)
  obtain now ev where e: "e = (now, ev)" by fastforce
  have "P (gateway_step cfg now ev g) \<and> tasks_ok M W (gateway_step cfg now ev g)"
    by (rule step_kept) (use Cons.prems e in auto)
  with Cons.IH [of "gateway_step cfg now ev g"] Cons.prems(3) show ?case by (auto simp: gateway_run_def e)
qed (simp add: gateway_run_def)

end

end
