(* ===== verification/GatewaySamples.thy ===== *)
theory GatewaySamples
  imports GatewaySteps EventProps StoreLedger
begin

text \<open>
  Concrete configurations, bodies and states of the gateway on which its properties are tried.
\<close>

definition sample_config :: gateway_config where
  "sample_config = \<lparr>cf_parse = (\<lambda>_. None), cf_date_parse = (\<lambda>_. None), cf_is_datetime = (\<lambda>_. True), cf_codexBin = ''codex'',
     cf_gatewayName = ''gateway'', cf_cwd = ''/'', cf_roots = [''/w'']\<rparr>"

definition no_options :: run_options where
  "no_options = \<lparr>ro_model = None, ro_effort = None, ro_threadSource = None, ro_multiAgentMode = None\<rparr>"

definition sample_create :: "policy_mode \<Rightarrow> create_body" where
  "sample_create mode = \<lparr>cb_workspacePath = ''/w/a'', cb_prompt = ''p'', cb_clientRequestId = None, cb_expiresAt = None, cb_title = None,
     cb_policy = mode, cb_confirm = None, cb_options = no_options\<rparr>"

definition sample_turn :: turn_body where
  "sample_turn = \<lparr>tb_prompt = ''p'', tb_clientRequestId = Some ''r'', tb_requestId = None, tb_expiresAt = None, tb_attachments = None,
     tb_policy = None, tb_confirm = None, tb_options = no_options\<rparr>"

definition sample_uuid :: string where
  "sample_uuid = ''01234567-89ab-cdef-0123-456789abcdef''"

text \<open>A session with a history of request ids, and a store that holds it.\<close>

definition known_session :: gateway_session where
  "known_session = (sample_session sample_uuid)\<lparr>workspacePath := ''/w/a'', recentClientRequestIds := Val [''q''], lastClientRequestId := Val ''q''\<rparr>"

definition known_store :: store where
  "known_store = saveSession known_session no_store"

lemma known_session_stored: "getSession known_store sample_uuid = Some known_session"
  by (simp add: known_store_def getSession_def saveSession_def persistSessions_def known_session_def sample_session_def)

lemma known_sessions: "sessions known_store = [(sample_uuid, known_session)]"
  by (simp add: known_store_def no_store_def new_store_def Let_def saveSession_def persistSessions_def known_session_def sample_session_def)

lemma sample_turn_valid: "is_uuid sample_uuid" "valid_turn sample_config sample_turn"
  by (code_simp, simp add: valid_turn_def sample_turn_def sample_config_def opt_ok_def len_in_def valid_options_def no_options_def
      trim_def trim_start_def trim_end_def is_ws_def)

lemma sample_turn_admission:
  assumes "g_store g = known_store" "\<not> isActive (g_gate g) sample_uuid"
  obtains g2 where "post_turns sample_config now sample_uuid sample_turn g
      = turn_admitted sample_config now sample_uuid sample_turn now (Some known_session)
          (the (turn_session sample_config now sample_turn (Some known_session) None)) g2"
    "g_runs g2 = g_runs g" "bg_tasks g2 = bg_tasks g"
proof -
  have w: "workspacePath known_session \<noteq> []" by (simp add: known_session_def)
  have r: "turn_request_id sample_turn = Some ''r''" by (simp add: turn_request_id_def sample_turn_def opt_or_def)
  have h: "\<not> hasClientRequest known_store sample_uuid ''r''"
    by (simp add: hasClientRequest_def known_session_stored known_session_def prop_get_def)
  have l: "last_request (Some known_session) = Some ''q''" by (simp add: last_request_def known_session_def prop_get_def)
  have res: "fst (reserveClientRequest now sample_uuid ''r'' known_store)"
    using h by (simp add: reserveClientRequest_def Let_def known_store_def no_store_def new_store_def saveSession_def persistSessions_def
        pruneReservations_def evict_oldest_id REQUEST_RESERVATION_MAX_def)
  obtain st where st: "reserveClientRequest now sample_uuid ''r'' known_store = (True, st)"
    using res by (cases "reserveClientRequest now sample_uuid ''r'' known_store") auto
  let ?g1 = "g\<lparr>g_store := st\<rparr>"
  obtain gate where a: "acquire (g_gate g) sample_uuid (Some ''r'') (Some ''q'') = (Accepted, gate)"
    using assms(2) by (auto simp: acquire_def isActive_def)
  have "post_turns sample_config now sample_uuid sample_turn g
      = turn_checked sample_config now sample_uuid sample_turn now (Some known_session)
          (the (turn_session sample_config now sample_turn (Some known_session) None)) (Some (workspacePath known_session)) g"
    using sample_turn_valid
    by (simp add: post_turns_def checked_def turn_expired_def assms(1) known_session_stored fullAccessConfirmationRequired_def)
      (simp add: sample_turn_def)
  also have "\<dots> = turn_admitted sample_config now sample_uuid sample_turn now (Some known_session)
          (the (turn_session sample_config now sample_turn (Some known_session) None)) (?g1\<lparr>g_gate := gate\<rparr>)"
    using w h by (simp add: turn_checked_def r l reserve_client_def try_acquire_def assms(1) st a)
  finally show ?thesis by (rule that) simp_all
qed

lemma admitted_is_reply:
  "fst (turn_admitted cfg now i b ra p x g) = Reply \<lparr>rs_code = 202, rs_body = JObj [(''session'', json_session x), (''accepted'', JBool True)]\<rparr>
     (Some (TurnResume \<lparr>tr_session = i, tr_body = b, tr_policy = turn_policy b p, tr_generation = fst (begin_run (g_runs g) i)\<rparr>))"
  by (simp add: turn_admitted_def Let_def split_beta)

end
