(* ===== verification/GatewayProps.thy ===== *)
theory GatewayProps
  imports GatewaySamples BridgeApprovals
begin

text \<open>
  Properties of all runs of the gateway: full access, workspaces, replies and background work.
\<close>

section \<open>Full access\<close>








section \<open>Workspaces\<close>

text \<open>A real path inside the real path of a configured root.\<close>

definition inside_roots :: "gateway_config \<Rightarrow> fs_view \<Rightarrow> string \<Rightarrow> bool" where
  "inside_roots cfg fs ws =
     (fs_isDirectory fs ws
      \<and> (\<exists>rootPath\<in>set (cf_roots cfg). \<exists>r. fs_realpath fs (path_resolve (cf_cwd cfg) [rootPath]) = Some r
           \<and> prefix (resolve_components (cf_cwd cfg) [r]) (resolve_components (cf_cwd cfg) [ws])))"

interpretation ws: gateway_run_invariant cfg "\<lambda>g. \<forall>op\<in>set (bridgeOps g). op_ok (\<lambda>_. True) (inside_roots cfg fs) op"
  "\<lambda>_. True" "inside_roots cfg fs" "(=) fs" for cfg fs
  by unfold_locales
    (auto simp: resolve_ws_def inside_roots_def all_sessions_def mode_ok_def dest: resolved_inside_a_root)

text \<open>C6. Codex threads are started only in the configured roots: on a file system that does not change
  during the run, the workspace of every thread that the gateway asks Codex to start is a directory
  whose real path lies in the real path of a configured root, whatever the clients ask for.\<close>

theorem threads_start_in_allowed_roots:
  assumes "\<forall>(now, ev)\<in>set evs. \<forall>k fs' timedOut. ev = AnswerFg k (AnsFs fs' timedOut) \<longrightarrow> fs' = fs"
    and "OpStartThread ws mode options \<in> set (bridgeOps (gateway_run cfg evs (new_gateway st)))"
  shows "inside_roots cfg fs ws"
proof -
  have "event_ok (\<lambda>_. True) ((=) fs) ev" if "(now, ev) \<in> set evs" for now ev
  proof (cases ev)
    case (AnswerFg k ans)
    then show ?thesis using assms(1) that by (cases ans) auto
  qed simp_all
  then have "\<forall>op\<in>set (bridgeOps (gateway_run cfg evs (new_gateway st))). op_ok (\<lambda>_. True) (inside_roots cfg fs) op"
    using ws.run_kept [of "new_gateway st" cfg fs evs] by (auto simp: new_gateway_def tasks_ok_def)
  with assms(2) show ?thesis by auto
qed

lemma bridgeOps_do_bridge: "bridgeOps (do_bridge cfg now op g) = bridgeOps g @ [op]"
proof -
  have b: "bridgeOps (broadcastGateway m s g) = bridgeOps g" for m s g
  proof -
    have "bridgeOps (snd (apply_message m' s g')) = bridgeOps g'" for m' g'
      by (auto simp: apply_message_def take_session_def take_finished_def take_status_def take_approval_def on_store_def set_live_def
          set_idle_def split: option.splits)
    then show ?thesis by (simp add: broadcastGateway_def Let_def split_beta send_all_def)
  qed
  have "bridgeOps (on_effect now e g) = bridgeOps g" for e g
    by (cases e) (auto simp: on_codex_event_def Let_def split_beta b send_all_def split: option.splits)
  then have "bridgeOps (fold (on_effect now) es g) = bridgeOps g" for es g by (induction es arbitrary: g) simp_all
  then show ?thesis by (simp add: do_bridge_def Let_def)
qed

lemma threads_start_in_allowed_roots_witness: "inside_roots sample_config sample_fs ''/w/a''"
proof -
  let ?b = "sample_create Confirm"
  let ?evs = "[(0, Arrive (PostThreads ?b)), (1, AnswerFg 0 (AnsFs sample_fs False)), (2, AnswerFg 0 AnsDone)]"
  have v: "valid_create sample_config ?b"
    by (simp add: valid_create_def sample_create_def sample_config_def opt_ok_def len_in_def valid_options_def no_options_def)
  have n: "expired_check sample_config now (cb_expiresAt ?b) = []" "access_check (Some (cb_policy ?b)) (cb_confirm ?b) None = []" for now
    by (simp_all add: expired_check_def isRequestExpired_def access_check_def fullAccessConfirmationRequired_def sample_create_def)
  have w: "resolve_ws sample_config sample_fs False (cb_workspacePath ?b) False = Some ''/w/a''"
    unfolding resolve_ws_def sample_config_def sample_create_def by code_simp
  have "OpStartThread ''/w/a'' (cb_policy ?b) (cb_options ?b)
      \<in> set (bridgeOps (gateway_run sample_config ?evs (new_gateway known_store)))"
    by (simp add: gateway_run_def post_threads_def checked_def v n new_gateway_def threads_workspace_def w threads_audited_def
        bridgeOps_do_bridge)
  from threads_start_in_allowed_roots [OF _ this] show ?thesis by auto
qed

end
