(* ===== verification/GatewayLoop.thy ===== *)
theory GatewayLoop
  imports GatewaySamples
begin

text \<open>
  Properties of the event loop of the gateway: every request is answered once, at most one turn of a
  session is at work, and a stopped turn stays stopped.
\<close>

section \<open>Replies\<close>








section \<open>Generations\<close>

definition gen_of :: "gateway \<Rightarrow> string \<Rightarrow> nat" where
  "gen_of g i = (case map_of (generations (g_runs g)) i of Some n \<Rightarrow> n | None \<Rightarrow> 0)"

lemma gen_of_frame [simp]:
  "gen_of (g\<lparr>g_store := a\<rparr>) i = gen_of g i" "gen_of (g\<lparr>g_gate := b\<rparr>) i = gen_of g i"
  "gen_of (g\<lparr>processLiveSessionIds := c\<rparr>) i = gen_of g i" "gen_of (g\<lparr>cancelledSessions := c\<rparr>) i = gen_of g i"
  "gen_of (g\<lparr>subagentParents := d\<rparr>) i = gen_of g i" "gen_of (g\<lparr>g_clients := e\<rparr>) i = gen_of g i"
  "gen_of (g\<lparr>g_bridge := f, bridgeOps := h\<rparr>) i = gen_of g i"
  "gen_of (g\<lparr>fg_tasks := j, bg_tasks := k, replies := l, nextRequest := n\<rparr>) i = gen_of g i"
  by (simp_all add: gen_of_def)

lemma gen_of_begin: "gen_of (g\<lparr>g_runs := snd (begin_run (g_runs g) j)\<rparr>) i = (if i = j then gen_of g i + 1 else gen_of g i)"
  by (simp add: gen_of_def begin_run_def Let_def update_conv')

text \<open>Generations only grow.\<close>

interpretation gm: gateway_run_invariant cfg "\<lambda>g. \<forall>i. gen_of g0 i \<le> gen_of g i" "\<lambda>_. True" "\<lambda>_. True" "\<lambda>_. True" for cfg g0
  by unfold_locales (simp_all add: all_sessions_def mode_ok_def gen_of_begin le_SucI)

lemma runs_frame [simp]:
  "g_runs (set_live i g) = g_runs g" "g_runs (set_idle i g) = g_runs g" "g_runs (open_gate i g) = g_runs g"
  "g_runs (send_all j g) = g_runs g" "g_runs (on_store f g) = g_runs g"
  "g_runs (release_client i r g) = g_runs g" "g_runs (remember_client i r g) = g_runs g" "g_runs (release_create r g) = g_runs g"
  "g_runs (snd (reserve_client now i r g)) = g_runs g" "g_runs (snd (try_acquire i r r' g)) = g_runs g"
  by (simp_all add: set_live_def set_idle_def open_gate_def send_all_def on_store_def release_client_def remember_client_def
      release_create_def reserve_client_def try_acquire_def split_beta split: option.splits)

lemma apply_message_runs [simp]: "g_runs (snd (apply_message m s g)) = g_runs g"
  by (auto simp: apply_message_def take_session_def take_finished_def take_status_def take_approval_def split: option.splits)

lemma broadcast_runs [simp]: "g_runs (broadcastGateway m s g) = g_runs g"
  by (simp add: broadcastGateway_def Let_def split_beta)

lemma on_effect_runs [simp]: "g_runs (on_effect now e g) = g_runs g"
  by (cases e) (auto simp: on_codex_event_def Let_def split_beta split: option.splits)

lemma do_bridge_runs [simp]: "g_runs (do_bridge cfg now op g) = g_runs g"
proof -
  have "g_runs (fold (on_effect now) es g') = g_runs g'" for es g' by (induction es arbitrary: g') simp_all
  then show ?thesis by (simp add: do_bridge_def Let_def)
qed

section \<open>Turns at work\<close>

fun run_of :: "bg_task \<Rightarrow> turn_run option" where
  "run_of (FirstTurn b threadId response) = None"
| "run_of (TurnResume r) = Some r"
| "run_of (TurnAttach r) = Some r"
| "run_of (TurnStart r) = Some r"

text \<open>A handler that leaves a run behind has given it a new generation.\<close>

definition fresh_run :: "gateway \<Rightarrow> fg_next \<times> gateway \<Rightarrow> bool" where
  "fresh_run g res =
     (\<forall>x t r. fst res = Reply x (Some t) \<and> run_of t = Some r
        \<longrightarrow> tr_generation r = gen_of g (tr_session r) + 1 \<and> gen_of (snd res) (tr_session r) = tr_generation r)"

lemma no_run [simp]:
  "fresh_run g (Await t, g')" "fresh_run g (Reply x None, g')" "fresh_run g (respond c fs, g')" "fresh_run g (refuse c e fs, g')"
  "fresh_run g (throw h, g')" "fresh_run g (rethrow j, g')" "fresh_run g (forbidden, g')" "fresh_run g (not_found i, g')"
  "fresh_run g (accepted_duplicate s p, g')" "fresh_run g (stop_refusal kind c e fs, g')" "fresh_run g (sessions_reply ss, g')"
  by (simp_all add: fresh_run_def respond_def refuse_def throw_def rethrow_def forbidden_def not_found_def accepted_duplicate_def
      stop_refusal_def sessions_reply_def)

lemma checked_fresh: "fresh_run g cont \<Longrightarrow> fresh_run g (checked v refusals cont g)"
  by (auto simp: checked_def split: list.splits)

lemma turn_admitted_fresh:
  assumes "g_runs g = g_runs g0"
  shows "fresh_run g0 (turn_admitted cfg now i b receivedAt s x g)"
proof -
  have "gen_of g' i = gen_of g0 i + 1" if "g_runs g' = snd (begin_run (g_runs g0) i)" for g'
    using that gen_of_begin [of g0 i i] by (simp add: gen_of_def)
  moreover have "fst (begin_run (g_runs g0) i) = gen_of g0 i + 1"
    by (simp add: begin_run_def gen_of_def Let_def)
  ultimately show ?thesis
    by (simp add: turn_admitted_def fresh_run_def Let_def split_beta assms del: One_nat_def)
qed

lemma turn_checked_fresh: "fresh_run g (turn_checked cfg now i b receivedAt s x ws g)"
  by (auto simp: turn_checked_def Let_def split_beta intro!: turn_admitted_fresh split: turn_admission.splits)

lemma create_started_fresh: "fresh_run g (create_started cfg now b ws ans g)"
  by (auto simp: create_started_def Let_def split_beta fresh_run_def respond_def refuse_def throw_def rethrow_def
      split: answer.splits option.splits)

lemma start_fresh: "fresh_run g (start_request cfg now r g)"
proof (cases r)
  case (PostTurns i b)
  then show ?thesis by (auto simp: post_turns_def intro!: checked_fresh turn_checked_fresh split: option.splits)
qed (auto simp: post_sessions_def post_threads_def patch_policy_def post_resume_def post_api_turns_def post_interjection_def
    post_stop_def post_fork_def post_approval_def post_import_def get_sessions_def get_threads_def Let_def split_beta
    intro!: checked_fresh split: option.splits create_reservation.splits)

lemma interject_fresh: "fresh_run g' (interject_admit now i b cx t g)"
  by (auto simp: interject_admit_def Let_def split_beta split: option.splits)

lemma create_resume_fresh:
  "fresh_run g (create_workspace cfg b ans g)" "fresh_run g (create_audited cfg now b ws ans g)"
  "fresh_run g (threads_workspace cfg b ans g)" "fresh_run g (threads_audited cfg now b ws ans g)"
  "fresh_run g (threads_started cfg now b ans g)" "fresh_run g (threads_turn tid response ans g)"
  unfolding create_workspace_def create_audited_def threads_workspace_def threads_audited_def threads_started_def threads_turn_def Let_def
  by (auto split: answer.splits option.splits)

lemma turn_resume_fresh:
  "fresh_run g (turn_looked_up cfg now i b receivedAt ans g)" "fresh_run g (api_turn_looked_up cfg now i b s ans g)"
  "fresh_run g (api_turn_resumed i b s t ans g)" "fresh_run g (api_turn_attached cfg now i b s t ans g)"
  "fresh_run g (api_turn_started cfg now i b s t ans g)"
  unfolding turn_looked_up_def api_turn_looked_up_def api_turn_resumed_def api_turn_attached_def api_turn_started_def api_turn_failed_def
    Let_def split_beta
  by (auto intro!: turn_checked_fresh cong: broadcast_cong send_all_cong
      split: answer.splits sum.splits option.splits turn_admission.splits)

lemma interject_resume_fresh:
  "fresh_run g (interject_context cfg now i b s ans g)" "fresh_run g (interject_turn now i b cx stored ans g)"
  "fresh_run g (interject_audited i b cx u ans g)" "fresh_run g (interject_attached cfg now i b cx u ans g)"
  "fresh_run g (interject_steered cfg now i b cx u atts ans g)"
  unfolding interject_context_def interject_turn_def interject_audited_def interject_attached_def interject_steered_def Let_def
  by (auto intro!: interject_fresh cong: broadcast_cong send_all_cong split: answer.splits sum.splits option.splits)

lemma policy_resume_fresh:
  "fresh_run g (policy_context cfg now i b s ans g)" "fresh_run g (policy_audited i mode x ts ans g)" "fresh_run g (policy_synced x ans g)"
  "fresh_run g (resume_looked_up cfg i mode s ans g)" "fresh_run g (resume_audited cfg now i mode ans g)"
  "fresh_run g (resume_answered cfg now i mode ans g)"
  unfolding policy_context_def policy_audited_def policy_synced_def resume_looked_up_def resume_audited_def resume_answered_def
    Let_def split_beta
  by (auto cong: broadcast_cong send_all_cong split: answer.splits sum.splits option.splits)

lemma control_resume_fresh:
  "fresh_run g (stop_context cfg kind i b s ans g)" "fresh_run g (stop_audited cfg now kind i base t ans g)"
  "fresh_run g (fork_looked_up cfg i pb s ans g)" "fresh_run g (fork_audited cfg now i mode src ans g)"
  "fresh_run g (fork_answered cfg now i mode ans g)" "fresh_run g (approval_context cfg i r ab s ans g)"
  "fresh_run g (approval_audited cfg now i r ab ans g)" "fresh_run g (import_looked_up cfg i ttl ans g)"
  "fresh_run g (sessions_filtered cfg ss ans g)" "fresh_run g (sessions_imported cfg ans g)"
  "fresh_run g (threads_listed cfg now limit cursor ans g)"
  unfolding stop_context_def stop_audited_def fork_looked_up_def fork_audited_def fork_answered_def approval_context_def
    approval_audited_def import_looked_up_def sessions_filtered_def sessions_imported_def threads_listed_def Let_def split_beta
  by (auto cong: broadcast_cong send_all_cong split: answer.splits sum.splits option.splits)

lemma resume_fresh: "fresh_run g (resume_fg cfg now t ans g)"
  by (cases t) (simp_all add: create_started_fresh create_resume_fresh turn_resume_fresh interject_resume_fresh policy_resume_fresh
      control_resume_fresh)

lemma resume_bg_same_run:
  "fst (resume_bg cfg now t ans g) = Continue t' \<Longrightarrow> run_of t' = run_of t"
  by (cases t) (auto simp: first_turn_def turn_resumed_def turn_attached_def turn_started_def run_failed_def Let_def split: answer.splits if_splits)

section \<open>One turn per session\<close>

text \<open>The runs that are under way have generations that were given out, each to one of them.\<close>

definition runs_inv :: "gateway \<Rightarrow> bool" where
  "runs_inv g =
     ((\<forall>k t r. map_of (bg_tasks g) k = Some t \<and> run_of t = Some r \<longrightarrow> 1 \<le> tr_generation r \<and> tr_generation r \<le> gen_of g (tr_session r))
      \<and> (\<forall>k k' t t' r r'. map_of (bg_tasks g) k = Some t \<and> map_of (bg_tasks g) k' = Some t' \<and> run_of t = Some r \<and> run_of t' = Some r'
           \<and> tr_session r = tr_session r' \<and> tr_generation r = tr_generation r' \<longrightarrow> k = k'))"

lemma runs_inv_bound:
  "runs_inv g \<Longrightarrow> map_of (bg_tasks g) k = Some t \<Longrightarrow> run_of t = Some r \<Longrightarrow> 1 \<le> tr_generation r \<and> tr_generation r \<le> gen_of g (tr_session r)"
  unfolding runs_inv_def by blast

lemma runs_inv_unique:
  "runs_inv g \<Longrightarrow> map_of (bg_tasks g) k = Some t \<Longrightarrow> map_of (bg_tasks g) k' = Some t' \<Longrightarrow> run_of t = Some r \<Longrightarrow> run_of t' = Some r' \<Longrightarrow>
   tr_session r = tr_session r' \<Longrightarrow> tr_generation r = tr_generation r' \<Longrightarrow> k = k'"
  unfolding runs_inv_def by blast

lemma runs_inv_sub:
  assumes "runs_inv g" "\<forall>i. gen_of g i \<le> gen_of g' i" "\<And>j s. map_of (bg_tasks g') j = Some s \<Longrightarrow> map_of (bg_tasks g) j = Some s"
  shows "runs_inv g'"
  unfolding runs_inv_def
proof (intro conjI allI impI)
  fix j s r
  assume "map_of (bg_tasks g') j = Some s \<and> run_of s = Some r"
  then have *: "map_of (bg_tasks g) j = Some s" "run_of s = Some r" using assms(3) by auto
  from runs_inv_bound [OF assms(1) *] show "1 \<le> tr_generation r" by simp
  from runs_inv_bound [OF assms(1) *] assms(2) show "tr_generation r \<le> gen_of g' (tr_session r)" using le_trans by blast
next
  fix j j' s s' r r'
  assume "map_of (bg_tasks g') j = Some s \<and> map_of (bg_tasks g') j' = Some s' \<and> run_of s = Some r \<and> run_of s' = Some r'
    \<and> tr_session r = tr_session r' \<and> tr_generation r = tr_generation r'"
  then show "j = j'" using runs_inv_unique [OF assms(1), of j s j' s' r r'] assms(3) by auto
qed

lemma runs_inv_grow:
  assumes "runs_inv g" "bg_tasks g' = bg_tasks g" "\<forall>i. gen_of g i \<le> gen_of g' i"
  shows "runs_inv g'"
  using assms(1,3) by (rule runs_inv_sub) (simp add: assms(2))

lemma runs_inv_drop:
  assumes "runs_inv g" "\<forall>i. gen_of g i \<le> gen_of g' i" "map_of (bg_tasks g') = (map_of (bg_tasks g))(k := None)"
  shows "runs_inv g'"
  using assms(1,2) by (rule runs_inv_sub) (auto simp: assms(3) split: if_splits)

text \<open>A task is put in its place: a new run has a generation above all others, a continued one keeps its own.\<close>

lemma runs_inv_put:
  assumes "runs_inv g" "\<forall>i. gen_of g i \<le> gen_of g' i" "map_of (bg_tasks g') = (map_of (bg_tasks g))(k \<mapsto> t)"
    and new: "\<And>r. run_of t = Some r \<Longrightarrow> gen_of g (tr_session r) < tr_generation r \<and> tr_generation r \<le> gen_of g' (tr_session r)
      \<or> (\<exists>t0. map_of (bg_tasks g) k = Some t0 \<and> run_of t0 = Some r)"
  shows "runs_inv g'"
proof -
  have bound: "tr_generation r \<le> gen_of g' (tr_session r)" if "tr_generation r \<le> gen_of g (tr_session r)" for r
    using that assms(2) le_trans by blast
  have src: "(j = k \<and> gen_of g (tr_session r) < tr_generation r \<and> tr_generation r \<le> gen_of g' (tr_session r))
      \<or> (\<exists>s0. map_of (bg_tasks g) j = Some s0 \<and> run_of s0 = Some r)"
    if "map_of (bg_tasks g') j = Some s" "run_of s = Some r" for j s r
    using that new [of r] assms(3) by (cases "j = k") auto
  have above: "\<not> gen_of g (tr_session r) < tr_generation r" if "map_of (bg_tasks g) j = Some s0" "run_of s0 = Some r" for j s0 r
    using runs_inv_bound [OF assms(1) that] by simp
  show ?thesis
    unfolding runs_inv_def
  proof (intro conjI allI impI)
    fix j s r
    assume "map_of (bg_tasks g') j = Some s \<and> run_of s = Some r"
    then show "1 \<le> tr_generation r" "tr_generation r \<le> gen_of g' (tr_session r)"
      using src [of j s r] runs_inv_bound [OF assms(1), of j _ r] bound [of r] by auto
  next
    fix j j' s s' r r'
    assume *: "map_of (bg_tasks g') j = Some s \<and> map_of (bg_tasks g') j' = Some s' \<and> run_of s = Some r \<and> run_of s' = Some r'
      \<and> tr_session r = tr_session r' \<and> tr_generation r = tr_generation r'"
    from * have "(j = k \<and> gen_of g (tr_session r) < tr_generation r) \<or> (\<exists>s0. map_of (bg_tasks g) j = Some s0 \<and> run_of s0 = Some r)"
      using src [of j s r] by blast
    moreover from * have "(j' = k \<and> gen_of g (tr_session r') < tr_generation r') \<or> (\<exists>s0. map_of (bg_tasks g) j' = Some s0 \<and> run_of s0 = Some r')"
      using src [of j' s' r'] by blast
    ultimately show "j = j'"
      using * above [of j _ r] above [of j' _ r'] runs_inv_unique [OF assms(1), of j _ j' _ r r'] by auto
  qed
qed

lemma handlers_grow:
  "\<forall>i. gen_of g i \<le> gen_of (snd (start_request cfg now r g)) i"
  "\<forall>i. gen_of g i \<le> gen_of (snd (resume_fg cfg now t ans g)) i"
  "\<forall>i. gen_of g i \<le> gen_of (snd (resume_bg cfg now bt ans g)) i"
  using gm.start_good [of g g r cfg now] gm.resume_good [of g g t ans cfg now] gm.resume_bg_good [of g g bt cfg now ans]
  by (simp_all add: good_def bg_good_def)

lemma settle_fg_runs:
  assumes "runs_inv g" "fresh_run g (n, g1)" "\<forall>i. gen_of g i \<le> gen_of g1 i" "bg_tasks g1 = bg_tasks g"
  shows "runs_inv (settle_fg k n g1)"
proof (cases n)
  case (Await t)
  then show ?thesis by (intro runs_inv_grow [OF assms(1)]) (use assms(3,4) in \<open>simp_all add: gen_of_def\<close>)
next
  case (Reply x bg)
  show ?thesis
  proof (cases bg)
    case None
    with Reply show ?thesis by (intro runs_inv_grow [OF assms(1)]) (use assms(3,4) in \<open>simp_all add: gen_of_def\<close>)
  next
    case (Some t)
    have "\<forall>i. gen_of g i \<le> gen_of (settle_fg k n g1) i" using assms(3) by (simp add: Reply gen_of_def)
    moreover have "map_of (bg_tasks (settle_fg k n g1)) = (map_of (bg_tasks g))(k \<mapsto> t)" using assms(4) by (simp add: Reply Some)
    moreover have "gen_of g (tr_session r) < tr_generation r \<and> tr_generation r \<le> gen_of (settle_fg k n g1) (tr_session r)"
      if "run_of t = Some r" for r
      using assms(2) that by (simp add: fresh_run_def Reply Some gen_of_def)
    ultimately show ?thesis by (intro runs_inv_put [OF assms(1)]) blast+
  qed
qed

lemma step_runs:
  assumes "runs_inv g"
  shows "runs_inv (gateway_step cfg now ev g)"
proof (cases ev)
  case (Arrive r)
  let ?g = "g\<lparr>nextRequest := Suc (nextRequest g)\<rparr>"
  have i: "runs_inv ?g" by (rule runs_inv_grow [OF assms]) (simp_all add: gen_of_def)
  obtain n g1 where r: "start_request cfg now r ?g = (n, g1)" by fastforce
  have "runs_inv (settle_fg (nextRequest g) n g1)"
    using settle_fg_runs [OF i, of n g1] start_fresh [of ?g cfg now r] handlers_grow(1) [of ?g cfg now r] handlers_frame(1) [of ?g cfg now r]
    by (simp add: r loop_frame_def)
  then show ?thesis by (simp add: Arrive r)
next
  case (AnswerFg k ans)
  show ?thesis
  proof (cases "map_of (fg_tasks g) k")
    case (Some t)
    obtain n g1 where r: "resume_fg cfg now t ans g = (n, g1)" by fastforce
    have "runs_inv (settle_fg k n g1)"
      using settle_fg_runs [OF assms, of n g1] resume_fresh [of g cfg now t ans] handlers_grow(2) [of g cfg now t ans]
        handlers_frame(2) [of g cfg now t ans]
      by (simp add: r loop_frame_def)
    then show ?thesis by (simp add: AnswerFg Some r)
  qed (use assms in \<open>simp add: AnswerFg\<close>)
next
  case (AnswerBg k ans)
  show ?thesis
  proof (cases "map_of (bg_tasks g) k")
    case (Some t)
    obtain n g1 where r: "resume_bg cfg now t ans g = (n, g1)" by fastforce
    have grow: "\<forall>i. gen_of g i \<le> gen_of (settle_bg k n g1) i"
      using handlers_grow(3) [of g cfg now t ans] by (cases n) (simp_all add: r gen_of_def)
    have same: "bg_tasks g1 = bg_tasks g" using handlers_frame(3) [of g cfg now t ans] by (simp add: r loop_frame_def)
    have "runs_inv (settle_bg k n g1)"
    proof (cases n)
      case (Continue t')
      then have "run_of t' = run_of t" using resume_bg_same_run [of cfg now t ans g t'] by (simp add: r)
      then show ?thesis
        by (intro runs_inv_put [OF assms grow, of k t']) (use Some same Continue in auto)
    next
      case Finished
      then show ?thesis by (intro runs_inv_drop [OF assms grow, of k]) (simp add: same)
    qed
    then show ?thesis by (simp add: AnswerBg Some r)
  qed (use assms in \<open>simp add: AnswerBg\<close>)
next
  case (BridgeRuns op)
  have "runs_inv (do_bridge cfg now op g)"
    using handlers_frame(4) [of g cfg now op] by (intro runs_inv_grow [OF assms]) (simp_all add: loop_frame_def gen_of_def)
  then show ?thesis using assms by (simp add: BridgeRuns)
next
  case (ClientText c raw)
  have "runs_inv (client_text cfg now c raw g)"
    by (rule runs_inv_grow [OF assms]) (simp_all add: client_text_def gen_of_def split_beta split: option.splits)
  then show ?thesis by (simp add: ClientText)
qed (use assms in \<open>auto intro!: runs_inv_grow [OF assms] simp: on_store_def on_client_def gen_of_def split_beta\<close>)

lemma run_runs: "runs_inv g \<Longrightarrow> runs_inv (gateway_run cfg evs g)"
  unfolding gateway_run_def by (induction evs arbitrary: g) (auto intro: step_runs)

lemma start_runs: "runs_inv (new_gateway st)"
  by (simp add: runs_inv_def new_gateway_def)

lemma current_generation: "run_current r g \<Longrightarrow> gen_of g (tr_session r) = tr_generation r"
  by (simp add: run_current_def isCurrent_def gen_of_def)

text \<open>C10. One turn at a time: of all the turns of a session that the gateway is preparing in the background,
  at most one is current in any run, so that at most one can still start, fail or change the session.\<close>

theorem one_current_turn:
  assumes "g = gateway_run cfg evs (new_gateway st)"
    and "map_of (bg_tasks g) k = Some t" "map_of (bg_tasks g) k' = Some t'" "run_of t = Some r" "run_of t' = Some r'"
    and "tr_session r = tr_session r'" "run_current r g" "run_current r' g"
  shows "k = k'"
proof -
  have "runs_inv g" using run_runs [OF start_runs] assms(1) by blast
  moreover have "tr_generation r = tr_generation r'"
    using current_generation [OF assms(7)] current_generation [OF assms(8)] assms(6) by simp
  ultimately show ?thesis using runs_inv_unique assms(2-6) by blast
qed

lemma admitted_runs: "g_runs (snd (turn_admitted cfg now i b ra p x g)) = snd (begin_run (g_runs g) i)"
  by (simp add: turn_admitted_def Let_def split_beta)

text \<open>A run in which a turn has been accepted.\<close>

lemma sample_run:
  obtains r where "map_of (bg_tasks (gateway_run sample_config [(0, Arrive (PostTurns sample_uuid sample_turn))] (new_gateway known_store))) 0
      = Some (TurnResume r)" "tr_session r = sample_uuid"
    "run_current r (gateway_run sample_config [(0, Arrive (PostTurns sample_uuid sample_turn))] (new_gateway known_store))"
proof -
  let ?g = "(new_gateway known_store)\<lparr>nextRequest := Suc 0\<rparr>"
  let ?s = "the (turn_session sample_config 0 sample_turn (Some known_session) None)"
  obtain g2 where g2: "post_turns sample_config 0 sample_uuid sample_turn ?g
      = turn_admitted sample_config 0 sample_uuid sample_turn 0 (Some known_session) ?s g2" and q: "g_runs g2 = g_runs ?g"
    by (rule sample_turn_admission [of ?g 0]) (simp_all add: new_gateway_def isActive_def new_turn_gate_def)
  let ?r = "\<lparr>tr_session = sample_uuid, tr_body = sample_turn, tr_policy = turn_policy sample_turn (Some known_session),
      tr_generation = fst (begin_run (g_runs g2) sample_uuid)\<rparr>"
  obtain x g3 where p: "post_turns sample_config 0 sample_uuid sample_turn ?g = (Reply x (Some (TurnResume ?r)), g3)"
    using admitted_is_reply [of sample_config 0 sample_uuid sample_turn 0 "Some known_session" ?s g2] g2
    by (cases "turn_admitted sample_config 0 sample_uuid sample_turn 0 (Some known_session) ?s g2") auto
  have "g_runs g3 = snd (begin_run (g_runs g2) sample_uuid)"
    using admitted_runs [of sample_config 0 sample_uuid sample_turn 0 "Some known_session" ?s g2] p g2 by simp
  then have "run_current ?r (settle_fg 0 (Reply x (Some (TurnResume ?r))) g3)"
    by (simp add: run_current_def isCurrent_def begin_run_def Let_def)
  moreover have "gateway_run sample_config [(0, Arrive (PostTurns sample_uuid sample_turn))] (new_gateway known_store)
      = settle_fg 0 (Reply x (Some (TurnResume ?r))) g3"
    using p by (simp add: gateway_run_def new_gateway_def)
  ultimately show ?thesis by (intro that [of ?r]) simp_all
qed

lemma one_current_turn_witness:
  "\<exists>r. map_of (bg_tasks (gateway_run sample_config [(0, Arrive (PostTurns sample_uuid sample_turn))] (new_gateway known_store))) 0
      = Some (TurnResume r)
    \<and> (\<forall>k t r'. map_of (bg_tasks (gateway_run sample_config [(0, Arrive (PostTurns sample_uuid sample_turn))] (new_gateway known_store))) k
          = Some t \<and> run_of t = Some r' \<and> tr_session r' = tr_session r
        \<and> run_current r' (gateway_run sample_config [(0, Arrive (PostTurns sample_uuid sample_turn))] (new_gateway known_store)) \<longrightarrow> k = 0)"
proof -
  obtain r where r: "map_of (bg_tasks (gateway_run sample_config [(0, Arrive (PostTurns sample_uuid sample_turn))] (new_gateway known_store))) 0
      = Some (TurnResume r)"
    "run_current r (gateway_run sample_config [(0, Arrive (PostTurns sample_uuid sample_turn))] (new_gateway known_store))"
    by (rule sample_run)
  then show ?thesis using one_current_turn [OF refl _ r(1), of _ _ _ r] by auto
qed

section \<open>Stopped turns\<close>





end
