(* ===== verification/GatewayStatus.thy ===== *)
theory GatewayStatus
  imports GatewaySamples
begin

text \<open>
  How the status of a session follows what happens to it: late events of Codex after a stop, turns on a
  busy session, and what stopping and starting turns leave in the store.
\<close>

section \<open>The status of a stored session\<close>


lemma getSession_save: "getSession (saveSession x st) i = (if i = s_id x then Some x else getSession st i)"
  by (simp add: getSession_def saveSession_def persistSessions_def)

lemma getSession_upsert:
  "getSession (upsertSession x st) i = (if i = s_id x then Some (merge_session (getSession st i) x) else getSession st i)"
  by (simp add: upsertSession_def getSession_save merge_session_def session_spread_def split: option.splits)

lemma merge_status [simp]: "status (merge_session e x) = status x"
  by (simp add: merge_session_def session_spread_def split: option.splits)





lemma getSession_same: "sessions st' = sessions st \<Longrightarrow> getSession st' i = getSession st i"
  by (simp add: getSession_def)



text \<open>The state in which \<open>broadcastGateway\<close> applies a message.\<close>

lemma broadcast_state:
  obtains m' st where "broadcastGateway m s g = snd (apply_message m' s (g\<lparr>g_store := st\<rparr>))
      \<or> broadcastGateway m s g = send_all (json_message m') (snd (apply_message m' s (g\<lparr>g_store := st\<rparr>)))"
    "m_type m' = m_type m" "m_sessionId m' = m_sessionId m" "m_payload m' = m_payload m" "m_timestamp m' = m_timestamp m"
    "st = persistSubagentRelation m' (snd (takeEventWriteErrors (snd (appendEvent m (g_store g)))))"
proof -
  let ?m = "case fst (appendEvent m (g_store g)) of Some p \<Rightarrow> p | None \<Rightarrow> m"
  have "m_type ?m = m_type m" "m_sessionId ?m = m_sessionId m" "m_payload ?m = m_payload m" "m_timestamp ?m = m_timestamp m"
    by (auto simp: appendEvent_def Let_def split_beta split: option.splits)
  then show ?thesis
    using that [of ?m "persistSubagentRelation ?m (snd (takeEventWriteErrors (snd (appendEvent m (g_store g)))))"]
    by (simp add: broadcastGateway_def Let_def split_beta)
qed

section \<open>Late events\<close>



lemma infer_final [simp]: "inferFinishedStatus m \<noteq> Running" "inferFinishedStatus m \<noteq> Starting"
  unfolding inferFinishedStatus_def Let_def by simp_all







section \<open>Busy sessions\<close>

text \<open>A session that is busy admits no turn: while the turn gate of a session is taken, a request for a
  turn, on both branches of the route, is answered at once or waits for its lookup; it asks nothing of
  Codex, leaves no task behind and changes no session.\<close>

theorem busy_session_admits_no_turn:
  assumes "isActive (g_gate g) i"
  shows "bridgeOps (snd (post_turns cfg now i b g)) = bridgeOps g \<and> sessions (g_store (snd (post_turns cfg now i b g))) = sessions (g_store g)
      \<and> (\<forall>x t. fst (post_turns cfg now i b g) \<noteq> Reply x (Some t))
    \<and> bridgeOps (snd (turn_looked_up cfg now i b ra ans g)) = bridgeOps g
      \<and> sessions (g_store (snd (turn_looked_up cfg now i b ra ans g))) = sessions (g_store g)
      \<and> (\<forall>x t. fst (turn_looked_up cfg now i b ra ans g) \<noteq> Reply x (Some t))"
proof -
  let ?Q = "\<lambda>res. bridgeOps (snd res) = bridgeOps g \<and> sessions (g_store (snd res)) = sessions (g_store g)
      \<and> (\<forall>x t. fst res \<noteq> Reply x (Some t))"
  have plain: "?Q (n, g)" if "\<forall>x t. n \<noteq> Reply x (Some t)" for n using that by simp
  note reply_defs = respond_def refuse_def throw_def rethrow_def forbidden_def not_found_def accepted_duplicate_def
  have a: "fst (try_acquire i r r' g1) \<noteq> Accepted \<and> snd (try_acquire i r r' g1) = g1" if "g_gate g1 = g_gate g" for r r' g1
    using assms that by (simp add: try_acquire_def acquire_def isActive_def)
  have r: "g_gate (snd (reserve_client now i rid g)) = g_gate g" "bridgeOps (snd (reserve_client now i rid g)) = bridgeOps g"
    "sessions (g_store (snd (reserve_client now i rid g))) = sessions (g_store g)" for rid
    by (simp_all add: reserve_client_def split_beta split: option.splits)
  have c: "?Q (turn_checked cfg now i b t s x ws g)" for t s x ws
    using a [OF r(1)] r
    by (auto simp: turn_checked_def Let_def split_beta reply_defs release_client_def on_store_def split: turn_admission.splits option.splits)
  have "?Q (checked v fs cont g)" if "?Q cont" for v fs cont
    using that by (auto simp: checked_def reply_defs split: list.splits)
  moreover have "?Q (turn_looked_up cfg now i b ra ans g)"
    using c plain by (simp add: turn_looked_up_def reply_defs split: answer.splits sum.splits option.splits)
  ultimately show ?thesis
    using c by (simp add: post_turns_def reply_defs split: option.splits)
qed

lemma busy_session_admits_no_turn_witness:
  "bridgeOps (snd (post_turns sample_config 0 sample_uuid sample_turn
     ((new_gateway known_store)\<lparr>g_gate := \<lparr>activeSessions = [sample_uuid]\<rparr>\<rparr>))) = []"
  using busy_session_admits_no_turn [of "(new_gateway known_store)\<lparr>g_gate := \<lparr>activeSessions = [sample_uuid]\<rparr>\<rparr>" sample_uuid
      sample_config 0 sample_turn]
  by (simp add: isActive_def new_gateway_def)

section \<open>What a stop records\<close>

lemma no_relation:
  "m_type m \<notin> {''subagent-started'', ''subagent-finished'', ''session-forked''} \<Longrightarrow> persistSubagentRelation m st = st"
  by (simp add: persistSubagentRelation_def)

text \<open>The session that a finished message leaves.\<close>

lemma finished_session:
  assumes "getSession (g_store g) i = Some x" "s_id x = i" "i \<noteq> []"
  shows "getSession (g_store (broadcastGateway (plain_msg ''session-finished'' i now ps) None g)) i
    = Some (x\<lparr>status := inferFinishedStatus (plain_msg ''session-finished'' i now ps), activeTurnId := Undef,
        finishedAt := Val (toISOString now), lastTurnFinishedAt := Val (toISOString now), lastUpdatedAt := toISOString now\<rparr>)"
proof -
  let ?m = "plain_msg ''session-finished'' i now ps"
  obtain m' st where b: "broadcastGateway ?m None g = snd (apply_message m' None (g\<lparr>g_store := st\<rparr>))
      \<or> broadcastGateway ?m None g = send_all (json_message m') (snd (apply_message m' None (g\<lparr>g_store := st\<rparr>)))"
    and m: "m_type m' = m_type ?m" "m_sessionId m' = m_sessionId ?m" "m_payload m' = m_payload ?m" "m_timestamp m' = m_timestamp ?m"
    and st: "st = persistSubagentRelation m' (snd (takeEventWriteErrors (snd (appendEvent ?m (g_store g)))))"
    by (rule broadcast_state [of ?m None g])
  have m': "m_type m' = ''session-finished''" "m_sessionId m' = Some i" "m_timestamp m' = toISOString now"
    using m by (simp_all add: plain_msg_def gateway_msg_def)
  have "sessions st = sessions (g_store g)" using m'(1) by (simp add: st no_relation)
  then have x: "getSession st i = Some x" using assms(1) by (simp add: getSession_def)
  have inf: "inferFinishedStatus m' = inferFinishedStatus ?m" using m(3) by (simp add: inferFinishedStatus_def)
  have "apply_message m' None (g\<lparr>g_store := st\<rparr>) = (True, take_finished i m' (g\<lparr>g_store := st\<rparr>))"
    using assms(3) m' by (simp add: apply_message_def)
  moreover have "getSession (g_store (take_finished i m' (g\<lparr>g_store := st\<rparr>))) i
      = Some (x\<lparr>status := inferFinishedStatus ?m, activeTurnId := Undef, finishedAt := Val (toISOString now),
          lastTurnFinishedAt := Val (toISOString now), lastUpdatedAt := toISOString now\<rparr>)"
    using x assms(2) by (simp add: take_finished_def on_store_def set_idle_def updateSession_def getSession_save inf m'(3) Let_def)
  ultimately show ?thesis using b by (auto simp: send_all_def)
qed

lemma stopped_status:
  "inferFinishedStatus (plain_msg ''session-finished'' i now
     ((''sessionId'', Some (JStr i)) # (''status'', Some (JStr ''cancelled'')) # map (\<lambda>(k, v). (k, Some v)) (spread_opt ''turnId'' t))) = Completed"
  by (cases t) (auto simp: inferFinishedStatus_def plain_msg_def gateway_msg_def spread_opt_def jchain_def as_str_def)

text \<open>C35. A stopped session is recorded as completed. \<open>settleInterruptedSession\<close> stores the status cancelled and
  then sends a \<open>session-finished\<close> message that carries the status but no turn; \<open>broadcastGateway\<close> infers
  the final status from the turn alone and overwrites the stored status with completed. The session
  also gets back the policy that the stopping request had read before its awaits, even if the policy
  has been changed since.\<close>

theorem stop_is_recorded_as_completed:
  assumes "s_id base = i" "i \<noteq> []"
  shows "\<exists>s. getSession (g_store (snd (settleInterruptedSession now i base turnId g))) i = Some s
    \<and> status s = Completed \<and> sessionPolicyMode s = sessionPolicyMode base"
proof -
  let ?g1 = "set_idle i (g\<lparr>g_runs := snd (cancel_run (g_runs g) i), cancelledSessions := add_tombstone i (cancelledSessions g)\<rparr>)"
  let ?base = "base\<lparr>status := Cancelled, activeTurnId := Undef, finishedAt := Val (toISOString now),
      lastTurnFinishedAt := Val (toISOString now), lastUpdatedAt := toISOString now\<rparr>"
  let ?x = "merge_session (getSession (g_store ?g1) i) ?base"
  have "getSession (g_store (on_store (upsertSession ?base) ?g1)) i = Some ?x"
    using assms(1) by (simp add: on_store_def getSession_upsert)
  moreover have "s_id ?x = i" using assms(1) by (simp add: merge_session_def session_spread_def split: option.splits)
  ultimately show ?thesis
    using finished_session [OF _ _ assms(2)] by (simp add: settleInterruptedSession_def Let_def stopped_status)
qed

lemma stop_is_recorded_as_completed_witness:
  "\<exists>s. getSession (g_store (snd (settleInterruptedSession 0 sample_uuid known_session None (new_gateway known_store)))) sample_uuid = Some s
     \<and> status s = Completed"
  using stop_is_recorded_as_completed [of known_session sample_uuid 0 None "new_gateway known_store"]
  by (auto simp: known_session_def sample_session_def sample_uuid_def)

section \<open>The request of an accepted turn\<close>

text \<open>Requests to the app-server send no event.\<close>

fun quiet :: "bridge_effect \<Rightarrow> bool" where
  "quiet (EmitEvent rpc params) = False"
| "quiet (EmitLog txt) = False"
| "quiet _ = True"

definition quietly :: "bridge \<Rightarrow> bridge \<Rightarrow> bool" where
  "quietly b b' = (\<exists>es. effects b' = effects b @ es \<and> list_all quiet es)"

lemma quietly_trans [trans]: "quietly b b1 \<Longrightarrow> quietly b1 b2 \<Longrightarrow> quietly b b2"
  unfolding quietly_def by (elim exE conjE) (rule_tac x = "es @ esa" in exI, simp)

lemma quietly_same: "effects b' = effects b \<Longrightarrow> quietly b b'"
  by (simp add: quietly_def)

lemma quietly_fx: "list_all quiet es \<Longrightarrow> quietly b (fx es b)"
  by (auto simp: quietly_def fx_def)

lemma send_quietly: "quietly b (snd (sendRequest rpc params t b))"
  by (auto simp: sendRequest_def writeMessage_def Let_def fx_def quietly_def)

lemma resume_quietly: "quietly b (resumeThread i mode b)"
proof -
  have c: "quietly b (connect b)" for b
  proof -
    let ?b = "ensureServerProcess (b\<lparr>ready := False\<rparr>)"
    have "quietly b ?b" by (rule quietly_same) (simp add: ensureServerProcess_def split: option.splits)
    also have "quietly ?b (snd (sendRequest ''initialize'' initialize_params 120000 ?b))" by (rule send_quietly)
    finally show ?thesis by (auto simp: connect_def quietly_def split: prod.splits sum.splits)
  qed
  have r: "quietly b (snd (ensureReady b))" for b
    using c [of b] quietly_same [of b b] by (simp add: ensureReady_def)
  have s: "quietly b (send_or_fail rpc params t b)" for rpc params t b
    using send_quietly [of b rpc params t]
    by (auto simp: send_or_fail_def fx_def quietly_def split: prod.splits sum.splits)
  have q: "quietly b (request rpc params t b)" for rpc params t b
    using r [of b] s [of "snd (ensureReady b)" rpc params t] quietly_trans [of b "snd (ensureReady b)"]
    by (auto simp: request_def split_beta quietly_def)
  have "quietly b (rememberPolicy i m b)" for m by (rule quietly_same) (simp add: rememberPolicy_def)
  from quietly_trans [OF this q] show ?thesis by (simp add: resumeThread_def Let_def)
qed

lemma resume_keeps_store: "g_store (do_bridge cfg now (OpResume i mode) g) = g_store g"
proof -
  have n: "fold (on_effect now) es g' = g'" if "list_all quiet es" for es g'
    using that
  proof (induction es arbitrary: g')
    case (Cons e es)
    then show ?case by (cases e) simp_all
  qed simp
  obtain es where "effects (resumeThread i mode (g_bridge g)) = effects (g_bridge g) @ es" "list_all quiet es"
    using resume_quietly [of "g_bridge g" i mode] unfolding quietly_def by blast
  then show ?thesis using n by (simp add: do_bridge_def Let_def)
qed

text \<open>The session in the payload of a message replaces the stored one.\<close>

lemma broadcast_with_session:
  assumes "s_id x \<notin> set (cancelledSessions g)" "m_type m = ''session-status''"
  shows "getSession (g_store (broadcastGateway m (Some x) g)) (s_id x) = Some (merge_session (getSession (g_store g) (s_id x)) x)"
proof -
  obtain m' st where b: "broadcastGateway m (Some x) g = snd (apply_message m' (Some x) (g\<lparr>g_store := st\<rparr>))
      \<or> broadcastGateway m (Some x) g = send_all (json_message m') (snd (apply_message m' (Some x) (g\<lparr>g_store := st\<rparr>)))"
    and t: "m_type m' = m_type m"
    and st: "st = persistSubagentRelation m' (snd (takeEventWriteErrors (snd (appendEvent m (g_store g)))))"
    by (rule broadcast_state [of m "Some x" g])
  have "sessions st = sessions (g_store g)" using t assms(2) by (simp add: st no_relation)
  then have "getSession st j = getSession (g_store g) j" for j by (rule getSession_same)
  then have "getSession (g_store (snd (apply_message m' (Some x) (g\<lparr>g_store := st\<rparr>)))) (s_id x)
      = Some (merge_session (getSession (g_store g) (s_id x)) x)"
    using assms(1)
    by (auto simp: apply_message_def take_session_def on_store_def set_live_def set_idle_def getSession_upsert)
  then show ?thesis using b by (auto simp: send_all_def)
qed

lemma broadcast_cancelled: "cancelledSessions (broadcastGateway m s g) = cancelledSessions g"
proof -
  have "cancelledSessions (snd (apply_message m' s g')) = cancelledSessions g'" for m' g'
    by (auto simp: apply_message_def take_session_def take_finished_def take_status_def take_approval_def on_store_def set_live_def
        set_idle_def split: option.splits)
  then show ?thesis by (simp add: broadcastGateway_def Let_def split_beta send_all_def)
qed

lemma admitted_forgets:
  assumes "s_id x = i" "recentClientRequestIds x = Val ids" "lastClientRequestId x = Val old" "rid \<notin> set ids" "rid \<noteq> old"
  shows "\<not> hasClientRequest (g_store (snd (turn_admitted cfg now i b ra p x g))) i rid"
proof -
  have "\<exists>g5. snd (turn_admitted cfg now i b ra p x g) = do_bridge cfg now (OpResume i (Some (turn_policy b p))) g5
      \<and> (\<exists>e. getSession (g_store g5) i = Some (merge_session e x))"
    using broadcast_with_session [of x, unfolded assms(1)]
    by (simp add: turn_admitted_def Let_def split_beta)
      (rule exI, rule conjI, rule refl, rule exI, rule broadcast_with_session [of x, unfolded assms(1)],
        simp_all add: broadcast_cancelled remember_client_def on_store_def set_live_def plain_msg_def gateway_msg_def split: option.splits)
  then obtain g5 e where g5: "snd (turn_admitted cfg now i b ra p x g) = do_bridge cfg now (OpResume i (Some (turn_policy b p))) g5"
    and e: "getSession (g_store g5) i = Some (merge_session e x)" by blast
  have "recentClientRequestIds (merge_session e x) = Val ids" "lastClientRequestId (merge_session e x) = Val old"
    using assms(2,3) by (simp_all add: merge_session_def session_spread_def prop_spread_def split: option.splits)
  then show ?thesis using e assms(4,5) by (simp add: g5 hasClientRequest_def resume_keeps_store prop_get_def)
qed

text \<open>C36. The request id of an accepted turn is forgotten. On a stored session with a history of request ids,
  the route remembers the id of the turn it accepts, and then sends a status message with the session
  object it had read before; \<open>broadcastGateway\<close> merges that object into the store and so restores the
  old history. A repetition of the request is not recognised as a duplicate.\<close>

theorem accepted_turn_is_forgotten:
  assumes "post_turns cfg now i b g = (Reply resp (Some task), g')"
    and "getSession (g_store g) i = Some x" "s_id x = i" "recentClientRequestIds x = Val ids" "lastClientRequestId x = Val old"
    and "turn_request_id b = Some rid" "rid \<notin> set ids" "rid \<noteq> old"
  shows "\<not> hasClientRequest (g_store g') i rid"
proof -
  let ?x = "the (turn_session cfg now b (Some x) None)"
  note reply_defs = respond_def refuse_def throw_def forbidden_def accepted_duplicate_def
  from assms(1,2) have "turn_checked cfg now i b now (Some x) ?x (Some (workspacePath x)) g = (Reply resp (Some task), g')"
    by (auto simp: post_turns_def checked_def reply_defs split: if_splits list.splits)
  then obtain g2 where g2: "turn_admitted cfg now i b now (Some x) ?x g2 = (Reply resp (Some task), g')"
    by (auto simp: turn_checked_def Let_def split_beta reply_defs split: if_splits turn_admission.splits)
  have "\<not> hasClientRequest (g_store (snd (turn_admitted cfg now i b now (Some x) ?x g2))) i rid"
    by (rule admitted_forgets) (use assms in \<open>simp_all add: turn_session_def\<close>)
  with g2 show ?thesis by simp
qed

lemma accepted_turn_is_forgotten_witness:
  "\<not> hasClientRequest (g_store (snd (post_turns sample_config 0 sample_uuid sample_turn (new_gateway known_store)))) sample_uuid ''r''"
proof -
  let ?s = "the (turn_session sample_config 0 sample_turn (Some known_session) None)"
  obtain g2 where g2: "post_turns sample_config 0 sample_uuid sample_turn (new_gateway known_store)
      = turn_admitted sample_config 0 sample_uuid sample_turn 0 (Some known_session) ?s g2"
    by (rule sample_turn_admission [of "new_gateway known_store" 0]) (simp_all add: new_gateway_def isActive_def new_turn_gate_def)
  obtain x t g3 where p: "post_turns sample_config 0 sample_uuid sample_turn (new_gateway known_store) = (Reply x (Some t), g3)"
    using admitted_is_reply [of sample_config 0 sample_uuid sample_turn 0 "Some known_session" ?s g2] g2
    by (cases "turn_admitted sample_config 0 sample_uuid sample_turn 0 (Some known_session) ?s g2") auto
  have "getSession (g_store (new_gateway known_store)) sample_uuid = Some known_session"
    by (simp add: new_gateway_def known_session_stored)
  from accepted_turn_is_forgotten [OF p this, of "[''q'']" "''q''" "''r''"] p
  show ?thesis by (simp add: known_session_def sample_session_def turn_request_id_def sample_turn_def opt_or_def)
qed

end
