(* ===== verification/RelaySync.thy ===== *)
theory RelaySync
  imports Store
begin

text \<open>
  The session list that is pushed to the cloud relay (\<open>relaySessionSync.ts\<close>).

  The answer of the local \<open>fetch\<close> is an argument: the error it was rejected with, or the status code
  and the body, which is \<open>None\<close> when it is not JSON.
\<close>

section \<open>Definitions\<close>

record sync_metadata =
  sm_id :: string
  sm_title :: string
  sm_workspacePath :: string
  sm_status :: string
  sm_updatedAt :: string
  sm_policy :: policy_mode

record sync_payload =
  sp_requestId :: string
  sp_sessions :: "sync_metadata list"
  sp_cursors :: "(string, js_number) js_map"

definition stringOr :: "json option \<Rightarrow> string \<Rightarrow> string" where
  "stringOr value fallback = (case as_str value of Some s \<Rightarrow> s | None \<Rightarrow> fallback)"

text \<open>The title \<open>Codex\<close> followed by the UTF-8 bytes of the two characters for ``session''.\<close>

definition untitled :: string where
  "untitled = ''Codex '' @ [CHR 0xE4, CHR 0xBC, CHR 0x9A, CHR 0xE8, CHR 0xAF, CHR 0x9D]"

definition normalizeSession :: "json \<Rightarrow> sync_metadata option" where
  "normalizeSession value =
     (if \<not> is_object value then None
      else
        let sid = (case str_field value ''id'' of Some s \<Rightarrow> trim s | None \<Rightarrow> [])
        in if sid = [] then None
           else Some \<lparr>sm_id = sid, sm_title = stringOr (jget value ''title'') untitled,
                  sm_workspacePath = stringOr (jget value ''workspacePath'') [],
                  sm_status = stringOr (jget value ''status'') ''completed'',
                  sm_updatedAt = stringOr (jcoalesce (jget value ''updatedAt'') (jget value ''lastUpdatedAt'')) (toISOString 0),
                  sm_policy = (if jget value ''sessionPolicyMode'' = Some (JStr ''full-access'') then FullAccess else Confirm)\<rparr>)"

definition normalizeCursors :: "(string, js_number) js_map \<Rightarrow> (string, js_number) js_map" where
  "normalizeCursors value =
     fold (\<lambda>(sid, cursor) result.
             if sid = [] \<or> \<not> is_safe_integer cursor \<or> cursor < 0 then result else AList.update sid cursor result)
       value []"

definition extractResponseSessions :: "json option \<Rightarrow> json list option" where
  "extractResponseSessions value =
     (case value of Some v \<Rightarrow> if is_object v then as_arr (jget v ''sessions'') else None | None \<Rightarrow> None)"

definition sync_sessions :: "json list \<Rightarrow> (string, sync_metadata) js_map" where
  "sync_sessions source =
     fold (\<lambda>value byId. case normalizeSession value of Some m \<Rightarrow> AList.update (sm_id m) m byId | None \<Rightarrow> byId) source []"

definition buildSessionSyncPayload ::
  "json option \<Rightarrow> gateway_session list \<Rightarrow> (string, js_number) js_map \<Rightarrow> string \<Rightarrow> sync_payload" where
  "buildSessionSyncPayload response fallback cursors requestId =
     \<lparr>sp_requestId = requestId,
      sp_sessions = map snd (sync_sessions (case extractResponseSessions response of Some ss \<Rightarrow> ss | None \<Rightarrow> map json_session fallback)),
      sp_cursors = normalizeCursors cursors\<rparr>"

definition readResponseBody :: "json option \<Rightarrow> json" where
  "readResponseBody body = (case body of Some v \<Rightarrow> if is_object v then v else JObj [] | None \<Rightarrow> JObj [])"

datatype fetched = FetchFailed string | FetchAnswer nat "json option"

definition fetch_ok :: "nat \<Rightarrow> bool" where
  "fetch_ok code = (200 \<le> code \<and> code \<le> 299)"

definition listing_error :: "nat \<Rightarrow> json \<Rightarrow> string" where
  "listing_error code body =
     ''local session listing failed ('' @ nat_str code @ '')''
     @ (case str_field body ''error'' of Some e \<Rightarrow> '': '' @ e | None \<Rightarrow> [])"

definition loadSessionSyncPayload ::
  "fetched \<Rightarrow> gateway_session list \<Rightarrow> (string, js_number) js_map \<Rightarrow> string \<Rightarrow> sync_payload \<times> string option" where
  "loadSessionSyncPayload answer fallback cursors requestId =
     (case answer of
        FetchFailed e \<Rightarrow>
          (buildSessionSyncPayload None fallback cursors requestId, if e = [] then None else Some e)
      | FetchAnswer code raw \<Rightarrow>
          let body = readResponseBody raw
          in if fetch_ok code then (buildSessionSyncPayload (Some body) fallback cursors requestId, None)
             else (buildSessionSyncPayload None fallback cursors requestId, Some (listing_error code body)))"

definition json_metadata :: "sync_metadata \<Rightarrow> json" where
  "json_metadata m = JObj [(''id'', JStr (sm_id m)), (''title'', JStr (sm_title m)), (''workspacePath'', JStr (sm_workspacePath m)),
     (''status'', JStr (sm_status m)), (''updatedAt'', JStr (sm_updatedAt m)), (''sessionPolicyMode'', JStr (policy_str (sm_policy m)))]"

definition json_sync :: "sync_payload \<Rightarrow> json" where
  "json_sync p = JObj [(''type'', JStr ''session-sync''), (''requestId'', JStr (sp_requestId p)),
     (''sessions'', JArr (map json_metadata (sp_sessions p))), (''cursors'', JObj (map (\<lambda>(k, n). (k, JNum n)) (sp_cursors p)))]"

section \<open>The list that is sent\<close>

lemma sync_sessions_snoc:
  "sync_sessions (source @ [v]) =
     (case normalizeSession v of Some m \<Rightarrow> AList.update (sm_id m) m (sync_sessions source) | None \<Rightarrow> sync_sessions source)"
  by (simp add: sync_sessions_def split: option.split)

lemma sync_sessions_keys: "\<forall>(k, m)\<in>set (sync_sessions source). sm_id m = k"
proof (induction source rule: rev_induct)
  case Nil
  show ?case by (simp add: sync_sessions_def)
next
  case (snoc v source)
  then show ?case by (auto simp: sync_sessions_snoc split: option.splits dest!: set_update_cases)
qed

lemma sync_sessions_wf: "map_wf (sync_sessions source)"
  by (induction source rule: rev_induct)
     (auto simp: sync_sessions_snoc map_wf_update split: option.splits, simp add: sync_sessions_def)

text \<open>The entry of an id is the last one of the source.\<close>

lemma sync_sessions_get:
  "map_of (sync_sessions source) k = at_last (filter (\<lambda>m. sm_id m = k) (List.map_filter normalizeSession source))"
proof (induction source rule: rev_induct)
  case Nil
  show ?case by (simp add: sync_sessions_def map_filter_def)
next
  case (snoc v source)
  then show ?case by (auto simp: sync_sessions_snoc map_filter_def split: option.splits)
qed

lemma sync_ids: "map sm_id (map snd (sync_sessions source)) = map fst (sync_sessions source)"
  using sync_sessions_keys [of source] by (auto simp: case_prod_beta)

lemma normalizeCursors_ok: "\<forall>(k, n)\<in>set (normalizeCursors cs). k \<noteq> [] \<and> is_safe_integer n \<and> 0 \<le> n"
proof (induction cs rule: rev_induct)
  case Nil
  show ?case by (simp add: normalizeCursors_def)
next
  case (snoc c cs)
  then show ?case by (cases c) (auto simp: normalizeCursors_def dest!: set_update_cases split: if_splits)
qed

text \<open>What the relay gets of a stored session.\<close>

lemma map_of_jobj: "distinct (map fst fs) \<Longrightarrow> map_of (jobj fs) k = Option.bind (map_of fs k) (\<lambda>v. v)"
  by (induction fs rule: jobj.induct) (auto simp: map_of_eq_None_iff [symmetric])

lemma json_session_fields:
  "jget (json_session s) ''id'' = Some (JStr (s_id s))"
  "jget (json_session s) ''title'' = Some (JStr (title s))"
  "jget (json_session s) ''workspacePath'' = Some (JStr (workspacePath s))"
  "jget (json_session s) ''status'' = Some (JStr (status_str (status s)))"
  "jget (json_session s) ''updatedAt'' = None"
  "jget (json_session s) ''lastUpdatedAt'' = Some (JStr (lastUpdatedAt s))"
  "jget (json_session s) ''sessionPolicyMode'' = Some (JStr (policy_str (sessionPolicyMode s)))"
  by (simp_all add: jget_def json_session_def map_of_jobj)

lemma json_session_metadata:
  "normalizeSession (json_session s) =
     (if trim (s_id s) = [] then None
      else Some \<lparr>sm_id = trim (s_id s), sm_title = title s, sm_workspacePath = workspacePath s, sm_status = status_str (status s),
             sm_updatedAt = lastUpdatedAt s, sm_policy = sessionPolicyMode s\<rparr>)"
proof -
  have "is_object (json_session s)" by (simp add: json_session_def is_object_def)
  then show ?thesis
    by (cases "sessionPolicyMode s") (simp_all add: normalizeSession_def json_session_fields stringOr_def Let_def
       str_field_def jcoalesce_def nullish_def as_str_def)
qed

section \<open>Properties\<close>

lemma sync_sessions_ids: "set (map fst (sync_sessions source)) = sm_id ` set (List.map_filter normalizeSession source)"
proof (induction source rule: rev_induct)
  case Nil
  show ?case by (simp add: sync_sessions_def map_filter_def)
next
  case (snoc v source)
  then show ?case by (cases "normalizeSession v") (simp_all add: sync_sessions_snoc map_filter_def dom_update)
qed

text \<open>The list that is sent to the relay has one entry for every session of the local listing that has an
  id, made from the last mention of that id, and nothing else; an empty listing empties it, whatever the
  stored sessions are. Its cursors are non-negative safe integers.\<close>

theorem sync_lists_each_session_once:
  assumes "extractResponseSessions response = Some listing"
    and "p = buildSessionSyncPayload response fallback cursors requestId"
  shows "distinct (map sm_id (sp_sessions p))
    \<and> sm_id ` set (sp_sessions p) = sm_id ` set (List.map_filter normalizeSession listing)
    \<and> (\<forall>m\<in>set (sp_sessions p). at_last (filter (\<lambda>x. sm_id x = sm_id m) (List.map_filter normalizeSession listing)) = Some m)
    \<and> (\<forall>(k, n)\<in>set (sp_cursors p). k \<noteq> [] \<and> is_safe_integer n \<and> 0 \<le> n)"
proof -
  have p: "sp_sessions p = map snd (sync_sessions listing)" "sp_cursors p = normalizeCursors cursors"
    using assms by (simp_all add: buildSessionSyncPayload_def)
  have "at_last (filter (\<lambda>x. sm_id x = sm_id m) (List.map_filter normalizeSession listing)) = Some m"
    if "m \<in> set (sp_sessions p)" for m
  proof -
    from that have "(sm_id m, m) \<in> set (sync_sessions listing)" using sync_sessions_keys [of listing] by (auto simp: p)
    then have "map_of (sync_sessions listing) (sm_id m) = Some m" by (simp add: sync_sessions_wf)
    then show ?thesis by (simp add: sync_sessions_get)
  qed
  moreover have "distinct (map sm_id (sp_sessions p))" by (simp only: p sync_ids sync_sessions_wf)
  moreover have "sm_id ` set (sp_sessions p) = sm_id ` set (List.map_filter normalizeSession listing)"
    by (metis p(1) sync_ids sync_sessions_ids list.set_map)
  ultimately show ?thesis using normalizeCursors_ok by (auto simp: p)
qed

theorem sync_lists_each_session_once_witness:
  "extractResponseSessions (Some (JObj [(''sessions'', JArr [JObj [(''id'', JStr ''a'')], JObj [(''id'', JStr ''b'')]])]))
     = Some [JObj [(''id'', JStr ''a'')], JObj [(''id'', JStr ''b'')]]
   \<and> distinct (map sm_id (sp_sessions (buildSessionSyncPayload
        (Some (JObj [(''sessions'', JArr [JObj [(''id'', JStr ''a'')], JObj [(''id'', JStr ''b'')]])])) [] [] ''r'')))"
proof -
  have e: "extractResponseSessions (Some (JObj [(''sessions'', JArr [JObj [(''id'', JStr ''a'')], JObj [(''id'', JStr ''b'')]])]))
     = Some [JObj [(''id'', JStr ''a'')], JObj [(''id'', JStr ''b'')]]"
    by (simp add: extractResponseSessions_def is_object_def jget_def as_arr_def)
  then show ?thesis using sync_lists_each_session_once [OF e refl, of "[]" "[]" "''r''"] by blast
qed

text \<open>What of a session may leave the computer.\<close>

definition public_part :: "gateway_session \<Rightarrow> string \<times> string \<times> string \<times> session_status \<times> string \<times> policy_mode" where
  "public_part s = (s_id s, title s, workspacePath s, status s, lastUpdatedAt s, sessionPolicyMode s)"

lemma sync_sessions_public:
  assumes "map public_part ss = map public_part ss'"
  shows "sync_sessions (map json_session ss) = sync_sessions (map json_session ss')"
  using assms
proof (induction ss arbitrary: ss' rule: rev_induct)
  case (snoc s ss)
  from snoc.prems have "ss' \<noteq> []" by auto
  then obtain ts t where ss': "ss' = ts @ [t]" by (cases ss' rule: rev_cases) auto
  with snoc.prems have "sync_sessions (map json_session ss) = sync_sessions (map json_session ts)" "public_part s = public_part t"
    by (simp_all add: snoc.IH [of ts])
  with ss' show ?case by (simp add: sync_sessions_snoc json_session_metadata public_part_def)
qed simp

text \<open>Prompts, command arguments, turn ids and request ids stay on the computer: two gateways whose
  sessions differ only in fields other than id, title, workspace, status, time and policy send the same
  list, both from the listing of \<open>GET /sessions\<close> and from the fallback.\<close>

theorem sync_hides_private_fields:
  assumes "map public_part ss = map public_part ss'"
  shows "buildSessionSyncPayload (Some (JObj [(''sessions'', JArr (map json_session ss))])) fallback cursors requestId
         = buildSessionSyncPayload (Some (JObj [(''sessions'', JArr (map json_session ss'))])) fallback cursors requestId
       \<and> buildSessionSyncPayload None ss cursors requestId = buildSessionSyncPayload None ss' cursors requestId"
  using sync_sessions_public [OF assms]
  by (simp add: buildSessionSyncPayload_def extractResponseSessions_def is_object_def jget_def as_arr_def)

definition sample_session :: gateway_session where
  "sample_session = \<lparr>s_id = ''s'', provider = ''codex'', providerSessionId = ''s'', title = ''t'', workspacePath = ''/w'',
     status = Running, sessionPolicyMode = Confirm, activeTurnId = Missing, canResume = True, resumeStatus = Resumable,
     s_command = ''codex'', s_args = [], s_prompt = ''hello'', modelLabel = Missing, modelProvider = Missing, createdAt = ''c'',
     lastUpdatedAt = ''u'', startedAt = Missing, finishedAt = Missing, lastTurnStartedAt = Missing, lastTurnFinishedAt = Missing,
     lastClientRequestId = Missing, recentClientRequestIds = Missing, exitCode = Missing, parentSessionId = Missing,
     childSessionIds = Missing, threadSource = Missing, agentNickname = Missing, agentRole = Missing, agentPath = Missing\<rparr>"

theorem sync_hides_private_fields_witness:
  "map public_part [sample_session] = map public_part [sample_session\<lparr>s_prompt := ''secret''\<rparr>]
   \<and> buildSessionSyncPayload None [sample_session] [] ''r'' = buildSessionSyncPayload None [sample_session\<lparr>s_prompt := ''secret''\<rparr>] [] ''r''"
proof -
  have e: "map public_part [sample_session] = map public_part [sample_session\<lparr>s_prompt := ''secret''\<rparr>]"
    by (simp add: public_part_def)
  then show ?thesis using sync_hides_private_fields [OF e, of "[]" "[]" "''r''"] by simp
qed

end
