(* ===== verification/RelayProxy.thy ===== *)
theory RelayProxy
  imports Attachments
begin

text \<open>
  Requests of the browser that arrive through the relay are answered by the local server
  (\<open>relayProxy.ts\<close>). \<open>proxy_prepare\<close> runs from the message to the call of \<open>fetch\<close>, or to a reply that is
  sent without one; \<open>proxy_reply\<close> makes the reply from what \<open>fetch\<close> returns: an error, or a status, headers
  and the chunks of the body, the last of which may be an error of the stream. The text of the platform's \<open>TypeError\<close> for
  a header it refuses is abbreviated.
\<close>

section \<open>Base64 and UTF-8\<close>

definition b64_char :: "nat \<Rightarrow> char" where
  "b64_char n = char_of (if n < 26 then n + 65 else if n < 52 then n + 71 else if n < 62 then n - 4 else if n = 62 then 43 else 47)"

fun b64_sextets :: "nat list \<Rightarrow> nat list" where
  "b64_sextets (a # b # c # rest) =
     (a div 4) # ((a mod 4) * 16 + b div 16) # ((b mod 16) * 4 + c div 64) # (c mod 64) # b64_sextets rest"
| "b64_sextets [a, b] = [a div 4, (a mod 4) * 16 + b div 16, (b mod 16) * 4]"
| "b64_sextets [a] = [a div 4, (a mod 4) * 16]"
| "b64_sextets [] = []"

text \<open>\<open>buffer.toString("base64")\<close>.\<close>

definition b64_encode :: "nat list \<Rightarrow> string" where
  "b64_encode bs = map b64_char (b64_sextets bs) @ replicate ((3 - length bs mod 3) mod 3) (CHR ''='')"

definition utf8_bytes :: "string \<Rightarrow> nat list" where
  "utf8_bytes s = concat (map (\<lambda>c. let n = of_char c in if n < 128 then [n] else [192 + n div 64, 128 + n mod 64]) s)"

definition to_upper :: "char \<Rightarrow> char" where
  "to_upper c = (let n = of_char c :: nat in if 97 \<le> n \<and> n \<le> 122 then char_of (n - 32) else c)"

definition toUpperCase :: "string \<Rightarrow> string" where
  "toUpperCase s = map to_upper s"

section \<open>Headers\<close>

text \<open>The class \<open>Headers\<close>: names are tokens, compared without case and kept in lower case; values are stripped;
  a name that is added twice gets both values.\<close>

definition token_char :: "char \<Rightarrow> bool" where
  "token_char c =
     (let n = of_char c :: nat
      in (48 \<le> n \<and> n \<le> 57) \<or> (65 \<le> n \<and> n \<le> 90) \<or> (97 \<le> n \<and> n \<le> 122)
         \<or> n \<in> {33, 35, 36, 37, 38, 39, 42, 43, 45, 46, 94, 95, 96, 124, 126})"

definition header_value :: "string \<Rightarrow> string" where
  "header_value v =
     (let ws = (\<lambda>c. of_char c \<in> {9, 10, 13, 32 :: nat}) in rev (dropWhile ws (rev (dropWhile ws v))))"

definition header_ok :: "string \<Rightarrow> string \<Rightarrow> bool" where
  "header_ok k v =
     (k \<noteq> [] \<and> list_all token_char k \<and> list_all (\<lambda>c. of_char c \<notin> {0, 10, 13 :: nat}) (header_value v))"

definition headers_append :: "string \<times> string \<Rightarrow> (string, string) js_map option \<Rightarrow> (string, string) js_map option" where
  "headers_append kv hs =
     (case (hs, kv) of
        (Some m, (k, v)) \<Rightarrow>
          if header_ok k v
          then Some (AList.update (toLowerCase k)
                 (case map_of m (toLowerCase k) of Some old \<Rightarrow> old @ '', '' @ header_value v | None \<Rightarrow> header_value v) m)
          else None
      | (None, _) \<Rightarrow> None)"

definition header_pairs :: "json \<Rightarrow> (string \<times> string) list option" where
  "header_pairs v =
     (case v of
        JObj fs \<Rightarrow> Some (map (\<lambda>(k, x). (k, js_String x)) fs)
      | JArr xs \<Rightarrow>
          if list_all (\<lambda>x. case x of JArr [_, _] \<Rightarrow> True | _ \<Rightarrow> False) xs
          then Some (map (\<lambda>x. case x of JArr [k, w] \<Rightarrow> (js_String k, js_String w) | _ \<Rightarrow> ([], [])) xs) else None
      | _ \<Rightarrow> None)"

text \<open>\<open>new Headers(v)\<close>; \<open>None\<close> when it throws.\<close>

definition new_headers :: "json \<Rightarrow> (string, string) js_map option" where
  "new_headers v = (case header_pairs v of Some ps \<Rightarrow> fold headers_append ps (Some []) | None \<Rightarrow> None)"

section \<open>The request\<close>

record proxy_call =
  pc_url :: string
  pc_method :: string
  pc_headers :: "(string, string) js_map"
  pc_body :: "nat list option"

definition maxProxyBodyBytes :: nat where "maxProxyBodyBytes = 16 * 1024 * 1024"

definition maxProxyBodyBase64Chars :: nat where
  "maxProxyBodyBase64Chars = nat \<lceil>rat_of_nat maxProxyBodyBytes * 4 / 3\<rceil> + 512"

definition proxy_response :: "json option \<Rightarrow> nat \<Rightarrow> (string, string) js_map \<Rightarrow> nat list \<Rightarrow> json" where
  "proxy_response requestId code headers body =
     JObj (jobj [(''type'', Some (JStr ''proxy-response'')), (''requestId'', requestId), (''status'', Some (JNum (of_nat code))),
       (''headers'', Some (JObj (map (\<lambda>(k, v). (k, JStr v)) headers))), (''bodyBase64'', Some (JStr (b64_encode body)))])"

definition proxy_error :: "json option \<Rightarrow> nat \<Rightarrow> string \<Rightarrow> json" where
  "proxy_error requestId code error =
     proxy_response requestId code [(''content-type'', ''application/json'')] (utf8_bytes (stringify (JObj [(''error'', JStr error)])))"

definition valid_proxy_request :: "json \<Rightarrow> bool" where
  "valid_proxy_request message =
     (case (str_field message ''requestId'', str_field message ''path'', str_field message ''method'') of
        (Some r, Some p, Some m) \<Rightarrow> length r \<le> 120 \<and> starts_with p ''/'' \<and> length p \<le> 4096
      | _ \<Rightarrow> False)"

datatype body_check = BodyInvalid | BodyTooLarge | BodyOk "nat list option"

definition proxy_body :: "json option \<Rightarrow> body_check" where
  "proxy_body bodyBase64 =
     (case bodyBase64 of
        None \<Rightarrow> BodyOk None
      | Some (JStr s) \<Rightarrow>
          if s = [] then BodyOk None
          else if length s mod 4 = 1 \<or> \<not> b64_shape s then BodyInvalid
          else if length s > maxProxyBodyBase64Chars then BodyTooLarge
          else let body = b64_decode s in if length body > maxProxyBodyBytes then BodyTooLarge else BodyOk (Some body)
      | _ \<Rightarrow> BodyInvalid)"

text \<open>\<open>Inl\<close> is a reply, \<open>Inr\<close> the call of \<open>fetch\<close>.\<close>

definition proxy_prepare :: "string \<Rightarrow> string \<Rightarrow> json \<Rightarrow> json + proxy_call" where
  "proxy_prepare localOrigin gatewayAuthToken message =
     (let requestId = jget message ''requestId''
      in if \<not> valid_proxy_request message then Inl (proxy_error requestId 502 ''invalid_proxy_request'')
         else case new_headers (the (jcoalesce (jget message ''headers'') (Some (JObj [])))) of
             None \<Rightarrow> Inl (proxy_error requestId 502 ''invalid header'')
           | Some hs \<Rightarrow>
               (case proxy_body (jget message ''bodyBase64'') of
                  BodyInvalid \<Rightarrow> Inl (proxy_error requestId 502 ''invalid_proxy_body'')
                | BodyTooLarge \<Rightarrow> Inl (proxy_error requestId 413 ''request_too_large'')
                | BodyOk body \<Rightarrow>
                    let httpMethod = the (str_field message ''method'')
                    in Inr \<lparr>pc_url = localOrigin @ the (str_field message ''path''), pc_method = httpMethod,
                            pc_headers = AList.update ''authorization'' (''Bearer '' @ gatewayAuthToken) hs,
                            pc_body = (if toUpperCase httpMethod \<in> {''GET'', ''HEAD''} then None else body)\<rparr>))"

section \<open>The reply\<close>

datatype proxy_answer =
    FetchRejected string
  | FetchResponse nat "(string, string) js_map" "(string + nat list) list option"

fun read_chunks :: "nat \<Rightarrow> nat \<Rightarrow> (string + nat list) list \<Rightarrow> string + nat list" where
  "read_chunks limit seen [] = Inr []"
| "read_chunks limit seen (Inl e # chunks) = Inl e"
| "read_chunks limit seen (Inr value # chunks) =
     (if seen + length value > limit then Inl ''proxy_response_too_large''
      else map_sum (\<lambda>e. e) (\<lambda>rest. value @ rest) (read_chunks limit (seen + length value) chunks))"

definition readBodyWithLimit :: "(string + nat list) list option \<Rightarrow> nat \<Rightarrow> string + nat list" where
  "readBodyWithLimit body limit = (case body of None \<Rightarrow> Inr [] | Some chunks \<Rightarrow> read_chunks limit 0 chunks)"

definition filterResponseHeaders :: "(string, string) js_map \<Rightarrow> (string, string) js_map" where
  "filterResponseHeaders headers =
     filter (\<lambda>(k, v). toLowerCase k \<notin> {''transfer-encoding'', ''content-encoding'', ''connection''}) headers"

definition proxy_reply :: "json option \<Rightarrow> proxy_answer \<Rightarrow> json" where
  "proxy_reply requestId answer =
     (case answer of
        FetchRejected e \<Rightarrow> proxy_error requestId 502 e
      | FetchResponse code headers body \<Rightarrow>
          (case readBodyWithLimit body maxProxyBodyBytes of
             Inl e \<Rightarrow> proxy_error requestId 502 e
           | Inr buffer \<Rightarrow> proxy_response requestId code (filterResponseHeaders headers) buffer))"

section \<open>Properties\<close>

lemma b64_value_char:
  assumes "n < 64"
  shows "b64_value (b64_char n) = Some n"
proof -
  consider "n < 26" | "26 \<le> n" "n < 52" | "52 \<le> n" "n < 62" | "n = 62" | "n = 63" using assms by linarith
  moreover have "b64_value (b64_char 62) = Some 62" "b64_value (b64_char 63) = Some 63" by code_simp+
  ultimately show ?thesis by cases (auto simp: b64_value_def b64_char_def Let_def)
qed

lemma b64_sextets_range: "\<forall>x\<in>set bs. x < 256 \<Longrightarrow> \<forall>n\<in>set (b64_sextets bs). n < 64"
  by (induction bs rule: b64_sextets.induct) (auto simp: less_mult_imp_div_less)

lemma sextet_parts:
  fixes b :: nat
  assumes "b < 256"
  shows "b div 16 div 16 = 0" "b div 16 mod 16 = b div 16" "b div 64 div 4 = 0" "b div 64 mod 4 = b div 64"
proof -
  from assms have "b div 16 < 16" "b div 64 < 4" by (simp_all add: less_mult_imp_div_less)
  then show "b div 16 div 16 = 0" "b div 16 mod 16 = b div 16" "b div 64 div 4 = 0" "b div 64 mod 4 = b div 64" by simp_all
qed

lemma b64_bytes_sextets: "\<forall>x\<in>set bs. x < 256 \<Longrightarrow> b64_bytes (b64_sextets bs) = bs"
  by (induction bs rule: b64_sextets.induct) (simp_all add: sextet_parts)

text \<open>The round trip of the two directions of Base64.\<close>

lemma b64_decode_encode:
  assumes "\<forall>x\<in>set bs. x < 256"
  shows "b64_decode (b64_encode bs) = bs"
proof -
  have chars: "b64_value (b64_char n) = Some n" if "n \<in> set (b64_sextets bs)" for n
    using that assms b64_sextets_range b64_value_char by blast
  have pad: "b64_value (CHR ''='') = None" by code_simp
  have "takeWhile (\<lambda>c. b64_value c \<noteq> None) (b64_encode bs) = map b64_char (b64_sextets bs)"
    unfolding b64_encode_def using chars pad by (subst takeWhile_append2) (auto simp: takeWhile_replicate)
  moreover have "map (the \<circ> b64_value) (map b64_char (b64_sextets bs)) = b64_sextets bs"
    using chars by (auto intro!: map_idI)
  ultimately show ?thesis by (simp add: b64_decode_def b64_bytes_sextets assms)
qed

lemma to_lower_idem [simp]: "to_lower (to_lower c) = to_lower c"
  by (simp add: to_lower_def Let_def)

lemma toLowerCase_idem [simp]: "toLowerCase (toLowerCase s) = toLowerCase s"
  by (simp add: toLowerCase_def)

text \<open>A header map has one entry for a name, in lower case.\<close>

definition headers_wf :: "(string, string) js_map \<Rightarrow> bool" where
  "headers_wf m = (map_wf m \<and> (\<forall>k\<in>fst ` set m. toLowerCase k = k))"

lemma headers_wf_update: "headers_wf m \<Longrightarrow> toLowerCase k = k \<Longrightarrow> headers_wf (AList.update k v m)"
  by (auto simp: headers_wf_def map_wf_update dom_update)

lemma new_headers_wf:
  assumes "new_headers v = Some hs"
  shows "headers_wf hs"
proof -
  have "fold headers_append ps acc = Some m \<Longrightarrow> \<forall>a. acc = Some a \<longrightarrow> headers_wf a \<Longrightarrow> headers_wf m" for ps acc m
  proof (induction ps arbitrary: acc)
    case (Cons p ps)
    have "\<forall>a. headers_append p acc = Some a \<longrightarrow> headers_wf a"
      using Cons.prems(2) by (cases p; cases acc) (auto simp: headers_append_def headers_wf_update)
    with Cons show ?case by auto
  qed simp
  with assms show ?thesis by (force simp: new_headers_def headers_wf_def split: option.splits)
qed

lemma filter_one_header:
  assumes "map_of m k = Some v" "headers_wf m"
  shows "filter (\<lambda>(k', v'). toLowerCase k' = k) m = [(k, v)]"
proof -
  from assms have wf: "map_wf m" "(k, v) \<in> set m" and low: "\<forall>(k', v')\<in>set m. toLowerCase k' = k'"
    by (auto simp: headers_wf_def dest: map_of_SomeD)
  then have "filter (\<lambda>(k', v'). toLowerCase k' = k) m = filter (\<lambda>(k', v'). k' = k) m"
    by (intro filter_cong) auto
  also have "\<dots> = [(k, v)]" using wf
    by (induction m) (auto simp: filter_empty_conv rev_image_eqI)
  finally show ?thesis .
qed

lemma proxy_body_bound: "proxy_body b = BodyOk (Some bs) \<Longrightarrow> length bs \<le> maxProxyBodyBytes"
  by (auto simp: proxy_body_def Let_def split: option.splits json.splits if_splits)

text \<open>C16. A request that comes through the relay can only reach the local server: its address is the local
  origin followed by a path that begins with a slash; it carries the gateway's own token, whatever
  authorization header, in any case, the sender has put in; its body has at most 16 MiB and is dropped for
  GET and HEAD.\<close>

theorem proxied_requests_stay_local:
  assumes "proxy_prepare localOrigin token message = Inr call"
  shows "(\<exists>path. str_field message ''path'' = Some path \<and> starts_with path ''/'' \<and> pc_url call = localOrigin @ path)
    \<and> filter (\<lambda>(k, v). toLowerCase k = ''authorization'') (pc_headers call) = [(''authorization'', ''Bearer '' @ token)]
    \<and> (case pc_body call of
         Some bs \<Rightarrow> length bs \<le> maxProxyBodyBytes \<and> toUpperCase (pc_method call) \<notin> {''GET'', ''HEAD''}
       | None \<Rightarrow> True)"
proof -
  from assms have valid: "valid_proxy_request message" by (rule contrapos_pp) (simp add: proxy_prepare_def Let_def)
  then obtain path where path: "str_field message ''path'' = Some path" "starts_with path ''/''"
    by (auto simp: valid_proxy_request_def split: option.splits)
  from assms valid obtain hs where hs: "new_headers (the (jcoalesce (jget message ''headers'') (Some (JObj [])))) = Some hs"
    by (auto simp: proxy_prepare_def Let_def split: option.splits)
  from assms valid hs obtain body where body: "proxy_body (jget message ''bodyBase64'') = BodyOk body"
    by (auto simp: proxy_prepare_def Let_def split: body_check.splits)
  from assms valid hs body path have call: "pc_url call = localOrigin @ path"
    "pc_headers call = AList.update ''authorization'' (''Bearer '' @ token) hs"
    "pc_body call = (if toUpperCase (pc_method call) \<in> {''GET'', ''HEAD''} then None else body)"
    by (simp_all add: proxy_prepare_def Let_def) auto
  have low: "toLowerCase ''authorization'' = ''authorization''" by code_simp
  have wf: "headers_wf (pc_headers call)" unfolding call by (rule headers_wf_update [OF new_headers_wf [OF hs] low])
  have "map_of (pc_headers call) ''authorization'' = Some (''Bearer '' @ token)" by (simp add: call)
  then have "filter (\<lambda>(k, v). toLowerCase k = ''authorization'') (pc_headers call) = [(''authorization'', ''Bearer '' @ token)]"
    using wf by (rule filter_one_header)
  with path call proxy_body_bound [of "jget message ''bodyBase64''"] body show ?thesis by (auto split: option.splits)
qed

definition sample_request :: json where
  "sample_request = JObj [(''type'', JStr ''proxy-request''), (''requestId'', JStr ''r''), (''method'', JStr ''POST''),
     (''path'', JStr ''/sessions''), (''headers'', JObj [(''Authorization'', JStr ''Bearer x'')]), (''bodyBase64'', JStr ''YWI='')]"

definition sample_call :: proxy_call where
  "sample_call = \<lparr>pc_url = ''http://127.0.0.1:1/sessions'', pc_method = ''POST'', pc_headers = [(''authorization'', ''Bearer t'')],
     pc_body = Some [97, 98]\<rparr>"

theorem proxied_requests_stay_local_witness:
  "proxy_prepare ''http://127.0.0.1:1'' ''t'' sample_request = Inr sample_call
   \<and> filter (\<lambda>(k, v). toLowerCase k = ''authorization'') (pc_headers sample_call) = [(''authorization'', ''Bearer '' @ ''t'')]"
proof -
  have "valid_proxy_request sample_request" by (simp add: valid_proxy_request_def sample_request_def json_defs starts_with_def)
  moreover have "new_headers (JObj [(''Authorization'', JStr ''Bearer x'')]) = Some [(''authorization'', ''Bearer x'')]" by code_simp
  moreover have "b64_shape ''YWI=''" "b64_decode ''YWI='' = [97, 98]" by code_simp+
  ultimately have e: "proxy_prepare ''http://127.0.0.1:1'' ''t'' sample_request = Inr sample_call"
    by (simp add: proxy_prepare_def sample_request_def sample_call_def json_defs proxy_body_def maxProxyBodyBytes_def
        maxProxyBodyBase64Chars_def toUpperCase_def to_upper_def)
  then show ?thesis using proxied_requests_stay_local [OF e] by blast
qed

lemma read_chunks_all:
  "seen + length (concat (map projr chunks)) \<le> limit \<Longrightarrow> \<forall>c\<in>set chunks. \<not> isl c \<Longrightarrow>
   read_chunks limit seen chunks = Inr (concat (map projr chunks))"
  by (induction limit seen chunks rule: read_chunks.induct) auto

lemma read_chunks_Inr:
  "read_chunks limit seen chunks = Inr bs \<Longrightarrow> seen \<le> limit \<Longrightarrow> bs = concat (map projr chunks) \<and> seen + length bs \<le> limit"
proof (induction limit seen chunks arbitrary: bs rule: read_chunks.induct)
  case (3 limit seen v chunks)
  then show ?case by (cases "read_chunks limit (seen + length v) chunks") (auto split: if_splits)
qed auto

text \<open>The fields of a reply.\<close>

lemma proxy_response_fields:
  "jget (proxy_response requestId code headers body) ''status'' = Some (JNum (of_nat code))"
  "jget (proxy_response requestId code headers body) ''requestId'' = requestId"
  "jget (proxy_response requestId code headers body) ''bodyBase64'' = Some (JStr (b64_encode body))"
  by (cases requestId; simp add: proxy_response_def jget_def)+

text \<open>What the local server answers reaches the browser unchanged: a body of at most 16 MiB arrives with its
  status code, in one piece and byte for byte, however it was cut into chunks; a longer one is answered with
  code 502 instead, and so is a stream that breaks. Every reply carries the id of its request.\<close>

theorem proxy_relays_body:
  assumes "\<forall>c\<in>set chunks. \<not> isl c" "\<forall>b\<in>set (concat (map projr chunks)). b < 256"
    and reply: "reply = proxy_reply requestId (FetchResponse code headers (Some chunks))"
  shows "jget reply ''requestId'' = requestId
    \<and> (length (concat (map projr chunks)) \<le> maxProxyBodyBytes \<longrightarrow>
         jget reply ''status'' = Some (JNum (of_nat code))
         \<and> (\<exists>txt. jget reply ''bodyBase64'' = Some (JStr txt) \<and> b64_decode txt = concat (map projr chunks)))
    \<and> (length (concat (map projr chunks)) > maxProxyBodyBytes \<longrightarrow> jget reply ''status'' = Some (JNum 502))"
proof (cases "length (concat (map projr chunks)) \<le> maxProxyBodyBytes")
  case True
  then have "reply = proxy_response requestId code (filterResponseHeaders headers) (concat (map projr chunks))"
    using read_chunks_all [of 0 chunks maxProxyBodyBytes] assms(1)
    by (simp add: reply proxy_reply_def readBodyWithLimit_def)
  then show ?thesis using True assms(2) by (simp add: proxy_response_fields b64_decode_encode)
next
  case False
  then obtain e where "read_chunks maxProxyBodyBytes 0 chunks = Inl e"
    using read_chunks_Inr [of maxProxyBodyBytes 0 chunks] by (cases "read_chunks maxProxyBodyBytes 0 chunks") auto
  then show ?thesis using False
    by (auto simp: reply proxy_reply_def readBodyWithLimit_def proxy_error_def proxy_response_fields)
qed

theorem proxy_relays_body_witness:
  "list_all (\<lambda>c. \<not> isl c) [Inr [104], Inr [105] :: string + nat list]
   \<and> (\<exists>txt. jget (proxy_reply None (FetchResponse 200 [] (Some [Inr [104], Inr [105]]))) ''bodyBase64'' = Some (JStr txt)
        \<and> b64_decode txt = [104, 105])"
  using proxy_relays_body [of "[Inr [104], Inr [105]]" _ None 200 "[]", OF _ _ refl] by (simp add: maxProxyBodyBytes_def)

end
