(* ===== verification/Relay.thy ===== *)
theory Relay
  imports RelaySync RelayProxy
begin

text \<open>
  The connection of the gateway to the cloud relay (\<open>relayClient.ts\<close>).

  A \<open>WebSocket\<close> is a number; what the client observes of it (state, buffered bytes, whether \<open>send\<close> throws,
  the texts handed to it) is kept in a store of sockets, one for the relay and one for the local server.
  The awaits of \<open>connectRelay\<close> are the values of \<open>connect_task\<close>, the running synchronisations and the
  proxied requests are tables of suspended calls. A timer is the fact that it is armed, with its delay or
  the socket its callback has captured. The emitted \<open>status\<close> events have no listener that changes the
  client and are left out. A URL is given by its parts, since parsing it is the platform's.

  Writing the identity to disk is taken to succeed: \<open>writeIdentity\<close> retries a rename that fails as a plain
  write, and both leave the same file.
\<close>

section \<open>Configuration and identity\<close>

record relay_url =
  ru_protocol :: string
  ru_host :: string
  ru_pathname :: string

record relay_config =
  rc_relayUrl :: string
  rc_url :: "relay_url option"
  rc_origin :: "string option"
  rc_production :: bool
  rc_accountToken :: string
  rc_accountUsername :: string
  rc_accountPassword :: string
  rc_serverToken :: string
  rc_gatewayAuthToken :: string
  rc_publicOrigin :: string
  rc_port :: nat
  rc_deviceNames :: "string list"
  rc_machine :: "string list"
  rc_parse :: "string \<Rightarrow> json option"
  rc_sha256 :: "string \<Rightarrow> string"

record relay_identity =
  deviceId :: "string option"
  deviceToken :: "string option"
  deviceSecret :: "string option"

definition only_device :: "string option \<Rightarrow> relay_identity" where
  "only_device d = \<lparr>deviceId = d, deviceToken = None, deviceSecret = None\<rparr>"

definition set_str :: "string option \<Rightarrow> bool" where
  "set_str s = (s \<noteq> None \<and> s \<noteq> Some [])"

definition strip_slashes :: "string \<Rightarrow> string" where
  "strip_slashes s = rev (dropWhile (\<lambda>c. c = CHR ''/'') (rev s))"

definition relayPath :: "string \<Rightarrow> string \<Rightarrow> string" where
  "relayPath basePath tail =
     (let p = strip_slashes basePath @ (if starts_with tail ''/'' then tail else ''/'' @ tail)
      in if p = [] then ''/'' else p)"

definition relaySocketUrl :: "relay_config \<Rightarrow> string option" where
  "relaySocketUrl cfg =
     map_option (\<lambda>u. (if ru_protocol u = ''https:'' then ''wss:'' else ''ws:'') @ ''//'' @ ru_host u
                     @ relayPath (ru_pathname u) ''/relay/device'') (rc_url cfg)"

definition relayHttpUrl :: "relay_config \<Rightarrow> string \<Rightarrow> string option" where
  "relayHttpUrl cfg pathname =
     map_option (\<lambda>u. ru_protocol u @ ''//'' @ ru_host u @ relayPath (ru_pathname u) pathname) (rc_url cfg)"

definition localHttpOrigin :: "relay_config \<Rightarrow> string" where
  "localHttpOrigin cfg = ''http://127.0.0.1:'' @ nat_str (rc_port cfg)"

definition deviceName :: "relay_config \<Rightarrow> string" where
  "deviceName cfg = (case filter (\<lambda>s. s \<noteq> []) (rc_deviceNames cfg) of s # _ \<Rightarrow> s | [] \<Rightarrow> ''aCode Gateway'')"

definition hex_digit :: "nat \<Rightarrow> char" where
  "hex_digit n = (if n < 10 then char_of (48 + n) else char_of (87 + n))"

definition hex_value :: "char \<Rightarrow> nat" where
  "hex_value c =
     (let n = of_char c
      in if 48 \<le> n \<and> n \<le> 57 then n - 48 else if 97 \<le> n \<and> n \<le> 102 then n - 87 else if 65 \<le> n \<and> n \<le> 70 then n - 55 else 0)"

text \<open>\<open>(x & 3) | 8\<close> is \<open>x mod 4 + 8\<close>.\<close>

definition stableUuid :: "(string \<Rightarrow> string) \<Rightarrow> string \<Rightarrow> string" where
  "stableUuid sha256 seed =
     (let hex0 = take 32 (sha256 seed);
          hex1 = hex0[12 := CHR ''5''];
          hex = hex1[16 := hex_digit (hex_value (hex1 ! 16) mod 4 + 8)]
      in take 8 hex @ ''-'' @ take 4 (drop 8 hex) @ ''-'' @ take 4 (drop 12 hex) @ ''-'' @ take 4 (drop 16 hex)
         @ ''-'' @ take 12 (drop 20 hex))"

definition stableFallbackIdentity :: "relay_config \<Rightarrow> relay_identity" where
  "stableFallbackIdentity cfg =
     only_device (Some (stableUuid (rc_sha256 cfg) (join ''|'' (filter (\<lambda>s. s \<noteq> []) (''acode-official-relay'' # rc_machine cfg)))))"

text \<open>\<open>JSON.stringify(identity, null, 2)\<close> for an object of strings.\<close>

definition newline :: string where "newline = [CHR 0x0A]"

definition identity_fields :: "relay_identity \<Rightarrow> (string \<times> string) list" where
  "identity_fields i =
     List.map_filter (\<lambda>(k, v). map_option (\<lambda>s. (k, s)) v)
       [(''deviceId'', deviceId i), (''deviceToken'', deviceToken i), (''deviceSecret'', deviceSecret i)]"

definition identity_text :: "relay_identity \<Rightarrow> string" where
  "identity_text i =
     (let fs = identity_fields i
      in if fs = [] then ''{}''
         else ''{'' @ newline @ join ('','' @ newline) (map (\<lambda>(k, v). ''  '' @ quote_str k @ '': '' @ quote_str v) fs)
              @ newline @ ''}'')"

definition readIdentity :: "relay_config \<Rightarrow> string option \<Rightarrow> relay_identity" where
  "readIdentity cfg contents =
     (case Option.bind contents (rc_parse cfg) of
        None \<Rightarrow> stableFallbackIdentity cfg
      | Some v \<Rightarrow>
          if v = JNull then stableFallbackIdentity cfg
          else \<lparr>deviceId = str_field v ''deviceId'', deviceToken = str_field v ''deviceToken'', deviceSecret = str_field v ''deviceSecret''\<rparr>)"

section \<open>State\<close>

datatype sock_state = SockConnecting | SockUp | SockEnding | SockDown

record relay_sock =
  rk_state :: sock_state
  rk_buffered :: int
  rk_throws :: bool
  rk_sent :: "string list"

definition new_sock :: relay_sock where
  "new_sock = \<lparr>rk_state = SockConnecting, rk_buffered = 0, rk_throws = False, rk_sent = []\<rparr>"

type_synonym sockets = "(nat, relay_sock) js_map"

record relay_status =
  st_connected :: bool
  st_deviceId :: "string option"
  st_deviceName :: "string option"
  st_pairCode :: "string option"
  st_pairCodeExpiresAt :: "string option"
  st_lastError :: "string option"

text \<open>Where \<open>connectRelay\<close> waits: for the credential to be reported ready or missing, for the login, for
  the enrollment (with \<open>allowDeviceRotation\<close>). In the last two \<open>enrollmentPromise\<close> is set.\<close>

datatype connect_task = CredentialReady | CredentialFailed string | AwaitLogin bool | AwaitEnroll bool

record sync_task =
  sy_socket :: nat
  sy_fallback :: "gateway_session list"
  sy_cursors :: "(string, js_number) js_map"
  sy_requestId :: string

datatype pair_outcome = PairResolved string string | PairRejected string

record relay =
  relay_socks :: sockets
  local_socks :: sockets
  relaySocket :: "nat option"
  relayReadySocket :: "nat option"
  gatewayEventSocket :: "nat option"
  reconnectTimer :: "int option"
  relayHeartbeatTimer :: "nat option"
  gatewayHeartbeatTimer :: "nat option"
  connect_state :: "connect_task option"
  pair_pending :: "string list"
  pair_settled :: "(string \<times> pair_outcome) list"
  identity :: relay_identity
  identity_file :: "string option"
  sessionSyncPromise :: "nat option"
  sessionSyncSocket :: "nat option"
  sessionSyncAgain :: bool
  syncs :: "(nat, sync_task) js_map"
  next_sync :: nat
  sync_waiters :: "nat list"
  started :: bool
  connecting :: bool
  revoked :: bool
  credentialRecoveryAttempted :: bool
  rstatus :: relay_status
  local_retries :: nat
  proxied :: "(nat, json option) js_map"
  proxy_calls :: "proxy_call list"

definition new_relay :: "relay_config \<Rightarrow> string option \<Rightarrow> relay" where
  "new_relay cfg contents =
     \<lparr>relay_socks = [], local_socks = [], relaySocket = None, relayReadySocket = None, gatewayEventSocket = None,
      reconnectTimer = None, relayHeartbeatTimer = None, gatewayHeartbeatTimer = None, connect_state = None,
      pair_pending = [], pair_settled = [], identity = readIdentity cfg contents, identity_file = contents,
      sessionSyncPromise = None, sessionSyncSocket = None, sessionSyncAgain = False, syncs = [], next_sync = 0, sync_waiters = [],
      started = False, connecting = False, revoked = False, credentialRecoveryAttempted = False,
      rstatus = \<lparr>st_connected = False, st_deviceId = None, st_deviceName = None, st_pairCode = None,
        st_pairCodeExpiresAt = None, st_lastError = None\<rparr>,
      local_retries = 0, proxied = [], proxy_calls = []\<rparr>"

section \<open>Sockets\<close>

definition sock_is :: "sock_state set \<Rightarrow> nat option \<Rightarrow> sockets \<Rightarrow> bool" where
  "sock_is S n socks = (case Option.bind n (map_of socks) of Some s \<Rightarrow> rk_state s \<in> S | None \<Rightarrow> False)"

definition on_sock :: "nat \<Rightarrow> (relay_sock \<Rightarrow> relay_sock) \<Rightarrow> sockets \<Rightarrow> sockets" where
  "on_sock n f socks = map (\<lambda>(i, s). (i, if i = n then f s else s)) socks"

definition sock_close :: "relay_sock \<Rightarrow> relay_sock" where
  "sock_close s = (if rk_state s \<in> {SockConnecting, SockUp} then s\<lparr>rk_state := SockEnding\<rparr> else s)"

definition maxRelayBufferedBytes :: int where "maxRelayBufferedBytes = 32 * 1024 * 1024"

definition sock_send :: "string \<Rightarrow> relay_sock \<Rightarrow> bool \<times> relay_sock" where
  "sock_send txt s =
     (if rk_state s \<noteq> SockUp then (False, s)
      else if rk_buffered s + int (utf8_length txt) > maxRelayBufferedBytes then (False, sock_close s)
      else if rk_throws s then (False, sock_close s)
      else (True, s\<lparr>rk_buffered := rk_buffered s + int (utf8_length txt), rk_sent := rk_sent s @ [txt]\<rparr>))"

definition safeRelaySend :: "nat \<Rightarrow> json \<Rightarrow> sockets \<Rightarrow> bool \<times> sockets" where
  "safeRelaySend n message socks =
     (case map_of socks n of
        None \<Rightarrow> (False, socks)
      | Some s \<Rightarrow> (fst (sock_send (stringify message) s), on_sock n (\<lambda>s. snd (sock_send (stringify message) s)) socks))"

definition relay_send :: "nat \<Rightarrow> json \<Rightarrow> relay \<Rightarrow> relay" where
  "relay_send n message r = r\<lparr>relay_socks := snd (safeRelaySend n message (relay_socks r))\<rparr>"

text \<open>\<open>if (this.relaySocket) safeRelaySend(this.relaySocket, ...)\<close>.\<close>

definition relay_send_current :: "json \<Rightarrow> relay \<Rightarrow> relay" where
  "relay_send_current message r = (case relaySocket r of Some n \<Rightarrow> relay_send n message r | None \<Rightarrow> r)"

definition fresh_sock :: "sockets \<Rightarrow> nat" where
  "fresh_sock socks = length socks"

section \<open>Status and identity\<close>

definition on_status :: "(relay_status \<Rightarrow> relay_status) \<Rightarrow> relay \<Rightarrow> relay" where
  "on_status f r = r\<lparr>rstatus := f (rstatus r)\<rparr>"

definition setError :: "string \<Rightarrow> relay \<Rightarrow> relay" where
  "setError msg r = on_status (\<lambda>s. s\<lparr>st_connected := False, st_lastError := Some msg\<rparr>) r"

definition writeIdentity :: "relay_identity \<Rightarrow> relay \<Rightarrow> relay" where
  "writeIdentity i r = r\<lparr>identity := i, identity_file := Some (identity_text i)\<rparr>"

definition deviceHello :: "relay_config \<Rightarrow> relay_identity \<Rightarrow> json" where
  "deviceHello cfg i =
     JObj (jobj ([(''type'', Some (JStr ''device-hello'')), (''deviceId'', map_option JStr (deviceId i)),
        (''deviceName'', Some (JStr (deviceName cfg))), (''gatewayOrigin'', Some (JStr (rc_publicOrigin cfg)))]
       @ (if set_str (deviceToken i) then [(''deviceToken'', map_option JStr (deviceToken i))]
          else if set_str (deviceSecret i) then [(''deviceSecret'', map_option JStr (deviceSecret i))]
          else if rc_serverToken cfg \<noteq> [] then [(''serverToken'', Some (JStr (rc_serverToken cfg)))] else [])))"

section \<open>Connecting\<close>

definition scheduleReconnect :: "int \<Rightarrow> relay \<Rightarrow> relay" where
  "scheduleReconnect delay r =
     (if \<not> started r \<or> revoked r \<or> reconnectTimer r \<noteq> None then r else r\<lparr>reconnectTimer := Some delay\<rparr>)"

definition hasAccountCredentials :: "relay_config \<Rightarrow> bool" where
  "hasAccountCredentials cfg =
     (rc_accountToken cfg \<noteq> [] \<or> (rc_accountUsername cfg \<noteq> [] \<and> rc_accountPassword cfg \<noteq> []))"

text \<open>\<open>enrollDevice\<close> up to its first real await: with an account token the login is skipped.\<close>

definition begin_enroll :: "relay_config \<Rightarrow> bool \<Rightarrow> connect_task" where
  "begin_enroll cfg rotation =
     (if rc_accountToken cfg \<noteq> [] then AwaitEnroll rotation
      else if rc_accountUsername cfg = [] \<or> rc_accountPassword cfg = [] then CredentialFailed ''relay account credentials required''
      else AwaitLogin rotation)"

definition credentials_missing :: string where
  "credentials_missing =
     ''relay account credentials required: set RELAY_ACCOUNT_TOKEN or RELAY_ACCOUNT_USERNAME and RELAY_ACCOUNT_PASSWORD''"

definition ensureDeviceCredential :: "relay_config \<Rightarrow> relay \<Rightarrow> connect_task \<times> relay_identity" where
  "ensureDeviceCredential cfg r =
     (let i = identity r
      in if set_str (deviceToken i) then (CredentialReady, i)
         else
           let other = (set_str (deviceSecret i) \<or> rc_serverToken cfg \<noteq> [])
           in if other \<and> \<not> hasAccountCredentials cfg then (CredentialReady, i)
              else
                let i' = (if other then only_device (deviceId i) else i)
                in if \<not> hasAccountCredentials cfg then (CredentialFailed credentials_missing, i')
                   else (begin_enroll cfg True, i'))"

definition connectRelay :: "relay_config \<Rightarrow> relay \<Rightarrow> relay" where
  "connectRelay cfg r =
     (if \<not> started r \<or> revoked r \<or> connecting r then r
      else if sock_is {SockUp, SockConnecting} (relaySocket r) (relay_socks r) then r
      else let (t, i) = ensureDeviceCredential cfg r in r\<lparr>connect_state := Some t, identity := i, connecting := True\<rparr>)"

definition start :: "relay_config \<Rightarrow> relay \<Rightarrow> relay" where
  "start cfg r =
     (if rc_relayUrl cfg = [] \<or> started r then r
      else if rc_production cfg \<and> map_option ru_protocol (rc_url cfg) \<noteq> Some ''https:''
      then on_status (\<lambda>s. s\<lparr>st_lastError := Some ''production relay requires an https URL''\<rparr>) r
      else connectRelay cfg (r\<lparr>started := True\<rparr>))"

text \<open>The requests of the login and the enrollment: address, bearer token and body.\<close>

definition login_request :: "relay_config \<Rightarrow> string option \<times> string option \<times> json" where
  "login_request cfg =
     (relayHttpUrl cfg ''/api/v1/auth/login'', None,
      JObj [(''username'', JStr (rc_accountUsername cfg)), (''password'', JStr (rc_accountPassword cfg))])"

definition enroll_request :: "relay_config \<Rightarrow> string \<Rightarrow> relay_identity \<Rightarrow> string option \<times> string option \<times> json" where
  "enroll_request cfg accountToken i =
     (relayHttpUrl cfg ''/api/v1/devices/enroll'', Some accountToken,
      JObj (jobj [(''deviceId'', map_option JStr (deviceId i)), (''deviceName'', Some (JStr (deviceName cfg)))]))"

definition responseError :: "nat \<Rightarrow> json \<Rightarrow> string" where
  "responseError code body =
     ''relay request failed ('' @ nat_str code @ '')'' @ (case str_field body ''error'' of Some e \<Rightarrow> if e = [] then [] else '': '' @ e | None \<Rightarrow> [])"

definition login_answered :: "bool \<Rightarrow> fetched \<Rightarrow> connect_task" where
  "login_answered rotation answer =
     (case answer of
        FetchFailed e \<Rightarrow> CredentialFailed e
      | FetchAnswer code raw \<Rightarrow>
          let body = readResponseBody raw
          in if \<not> fetch_ok code then CredentialFailed (responseError code body)
             else if set_str (str_field body ''token'') then AwaitEnroll rotation
             else CredentialFailed ''relay account login returned no token'')"

text \<open>The end of the enrollment; \<open>uuid\<close> is the value of \<open>randomUUID()\<close> when a new identity is needed.\<close>

definition enroll_answered :: "relay_config \<Rightarrow> bool \<Rightarrow> string \<Rightarrow> fetched \<Rightarrow> relay \<Rightarrow> relay" where
  "enroll_answered cfg rotation uuid answer r =
     (case answer of
        FetchFailed e \<Rightarrow> r\<lparr>connect_state := Some (CredentialFailed e)\<rparr>
      | FetchAnswer code raw \<Rightarrow>
          let body = readResponseBody raw
          in if \<not> fetch_ok code
             then if rotation \<and> code = 409 \<and> jget body ''error'' = Some (JStr ''device_owned'')
                  then on_status (\<lambda>s. s\<lparr>st_deviceId := Some uuid\<rparr>)
                         (writeIdentity (only_device (Some uuid)) (r\<lparr>connect_state := Some (begin_enroll cfg False)\<rparr>))
                  else r\<lparr>connect_state := Some (CredentialFailed (responseError code body))\<rparr>
             else
               let token = str_field body ''deviceToken'';
                   device = (case str_field body ''deviceId'' of Some d \<Rightarrow> Some d | None \<Rightarrow> deviceId (identity r))
               in if \<not> set_str token \<or> \<not> set_str device
                  then r\<lparr>connect_state := Some (CredentialFailed ''relay enrollment returned no device credential'')\<rparr>
                  else on_status (\<lambda>s. s\<lparr>st_deviceId := device,
                           st_deviceName := Some (case str_field body ''deviceName'' of Some n \<Rightarrow> n | None \<Rightarrow> deviceName cfg)\<rparr>)
                         (writeIdentity \<lparr>deviceId = device, deviceToken = token, deviceSecret = None\<rparr>
                           (r\<lparr>connect_state := Some CredentialReady\<rparr>)))"

text \<open>The rest of \<open>connectRelay\<close>, after the await.\<close>

definition credential_failed :: "string \<Rightarrow> relay \<Rightarrow> relay" where
  "credential_failed e r = scheduleReconnect 10000 (setError e (r\<lparr>connect_state := None, connecting := False\<rparr>))"

definition open_relay :: "relay_config \<Rightarrow> relay \<Rightarrow> relay" where
  "open_relay cfg r =
     (let r1 = r\<lparr>connect_state := None, connecting := False\<rparr>
      in if \<not> started r1 \<or> revoked r1 then r1
         else if relaySocketUrl cfg = None \<or> rc_origin cfg = None then scheduleReconnect 3000 (setError ''Invalid URL'' r1)
         else let n = fresh_sock (relay_socks r1)
              in r1\<lparr>relay_socks := relay_socks r1 @ [(n, new_sock)], relaySocket := Some n\<rparr>)"

section \<open>The local event socket\<close>

definition ensureGatewayEventSocket :: "relay \<Rightarrow> relay" where
  "ensureGatewayEventSocket r =
     (if sock_is {SockUp, SockConnecting} (gatewayEventSocket r) (local_socks r) then r
      else let n = fresh_sock (local_socks r)
           in r\<lparr>local_socks := local_socks r @ [(n, new_sock)], gatewayEventSocket := Some n, gatewayHeartbeatTimer := Some n\<rparr>)"

definition ping :: json where "ping = JObj [(''type'', JStr ''ping'')]"

definition relay_beat :: "relay \<Rightarrow> relay" where
  "relay_beat r = (case relayHeartbeatTimer r of Some n \<Rightarrow> relay_send n ping r | None \<Rightarrow> r)"

definition local_beat :: "relay \<Rightarrow> relay" where
  "local_beat r =
     (case gatewayHeartbeatTimer r of Some n \<Rightarrow> r\<lparr>local_socks := snd (safeRelaySend n ping (local_socks r))\<rparr> | None \<Rightarrow> r)"

definition local_message :: "relay_config \<Rightarrow> string \<Rightarrow> relay \<Rightarrow> relay" where
  "local_message cfg raw r =
     (if \<not> sock_is {SockUp} (relaySocket r) (relay_socks r) then r
      else case rc_parse cfg raw of
          None \<Rightarrow> r
        | Some payload \<Rightarrow> relay_send_current (JObj [(''type'', JStr ''gateway-event''), (''payload'', payload)]) r)"

definition local_closed :: "nat \<Rightarrow> relay \<Rightarrow> relay" where
  "local_closed n r =
     (let r1 = r\<lparr>local_socks := on_sock n (\<lambda>s. s\<lparr>rk_state := SockDown\<rparr>) (local_socks r)\<rparr>
      in if gatewayEventSocket r1 \<noteq> Some n then r1
         else r1\<lparr>gatewayEventSocket := None, gatewayHeartbeatTimer := None,
                local_retries := (if started r1 \<and> \<not> revoked r1 \<and> st_connected (rstatus r1) then local_retries r1 + 1 else local_retries r1)\<rparr>)"

section \<open>Opening and closing of the relay socket\<close>

definition relay_opened :: "relay_config \<Rightarrow> nat \<Rightarrow> relay \<Rightarrow> relay" where
  "relay_opened cfg n r =
     (let r1 = r\<lparr>relay_socks := on_sock n (\<lambda>s. s\<lparr>rk_state := SockUp\<rparr>) (relay_socks r)\<rparr>
      in if relaySocket r1 \<noteq> Some n then r1
         else ensureGatewayEventSocket
                ((relay_send n (deviceHello cfg (identity r1)) (on_status (\<lambda>s. s\<lparr>st_connected := False\<rparr>) r1))\<lparr>relayHeartbeatTimer := Some n\<rparr>))"

text \<open>The Chinese text of the status, as its UTF-8 bytes.\<close>

definition credential_refreshed :: string where
  "credential_refreshed = map char_of
     [232, 174, 190, 229, 164, 135, 229, 135, 173, 230, 141, 174, 229, 183, 178, 229, 136, 183, 230, 150, 176, 239, 188, 140,
      230, 173, 163, 229, 156, 168, 233, 135, 141, 230, 150, 176, 232, 174, 164, 232, 175, 129 :: nat]"

definition handshake_closed :: "nat \<Rightarrow> string \<Rightarrow> string" where
  "handshake_closed code reason =
     ''relay device handshake closed ('' @ nat_str code @ (if trim reason = [] then [] else '': '' @ trim reason) @ '')''"

text \<open>The part on an incomplete handshake: the error, and once per connection cycle a new enrollment.\<close>

definition handshake_failed :: "nat \<Rightarrow> string \<Rightarrow> relay \<Rightarrow> bool \<times> relay" where
  "handshake_failed code reason r =
     (let r1 = on_status (\<lambda>s. s\<lparr>st_lastError := Some (handshake_closed code reason)\<rparr>) r
      in if code = 1006 \<and> set_str (deviceToken (identity r1)) \<and> \<not> credentialRecoveryAttempted r1
         then (True, on_status (\<lambda>s. s\<lparr>st_lastError := Some credential_refreshed\<rparr>)
                 (writeIdentity (only_device (deviceId (identity r1))) (r1\<lparr>credentialRecoveryAttempted := True\<rparr>)))
         else (False, r1))"

definition reject_pairs :: "string \<Rightarrow> relay \<Rightarrow> relay" where
  "reject_pairs msg r =
     r\<lparr>pair_pending := [], pair_settled := pair_settled r @ map (\<lambda>p. (p, PairRejected msg)) (pair_pending r)\<rparr>"

definition handleRelayDisconnect :: "nat \<Rightarrow> nat \<Rightarrow> string \<Rightarrow> relay \<Rightarrow> relay" where
  "handleRelayDisconnect n code reason r =
     (if relaySocket r \<noteq> Some n then r
      else
        let r1 = on_status (\<lambda>s. s\<lparr>st_connected := False\<rparr>) (r\<lparr>relayHeartbeatTimer := None\<rparr>);
            (recover, r2) = (if relayReadySocket r \<noteq> Some n then handshake_failed code reason r1 else (False, r1));
            r3 = r2\<lparr>relaySocket := None, relayReadySocket := None\<rparr>;
            r4 = (case gatewayEventSocket r3 of
                    Some m \<Rightarrow> r3\<lparr>local_socks := on_sock m sock_close (local_socks r3), gatewayEventSocket := None\<rparr>
                  | None \<Rightarrow> r3)
        in scheduleReconnect (if recover then 500 else 3000) (reject_pairs ''relay connection closed'' r4))"

definition relay_closed :: "nat \<Rightarrow> nat \<Rightarrow> string \<Rightarrow> relay \<Rightarrow> relay" where
  "relay_closed n code reason r =
     handleRelayDisconnect n code reason (r\<lparr>relay_socks := on_sock n (\<lambda>s. s\<lparr>rk_state := SockDown\<rparr>) (relay_socks r)\<rparr>)"

definition relay_errored :: "nat \<Rightarrow> string \<Rightarrow> relay \<Rightarrow> relay" where
  "relay_errored n msg r = (if relaySocket r = Some n then setError msg r else r)"

section \<open>Synchronisation of the session list\<close>

text \<open>The stored sessions, their cursors and the new request id, read when a synchronisation starts.\<close>

type_synonym sync_source = "gateway_session list \<times> (string, js_number) js_map \<times> string"

definition syncSessions :: "sync_source \<Rightarrow> relay \<Rightarrow> relay" where
  "syncSessions src r =
     (case relaySocket r of
        None \<Rightarrow> r
      | Some n \<Rightarrow>
          if \<not> sock_is {SockUp} (Some n) (relay_socks r) then r
          else if sessionSyncPromise r \<noteq> None \<and> sessionSyncSocket r = Some n then r
          else
            let (fallback, cursors, rid) = src; k = next_sync r
            in r\<lparr>sessionSyncPromise := Some k, sessionSyncSocket := Some n,
                 syncs := AList.update k \<lparr>sy_socket = n, sy_fallback = fallback, sy_cursors = cursors, sy_requestId = rid\<rparr> (syncs r),
                 next_sync := k + 1\<rparr>)"

definition syncSessionsNow :: "sync_source \<Rightarrow> relay \<Rightarrow> relay" where
  "syncSessionsNow src r =
     (case sessionSyncPromise r of
        None \<Rightarrow> syncSessions src r
      | Some k \<Rightarrow> r\<lparr>sessionSyncAgain := True, sync_waiters := sync_waiters r @ [k]\<rparr>)"

definition sync_failed_prefix :: string where "sync_failed_prefix = ''session sync local listing failed:''"

text \<open>A synchronisation whose listing has arrived: it is sent if its socket is still the current one.\<close>

definition sync_listed :: "nat \<Rightarrow> fetched \<Rightarrow> relay \<Rightarrow> relay" where
  "sync_listed k answer r =
     (case map_of (syncs r) k of
        None \<Rightarrow> r
      | Some t \<Rightarrow>
          let (payload, listingError) = loadSessionSyncPayload answer (sy_fallback t) (sy_cursors t) (sy_requestId t);
              n = sy_socket t;
              r1 = (if relaySocket r = Some n \<and> sock_is {SockUp} (Some n) (relay_socks r) then relay_send n (json_sync payload) r else r);
              r2 = (case listingError of
                      Some e \<Rightarrow> on_status (\<lambda>s. s\<lparr>st_lastError := Some (sync_failed_prefix @ '' '' @ e)\<rparr>) r1
                    | None \<Rightarrow>
                        (case st_lastError (rstatus r1) of
                           Some e \<Rightarrow> if starts_with e sync_failed_prefix then on_status (\<lambda>s. s\<lparr>st_lastError := None\<rparr>) r1 else r1
                         | None \<Rightarrow> r1));
              r3 = (if sessionSyncSocket r2 = Some n then r2\<lparr>sessionSyncPromise := None, sessionSyncSocket := None\<rparr> else r2)
          in r3\<lparr>syncs := AList.delete k (syncs r3)\<rparr>)"

text \<open>The continuation of a caller that waits for synchronisation \<open>k\<close>, which is over.\<close>

definition waiter_resumes :: "sync_source \<Rightarrow> nat \<Rightarrow> relay \<Rightarrow> relay" where
  "waiter_resumes src k r =
     (if k \<notin> set (sync_waiters r) \<or> map_has (syncs r) k then r
      else
        let r1 = r\<lparr>sync_waiters := remove1 k (sync_waiters r)\<rparr>
        in if \<not> sessionSyncAgain r1 then r1 else syncSessionsNow src (r1\<lparr>sessionSyncAgain := False\<rparr>))"

section \<open>Pairing\<close>

definition settle_pair :: "string \<Rightarrow> pair_outcome \<Rightarrow> relay \<Rightarrow> relay" where
  "settle_pair rid out r = r\<lparr>pair_pending := remove1 rid (pair_pending r), pair_settled := pair_settled r @ [(rid, out)]\<rparr>"

definition requestPairCode :: "string \<Rightarrow> relay \<Rightarrow> relay" where
  "requestPairCode rid r =
     (case relaySocket r of
        None \<Rightarrow> r\<lparr>pair_settled := pair_settled r @ [(rid, PairRejected ''relay is not connected'')]\<rparr>
      | Some n \<Rightarrow>
          if \<not> sock_is {SockUp} (Some n) (relay_socks r)
          then r\<lparr>pair_settled := pair_settled r @ [(rid, PairRejected ''relay is not connected'')]\<rparr>
          else
            let (ok, socks) = safeRelaySend n (JObj [(''type'', JStr ''pair-code:create''), (''requestId'', JStr rid)]) (relay_socks r);
                r1 = r\<lparr>relay_socks := socks, pair_pending := pair_pending r @ [rid]\<rparr>
            in if ok then r1 else settle_pair rid (PairRejected ''relay connection not writable'') r1)"

definition pair_timeout :: "string \<Rightarrow> relay \<Rightarrow> relay" where
  "pair_timeout rid r =
     (if rid \<in> set (pair_pending r) then settle_pair rid (PairRejected ''pair code request timed out'') r else r)"

section \<open>Messages of the relay\<close>

definition or_else :: "string option \<Rightarrow> string option \<Rightarrow> string option" where
  "or_else a b = (case a of Some _ \<Rightarrow> a | None \<Rightarrow> b)"

definition device_ready :: "sync_source \<Rightarrow> json \<Rightarrow> relay \<Rightarrow> relay" where
  "device_ready src record r =
     (let i = \<lparr>deviceId = or_else (str_field record ''deviceId'') (deviceId (identity r)),
               deviceToken = or_else (str_field record ''deviceToken'') (deviceToken (identity r)),
               deviceSecret = or_else (str_field record ''deviceSecret'') (deviceSecret (identity r))\<rparr>;
          r1 = writeIdentity i (r\<lparr>relayReadySocket := relaySocket r, credentialRecoveryAttempted := False\<rparr>);
          r2 = on_status (\<lambda>s. s\<lparr>st_connected := True, st_deviceId := deviceId i,
                 st_deviceName := or_else (str_field record ''deviceName'') (st_deviceName s),
                 st_pairCode := or_else (str_field record ''pairCode'') (st_pairCode s),
                 st_pairCodeExpiresAt := or_else (str_field record ''pairCodeExpiresAt'') (st_pairCodeExpiresAt s)\<rparr>) r1
      in syncSessions src r2)"

definition device_credential :: "json \<Rightarrow> relay \<Rightarrow> relay" where
  "device_credential record r =
     (let token = str_field record ''deviceToken''; device = or_else (str_field record ''deviceId'') (deviceId (identity r))
      in if set_str token \<and> set_str device
         then on_status (\<lambda>s. s\<lparr>st_deviceId := device, st_lastError := None\<rparr>)
                (writeIdentity \<lparr>deviceId = device, deviceToken = token, deviceSecret = None\<rparr> r)
         else r)"

definition device_revoked :: "relay \<Rightarrow> relay" where
  "device_revoked r =
     (let r1 = (writeIdentity (only_device (deviceId (identity r))) r)\<lparr>revoked := True\<rparr>;
          r2 = on_status (\<lambda>s. s\<lparr>st_connected := False,
                 st_lastError := Some ''relay device credential revoked; restart after re-enrollment''\<rparr>) r1
      in case relaySocket r2 of
           Some n \<Rightarrow> r2\<lparr>relay_socks := on_sock n sock_close (relay_socks r2)\<rparr>
         | None \<Rightarrow> r2)"

definition pair_code :: "json \<Rightarrow> relay \<Rightarrow> relay" where
  "pair_code record r =
     (let txt = (\<lambda>k. case str_field record k of Some s \<Rightarrow> s | None \<Rightarrow> []);
          known = (\<lambda>rid. rid \<noteq> [] \<and> rid \<in> set (pair_pending r))
      in case (str_field record ''requestId'', str_field record ''error'') of
           (Some rid, Some e) \<Rightarrow>
             if known rid
             then on_status (\<lambda>s. s\<lparr>st_lastError := Some (''pairing failed: '' @ e)\<rparr>) (settle_pair rid (PairRejected e) r)
             else on_status (\<lambda>s. s\<lparr>st_pairCode := Some (txt ''pairCode''), st_pairCodeExpiresAt := Some (txt ''pairCodeExpiresAt'')\<rparr>) r
         | (rid, _) \<Rightarrow>
             let r1 = on_status (\<lambda>s. s\<lparr>st_pairCode := Some (txt ''pairCode''), st_pairCodeExpiresAt := Some (txt ''pairCodeExpiresAt'')\<rparr>) r
             in (case rid of
                   Some i \<Rightarrow> if known i then settle_pair i (PairResolved (txt ''pairCode'') (txt ''pairCodeExpiresAt'')) r1 else r1
                 | None \<Rightarrow> r1))"

text \<open>A proxied request is numbered by the number of calls before it; its answer goes to the socket that is
  current then.\<close>

definition handleProxyRequest :: "relay_config \<Rightarrow> json \<Rightarrow> relay \<Rightarrow> relay" where
  "handleProxyRequest cfg record r =
     (case proxy_prepare (localHttpOrigin cfg) (rc_gatewayAuthToken cfg) record of
        Inl reply \<Rightarrow> relay_send_current reply r
      | Inr call \<Rightarrow> r\<lparr>proxied := AList.update (length (proxy_calls r)) (jget record ''requestId'') (proxied r),
                     proxy_calls := proxy_calls r @ [call]\<rparr>)"

definition proxy_answered :: "nat \<Rightarrow> proxy_answer \<Rightarrow> relay \<Rightarrow> relay" where
  "proxy_answered k answer r =
     (case map_of (proxied r) k of
        None \<Rightarrow> r
      | Some rid \<Rightarrow> relay_send_current (proxy_reply rid answer) (r\<lparr>proxied := AList.delete k (proxied r)\<rparr>))"

definition handleRelayMessage :: "relay_config \<Rightarrow> sync_source \<Rightarrow> string \<Rightarrow> relay \<Rightarrow> relay" where
  "handleRelayMessage cfg src raw r =
     (case rc_parse cfg raw of
        None \<Rightarrow> r
      | Some record \<Rightarrow>
          let ty = str_field record ''type''
          in if \<not> is_object record then r
             else if ty = Some ''device-ready'' then device_ready src record r
             else if ty = Some ''device-credential'' then device_credential record r
             else if ty = Some ''device-owner-bound'' then syncSessions src r
             else if ty = Some ''device-revoked'' then device_revoked r
             else if ty = Some ''pair-code'' then pair_code record r
             else if ty = Some ''proxy-request'' then handleProxyRequest cfg record r
             else r)"

section \<open>Runs\<close>

text \<open>
  The events of a run. A socket reports opening once, messages while it is open or closing, and its end
  once; a timer fires when it is armed.
\<close>

datatype relay_event =
    RStart
  | RReconnect
  | RCredential
  | RLogin fetched
  | REnroll string fetched
  | ROpened nat
  | RMessage nat sync_source string
  | RClosed nat nat string
  | RErrored nat string
  | RBeat
  | LOpened nat
  | LBeat
  | LMessage nat string
  | LClosed nat
  | LRetry
  | SyncNow sync_source
  | SyncListed nat fetched
  | SyncWaiter sync_source nat
  | PairRequest string
  | PairTimeout string
  | Proxied nat proxy_answer
  | RSock nat int bool
  | LSock nat int bool

definition network :: "int \<Rightarrow> bool \<Rightarrow> relay_sock \<Rightarrow> relay_sock" where
  "network n throws s = s\<lparr>rk_buffered := max 0 (rk_buffered s - max 0 n), rk_throws := throws\<rparr>"

definition credential_settled :: "relay_config \<Rightarrow> relay \<Rightarrow> relay" where
  "credential_settled cfg r =
     (case connect_state r of
        Some CredentialReady \<Rightarrow> open_relay cfg r
      | Some (CredentialFailed e) \<Rightarrow> credential_failed e r
      | _ \<Rightarrow> r)"

fun relay_step :: "relay_config \<Rightarrow> relay_event \<Rightarrow> relay \<Rightarrow> relay" where
  "relay_step cfg RStart r = start cfg r"
| "relay_step cfg RReconnect r = (if reconnectTimer r = None then r else connectRelay cfg (r\<lparr>reconnectTimer := None\<rparr>))"
| "relay_step cfg RCredential r = credential_settled cfg r"
| "relay_step cfg (RLogin answer) r =
     (case connect_state r of Some (AwaitLogin rotation) \<Rightarrow> r\<lparr>connect_state := Some (login_answered rotation answer)\<rparr> | _ \<Rightarrow> r)"
| "relay_step cfg (REnroll uuid answer) r =
     (case connect_state r of Some (AwaitEnroll rotation) \<Rightarrow> enroll_answered cfg rotation uuid answer r | _ \<Rightarrow> r)"
| "relay_step cfg (ROpened n) r = (if sock_is {SockConnecting} (Some n) (relay_socks r) then relay_opened cfg n r else r)"
| "relay_step cfg (RMessage n src raw) r =
     (if sock_is {SockUp, SockEnding} (Some n) (relay_socks r) then handleRelayMessage cfg src raw r else r)"
| "relay_step cfg (RClosed n code reason) r =
     (if sock_is {SockConnecting, SockUp, SockEnding} (Some n) (relay_socks r) then relay_closed n code reason r else r)"
| "relay_step cfg (RErrored n msg) r = relay_errored n msg r"
| "relay_step cfg RBeat r = relay_beat r"
| "relay_step cfg (LOpened n) r =
     (if sock_is {SockConnecting} (Some n) (local_socks r)
      then r\<lparr>local_socks := on_sock n (\<lambda>s. s\<lparr>rk_state := SockUp\<rparr>) (local_socks r)\<rparr> else r)"
| "relay_step cfg LBeat r = local_beat r"
| "relay_step cfg (LMessage n raw) r =
     (if sock_is {SockUp, SockEnding} (Some n) (local_socks r) then local_message cfg raw r else r)"
| "relay_step cfg (LClosed n) r =
     (if sock_is {SockConnecting, SockUp, SockEnding} (Some n) (local_socks r) then local_closed n r else r)"
| "relay_step cfg LRetry r =
     (if local_retries r = 0 then r else ensureGatewayEventSocket (r\<lparr>local_retries := local_retries r - 1\<rparr>))"
| "relay_step cfg (SyncNow src) r = syncSessionsNow src r"
| "relay_step cfg (SyncListed k answer) r = sync_listed k answer r"
| "relay_step cfg (SyncWaiter src k) r = waiter_resumes src k r"
| "relay_step cfg (PairRequest rid) r = requestPairCode rid r"
| "relay_step cfg (PairTimeout rid) r = pair_timeout rid r"
| "relay_step cfg (Proxied k answer) r = proxy_answered k answer r"
| "relay_step cfg (RSock n drained throws) r = r\<lparr>relay_socks := on_sock n (network drained throws) (relay_socks r)\<rparr>"
| "relay_step cfg (LSock n drained throws) r = r\<lparr>local_socks := on_sock n (network drained throws) (local_socks r)\<rparr>"

definition relay_run :: "relay_config \<Rightarrow> relay_event list \<Rightarrow> relay \<Rightarrow> relay" where
  "relay_run cfg evs r = fold (relay_step cfg) evs r"

end
