(* ===== verification/RelayProps.thy ===== *)
theory RelayProps
  imports Relay
begin

text \<open>
  Properties of the relay client in every run: the life cycle of its connection, honest status, pairing,
  the synchronisation of the session list, and which credential leaves the computer.
\<close>

section \<open>The life cycle of the connection\<close>

text \<open>What the life cycle depends on. Most operations leave it as it is.\<close>

record life =
  lf_started :: bool
  lf_revoked :: bool
  lf_connecting :: bool
  lf_waits :: bool
  lf_timer :: bool
  lf_socket :: "nat option"
  lf_ready :: "nat option"
  lf_beat :: "nat option"
  lf_connected :: bool
  lf_ids :: "nat list"
  lf_alive :: "nat list"

definition alive :: "sockets \<Rightarrow> nat list" where
  "alive socks = map fst (filter (\<lambda>(i, s). rk_state s \<noteq> SockDown) socks)"

definition life_of :: "relay \<Rightarrow> life" where
  "life_of r = \<lparr>lf_started = started r, lf_revoked = revoked r, lf_connecting = connecting r, lf_waits = (connect_state r \<noteq> None),
     lf_timer = (reconnectTimer r \<noteq> None), lf_socket = relaySocket r, lf_ready = relayReadySocket r,
     lf_beat = relayHeartbeatTimer r, lf_connected = st_connected (rstatus r), lf_ids = map fst (relay_socks r),
     lf_alive = alive (relay_socks r)\<rparr>"

definition lifelines :: "life \<Rightarrow> nat" where
  "lifelines l = of_bool (lf_socket l \<noteq> None) + of_bool (lf_timer l) + of_bool (lf_connecting l)"

definition life_ok :: "life \<Rightarrow> bool" where
  "life_ok l =
     (lf_waits l = lf_connecting l
      \<and> lf_ids l = [0..<length (lf_ids l)]
      \<and> lf_alive l = (case lf_socket l of Some n \<Rightarrow> [n] | None \<Rightarrow> [])
      \<and> lifelines l \<le> 1 \<and> (lf_started l \<and> \<not> lf_revoked l \<longrightarrow> lifelines l = 1) \<and> (\<not> lf_started l \<longrightarrow> lifelines l = 0)
      \<and> (lf_connected l \<longrightarrow> lf_socket l \<noteq> None \<and> lf_ready l = lf_socket l)
      \<and> (lf_ready l \<noteq> None \<longrightarrow> lf_ready l = lf_socket l)
      \<and> (lf_beat l \<noteq> None \<longrightarrow> lf_beat l = lf_socket l))"

lemma life_okD:
  assumes "life_ok l"
  shows "lf_waits l = lf_connecting l" "lf_ids l = [0..<length (lf_ids l)]"
    "lf_alive l = (case lf_socket l of Some n \<Rightarrow> [n] | None \<Rightarrow> [])" "lifelines l \<le> 1"
    "lf_started l \<Longrightarrow> \<not> lf_revoked l \<Longrightarrow> lifelines l = 1" "lf_connected l \<Longrightarrow> lf_socket l \<noteq> None"
    "lf_connected l \<Longrightarrow> lf_ready l = lf_socket l"
  using assms unfolding life_ok_def by blast+

text \<open>Sockets.\<close>

lemma ids_on_sock [simp]: "map fst (on_sock n f socks) = map fst socks"
  by (induction socks) (auto simp: on_sock_def)

lemma alive_Cons: "alive ((i, s) # socks) = (if rk_state s = SockDown then alive socks else i # alive socks)"
  by (simp add: alive_def)

lemma on_sock_Cons: "on_sock n f ((i, s) # socks) = (i, if i = n then f s else s) # on_sock n f socks"
  by (simp add: on_sock_def)

lemma alive_on_sock:
  assumes "\<And>s. rk_state (f s) = SockDown \<longleftrightarrow> rk_state s = SockDown"
  shows "alive (on_sock n f socks) = alive socks"
proof (induction socks)
  case (Cons p socks)
  then show ?case using assms by (cases p) (simp add: alive_Cons on_sock_Cons)
qed (simp add: on_sock_def)

lemma alive_down: "alive (on_sock n (\<lambda>s. s\<lparr>rk_state := SockDown\<rparr>) socks) = filter (\<lambda>i. i \<noteq> n) (alive socks)"
proof (induction socks)
  case (Cons p socks)
  then show ?case by (cases p) (simp add: alive_Cons on_sock_Cons)
qed (simp add: on_sock_def alive_def)

lemma alive_append [simp]: "alive (socks @ [(n, new_sock)]) = alive socks @ [n]"
  by (simp add: alive_def new_sock_def)

lemma sock_close_down [simp]: "rk_state (sock_close s) = SockDown \<longleftrightarrow> rk_state s = SockDown"
  by (auto simp: sock_close_def)

lemma sock_send_down [simp]: "rk_state (snd (sock_send txt s)) = SockDown \<longleftrightarrow> rk_state s = SockDown"
  by (simp add: sock_send_def)

lemma sock_is_alive: "sock_is S (Some n) socks \<Longrightarrow> SockDown \<notin> S \<Longrightarrow> n \<in> set (alive socks)"
  by (auto simp: sock_is_def alive_def split: option.splits dest!: map_of_SomeD intro!: image_eqI [where x = "(n, s)" for s])

lemma safeRelaySend_keeps [simp]:
  "alive (snd (safeRelaySend n m socks)) = alive socks" "map fst (snd (safeRelaySend n m socks)) = map fst socks"
  by (simp_all add: safeRelaySend_def alive_on_sock split: option.split)

lemma alive_network [simp]: "alive (on_sock n (network d t) socks) = alive socks"
  by (simp add: alive_on_sock network_def)

text \<open>The operations that leave the life cycle alone.\<close>

lemma life_relay_send [simp]: "life_of (relay_send n m r) = life_of r"
  by (simp add: life_of_def relay_send_def)

lemma life_send_current [simp]: "life_of (relay_send_current m r) = life_of r"
  by (simp add: relay_send_current_def split: option.split)

lemma life_writeIdentity [simp]: "life_of (writeIdentity i r) = life_of r"
  by (simp add: life_of_def writeIdentity_def)

lemma life_on_status: "(\<And>s. st_connected (f s) = st_connected s) \<Longrightarrow> life_of (on_status f r) = life_of r"
  by (simp add: life_of_def on_status_def)

lemma life_syncSessions [simp]: "life_of (syncSessions src r) = life_of r"
  by (simp add: syncSessions_def life_of_def Let_def split: option.split prod.split)

lemma life_syncSessionsNow [simp]: "life_of (syncSessionsNow src r) = life_of r"
proof (cases "sessionSyncPromise r")
  case (Some k)
  then show ?thesis by (simp add: syncSessionsNow_def life_of_def)
qed (simp add: syncSessionsNow_def)

lemma life_frame:
  "life_of (r\<lparr>sessionSyncAgain := b\<rparr>) = life_of r"
  "life_of (r\<lparr>sync_waiters := ws\<rparr>) = life_of r"
  "life_of (r\<lparr>syncs := ss\<rparr>) = life_of r"
  "life_of (r\<lparr>sessionSyncPromise := p\<rparr>) = life_of r"
  "life_of (r\<lparr>sessionSyncSocket := p\<rparr>) = life_of r"
  "life_of (r\<lparr>proxied := ps\<rparr>) = life_of r"
  "life_of (r\<lparr>proxy_calls := cs\<rparr>) = life_of r"
  "life_of (r\<lparr>pair_pending := pp\<rparr>) = life_of r"
  "life_of (r\<lparr>pair_settled := st\<rparr>) = life_of r"
  "life_of (r\<lparr>local_socks := ls\<rparr>) = life_of r"
  "life_of (r\<lparr>local_retries := n\<rparr>) = life_of r"
  "life_of (r\<lparr>gatewayEventSocket := p\<rparr>) = life_of r"
  "life_of (r\<lparr>gatewayHeartbeatTimer := p\<rparr>) = life_of r"
  "life_of (r\<lparr>credentialRecoveryAttempted := b\<rparr>) = life_of r"
  by (simp_all add: life_of_def)

lemma life_sync_listed [simp]: "life_of (sync_listed k answer r) = life_of r"
  by (simp add: sync_listed_def Let_def life_frame life_on_status split: option.split prod.split)

lemma life_waiter [simp]: "life_of (waiter_resumes src k r) = life_of r"
  by (simp add: waiter_resumes_def Let_def life_frame)

lemma life_local_event [simp]: "life_of (ensureGatewayEventSocket r) = life_of r"
  by (simp add: ensureGatewayEventSocket_def Let_def life_frame)

lemma life_local:
  "life_of (local_beat r) = life_of r" "life_of (local_message cfg raw r) = life_of r" "life_of (local_closed n r) = life_of r"
  "life_of (relay_beat r) = life_of r"
  by (simp_all add: local_beat_def local_message_def local_closed_def relay_beat_def Let_def life_frame split: option.split)

lemma life_settle_pair [simp]: "life_of (settle_pair rid out r) = life_of r"
  by (simp add: settle_pair_def life_frame)

lemma life_pairs:
  "life_of (reject_pairs msg r) = life_of r" "life_of (pair_timeout rid r) = life_of r" "life_of (pair_code record r) = life_of r"
  by (simp_all add: reject_pairs_def pair_timeout_def pair_code_def Let_def life_frame life_on_status split: option.split)

lemma life_requestPairCode [simp]: "life_of (requestPairCode rid r) = life_of r"
proof -
  have "life_of (r\<lparr>relay_socks := snd (safeRelaySend n m (relay_socks r)), pair_pending := pp\<rparr>) = life_of r" for n m pp
    by (simp add: life_of_def)
  then show ?thesis by (simp add: requestPairCode_def life_frame case_prod_beta Let_def split: option.split)
qed

lemma life_proxy:
  "life_of (handleProxyRequest cfg record r) = life_of r" "life_of (proxy_answered k answer r) = life_of r"
  by (simp_all add: handleProxyRequest_def proxy_answered_def life_frame split: option.split sum.split)

text \<open>The operations that change it.\<close>

lemma life_setError: "life_of (setError e r) = (life_of r)\<lparr>lf_connected := False\<rparr>"
  by (simp add: setError_def on_status_def life_of_def)

lemma life_scheduleReconnect:
  "life_of (scheduleReconnect d r) =
     (life_of r)\<lparr>lf_timer := lf_timer (life_of r) \<or> (lf_started (life_of r) \<and> \<not> lf_revoked (life_of r))\<rparr>"
  by (auto simp: scheduleReconnect_def life_of_def)

lemma life_connectRelay:
  assumes "relaySocket r = None" "\<not> connecting r"
  shows "life_of (connectRelay cfg r) =
    (if started r \<and> \<not> revoked r then (life_of r)\<lparr>lf_connecting := True, lf_waits := True\<rparr> else life_of r)"
  using assms by (simp add: connectRelay_def life_of_def sock_is_def case_prod_beta)

lemma start_ok:
  assumes "life_ok (life_of r)"
  shows "life_ok (life_of (start cfg r))"
proof (cases "started r \<or> rc_relayUrl cfg = [] \<or> (rc_production cfg \<and> map_option ru_protocol (rc_url cfg) \<noteq> Some ''https:'')")
  case True
  then show ?thesis using assms by (auto simp: start_def life_on_status)
next
  case False
  with assms have "relaySocket r = None" "\<not> connecting r" "reconnectTimer r = None" "connect_state r = None"
    by (auto simp: life_ok_def life_of_def lifelines_def)
  then show ?thesis using False assms
    by (auto simp: start_def life_connectRelay) (auto simp: life_ok_def life_of_def lifelines_def)
qed

lemma reconnect_ok:
  assumes "life_ok (life_of r)" "reconnectTimer r \<noteq> None"
  shows "life_ok (life_of (connectRelay cfg (r\<lparr>reconnectTimer := None\<rparr>)))"
proof -
  from assms have "relaySocket r = None" "\<not> connecting r"
    by (auto simp: life_ok_def life_of_def lifelines_def)
  then show ?thesis using assms
    by (simp add: life_connectRelay) (auto simp: life_ok_def life_of_def lifelines_def)
qed

lemma credential_ok:
  assumes "life_ok (life_of r)"
  shows "life_ok (life_of (credential_settled cfg r))"
proof (cases "connect_state r")
  case (Some t)
  with assms have idle: "relaySocket r = None" "reconnectTimer r = None" "connecting r"
    by (auto simp: life_ok_def life_of_def lifelines_def)
  have "life_ok (life_of (credential_failed e r))" for e using assms idle
    by (auto simp: credential_failed_def life_scheduleReconnect life_setError) (auto simp: life_ok_def life_of_def lifelines_def)
  moreover have "life_ok (life_of (open_relay cfg r))" using assms idle
    by (auto simp: open_relay_def Let_def life_scheduleReconnect life_setError fresh_sock_def)
       (auto simp: life_ok_def life_of_def lifelines_def)
  ultimately show ?thesis using assms Some by (cases t) (simp_all add: credential_settled_def)
qed (use assms in \<open>simp add: credential_settled_def\<close>)

lemma alive_current:
  assumes "life_ok (life_of r)" "sock_is S (Some n) (relay_socks r)" "SockDown \<notin> S"
  shows "relaySocket r = Some n" "alive (relay_socks r) = [n]" "distinct (map fst (relay_socks r))"
proof -
  from assms(2,3) have "n \<in> set (alive (relay_socks r))" by (rule sock_is_alive)
  with assms(1) show "relaySocket r = Some n" "alive (relay_socks r) = [n]" "distinct (map fst (relay_socks r))"
    by (auto simp: life_ok_def life_of_def split: option.splits)
qed

lemma alive_up:
  assumes "n \<in> set (alive socks)" "distinct (map fst socks)"
  shows "alive (on_sock n (\<lambda>s. s\<lparr>rk_state := SockUp\<rparr>) socks) = alive socks"
  using assms
proof (induction socks)
  case (Cons p socks)
  have other: "on_sock n f socks = socks" if "n \<notin> fst ` set socks" for f
    using that unfolding on_sock_def by (intro map_idI) force
  have "set (alive socks) \<subseteq> fst ` set socks" by (auto simp: alive_def)
  with Cons show ?case by (cases p) (auto simp: alive_Cons on_sock_Cons other split: if_splits)
qed (simp add: on_sock_def)

lemma life_opened:
  assumes "life_ok (life_of r)" "sock_is {SockConnecting} (Some n) (relay_socks r)"
  shows "life_of (relay_opened cfg n r) = (life_of r)\<lparr>lf_beat := Some n, lf_connected := False\<rparr>"
proof -
  from assms have cur: "relaySocket r = Some n" "alive (relay_socks r) = [n]" "distinct (map fst (relay_socks r))"
    by (simp_all add: alive_current [where S = "{SockConnecting}"])
  define r1 where "r1 = on_status (\<lambda>s. s\<lparr>st_connected := False\<rparr>) (r\<lparr>relay_socks := on_sock n (\<lambda>s. s\<lparr>rk_state := SockUp\<rparr>) (relay_socks r)\<rparr>)"
  have r1: "life_of r1 = (life_of r)\<lparr>lf_connected := False\<rparr>"
    using cur by (simp add: r1_def life_of_def on_status_def alive_up)
  have "life_of (r2\<lparr>relayHeartbeatTimer := Some n\<rparr>) = (life_of r2)\<lparr>lf_beat := Some n\<rparr>" for r2
    by (simp add: life_of_def)
  with cur show ?thesis by (simp add: relay_opened_def flip: r1_def) (simp add: r1)
qed

lemma opened_ok:
  assumes "life_ok (life_of r)" "sock_is {SockConnecting} (Some n) (relay_socks r)"
  shows "life_ok (life_of (relay_opened cfg n r))"
  using assms alive_current(1) [OF assms] by (auto simp: life_opened) (auto simp: life_ok_def life_of_def lifelines_def)

lemma life_handshake: "life_of (snd (handshake_failed code reason r)) = life_of r"
  by (simp add: handshake_failed_def Let_def life_on_status life_frame)

lemma life_closed:
  assumes "life_ok (life_of r)" "sock_is {SockConnecting, SockUp, SockEnding} (Some n) (relay_socks r)"
  shows "life_of (relay_closed n code reason r) =
      (life_of r)\<lparr>lf_timer := lf_timer (life_of r) \<or> (lf_started (life_of r) \<and> \<not> lf_revoked (life_of r)), lf_socket := None,
        lf_ready := None, lf_beat := None, lf_connected := False, lf_alive := []\<rparr>"
proof -
  from assms have cur: "relaySocket r = Some n" "alive (relay_socks r) = [n]"
    by (simp_all add: alive_current [where S = "{SockConnecting, SockUp, SockEnding}"])
  define r1 where "r1 = on_status (\<lambda>s. s\<lparr>st_connected := False\<rparr>)
     (r\<lparr>relay_socks := on_sock n (\<lambda>s. s\<lparr>rk_state := SockDown\<rparr>) (relay_socks r), relayHeartbeatTimer := None\<rparr>)"
  have r1: "life_of r1 = (life_of r)\<lparr>lf_beat := None, lf_connected := False, lf_alive := []\<rparr>"
    using cur by (simp add: r1_def life_of_def on_status_def alive_down)
  have "life_of (x\<lparr>relaySocket := None, relayReadySocket := None\<rparr>) = (life_of x)\<lparr>lf_socket := None, lf_ready := None\<rparr>" for x
    by (simp add: life_of_def)
  then show ?thesis
    using cur by (simp add: relay_closed_def handleRelayDisconnect_def Let_def case_prod_beta life_scheduleReconnect life_pairs life_frame
        life_handshake r1 flip: r1_def split: option.split)
qed

lemma closed_ok:
  assumes "life_ok (life_of r)" "sock_is {SockConnecting, SockUp, SockEnding} (Some n) (relay_socks r)"
  shows "life_ok (life_of (relay_closed n code reason r))"
  using assms alive_current(1) [OF assms] by (auto simp: life_closed) (auto simp: life_ok_def life_of_def lifelines_def)

lemma message_ok:
  assumes "life_ok (life_of r)" "sock_is {SockUp, SockEnding} (Some n) (relay_socks r)"
  shows "life_ok (life_of (handleRelayMessage cfg src raw r))"
proof -
  from assms have cur: "relaySocket r = Some n"
    by (simp add: alive_current [where S = "{SockUp, SockEnding}"])
  have ready: "life_of (device_ready src m r) = (life_of r)\<lparr>lf_ready := Some n, lf_connected := True\<rparr>" for m
    using cur by (simp add: device_ready_def Let_def) (simp add: on_status_def writeIdentity_def life_of_def)
  have gone: "life_of (device_revoked r) = (life_of r)\<lparr>lf_revoked := True, lf_connected := False\<rparr>"
    using cur by (simp add: device_revoked_def Let_def on_status_def writeIdentity_def life_of_def alive_on_sock)
  have "life_of (device_credential m r) = life_of r" for m
    by (simp add: device_credential_def Let_def life_on_status)
  then have "life_of (handleRelayMessage cfg src raw r) \<in>
      {life_of r, (life_of r)\<lparr>lf_ready := Some n, lf_connected := True\<rparr>, (life_of r)\<lparr>lf_revoked := True, lf_connected := False\<rparr>}"
    by (simp add: handleRelayMessage_def Let_def life_pairs life_proxy ready gone split: option.split)
  moreover have "life_ok ((life_of r)\<lparr>lf_ready := Some n, lf_connected := True\<rparr>)"
    "life_ok ((life_of r)\<lparr>lf_revoked := True, lf_connected := False\<rparr>)"
    using assms(1) cur by (auto simp: life_ok_def life_of_def lifelines_def)
  ultimately show ?thesis using assms(1) by auto
qed

lemma life_waits: "connect_state r = Some t \<Longrightarrow> life_of (r\<lparr>connect_state := Some t'\<rparr>) = life_of r"
  by (simp add: life_of_def)

lemma enroll_life: "connect_state r = Some t \<Longrightarrow> life_of (enroll_answered cfg rotation uuid answer r) = life_of r"
  by (simp add: enroll_answered_def Let_def life_on_status life_waits split: fetched.split)

lemma relay_step_ok:
  assumes "life_ok (life_of r)"
  shows "life_ok (life_of (relay_step cfg ev r))"
proof (cases ev)
  case (REnroll uuid answer)
  then show ?thesis using assms by (simp add: enroll_life split: option.split connect_task.split)
next
  case (RLogin answer)
  then show ?thesis using assms by (simp add: life_waits split: option.split connect_task.split)
next
  case (RErrored n msg)
  then show ?thesis using assms by (auto simp: relay_errored_def life_setError) (auto simp: life_ok_def lifelines_def)
next
  case (RSock n d t)
  have "life_of (r\<lparr>relay_socks := on_sock n (network d t) (relay_socks r)\<rparr>) = life_of r" by (simp add: life_of_def)
  then show ?thesis using assms RSock by simp
qed (use assms in \<open>auto simp: start_ok reconnect_ok credential_ok opened_ok closed_ok message_ok life_local life_frame life_pairs life_proxy\<close>)

lemma relay_run_ok: "life_ok (life_of (relay_run cfg evs (new_relay cfg contents)))"
proof -
  have "life_ok (life_of r) \<Longrightarrow> life_ok (life_of (relay_run cfg evs r))" for r
    unfolding relay_run_def by (induction evs arbitrary: r) (simp_all add: relay_step_ok)
  moreover have "life_ok (life_of (new_relay cfg contents))"
    by (simp add: life_ok_def life_of_def new_relay_def lifelines_def alive_def)
  ultimately show ?thesis by blast
qed

lemma alive_iff: "distinct (map fst socks) \<Longrightarrow> map_of socks n = Some s \<Longrightarrow> n \<in> set (alive socks) \<longleftrightarrow> rk_state s \<noteq> SockDown"
proof (induction socks)
  case (Cons p socks)
  have "set (alive socks) \<subseteq> fst ` set socks" by (auto simp: alive_def)
  with Cons show ?case by (cases p) (auto simp: alive_Cons split: if_splits)
qed simp

text \<open>C14. The client never gets stuck and never connects twice: in every run, while it is started and not
  revoked, exactly one of these holds: there is a relay socket, a reconnect timer is armed, or a connection
  attempt is under way. The relay socket is one that has not ended, all others have; and the client reports
  itself connected only when the relay has confirmed the device on that very socket.\<close>

theorem relay_keeps_one_lifeline:
  assumes "r = relay_run cfg evs (new_relay cfg contents)" "started r" "\<not> revoked r"
  shows "of_bool (relaySocket r \<noteq> None) + of_bool (reconnectTimer r \<noteq> None) + of_bool (connecting r) = (1 :: nat)
    \<and> (\<forall>n s. map_of (relay_socks r) n = Some s \<longrightarrow> (rk_state s \<noteq> SockDown \<longleftrightarrow> relaySocket r = Some n))
    \<and> (st_connected (rstatus r) \<longrightarrow> relaySocket r \<noteq> None \<and> relayReadySocket r = relaySocket r)"
proof -
  from assms(1) have ok: "life_ok (life_of r)" by (simp add: relay_run_ok)
  have "map fst (relay_socks r) = [0..<length (relay_socks r)]" using life_okD(2) [OF ok] by (simp add: life_of_def)
  moreover have al: "set (alive (relay_socks r)) = set_option (relaySocket r)"
    using life_okD(3) [OF ok] by (auto simp: life_of_def split: option.splits)
  ultimately have "distinct (map fst (relay_socks r))" by simp
  then have current: "rk_state s \<noteq> SockDown \<longleftrightarrow> relaySocket r = Some n" if "map_of (relay_socks r) n = Some s" for n s
    using alive_iff [OF _ that] al by simp
  have one: "of_bool (relaySocket r \<noteq> None) + of_bool (reconnectTimer r \<noteq> None) + of_bool (connecting r) = (1 :: nat)"
    using life_okD(5) [OF ok] assms(2,3) by (simp add: life_of_def lifelines_def)
  have honest: "relaySocket r \<noteq> None" "relayReadySocket r = relaySocket r" if "st_connected (rstatus r)"
    using life_okD(6,7) [OF ok] that by (simp_all add: life_of_def)
  show ?thesis by (intro conjI allI impI one current honest)
qed

section \<open>Samples\<close>

definition ready_message :: json where
  "ready_message = JObj [(''type'', JStr ''device-ready'')]"

definition relay_sample :: relay_config where
  "relay_sample = \<lparr>rc_relayUrl = ''https://r'', rc_url = Some \<lparr>ru_protocol = ''https:'', ru_host = ''r'', ru_pathname = ''/''\<rparr>,
     rc_origin = Some ''https://r'', rc_production = True, rc_accountToken = ''a'', rc_accountUsername = [], rc_accountPassword = [],
     rc_serverToken = ''s'', rc_gatewayAuthToken = ''g'', rc_publicOrigin = ''o'', rc_port = 1, rc_deviceNames = [''d''], rc_machine = [],
     rc_parse = (\<lambda>s. if s = ''ready'' then Some ready_message else None), rc_sha256 = (\<lambda>_. replicate 64 (CHR ''0''))\<rparr>"

definition enrolled :: fetched where
  "enrolled = FetchAnswer 200 (Some (JObj [(''deviceToken'', JStr ''t''), (''deviceId'', JStr ''i'')]))"

definition up_to_open :: "relay_event list" where
  "up_to_open = [RStart, REnroll ''u'' enrolled, RCredential]"

definition up_to_ready :: "relay_event list" where
  "up_to_ready = up_to_open @ [ROpened 0, RMessage 0 ([], [], ''r0'') ''ready'']"

theorem relay_keeps_one_lifeline_witness:
  "let r = relay_run relay_sample up_to_open (new_relay relay_sample None)
   in started r \<and> \<not> revoked r \<and> of_bool (relaySocket r \<noteq> None) + of_bool (reconnectTimer r \<noteq> None) + of_bool (connecting r) = (1 :: nat)"
proof -
  define r where "r = relay_run relay_sample up_to_open (new_relay relay_sample None)"
  have "started r \<and> \<not> revoked r" unfolding r_def by code_simp
  with relay_keeps_one_lifeline [OF r_def] show ?thesis by (simp only: Let_def flip: r_def) blast
qed

end
