(* ===== verification/RelaySessions.thy ===== *)
theory RelaySessions
  imports RelayProps "HOL-Library.Multiset"
begin

text \<open>
  The other promises of the relay client: no change of the session list is lost between two
  synchronisations, every request for a pair code is settled once, and a device that can enroll with an
  account never shows a server-wide secret.
\<close>

section \<open>Synchronisation\<close>

definition sync_of :: "relay \<Rightarrow> bool \<times> nat list \<times> nat option \<times> nat option \<times> (nat, sync_task) js_map \<times> nat" where
  "sync_of r = (sessionSyncAgain r, sync_waiters r, sessionSyncPromise r, sessionSyncSocket r, syncs r, next_sync r)"

definition ups :: "relay \<Rightarrow> nat set" where
  "ups r = {n. sock_is {SockUp} (Some n) (relay_socks r)}"

text \<open>The relay is connected and can be written to.\<close>

definition live :: "relay \<Rightarrow> bool" where
  "live r = (st_connected (rstatus r) \<and> (\<exists>n\<in>ups r. relaySocket r = Some n))"

lemma map_of_on_sock: "map_of (on_sock n f socks) m = map_option (if m = n then f else (\<lambda>s. s)) (map_of socks m)"
  by (induction socks) (auto simp: on_sock_def)

lemma sock_is_on_sock:
  assumes "\<And>s. rk_state (f s) \<in> S \<Longrightarrow> rk_state s \<in> S"
  shows "sock_is S m (on_sock n f socks) \<Longrightarrow> sock_is S m socks"
  using assms by (cases m) (auto simp: sock_is_def map_of_on_sock split: option.splits if_splits)


lemma sock_close_up: "rk_state (sock_close s) \<noteq> SockUp"
  by (simp add: sock_close_def)



text \<open>\<open>calm r r'\<close>: the synchronisation is as it was, and the relay has not come to life.\<close>

definition calm :: "relay \<Rightarrow> relay \<Rightarrow> bool" where
  "calm r r' = (sync_of r' = sync_of r \<and> (live r' \<longrightarrow> live r))"

lemma calm_refl [simp]: "calm r r"
  by (simp add: calm_def)

lemma calm_trans: "calm r r1 \<Longrightarrow> calm r1 r2 \<Longrightarrow> calm r r2"
  by (simp add: calm_def)

lemma calmI:
  assumes "sync_of r' = sync_of r" "st_connected (rstatus r') \<Longrightarrow> st_connected (rstatus r)"
    and "relaySocket r' = relaySocket r" "\<And>m. sock_is {SockUp} m (relay_socks r') \<Longrightarrow> sock_is {SockUp} m (relay_socks r)"
  shows "calm r r'"
  using assms by (auto simp: calm_def live_def ups_def)



lemma calm_identity: "calm r (writeIdentity i r)"
  by (rule calmI) (simp_all add: writeIdentity_def sync_of_def)


lemma calm_frame:
  "calm r (r\<lparr>connect_state := c\<rparr>)" "calm r (r\<lparr>connecting := b\<rparr>)" "calm r (r\<lparr>started := b\<rparr>)" "calm r (r\<lparr>revoked := b\<rparr>)"
  "calm r (r\<lparr>reconnectTimer := t\<rparr>)" "calm r (r\<lparr>identity := i\<rparr>)" "calm r (r\<lparr>relayHeartbeatTimer := h\<rparr>)"
  "calm r (r\<lparr>local_socks := ls\<rparr>)" "calm r (r\<lparr>gatewayEventSocket := e\<rparr>)" "calm r (r\<lparr>gatewayHeartbeatTimer := h\<rparr>)"
  "calm r (r\<lparr>local_retries := n\<rparr>)" "calm r (r\<lparr>pair_pending := pp\<rparr>)" "calm r (r\<lparr>pair_settled := ps\<rparr>)"
  "calm r (r\<lparr>proxied := px\<rparr>)" "calm r (r\<lparr>proxy_calls := pc\<rparr>)" "calm r (r\<lparr>credentialRecoveryAttempted := b\<rparr>)"
  "calm r (r\<lparr>relayReadySocket := h\<rparr>)" "calm r (r\<lparr>relaySocket := None\<rparr>)"
  by (simp_all add: calm_def sync_of_def live_def ups_def)












lemma calm_reject: "calm r (reject_pairs msg r)"
  unfolding reject_pairs_def by (rule calm_trans [OF calm_frame(12) calm_frame(13)])


















text \<open>A device that has its token on disk.\<close>

definition relay_known :: relay_config where
  "relay_known = relay_sample\<lparr>rc_parse := (\<lambda>s. if s = ''k'' then Some (JObj [(''deviceToken'', JStr ''t'')])
     else if s = ''r'' then Some ready_message else None)\<rparr>"





section \<open>Pairing\<close>

definition pairs :: "relay \<Rightarrow> string multiset" where
  "pairs r = mset (map fst (pair_settled r)) + mset (pair_pending r)"

fun pair_request :: "relay_event \<Rightarrow> string list" where
  "pair_request (PairRequest rid) = [rid]"
| "pair_request _ = []"

lemma pairs_settle: "rid \<in> set (pair_pending r) \<Longrightarrow> pairs (settle_pair rid out r) = pairs r"
  by (simp add: pairs_def settle_pair_def)

lemma pairs_frame [simp]:
  "pairs (relay_send n m r) = pairs r" "pairs (relay_send_current m r) = pairs r" "pairs (writeIdentity i r) = pairs r"
  "pairs (on_status f r) = pairs r" "pairs (scheduleReconnect d r) = pairs r" "pairs (setError e r) = pairs r"
  "pairs (ensureGatewayEventSocket r) = pairs r" "pairs (connectRelay cfg r) = pairs r" "pairs (syncSessions src r) = pairs r"
  by (simp_all add: pairs_def relay_send_def relay_send_current_def writeIdentity_def on_status_def scheduleReconnect_def setError_def
      ensureGatewayEventSocket_def connectRelay_def syncSessions_def Let_def case_prod_beta split: option.split)

lemma pairs_fields [simp]:
  "pairs (r\<lparr>connect_state := c\<rparr>) = pairs r" "pairs (r\<lparr>connecting := b\<rparr>) = pairs r" "pairs (r\<lparr>started := b\<rparr>) = pairs r"
  "pairs (r\<lparr>revoked := b\<rparr>) = pairs r" "pairs (r\<lparr>reconnectTimer := t\<rparr>) = pairs r" "pairs (r\<lparr>relayHeartbeatTimer := h\<rparr>) = pairs r"
  "pairs (r\<lparr>local_socks := ls\<rparr>) = pairs r" "pairs (r\<lparr>gatewayEventSocket := e\<rparr>) = pairs r"
  "pairs (r\<lparr>gatewayHeartbeatTimer := h\<rparr>) = pairs r" "pairs (r\<lparr>local_retries := n\<rparr>) = pairs r"
  "pairs (r\<lparr>proxied := px\<rparr>) = pairs r" "pairs (r\<lparr>proxy_calls := pc\<rparr>) = pairs r"
  "pairs (r\<lparr>credentialRecoveryAttempted := b\<rparr>) = pairs r" "pairs (r\<lparr>relayReadySocket := h\<rparr>) = pairs r"
  "pairs (r\<lparr>relaySocket := h\<rparr>) = pairs r" "pairs (r\<lparr>relay_socks := rs\<rparr>) = pairs r"
  "pairs (r\<lparr>sessionSyncAgain := b\<rparr>) = pairs r" "pairs (r\<lparr>sync_waiters := ws\<rparr>) = pairs r" "pairs (r\<lparr>syncs := ss\<rparr>) = pairs r"
  "pairs (r\<lparr>sessionSyncPromise := h\<rparr>) = pairs r" "pairs (r\<lparr>sessionSyncSocket := h\<rparr>) = pairs r"
  by (simp_all add: pairs_def)

lemma pairs_reject [simp]: "pairs (reject_pairs msg r) = pairs r"
  by (simp add: pairs_def reject_pairs_def comp_def)

lemma pairs_closed: "pairs (relay_closed n code reason r) = pairs r"
  by (simp add: relay_closed_def handleRelayDisconnect_def handshake_failed_def Let_def case_prod_beta split: option.split)

lemma pairs_pair_code: "pairs (pair_code m r) = pairs r"
  by (auto simp: pair_code_def Let_def pairs_settle on_status_def [abs_def] split: option.split) (simp_all add: pairs_def settle_pair_def)

lemma pairs_message: "pairs (handleRelayMessage cfg src raw r) = pairs r"
  by (simp add: handleRelayMessage_def Let_def pairs_pair_code device_ready_def device_credential_def device_revoked_def
      handleProxyRequest_def split: option.split sum.split)

lemma pairs_sync: "pairs (syncSessionsNow src r) = pairs r" "pairs (sync_listed k answer r) = pairs r"
  by (simp_all add: syncSessionsNow_def sync_listed_def Let_def split: option.split prod.split)

lemma pairs_request: "pairs (requestPairCode rid r) = add_mset rid (pairs r)"
  by (auto simp: requestPairCode_def Let_def pairs_def settle_pair_def split: option.split prod.split)

lemma pairs_step: "pairs (relay_step cfg ev r) = mset (pair_request ev) + pairs r"
proof (cases ev)
  case (RMessage n src raw)
  then show ?thesis by (simp add: pairs_message)
next
  case (SyncWaiter src k)
  then show ?thesis by (simp add: waiter_resumes_def Let_def pairs_sync)
qed (simp_all add: pairs_closed pairs_sync pairs_request pair_timeout_def pairs_settle start_def credential_settled_def credential_failed_def
    open_relay_def enroll_answered_def relay_opened_def relay_errored_def relay_beat_def local_beat_def local_message_def
    local_closed_def proxy_answered_def Let_def split: option.split connect_task.split fetched.split)

text \<open>Every request for a pair code is settled exactly once, by an answer, an error, a timeout or the end
  of the connection, or it is still pending: request ids that differ are never lost and never settled twice.\<close>

theorem pair_requests_settle_once:
  assumes "r = relay_run cfg evs (new_relay cfg contents)" "distinct (concat (map pair_request evs))"
  shows "mset (map fst (pair_settled r)) + mset (pair_pending r) = mset (concat (map pair_request evs))
    \<and> distinct (map fst (pair_settled r) @ pair_pending r)"
proof -
  have "pairs (relay_run cfg evs x) = mset (concat (map pair_request evs)) + pairs x" for x
    unfolding relay_run_def by (induction evs arbitrary: x) (simp_all add: pairs_step)
  then have "pairs r = mset (concat (map pair_request evs))" unfolding assms(1) by (simp add: pairs_def new_relay_def)
  then have eq: "mset (map fst (pair_settled r) @ pair_pending r) = mset (concat (map pair_request evs))"
    by (simp add: pairs_def)
  then show ?thesis using assms(2) mset_eq_imp_distinct_iff [OF eq] by simp
qed

theorem pair_requests_settle_once_witness:
  "let r = relay_run relay_sample [PairRequest ''p''] (new_relay relay_sample (Some []))
   in distinct (concat (map pair_request [PairRequest ''p'']))
      \<and> mset (map fst (pair_settled r)) + mset (pair_pending r) = {#''p''#}"
  using pair_requests_settle_once [OF refl, of "[PairRequest ''p'']" relay_sample "Some []"] by simp

section \<open>Credentials\<close>

definition sock_connecting :: "relay \<Rightarrow> nat set" where
  "sock_connecting r = {n. sock_is {SockConnecting} (Some n) (relay_socks r)}"

text \<open>\<open>modest r r'\<close>: the connection attempt and the current socket are as they were, and no socket has become a
  connecting one.\<close>

definition modest :: "relay \<Rightarrow> relay \<Rightarrow> bool" where
  "modest r r' = (connect_state r' = connect_state r \<and> relaySocket r' = relaySocket r \<and> sock_connecting r' \<subseteq> sock_connecting r)"

lemma modest_trans: "modest r r1 \<Longrightarrow> modest r1 r2 \<Longrightarrow> modest r r2"
  by (auto simp: modest_def)

lemma modest_refl [simp]: "modest r r"
  by (simp add: modest_def)

lemma modest_socks:
  assumes "\<And>s. rk_state (f s) = SockConnecting \<Longrightarrow> rk_state s = SockConnecting"
  shows "modest r (r\<lparr>relay_socks := on_sock n f (relay_socks r)\<rparr>)"
proof -
  have "sock_is {SockConnecting} m (on_sock n f (relay_socks r)) \<Longrightarrow> sock_is {SockConnecting} m (relay_socks r)" for m
    by (rule sock_is_on_sock) (simp_all add: assms)
  then show ?thesis by (auto simp: modest_def sock_connecting_def)
qed

lemma sock_send_connecting: "rk_state (snd (sock_send txt s)) = SockConnecting \<Longrightarrow> rk_state s = SockConnecting"
  by (auto simp: sock_send_def sock_close_def split: if_splits)

lemma modest_send: "modest r (relay_send n m r)" "modest r (relay_send_current m r)"
proof -
  have "modest r (relay_send n m r)" for n
    by (auto simp: relay_send_def safeRelaySend_def split: option.split intro!: modest_socks dest: sock_send_connecting)
  then show "modest r (relay_send n m r)" "modest r (relay_send_current m r)"
    by (simp_all add: relay_send_current_def split: option.split)
qed

lemma modestI:
  "connect_state r' = connect_state r \<Longrightarrow> relaySocket r' = relaySocket r \<Longrightarrow> relay_socks r' = relay_socks r \<Longrightarrow> modest r r'"
  by (simp add: modest_def sock_connecting_def)

lemma modest_syncSessions: "modest r (syncSessions src r)"
  by (rule modestI) (simp_all add: syncSessions_def Let_def split: option.split prod.split)

lemma modest_message: "modest r (handleRelayMessage cfg src raw r)"
proof -
  have ready: "modest r (device_ready src m r)" for m unfolding device_ready_def Let_def
    by (rule modest_trans [OF _ modest_syncSessions], rule modestI) (simp_all add: on_status_def writeIdentity_def)
  have revoked: "modest r (device_revoked r)"
  proof -
    define r1 where "r1 = on_status (\<lambda>s. s\<lparr>st_connected := False, st_lastError := Some ''relay device credential revoked; restart after re-enrollment''\<rparr>)
        ((writeIdentity (only_device (deviceId (identity r))) r)\<lparr>revoked := True\<rparr>)"
    have "modest r r1" by (rule modestI) (simp_all add: r1_def on_status_def writeIdentity_def)
    moreover have "modest r1 (r1\<lparr>relay_socks := on_sock n sock_close (relay_socks r1)\<rparr>)" for n
      by (rule modest_socks) (auto simp: sock_close_def split: if_splits)
    ultimately show ?thesis by (auto simp: device_revoked_def Let_def simp flip: r1_def split: option.split intro: modest_trans)
  qed
  have "modest r (device_credential m r)" "modest r (pair_code m r)" for m
    by (rule modestI; simp add: device_credential_def pair_code_def settle_pair_def Let_def on_status_def writeIdentity_def split: option.split)+
  moreover have "modest r (handleProxyRequest cfg m r)" for m
    by (auto simp: handleProxyRequest_def modest_send intro: modestI split: sum.split)
  ultimately show ?thesis using ready revoked modest_syncSessions
    by (simp add: handleRelayMessage_def Let_def split: option.split)
qed

text \<open>A device token is there when it is going to be shown.\<close>

definition token_ok :: "relay \<Rightarrow> bool" where
  "token_ok r =
     (connect_state r = Some CredentialReady \<or> (\<exists>n\<in>sock_connecting r. relaySocket r = Some n) \<longrightarrow> set_str (deviceToken (identity r)))"

lemma token_modest: "modest r r' \<Longrightarrow> identity r' = identity r \<Longrightarrow> token_ok r \<Longrightarrow> token_ok r'"
  by (auto simp: modest_def token_ok_def)

lemma token_same:
  "connect_state r' = connect_state r \<Longrightarrow> relaySocket r' = relaySocket r \<Longrightarrow> relay_socks r' = relay_socks r \<Longrightarrow> identity r' = identity r
   \<Longrightarrow> token_ok r \<Longrightarrow> token_ok r'"
  by (rule token_modest [OF modestI])

lemma begin_enroll_not_ready [simp]: "begin_enroll cfg b \<noteq> CredentialReady"
  by (simp add: begin_enroll_def)

lemma login_not_ready [simp]: "login_answered b answer \<noteq> CredentialReady"
  by (simp add: login_answered_def Let_def split: fetched.split)

lemma token_connectRelay:
  assumes "hasAccountCredentials cfg" "token_ok r"
  shows "token_ok (connectRelay cfg r)"
proof (cases "started r \<and> \<not> revoked r \<and> \<not> connecting r \<and> \<not> sock_is {SockUp, SockConnecting} (relaySocket r) (relay_socks r)")
  case True
  then have "\<not> (\<exists>n\<in>sock_connecting r. relaySocket r = Some n)" by (auto simp: sock_connecting_def sock_is_def split: option.splits)
  with True assms show ?thesis
    by (auto simp: connectRelay_def token_ok_def ensureDeviceCredential_def Let_def sock_connecting_def split: if_splits)
qed (use assms in \<open>auto simp: connectRelay_def\<close>)

lemma token_frame:
  "token_ok r \<Longrightarrow> token_ok (on_status f r)" "token_ok r \<Longrightarrow> token_ok (scheduleReconnect d r)" "token_ok r \<Longrightarrow> token_ok (setError e r)"
  "token_ok r \<Longrightarrow> token_ok (ensureGatewayEventSocket r)" "token_ok r \<Longrightarrow> token_ok (syncSessionsNow src r)"
  "token_ok r \<Longrightarrow> token_ok (local_beat r)" "token_ok r \<Longrightarrow> token_ok (local_closed n r)" "token_ok r \<Longrightarrow> token_ok (pair_timeout rid r)"
  by (erule token_same [rotated -1]; simp add: on_status_def scheduleReconnect_def setError_def ensureGatewayEventSocket_def syncSessionsNow_def
      syncSessions_def local_beat_def local_closed_def pair_timeout_def settle_pair_def Let_def split: option.split prod.split)+

lemma token_send: "token_ok r \<Longrightarrow> token_ok (relay_send n m r)" "token_ok r \<Longrightarrow> token_ok (relay_send_current m r)"
  by (rule token_modest [OF modest_send(1)]; simp add: relay_send_def)
     (rule token_modest [OF modest_send(2)]; simp add: relay_send_current_def relay_send_def split: option.split)

lemma no_token_needed:
  assumes "connect_state r = None" "\<And>n. relaySocket r = Some n \<Longrightarrow> n \<notin> sock_connecting r"
  shows "token_ok r"
  using assms by (auto simp: token_ok_def)

lemma current_not_connecting:
  assumes "life_ok (life_of r)" "sock_is {SockUp, SockEnding} (Some n) (relay_socks r)"
  shows "connect_state r = None" "relaySocket r = Some n" "n \<notin> sock_connecting r"
proof -
  show cur: "relaySocket r = Some n" using alive_current(1) [OF assms] by simp
  then show "connect_state r = None" using life_okD(1,4) [OF assms(1)] by (auto simp: life_of_def lifelines_def)
  show "n \<notin> sock_connecting r" using assms(2) by (auto simp: sock_connecting_def sock_is_def split: option.splits)
qed

lemma token_message:
  assumes "life_ok (life_of r)" "sock_is {SockUp, SockEnding} (Some n) (relay_socks r)"
  shows "token_ok (handleRelayMessage cfg src raw r)"
  using modest_message [of r cfg src raw] current_not_connecting [OF assms]
  by (intro no_token_needed) (auto simp: modest_def)

lemma token_opened:
  assumes "life_ok (life_of r)" "sock_is {SockConnecting} (Some n) (relay_socks r)"
  shows "token_ok (relay_opened cfg n r)"
proof -
  have cur: "relaySocket r = Some n" using alive_current(1) [OF assms] by simp
  have idle: "connect_state r = None" using cur life_okD(1,4) [OF assms(1)] by (auto simp: life_of_def lifelines_def)
  define r1 where "r1 = on_status (\<lambda>s. s\<lparr>st_connected := False\<rparr>) (r\<lparr>relay_socks := on_sock n (\<lambda>s. s\<lparr>rk_state := SockUp\<rparr>) (relay_socks r)\<rparr>)"
  have "n \<notin> sock_connecting r1"
    by (auto simp: r1_def sock_connecting_def sock_is_def map_of_on_sock on_status_def split: option.splits)
  then have "token_ok r1" using cur idle by (intro no_token_needed) (auto simp: r1_def on_status_def)
  then have "token_ok ((relay_send n m r1)\<lparr>relayHeartbeatTimer := Some n\<rparr>)" for m
    by (intro token_same [of "(relay_send n m r1)\<lparr>relayHeartbeatTimer := Some n\<rparr>" "relay_send n m r1"] token_send) simp_all
  then show ?thesis using cur by (auto simp: relay_opened_def Let_def simp flip: r1_def intro: token_frame)
qed

lemma token_closed:
  assumes "life_ok (life_of r)" "sock_is {SockConnecting, SockUp, SockEnding} (Some n) (relay_socks r)"
  shows "token_ok (relay_closed n code reason r)"
proof (rule no_token_needed)
  have cur: "relaySocket r = Some n" using alive_current(1) [OF assms] by simp
  then have "lf_waits (life_of r) = False" using life_okD(1,4) [OF assms(1)] by (auto simp: life_of_def lifelines_def)
  then have "lf_waits (life_of (relay_closed n code reason r)) = False" "lf_socket (life_of (relay_closed n code reason r)) = None"
    by (simp_all add: life_closed [OF assms])
  then show "connect_state (relay_closed n code reason r) = None"
    "\<And>m. relaySocket (relay_closed n code reason r) = Some m \<Longrightarrow> m \<notin> sock_connecting (relay_closed n code reason r)"
    by (simp_all add: life_of_def)
qed

lemma token_credential:
  assumes "life_ok (life_of r)" "token_ok r"
  shows "token_ok (credential_settled cfg r)"
proof (cases "connect_state r")
  case (Some t)
  then have none: "relaySocket r = None" using life_okD(1,4) [OF assms(1)] by (auto simp: life_of_def lifelines_def)
  have base: "token_ok (r\<lparr>connect_state := None, connecting := False\<rparr>)" using none by (intro no_token_needed) simp_all
  have "token_ok (open_relay cfg r)" if "t = CredentialReady"
  proof -
    have "set_str (deviceToken (identity r))" using assms(2) Some that by (simp add: token_ok_def)
    then show ?thesis using base by (auto simp: open_relay_def Let_def intro: token_frame) (simp add: token_ok_def)
  qed
  then show ?thesis using Some base assms(2)
    by (auto simp: credential_settled_def credential_failed_def intro: token_frame split: connect_task.split)
qed (use assms in \<open>simp add: credential_settled_def\<close>)

lemma token_enroll:
  assumes "life_ok (life_of r)" "connect_state r = Some t"
  shows "token_ok (enroll_answered cfg rotation uuid answer r)"
proof -
  have "relaySocket r = None" using assms(2) life_okD(1,4) [OF assms(1)] by (auto simp: life_of_def lifelines_def)
  then show ?thesis
    by (simp add: enroll_answered_def token_ok_def Let_def on_status_def writeIdentity_def split: fetched.split)
qed

lemma token_login:
  assumes "life_ok (life_of r)" "connect_state r = Some t"
  shows "token_ok (r\<lparr>connect_state := Some (login_answered b answer)\<rparr>)"
proof -
  have "relaySocket r = None" using assms(2) life_okD(1,4) [OF assms(1)] by (auto simp: life_of_def lifelines_def)
  then show ?thesis by (simp add: token_ok_def)
qed

lemma token_fields [simp]:
  "token_ok (r\<lparr>reconnectTimer := t\<rparr>) = token_ok r" "token_ok (r\<lparr>started := b\<rparr>) = token_ok r" "token_ok (r\<lparr>local_socks := ls\<rparr>) = token_ok r"
  "token_ok (r\<lparr>local_retries := n\<rparr>) = token_ok r" "token_ok (r\<lparr>proxied := px\<rparr>) = token_ok r" "token_ok (r\<lparr>sync_waiters := ws\<rparr>) = token_ok r"
  "token_ok (r\<lparr>sessionSyncAgain := a\<rparr>) = token_ok r" "token_ok (r\<lparr>syncs := ss\<rparr>) = token_ok r" "token_ok (r\<lparr>pair_settled := ps\<rparr>) = token_ok r"
  "token_ok (r\<lparr>pair_pending := pp\<rparr>) = token_ok r" "token_ok (r\<lparr>sessionSyncPromise := p\<rparr>) = token_ok r"
  "token_ok (r\<lparr>sessionSyncSocket := q\<rparr>) = token_ok r"
  by (simp_all add: token_ok_def sock_connecting_def)

lemma token_network: "token_ok r \<Longrightarrow> token_ok (r\<lparr>relay_socks := on_sock n (network d t) (relay_socks r)\<rparr>)"
  by (rule token_modest [OF modest_socks]) (simp_all add: network_def)

lemma token_pair_request: "token_ok r \<Longrightarrow> token_ok (requestPairCode rid r)"
  using token_send(1) [of r _ "JObj [(''type'', JStr ''pair-code:create''), (''requestId'', JStr rid)]"]
  by (auto simp: requestPairCode_def settle_pair_def relay_send_def Let_def case_prod_beta split: option.split)

lemma token_sync:
  "token_ok r \<Longrightarrow> token_ok (sync_listed k answer r)" "token_ok r \<Longrightarrow> token_ok (waiter_resumes src k r)"
  "token_ok r \<Longrightarrow> token_ok (proxy_answered k' reply r)" "token_ok r \<Longrightarrow> token_ok (local_message cfg raw r)" "token_ok r \<Longrightarrow> token_ok (relay_beat r)"
  by (auto simp: sync_listed_def waiter_resumes_def proxy_answered_def local_message_def relay_beat_def Let_def
      intro: token_frame token_send split: option.split prod.split)

lemma token_step:
  assumes "hasAccountCredentials cfg" "life_ok (life_of r)" "token_ok r"
  shows "token_ok (relay_step cfg ev r)"
proof (cases ev)
  case RStart
  then show ?thesis using assms token_connectRelay [of cfg "r\<lparr>started := True\<rparr>"] by (auto simp: start_def intro: token_frame)
next
  case RReconnect
  then show ?thesis using assms token_connectRelay [of cfg "r\<lparr>reconnectTimer := None\<rparr>"] by simp
qed (use assms in \<open>auto simp: token_credential token_enroll token_login token_opened token_message token_closed token_network token_pair_request
      token_sync token_frame relay_errored_def split: option.split connect_task.split\<close>)

text \<open>C17. A gateway that has an account never shows the server-wide secret, nor an old device secret: whenever a
  relay socket is about to open, the greeting that is sent on it carries a device token and no other
  credential.\<close>

theorem account_devices_show_only_their_token:
  assumes "r = relay_run cfg evs (new_relay cfg contents)" "hasAccountCredentials cfg"
    and "sock_is {SockConnecting} (Some n) (relay_socks r)"
  shows "relaySocket r = Some n
    \<and> (\<exists>t. t \<noteq> [] \<and> jget (deviceHello cfg (identity r)) ''deviceToken'' = Some (JStr t))
    \<and> jget (deviceHello cfg (identity r)) ''deviceSecret'' = None \<and> jget (deviceHello cfg (identity r)) ''serverToken'' = None"
proof -
  have "life_ok (life_of x) \<Longrightarrow> token_ok x \<Longrightarrow> token_ok (relay_run cfg evs x)" for x
    unfolding relay_run_def using assms(2) by (induction evs arbitrary: x) (simp_all add: relay_step_ok token_step)
  moreover have "token_ok (new_relay cfg contents)" "life_ok (life_of (new_relay cfg contents))"
    using relay_run_ok [of cfg "[]" contents] by (simp_all add: token_ok_def new_relay_def relay_run_def)
  ultimately have "token_ok r" unfolding assms(1) by simp
  moreover have "relaySocket r = Some n"
    using alive_current(1) [of r "{SockConnecting}" n] relay_run_ok [of cfg evs contents] assms by simp
  ultimately show ?thesis using assms(3)
    by (cases "deviceToken (identity r)") (auto simp: token_ok_def sock_connecting_def set_str_def deviceHello_def jget_def map_of_jobj)
qed

theorem account_devices_show_only_their_token_witness:
  "let r = relay_run relay_known [RStart, RCredential] (new_relay relay_known (Some ''k''))
   in hasAccountCredentials relay_known \<and> sock_is {SockConnecting} (Some 0) (relay_socks r)
      \<and> jget (deviceHello relay_known (identity r)) ''serverToken'' = None"
proof -
  define r where "r = relay_run relay_known [RStart, RCredential] (new_relay relay_known (Some ''k''))"
  have "hasAccountCredentials relay_known" by code_simp
  moreover have "sock_is {SockConnecting} (Some 0) (relay_socks r)" unfolding r_def by code_simp
  ultimately show ?thesis using account_devices_show_only_their_token [OF r_def] unfolding r_def Let_def by blast
qed

end
