(* ===== verification/Timeline.thy ===== *)
theory Timeline
  imports Prelude
begin

text \<open>
  The timeline of the web client (\<open>app/src/aggregator.ts\<close>): events of a session become turns with their
  text, tools, diffs and approvals. The functions are pure, but the code mutates a fresh copy of the turns;
  here every mutation is a record update at an index of the list.

  Payloads are unchecked JSON, so a field of a turn that the code fills from a payload without a check is a
  \<open>json\<close>, and \<open>undefined\<close> is \<open>None\<close>. A \<open>TypeError\<close> (a null list item, attachments that cannot be spread) is the
  result \<open>None\<close>. Identifiers that are compared are compared by content. The clock, \<open>Math.random\<close> and
  \<open>JSON.parse\<close> come from an environment, which one event reads once.
\<close>

section \<open>Data\<close>

record client_env =
  ce_parse :: "string \<Rightarrow> json option"
  ce_now :: int
  ce_random :: string

datatype assistant_status = A_idle | A_streaming | A_waiting | A_completed | A_cancelled | A_failed

datatype approval_status = P_pending | P_approved | P_denied | P_expired

datatype card_decision = D_approve | D_deny

record approval_request =
  ar_requestId :: json
  ar_sessionId :: json
  ar_requestMethod :: string
  ar_turnId :: "string option"
  ar_itemId :: "string option"
  ar_summary :: "string option"
  ar_command :: "string option"
  ar_cwd :: "string option"
  ar_expiresAt :: "string option"
  ar_amendment :: "string list option"
  ar_status :: approval_status
  ar_decision :: "card_decision option"
  ar_createdAt :: json
  ar_resolvedAt :: "json option"
  ar_rawParams :: json

record tool_command =
  tc_id :: json
  tc_command :: json
  tc_cwd :: "json option"
  tc_output :: "json option"
  tc_exitCode :: "json option"
  tc_status :: json
  tc_durationMs :: "json option"

record tool_file =
  tf_id :: string
  tf_path :: json
  tf_kind :: json
  tf_diff :: json
  tf_status :: json

record sub_agent =
  sa_agentThreadId :: "json option"
  sa_agentPath :: "json option"
  sa_kind :: string
  sa_status :: "json option"
  sa_toolCall :: "json option"

datatype tool_item = Command tool_command | FileChange tool_file | SubAgent sub_agent

record token_usage =
  tu_totalTokens :: "json option"
  tu_inputTokens :: "json option"
  tu_outputTokens :: "json option"
  tu_reasoningOutputTokens :: "json option"

record turn_message =
  tm_turnId :: json
  tm_sessionId :: json
  tm_clientRequestId :: "string option"
  tm_userPrompt :: json
  tm_userAttachments :: json
  tm_userTime :: "json option"
  tm_isInterjection :: "bool option"
  tm_status :: assistant_status
  tm_reasoning :: string
  tm_reasoningSummary :: "json list"
  tm_reasoningCompleted :: bool
  tm_text :: json
  tm_tools :: "tool_item list"
  tm_diffs :: "string list"
  tm_tokenUsage :: "token_usage option"
  tm_approvals :: "approval_request list"
  tm_startedAt :: json
  tm_completedAt :: "json option"

section \<open>Reading events\<close>

text \<open>\<open>xs.findIndex(p)\<close>, and the place of \<open>[...xs].reverse().find(p)\<close>.\<close>

fun findIndex :: "('a \<Rightarrow> bool) \<Rightarrow> 'a list \<Rightarrow> nat option" where
  "findIndex p [] = None"
| "findIndex p (x # xs) = (if p x then Some 0 else map_option Suc (findIndex p xs))"

fun findLastIndex :: "('a \<Rightarrow> bool) \<Rightarrow> 'a list \<Rightarrow> nat option" where
  "findLastIndex p [] = None"
| "findLastIndex p (x # xs) =
     (case findLastIndex p xs of Some i \<Rightarrow> Some (Suc i) | None \<Rightarrow> if p x then Some 0 else None)"

text \<open>\<open>a || b\<close> for a \<open>b\<close> that is never \<open>undefined\<close>.\<close>

definition or_json :: "json option \<Rightarrow> json \<Rightarrow> json" where
  "or_json a b = (if truthy a then the a else b)"

definition tryParseJson :: "client_env \<Rightarrow> json option \<Rightarrow> json option" where
  "tryParseJson env v =
     (case v of
        Some (JStr s) \<Rightarrow>
          if s = [] then v else (case ce_parse env s of Some j \<Rightarrow> Some j | None \<Rightarrow> Some JNull)
      | _ \<Rightarrow> v)"

definition asRecord :: "json option \<Rightarrow> json option" where
  "asRecord v = (case v of Some (JObj fs) \<Rightarrow> Some (JObj fs) | _ \<Rightarrow> None)"

definition direct_id :: "json \<Rightarrow> string \<Rightarrow> string option" where
  "direct_id r k = (case jget r k of Some (JStr i) \<Rightarrow> if i = [] then None else Some i | _ \<Rightarrow> None)"

text \<open>The owner of an event: its own id, or the one of an envelope at most three levels down.\<close>

function getEventSessionId :: "json option \<Rightarrow> nat \<Rightarrow> string option" where
  "getEventSessionId v depth =
     (if depth > 3 then None
      else case asRecord v of
          None \<Rightarrow> None
        | Some r \<Rightarrow>
            (case direct_id r ''sessionId'' of
               Some i \<Rightarrow> Some i
             | None \<Rightarrow>
                 (case direct_id r ''threadId'' of
                    Some i \<Rightarrow> Some i
                  | None \<Rightarrow>
                      (case getEventSessionId (jget r ''payload'') (depth + 1) of
                         Some i \<Rightarrow> Some i
                       | None \<Rightarrow> getEventSessionId (jget r ''params'') (depth + 1)))))"
  by pat_completeness auto

termination getEventSessionId
  by (relation "measure (\<lambda>(v, depth). 4 - depth)") auto

declare getEventSessionId.simps [simp del]

text \<open>\<open>asRecord(v) || asRecord(tryParseJson(v))\<close>.\<close>

definition record_or_text :: "client_env \<Rightarrow> json option \<Rightarrow> json option" where
  "record_or_text env v = (case asRecord v of Some r \<Rightarrow> Some r | None \<Rightarrow> asRecord (tryParseJson env v))"

definition outer_params :: "client_env \<Rightarrow> json \<Rightarrow> json option" where
  "outer_params env payload = record_or_text env (jget payload ''params'')"

definition inner_params :: "client_env \<Rightarrow> json \<Rightarrow> json option" where
  "inner_params env payload =
     (case outer_params env payload of
        Some nested \<Rightarrow> record_or_text env (jget nested ''params'')
      | None \<Rightarrow> None)"

record approval_envelope =
  ae_sources :: "json list"
  ae_params :: "json option"
  ae_requestId :: "json option"
  ae_turnId :: "json option"
  ae_itemId :: "json option"
  ae_requestMethod :: "json option"
  ae_summary :: "json option"
  ae_command :: "json option"
  ae_cwd :: "json option"
  ae_expiresAt :: "json option"
  ae_amendment :: "json option"

fun read_sources :: "json list \<Rightarrow> string \<Rightarrow> json option" where
  "read_sources [] k = None"
| "read_sources (v # vs) k = (case jget v k of Some x \<Rightarrow> Some x | None \<Rightarrow> read_sources vs k)"

definition approvalEnvelope :: "client_env \<Rightarrow> json \<Rightarrow> approval_envelope" where
  "approvalEnvelope env payload =
     (let nested = outer_params env payload;
          inner = inner_params env payload;
          sources = payload # (case nested of Some n \<Rightarrow> [n] | None \<Rightarrow> []) @ (case inner of Some n \<Rightarrow> [n] | None \<Rightarrow> []);
          read = read_sources sources
      in \<lparr>ae_sources = sources, ae_params = nested,
          ae_requestId = read ''requestId'', ae_turnId = read ''turnId'', ae_itemId = read ''itemId'',
          ae_requestMethod = read ''requestMethod'', ae_summary = read ''summary'', ae_command = read ''command'',
          ae_cwd = read ''cwd'', ae_expiresAt = read ''expiresAt'',
          ae_amendment = jcoalesce (read ''proposedExecpolicyAmendment'') (read ''execpolicyAmendment'')\<rparr>)"

definition normalizedApprovalDecision :: "json option \<Rightarrow> card_decision" where
  "normalizedApprovalDecision v =
     (let decision = (case as_str v of Some s \<Rightarrow> toLowerCase s | None \<Rightarrow> [])
      in if decision \<in> {''approve'', ''approved'', ''accept'', ''accepted'', ''allow'', ''allowed'', ''approved_for_session''}
         then D_approve else D_deny)"

section \<open>Turns\<close>

definition createEmptyTurn :: "client_env \<Rightarrow> json \<Rightarrow> json \<Rightarrow> json \<Rightarrow> turn_message" where
  "createEmptyTurn env turnId sessionId prompt =
     \<lparr>tm_turnId = turnId, tm_sessionId = sessionId, tm_clientRequestId = None, tm_userPrompt = prompt,
      tm_userAttachments = JArr [], tm_userTime = None, tm_isInterjection = None, tm_status = A_idle,
      tm_reasoning = [], tm_reasoningSummary = [], tm_reasoningCompleted = False, tm_text = JStr [], tm_tools = [],
      tm_diffs = [], tm_tokenUsage = None, tm_approvals = [], tm_startedAt = JStr (toISOString (ce_now env)),
      tm_completedAt = None\<rparr>"

text \<open>\<open>turn.userAttachments ? [...turn.userAttachments] : []\<close>: a string is spread into its characters, a number
  or an object cannot be spread.\<close>

definition spread :: "json \<Rightarrow> json list option" where
  "spread v =
     (if truthy (Some v)
      then (case v of JArr xs \<Rightarrow> Some xs | JStr s \<Rightarrow> Some (map (\<lambda>c. JStr [c]) s) | _ \<Rightarrow> None)
      else Some [])"

definition clone_turn :: "turn_message \<Rightarrow> turn_message option" where
  "clone_turn t = map_option (\<lambda>xs. t\<lparr>tm_userAttachments := JArr xs\<rparr>) (spread (tm_userAttachments t))"

fun clone_turns :: "turn_message list \<Rightarrow> turn_message list option" where
  "clone_turns [] = Some []"
| "clone_turns (t # ts) =
     (case clone_turn t of
        None \<Rightarrow> None
      | Some t' \<Rightarrow> map_option ((#) t') (clone_turns ts))"

text \<open>\<open>event.payload || {}\<close>.\<close>

definition event_payload :: "json \<Rightarrow> json" where
  "event_payload event = or_json (jget event ''payload'') (JObj [])"

definition currentSessionId :: "client_env \<Rightarrow> json option \<Rightarrow> json \<Rightarrow> json" where
  "currentSessionId env session event =
     (let payload = event_payload event;
          params = outer_params env payload;
          inner = inner_params env payload
      in or_json (jget event ''sessionId'')
        (or_json (jget payload ''sessionId'')
        (or_json (jget payload ''threadId'')
        (or_json (jchain params ''sessionId'')
        (or_json (jchain params ''threadId'')
        (or_json (jchain inner ''sessionId'')
        (or_json (jchain inner ''threadId'')
        (or_json (jchain session ''id'') (JStr [])))))))))"

text \<open>A placeholder: the only turn, without output, whose id was not given by Codex.\<close>

definition is_placeholder :: "turn_message list \<Rightarrow> bool" where
  "is_placeholder turns =
     (case turns of
        [t] \<Rightarrow> (tm_turnId t = JStr ''turn-0'' \<or> tm_turnId t = JStr ''initial-turn'')
               \<and> \<not> truthy (Some (tm_text t)) \<and> tm_tools t = []
      | _ \<Rightarrow> False)"

text \<open>A turn of the session in flight that has no output yet.\<close>

definition is_pending_turn :: "json \<Rightarrow> json \<Rightarrow> turn_message \<Rightarrow> bool" where
  "is_pending_turn sid prompt t =
     (tm_sessionId t = sid \<and> (tm_status t = A_streaming \<or> tm_status t = A_waiting)
      \<and> \<not> truthy (Some (tm_text t)) \<and> tm_tools t = []
      \<and> (truthy (Some (tm_userPrompt t)) \<or> truthy (Some prompt)))"

definition adopt_turn :: "json \<Rightarrow> json \<Rightarrow> turn_message \<Rightarrow> turn_message" where
  "adopt_turn tid prompt t =
     (let t' = t\<lparr>tm_turnId := tid\<rparr>
      in if truthy (Some prompt) \<and> \<not> truthy (Some (tm_userPrompt t)) then t'\<lparr>tm_userPrompt := prompt\<rparr> else t')"

definition target_turn :: "client_env \<Rightarrow> turn_message list \<Rightarrow> json option \<Rightarrow> json" where
  "target_turn env turns target =
     or_json target (if turns \<noteq> [] then tm_turnId (last turns) else JStr (''turn-'' @ int_str (ce_now env)))"

text \<open>The turns after the call and the index of the turn it returns.\<close>

definition getOrCreateTurn ::
  "client_env \<Rightarrow> json \<Rightarrow> turn_message list \<Rightarrow> json option \<Rightarrow> json \<Rightarrow> turn_message list \<times> nat" where
  "getOrCreateTurn env sid turns target prompt =
     (let tid = target_turn env turns target
      in if is_placeholder turns then ([adopt_turn tid prompt (hd turns)], 0)
         else case findIndex (\<lambda>t. tm_turnId t = tid) turns of
             Some i \<Rightarrow> (turns, i)
           | None \<Rightarrow>
               (case findLastIndex (is_pending_turn sid prompt) turns of
                  Some i \<Rightarrow> (turns[i := adopt_turn tid prompt (turns ! i)], i)
                | None \<Rightarrow> (turns @ [createEmptyTurn env tid sid prompt], length turns)))"

definition update_turn :: "turn_message list \<times> nat \<Rightarrow> (turn_message \<Rightarrow> turn_message) \<Rightarrow> turn_message list" where
  "update_turn r f = (case r of (turns, i) \<Rightarrow> turns[i := f (turns ! i)])"

definition on_last :: "(turn_message \<Rightarrow> turn_message) \<Rightarrow> turn_message list \<Rightarrow> turn_message list" where
  "on_last f turns = (if turns = [] then [] else butlast turns @ [f (last turns)])"

text \<open>\<open>event.timestamp || new Date().toISOString()\<close>.\<close>

definition event_time :: "client_env \<Rightarrow> json \<Rightarrow> json" where
  "event_time env event = or_json (jget event ''timestamp'') (JStr (toISOString (ce_now env)))"

section \<open>Events\<close>

definition on_session_started :: "client_env \<Rightarrow> json \<Rightarrow> json \<Rightarrow> turn_message list \<Rightarrow> turn_message list" where
  "on_session_started env sid event turns =
     (let sess = or_json (jget (event_payload event) ''session'') (JObj []);
          prompt = jget sess ''prompt''
      in if truthy prompt \<and> turns = []
         then update_turn (getOrCreateTurn env sid turns (Some (JStr ''turn-0'')) (the prompt))
                (\<lambda>t. t\<lparr>tm_userTime := jor (jget event ''timestamp'') (jget sess ''createdAt''), tm_status := A_streaming\<rparr>)
         else turns)"

definition is_duplicate_input :: "json \<Rightarrow> string option \<Rightarrow> string \<Rightarrow> turn_message \<Rightarrow> bool" where
  "is_duplicate_input sid clientRequestId prompt t =
     (case clientRequestId of
        Some (c # cs) \<Rightarrow> tm_clientRequestId t = Some (c # cs)
      | _ \<Rightarrow> tm_userPrompt t = JStr prompt \<and> tm_status t = A_streaming \<and> tm_sessionId t = sid)"

definition merge_input :: "json \<Rightarrow> string option \<Rightarrow> string \<Rightarrow> turn_message \<Rightarrow> turn_message" where
  "merge_input payload clientRequestId prompt t =
     (let t1 = (if clientRequestId \<noteq> None \<and> clientRequestId \<noteq> Some [] then t\<lparr>tm_clientRequestId := clientRequestId\<rparr> else t);
          t2 = (if \<not> truthy (Some (tm_userPrompt t1)) \<and> prompt \<noteq> [] then t1\<lparr>tm_userPrompt := JStr prompt\<rparr> else t1)
      in case jget payload ''attachments'' of
           Some (JArr xs) \<Rightarrow> if tm_userAttachments t2 = JArr [] then t2\<lparr>tm_userAttachments := JArr xs\<rparr> else t2
         | _ \<Rightarrow> t2)"

definition input_turn :: "client_env \<Rightarrow> json \<Rightarrow> json \<Rightarrow> string option \<Rightarrow> string \<Rightarrow> turn_message" where
  "input_turn env sid event clientRequestId prompt =
     (let payload = event_payload event;
          turnId = or_json (jget payload ''turnId'') (JStr (''turn-'' @ int_str (ce_now env) @ ''-'' @ ce_random env))
      in (createEmptyTurn env turnId sid (JStr prompt))\<lparr>
           tm_clientRequestId := clientRequestId,
           tm_userAttachments := or_json (jget payload ''attachments'') (JArr []),
           tm_userTime := Some (event_time env event),
           tm_isInterjection := Some (jget payload ''kind'' = Some (JStr ''interjection'')),
           tm_status := A_streaming\<rparr>)"

definition on_user_input :: "client_env \<Rightarrow> json \<Rightarrow> json \<Rightarrow> turn_message list \<Rightarrow> turn_message list" where
  "on_user_input env sid event turns =
     (let payload = event_payload event;
          clientRequestId = as_str (jget payload ''clientRequestId'');
          prompt = (case as_str (jget payload ''prompt'') of Some p \<Rightarrow> p | None \<Rightarrow> [])
      in case findIndex (is_duplicate_input sid clientRequestId prompt) turns of
           Some i \<Rightarrow> update_turn (turns, i) (merge_input payload clientRequestId prompt)
         | None \<Rightarrow> turns @ [input_turn env sid event clientRequestId prompt])"

definition on_session_status :: "client_env \<Rightarrow> json \<Rightarrow> turn_message list \<Rightarrow> turn_message list" where
  "on_session_status env event turns =
     (let payload = event_payload event;
          st = jor (jget payload ''status'') (jchain (jget payload ''turn'') ''status'');
          finish = (\<lambda>s t. t\<lparr>tm_status := s, tm_completedAt := Some (event_time env event)\<rparr>)
      in on_last (\<lambda>t.
           if st = Some (JStr ''running'') then (if tm_status t = A_idle then t\<lparr>tm_status := A_streaming\<rparr> else t)
           else if st = Some (JStr ''waiting-approval'') then t\<lparr>tm_status := A_waiting\<rparr>
           else if st = Some (JStr ''completed'') then finish A_completed t
           else if st = Some (JStr ''cancelled'') then finish A_cancelled t
           else if st = Some (JStr ''failed'') then finish A_failed t
           else t) turns)"

fun adopt_items :: "json list \<Rightarrow> turn_message \<Rightarrow> turn_message option" where
  "adopt_items [] t = Some t"
| "adopt_items (item # items) t =
     (if item = JNull then None
      else adopt_items items
        (if jget item ''type'' = Some (JStr ''agentMessage'') \<and> truthy (jget item ''text'') \<and> \<not> truthy (Some (tm_text t))
         then t\<lparr>tm_text := the (jget item ''text'')\<rparr> else t))"

definition on_session_finished :: "client_env \<Rightarrow> json \<Rightarrow> turn_message list \<Rightarrow> turn_message list option" where
  "on_session_finished env event turns =
     (if turns = [] then Some []
      else
        let payload = event_payload event;
            st = jor (jchain (jget payload ''turn'') ''status'') (jget payload ''status'');
            t = (last turns)\<lparr>
              tm_status := (if st = Some (JStr ''cancelled'') then A_cancelled
                            else if st = Some (JStr ''failed'') then A_failed else A_completed),
              tm_completedAt := Some (event_time env event)\<rparr>
        in case as_arr (jchain (jget payload ''turn'') ''items'') of
             None \<Rightarrow> Some (on_last (\<lambda>_. t) turns)
           | Some items \<Rightarrow> map_option (\<lambda>t'. on_last (\<lambda>_. t') turns) (adopt_items items t))"

text \<open>The approval of a request event, and \<open>Object.assign\<close> of it to one that is known.\<close>

definition approval_amendment :: "client_env \<Rightarrow> json option \<Rightarrow> string list option" where
  "approval_amendment env v =
     (let a = (case v of Some (JStr s) \<Rightarrow> tryParseJson env v | _ \<Rightarrow> v)
      in map_option (\<lambda>xs. concat (map (\<lambda>x. case x of JStr s \<Rightarrow> [s] | _ \<Rightarrow> []) xs)) (as_arr a))"

definition requested_approval :: "client_env \<Rightarrow> json \<Rightarrow> json \<Rightarrow> approval_request" where
  "requested_approval env sid event =
     (let payload = event_payload event;
          approval = approvalEnvelope env payload
      in \<lparr>ar_requestId = or_json (jget event ''requestId'')
            (JStr (case as_str (ae_requestId approval) of Some i \<Rightarrow> i | None \<Rightarrow> int_str (ce_now env))),
          ar_sessionId = sid,
          ar_requestMethod = (case as_str (ae_requestMethod approval) of Some m \<Rightarrow> m
                              | None \<Rightarrow> ''item/commandExecution/requestApproval''),
          ar_turnId = as_str (ae_turnId approval), ar_itemId = as_str (ae_itemId approval),
          ar_summary = as_str (ae_summary approval), ar_command = as_str (ae_command approval),
          ar_cwd = as_str (ae_cwd approval), ar_expiresAt = as_str (ae_expiresAt approval),
          ar_amendment = approval_amendment env (ae_amendment approval), ar_status = P_pending, ar_decision = None,
          ar_createdAt = event_time env event, ar_resolvedAt = None,
          ar_rawParams = (case ae_params approval of Some p \<Rightarrow> p | None \<Rightarrow> payload)\<rparr>)"

definition assign_approval :: "approval_request \<Rightarrow> approval_request \<Rightarrow> approval_request" where
  "assign_approval known new = new\<lparr>ar_decision := ar_decision known, ar_resolvedAt := ar_resolvedAt known\<rparr>"

definition add_approval :: "approval_request \<Rightarrow> turn_message \<Rightarrow> turn_message" where
  "add_approval a t =
     t\<lparr>tm_status := A_waiting,
       tm_approvals := (case findIndex (\<lambda>x. ar_requestId x = ar_requestId a) (tm_approvals t) of
            None \<Rightarrow> tm_approvals t @ [a]
          | Some i \<Rightarrow> (tm_approvals t)[i := assign_approval (tm_approvals t ! i) a])\<rparr>"

definition on_approval_requested :: "client_env \<Rightarrow> json \<Rightarrow> json \<Rightarrow> turn_message list \<Rightarrow> turn_message list" where
  "on_approval_requested env sid event turns =
     (let a = requested_approval env sid event
      in update_turn (getOrCreateTurn env sid turns (map_option JStr (ar_turnId a)) (JStr [])) (add_approval a))"

definition settle_approval ::
  "json \<Rightarrow> (approval_request \<Rightarrow> approval_request) \<Rightarrow> turn_message \<Rightarrow> turn_message" where
  "settle_approval reqId f t =
     (case findIndex (\<lambda>x. ar_requestId x = reqId) (tm_approvals t) of
        None \<Rightarrow> t
      | Some i \<Rightarrow>
          t\<lparr>tm_status := (if tm_status t = A_waiting then A_streaming else tm_status t),
            tm_approvals := (tm_approvals t)[i := f (tm_approvals t ! i)]\<rparr>)"

definition resolved_request :: "client_env \<Rightarrow> json \<Rightarrow> string option" where
  "resolved_request env payload =
     (let approvalRecord = asRecord (jget payload ''approval'')
      in case as_str (ae_requestId (approvalEnvelope env payload)) of
           Some i \<Rightarrow> Some i
         | None \<Rightarrow>
             (case as_str (jchain approvalRecord ''requestId'') of
                Some i \<Rightarrow> Some i
              | None \<Rightarrow> as_str (jchain approvalRecord ''id'')))"

definition resolved_decision :: "client_env \<Rightarrow> json \<Rightarrow> card_decision" where
  "resolved_decision env payload =
     normalizedApprovalDecision (jcoalesce (jget payload ''decision'')
       (jcoalesce (read_sources (ae_sources (approvalEnvelope env payload)) ''decision'')
         (jchain (asRecord (jget payload ''approval'')) ''decision'')))"

definition on_approval_resolved :: "client_env \<Rightarrow> json \<Rightarrow> turn_message list \<Rightarrow> turn_message list" where
  "on_approval_resolved env event turns =
     (let payload = event_payload event; decision = resolved_decision env payload
      in case resolved_request env payload of
           Some (c # cs) \<Rightarrow>
             map (settle_approval (JStr (c # cs)) (\<lambda>a. a\<lparr>
               ar_status := (if decision = D_approve then P_approved else P_denied),
               ar_decision := Some decision, ar_resolvedAt := Some (event_time env event)\<rparr>)) turns
         | _ \<Rightarrow> turns)"

definition on_approval_expired :: "client_env \<Rightarrow> json \<Rightarrow> turn_message list \<Rightarrow> turn_message list" where
  "on_approval_expired env event turns =
     (let reqId = jor (jget event ''requestId'')
            (jstr_or_undef (as_str (ae_requestId (approvalEnvelope env (event_payload event)))))
      in case reqId of
           Some (JStr r) \<Rightarrow>
             map (settle_approval (JStr r) (\<lambda>a. a\<lparr>ar_status := P_expired, ar_resolvedAt := Some (event_time env event)\<rparr>)) turns
         | _ \<Rightarrow> turns)"

section \<open>Subagents\<close>

definition is_sub_agent :: "(sub_agent \<Rightarrow> bool) \<Rightarrow> tool_item \<Rightarrow> bool" where
  "is_sub_agent p tool = (case tool of SubAgent s \<Rightarrow> p s | _ \<Rightarrow> False)"

definition on_sub_agent :: "(sub_agent \<Rightarrow> sub_agent) \<Rightarrow> tool_item \<Rightarrow> tool_item" where
  "on_sub_agent f tool = (case tool of SubAgent s \<Rightarrow> SubAgent (f s) | _ \<Rightarrow> tool)"

text \<open>The first tool that satisfies \<open>p\<close> is changed by \<open>f\<close>; without one, \<open>new\<close> is appended.\<close>

definition upsert_tool :: "(tool_item \<Rightarrow> bool) \<Rightarrow> (tool_item \<Rightarrow> tool_item) \<Rightarrow> tool_item \<Rightarrow> tool_item list \<Rightarrow> tool_item list" where
  "upsert_tool p f new tools =
     (case findIndex p tools of Some i \<Rightarrow> tools[i := f (tools ! i)] | None \<Rightarrow> tools @ [new])"

definition subagent_started :: "json \<Rightarrow> turn_message \<Rightarrow> turn_message" where
  "subagent_started payload t =
     (let activity = or_json (jget payload ''activity'') (JObj []);
          agentThreadId = jor (jget activity ''agentThreadId'') (jget payload ''threadId'')
      in t\<lparr>tm_tools := upsert_tool (is_sub_agent (\<lambda>s. sa_agentThreadId s = agentThreadId))
            (on_sub_agent (\<lambda>s. s\<lparr>sa_agentPath := jor (jget activity ''agentPath'') (sa_agentPath s),
               sa_kind := ''started'', sa_status := Some (JStr ''running'')\<rparr>))
            (SubAgent \<lparr>sa_agentThreadId = agentThreadId, sa_agentPath = jget activity ''agentPath'',
               sa_kind = ''started'', sa_status = Some (JStr ''running''), sa_toolCall = None\<rparr>)
            (tm_tools t)\<rparr>)"

definition subagent_tool :: "json \<Rightarrow> turn_message \<Rightarrow> turn_message" where
  "subagent_tool payload t =
     (let toolCall = or_json (jget payload ''toolCall'') (JObj []);
          agentThreadId = jor (jget toolCall ''senderThreadId'') (jget payload ''threadId'');
          toolCallId = jor (jget toolCall ''id'') (jget toolCall ''callId'')
      in t\<lparr>tm_tools := upsert_tool
            (is_sub_agent (\<lambda>s. sa_agentThreadId s = agentThreadId \<and> truthy toolCallId
               \<and> (jchain (sa_toolCall s) ''id'' = toolCallId \<or> jchain (sa_toolCall s) ''callId'' = toolCallId)))
            (on_sub_agent (\<lambda>s. s\<lparr>sa_status := jor (jget toolCall ''status'') (sa_status s), sa_toolCall := Some toolCall\<rparr>))
            (SubAgent \<lparr>sa_agentThreadId = agentThreadId, sa_agentPath = None, sa_kind = ''toolCall'',
               sa_status = Some (JStr ''running''), sa_toolCall = Some toolCall\<rparr>)
            (tm_tools t)\<rparr>)"

definition subagent_finished :: "json \<Rightarrow> turn_message \<Rightarrow> turn_message" where
  "subagent_finished payload t =
     (let childThreadId = jor (jget payload ''childThreadId'') (jchain (jget payload ''activity'') ''agentThreadId'')
      in t\<lparr>tm_tools := map (\<lambda>tool. if is_sub_agent (\<lambda>s. sa_agentThreadId s = childThreadId) tool
              then on_sub_agent (\<lambda>s. s\<lparr>sa_kind := ''completed'',
                     sa_status := Some (or_json (jget payload ''status'') (JStr ''completed''))\<rparr>) tool
              else tool) (tm_tools t)\<rparr>)"

section \<open>Output\<close>

definition is_command :: "(tool_command \<Rightarrow> bool) \<Rightarrow> tool_item \<Rightarrow> bool" where
  "is_command p tool = (case tool of Command c \<Rightarrow> p c | _ \<Rightarrow> False)"

definition on_command :: "(tool_command \<Rightarrow> tool_command) \<Rightarrow> tool_item \<Rightarrow> tool_item" where
  "on_command f tool = (case tool of Command c \<Rightarrow> Command (f c) | _ \<Rightarrow> tool)"

definition running_command :: "tool_item \<Rightarrow> bool" where
  "running_command = is_command (\<lambda>c. tc_status c = JStr ''running'')"

definition running_command_text :: string where
  "running_command_text =
     map char_of [230, 173, 163, 229, 156, 168, 230, 137, 167, 232, 161, 140, 229, 145, 189, 228, 187, 164 :: nat] @ ''...''"

definition text_delta :: "json \<Rightarrow> turn_message \<Rightarrow> turn_message" where
  "text_delta payload t =
     (case jget payload ''chunk'' of
        Some (JStr c) \<Rightarrow> t\<lparr>tm_status := A_streaming, tm_text := JStr (js_String (tm_text t) @ c)\<rparr>
      | _ \<Rightarrow> t)"

definition add_output :: "string \<Rightarrow> tool_command \<Rightarrow> tool_command" where
  "add_output chunk c =
     c\<lparr>tc_output := Some (JStr ((case tc_output c of Some v \<Rightarrow> if truthy (Some v) then js_String v else [] | None \<Rightarrow> []) @ chunk)),
       tc_status := JStr ''running''\<rparr>"

definition command_delta :: "client_env \<Rightarrow> json \<Rightarrow> json \<Rightarrow> turn_message \<Rightarrow> turn_message" where
  "command_delta env payload jsonPayload t =
     (let chunk = (case as_str (jget payload ''chunk'') of Some c \<Rightarrow> c | None \<Rightarrow> []);
          itemId = (case as_str (jget payload ''itemId'') of Some i \<Rightarrow> Some i | None \<Rightarrow> as_str (jget jsonPayload ''itemId''));
          named = (case itemId of
              Some (x # xs) \<Rightarrow> findIndex (is_command (\<lambda>c. tc_id c = JStr (x # xs))) (tm_tools t)
            | _ \<Rightarrow> None);
          lastCmd = (case named of Some i \<Rightarrow> Some i | None \<Rightarrow> findLastIndex running_command (tm_tools t));
          newId = (case as_str (jget payload ''itemId'') of
              Some i \<Rightarrow> i
            | None \<Rightarrow> (case as_str (jchain (jget jsonPayload ''item'') ''id'') of
                 Some i \<Rightarrow> i | None \<Rightarrow> ''cmd-'' @ int_str (ce_now env)))
      in case lastCmd of
           Some i \<Rightarrow> t\<lparr>tm_tools := (tm_tools t)[i := on_command (add_output chunk) (tm_tools t ! i)]\<rparr>
         | None \<Rightarrow> t\<lparr>tm_tools := tm_tools t @
             [Command \<lparr>tc_id = JStr newId, tc_command = JStr running_command_text, tc_cwd = None,
                tc_output = Some (JStr chunk), tc_exitCode = None, tc_status = JStr ''running'', tc_durationMs = None\<rparr>]\<rparr>)"

text \<open>\<open>xs.map(c => typeof c === "string" ? c : c?.text || "").filter(Boolean)\<close>.\<close>

definition texts_of :: "json list \<Rightarrow> json list" where
  "texts_of xs = filter (\<lambda>v. truthy (Some v))
     (map (\<lambda>c. case c of JStr s \<Rightarrow> c | _ \<Rightarrow> or_json (jget c ''text'') (JStr [])) xs)"

definition newline :: string where
  "newline = [CHR 0x0A]"

definition user_message :: "json \<Rightarrow> turn_message \<Rightarrow> turn_message" where
  "user_message item t =
     (let userText = (case jget item ''content'' of
            Some (JArr xs) \<Rightarrow> join newline (map js_String (texts_of xs))
          | _ \<Rightarrow> (case as_str (jget item ''text'') of Some s \<Rightarrow> s | None \<Rightarrow> []))
      in if userText \<noteq> [] \<and> \<not> truthy (Some (tm_userPrompt t)) then t\<lparr>tm_userPrompt := JStr userText\<rparr> else t)"

definition reasoning_item :: "json \<Rightarrow> turn_message \<Rightarrow> turn_message" where
  "reasoning_item item t =
     (let t1 = t\<lparr>tm_reasoningCompleted := True\<rparr>;
          t2 = (case jget item ''summary'' of Some (JArr xs) \<Rightarrow> t1\<lparr>tm_reasoningSummary := texts_of xs\<rparr> | _ \<Rightarrow> t1)
      in case jget item ''content'' of
           Some (JArr xs) \<Rightarrow>
             (let contentText = join newline (map js_String (texts_of xs))
              in if contentText \<noteq> [] then t2\<lparr>tm_reasoning := contentText\<rparr> else t2)
         | _ \<Rightarrow> t2)"

definition command_status :: "json \<Rightarrow> json" where
  "command_status item =
     or_json (jget item ''status'')
       (if jget item ''exitCode'' = Some (JNum 0) then JStr ''completed'' else JStr ''failed'')"

definition command_item :: "client_env \<Rightarrow> json \<Rightarrow> turn_message \<Rightarrow> turn_message" where
  "command_item env item t =
     (let named = findIndex (is_command (\<lambda>c. Some (tc_id c) = jget item ''id'')) (tm_tools t);
          existing = (case named of
              Some i \<Rightarrow> Some i
            | None \<Rightarrow> if truthy (jget item ''id'') then None else findLastIndex running_command (tm_tools t))
      in case existing of
           Some i \<Rightarrow> t\<lparr>tm_tools := (tm_tools t)[i := on_command (\<lambda>c. c\<lparr>
               tc_command := or_json (jget item ''command'') (tc_command c),
               tc_cwd := jor (jget item ''cwd'') (tc_cwd c),
               tc_output := jcoalesce (jget item ''aggregatedOutput'') (tc_output c),
               tc_exitCode := jget item ''exitCode'', tc_status := command_status item,
               tc_durationMs := jget item ''durationMs''\<rparr>) (tm_tools t ! i)]\<rparr>
         | None \<Rightarrow> t\<lparr>tm_tools := tm_tools t @
             [Command \<lparr>tc_id = or_json (jget item ''id'') (JStr (''cmd-'' @ int_str (ce_now env))),
                tc_command = or_json (jget item ''command'') (JStr []), tc_cwd = jget item ''cwd'',
                tc_output = Some (or_json (jget item ''aggregatedOutput'') (JStr [])), tc_exitCode = jget item ''exitCode'',
                tc_status = command_status item, tc_durationMs = jget item ''durationMs''\<rparr>]\<rparr>)"

definition change_kind :: "json option \<Rightarrow> json" where
  "change_kind kind =
     (case kind of
        Some (JObj fs) \<Rightarrow> or_json (map_of fs ''type'') (JStr ''modify'')
      | Some (JArr xs) \<Rightarrow> JStr ''modify''
      | _ \<Rightarrow> or_json kind (JStr ''modify''))"

definition file_change :: "client_env \<Rightarrow> json \<Rightarrow> nat \<Rightarrow> json \<Rightarrow> tool_file" where
  "file_change env item n ch =
     \<lparr>tf_id = js_String (or_json (jget item ''id'') (JStr (''file-'' @ int_str (ce_now env)))) @ '':'' @ nat_str n,
      tf_path = or_json (jget ch ''path'') (JStr []), tf_kind = change_kind (jget ch ''kind''),
      tf_diff = or_json (jget ch ''diff'') (JStr []), tf_status = or_json (jget item ''status'') (JStr ''completed'')\<rparr>"

definition is_file :: "string \<Rightarrow> tool_item \<Rightarrow> bool" where
  "is_file i tool = (case tool of FileChange f \<Rightarrow> tf_id f = i | _ \<Rightarrow> False)"

fun file_changes :: "client_env \<Rightarrow> json \<Rightarrow> nat \<Rightarrow> json list \<Rightarrow> tool_item list \<Rightarrow> tool_item list option" where
  "file_changes env item n [] tools = Some tools"
| "file_changes env item n (ch # chs) tools =
     (if ch = JNull then None
      else let new = FileChange (file_change env item n ch)
           in file_changes env item (Suc n) chs
                (upsert_tool (is_file (tf_id (file_change env item n ch))) (\<lambda>_. new) new tools))"

definition completed_item :: "client_env \<Rightarrow> json \<Rightarrow> turn_message \<Rightarrow> turn_message option" where
  "completed_item env item t =
     (let ty = jget item ''type''
      in if ty = Some (JStr ''userMessage'') then Some (user_message item t)
         else if ty = Some (JStr ''reasoning'') then Some (reasoning_item item t)
         else if ty = Some (JStr ''commandExecution'') then Some (command_item env item t)
         else if ty = Some (JStr ''fileChange'') then
           (case jget item ''changes'' of
              Some (JArr chs) \<Rightarrow> map_option (\<lambda>tools. t\<lparr>tm_tools := tools\<rparr>) (file_changes env item 0 chs (tm_tools t))
            | _ \<Rightarrow> Some t)
         else if ty = Some (JStr ''agentMessage'') then
           Some (if truthy (jget item ''text'') \<and> \<not> truthy (Some (tm_text t)) then t\<lparr>tm_text := the (jget item ''text'')\<rparr> else t)
         else Some t)"

definition diff_updated :: "json \<Rightarrow> turn_message \<Rightarrow> turn_message" where
  "diff_updated jsonPayload t =
     (case jget jsonPayload ''diff'' of
        Some (JStr d) \<Rightarrow> if trim d \<noteq> [] \<and> d \<notin> set (tm_diffs t) then t\<lparr>tm_diffs := tm_diffs t @ [d]\<rparr> else t
      | _ \<Rightarrow> t)"

definition tokens_updated :: "json \<Rightarrow> turn_message \<Rightarrow> turn_message" where
  "tokens_updated jsonPayload t =
     (let usage = jget jsonPayload ''tokenUsage''; sum = jchain usage ''total''
      in if truthy usage
         then t\<lparr>tm_tokenUsage := Some \<lparr>tu_totalTokens = jchain sum ''totalTokens'', tu_inputTokens = jchain sum ''inputTokens'',
                tu_outputTokens = jchain sum ''outputTokens'', tu_reasoningOutputTokens = jchain sum ''reasoningOutputTokens''\<rparr>\<rparr>
         else t)"

definition output_payload :: "client_env \<Rightarrow> json \<Rightarrow> json" where
  "output_payload env payload =
     or_json (jget payload ''jsonPayload'') (or_json (tryParseJson env (jget payload ''chunk'')) (JObj []))"

definition session_output :: "client_env \<Rightarrow> json \<Rightarrow> turn_message \<Rightarrow> turn_message option" where
  "session_output env payload t =
     (let eventType = jget payload ''eventType''; jsonPayload = output_payload env payload
      in if eventType = Some (JStr ''item/agentMessage/delta'') then Some (text_delta payload t)
         else if eventType = Some (JStr ''item/commandExecution/outputDelta'') then Some (command_delta env payload jsonPayload t)
         else if eventType = Some (JStr ''item/completed'')
           then completed_item env (or_json (jget jsonPayload ''item'') (JObj [])) t
         else if eventType = Some (JStr ''turn/diff/updated'') then Some (diff_updated jsonPayload t)
         else if eventType = Some (JStr ''thread/tokenUsage/updated'') then Some (tokens_updated jsonPayload t)
         else Some t)"

definition try_update_turn ::
  "turn_message list \<times> nat \<Rightarrow> (turn_message \<Rightarrow> turn_message option) \<Rightarrow> turn_message list option" where
  "try_update_turn r f = (case r of (turns, i) \<Rightarrow> map_option (\<lambda>t. turns[i := t]) (f (turns ! i)))"

section \<open>The reducer\<close>

definition apply_event :: "client_env \<Rightarrow> json option \<Rightarrow> json \<Rightarrow> turn_message list \<Rightarrow> turn_message list option" where
  "apply_event env session event turns =
     (let ty = jget event ''type'';
          payload = event_payload event;
          sid = currentSessionId env session event;
          turn = getOrCreateTurn env sid turns (jget payload ''turnId'') (JStr [])
      in if ty = Some (JStr ''session-started'') then Some (on_session_started env sid event turns)
         else if ty = Some (JStr ''session-user-input'') then Some (on_user_input env sid event turns)
         else if ty = Some (JStr ''session-status'') then Some (on_session_status env event turns)
         else if ty = Some (JStr ''session-finished'') then on_session_finished env event turns
         else if ty = Some (JStr ''approval-requested'') then Some (on_approval_requested env sid event turns)
         else if ty = Some (JStr ''approval-resolved'') then Some (on_approval_resolved env event turns)
         else if ty = Some (JStr ''approval-expired'') then Some (on_approval_expired env event turns)
         else if ty = Some (JStr ''subagent-started'') then Some (update_turn turn (subagent_started payload))
         else if ty = Some (JStr ''subagent-tool'') then Some (update_turn turn (subagent_tool payload))
         else if ty = Some (JStr ''subagent-finished'') then Some (update_turn turn (subagent_finished payload))
         else if ty = Some (JStr ''session-output'') then try_update_turn turn (session_output env payload)
         else Some turns)"

definition applyLiveEventToTurns ::
  "client_env \<Rightarrow> json option \<Rightarrow> turn_message list \<Rightarrow> json \<Rightarrow> turn_message list option" where
  "applyLiveEventToTurns env session turns event =
     (case clone_turns turns of
        None \<Rightarrow> None
      | Some ts \<Rightarrow> if event = JNull then None else apply_event env session event ts)"

text \<open>The loop of \<open>aggregateEventsToTurns\<close>; each event has its own reading of the clock.\<close>

fun apply_events ::
  "json option \<Rightarrow> turn_message list \<Rightarrow> (client_env \<times> json) list \<Rightarrow> turn_message list option" where
  "apply_events session turns [] = Some turns"
| "apply_events session turns ((env, event) # events) =
     (case applyLiveEventToTurns env session turns event of
        None \<Rightarrow> None
      | Some turns' \<Rightarrow> apply_events session turns' events)"

definition is_user_input_event :: "json \<Rightarrow> bool" where
  "is_user_input_event event =
     (let payload = jget event ''payload''
      in jget event ''type'' = Some (JStr ''session-user-input'')
         \<or> (jget event ''type'' = Some (JStr ''session-output'')
             \<and> jchain payload ''eventType'' = Some (JStr ''item/completed'')
             \<and> jchain (jchain (jchain payload ''jsonPayload'') ''item'') ''type'' = Some (JStr ''userMessage'')))"

text \<open>The turn for the prompt of the session, when no event shows it; an \<open>undefined\<close> id equals no id of an event.\<close>

definition initial_turns :: "client_env \<Rightarrow> json option \<Rightarrow> json list \<Rightarrow> turn_message list" where
  "initial_turns env session events =
     (let prompt = jchain session ''prompt''; st = jchain session ''status''
      in if truthy session \<and> truthy prompt \<and> \<not> list_ex is_user_input_event events
         then [(createEmptyTurn env (JStr ''initial-turn'') (case jchain session ''id'' of Some i \<Rightarrow> i | None \<Rightarrow> JNull)
                (the prompt))\<lparr>
                tm_userTime := jor (jchain session ''createdAt'') (jchain session ''startedAt''),
                tm_status := (if st = Some (JStr ''running'') then A_streaming
                              else if st = Some (JStr ''cancelled'') then A_cancelled else A_completed)\<rparr>]
         else [])"

definition aggregateEventsToTurns ::
  "client_env \<Rightarrow> json option \<Rightarrow> (client_env \<times> json) list \<Rightarrow> turn_message list option" where
  "aggregateEventsToTurns env session events =
     (if list_ex (\<lambda>e. snd e = JNull) events then None
      else apply_events session (initial_turns env session (map snd events)) events)"

end
