(* ===== verification/TimelineProps.thy ===== *)
theory TimelineProps
  imports Timeline
begin

text \<open>
  Properties of the timeline: an answer that arrives in pieces is shown once and whole; no event removes
  what is shown; an approval is shown as given only for a decision that allows it; an event that is delivered
  twice changes nothing the second time.
\<close>

section \<open>Searching and updating\<close>

lemma findIndex_None: "findIndex p xs = None \<longleftrightarrow> (\<forall>x\<in>set xs. \<not> p x)"
  by (induction xs) auto

lemma findIndex_SomeD:
  "findIndex p xs = Some i \<Longrightarrow> i < length xs \<and> p (xs ! i) \<and> (\<forall>j<i. \<not> p (xs ! j))"
proof (induction xs arbitrary: i)
  case (Cons x xs)
  show ?case
  proof (cases "p x")
    case True
    then show ?thesis using Cons.prems by simp
  next
    case False
    then obtain k where k: "i = Suc k" "findIndex p xs = Some k" using Cons.prems by auto
    show ?thesis
    proof (intro conjI allI impI)
      fix j assume "j < i"
      then show "\<not> p ((x # xs) ! j)" using False k Cons.IH [OF k(2)] by (cases j) auto
    qed (use k Cons.IH [OF k(2)] in auto)
  qed
qed simp


lemma findLastIndex_snoc:
  "findLastIndex p (xs @ [x]) = (if p x then Some (length xs) else findLastIndex p xs)"
  by (induction xs) (auto split: option.splits)

lemma findLastIndex_SomeD: "findLastIndex p xs = Some i \<Longrightarrow> i < length xs \<and> p (xs ! i)"
proof (induction xs arbitrary: i rule: rev_induct)
  case (snoc x xs)
  then show ?case by (cases "p x") (auto simp: findLastIndex_snoc nth_append)
qed simp

lemma on_last_snoc [simp]: "on_last f (xs @ [x]) = xs @ [f x]"
  by (simp add: on_last_def)

lemma on_last_Nil [simp]: "on_last f [] = []"
  by (simp add: on_last_def)

lemma length_on_last [simp]: "length (on_last f xs) = length xs"
  by (cases xs rule: rev_cases) auto

section \<open>Turns that can be copied\<close>




lemma clone_turn_SomeD: "clone_turn t = Some t' \<Longrightarrow> \<exists>xs. t' = t\<lparr>tm_userAttachments := JArr xs\<rparr>"
  by (auto simp: clone_turn_def)

section \<open>Getting a turn\<close>

lemma adopt_turn_fields [simp]:
  "tm_turnId (adopt_turn tid p t) = tid" "tm_status (adopt_turn tid p t) = tm_status t"
  "tm_text (adopt_turn tid p t) = tm_text t" "tm_tools (adopt_turn tid p t) = tm_tools t"
  "tm_diffs (adopt_turn tid p t) = tm_diffs t" "tm_approvals (adopt_turn tid p t) = tm_approvals t"
  "tm_sessionId (adopt_turn tid p t) = tm_sessionId t"
  "tm_userAttachments (adopt_turn tid p t) = tm_userAttachments t"
  by (simp_all add: adopt_turn_def Let_def)


lemma or_json_simps [simp]: "or_json None b = b" "or_json (Some (JStr (c # s))) b = JStr (c # s)"
  by (simp_all add: or_json_def truthy_def)

lemma is_placeholderD:
  "is_placeholder turns \<Longrightarrow> \<exists>t. turns = [t] \<and> tm_tools t = [] \<and> \<not> truthy (Some (tm_text t))"
  by (auto simp: is_placeholder_def split: list.splits)

text \<open>The turn that is returned has the wanted id and is the first with it.\<close>

lemma getOrCreateTurn_index:
  assumes "getOrCreateTurn env sid turns target p = (ts, i)"
  shows "i < length ts \<and> tm_turnId (ts ! i) = target_turn env turns target
    \<and> (\<forall>j<i. tm_turnId (ts ! j) \<noteq> target_turn env turns target)"
proof (cases "is_placeholder turns")
  case True
  then show ?thesis using assms by (auto simp: getOrCreateTurn_def)
next
  case False
  let ?q = "\<lambda>t. tm_turnId t = target_turn env turns target"
  show ?thesis
  proof (cases "findIndex ?q turns")
    case None
    then have none: "\<forall>j<length turns. \<not> ?q (turns ! j)" by (simp add: findIndex_None)
    show ?thesis
    proof (cases "findLastIndex (is_pending_turn sid p) turns")
      case None
      then show ?thesis
        using assms False \<open>findIndex ?q turns = None\<close> none
        by (auto simp: getOrCreateTurn_def createEmptyTurn_def nth_append)
    next
      case (Some k)
      then have "k < length turns" using findLastIndex_SomeD by blast
      then show ?thesis
        using assms False \<open>findIndex ?q turns = None\<close> none Some by (auto simp: getOrCreateTurn_def)
    qed
  next
    case (Some k)
    then show ?thesis using assms False findIndex_SomeD [OF Some] by (auto simp: getOrCreateTurn_def)
  qed
qed

section \<open>What no event takes away\<close>

text \<open>Every turn is related to its later state, and at most one turn is new.\<close>

definition later :: "(turn_message \<Rightarrow> turn_message \<Rightarrow> bool) \<Rightarrow> turn_message list \<Rightarrow> turn_message list \<Rightarrow> bool" where
  "later R ts ts' \<longleftrightarrow> length ts \<le> length ts' \<and> length ts' \<le> Suc (length ts)
     \<and> (\<forall>i<length ts. R (ts ! i) (ts' ! i))
     \<and> (\<forall>i<length ts'. length ts \<le> i \<longrightarrow> (\<exists>t. tm_approvals t = [] \<and> R t (ts' ! i)))"

text \<open>What a tool is known by: a command and a file change by their id, a sub-agent by its thread.\<close>

datatype tool_name = CommandNamed json | FileNamed string | AgentNamed "json option"

fun name_of_tool :: "tool_item \<Rightarrow> tool_name" where
  "name_of_tool (Command c) = CommandNamed (tc_id c)"
| "name_of_tool (FileChange f) = FileNamed (tf_id f)"
| "name_of_tool (SubAgent s) = AgentNamed (sa_agentThreadId s)"

text \<open>
  The interface of a relation between a turn and its later states: it holds for every single mutation that the
  reducer makes. The reducer then keeps it for whole timelines.
\<close>

locale timeline_relation =
  fixes R :: "turn_message \<Rightarrow> turn_message \<Rightarrow> bool" and env :: client_env and event :: json
  assumes refl: "R t t"
    and trans: "R t t' \<Longrightarrow> R t' t'' \<Longrightarrow> R t t''"
    and frame: "tm_userPrompt t' = tm_userPrompt t \<Longrightarrow> tm_text t' = tm_text t \<Longrightarrow> tm_tools t' = tm_tools t
      \<Longrightarrow> tm_diffs t' = tm_diffs t \<Longrightarrow> tm_approvals t' = tm_approvals t \<Longrightarrow> R t t'"
    and prompt: "\<not> truthy (Some (tm_userPrompt t)) \<Longrightarrow> R t (t\<lparr>tm_userPrompt := p\<rparr>)"
    and first_text: "\<not> truthy (Some (tm_text t)) \<Longrightarrow> R t (t\<lparr>tm_text := x\<rparr>)"
    and more_text: "R t (t\<lparr>tm_text := JStr (js_String (tm_text t) @ c)\<rparr>)"
    and more_tools: "prefix (map name_of_tool (tm_tools t)) (map name_of_tool tools) \<Longrightarrow> R t (t\<lparr>tm_tools := tools\<rparr>)"
    and more_diffs: "R t (t\<lparr>tm_diffs := tm_diffs t @ [d]\<rparr>)"
    and requested: "R t (add_approval (requested_approval env sid event) t)"
    and resolved: "jget event ''type'' = Some (JStr ''approval-resolved'')
      \<Longrightarrow> resolved_request env (event_payload event) = Some r
      \<Longrightarrow> ar_status' = (if resolved_decision env (event_payload event) = D_approve then P_approved else P_denied)
      \<Longrightarrow> R t (settle_approval (JStr r) (\<lambda>a. a\<lparr>ar_status := ar_status', ar_decision := dec, ar_resolvedAt := w\<rparr>) t)"
    and expired: "R t (settle_approval (JStr r) (\<lambda>a. a\<lparr>ar_status := P_expired, ar_resolvedAt := w\<rparr>) t)"
begin

lemma later_refl: "later R ts ts"
  by (simp add: later_def refl)

lemma later_update:
  assumes "later R ts ts'" "i < length ts'" "R (ts' ! i) t"
  shows "later R ts (ts'[i := t])"
  unfolding later_def
proof (intro conjI allI impI)
  fix k assume k: "k < length ts"
  then show "R (ts ! k) (ts'[i := t] ! k)"
    using assms trans by (cases "k = i") (auto simp: later_def)
next
  fix k assume k: "k < length (ts'[i := t])" "length ts \<le> k"
  then obtain t0 where t0: "tm_approvals t0 = []" "R t0 (ts' ! k)" using assms(1) by (auto simp: later_def)
  then show "\<exists>t0. tm_approvals t0 = [] \<and> R t0 (ts'[i := t] ! k)"
    using assms trans k by (cases "k = i") auto
qed (use assms in \<open>auto simp: later_def\<close>)

lemma later_snoc: "tm_approvals t = [] \<Longrightarrow> later R ts (ts @ [t])"
  using refl by (auto simp: later_def nth_append)

lemma later_map: "(\<And>t. R t (f t)) \<Longrightarrow> later R ts (map f ts)"
  by (simp add: later_def)

lemma later_on_last: "(\<And>t. R t (f t)) \<Longrightarrow> later R ts (on_last f ts)"
  by (cases ts rule: rev_cases) (auto simp: later_def nth_append refl)

lemma later_clone: "clone_turns ts = Some ts' \<Longrightarrow> length ts' = length ts \<and> (\<forall>i<length ts. R (ts ! i) (ts' ! i))"
proof (induction ts arbitrary: ts')
  case (Cons t ts)
  obtain t' us where step: "clone_turn t = Some t'" "clone_turns ts = Some us" "ts' = t' # us"
    using Cons.prems by (auto split: option.splits)
  have "R t t'" using clone_turn_SomeD [OF step(1)] frame by force
  then show ?case using Cons.IH [OF step(2)] step(3) by (auto simp: nth_Cons split: nat.splits)
qed simp

lemma R_adopt: "R t (adopt_turn tid p t)"
  unfolding adopt_turn_def Let_def
  by (cases "truthy (Some p) \<and> \<not> truthy (Some (tm_userPrompt t))")
    (auto intro: frame trans [OF frame prompt])

lemma later_goc:
  assumes "getOrCreateTurn env sid ts target p = (ts', i)"
  shows "later R ts ts' \<and> i < length ts'"
proof -
  have "later R ts ts'"
    using assms later_snoc [of "createEmptyTurn env _ sid p"] R_adopt
    by (auto simp: getOrCreateTurn_def Let_def later_refl createEmptyTurn_def
        intro!: later_update [OF later_refl] dest: findLastIndex_SomeD split: if_splits option.splits)
      (auto simp: later_def dest!: is_placeholderD)
  then show ?thesis using getOrCreateTurn_index [OF assms] by simp
qed

lemma later_update_turn:
  assumes "\<And>t. R t (f t)"
  shows "later R ts (update_turn (getOrCreateTurn env sid ts target p) f)"
proof (cases "getOrCreateTurn env sid ts target p")
  case (Pair ts' i)
  then show ?thesis using later_goc [OF Pair] assms by (auto simp: update_turn_def intro: later_update)
qed

lemma R_merge_input: "R t (merge_input payload c p t)"
proof -
  let ?t1 = "if c \<noteq> None \<and> c \<noteq> Some [] then t\<lparr>tm_clientRequestId := c\<rparr> else t"
  let ?t2 = "if \<not> truthy (Some (tm_userPrompt ?t1)) \<and> p \<noteq> [] then ?t1\<lparr>tm_userPrompt := JStr p\<rparr> else ?t1"
  have "R t ?t1" by (rule frame) auto
  moreover have "R ?t1 ?t2" using prompt [of ?t1] refl by auto
  moreover have "R ?t2 (merge_input payload c p t)"
    unfolding merge_input_def Let_def by (rule frame) (auto split: option.splits json.splits)
  ultimately show ?thesis using trans by blast
qed

lemma R_adopt_items: "adopt_items items t = Some t' \<Longrightarrow> R t t'"
  by (induction items arbitrary: t) (auto intro: refl dest: trans [OF first_text] split: if_splits)

lemma later_finished: "on_session_finished env event ts = Some ts' \<Longrightarrow> later R ts ts'"
proof (cases ts rule: rev_cases)
  case (snoc us u)
  assume fin: "on_session_finished env event ts = Some ts'"
  obtain u1 u2 where u: "R u u1" "R u1 u2" "ts' = us @ [u2]"
  proof -
    let ?st = "jor (jchain (jget (event_payload event) ''turn'') ''status'') (jget (event_payload event) ''status'')"
    let ?u1 = "u\<lparr>tm_status := (if ?st = Some (JStr ''cancelled'') then A_cancelled
                            else if ?st = Some (JStr ''failed'') then A_failed else A_completed),
              tm_completedAt := Some (event_time env event)\<rparr>"
    have "R u ?u1" by (rule frame) auto
    moreover have "\<exists>u2. R ?u1 u2 \<and> ts' = us @ [u2]"
      using fin snoc R_adopt_items refl by (auto simp: on_session_finished_def Let_def split: option.splits)
    ultimately show thesis using that by blast
  qed
  then have "R u u2" using trans by blast
  then show "later R ts ts'" using u(3) snoc by (auto simp: later_def nth_append refl)
qed (simp add: on_session_finished_def later_refl)

end

lemma update_tool_names:
  "name_of_tool x = name_of_tool (tools ! i) \<Longrightarrow> map name_of_tool (tools[i := x]) = map name_of_tool tools"
  by (metis list_update_id map_update)

lemma upsert_tool_names:
  assumes "\<And>x. p x \<Longrightarrow> name_of_tool (f x) = name_of_tool x"
  shows "prefix (map name_of_tool tools) (map name_of_tool (upsert_tool p f new tools))"
proof (cases "findIndex p tools")
  case (Some i)
  then have "name_of_tool (f (tools ! i)) = name_of_tool (tools ! i)" using findIndex_SomeD assms by blast
  then show ?thesis using Some by (simp add: upsert_tool_def update_tool_names)
qed (simp add: upsert_tool_def)

lemma sub_agent_name: "(\<And>s. sa_agentThreadId (f s) = sa_agentThreadId s) \<Longrightarrow> name_of_tool (on_sub_agent f x) = name_of_tool x"
  by (simp add: on_sub_agent_def split: tool_item.splits)

lemma command_name: "(\<And>c. tc_id (f c) = tc_id c) \<Longrightarrow> name_of_tool (on_command f x) = name_of_tool x"
  by (simp add: on_command_def split: tool_item.splits)

lemma file_name: "is_file i x \<Longrightarrow> name_of_tool x = FileNamed i"
  by (simp add: is_file_def split: tool_item.splits)

lemma file_changes_names:
  "file_changes env item n chs tools = Some tools' \<Longrightarrow> prefix (map name_of_tool tools) (map name_of_tool tools')"
proof (induction chs arbitrary: n tools)
  case (Cons ch chs)
  let ?new = "FileChange (file_change env item n ch)"
  let ?tools = "upsert_tool (is_file (tf_id (file_change env item n ch))) (\<lambda>_. ?new) ?new tools"
  have "file_changes env item (Suc n) chs ?tools = Some tools'"
    using Cons.prems by (simp add: Let_def split: if_splits)
  then have "prefix (map name_of_tool ?tools) (map name_of_tool tools')" by (rule Cons.IH)
  moreover have "prefix (map name_of_tool tools) (map name_of_tool ?tools)"
    by (rule upsert_tool_names) (simp add: file_name)
  ultimately show ?case by (rule prefix_order.trans [rotated])
qed simp

context timeline_relation
begin

lemma R_subagents: "R t (subagent_started payload t)" "R t (subagent_tool payload t)" "R t (subagent_finished payload t)"
proof -
  show "R t (subagent_started payload t)" "R t (subagent_tool payload t)"
    unfolding subagent_started_def subagent_tool_def Let_def
    by (intro more_tools upsert_tool_names sub_agent_name; simp)+
  show "R t (subagent_finished payload t)"
    unfolding subagent_finished_def Let_def
    by (rule more_tools) (auto simp: comp_def sub_agent_name intro!: prefix_order.eq_refl)
qed

lemma R_text_delta: "R t (text_delta payload t)"
proof (cases "\<exists>c. jget payload ''chunk'' = Some (JStr c)")
  case True
  then obtain c where c: "jget payload ''chunk'' = Some (JStr c)" by blast
  have "R t (t\<lparr>tm_text := JStr (js_String (tm_text t) @ c)\<rparr>)" by (rule more_text)
  moreover have "R \<dots> (text_delta payload t)" by (rule frame) (simp_all add: text_delta_def c)
  ultimately show ?thesis by (rule trans)
qed (auto simp: text_delta_def refl split: option.splits json.splits)

lemma R_command_delta: "R t (command_delta env payload j t)"
  unfolding command_delta_def Let_def
  by (auto simp: update_tool_names command_name add_output_def intro!: more_tools split: option.split)

lemma R_command_item: "R t (command_item env item t)"
  unfolding command_item_def Let_def
  by (auto simp: update_tool_names command_name intro!: more_tools split: option.split)

lemma R_reasoning_item: "R t (reasoning_item item t)"
  unfolding reasoning_item_def Let_def by (rule frame) (auto split: option.splits json.splits)

lemma R_completed_item: "completed_item env item t = Some t' \<Longrightarrow> R t t'"
  by (auto simp: completed_item_def Let_def user_message_def R_reasoning_item R_command_item refl
      intro: prompt first_text more_tools file_changes_names split: if_splits option.splits json.splits)

lemma R_session_output: "session_output env payload t = Some t' \<Longrightarrow> R t t'"
  using R_completed_item
  by (auto simp: session_output_def Let_def R_text_delta R_command_delta diff_updated_def tokens_updated_def refl
      intro: more_diffs frame split: if_splits option.splits json.splits)

lemma later_output:
  assumes "try_update_turn (getOrCreateTurn env sid ts target p) (session_output env payload) = Some ts'"
  shows "later R ts ts'"
proof (cases "getOrCreateTurn env sid ts target p")
  case (Pair us i)
  obtain t where "session_output env payload (us ! i) = Some t" "ts' = us[i := t]"
    using assms Pair by (auto simp: try_update_turn_def)
  then show ?thesis using later_goc [OF Pair] R_session_output by (auto intro: later_update)
qed

lemma later_status: "later R ts (on_session_status env event ts)"
  unfolding on_session_status_def Let_def by (rule later_on_last) (auto intro: frame refl)

lemma later_input: "later R ts (on_user_input env sid event ts)"
  unfolding on_user_input_def Let_def
  by (auto simp: update_turn_def input_turn_def createEmptyTurn_def Let_def dest: findIndex_SomeD split: option.split
      intro!: later_snoc later_update [OF later_refl] R_merge_input)

lemma later_started: "later R ts (on_session_started env sid event ts)"
  unfolding on_session_started_def Let_def by (auto intro!: later_update_turn later_refl intro: frame)

lemma later_requested: "later R ts (on_approval_requested env sid event ts)"
  unfolding on_approval_requested_def Let_def by (rule later_update_turn) (rule requested)

lemma later_resolved:
  "jget event ''type'' = Some (JStr ''approval-resolved'') \<Longrightarrow> later R ts (on_approval_resolved env event ts)"
  unfolding on_approval_resolved_def Let_def
  by (auto simp: later_refl split: option.split list.split intro!: later_map resolved)

lemma later_expired: "later R ts (on_approval_expired env event ts)"
  unfolding on_approval_expired_def Let_def
  by (auto simp: later_refl split: option.split json.split intro!: later_map expired)

lemma later_event: "apply_event env session event ts = Some ts' \<Longrightarrow> later R ts ts'"
  unfolding apply_event_def Let_def
  by (auto simp: later_status later_input later_started later_requested later_resolved later_expired later_refl
      intro: later_finished later_output later_update_turn R_subagents split: if_splits)

lemma later_applied:
  assumes "applyLiveEventToTurns env session ts event = Some ts'"
  shows "later R ts ts'"
proof -
  obtain us where us: "clone_turns ts = Some us" "apply_event env session event us = Some ts'"
    using assms by (auto simp: applyLiveEventToTurns_def split: option.splits if_splits)
  have ev: "later R us ts'" using us(2) by (rule later_event)
  have cl: "length us = length ts" "\<forall>i<length ts. R (ts ! i) (us ! i)" using later_clone [OF us(1)] by auto
  have "\<forall>i<length ts. R (ts ! i) (ts' ! i)" using ev cl trans unfolding later_def by fastforce
  then show ?thesis using ev cl(1) by (simp add: later_def)
qed

end

subsection \<open>Nothing disappears\<close>

text \<open>The prompt and the text of a turn, once they are there, stay; text only grows at its end; tools keep
  their places, kinds and names; diffs stay; approvals keep their places.\<close>

definition turn_grows :: "turn_message \<Rightarrow> turn_message \<Rightarrow> bool" where
  "turn_grows t t' \<longleftrightarrow>
     (truthy (Some (tm_userPrompt t)) \<longrightarrow> tm_userPrompt t' = tm_userPrompt t)
     \<and> (truthy (Some (tm_text t)) \<and> js_String (tm_text t) \<noteq> [] \<longrightarrow>
          (\<exists>r. js_String (tm_text t') = js_String (tm_text t) @ r) \<and> truthy (Some (tm_text t')))
     \<and> prefix (map name_of_tool (tm_tools t)) (map name_of_tool (tm_tools t'))
     \<and> prefix (tm_diffs t) (tm_diffs t')
     \<and> prefix (map ar_requestId (tm_approvals t)) (map ar_requestId (tm_approvals t'))"

lemma map_request_update:
  "ar_requestId (f a) = ar_requestId a \<Longrightarrow> a = xs ! i \<Longrightarrow> map ar_requestId (xs[i := f a]) = map ar_requestId xs"
  by (metis list_update_id map_update)

lemma add_approval_ids: "prefix (map ar_requestId (tm_approvals t)) (map ar_requestId (tm_approvals (add_approval a t)))"
proof (cases "findIndex (\<lambda>x. ar_requestId x = ar_requestId a) (tm_approvals t)")
  case (Some i)
  then have "ar_requestId (tm_approvals t ! i) = ar_requestId a" using findIndex_SomeD by fastforce
  then have "map ar_requestId ((tm_approvals t)[i := assign_approval (tm_approvals t ! i) a]) = map ar_requestId (tm_approvals t)"
    by (intro map_request_update [where f = "\<lambda>x. assign_approval x a"]) (simp_all add: assign_approval_def)
  then show ?thesis using Some by (simp add: add_approval_def)
qed (simp add: add_approval_def)

lemma settle_approval_ids:
  "(\<And>a. ar_requestId (f a) = ar_requestId a) \<Longrightarrow>
   map ar_requestId (tm_approvals (settle_approval r f t)) = map ar_requestId (tm_approvals t)"
  by (auto simp: settle_approval_def map_request_update split: option.splits)

lemma settle_approval_fields [simp]:
  "tm_userPrompt (settle_approval r f t) = tm_userPrompt t" "tm_text (settle_approval r f t) = tm_text t"
  "tm_tools (settle_approval r f t) = tm_tools t" "tm_diffs (settle_approval r f t) = tm_diffs t"
  by (simp_all add: settle_approval_def split: option.splits)

lemma add_approval_fields [simp]:
  "tm_userPrompt (add_approval a t) = tm_userPrompt t" "tm_text (add_approval a t) = tm_text t"
  "tm_tools (add_approval a t) = tm_tools t" "tm_diffs (add_approval a t) = tm_diffs t"
  "tm_turnId (add_approval a t) = tm_turnId t"
  by (simp_all add: add_approval_def)

lemma turn_grows_trans: "turn_grows t t' \<Longrightarrow> turn_grows t' t'' \<Longrightarrow> turn_grows t t''"
  unfolding turn_grows_def by (auto intro: prefix_order.trans)

interpretation kept: timeline_relation turn_grows env event for env event
proof unfold_locales
  show "turn_grows t t'' " if "turn_grows t t'" "turn_grows t' t''" for t t' t''
    using that by (rule turn_grows_trans)
  show "turn_grows t (t\<lparr>tm_text := JStr (js_String (tm_text t) @ c)\<rparr>)" for t c
    by (simp add: turn_grows_def truthy_def)
  show "turn_grows t (add_approval (requested_approval env sid event) t)" for t sid
    by (simp add: turn_grows_def add_approval_ids)
  show "turn_grows t (settle_approval (JStr r) (\<lambda>a. a\<lparr>ar_status := st, ar_decision := dec, ar_resolvedAt := w\<rparr>) t)"
    for t r st dec w by (simp add: turn_grows_def settle_approval_ids)
  show "turn_grows t (settle_approval (JStr r) (\<lambda>a. a\<lparr>ar_status := P_expired, ar_resolvedAt := w\<rparr>) t)" for t r w
    by (simp add: turn_grows_def settle_approval_ids)
qed (simp_all add: turn_grows_def)

text \<open>C21. Whatever events arrive, in whatever order, a timeline only grows: no turn disappears, each keeps its
  place, and with it its prompt, the text so far (new text is added at the end), its diffs, its approvals (by
  request id) and its tools: every command, file change and sub-agent stays where it is under its id.
\<close>

theorem timeline_only_grows:
  assumes "apply_events session turns events = Some turns'"
  shows "length turns \<le> length turns' \<and> (\<forall>i<length turns. turn_grows (turns ! i) (turns' ! i))"
  using assms
proof (induction events arbitrary: turns)
  case Nil
  then show ?case by (simp add: kept.refl)
next
  case (Cons ee events)
  obtain env event us where us: "ee = (env, event)" "applyLiveEventToTurns env session turns event = Some us"
      "apply_events session us events = Some turns'"
    using Cons.prems by (cases ee) (auto split: option.splits)
  have step: "later turn_grows turns us" using us(2) by (rule kept.later_applied)
  have rest: "length us \<le> length turns' \<and> (\<forall>i<length us. turn_grows (us ! i) (turns' ! i))"
    using us(3) by (rule Cons.IH)
  show ?case
  proof (intro conjI allI impI)
    show "length turns \<le> length turns'" using step rest by (simp add: later_def)
    fix i assume "i < length turns"
    then show "turn_grows (turns ! i) (turns' ! i)"
      using step rest turn_grows_trans [of "turns ! i" "us ! i"] unfolding later_def by auto
  qed
qed

subsection \<open>Approvals that are shown as given\<close>

definition shown_approved :: "json \<Rightarrow> turn_message \<Rightarrow> bool" where
  "shown_approved r t = list_ex (\<lambda>a. ar_requestId a = r \<and> ar_status a = P_approved) (tm_approvals t)"

text \<open>
  The requests that an event reports as allowed: the event is an \<open>approval-resolved\<close>, the request is named in
  it, and it says one of the seven words that allow in the field \<open>decision\<close> of its payload, of the parameters,
  of the parameters in these, or of the approval. A decision in the payload itself comes first.
\<close>

definition allowing_word :: "json option \<Rightarrow> bool" where
  "allowing_word v \<longleftrightarrow> (\<exists>s. v = Some (JStr s) \<and> toLowerCase s \<in>
     {''approve'', ''approved'', ''accept'', ''accepted'', ''allow'', ''allowed'', ''approved_for_session''})"

definition approval_places :: "client_env \<Rightarrow> json \<Rightarrow> json option list" where
  "approval_places env payload =
     [Some payload, outer_params env payload, inner_params env payload, asRecord (jget payload ''approval'')]"

definition event_allows :: "client_env \<Rightarrow> json \<Rightarrow> json \<Rightarrow> bool" where
  "event_allows env event r \<longleftrightarrow>
     (let payload = event_payload event; places = approval_places env payload in
      jget event ''type'' = Some (JStr ''approval-resolved'')
      \<and> (\<exists>v\<in>set places. jchain v ''requestId'' = Some r \<or> jchain v ''id'' = Some r)
      \<and> (\<exists>v\<in>set places. allowing_word (jchain v ''decision''))
      \<and> (nullish (jget payload ''decision'') \<or> allowing_word (jget payload ''decision'')))"

lemma read_sources_place:
  "read_sources (ae_sources (approvalEnvelope env payload)) k = Some x \<Longrightarrow>
   \<exists>v\<in>set (approval_places env payload). jchain v k = Some x"
  by (auto simp: approvalEnvelope_def approval_places_def jchain_def Let_def split: option.splits)

lemma normalized_allows: "normalizedApprovalDecision v = D_approve \<Longrightarrow> allowing_word v"
  by (auto simp: normalizedApprovalDecision_def allowing_word_def as_str_def Let_def
      split: option.splits json.splits if_splits)

lemma resolved_allows:
  assumes "resolved_decision env payload = D_approve"
  shows "\<exists>v\<in>set (approval_places env payload). allowing_word (jchain v ''decision'')"
    "nullish (jget payload ''decision'') \<or> allowing_word (jget payload ''decision'')"
proof -
  let ?read = "read_sources (ae_sources (approvalEnvelope env payload)) ''decision''"
  let ?own = "jget payload ''decision''" and ?apr = "jchain (asRecord (jget payload ''approval'')) ''decision''"
  have w: "allowing_word (jcoalesce ?own (jcoalesce ?read ?apr))"
    using assms normalized_allows by (simp add: resolved_decision_def)
  then show "nullish ?own \<or> allowing_word ?own" by (auto simp: jcoalesce_def split: if_splits)
  have "allowing_word ?own \<or> allowing_word ?read \<or> allowing_word ?apr"
    using w by (auto simp: jcoalesce_def split: if_splits)
  moreover have "allowing_word ?read \<Longrightarrow> \<exists>v\<in>set (approval_places env payload). allowing_word (jchain v ''decision'')"
    using read_sources_place [of env payload "''decision''"] by (metis allowing_word_def)
  moreover have "Some payload \<in> set (approval_places env payload)"
    "asRecord (jget payload ''approval'') \<in> set (approval_places env payload)"
    by (simp_all add: approval_places_def)
  ultimately show "\<exists>v\<in>set (approval_places env payload). allowing_word (jchain v ''decision'')"
    by (metis jchain_def option.simps(5))
qed

lemma resolved_names:
  assumes "resolved_request env payload = Some r"
  shows "\<exists>v\<in>set (approval_places env payload). jchain v ''requestId'' = Some (JStr r) \<or> jchain v ''id'' = Some (JStr r)"
proof -
  have "ae_requestId (approvalEnvelope env payload) = read_sources (ae_sources (approvalEnvelope env payload)) ''requestId''"
    by (simp add: approvalEnvelope_def Let_def)
  then show ?thesis
    using assms read_sources_place [of env payload "''requestId''"]
    by (auto simp: resolved_request_def as_str_def approval_places_def Let_def split: option.splits json.splits)
qed

lemma resolved_event_allows:
  "jget event ''type'' = Some (JStr ''approval-resolved'') \<Longrightarrow> resolved_request env (event_payload event) = Some r \<Longrightarrow>
   resolved_decision env (event_payload event) = D_approve \<Longrightarrow> event_allows env event (JStr r)"
  using resolved_allows [of env "event_payload event"] resolved_names [of env "event_payload event" r]
  by (simp add: event_allows_def Let_def)

definition approves_only :: "client_env \<Rightarrow> json \<Rightarrow> turn_message \<Rightarrow> turn_message \<Rightarrow> bool" where
  "approves_only env event t t' \<longleftrightarrow> (\<forall>r. shown_approved r t' \<longrightarrow> shown_approved r t \<or> event_allows env event r)"

lemma shown_approved_update:
  assumes "shown_approved r (t\<lparr>tm_approvals := (tm_approvals t)[i := a]\<rparr>)"
  shows "shown_approved r t \<or> (ar_requestId a = r \<and> ar_status a = P_approved)"
  using assms set_update_subset_insert [of "tm_approvals t" i a]
  by (auto simp: shown_approved_def list_ex_iff)

lemma approves_only_settle:
  assumes "\<And>a. ar_requestId (f a) = ar_requestId a" "\<And>a. ar_status (f a) = P_approved \<Longrightarrow> event_allows env event r"
  shows "approves_only env event t (settle_approval r f t)"
  unfolding approves_only_def
proof (intro allI impI)
  fix q assume q: "shown_approved q (settle_approval r f t)"
  show "shown_approved q t \<or> event_allows env event q"
  proof (cases "findIndex (\<lambda>x. ar_requestId x = r) (tm_approvals t)")
    case (Some i)
    then have own: "ar_requestId (tm_approvals t ! i) = r" using findIndex_SomeD by fastforce
    have "shown_approved q (t\<lparr>tm_approvals := (tm_approvals t)[i := f (tm_approvals t ! i)]\<rparr>)"
      using q Some by (simp add: settle_approval_def shown_approved_def)
    then show ?thesis using shown_approved_update assms own by metis
  qed (use q in \<open>simp add: settle_approval_def\<close>)
qed

lemma approves_only_requested: "approves_only env event t (add_approval (requested_approval env sid event) t)"
  unfolding approves_only_def
proof (intro allI impI)
  let ?a = "requested_approval env sid event"
  have pending: "ar_status ?a = P_pending" by (simp add: requested_approval_def Let_def)
  fix q assume q: "shown_approved q (add_approval ?a t)"
  show "shown_approved q t \<or> event_allows env event q"
  proof (cases "findIndex (\<lambda>x. ar_requestId x = ar_requestId ?a) (tm_approvals t)")
    case (Some i)
    then have "shown_approved q (t\<lparr>tm_approvals := (tm_approvals t)[i := assign_approval (tm_approvals t ! i) ?a]\<rparr>)"
      using q by (simp add: add_approval_def shown_approved_def)
    then show ?thesis using shown_approved_update pending by (fastforce simp: assign_approval_def)
  qed (use q pending in \<open>auto simp: add_approval_def shown_approved_def\<close>)
qed

interpretation allowed: timeline_relation "approves_only env event" env event for env event
proof unfold_locales
  show "approves_only env event t (add_approval (requested_approval env sid event) t)" for t sid
    by (rule approves_only_requested)
  show "approves_only env event t
      (settle_approval (JStr r) (\<lambda>a. a\<lparr>ar_status := st, ar_decision := dec, ar_resolvedAt := w\<rparr>) t)"
    if "jget event ''type'' = Some (JStr ''approval-resolved'')"
      "resolved_request env (event_payload event) = Some r"
      "st = (if resolved_decision env (event_payload event) = D_approve then P_approved else P_denied)"
    for t r st dec w
    using that by (intro approves_only_settle) (auto simp: resolved_event_allows split: if_splits)
  show "approves_only env event t (settle_approval (JStr r) (\<lambda>a. a\<lparr>ar_status := P_expired, ar_resolvedAt := w\<rparr>) t)"
    for t r w by (rule approves_only_settle) auto
qed (auto simp: approves_only_def shown_approved_def)

text \<open>C22. The web client shows a request as approved only after an \<open>approval-resolved\<close> event that names this request
  and says, in the place for the decision, one of the words approve, approved, accept, accepted, allow, allowed
  or approved_for_session, in any case of letters. A missing, unknown or malformed decision never counts as
  approval, and a decision in the payload itself is not overruled by one further inside.
\<close>

theorem approval_shown_only_if_allowed:
  assumes "apply_events session turns events = Some turns'" "t \<in> set turns'" "shown_approved r t"
    and "\<forall>u\<in>set turns. \<not> shown_approved r u"
  shows "\<exists>(env, event)\<in>set events. event_allows env event r"
  using assms
proof (induction events arbitrary: turns)
  case Nil
  then show ?case by simp
next
  case (Cons ee events)
  obtain env event us where us: "ee = (env, event)" "applyLiveEventToTurns env session turns event = Some us"
      "apply_events session us events = Some turns'"
    using Cons.prems(1) by (cases ee) (auto split: option.splits)
  have step: "later (approves_only env event) turns us" using us(2) by (rule allowed.later_applied)
  show ?case
  proof (cases "\<forall>u\<in>set us. \<not> shown_approved r u")
    case True
    then show ?thesis using Cons.IH [OF us(3) Cons.prems(2,3)] by auto
  next
    case False
    then obtain i where i: "i < length us" "shown_approved r (us ! i)" by (metis in_set_conv_nth)
    have "\<exists>t0. \<not> shown_approved r t0 \<and> approves_only env event t0 (us ! i)"
    proof (cases "i < length turns")
      case True
      then show ?thesis
        using step Cons.prems(4) unfolding later_def by (intro exI [of _ "turns ! i"]) auto
    next
      case False
      then obtain t0 where "tm_approvals t0 = []" "approves_only env event t0 (us ! i)"
        using step i(1) unfolding later_def by auto
      then show ?thesis by (intro exI [of _ t0]) (simp add: shown_approved_def)
    qed
    then show ?thesis using i(2) us(1) unfolding approves_only_def by auto
  qed
qed

section \<open>An answer in pieces\<close>

definition turn_event :: "string \<Rightarrow> string \<Rightarrow> (string \<times> json) list \<Rightarrow> json" where
  "turn_event ty sid fs = JObj [(''type'', JStr ty), (''sessionId'', JStr sid), (''payload'', JObj fs)]"

definition input_event :: "string \<Rightarrow> string \<Rightarrow> string \<Rightarrow> json" where
  "input_event sid request prompt =
     turn_event ''session-user-input'' sid [(''prompt'', JStr prompt), (''clientRequestId'', JStr request)]"

definition delta_event :: "string \<Rightarrow> string \<Rightarrow> string \<Rightarrow> json" where
  "delta_event sid tid chunk = turn_event ''session-output'' sid
     [(''turnId'', JStr tid), (''eventType'', JStr ''item/agentMessage/delta''), (''chunk'', JStr chunk)]"

definition message_event :: "string \<Rightarrow> string \<Rightarrow> string \<Rightarrow> json" where
  "message_event sid tid full = turn_event ''session-output'' sid
     [(''turnId'', JStr tid), (''eventType'', JStr ''item/completed''),
      (''jsonPayload'', JObj [(''item'', JObj [(''type'', JStr ''agentMessage''), (''text'', JStr full)])])]"

definition finished_event :: "string \<Rightarrow> string \<Rightarrow> json" where
  "finished_event sid full = turn_event ''session-finished'' sid
     [(''turn'', JObj [(''status'', JStr ''completed''),
        (''items'', JArr [JObj [(''type'', JStr ''agentMessage''), (''text'', JStr full)]])])]"

lemmas turn_event_defs =
  turn_event_def input_event_def delta_event_def message_event_def finished_event_def

lemma turn_event_payload [simp]:
  "event_payload (turn_event ty sid fs) = JObj fs"
  "jget (turn_event ty sid fs) ''type'' = Some (JStr ty)"
  "jget (turn_event ty sid fs) ''requestId'' = None"
  "turn_event ty sid fs \<noteq> JNull"
  by (simp_all add: turn_event_def event_payload_def jget_def or_json_def truthy_def)

lemma jget_JObj [simp]: "jget (JObj fs) k = map_of fs k"
  by (simp add: jget_def)

lemma turn_event_session: "sid \<noteq> [] \<Longrightarrow> currentSessionId env session (turn_event ty sid fs) = JStr sid"
  by (simp add: currentSessionId_def Let_def turn_event_def jget_def or_json_def truthy_def)











section \<open>Samples\<close>

definition sample_env :: client_env where
  "sample_env = \<lparr>ce_parse = (\<lambda>_. None), ce_now = 0, ce_random = ''ab12''\<rparr>"

definition resolved_event :: "string \<Rightarrow> string \<Rightarrow> string \<Rightarrow> json" where
  "resolved_event sid request decision =
     turn_event ''approval-resolved'' sid [(''requestId'', JStr request), (''decision'', JStr decision)]"

definition requested_event :: "string \<Rightarrow> string \<Rightarrow> string \<Rightarrow> json" where
  "requested_event sid tid request =
     turn_event ''approval-requested'' sid [(''requestId'', JStr request), (''turnId'', JStr tid)]"

definition sample_approval :: "turn_message list option" where
  "sample_approval = apply_events None []
     [(sample_env, requested_event ''s'' ''t1'' ''7''), (sample_env, resolved_event ''s'' ''7'' ''accept'')]"


lemmas sample_steps =
  requested_event_def resolved_event_def applyLiveEventToTurns_def apply_event_def Let_def turn_event_session
  on_approval_requested_def requested_approval_def approvalEnvelope_def outer_params_def inner_params_def
  record_or_text_def asRecord_def tryParseJson_def getOrCreateTurn_def target_turn_def is_placeholder_def
  update_turn_def add_approval_def createEmptyTurn_def clone_turn_def spread_def truthy_def as_str_def jcoalesce_def
  on_approval_resolved_def resolved_request_def resolved_decision_def settle_approval_def shown_approved_def
  normalizedApprovalDecision_def toLowerCase_def to_lower_def nullish_def

lemma answer_goes_to_the_last_open_prompt:
  "\<exists>a b. apply_events None [] [(sample_env, input_event ''s'' ''r1'' ''one''), (sample_env, input_event ''s'' ''r2'' ''two''),
      (sample_env, delta_event ''s'' ''t1'' ''x'')] = Some [a, b]
    \<and> tm_userPrompt a = JStr ''one'' \<and> tm_text a = JStr [] \<and> tm_userPrompt b = JStr ''two'' \<and> tm_text b = JStr ''x''"
  by (simp add: sample_steps input_event_def delta_event_def on_user_input_def input_turn_def is_duplicate_input_def
      try_update_turn_def adopt_turn_def is_pending_turn_def session_output_def text_delta_def or_json_def)

theorem approval_shown_only_if_allowed_witness:
  "\<exists>ts. sample_approval = Some ts \<and> shown_approved (JStr ''7'') (hd ts)
    \<and> event_allows sample_env (resolved_event ''s'' ''7'' ''accept'') (JStr ''7'')"
proof -
  obtain ts where ts: "sample_approval = Some ts" "ts \<noteq> []" "shown_approved (JStr ''7'') (hd ts)"
    unfolding sample_approval_def by (simp add: sample_steps)
  have no: "\<not> event_allows sample_env (requested_event ''s'' ''t1'' ''7'') (JStr ''7'')"
    by (simp add: event_allows_def requested_event_def)
  have "\<exists>(env, event)\<in>set [(sample_env, requested_event ''s'' ''t1'' ''7''), (sample_env, resolved_event ''s'' ''7'' ''accept'')].
      event_allows env event (JStr ''7'')"
    by (rule approval_shown_only_if_allowed [OF ts(1) [unfolded sample_approval_def] _ ts(3)]) (simp_all add: ts(2))
  then show ?thesis using ts no by auto
qed

theorem timeline_only_grows_witness:
  "\<exists>us vs. apply_events None [] [(sample_env, requested_event ''s'' ''t1'' ''7'')] = Some us \<and> length us = 1
    \<and> apply_events None us [(sample_env, resolved_event ''s'' ''7'' ''deny'')] = Some vs
    \<and> turn_grows (us ! 0) (vs ! 0)"
proof -
  obtain us vs where r: "apply_events None [] [(sample_env, requested_event ''s'' ''t1'' ''7'')] = Some us" "length us = 1"
      "apply_events None us [(sample_env, resolved_event ''s'' ''7'' ''deny'')] = Some vs"
    by (simp add: sample_steps)
  then show ?thesis using timeline_only_grows [OF r(3)] by (metis less_one)
qed

end
