(* ===== verification/WebClient.thy ===== *)
theory WebClient
  imports Timeline RelayProxy Store
begin

text \<open>
  The state of the web client (\<open>app/src/hooks/useCodeHarbor.ts\<close>): account, socket to the relay, cursors of the
  event streams, recovery of gaps, requests to the gateway, and the timeline on the screen.

  One record holds what React keeps with \<open>useState\<close> and \<open>useRef\<close>. A state setter takes effect at once, but a
  render is a separate step: it copies the state into \<open>w_view\<close>, which is what event handlers captured and what
  the refs that are assigned during a render contain, and runs the effects whose dependencies changed. So a
  handler may run with a view that is older than the state. An exception in a state updater, which React raises
  during the next render, ends the client (\<open>w_crashed\<close>).

  Timers and sockets are entries of the state; suspended calls keep the variables they captured. The clock,
  random ids, \<open>JSON.parse\<close>, \<open>atob\<close>, \<open>Date.parse\<close> and whether the local storage accepts a write are the environment
  of a step. Object keys are kept in insertion order. Texts shown to the user are constructors of \<open>web_error\<close>;
  an exception of the platform has an abbreviated text. Lists in answers of the relay are arrays, entries of them
  are objects.
\<close>

section \<open>Helpers\<close>

record web_env =
  we_client :: client_env
  we_uuid :: string
  we_jitter :: int
  we_number :: "string \<Rightarrow> js_number option"
  we_date :: "string \<Rightarrow> js_number option"
  we_atob :: "string \<Rightarrow> string option"
  we_body :: "json \<Rightarrow> json option"
  we_storage :: bool

record model_option =
  mo_id :: string
  mo_name :: "json option"
  mo_model :: "json option"
  mo_efforts :: "json option"

definition model_option_of :: "json \<Rightarrow> model_option option" where
  "model_option_of item =
     (let i = (case item of JStr s \<Rightarrow> Some item
               | _ \<Rightarrow> jor (jget item ''id'') (jor (jget item ''model'') (jget item ''slug'')))
      in if jget item ''hidden'' = Some (JBool True) then None
         else if truthy i
           then Some \<lparr>mo_id = js_String (the i), mo_name = jget item ''name'', mo_model = jget item ''model'',
                      mo_efforts = jget item ''supportedReasoningEfforts''\<rparr>
         else None)"

definition normalizeModelOptions :: "json \<Rightarrow> model_option list" where
  "normalizeModelOptions body =
     (let items = (case jget body ''models'' of
          Some (JArr xs) \<Rightarrow> xs
        | _ \<Rightarrow> (case body of JArr xs \<Rightarrow> xs | _ \<Rightarrow> []))
      in concat (map (\<lambda>x. case model_option_of x of Some m \<Rightarrow> [m] | None \<Rightarrow> []) items))"

definition url_safe_char :: "char \<Rightarrow> char" where
  "url_safe_char c = (if c = CHR ''-'' then CHR ''+'' else if c = CHR ''_'' then CHR ''/'' else c)"

text \<open>The expiry of a signed token: of the JSON form, or of the older form \<open>user|expiry\<close>.\<close>

definition tokenExpiryMs :: "web_env \<Rightarrow> string \<Rightarrow> js_number option" where
  "tokenExpiryMs env tok =
     (let base64 = map url_safe_char (hd (split_on (CHR ''.'') tok))
      in case we_atob env (base64 @ replicate ((4 - length base64 mod 4) mod 4) (CHR ''='')) of
           None \<Rightarrow> None
         | Some decoded \<Rightarrow>
             let structured = (case ce_parse (we_client env) decoded of
                    Some j \<Rightarrow> (case jget j ''e'' of Some (JStr e) \<Rightarrow> we_date env e | _ \<Rightarrow> None)
                  | None \<Rightarrow> None)
             in case structured of
                  Some ms \<Rightarrow> Some ms
                | None \<Rightarrow>
                    (case findLastIndex (\<lambda>c. c = CHR ''|'') decoded of
                       Some i \<Rightarrow> if i < 1 then None else we_date env (drop (Suc i) decoded)
                     | None \<Rightarrow> None))"

definition encodeURIComponent :: "string \<Rightarrow> string" where
  "encodeURIComponent s = concat (map encode_char s)"

definition base64Utf8 :: "string \<Rightarrow> string" where
  "base64Utf8 s = b64_encode (utf8_bytes s)"

text \<open>\<open>{...a, ...b}\<close>.\<close>

definition jspread :: "json \<Rightarrow> json \<Rightarrow> json" where
  "jspread a b =
     (let fields_of = (\<lambda>v. case v of JObj fs \<Rightarrow> fs | _ \<Rightarrow> [])
      in JObj (fold (\<lambda>(k, v). AList.update k v) (fields_of b) (fields_of a)))"

definition upsert_session :: "json \<Rightarrow> json list \<Rightarrow> json list" where
  "upsert_session new ss =
     (case findIndex (\<lambda>s. jget s ''id'' = jget new ''id'') ss of
        Some i \<Rightarrow> ss[i := jspread (ss ! i) new]
      | None \<Rightarrow> new # ss)"

definition patch_session :: "json \<Rightarrow> json \<Rightarrow> json list \<Rightarrow> json list" where
  "patch_session sid patch = map (\<lambda>s. if jget s ''id'' = Some sid then jspread s patch else s)"

section \<open>State\<close>

datatype link_status = L_connected | L_connecting | L_disconnected | L_reconnecting

datatype web_error =
    E_not_ready | E_no_device | E_timeout string string | E_closed | E_lost | E_status json
  | E_login_expired | E_bad_login | E_no_token | E_account_exists | E_invalid_account | E_register_failed
  | E_no_register_token | E_approval_gone | E_create_failed | E_fork_failed | E_device_unknown | E_revoke_failed
  | E_text string

datatype ws_state = W_connecting | W_open | W_closing | W_closed

record web_socket =
  wk_state :: ws_state
  wk_token :: string

record gap_recovery =
  gr_expectedSeq :: js_number
  gr_attempt :: nat
  gr_timer :: "nat option"

record history_load =
  hl_session :: string
  hl_token :: string
  hl_revision :: nat
  hl_list :: "json list"
  hl_after :: js_number
  hl_page :: nat

text \<open>What a proxied request resumes, with the variables it captured.\<close>

datatype web_call =
    K_models
  | K_prompt
  | K_download
  | K_approval string string card_decision "json option"
  | K_interrupt string bool
  | K_resume string
  | K_policy string string
  | K_create
  | K_fork

record web_pending =
  wp_call :: web_call
  wp_socket :: nat
  wp_raw :: bool
  wp_method :: string
  wp_path :: string

datatype call_result = Resolved json | Rejected web_error

text \<open>Other suspended calls: \<open>loadData\<close> with the selection it captured, the refresh of a token with the number of
  its effect, the expiry and the selection, login, registration, the first question for a token, and the revocation of a device.\<close>

datatype web_task =
    T_data string string string
  | T_refresh nat string js_number string string
  | T_login string
  | T_register string
  | T_session_token
  | T_revoke string

datatype fetch_result = F_error | F_response nat "json option"

record web_view =
  v_user :: string
  v_password :: string
  v_token :: string
  v_sessions :: "json list"
  v_device :: string
  v_session :: string
  v_turns :: "turn_message list"

datatype web_output =
    O_frame nat json
  | O_fetch string string string "json option"
  | O_socket nat string

record web =
  w_user :: string
  w_password :: string
  w_token :: string
  w_devices :: "json list"
  w_device :: string
  w_sessions :: "json list"
  w_models :: "model_option list"
  w_session :: string
  w_status :: link_status
  w_error :: "web_error option"
  w_rawEvents :: "json list"
  w_turns :: "turn_message list"
  w_view :: web_view
  w_activeToken :: string
  w_cursors :: "(string, js_number) js_map"
  w_storedCursors :: "(string, js_number) js_map option"
  w_storedUser :: "string option"
  w_sockets :: "(nat \<times> web_socket) list"
  w_socket :: "nat option"
  w_reconnect :: "(string \<times> int) option"
  w_heartbeat :: "nat option"
  w_reconnectAttempts :: nat
  w_resumeAttempts :: nat
  w_liveRevision :: nat
  w_seen :: "string js_set"
  w_gaps :: "(string, gap_recovery) js_map"
  w_gapTimers :: "(nat \<times> (string \<times> string \<times> int)) list"
  w_nextTimer :: nat
  w_pending :: "(string, web_pending) js_map"
  w_settled :: "(string \<times> call_result) list"
  w_loads :: "(nat \<times> history_load) list"
  w_nextLoad :: nat
  w_tasks :: "(nat \<times> web_task) list"
  w_nextTask :: nat
  w_effect :: nat
  w_outputs :: "web_output list"
  w_crashed :: bool

definition showError :: "web_error \<Rightarrow> web \<Rightarrow> web" where
  "showError e st = st\<lparr>w_error := Some e\<rparr>"

definition emit :: "web_output \<Rightarrow> web \<Rightarrow> web" where
  "emit out st = st\<lparr>w_outputs := w_outputs st @ [out]\<rparr>"

definition suspend :: "web_task \<Rightarrow> web \<Rightarrow> web" where
  "suspend t st = st\<lparr>w_tasks := w_tasks st @ [(w_nextTask st, t)], w_nextTask := Suc (w_nextTask st)\<rparr>"

text \<open>\<open>setTurns((prev) => applyLiveEventToTurns(prev, event, session))\<close>.\<close>

definition update_turns :: "web_env \<Rightarrow> json option \<Rightarrow> json \<Rightarrow> web \<Rightarrow> web" where
  "update_turns env session event st =
     (case applyLiveEventToTurns (we_client env) session (w_turns st) event of
        Some turns \<Rightarrow> st\<lparr>w_turns := turns\<rparr>
      | None \<Rightarrow> st\<lparr>w_crashed := True\<rparr>)"

definition session_in :: "json list \<Rightarrow> string \<Rightarrow> json option" where
  "session_in ss sid = List.find (\<lambda>s. jget s ''id'' = Some (JStr sid)) ss"

text \<open>\<open>selectedSession\<close> of the last render, and the memo \<open>isStreaming\<close>.\<close>

definition view_session :: "web \<Rightarrow> json option" where
  "view_session st = session_in (v_sessions (w_view st)) (v_session (w_view st))"

definition isStreaming :: "web_view \<Rightarrow> bool" where
  "isStreaming v =
     ((v_turns v \<noteq> [] \<and> tm_status (last (v_turns v)) = A_streaming)
      \<or> jchain (session_in (v_sessions v) (v_session v)) ''status'' = Some (JStr ''running''))"

section \<open>Cursors\<close>

definition cursor_of :: "web \<Rightarrow> string \<Rightarrow> js_number" where
  "cursor_of st sid = (case map_of (w_cursors st) sid of Some n \<Rightarrow> n | None \<Rightarrow> 0)"

definition store_cursors :: "web_env \<Rightarrow> web \<Rightarrow> web" where
  "store_cursors env st = (if we_storage env then st\<lparr>w_storedCursors := Some (w_cursors st)\<rparr> else st)"

definition maxCursors :: int where "maxCursors = 10000"

definition keptCursors :: nat where "keptCursors = 8000"

definition saveCursor :: "web_env \<Rightarrow> string \<Rightarrow> js_number \<Rightarrow> web \<Rightarrow> web" where
  "saveCursor env sid seq st =
     (if sid = [] \<or> seq = 0 then st
      else if seq > cursor_of st sid
        then (let cs = AList.update sid seq (w_cursors st)
              in store_cursors env (st\<lparr>w_cursors := (if int (length cs) > maxCursors then slice_last keptCursors cs else cs)\<rparr>))
      else st)"

definition resetCursor :: "web_env \<Rightarrow> string \<Rightarrow> js_number \<Rightarrow> web \<Rightarrow> web" where
  "resetCursor env sid seq st =
     (if sid = [] \<or> \<not> is_safe_integer seq \<or> seq < 0 then st
      else store_cursors env (st\<lparr>w_cursors := AList.update sid seq (w_cursors st)\<rparr>))"

text \<open>Reading the stored cursors when the client starts.\<close>

definition valid_cursor :: "string \<times> json \<Rightarrow> bool" where
  "valid_cursor c =
     (length (fst c) \<le> 256 \<and> (case snd c of JNum n \<Rightarrow> is_safe_integer n \<and> n \<ge> 0 | _ \<Rightarrow> False))"

definition loaded_cursors :: "web_env \<Rightarrow> string option \<Rightarrow> (string, js_number) js_map" where
  "loaded_cursors env saved =
     (case saved of
        None \<Rightarrow> []
      | Some text \<Rightarrow>
          (case ce_parse (we_client env) text of
             Some (JObj fs) \<Rightarrow>
               map (\<lambda>(k, v). (k, case v of JNum n \<Rightarrow> n | _ \<Rightarrow> 0)) (slice_last keptCursors (filter valid_cursor fs))
           | _ \<Rightarrow> []))"

section \<open>Gaps\<close>

definition clear_gap_timer :: "nat option \<Rightarrow> web \<Rightarrow> web" where
  "clear_gap_timer timer st =
     (case timer of Some i \<Rightarrow> st\<lparr>w_gapTimers := AList.delete i (w_gapTimers st)\<rparr> | None \<Rightarrow> st)"

definition gap_delay :: "nat \<Rightarrow> int" where
  "gap_delay attempt = min 2000 (100 * 2 ^ (attempt - 1))"

definition scheduleGapRecovery :: "string \<Rightarrow> string \<Rightarrow> js_number \<Rightarrow> web \<Rightarrow> web" where
  "scheduleGapRecovery sid t expectedSeq st =
     (case map_of (w_gaps st) sid of
        Some r \<Rightarrow>
          if gr_expectedSeq r \<noteq> 0 \<and> gr_expectedSeq r \<ge> expectedSeq then st
          else
            let attempt = min (gr_attempt r + 1) 5;
                st1 = clear_gap_timer (gr_timer r) st;
                timer = w_nextTimer st1
            in st1\<lparr>w_gaps := AList.update sid \<lparr>gr_expectedSeq = expectedSeq, gr_attempt = attempt, gr_timer = Some timer\<rparr> (w_gaps st1),
                 w_gapTimers := w_gapTimers st1 @ [(timer, (sid, t, gap_delay attempt))], w_nextTimer := Suc timer\<rparr>
      | None \<Rightarrow>
          let timer = w_nextTimer st
          in st\<lparr>w_gaps := AList.update sid \<lparr>gr_expectedSeq = expectedSeq, gr_attempt = 1, gr_timer = Some timer\<rparr> (w_gaps st),
               w_gapTimers := w_gapTimers st @ [(timer, (sid, t, gap_delay 1))], w_nextTimer := Suc timer\<rparr>)"

text \<open>Clearing every recovery, as logout and the end of a connection do.\<close>

definition clear_gaps :: "web \<Rightarrow> web" where
  "clear_gaps st =
     st\<lparr>w_gaps := [],
        w_gapTimers := filter (\<lambda>x. \<forall>r\<in>set (map snd (w_gaps st)). gr_timer r \<noteq> Some (fst x)) (w_gapTimers st)\<rparr>"

section \<open>Requests to the gateway\<close>

definition decision_event :: "web_env \<Rightarrow> string \<Rightarrow> string \<Rightarrow> card_decision \<Rightarrow> json" where
  "decision_event env sid requestId decision =
     JObj [(''type'', JStr ''approval-resolved''), (''sessionId'', JStr sid),
           (''timestamp'', JStr (toISOString (ce_now (we_client env)))),
           (''payload'', JObj [(''requestId'', JStr requestId),
              (''decision'', JStr (if decision = D_approve then ''approve'' else ''deny''))])]"

definition adopt_session :: "web_error \<Rightarrow> json \<Rightarrow> web \<Rightarrow> web" where
  "adopt_session failed response st =
     (let new = jget response ''session''
      in if truthy (jchain new ''id'')
         then st\<lparr>w_sessions := upsert_session (the new) (w_sessions st), w_session := js_String (the (jchain new ''id''))\<rparr>
         else showError failed st)"

definition interrupt_done :: "string \<Rightarrow> bool \<Rightarrow> web \<Rightarrow> web" where
  "interrupt_done sid had_turns st =
     st\<lparr>w_sessions := patch_session (JStr sid) (JObj [(''status'', JStr ''cancelled'')]) (w_sessions st),
        w_turns := (if had_turns then on_last (\<lambda>t. t\<lparr>tm_status := A_cancelled\<rparr>) (w_turns st) else w_turns st)\<rparr>"

definition resume_done :: "string \<Rightarrow> web \<Rightarrow> web" where
  "resume_done sid st = st\<lparr>w_sessions := patch_session (JStr sid) (JObj [(''status'', JStr ''running'')]) (w_sessions st)\<rparr>"

definition policy_done :: "string \<Rightarrow> string \<Rightarrow> json \<Rightarrow> web \<Rightarrow> web" where
  "policy_done sid mode response st =
     st\<lparr>w_sessions := map (\<lambda>s. if jget s ''id'' = Some (JStr sid)
          then jspread (jspread s (case jget response ''session'' of Some u \<Rightarrow> u | None \<Rightarrow> JObj []))
                 (JObj [(''sessionPolicyMode'', JStr mode)])
          else s) (w_sessions st)\<rparr>"

definition decision_failed :: "web_error \<Rightarrow> web \<Rightarrow> web" where
  "decision_failed e st = showError (if e = E_text ''approval_not_found'' then E_approval_gone else e) st"

text \<open>What follows the await of a proxied request. A failed one of \<open>downloadFile\<close> or \<open>setSessionPolicyMode\<close> is the
  business of the component that asked.\<close>

definition resume_call :: "web_env \<Rightarrow> web_call \<Rightarrow> call_result \<Rightarrow> web \<Rightarrow> web" where
  "resume_call env call result st =
     (case result of
        Resolved response \<Rightarrow>
          (case call of
             K_models \<Rightarrow> st\<lparr>w_models := normalizeModelOptions response\<rparr>
           | K_prompt \<Rightarrow> st
           | K_download \<Rightarrow> st
           | K_approval sid requestId decision session \<Rightarrow>
               update_turns env session (decision_event env sid requestId decision) st
           | K_interrupt sid had_turns \<Rightarrow> interrupt_done sid had_turns st
           | K_resume sid \<Rightarrow> resume_done sid st
           | K_policy sid mode \<Rightarrow> policy_done sid mode response st
           | K_create \<Rightarrow> adopt_session E_create_failed response st
           | K_fork \<Rightarrow> adopt_session E_fork_failed response st)
      | Rejected e \<Rightarrow>
          (case call of
             K_models \<Rightarrow> st
           | K_download \<Rightarrow> st
           | K_policy sid mode \<Rightarrow> st
           | K_approval sid requestId decision session \<Rightarrow> decision_failed e st
           | _ \<Rightarrow> showError e st))"

text \<open>A pending request leaves the map and its promise is settled.\<close>

definition settle_request :: "web_env \<Rightarrow> string \<Rightarrow> call_result \<Rightarrow> web \<Rightarrow> web" where
  "settle_request env requestId result st =
     (case map_of (w_pending st) requestId of
        None \<Rightarrow> st
      | Some p \<Rightarrow>
          resume_call env (wp_call p) result
            (st\<lparr>w_pending := AList.delete requestId (w_pending st), w_settled := w_settled st @ [(requestId, result)]\<rparr>))"

definition sock_in :: "ws_state \<Rightarrow> nat option \<Rightarrow> web \<Rightarrow> bool" where
  "sock_in s k st = (case k of Some i \<Rightarrow> map_option wk_state (map_of (w_sockets st) i) = Some s | None \<Rightarrow> False)"

definition proxy_frame :: "web_env \<Rightarrow> string \<Rightarrow> string \<Rightarrow> string \<Rightarrow> json option \<Rightarrow> json" where
  "proxy_frame env deviceId verb path body =
     JObj (jobj [(''type'', Some (JStr ''gateway-proxy'')), (''deviceId'', Some (JStr deviceId)),
       (''requestId'', Some (JStr (we_uuid env))), (''method'', Some (JStr verb)), (''path'', Some (JStr path)),
       (''headers'', Some (JObj [(''content-type'', JStr ''application/json'')])),
       (''bodyBase64'', map_option (\<lambda>b. JStr (base64Utf8 (stringify b))) body)])"

definition sendGatewayProxy ::
  "web_env \<Rightarrow> string \<Rightarrow> string \<Rightarrow> json option \<Rightarrow> bool \<Rightarrow> web_call \<Rightarrow> web \<Rightarrow> web" where
  "sendGatewayProxy env verb path body raw call st =
     (if \<not> sock_in W_open (w_socket st) st then resume_call env call (Rejected E_not_ready) st
      else if v_device (w_view st) = [] then resume_call env call (Rejected E_no_device) st
      else emit (O_frame (the (w_socket st)) (proxy_frame env (v_device (w_view st)) verb path body))
             (st\<lparr>w_pending := AList.update (we_uuid env)
                  \<lparr>wp_call = call, wp_socket = the (w_socket st), wp_raw = raw, wp_method = verb, wp_path = path\<rparr> (w_pending st)\<rparr>))"

definition web_timeout :: "web_env \<Rightarrow> string \<Rightarrow> web \<Rightarrow> web" where
  "web_timeout env requestId st =
     (case map_of (w_pending st) requestId of
        Some p \<Rightarrow> settle_request env requestId (Rejected (E_timeout (wp_method p) (wp_path p))) st
      | None \<Rightarrow> st)"

definition ask_models :: "web_env \<Rightarrow> web \<Rightarrow> web" where
  "ask_models env st = sendGatewayProxy env ''GET'' ''/api/models'' None False K_models st"

section \<open>History\<close>

text \<open>The outcome of one page: a failed request, a body that is not JSON, or a body.\<close>

datatype page_result = Page_failed | Page_garbled | Page_body json

definition seq_or_zero :: "json \<Rightarrow> js_number" where
  "seq_or_zero e = (case jget e ''eventSeq'' of Some (JNum n) \<Rightarrow> n | _ \<Rightarrow> 0)"

text \<open>\<open>Math.max(x, ...xs)\<close>.\<close>

definition max_num :: "js_number \<Rightarrow> js_number list \<Rightarrow> js_number" where
  "max_num x xs = fold max xs x"

definition history_request :: "history_load \<Rightarrow> web_output" where
  "history_request l =
     O_fetch ''GET'' (''/sessions/'' @ encodeURIComponent (hl_session l) @ ''/events?after='' @ num_str (hl_after l) @ ''&limit=1000'')
       (hl_token l) None"

definition put_load :: "history_load \<Rightarrow> web \<Rightarrow> web" where
  "put_load l st =
     emit (history_request l) (st\<lparr>w_loads := w_loads st @ [(w_nextLoad st, l)], w_nextLoad := Suc (w_nextLoad st)\<rparr>)"

definition loadSessionEvents :: "string \<Rightarrow> string \<Rightarrow> web \<Rightarrow> web" where
  "loadSessionEvents sid t st =
     (if sid = [] \<or> t = [] then st
      else put_load \<lparr>hl_session = sid, hl_token = t, hl_revision = w_liveRevision st, hl_list = [], hl_after = 0, hl_page = 0\<rparr> st)"

text \<open>A load whose session is no longer shown, or during which live events arrived, is thrown away.\<close>

definition load_is_stale :: "history_load \<Rightarrow> web \<Rightarrow> bool" where
  "load_is_stale l st = (v_session (w_view st) \<noteq> hl_session l \<or> w_liveRevision st \<noteq> hl_revision l)"

text \<open>\<open>setTurns(aggregateEventsToTurns(list, sess))\<close>; \<open>None\<close> when it throws.\<close>

definition shown_history :: "web_env \<Rightarrow> history_load \<Rightarrow> json list \<Rightarrow> web \<Rightarrow> turn_message list option" where
  "shown_history env l events st =
     aggregateEventsToTurns (we_client env) (session_in (v_sessions (w_view st)) (hl_session l))
       (map (Pair (we_client env)) events)"

definition load_failed :: "web_env \<Rightarrow> history_load \<Rightarrow> web \<Rightarrow> web" where
  "load_failed env l st =
     (if load_is_stale l st then st
      else case shown_history env l [] st of Some turns \<Rightarrow> st\<lparr>w_turns := turns\<rparr> | None \<Rightarrow> st)"

definition settle_gap :: "history_load \<Rightarrow> js_number \<Rightarrow> web \<Rightarrow> web" where
  "settle_gap l maxSeq st =
     (case map_of (w_gaps st) (hl_session l) of
        None \<Rightarrow> st
      | Some r \<Rightarrow>
          if maxSeq \<ge> gr_expectedSeq r \<or> gr_attempt r \<ge> 5
          then (let st1 = clear_gap_timer (gr_timer r) st in st1\<lparr>w_gaps := AList.delete (hl_session l) (w_gaps st1)\<rparr>)
          else scheduleGapRecovery (hl_session l) (hl_token l) (gr_expectedSeq r) st)"

definition load_done :: "web_env \<Rightarrow> history_load \<Rightarrow> web \<Rightarrow> web" where
  "load_done env l st =
     (if load_is_stale l st then st
      else
        let events = hl_list l;
            st1 = (if events = [] then st
              else st\<lparr>w_rawEvents := slice_last 500
                   (filter (\<lambda>e. jget e ''sessionId'' \<noteq> Some (JStr (hl_session l))) (w_rawEvents st) @ events)\<rparr>);
            maxSeq = max_num 0 (map seq_or_zero events)
        in case shown_history env l events st1 of
             None \<Rightarrow> load_failed env l st1
           | Some turns \<Rightarrow>
               let st2 = st1\<lparr>w_turns := turns\<rparr>;
                   st3 = (if maxSeq > 0 then saveCursor env (hl_session l) maxSeq st2 else st2)
               in settle_gap l maxSeq st3)"

text \<open>One turn of the loop over the pages: an exception, the end of the loop, or the next page.\<close>

datatype page_step = Load_throws | Load_ends history_load | Load_continues history_load

definition next_after :: "json \<Rightarrow> json list \<Rightarrow> js_number \<Rightarrow> js_number option" where
  "next_after data events after =
     (case jget data ''nextCursor'' of
        Some (JNum n) \<Rightarrow> Some n
      | _ \<Rightarrow> if JNull \<in> set events then None else Some (max_num after (map seq_or_zero events)))"

definition load_page :: "page_result \<Rightarrow> history_load \<Rightarrow> page_step" where
  "load_page result l =
     (case result of
        Page_failed \<Rightarrow> if hl_page l = 0 then Load_throws else Load_ends l
      | Page_garbled \<Rightarrow> Load_throws
      | Page_body data \<Rightarrow>
          if data = JNull then Load_throws
          else
            let events = (case jget data ''events'' of Some (JArr xs) \<Rightarrow> xs | _ \<Rightarrow> []);
                after = (case jget data ''availableFrom'' of
                    Some (JNum n) \<Rightarrow>
                      if jget data ''historyGap'' = Some (JBool True) \<and> is_safe_integer n \<and> n > 0 \<and> n - 1 > hl_after l
                      then n - 1 else hl_after l
                  | _ \<Rightarrow> hl_after l)
            in case next_after data events after of
                 None \<Rightarrow> Load_throws
               | Some cursor \<Rightarrow>
                   let truncated = (jget data ''truncated'' = Some (JBool True) \<and> cursor > after);
                       l' = l\<lparr>hl_list := hl_list l @ events, hl_after := cursor, hl_page := Suc (hl_page l)\<rparr>
                   in if events \<noteq> [] \<and> truncated \<and> hl_page l' < 100 then Load_continues l' else Load_ends l')"

definition load_resumes :: "web_env \<Rightarrow> nat \<Rightarrow> page_result \<Rightarrow> web \<Rightarrow> web" where
  "load_resumes env i result st =
     (case map_of (w_loads st) i of
        None \<Rightarrow> st
      | Some l \<Rightarrow>
          let st1 = st\<lparr>w_loads := AList.delete i (w_loads st)\<rparr>
          in case load_page result l of
               Load_throws \<Rightarrow> load_failed env l st1
             | Load_ends l' \<Rightarrow> load_done env l' st1
             | Load_continues l' \<Rightarrow> put_load l' st1)"

text \<open>The timer of a recovery.\<close>

definition gap_timer_fires :: "nat \<Rightarrow> web \<Rightarrow> web" where
  "gap_timer_fires i st =
     (case map_of (w_gapTimers st) i of
        None \<Rightarrow> st
      | Some (sid, t, delay) \<Rightarrow>
          let st1 = st\<lparr>w_gapTimers := AList.delete i (w_gapTimers st)\<rparr>;
              st2 = (case map_of (w_gaps st1) sid of
                  Some r \<Rightarrow> st1\<lparr>w_gaps := AList.update sid (r\<lparr>gr_timer := None\<rparr>) (w_gaps st1)\<rparr>
                | None \<Rightarrow> st1)
          in loadSessionEvents sid t st2)"

section \<open>The socket\<close>

definition set_socket :: "nat \<Rightarrow> ws_state \<Rightarrow> web \<Rightarrow> web" where
  "set_socket i s st =
     st\<lparr>w_sockets := map (\<lambda>(k, x). (k, if k = i then x\<lparr>wk_state := s\<rparr> else x)) (w_sockets st)\<rparr>"

text \<open>\<open>socket.close()\<close>: a socket that is already closing or closed is left as it is.\<close>

definition shut_socket :: "nat option \<Rightarrow> web \<Rightarrow> web" where
  "shut_socket k st =
     (case k of
        Some i \<Rightarrow> if sock_in W_connecting k st \<or> sock_in W_open k st then set_socket i W_closing st else st
      | None \<Rightarrow> st)"

definition connectWs :: "string \<Rightarrow> web \<Rightarrow> web" where
  "connectWs t st =
     (if t = [] then st
      else
        let st1 = shut_socket (w_socket st) st;
            i = length (w_sockets st1)
        in emit (O_socket i (''codeharbor-v1.'' @ t))
             (st1\<lparr>w_status := L_connecting, w_sockets := w_sockets st1 @ [(i, \<lparr>wk_state = W_connecting, wk_token = t\<rparr>)],
                  w_socket := Some i\<rparr>))"

definition subscribe_frame :: "string \<Rightarrow> json" where
  "subscribe_frame deviceId =
     JObj [(''type'', JStr ''subscribe''), (''deviceId'', JStr deviceId), (''replace'', JBool True)]"

definition resume_frame :: "(string, js_number) js_map \<Rightarrow> json" where
  "resume_frame cs = JObj [(''type'', JStr ''resume''), (''cursors'', JObj (map (\<lambda>(k, n). (k, JNum n)) cs))]"

definition socket_opened :: "web_env \<Rightarrow> nat \<Rightarrow> web \<Rightarrow> web" where
  "socket_opened env i st =
     (case map_of (w_sockets st) i of
        None \<Rightarrow> st
      | Some s \<Rightarrow>
          if wk_state s \<noteq> W_connecting then st
          else
            let device = v_device (w_view st);
                st1 = (set_socket i W_open st)\<lparr>w_status := L_connected, w_error := None, w_reconnectAttempts := 0, w_resumeAttempts := 0\<rparr>;
                st2 = (if device \<noteq> [] then emit (O_frame i (subscribe_frame device)) st1 else st1);
                st3 = (if w_cursors st2 \<noteq> [] then emit (O_frame i (resume_frame (w_cursors st2))) st2 else st2);
                st4 = (if v_session (w_view st3) \<noteq> [] then loadSessionEvents (v_session (w_view st3)) (wk_token s) st3 else st3);
                st5 = (if device \<noteq> [] then ask_models env st4 else st4)
            in st5\<lparr>w_heartbeat := Some i\<rparr>)"

definition web_heartbeat :: "web \<Rightarrow> web" where
  "web_heartbeat st =
     (if sock_in W_open (w_heartbeat st) st
      then emit (O_frame (the (w_heartbeat st)) (JObj [(''type'', JStr ''ping'')])) st else st)"

text \<open>Rejecting requests in the order of the map; what follows their awaits runs after the handler.\<close>

definition reject_requests :: "web_env \<Rightarrow> web_error \<Rightarrow> string list \<Rightarrow> web \<Rightarrow> web" where
  "reject_requests env e ids st = fold (\<lambda>i. settle_request env i (Rejected e)) ids st"

definition reconnect_delay :: "nat \<Rightarrow> int \<Rightarrow> int" where
  "reconnect_delay attempt jitter = min 30000 (1000 * 2 ^ min attempt 5) + jitter"

definition socket_closed :: "web_env \<Rightarrow> nat \<Rightarrow> web \<Rightarrow> web" where
  "socket_closed env i st =
     (case map_of (w_sockets st) i of
        None \<Rightarrow> st
      | Some s \<Rightarrow>
          if wk_state s = W_closed then st
          else
            let st0 = set_socket i W_closed st;
                st1 = reject_requests env E_closed (map fst (filter (\<lambda>(_, p). wp_socket p = i) (w_pending st0))) st0
            in if w_socket st1 \<noteq> Some i then st1
               else
                 let st2 = reject_requests env E_lost (map fst (w_pending st1)) (st1\<lparr>w_heartbeat := None\<rparr>);
                     st3 = st2\<lparr>w_status := L_reconnecting\<rparr>
                 in if w_activeToken st3 = wk_token s
                    then st3\<lparr>w_reconnect := Some (wk_token s, reconnect_delay (w_reconnectAttempts st3) (we_jitter env)),
                             w_reconnectAttempts := Suc (w_reconnectAttempts st3)\<rparr>
                    else st3)"

definition socket_errored :: "web \<Rightarrow> web" where
  "socket_errored st = st\<lparr>w_status := L_disconnected\<rparr>"

definition reconnect_fires :: "web \<Rightarrow> web" where
  "reconnect_fires st =
     (case w_reconnect st of
        Some (t, delay) \<Rightarrow> connectWs t (st\<lparr>w_reconnect := None\<rparr>)
      | None \<Rightarrow> st)"

section \<open>Messages\<close>

definition unwrap_message :: "json \<Rightarrow> json" where
  "unwrap_message raw =
     (if jget raw ''type'' = Some (JStr ''gateway-event'') \<and> truthy (jget raw ''payload'') then the (jget raw ''payload'') else raw)"

definition response_failed :: "web_env \<Rightarrow> json \<Rightarrow> bool" where
  "response_failed env msg =
     ((case jget msg ''status'' of
         Some (JNum n) \<Rightarrow> n \<ge> 400
       | Some (JStr s) \<Rightarrow> (case we_number env s of Some n \<Rightarrow> n \<ge> 400 | None \<Rightarrow> False)
       | _ \<Rightarrow> False)
      \<or> truthy (jget msg ''error''))"

definition response_error :: "web_env \<Rightarrow> json \<Rightarrow> web_error" where
  "response_error env msg =
     (let body = (if truthy (jget msg ''bodyBase64'') then we_body env (the (jget msg ''bodyBase64'')) else None);
          text = (case as_str (jchain body ''message'') of
              Some s \<Rightarrow> s
            | None \<Rightarrow> (case as_str (jchain body ''error'') of Some s \<Rightarrow> s | None \<Rightarrow> []))
      in if truthy (jget msg ''error'') then E_text (js_String (the (jget msg ''error'')))
         else if text \<noteq> [] then E_text text
         else E_status (case jget msg ''status'' of Some v \<Rightarrow> v | None \<Rightarrow> JNull))"

definition response_value :: "web_env \<Rightarrow> bool \<Rightarrow> json \<Rightarrow> json" where
  "response_value env raw msg =
     (if raw
      then JObj (jobj [(''status'', jget msg ''status''), (''headers'', Some (or_json (jget msg ''headers'') (JObj []))),
             (''bodyBase64'', Some (or_json (jget msg ''bodyBase64'') (JStr [])))])
      else if truthy (jget msg ''bodyBase64'')
        then (case we_body env (the (jget msg ''bodyBase64'')) of Some j \<Rightarrow> j | None \<Rightarrow> the (jget msg ''bodyBase64''))
      else JNull)"

definition on_proxy_response :: "web_env \<Rightarrow> json \<Rightarrow> web \<Rightarrow> web" where
  "on_proxy_response env msg st =
     (case jget msg ''requestId'' of
        Some (JStr i) \<Rightarrow>
          (case map_of (w_pending st) i of
             Some p \<Rightarrow>
               settle_request env i
                 (if response_failed env msg then Rejected (response_error env msg)
                  else Resolved (response_value env (wp_raw p) msg)) st
           | None \<Rightarrow> st)
      | _ \<Rightarrow> st)"

definition adopt_cursor :: "web_env \<Rightarrow> string \<times> json \<Rightarrow> web \<Rightarrow> web" where
  "adopt_cursor env c st =
     (case snd c of
        JNum n \<Rightarrow> if is_safe_integer n \<and> n \<ge> 0 \<and> n > cursor_of st (fst c) then saveCursor env (fst c) n st else st
      | _ \<Rightarrow> st)"

definition on_resume_complete :: "web_env \<Rightarrow> nat \<Rightarrow> json \<Rightarrow> web \<Rightarrow> web" where
  "on_resume_complete env i msg st =
     (let payload = jget msg ''payload''
      in if truthy (jchain payload ''truncated'') \<and> sock_in W_open (Some i) st \<and> w_resumeAttempts st < 10
         then
           let st1 = (case jchain payload ''cursors'' of
                   Some (JObj fs) \<Rightarrow> fold (adopt_cursor env) fs st
                 | _ \<Rightarrow> st)
           in if list_ex (\<lambda>(sid, n). n > cursor_of st sid) (w_cursors st1)
              then emit (O_frame i (resume_frame (w_cursors st1))) (st1\<lparr>w_resumeAttempts := Suc (w_resumeAttempts st1)\<rparr>)
              else st1
         else st)"

definition on_history_gap :: "web_env \<Rightarrow> json \<Rightarrow> web \<Rightarrow> web" where
  "on_history_gap env msg st =
     (let payload = jget msg ''payload''
      in case (jchain payload ''sessionId'', jchain payload ''availableFrom'') of
           (Some (JStr sid), Some (JNum n)) \<Rightarrow>
             if sid \<noteq> [] \<and> is_safe_integer n \<and> n > 0 then resetCursor env sid (n - 1) st else st
         | _ \<Rightarrow> st)"

text \<open>\<open>msg.sessionId || msg.payload?.sessionId || msg.payload?.threadId\<close>.\<close>

definition message_session :: "json \<Rightarrow> json option" where
  "message_session msg =
     (let payload = jget msg ''payload''
      in jor (jget msg ''sessionId'') (jor (jchain payload ''sessionId'') (jchain payload ''threadId'')))"

text \<open>The session and the number of a numbered event.\<close>

definition message_number :: "json \<Rightarrow> (string \<times> js_number) option" where
  "message_number msg =
     (case jget msg ''eventSeq'' of
        Some (JNum n) \<Rightarrow> if truthy (message_session msg) then Some (js_String (the (message_session msg)), n) else None
      | _ \<Rightarrow> None)"

definition request_key :: "json \<Rightarrow> string" where
  "request_key msg =
     (case jchain (jget msg ''payload'') ''clientRequestId'' of Some (JStr r) \<Rightarrow> ''request:'' @ r | _ \<Rightarrow> [])"

definition event_key :: "json \<Rightarrow> string" where
  "event_key msg =
     (case message_number msg of Some (sid, n) \<Rightarrow> sid @ '':'' @ num_str n | None \<Rightarrow> request_key msg)"

text \<open>An event is old, comes too early, was seen, or is news.\<close>

datatype event_verdict = Old_event | Early_event string js_number | Seen_event | News

definition event_verdict_of :: "web \<Rightarrow> json \<Rightarrow> event_verdict" where
  "event_verdict_of st msg =
     (let seen = (if request_key msg \<noteq> [] \<and> request_key msg \<in> set (w_seen st)
                     \<or> event_key msg \<noteq> [] \<and> event_key msg \<in> set (w_seen st)
                  then Seen_event else News)
      in case message_number msg of
           Some (sid, n) \<Rightarrow>
             if n \<le> cursor_of st sid then Old_event
             else if n > cursor_of st sid + 1 then Early_event sid n
             else seen
         | None \<Rightarrow> seen)"

definition remember_event :: "json \<Rightarrow> web \<Rightarrow> web" where
  "remember_event msg st =
     (if event_key msg = [] then st
      else let seen = set_add (event_key msg) (w_seen st)
           in st\<lparr>w_seen := (if int (length seen) > 2000 then slice_last 1000 seen else seen)\<rparr>)"

definition save_number :: "web_env \<Rightarrow> json \<Rightarrow> web \<Rightarrow> web" where
  "save_number env msg st = (case message_number msg of Some (sid, n) \<Rightarrow> saveCursor env sid n st | None \<Rightarrow> st)"

definition sessions_after :: "json \<Rightarrow> json list \<Rightarrow> json list" where
  "sessions_after msg ss =
     (let payload = jget msg ''payload'';
          ty = jget msg ''type'';
          status = jor (jchain payload ''status'') (jchain (jchain payload ''turn'') ''status'');
          mode = jchain payload ''sessionPolicyMode'';
          policy_sid = jor (jget msg ''sessionId'') (jchain payload ''sessionId'');
          status_sid = jor (jget msg ''sessionId'') (jchain payload ''threadId'')
      in if (ty = Some (JStr ''session-started'') \<or> ty = Some (JStr ''session-forked'')) \<and> truthy (jchain payload ''session'')
           then upsert_session (the (jchain payload ''session'')) ss
         else if ty = Some (JStr ''session-policy-changed'') \<and> truthy policy_sid
             \<and> (mode = Some (JStr ''confirm'') \<or> mode = Some (JStr ''full-access''))
           then patch_session (the policy_sid) (JObj [(''sessionPolicyMode'', the mode)]) ss
         else if (ty = Some (JStr ''session-status'') \<or> ty = Some (JStr ''session-finished'')) \<and> truthy status_sid \<and> truthy status
           then patch_session (the status_sid) (JObj [(''status'', the status)]) ss
         else ss)"

definition show_event :: "web_env \<Rightarrow> json \<Rightarrow> web \<Rightarrow> web" where
  "show_event env msg st =
     (let st1 = remember_event msg st;
          st2 = st1\<lparr>w_sessions := sessions_after msg (w_sessions st1),
                    w_rawEvents := slice_last 499 (w_rawEvents st1) @ [msg], w_liveRevision := Suc (w_liveRevision st1)\<rparr>;
          st3 = (case message_session msg of Some (JStr s) \<Rightarrow> save_number env msg st2 | _ \<Rightarrow> st2)
      in if \<not> truthy (message_session msg) \<or> message_session msg = Some (JStr (v_session (w_view st3)))
         then update_turns env (view_session st3) msg st3 else st3)"

definition live_event :: "web_env \<Rightarrow> string \<Rightarrow> json \<Rightarrow> web \<Rightarrow> web" where
  "live_event env t msg st =
     (case event_verdict_of st msg of
        Old_event \<Rightarrow> st
      | Early_event sid n \<Rightarrow> scheduleGapRecovery sid t n st
      | Seen_event \<Rightarrow> save_number env msg st
      | News \<Rightarrow> show_event env msg st)"

definition socket_message :: "web_env \<Rightarrow> nat \<Rightarrow> string \<Rightarrow> web \<Rightarrow> web" where
  "socket_message env i text st =
     (case (map_of (w_sockets st) i, ce_parse (we_client env) text) of
        (Some s, Some raw) \<Rightarrow>
          let msg = unwrap_message raw; ty = jget msg ''type''
          in if msg = JNull \<or> wk_state s \<noteq> W_open then st
             else if ty = Some (JStr ''gateway-proxy-response'') then on_proxy_response env msg st
             else if ty = Some (JStr ''resume-complete'') then on_resume_complete env i msg st
             else if ty = Some (JStr ''history-gap'') then on_history_gap env msg st
             else if ty = Some (JStr ''pong'') \<or> ty = Some (JStr ''cloud-ready'') then st
             else live_event env (wk_token s) msg st
      | _ \<Rightarrow> st)"

section \<open>Loading lists\<close>

definition is_ok :: "nat \<Rightarrow> bool" where
  "is_ok code = (200 \<le> code \<and> code < 300)"

definition has_status :: "nat \<Rightarrow> fetch_result \<Rightarrow> bool" where
  "has_status code r = (case r of F_response c _ \<Rightarrow> c = code | F_error \<Rightarrow> False)"

definition loadData :: "string \<Rightarrow> string \<Rightarrow> string \<Rightarrow> web \<Rightarrow> web" where
  "loadData device session t st =
     (if t = [] then st
      else suspend (T_data t device session)
             (emit (O_fetch ''GET'' ''/sessions'' t None) (emit (O_fetch ''GET'' ''/devices'' t None) st)))"

definition list_field :: "json \<Rightarrow> string \<Rightarrow> json list" where
  "list_field body k = (case jget body k of Some (JArr xs) \<Rightarrow> xs | _ \<Rightarrow> [])"

definition platform_error :: web_error where
  "platform_error = E_text ''TypeError''"

text \<open>The answers of both requests. A body that cannot be read ends the call with its error.\<close>

definition data_sessions :: "string \<Rightarrow> fetch_result \<Rightarrow> web \<Rightarrow> web" where
  "data_sessions selected r st =
     (case r of
        F_response code body \<Rightarrow>
          if \<not> is_ok code then st
          else (case body of
                  None \<Rightarrow> showError platform_error st
                | Some b \<Rightarrow>
                    if b = JNull then showError platform_error st
                    else
                      let ss = list_field b ''sessions'';
                          st1 = st\<lparr>w_sessions := ss\<rparr>
                      in if selected = [] \<and> ss \<noteq> []
                         then st1\<lparr>w_session := (case jget (hd ss) ''id'' of Some i \<Rightarrow> js_String i | None \<Rightarrow> [])\<rparr> else st1)
      | F_error \<Rightarrow> st)"

definition online_device :: "json list \<Rightarrow> string" where
  "online_device ds =
     (let d = (case List.find (\<lambda>d. truthy (jget d ''connected'')) ds of Some d \<Rightarrow> d | None \<Rightarrow> hd ds)
      in case jget d ''deviceId'' of Some i \<Rightarrow> js_String i | None \<Rightarrow> [])"

definition data_loaded :: "string \<Rightarrow> string \<Rightarrow> fetch_result \<Rightarrow> fetch_result \<Rightarrow> web \<Rightarrow> web" where
  "data_loaded device session devRes sessRes st =
     (if has_status 401 devRes \<or> has_status 401 sessRes
      then showError E_login_expired (st\<lparr>w_token := [], w_device := [], w_session := []\<rparr>)
      else case devRes of
          F_response code body \<Rightarrow>
            if \<not> is_ok code then data_sessions session sessRes st
            else (case body of
                    None \<Rightarrow> showError platform_error st
                  | Some b \<Rightarrow>
                      if b = JNull then showError platform_error st
                      else
                        let ds = list_field b ''devices'';
                            st1 = st\<lparr>w_devices := ds\<rparr>;
                            st2 = (if device = [] \<and> ds \<noteq> [] then st1\<lparr>w_device := online_device ds\<rparr> else st1)
                        in data_sessions session sessRes st2)
        | F_error \<Rightarrow> data_sessions session sessRes st)"

section \<open>Account\<close>

text \<open>Cursors and keys of seen events belong to an account.\<close>

definition forget_account :: "web \<Rightarrow> web" where
  "forget_account st = st\<lparr>w_cursors := [], w_storedCursors := None, w_seen := []\<rparr>"

definition upper_char :: "char \<Rightarrow> char" where
  "upper_char c = (let n = of_char c :: nat in if 97 \<le> n \<and> n \<le> 122 then char_of (n - 32) else c)"

definition login :: "string option \<Rightarrow> web \<Rightarrow> web" where
  "login pairCode st =
     (let code = map_option (\<lambda>c. map upper_char (trim c)) pairCode;
          body = (case code of
              Some (c # cs) \<Rightarrow> JObj [(''token'', JStr (c # cs))]
            | _ \<Rightarrow> JObj [(''username'', JStr (v_user (w_view st))), (''password'', JStr (v_password (w_view st)))])
      in suspend (T_login (v_user (w_view st)))
           (emit (O_fetch ''POST'' ''/auth/login'' [] (Some body)) (st\<lparr>w_error := None\<rparr>)))"

definition sign_in_answered :: "string \<Rightarrow> fetch_result \<Rightarrow> web \<Rightarrow> web" where
  "sign_in_answered user r st =
     (case r of
        F_error \<Rightarrow> showError platform_error st
      | F_response code body \<Rightarrow>
          if \<not> is_ok code then showError E_bad_login st
          else (case body of
                  None \<Rightarrow> showError platform_error st
                | Some b \<Rightarrow>
                    if b = JNull then showError platform_error st
                    else if \<not> truthy (jget b ''token'') then showError E_no_token st
                    else
                      let st1 = forget_account (st\<lparr>w_storedUser := Some (case as_str (jget b ''username'') of Some u \<Rightarrow> u | None \<Rightarrow> user)\<rparr>);
                          st2 = (case as_str (jget b ''deviceId'') of
                              Some (c # cs) \<Rightarrow> st1\<lparr>w_device := c # cs\<rparr>
                            | _ \<Rightarrow> st1)
                      in st2\<lparr>w_password := [], w_token := js_String (the (jget b ''token''))\<rparr>))"

definition registerAccount :: "string \<Rightarrow> string \<Rightarrow> web \<Rightarrow> web" where
  "registerAccount username registrationPassword st =
     suspend (T_register username)
       (emit (O_fetch ''POST'' ''/auth/register'' []
                (Some (JObj [(''username'', JStr username), (''password'', JStr registrationPassword)])))
         (st\<lparr>w_error := None\<rparr>))"

definition register_answered :: "string \<Rightarrow> fetch_result \<Rightarrow> web \<Rightarrow> web" where
  "register_answered username r st =
     (case r of
        F_error \<Rightarrow> showError platform_error st
      | F_response code body \<Rightarrow>
          let data = (case body of Some b \<Rightarrow> b | None \<Rightarrow> JObj [])
          in if \<not> is_ok code
             then showError
               (if jget data ''error'' = Some (JStr ''account_exists'') then E_account_exists
                else if jget data ''error'' = Some (JStr ''invalid_account'') then E_invalid_account
                else E_register_failed) st
             else if data = JNull then showError platform_error st
             else case as_str (jget data ''token'') of
                 Some (c # cs) \<Rightarrow>
                   let name = (case as_str (jget data ''username'') of Some u \<Rightarrow> u | None \<Rightarrow> toLowerCase (trim username));
                       st1 = forget_account (st\<lparr>w_storedUser := Some name\<rparr>)
                   in st1\<lparr>w_user := name, w_password := [], w_token := c # cs\<rparr>
               | _ \<Rightarrow> showError E_no_register_token st)"

definition logout :: "web \<Rightarrow> web" where
  "logout st =
     (let t = v_token (w_view st);
          st1 = (if t \<noteq> [] then emit (O_fetch ''POST'' ''/auth/logout'' t None) st else st);
          st2 = (forget_account st1)\<lparr>w_token := [], w_devices := [], w_device := [], w_sessions := [], w_session := [],
                   w_rawEvents := [], w_turns := [], w_activeToken := []\<rparr>;
          st3 = clear_gaps st2
      in shut_socket (w_socket st3) st3)"

definition session_token_answered :: "fetch_result \<Rightarrow> web \<Rightarrow> web" where
  "session_token_answered r st =
     (case r of
        F_response code (Some b) \<Rightarrow>
          (case as_str (jget b ''token'') of
             Some t \<Rightarrow> if is_ok code \<and> length t > 16 then st\<lparr>w_token := t\<rparr> else st
           | None \<Rightarrow> st)
      | _ \<Rightarrow> st)"

text \<open>The effect of a new token: refresh it when it expires soon, then load the lists and connect. A token that
  has expired and cannot be refreshed is dropped.\<close>

definition tokenRefreshWindowMs :: js_number where
  "tokenRefreshWindowMs = 3 * 24 * 60 * 60 * 1000"

definition open_account :: "string \<Rightarrow> string \<Rightarrow> string \<Rightarrow> web \<Rightarrow> web" where
  "open_account device session t st = connectWs t (loadData device session t st)"

definition bootstrap :: "web_env \<Rightarrow> web \<Rightarrow> web" where
  "bootstrap env st =
     (let t = v_token (w_view st); device = v_device (w_view st); session = v_session (w_view st)
      in case tokenExpiryMs env t of
           Some expiry \<Rightarrow>
             if expiry - of_int (ce_now (we_client env)) < tokenRefreshWindowMs
             then suspend (T_refresh (w_effect st) t expiry device session) (emit (O_fetch ''POST'' ''/auth/refresh'' t None) st)
             else open_account device session t st
         | None \<Rightarrow> open_account device session t st)"

definition refresh_answered ::
  "web_env \<Rightarrow> nat \<Rightarrow> string \<Rightarrow> js_number \<Rightarrow> string \<Rightarrow> string \<Rightarrow> fetch_result \<Rightarrow> web \<Rightarrow> web" where
  "refresh_answered env effect t expiry device session r st =
     (let cancelled = (effect \<noteq> w_effect st);
          refreshed = (case r of
              F_response code (Some b) \<Rightarrow>
                if is_ok code then (case as_str (jget b ''token'') of Some x \<Rightarrow> if length x > 16 then Some x else None | None \<Rightarrow> None)
                else None
            | _ \<Rightarrow> None)
      in if refreshed \<noteq> None \<and> \<not> cancelled then st\<lparr>w_token := the refreshed\<rparr>
         else if expiry \<le> of_int (ce_now (we_client env))
           then (if cancelled then st else showError E_login_expired (st\<lparr>w_token := [], w_status := L_disconnected\<rparr>))
         else if cancelled then st
         else open_account device session t st)"

text \<open>The end of a connection: what the effect of the token undoes when the token changes.\<close>

definition end_connection :: "web \<Rightarrow> web" where
  "end_connection st =
     (let st1 = clear_gaps (st\<lparr>w_reconnect := None, w_heartbeat := None\<rparr>)
      in shut_socket (w_socket st1) (st1\<lparr>w_socket := None\<rparr>))"

definition no_account :: "web \<Rightarrow> web" where
  "no_account st =
     st\<lparr>w_devices := [], w_device := [], w_sessions := [], w_models := [], w_session := [], w_status := L_disconnected,
        w_rawEvents := [], w_turns := []\<rparr>"

definition revokeDevice :: "string \<Rightarrow> web \<Rightarrow> web" where
  "revokeDevice deviceId st =
     (let t = v_token (w_view st)
      in if deviceId = [] \<or> t = [] then st
         else suspend (T_revoke deviceId)
                (emit (O_fetch ''POST'' (''/devices/'' @ encodeURIComponent deviceId @ ''/revoke'') t None) st))"

definition revoke_answered :: "string \<Rightarrow> fetch_result \<Rightarrow> web \<Rightarrow> web" where
  "revoke_answered deviceId r st =
     (case r of
        F_response code _ \<Rightarrow>
          if \<not> is_ok code then st
          else
            let st1 = st\<lparr>w_devices := filter (\<lambda>d. jget d ''deviceId'' \<noteq> Some (JStr deviceId)) (w_devices st)\<rparr>
            in if v_device (w_view st1) = deviceId then st1\<lparr>w_device := [], w_session := [], w_turns := []\<rparr> else st1
      | F_error \<Rightarrow> st)"

definition task_resumes :: "web_env \<Rightarrow> nat \<Rightarrow> fetch_result \<Rightarrow> fetch_result \<Rightarrow> web \<Rightarrow> web" where
  "task_resumes env i r r' st =
     (case map_of (w_tasks st) i of
        None \<Rightarrow> st
      | Some task \<Rightarrow>
          let st1 = st\<lparr>w_tasks := AList.delete i (w_tasks st)\<rparr>
          in (case task of
                T_data t device session \<Rightarrow> data_loaded device session r r' st1
              | T_refresh effect t expiry device session \<Rightarrow> refresh_answered env effect t expiry device session r st1
              | T_login user \<Rightarrow> sign_in_answered user r st1
              | T_register user \<Rightarrow> register_answered user r st1
              | T_session_token \<Rightarrow> session_token_answered r st1
              | T_revoke deviceId \<Rightarrow> revoke_answered deviceId r st1))"

section \<open>Actions of the user\<close>

definition session_path :: "string \<Rightarrow> string \<Rightarrow> string" where
  "session_path sid rest = ''/sessions/'' @ encodeURIComponent sid @ rest"

definition deadline :: "web_env \<Rightarrow> int \<Rightarrow> json" where
  "deadline env minutes = JStr (toISOString (ce_now (we_client env) + minutes * 60 * 1000))"

definition opt_text :: "string option \<Rightarrow> json option" where
  "opt_text s = (case s of Some (c # cs) \<Rightarrow> Some (JStr (c # cs)) | _ \<Rightarrow> None)"

record turn_options =
  to_model :: "string option"
  to_effort :: "string option"
  to_multiAgentMode :: "string option"
  to_policyMode :: "string option"

definition prompt_body :: "web_env \<Rightarrow> string \<Rightarrow> json list \<Rightarrow> turn_options \<Rightarrow> json option \<Rightarrow> json" where
  "prompt_body env promptText attachments opts policy =
     JObj (jobj [(''clientRequestId'', Some (JStr (we_uuid env))), (''expiresAt'', Some (deadline env 10)),
       (''prompt'', Some (JStr promptText)), (''attachments'', if attachments \<noteq> [] then Some (JArr attachments) else None),
       (''model'', opt_text (to_model opts)), (''effort'', opt_text (to_effort opts)),
       (''multiAgentMode'', opt_text (to_multiAgentMode opts)),
       (''sessionPolicyMode'', jcoalesce (jstr_or_undef (to_policyMode opts)) (jcoalesce policy (Some (JStr ''confirm''))))])"

definition optimistic_event :: "web_env \<Rightarrow> string \<Rightarrow> string \<Rightarrow> json list \<Rightarrow> json" where
  "optimistic_event env sid promptText attachments =
     JObj [(''type'', JStr ''session-user-input''), (''sessionId'', JStr sid),
           (''timestamp'', JStr (toISOString (ce_now (we_client env)))),
           (''payload'', JObj [(''sessionId'', JStr sid), (''clientRequestId'', JStr (we_uuid env)),
              (''prompt'', JStr promptText), (''attachments'', JArr attachments)])]"

text \<open>The prompt appears at once, under a key that its echo will carry. \<open>request\<close> is the environment of the
  request that follows, with a fresh id of its own.\<close>

definition sendPrompt :: "web_env \<Rightarrow> web_env \<Rightarrow> string \<Rightarrow> json list \<Rightarrow> turn_options \<Rightarrow> web \<Rightarrow> web" where
  "sendPrompt env request promptText attachments opts st =
     (let sid = v_session (w_view st)
      in if sid = [] \<or> (trim promptText = [] \<and> attachments = []) then st
         else
           let st1 = st\<lparr>w_seen := set_add (''request:'' @ we_uuid env) (w_seen st)\<rparr>;
               st2 = update_turns env (view_session st1) (optimistic_event env sid promptText attachments) st1
           in sendGatewayProxy request ''POST'' (session_path sid ''/turns'')
                (Some (prompt_body env promptText attachments opts (jchain (view_session st1) ''sessionPolicyMode'')))
                False K_prompt st2)"

definition downloadFile :: "web_env \<Rightarrow> string \<Rightarrow> web \<Rightarrow> web" where
  "downloadFile env filePath st =
     (let sid = v_session (w_view st)
      in if sid = [] then st
         else sendGatewayProxy env ''GET''
                (''/files/download?sessionId='' @ encodeURIComponent sid @ ''&path='' @ encodeURIComponent filePath)
                None True K_download st)"

text \<open>The approval that a decision is about: the newest pending one with the id, else the newest.\<close>

definition shown_approvals :: "turn_message list \<Rightarrow> approval_request list" where
  "shown_approvals turns = concat (map (\<lambda>t. rev (tm_approvals t)) (rev turns))"

definition chosen_approval :: "string \<Rightarrow> turn_message list \<Rightarrow> approval_request option" where
  "chosen_approval requestId turns =
     (case List.find (\<lambda>a. ar_requestId a = JStr requestId \<and> ar_status a = P_pending) (shown_approvals turns) of
        Some a \<Rightarrow> Some a
      | None \<Rightarrow> List.find (\<lambda>a. ar_requestId a = JStr requestId) (shown_approvals turns))"

definition sendApprovalDecision ::
  "web_env \<Rightarrow> string \<Rightarrow> card_decision \<Rightarrow> string list option \<Rightarrow> string option \<Rightarrow> web \<Rightarrow> web" where
  "sendApprovalDecision env requestId decision amendment approvalTurnId st =
     (let sid = v_session (w_view st);
          approval = chosen_approval requestId (v_turns (w_view st));
          turnId = (case approvalTurnId of Some t \<Rightarrow> Some t | None \<Rightarrow> Option.bind approval ar_turnId)
      in if sid = [] then st
         else sendGatewayProxy env ''POST'' (session_path sid (''/approvals/'' @ encodeURIComponent requestId))
           (Some (JObj (jobj [(''decision'', Some (JStr (if decision = D_approve then ''approve'' else ''deny''))),
              (''requestId'', Some (JStr requestId)), (''turnId'', jstr_or_undef turnId),
              (''expiresAt'', jstr_or_undef (Option.bind approval ar_expiresAt)),
              (''execpolicyAmendment'', case amendment of Some (r # rs) \<Rightarrow> Some (JArr (map JStr (r # rs))) | _ \<Rightarrow> None)])))
           False (K_approval sid requestId decision (view_session st)) st)"

definition interruptTask :: "web_env \<Rightarrow> web \<Rightarrow> web" where
  "interruptTask env st =
     (let sid = v_session (w_view st);
          turns = v_turns (w_view st);
          streaming = List.find (\<lambda>t. tm_status t = A_streaming) (rev turns);
          activeTurnId = jcoalesce (jchain (view_session st) ''activeTurnId'') (map_option tm_turnId streaming)
      in if sid = [] then st
         else sendGatewayProxy env ''POST'' (session_path sid ''/interrupt'')
           (Some (JObj (jobj [(''turnId'', activeTurnId), (''expiresAt'', Some (deadline env 2))])))
           False (K_interrupt sid (turns \<noteq> [])) st)"

definition resumeTask :: "web_env \<Rightarrow> web \<Rightarrow> web" where
  "resumeTask env st =
     (let sid = v_session (w_view st)
      in if sid = [] then st
         else sendGatewayProxy env ''POST'' (''/api/threads/'' @ encodeURIComponent sid @ ''/resume'')
           (Some (JObj [(''expiresAt'', deadline env 2)])) False (K_resume sid) st)"

definition setSessionPolicyMode :: "web_env \<Rightarrow> string \<Rightarrow> bool \<Rightarrow> web \<Rightarrow> web" where
  "setSessionPolicyMode env mode confirmFullAccess st =
     (let sid = v_session (w_view st)
      in if sid = [] then st
         else sendGatewayProxy env ''PATCH'' (session_path sid ''/policy'')
           (Some (JObj (jobj [(''sessionPolicyMode'', Some (JStr mode)),
              (''confirmFullAccess'', if confirmFullAccess then Some (JBool True) else None),
              (''expiresAt'', Some (deadline env 2))])))
           False (K_policy sid mode) st)"

record session_params =
  sp_workspacePath :: string
  sp_prompt :: string
  sp_title :: "string option"
  sp_confirm :: bool
  sp_options :: turn_options

definition createNewSession :: "web_env \<Rightarrow> web_env \<Rightarrow> session_params \<Rightarrow> web \<Rightarrow> web" where
  "createNewSession env request params st =
     (let opts = sp_options params
      in sendGatewayProxy request ''POST'' ''/sessions''
        (Some (JObj (jobj [(''clientRequestId'', Some (JStr (we_uuid env))), (''workspacePath'', Some (JStr (sp_workspacePath params))),
           (''prompt'', Some (JStr (sp_prompt params))), (''expiresAt'', Some (deadline env 10)),
           (''title'', Some (case opt_text (sp_title params) of Some t \<Rightarrow> t | None \<Rightarrow> JStr (take 30 (sp_prompt params)))),
           (''sessionPolicyMode'', Some (case opt_text (to_policyMode opts) of Some m \<Rightarrow> m | None \<Rightarrow> JStr ''confirm'')),
           (''confirmFullAccess'', if sp_confirm params then Some (JBool True) else None),
           (''model'', opt_text (to_model opts)), (''effort'', opt_text (to_effort opts)),
           (''multiAgentMode'', opt_text (to_multiAgentMode opts))])))
        False K_create st)"

definition forkSession :: "web_env \<Rightarrow> string \<Rightarrow> web \<Rightarrow> web" where
  "forkSession env sourceSessionId st =
     sendGatewayProxy env ''POST'' (session_path sourceSessionId ''/fork'')
       (Some (JObj [(''threadSource'', JStr ''subagent''), (''sessionPolicyMode'', JStr ''confirm''), (''expiresAt'', deadline env 10)]))
       False K_fork st"

section \<open>Rendering and runs\<close>

definition view_of :: "web \<Rightarrow> web_view" where
  "view_of st =
     \<lparr>v_user = w_user st, v_password = w_password st, v_token = w_token st, v_sessions = w_sessions st,
      v_device = w_device st, v_session = w_session st, v_turns = w_turns st\<rparr>"

definition session_effect :: "web \<Rightarrow> web" where
  "session_effect st =
     (if v_session (w_view st) \<noteq> [] \<and> v_token (w_view st) \<noteq> []
      then loadSessionEvents (v_session (w_view st)) (v_token (w_view st)) st
      else st\<lparr>w_turns := []\<rparr>)"

definition device_effect :: "web_env \<Rightarrow> web \<Rightarrow> web" where
  "device_effect env st =
     (if sock_in W_open (w_socket st) st \<and> v_device (w_view st) \<noteq> []
      then ask_models env (emit (O_frame (the (w_socket st)) (subscribe_frame (v_device (w_view st)))) st)
      else st)"

definition token_effect :: "web_env \<Rightarrow> web \<Rightarrow> web" where
  "token_effect env st = (if v_token (w_view st) \<noteq> [] then bootstrap env st else no_account st)"

text \<open>A render: refs and closures get the present state; then the effects whose dependencies changed are undone
  and run, in the order of the source.\<close>

definition render :: "web_env \<Rightarrow> web \<Rightarrow> web" where
  "render env st =
     (let old = w_view st;
          st0 = st\<lparr>w_view := view_of st, w_activeToken := w_token st\<rparr>;
          new = w_view st0;
          new_token = (v_token new \<noteq> v_token old);
          st1 = (if new_token then (end_connection st0)\<lparr>w_effect := Suc (w_effect st0)\<rparr> else st0);
          st2 = (if v_session new \<noteq> v_session old \<or> new_token then session_effect st1 else st1);
          st3 = (if v_device new \<noteq> v_device old then device_effect env st2 else st2)
      in if new_token then token_effect env st3 else st3)"

text \<open>The first render: what the browser has stored, and the first run of every effect.\<close>

definition initial_user :: "string option \<Rightarrow> string" where
  "initial_user saved =
     (let u = (case saved of Some s \<Rightarrow> trim s | None \<Rightarrow> [])
      in if toLowerCase u = ''admin'' then [] else u)"

definition mount :: "web_env \<Rightarrow> string option \<Rightarrow> string option \<Rightarrow> string option \<Rightarrow> web" where
  "mount env savedUser savedToken savedCursors =
     (let user = initial_user savedUser;
          st = \<lparr>w_user = user, w_password = [], w_token = [], w_devices = [], w_device = [], w_sessions = [], w_models = [],
             w_session = [], w_status = L_disconnected, w_error = None, w_rawEvents = [], w_turns = [],
             w_view = \<lparr>v_user = user, v_password = [], v_token = [], v_sessions = [], v_device = [], v_session = [], v_turns = []\<rparr>,
             w_activeToken = [], w_cursors = loaded_cursors env savedCursors, w_storedCursors = None, w_storedUser = None,
             w_sockets = [], w_socket = None, w_reconnect = None, w_heartbeat = None, w_reconnectAttempts = 0,
             w_resumeAttempts = 0, w_liveRevision = 0, w_seen = [], w_gaps = [], w_gapTimers = [], w_nextTimer = 1,
             w_pending = [], w_settled = [], w_loads = [], w_nextLoad = 0, w_tasks = [], w_nextTask = 0, w_effect = 0,
             w_outputs = [], w_crashed = False\<rparr>
      in case savedToken of
           Some (c # cs) \<Rightarrow> st\<lparr>w_token := c # cs\<rparr>
         | _ \<Rightarrow> suspend T_session_token (emit (O_fetch ''GET'' ''/auth/session-token'' [] None) st))"

datatype web_event =
    Ev_render
  | Ev_open nat
  | Ev_close nat
  | Ev_error
  | Ev_message nat string
  | Ev_reconnect
  | Ev_heartbeat
  | Ev_gap_timer nat
  | Ev_timeout string
  | Ev_page nat page_result
  | Ev_task nat fetch_result fetch_result
  | Ev_login "string option"
  | Ev_register string string
  | Ev_logout
  | Ev_refresh_data
  | Ev_type_user string
  | Ev_type_password string
  | Ev_select_session string
  | Ev_select_device string
  | Ev_clear_error
  | Ev_prompt web_env string "json list" turn_options
  | Ev_download string
  | Ev_decide string card_decision "string list option" "string option"
  | Ev_interrupt
  | Ev_resume
  | Ev_policy string bool
  | Ev_revoke string
  | Ev_create web_env session_params
  | Ev_fork string

definition web_event_step :: "web_env \<Rightarrow> web_event \<Rightarrow> web \<Rightarrow> web" where
  "web_event_step env e st =
     (case e of
        Ev_render \<Rightarrow> render env st
      | Ev_open i \<Rightarrow> socket_opened env i st
      | Ev_close i \<Rightarrow> socket_closed env i st
      | Ev_error \<Rightarrow> socket_errored st
      | Ev_message i text \<Rightarrow> socket_message env i text st
      | Ev_reconnect \<Rightarrow> reconnect_fires st
      | Ev_heartbeat \<Rightarrow> web_heartbeat st
      | Ev_gap_timer i \<Rightarrow> gap_timer_fires i st
      | Ev_timeout i \<Rightarrow> web_timeout env i st
      | Ev_page i r \<Rightarrow> load_resumes env i r st
      | Ev_task i r r' \<Rightarrow> task_resumes env i r r' st
      | Ev_login code \<Rightarrow> login code st
      | Ev_register user pw \<Rightarrow> registerAccount user pw st
      | Ev_logout \<Rightarrow> logout st
      | Ev_refresh_data \<Rightarrow> loadData (v_device (w_view st)) (v_session (w_view st)) (v_token (w_view st)) st
      | Ev_type_user u \<Rightarrow> st\<lparr>w_user := u\<rparr>
      | Ev_type_password p \<Rightarrow> st\<lparr>w_password := p\<rparr>
      | Ev_select_session s \<Rightarrow> st\<lparr>w_session := s\<rparr>
      | Ev_select_device d \<Rightarrow> st\<lparr>w_device := d\<rparr>
      | Ev_clear_error \<Rightarrow> st\<lparr>w_error := None\<rparr>
      | Ev_prompt request text attachments opts \<Rightarrow> sendPrompt env request text attachments opts st
      | Ev_download path \<Rightarrow> downloadFile env path st
      | Ev_decide i d amendment turn \<Rightarrow> sendApprovalDecision env i d amendment turn st
      | Ev_interrupt \<Rightarrow> interruptTask env st
      | Ev_resume \<Rightarrow> resumeTask env st
      | Ev_policy mode c \<Rightarrow> setSessionPolicyMode env mode c st
      | Ev_revoke d \<Rightarrow> revokeDevice d st
      | Ev_create request params \<Rightarrow> createNewSession env request params st
      | Ev_fork s \<Rightarrow> forkSession env s st)"

definition web_step :: "web_env \<times> web_event \<Rightarrow> web \<Rightarrow> web" where
  "web_step e st = (if w_crashed st then st else web_event_step (fst e) (snd e) st)"

definition web_run :: "(web_env \<times> web_event) list \<Rightarrow> web \<Rightarrow> web" where
  "web_run es st = fold web_step es st"

end
