(* ===== verification/WebFrames.thy ===== *)
theory WebFrames
  imports WebClient
begin

text \<open>
  Parts of the state of the web client and what leaves them alone. A part is a function of the state that does not
  depend on what is merely shown, on timers of recoveries and on loads of the history, that ignores the frames
  that are sent, except for requests to the gateway, and the HTTP requests, and that counts no suspended call but a refresh of the token and the request for a token at start-up. The properties of the client
  look at three such parts: the cursors, the requests with their sockets, and the connection.
\<close>

lemma frame_types [simp]:
  "jget (subscribe_frame d) ''type'' = Some (JStr ''subscribe'')" "jget (resume_frame cs) ''type'' = Some (JStr ''resume'')"
  "jget (JObj [(''type'', JStr t)]) ''type'' = Some (JStr t)"
  by (simp_all add: subscribe_frame_def resume_frame_def jget_def)

locale web_part =
  fixes part :: "web \<Rightarrow> 'a"
  assumes shown: "part (st\<lparr>w_turns := turns\<rparr>) = part st" "part (st\<lparr>w_crashed := c\<rparr>) = part st"
      "part (st\<lparr>w_error := err\<rparr>) = part st" "part (st\<lparr>w_sessions := ss\<rparr>) = part st" "part (st\<lparr>w_session := sid\<rparr>) = part st"
      "part (st\<lparr>w_devices := ds\<rparr>) = part st" "part (st\<lparr>w_device := d\<rparr>) = part st" "part (st\<lparr>w_models := ms\<rparr>) = part st"
      "part (st\<lparr>w_status := ls\<rparr>) = part st" "part (st\<lparr>w_rawEvents := es\<rparr>) = part st" "part (st\<lparr>w_user := u\<rparr>) = part st"
      "part (st\<lparr>w_password := p\<rparr>) = part st" "part (st\<lparr>w_storedUser := su\<rparr>) = part st" "part (st\<lparr>w_activeToken := atk\<rparr>) = part st"
    and kept: "part (st\<lparr>w_gaps := gs\<rparr>) = part st" "part (st\<lparr>w_gapTimers := gt\<rparr>) = part st" "part (st\<lparr>w_nextTimer := n\<rparr>) = part st"
      "part (st\<lparr>w_loads := hs\<rparr>) = part st" "part (st\<lparr>w_nextLoad := n\<rparr>) = part st" "part (st\<lparr>w_liveRevision := n\<rparr>) = part st"
      "part (st\<lparr>w_seen := keys\<rparr>) = part st" "part (st\<lparr>w_heartbeat := hb\<rparr>) = part st" "part (st\<lparr>w_storedCursors := sc\<rparr>) = part st"
      "part (st\<lparr>w_reconnectAttempts := n\<rparr>) = part st" "part (st\<lparr>w_resumeAttempts := n\<rparr>) = part st"
    and sent: "jget j ''type'' \<noteq> Some (JStr ''gateway-proxy'') \<Longrightarrow> part (emit (O_frame k j) st) = part st" "part (emit (O_fetch verb path t b) st) = part st"
    and waiting: "(\<And>k t x d s. task \<noteq> T_refresh k t x d s) \<Longrightarrow> task \<noteq> T_session_token \<Longrightarrow> part (suspend task st) = part st"
begin

lemmas fields = shown kept sent waiting

lemma basic_frames:
  "part (showError e st) = part st" "part (update_turns env ses ev st) = part st"
  "part (clear_gap_timer k st) = part st" "part (clear_gaps st) = part st" "part (adopt_session e v st) = part st"
  "part (put_load l st) = part st" "part (loadSessionEvents s t st) = part st" "part (store_cursors env st) = part st"
  "part (socket_errored st) = part st" "part (no_account st) = part st" "part (remember_event m st) = part st"
  by (simp_all add: showError_def update_turns_def clear_gap_timer_def clear_gaps_def adopt_session_def put_load_def
      history_request_def loadSessionEvents_def store_cursors_def socket_errored_def no_account_def remember_event_def
      Let_def fields split: option.split)

lemma gap_frames:
  "part (scheduleGapRecovery s t n st) = part st" "part (settle_gap l n st) = part st" "part (gap_timer_fires i st) = part st"
  by (simp_all add: scheduleGapRecovery_def settle_gap_def gap_timer_fires_def Let_def basic_frames fields split: option.split)

lemma call_frames: "part (resume_call env c r st) = part st" "part (web_heartbeat st) = part st"
  by (simp_all add: resume_call_def interrupt_done_def resume_done_def policy_done_def decision_failed_def web_heartbeat_def
      basic_frames fields split: call_result.split web_call.split)

lemma load_failed_frame: "part (load_failed env l st) = part st"
  by (simp add: load_failed_def fields split: option.split)

lemma account_frames:
  "part (loadData d s t st) = part st" "part (data_sessions s r st) = part st" "part (revokeDevice d st) = part st"
  "part (revoke_answered d r st) = part st" "part (login code st) = part st" "part (registerAccount u p st) = part st"
  "part (session_effect st) = part st"
  by (auto simp: loadData_def data_sessions_def revokeDevice_def revoke_answered_def login_def registerAccount_def
      session_effect_def Let_def basic_frames fields split: fetch_result.split option.split)

lemmas frames = fields basic_frames gap_frames call_frames load_failed_frame account_frames

end

section \<open>A sample environment\<close>

text \<open>A browser in which nothing can be parsed, with the id of the next request.\<close>

definition plain_env :: "string \<Rightarrow> web_env" where
  "plain_env uuid =
     \<lparr>we_client = \<lparr>ce_parse = (\<lambda>_. None), ce_now = 0, ce_random = ''r''\<rparr>, we_uuid = uuid, we_jitter = 0,
      we_number = (\<lambda>_. None), we_date = (\<lambda>_. None), we_atob = (\<lambda>_. None), we_body = (\<lambda>_. None), we_storage = True\<rparr>"

text \<open>A device is chosen and the client connects with a stored token, which makes it ask for the models.\<close>

definition sample_connect :: "(web_env \<times> web_event) list" where
  "sample_connect = map (Pair (plain_env ''u1'')) [Ev_select_device ''d'', Ev_render, Ev_open 0]"

end
