(* ===== verification/WebProps.thy ===== *)
theory WebProps
  imports WebFrames
begin

text \<open>
  Properties of the event streams of the web client: live events of a session are shown in order, without gaps
  and once; what happens to an event that comes too early.
\<close>

section \<open>What leaves the cursors alone\<close>

named_theorems web_frames \<open>operations that do not touch a part of the state\<close>

interpretation cursor_part: web_part w_cursors
  by unfold_locales (simp_all add: emit_def suspend_def)

lemmas cursor_frames [web_frames] = cursor_part.frames

lemma emit_cursors [web_frames]: "w_cursors (emit out st) = w_cursors st"
  by (simp add: emit_def)

lemma socket_state_cursors [web_frames]: "w_cursors (set_socket i s st) = w_cursors st"
  by (simp add: set_socket_def)

lemma call_cursors [web_frames]:
  "w_cursors (settle_request env i r st) = w_cursors st" "w_cursors (web_timeout env i st) = w_cursors st"
  "w_cursors (sendGatewayProxy env v p b raw c st) = w_cursors st" "w_cursors (ask_models env st) = w_cursors st"
  "w_cursors (on_proxy_response env m st) = w_cursors st"
  by (simp_all add: settle_request_def web_timeout_def sendGatewayProxy_def ask_models_def on_proxy_response_def web_frames
      split: option.split json.split)

lemma reject_cursors [web_frames]: "w_cursors (reject_requests env e is st) = w_cursors st"
  unfolding reject_requests_def by (induction "is" arbitrary: st) (simp_all add: web_frames)

lemma shut_socket_cursors [web_frames]: "w_cursors (shut_socket k st) = w_cursors st"
  by (simp add: shut_socket_def web_frames split: option.split)

lemma connect_cursors [web_frames]: "w_cursors (connectWs t st) = w_cursors st"
  by (simp add: connectWs_def Let_def web_frames emit_def)

lemma socket_cursors [web_frames]:
  "w_cursors (end_connection st) = w_cursors st" "w_cursors (reconnect_fires st) = w_cursors st"
  "w_cursors (socket_opened env i st) = w_cursors st" "w_cursors (socket_closed env i st) = w_cursors st"
  by (auto simp: end_connection_def reconnect_fires_def socket_opened_def socket_closed_def Let_def web_frames
      split: option.split)

lemma account_cursors [web_frames]:
  "w_cursors (data_loaded d s r r' st) = w_cursors st" "w_cursors (open_account d s t st) = w_cursors st"
  "w_cursors (session_token_answered r st) = w_cursors st"
  by (auto simp: data_loaded_def open_account_def session_token_answered_def Let_def web_frames
      split: fetch_result.split option.split)

lemma bootstrap_cursors [web_frames]:
  "w_cursors (bootstrap env st) = w_cursors st" "w_cursors (refresh_answered env k t x d s r st) = w_cursors st"
  by (auto simp: bootstrap_def refresh_answered_def suspend_def Let_def web_frames split: option.split)

lemma effect_cursors [web_frames]:
  "w_cursors (device_effect env st) = w_cursors st" "w_cursors (token_effect env st) = w_cursors st"
  by (simp_all add: device_effect_def token_effect_def web_frames)

lemma render_cursors [web_frames]: "w_cursors (render env st) = w_cursors st"
  by (simp add: render_def Let_def web_frames)

lemma action_cursors [web_frames]:
  "w_cursors (sendPrompt env r p a opts st) = w_cursors st" "w_cursors (downloadFile env f st) = w_cursors st"
  "w_cursors (sendApprovalDecision env i d am t st) = w_cursors st" "w_cursors (interruptTask env st) = w_cursors st"
  "w_cursors (resumeTask env st) = w_cursors st" "w_cursors (setSessionPolicyMode env m c st) = w_cursors st"
  "w_cursors (createNewSession env r ps st) = w_cursors st" "w_cursors (forkSession env s st) = w_cursors st"
  by (simp_all add: sendPrompt_def downloadFile_def sendApprovalDecision_def interruptTask_def resumeTask_def
      setSessionPolicyMode_def createNewSession_def forkSession_def Let_def web_frames)

section \<open>Cursors move forward\<close>

lemma cursor_of_cong: "w_cursors st' = w_cursors st \<Longrightarrow> cursor_of st' sid = cursor_of st sid"
  by (simp add: cursor_of_def)

text \<open>As long as no session is evicted from the map, \<open>saveCursor\<close> sets one cursor and keeps the others.\<close>

lemma saveCursor_cursor:
  assumes "int (length (w_cursors st)) < maxCursors"
  shows "cursor_of (saveCursor env s n st) sid =
    (if sid = s \<and> s \<noteq> [] \<and> n \<noteq> 0 \<and> n > cursor_of st s then n else cursor_of st sid)"
proof (cases "s \<noteq> [] \<and> n \<noteq> 0 \<and> n > cursor_of st s")
  case True
  have "length (AList.update s n (w_cursors st)) \<le> Suc (length (w_cursors st))" by (simp add: length_update)
  then have "w_cursors (saveCursor env s n st) = AList.update s n (w_cursors st)"
    using assms True by (simp add: saveCursor_def Let_def web_frames)
  then show ?thesis using True by (auto simp: cursor_of_def update_conv')
qed (auto simp: saveCursor_def)

lemma saveCursor_length: "length (w_cursors (saveCursor env s n st)) \<le> Suc (length (w_cursors st))"
  by (auto simp: saveCursor_def Let_def web_frames length_update)

lemma saveCursor_cong:
  "w_cursors st' = w_cursors st \<Longrightarrow> w_cursors (saveCursor env s n st') = w_cursors (saveCursor env s n st)"
  by (simp add: saveCursor_def cursor_of_def Let_def web_frames)

lemma save_number_cong:
  "w_cursors st' = w_cursors st \<Longrightarrow> w_cursors (save_number env msg st') = w_cursors (save_number env msg st)"
  by (auto simp: save_number_def intro: saveCursor_cong split: option.split)

lemma saveCursor_forward:
  "int (length (w_cursors st)) < maxCursors \<Longrightarrow> cursor_of st sid \<le> cursor_of (saveCursor env s n st) sid"
  by (auto simp: saveCursor_cursor)

lemma adopt_cursors_forward:
  "int (length (w_cursors st) + length fs) \<le> maxCursors \<Longrightarrow> cursor_of st sid \<le> cursor_of (fold (adopt_cursor env) fs st) sid"
proof (induction fs arbitrary: st)
  case (Cons c fs)
  let ?st = "adopt_cursor env c st"
  have room: "int (length (w_cursors st)) < maxCursors" using Cons.prems by simp
  have "cursor_of st sid \<le> cursor_of ?st sid"
    using saveCursor_forward [OF room] by (simp add: adopt_cursor_def split: json.split)
  moreover have "length (w_cursors ?st) \<le> Suc (length (w_cursors st))"
    using saveCursor_length by (simp add: adopt_cursor_def le_SucI split: json.split)
  then have "cursor_of ?st sid \<le> cursor_of (fold (adopt_cursor env) fs ?st) sid"
    using Cons.prems by (intro Cons.IH) simp
  ultimately show ?case by simp
qed simp

text \<open>A message that is a live event of an open socket.\<close>

definition live_message :: "web_env \<Rightarrow> nat \<Rightarrow> string \<Rightarrow> web \<Rightarrow> json option" where
  "live_message env i text st =
     (case (map_of (w_sockets st) i, ce_parse (we_client env) text) of
        (Some s, Some raw) \<Rightarrow>
          let msg = unwrap_message raw
          in if msg = JNull \<or> wk_state s \<noteq> W_open
               \<or> jget msg ''type'' \<in> {Some (JStr ''gateway-proxy-response''), Some (JStr ''resume-complete''),
                    Some (JStr ''history-gap''), Some (JStr ''pong''), Some (JStr ''cloud-ready'')}
             then None else Some msg
      | _ \<Rightarrow> None)"

lemma socket_message_live:
  "live_message env i text st = Some msg \<Longrightarrow>
   \<exists>t. socket_message env i text st = live_event env t msg st"
  by (auto simp: live_message_def socket_message_def Let_def split: option.splits if_splits)

text \<open>Steps that do not take cursors away: no change of account, no report of a gap in the history, and room in
  the map.\<close>

definition cursors_in :: "web_env \<Rightarrow> string \<Rightarrow> nat" where
  "cursors_in env text =
     (case ce_parse (we_client env) text of
        Some raw \<Rightarrow>
          (case jchain (jget (unwrap_message raw) ''payload'') ''cursors'' of Some (JObj fs) \<Rightarrow> length fs | _ \<Rightarrow> 0)
      | None \<Rightarrow> 0)"

definition reports_gap :: "web_env \<Rightarrow> string \<Rightarrow> bool" where
  "reports_gap env text =
     (case ce_parse (we_client env) text of
        Some raw \<Rightarrow> jget (unwrap_message raw) ''type'' = Some (JStr ''history-gap'')
      | None \<Rightarrow> False)"

definition steady :: "web_env \<times> web_event \<Rightarrow> web \<Rightarrow> bool" where
  "steady e st =
     (int (length (w_cursors st)) < maxCursors \<and>
      (case snd e of
         Ev_logout \<Rightarrow> False
       | Ev_task i r r' \<Rightarrow>
           (case map_of (w_tasks st) i of Some (T_login u) \<Rightarrow> False | Some (T_register u) \<Rightarrow> False | _ \<Rightarrow> True)
       | Ev_message i text \<Rightarrow>
           \<not> reports_gap (fst e) text \<and> int (length (w_cursors st) + cursors_in (fst e) text) \<le> maxCursors
       | _ \<Rightarrow> True))"

lemma show_event_cursors:
  "w_cursors (show_event env msg st) =
     (case message_session msg of Some (JStr s) \<Rightarrow> w_cursors (save_number env msg st) | _ \<Rightarrow> w_cursors st)"
proof -
  let ?st2 = "(remember_event msg st)\<lparr>w_sessions := sessions_after msg (w_sessions (remember_event msg st)),
      w_rawEvents := slice_last 499 (w_rawEvents (remember_event msg st)) @ [msg],
      w_liveRevision := Suc (w_liveRevision (remember_event msg st))\<rparr>"
  have "w_cursors ?st2 = w_cursors st" by (simp add: web_frames)
  then have "w_cursors (save_number env msg ?st2) = w_cursors (save_number env msg st)" by (rule save_number_cong)
  then show ?thesis by (simp add: show_event_def Let_def web_frames split: option.split json.split)
qed

lemma live_event_forward:
  assumes "int (length (w_cursors st)) < maxCursors"
  shows "cursor_of st sid \<le> cursor_of (live_event env t msg st) sid"
proof -
  have save: "cursor_of st sid \<le> cursor_of (save_number env msg st) sid"
    using saveCursor_forward [OF assms] by (auto simp: save_number_def split: option.split)
  have "cursor_of (show_event env msg st) sid \<in> {cursor_of st sid, cursor_of (save_number env msg st) sid}"
    unfolding cursor_of_def show_event_cursors by (simp split: option.split json.split)
  then have "cursor_of st sid \<le> cursor_of (show_event env msg st) sid" using save by auto
  then show ?thesis
    using save cursor_of_cong [OF cursor_part.gap_frames(1)] by (simp add: live_event_def split: event_verdict.split)
qed

lemma resume_complete_cursors:
  assumes "jchain (jget msg ''payload'') ''cursors'' = Some (JObj fs)"
  shows "w_cursors (on_resume_complete env i msg st) \<in> {w_cursors st, w_cursors (fold (adopt_cursor env) fs st)}"
  using assms by (simp add: on_resume_complete_def Let_def web_frames)

lemma message_forward:
  assumes "int (length (w_cursors st)) < maxCursors" "\<not> reports_gap env text"
    and "int (length (w_cursors st) + cursors_in env text) \<le> maxCursors"
  shows "cursor_of st sid \<le> cursor_of (socket_message env i text st) sid"
proof (cases "map_of (w_sockets st) i = None \<or> ce_parse (we_client env) text = None")
  case True
  then show ?thesis by (auto simp: socket_message_def split: option.splits)
next
  case False
  then obtain s raw where s: "map_of (w_sockets st) i = Some s" "ce_parse (we_client env) text = Some raw" by auto
  let ?msg = "unwrap_message raw"
  have "cursor_of st sid \<le> cursor_of (on_resume_complete env i ?msg st) sid"
  proof (cases "\<exists>fs. jchain (jget ?msg ''payload'') ''cursors'' = Some (JObj fs)")
    case True
    then obtain fs where fs: "jchain (jget ?msg ''payload'') ''cursors'' = Some (JObj fs)" by blast
    then have "int (length (w_cursors st) + length fs) \<le> maxCursors" using assms(3) s by (simp add: cursors_in_def)
    from adopt_cursors_forward [OF this] show ?thesis
      using fs resume_complete_cursors [OF fs, of env i st] by (auto simp: cursor_of_def)
  next
    case False
    then have "w_cursors (on_resume_complete env i ?msg st) = w_cursors st"
      by (auto simp: on_resume_complete_def Let_def web_frames split: option.splits json.splits)
    then show ?thesis by (simp add: cursor_of_def)
  qed
  then show ?thesis
    using s assms(2) live_event_forward [OF assms(1)] cursor_of_cong [OF call_cursors(5)]
    by (auto simp: socket_message_def Let_def reports_gap_def)
qed

lemma load_done_cursors:
  "w_cursors (load_done env l st) = w_cursors st
   \<or> w_cursors (load_done env l st) = w_cursors (saveCursor env (hl_session l) (max_num 0 (map seq_or_zero (hl_list l))) st)"
proof -
  have "w_cursors (saveCursor env k n (s\<lparr>w_turns := ts\<rparr>)) = w_cursors (saveCursor env k n s)"
    "w_cursors (saveCursor env k n (s\<lparr>w_rawEvents := es, w_turns := ts\<rparr>)) = w_cursors (saveCursor env k n s)" for s k n ts es
    by (rule saveCursor_cong; simp)+
  then show ?thesis by (simp add: load_done_def Let_def web_frames split: option.split)
qed

lemma load_forward:
  assumes "int (length (w_cursors st)) < maxCursors"
  shows "cursor_of st sid \<le> cursor_of (load_resumes env i r st) sid"
proof -
  let ?st = "st\<lparr>w_loads := AList.delete i (w_loads st)\<rparr>"
  have "cursor_of st sid \<le> cursor_of (load_done env l ?st) sid" for l
    using load_done_cursors [of env l ?st] saveCursor_forward [of ?st sid env] assms
    by (auto simp: cursor_of_def)
  moreover have "cursor_of (load_failed env l ?st) sid = cursor_of st sid" "cursor_of (put_load l ?st) sid = cursor_of st sid" for l
    by (simp_all add: cursor_of_def web_frames)
  ultimately show ?thesis
    by (simp add: load_resumes_def Let_def split: option.split page_step.split)
qed

lemma task_keeps_cursors:
  "steady (env, Ev_task i r r') st \<Longrightarrow> w_cursors (task_resumes env i r r' st) = w_cursors st"
  by (auto simp: steady_def task_resumes_def Let_def web_frames split: option.split web_task.splits)

lemma step_forward:
  assumes "steady e st"
  shows "cursor_of st sid \<le> cursor_of (web_step e st) sid"
proof (cases "w_crashed st")
  case False
  obtain env ev where e: "e = (env, ev)" by (cases e)
  have room: "int (length (w_cursors st)) < maxCursors" using assms by (simp add: steady_def)
  show ?thesis
  proof (cases ev)
    case (Ev_message i m)
    then show ?thesis
      using assms message_forward [OF room] False e by (simp add: web_step_def web_event_step_def steady_def)
  next
    case (Ev_page i r)
    then show ?thesis using load_forward [OF room] False e by (simp add: web_step_def web_event_step_def)
  next
    case (Ev_task i r r')
    then show ?thesis
      using task_keeps_cursors assms False e by (simp add: web_step_def web_event_step_def cursor_of_def)
  qed (use assms e False in \<open>simp_all add: web_step_def web_event_step_def steady_def web_frames cursor_of_def\<close>)
qed (simp add: web_step_def)

section \<open>Live events in order\<close>

text \<open>What is on display: the list of sessions, the list of events, the turns, the counter of live events and
  whether rendering has failed.\<close>

definition display :: "web \<Rightarrow> json list \<times> json list \<times> turn_message list \<times> nat \<times> bool" where
  "display st = (w_sessions st, w_rawEvents st, w_turns st, w_liveRevision st, w_crashed st)"

text \<open>The number of a live event of a session that changes what is on display, together with the cursor
  before it.\<close>

definition shown_number :: "string \<Rightarrow> web_env \<times> web_event \<Rightarrow> web \<Rightarrow> (js_number \<times> js_number) option" where
  "shown_number sid e st =
     (case snd e of
        Ev_message i m \<Rightarrow>
          (case live_message (fst e) i m st of
             Some msg \<Rightarrow>
               if display (web_step e st) \<noteq> display st \<and> message_session msg = Some (JStr sid)
               then map_option (Pair (cursor_of st sid)) (as_num (jget msg ''eventSeq'')) else None
           | None \<Rightarrow> None)
      | _ \<Rightarrow> None)"

lemma display_frames:
  "display (scheduleGapRecovery s t n st) = display st" "display (save_number env msg st) = display st"
  by (simp_all add: display_def scheduleGapRecovery_def save_number_def saveCursor_def store_cursors_def clear_gap_timer_def
      Let_def split: option.split)

lemma shown_number_message:
  assumes "shown_number sid e st = Some x"
  obtains env i m where "e = (env, Ev_message i m)"
proof -
  have "\<exists>i m. snd e = Ev_message i m"
    using assms unfolding shown_number_def by (cases "snd e"; simp only: web_event.case) simp_all
  then show thesis using that by (metis prod.collapse)
qed

lemma as_num_Some: "as_num v = Some n \<longleftrightarrow> v = Some (JNum n)"
  by (cases v) (simp_all add: as_num_def split: json.split)

lemma shown_is_news:
  assumes "shown_number sid e st = Some x"
  obtains env i m msg n where "e = (env, Ev_message i m)" "live_message env i m st = Some msg" "\<not> w_crashed st"
    "event_verdict_of st msg = News" "message_session msg = Some (JStr sid)" "jget msg ''eventSeq'' = Some (JNum n)"
    "x = (cursor_of st sid, n)"
proof -
  obtain env i m where e: "e = (env, Ev_message i m)" using assms by (rule shown_number_message)
  obtain msg where msg: "live_message env i m st = Some msg" "display (web_step (env, Ev_message i m) st) \<noteq> display st"
      "message_session msg = Some (JStr sid)" "map_option (Pair (cursor_of st sid)) (as_num (jget msg ''eventSeq'')) = Some x"
    using assms unfolding e by (auto simp: shown_number_def split: option.splits if_splits)
  have alive: "\<not> w_crashed st" using msg(2) by (auto simp: web_step_def)
  then obtain t where "web_step (env, Ev_message i m) st = live_event env t msg st"
    using socket_message_live [OF msg(1)] by (auto simp: web_step_def web_event_step_def)
  then have "event_verdict_of st msg = News"
    using msg(2) display_frames by (auto simp: live_event_def split: event_verdict.splits)
  moreover obtain n where "jget msg ''eventSeq'' = Some (JNum n)" "x = (cursor_of st sid, n)"
    using msg(4) by (auto simp: as_num_Some)
  ultimately show thesis using that e msg(1,3) alive by blast
qed

fun shown_numbers :: "string \<Rightarrow> (web_env \<times> web_event) list \<Rightarrow> web \<Rightarrow> (js_number \<times> js_number) list" where
  "shown_numbers sid [] st = []"
| "shown_numbers sid (e # es) st =
     (case shown_number sid e st of Some x \<Rightarrow> [x] | None \<Rightarrow> []) @ shown_numbers sid es (web_step e st)"

fun steady_run :: "(web_env \<times> web_event) list \<Rightarrow> web \<Rightarrow> bool" where
  "steady_run [] st = True"
| "steady_run (e # es) st = (steady e st \<and> steady_run es (web_step e st))"

lemma shown_number_step:
  assumes "shown_number sid e st = Some (c, n)" "steady e st" "sid \<noteq> []" "0 \<le> cursor_of st sid"
  shows "c = cursor_of st sid \<and> c < n \<and> n \<le> c + 1 \<and> cursor_of (web_step e st) sid = n"
proof -
  obtain env i m msg where e: "e = (env, Ev_message i m)" "live_message env i m st = Some msg"
      and news: "\<not> w_crashed st" "event_verdict_of st msg = News" "message_session msg = Some (JStr sid)"
      and n: "jget msg ''eventSeq'' = Some (JNum n)" "c = cursor_of st sid"
    using assms(1) by (rule shown_is_news) simp
  have num: "message_number msg = Some (sid, n)"
    using n(1) news(3) assms(3) by (simp add: message_number_def truthy_def)
  have range: "c < n" "n \<le> c + 1" using news(2) num n(2) by (auto simp: event_verdict_of_def Let_def split: if_splits)
  obtain t where "socket_message env i m st = live_event env t msg st" using socket_message_live [OF e(2)] by blast
  then have "web_step e st = show_event env msg st"
    using e news by (simp add: web_step_def web_event_step_def live_event_def)
  then have "cursor_of (web_step e st) sid = cursor_of (saveCursor env sid n st) sid"
    using news(3) num by (simp add: cursor_of_def show_event_cursors save_number_def)
  also have "\<dots> = n" using assms(2-4) range n(2) by (subst saveCursor_cursor) (auto simp: steady_def)
  finally show ?thesis using range n(2) by simp
qed

text \<open>C18. While an account stays signed in, the live events of a session are shown in the order of their numbers,
  each number at most once and none out of turn: a live event that changes anything on display (the sessions, the
  list of events, the turns) has a number that follows the number up to which the session is complete, and that
  number is then the new one and never goes back. (There is no logout, login or registration in the run, the map
  of these numbers has room, and the relay does not report that a part of the history is gone.)\<close>

theorem live_events_in_order:
  assumes "steady_run es st" "sid \<noteq> []" "0 \<le> cursor_of st sid"
  shows "(\<forall>(c, n)\<in>set (shown_numbers sid es st). cursor_of st sid \<le> c \<and> c < n \<and> n \<le> c + 1)
    \<and> sorted_wrt (\<lambda>(c, n) (c', n'). n \<le> c') (shown_numbers sid es st)"
  using assms
proof (induction es arbitrary: st)
  case (Cons e es)
  let ?st = "web_step e st"
  have step: "cursor_of st sid \<le> cursor_of ?st sid" using Cons.prems(1) step_forward by simp
  have IH: "(\<forall>(c, n)\<in>set (shown_numbers sid es ?st). cursor_of ?st sid \<le> c \<and> c < n \<and> n \<le> c + 1)
      \<and> sorted_wrt (\<lambda>(c, n) (c', n'). n \<le> c') (shown_numbers sid es ?st)"
    using Cons.prems step by (intro Cons.IH) auto
  show ?case
  proof (cases "shown_number sid e st")
    case None
    then show ?thesis using IH step by fastforce
  next
    case (Some x)
    obtain c n where x: "x = (c, n)" by (cases x)
    have "c = cursor_of st sid \<and> c < n \<and> n \<le> c + 1 \<and> cursor_of ?st sid = n"
      using shown_number_step Some x Cons.prems by simp
    then show ?thesis using Some x IH step by fastforce
  qed
qed simp

section \<open>Events that come too early\<close>

lemma saveCursor_gaps [web_frames]:
  "w_gaps (saveCursor env s n st) = w_gaps st" "w_gapTimers (saveCursor env s n st) = w_gapTimers st"
  by (simp_all add: saveCursor_def store_cursors_def Let_def)

lemma known_gap_is_kept:
  assumes "map_of (w_gaps st) sid = Some r" "gr_expectedSeq r \<noteq> 0" "n \<le> gr_expectedSeq r"
  shows "scheduleGapRecovery sid t n st = st"
  using assms by (simp add: scheduleGapRecovery_def)

text \<open>C39. A recovery that fails is not tried again. When the history that a recovery loaded does not reach the
  expected number yet, the client asks for another attempt, but this request is dropped, because the recovery
  that is still noted counts as one that is under way: no timer is started, the note stays, and no later event up to
  the expected number starts a timer either.\<close>

theorem failed_recovery_is_not_retried:
  assumes "\<not> load_is_stale l st" "map_of (w_gaps st) (hl_session l) = Some r" "0 < gr_expectedSeq r" "gr_attempt r < 5"
    and "max_num 0 (map seq_or_zero (hl_list l)) < gr_expectedSeq r"
    and "shown_history env l (hl_list l) st = Some turns"
  shows "w_gapTimers (load_done env l st) = w_gapTimers st
    \<and> map_of (w_gaps (load_done env l st)) (hl_session l) = Some r
    \<and> (n \<le> gr_expectedSeq r \<longrightarrow> scheduleGapRecovery (hl_session l) t n (load_done env l st) = load_done env l st)"
proof -
  let ?max = "max_num 0 (map seq_or_zero (hl_list l))"
  let ?raw = "slice_last 500 (filter (\<lambda>e. jget e ''sessionId'' \<noteq> Some (JStr (hl_session l))) (w_rawEvents st) @ hl_list l)"
  obtain st2 where st2: "load_done env l st = settle_gap l ?max st2" "w_gaps st2 = w_gaps st" "w_gapTimers st2 = w_gapTimers st"
  proof -
    have "shown_history env l (hl_list l) (st\<lparr>w_rawEvents := ?raw\<rparr>) = Some turns"
      using assms(6) by (simp add: shown_history_def)
    then show thesis
      using assms(1,6) that
      by (cases "hl_list l = []") (simp_all add: load_done_def Let_def web_frames)
  qed
  have "settle_gap l ?max st2 = st2"
    using assms st2(2) known_gap_is_kept [of st2 "hl_session l" r "gr_expectedSeq r"] by (simp add: settle_gap_def)
  then have "load_done env l st = st2" using st2(1) by simp
  then show ?thesis using st2 assms(2,3) known_gap_is_kept [of st2 "hl_session l" r n] by simp
qed

text \<open>The session is not on the screen, and a step does not bring the next number of it: no such event, and no
  cursor for it from the relay.\<close>

definition gap_stays :: "string \<Rightarrow> js_number \<Rightarrow> web_env \<times> web_event \<Rightarrow> web \<Rightarrow> bool" where
  "gap_stays sid c e st =
     (steady e st \<and> v_session (w_view st) \<noteq> sid \<and>
      (case snd e of
         Ev_message i m \<Rightarrow>
           (case ce_parse (we_client (fst e)) m of
              Some raw \<Rightarrow>
                (case message_number (unwrap_message raw) of Some (s, n) \<Rightarrow> s \<noteq> sid \<or> n \<le> c \<or> n > c + 1 | None \<Rightarrow> True)
                \<and> (case jchain (jget (unwrap_message raw) ''payload'') ''cursors'' of
                     Some (JObj fs) \<Rightarrow> sid \<notin> fst ` set fs | _ \<Rightarrow> True)
            | None \<Rightarrow> True)
       | _ \<Rightarrow> True))"

fun gap_stays_run :: "string \<Rightarrow> js_number \<Rightarrow> (web_env \<times> web_event) list \<Rightarrow> web \<Rightarrow> bool" where
  "gap_stays_run sid c [] st = True"
| "gap_stays_run sid c (e # es) st = (gap_stays sid c e st \<and> gap_stays_run sid c es (web_step e st))"

lemma adopt_other_cursors:
  "int (length (w_cursors st) + length fs) \<le> maxCursors \<Longrightarrow> sid \<notin> fst ` set fs \<Longrightarrow>
   cursor_of (fold (adopt_cursor env) fs st) sid = cursor_of st sid"
proof (induction fs arbitrary: st)
  case (Cons d fs)
  let ?st = "adopt_cursor env d st"
  have "cursor_of ?st sid = cursor_of st sid"
    using Cons.prems by (auto simp: adopt_cursor_def saveCursor_cursor split: json.split)
  moreover have "length (w_cursors ?st) \<le> Suc (length (w_cursors st))"
    using saveCursor_length by (simp add: adopt_cursor_def le_SucI split: json.split)
  then have "cursor_of (fold (adopt_cursor env) fs ?st) sid = cursor_of ?st sid"
    using Cons.prems by (intro Cons.IH) auto
  ultimately show ?case by simp
qed simp

lemma live_event_elsewhere:
  assumes "int (length (w_cursors st)) < maxCursors"
    and "\<And>s n. message_number msg = Some (s, n) \<Longrightarrow> s \<noteq> sid \<or> n \<le> cursor_of st sid \<or> n > cursor_of st sid + 1"
  shows "cursor_of (live_event env t msg st) sid = cursor_of st sid"
proof -
  have "cursor_of (save_number env msg st) sid = cursor_of st sid" if "event_verdict_of st msg \<in> {Seen_event, News}"
    using that assms saveCursor_cursor [OF assms(1)]
    by (auto simp: save_number_def event_verdict_of_def Let_def split: option.splits if_splits)
  moreover have "cursor_of (show_event env msg st) sid \<in> {cursor_of st sid, cursor_of (save_number env msg st) sid}"
    unfolding cursor_of_def show_event_cursors by (simp split: option.split json.split)
  ultimately show ?thesis
    using cursor_of_cong [OF cursor_part.gap_frames(1)] by (auto simp: live_event_def split: event_verdict.split)
qed

lemma message_elsewhere:
  assumes "gap_stays sid (cursor_of st sid) (env, Ev_message i m) st"
  shows "cursor_of (socket_message env i m st) sid = cursor_of st sid"
proof (cases "map_of (w_sockets st) i = None \<or> ce_parse (we_client env) m = None")
  case True
  then show ?thesis by (auto simp: socket_message_def split: option.splits)
next
  case False
  then obtain s raw where s: "map_of (w_sockets st) i = Some s" "ce_parse (we_client env) m = Some raw" by auto
  let ?msg = "unwrap_message raw"
  have room: "int (length (w_cursors st)) < maxCursors" "int (length (w_cursors st) + cursors_in env m) \<le> maxCursors"
    and other: "\<And>x n. message_number ?msg = Some (x, n) \<Longrightarrow> x \<noteq> sid \<or> n \<le> cursor_of st sid \<or> n > cursor_of st sid + 1"
    using assms s by (auto simp: gap_stays_def steady_def)
  have "cursor_of (on_resume_complete env i ?msg st) sid = cursor_of st sid"
  proof (cases "\<exists>fs. jchain (jget ?msg ''payload'') ''cursors'' = Some (JObj fs)")
    case True
    then obtain fs where fs: "jchain (jget ?msg ''payload'') ''cursors'' = Some (JObj fs)" by blast
    then have "cursor_of (fold (adopt_cursor env) fs st) sid = cursor_of st sid"
      using assms s room(2) by (intro adopt_other_cursors) (auto simp: gap_stays_def cursors_in_def)
    then show ?thesis using resume_complete_cursors [OF fs, of env i st] by (auto simp: cursor_of_def)
  next
    case False
    then have "w_cursors (on_resume_complete env i ?msg st) = w_cursors st"
      by (auto simp: on_resume_complete_def Let_def web_frames split: option.splits json.splits)
    then show ?thesis by (simp add: cursor_of_def)
  qed
  then show ?thesis
    using s assms live_event_elsewhere [OF room(1) other] cursor_of_cong [OF call_cursors(5)]
    by (auto simp: socket_message_def Let_def reports_gap_def gap_stays_def steady_def)
qed

lemma load_elsewhere:
  assumes "int (length (w_cursors st)) < maxCursors" "v_session (w_view st) \<noteq> sid"
  shows "cursor_of (load_resumes env i r st) sid = cursor_of st sid"
proof -
  let ?st = "st\<lparr>w_loads := AList.delete i (w_loads st)\<rparr>"
  have "cursor_of (load_done env l ?st) sid = cursor_of st sid" for l
  proof (cases "hl_session l = sid")
    case True
    then show ?thesis using assms(2) by (simp add: load_done_def load_is_stale_def cursor_of_def)
  next
    case False
    then show ?thesis
      using load_done_cursors [of env l ?st] saveCursor_cursor [of ?st env "hl_session l" _ sid] assms(1)
      by (auto simp: cursor_of_def)
  qed
  moreover have "cursor_of (load_failed env l ?st) sid = cursor_of st sid" "cursor_of (put_load l ?st) sid = cursor_of st sid" for l
    by (simp_all add: cursor_of_def web_frames)
  ultimately show ?thesis
    by (simp add: load_resumes_def Let_def split: option.split page_step.split)
qed

lemma step_elsewhere:
  assumes "gap_stays sid (cursor_of st sid) e st"
  shows "cursor_of (web_step e st) sid = cursor_of st sid"
proof (cases "w_crashed st")
  case False
  obtain env ev where e: "e = (env, ev)" by (cases e)
  have st: "int (length (w_cursors st)) < maxCursors" "v_session (w_view st) \<noteq> sid" "steady e st"
    using assms by (simp_all add: gap_stays_def steady_def)
  show ?thesis
  proof (cases ev)
    case (Ev_message i m)
    then show ?thesis using assms message_elsewhere False e by (simp add: web_step_def web_event_step_def)
  next
    case (Ev_page i r)
    then show ?thesis using load_elsewhere [OF st(1,2)] False e by (simp add: web_step_def web_event_step_def)
  next
    case (Ev_task i r r')
    then show ?thesis
      using task_keeps_cursors st(3) False e by (simp add: web_step_def web_event_step_def cursor_of_def)
  qed (use st(3) e False in \<open>simp_all add: web_step_def web_event_step_def steady_def web_frames cursor_of_def\<close>)
qed (simp add: web_step_def)

text \<open>C40. Loading the history does not help a session that is not on the screen. Once an event of it was missed, and as
  long as the session is not selected and the relay neither delivers the missing number again nor sends a resume
  cursor for the session nor reports a gap in the history, the client shows none of the session's later events, however many of
  them it receives and however often its recovery loads the history of the session: what it loads is thrown
  away because another session is shown, so the cursor stays before the gap. (A reconnection makes the client ask for
  a replay, and a replay that brings the missing number closes the gap. The account stays signed in and the map of cursors has room.)\<close>

theorem background_session_stays_behind:
  assumes "gap_stays_run sid (cursor_of st sid) es st" "sid \<noteq> []"
  shows "shown_numbers sid es st = [] \<and> cursor_of (web_run es st) sid = cursor_of st sid"
  using assms
proof (induction es arbitrary: st)
  case (Cons e es)
  have e: "gap_stays sid (cursor_of st sid) e st" using Cons.prems by simp
  have kept: "cursor_of (web_step e st) sid = cursor_of st sid" using step_elsewhere [OF e] .
  have "shown_number sid e st = None"
  proof (rule ccontr)
    assume "shown_number sid e st \<noteq> None"
    then obtain x where x: "shown_number sid e st = Some x" by blast
    then obtain env i m msg n where m: "e = (env, Ev_message i m)" "live_message env i m st = Some msg"
        "event_verdict_of st msg = News" "message_session msg = Some (JStr sid)" "jget msg ''eventSeq'' = Some (JNum n)"
      by (rule shown_is_news)
    then have "message_number msg = Some (sid, n)" using Cons.prems(2) by (simp add: message_number_def truthy_def)
    then show False using m e
      by (auto simp: gap_stays_def live_message_def event_verdict_of_def Let_def split: option.splits if_splits)
  qed
  then show ?case using Cons kept by (simp add: web_run_def)
qed (simp add: web_run_def)

section \<open>Samples\<close>

text \<open>A browser with a stored token connects; \<open>''n5''\<close> and so on are the texts of numbered events.\<close>

definition sample_event :: "string \<Rightarrow> js_number \<Rightarrow> json" where
  "sample_event sid n =
     JObj [(''type'', JStr ''session-policy-changed''), (''sessionId'', JStr sid), (''eventSeq'', JNum n),
           (''payload'', JObj [(''sessionPolicyMode'', JStr ''confirm'')])]"

definition sample_parse :: "string \<Rightarrow> json option" where
  "sample_parse m =
     (if m = ''n1'' then Some (sample_event ''b'' 1) else if m = ''n2'' then Some (sample_event ''b'' 2)
      else if m = ''n5'' then Some (sample_event ''b'' 5) else if m = ''n6'' then Some (sample_event ''b'' 6) else None)"

definition sample_web_env :: web_env where
  "sample_web_env =
     \<lparr>we_client = \<lparr>ce_parse = sample_parse, ce_now = 0, ce_random = ''r''\<rparr>, we_uuid = ''u1'', we_jitter = 0,
      we_number = (\<lambda>_. None), we_date = (\<lambda>_. None), we_atob = (\<lambda>_. None), we_body = (\<lambda>_. None), we_storage = True\<rparr>"

definition sample_web :: web where
  "sample_web = web_run [(sample_web_env, Ev_render), (sample_web_env, Ev_open 0)] (mount sample_web_env None (Some ''tok'') None)"

definition sample_orderly :: "(web_env \<times> web_event) list" where
  "sample_orderly = map (Pair sample_web_env)
     [Ev_message 0 ''n1'', Ev_message 0 ''n5'', Ev_message 0 ''n1'', Ev_message 0 ''n2'']"

definition sample_gap :: "(web_env \<times> web_event) list" where
  "sample_gap = map (Pair sample_web_env)
     [Ev_message 0 ''n5'', Ev_gap_timer 1, Ev_page 0 (Page_body (JObj [(''events'', JArr [sample_event ''b'' 1, sample_event ''b'' 5])])),
      Ev_message 0 ''n6'']"

lemma sample_orderly_run:
  "steady_run sample_orderly sample_web \<and> 0 \<le> cursor_of sample_web ''b''
   \<and> shown_numbers ''b'' sample_orderly sample_web = [(0, 1), (1, 2)]"
  by code_simp

lemma sample_gap_run: "gap_stays_run ''b'' (cursor_of sample_web ''b'') sample_gap sample_web"
  by code_simp

theorem live_events_in_order_witness:
  "shown_numbers ''b'' sample_orderly sample_web = [(0, 1), (1, 2)]
   \<and> sorted_wrt (\<lambda>(c, n) (c', n'). n \<le> c') (shown_numbers ''b'' sample_orderly sample_web)"
  using live_events_in_order [of sample_orderly sample_web "''b''"] sample_orderly_run by simp

theorem background_session_stays_behind_witness:
  "gap_stays_run ''b'' (cursor_of sample_web ''b'') sample_gap sample_web \<and> length sample_gap = 4
   \<and> shown_numbers ''b'' sample_gap sample_web = []"
  using background_session_stays_behind [OF sample_gap_run] sample_gap_run by (simp add: sample_gap_def)

text \<open>The same session on the screen: its recovery has loaded the first event only, and the fifth was announced.\<close>

definition sample_recovery :: gap_recovery where
  "sample_recovery = \<lparr>gr_expectedSeq = 5, gr_attempt = 1, gr_timer = None\<rparr>"

definition sample_shown :: web where
  "sample_shown = (mount sample_web_env None (Some ''tok'') None)\<lparr>
     w_view := \<lparr>v_user = [], v_password = [], v_token = ''tok'', v_sessions = [], v_device = [], v_session = ''b'', v_turns = []\<rparr>,
     w_gaps := [(''b'', sample_recovery)]\<rparr>"

definition sample_load :: history_load where
  "sample_load = \<lparr>hl_session = ''b'', hl_token = ''tok'', hl_revision = 0, hl_list = [], hl_after = 1, hl_page = 1\<rparr>"

lemma sample_failed_recovery:
  "\<not> load_is_stale sample_load sample_shown \<and> map_of (w_gaps sample_shown) (hl_session sample_load) = Some sample_recovery
   \<and> shown_history sample_web_env sample_load (hl_list sample_load) sample_shown = Some []"
  by (simp add: load_is_stale_def sample_load_def sample_shown_def mount_def Let_def shown_history_def
      aggregateEventsToTurns_def initial_turns_def session_in_def jchain_def truthy_def)

theorem failed_recovery_is_not_retried_witness:
  "map_of (w_gaps (load_done sample_web_env sample_load sample_shown)) ''b'' = Some sample_recovery
   \<and> w_gapTimers (load_done sample_web_env sample_load sample_shown) = []"
  using failed_recovery_is_not_retried [of sample_load sample_shown sample_recovery sample_web_env "[]" 5 "''tok''"] sample_failed_recovery
  by (simp add: sample_recovery_def sample_load_def max_num_def) (simp add: sample_shown_def mount_def Let_def)

end
