(* ===== verification/WebLink.thy ===== *)
theory WebLink
  imports WebFrames
begin

text \<open>
  The connection of the web client: after a logout no socket is opened until somebody signs in again.
\<close>

section \<open>The part of the state that decides on connections\<close>

definition refreshes :: "web \<Rightarrow> nat list" where
  "refreshes st = concat (map (\<lambda>x. case snd x of T_refresh k t e d s \<Rightarrow> [k] | _ \<Rightarrow> []) (w_tasks st))"

definition opened_sockets :: "web \<Rightarrow> web_output list" where
  "opened_sockets st = filter (\<lambda>out. case out of O_socket i p \<Rightarrow> True | _ \<Rightarrow> False) (w_outputs st)"

text \<open>The request for a stored token that the client makes when it starts is still unanswered.\<close>

definition startup :: "web \<Rightarrow> bool" where
  "startup st = list_ex (\<lambda>(i, task). task = T_session_token) (w_tasks st)"

definition link ::
  "web \<Rightarrow> string \<times> string \<times> nat option \<times> (string \<times> int) option \<times> nat \<times> nat list \<times> web_output list \<times> bool" where
  "link st = (w_token st, v_token (w_view st), w_socket st, w_reconnect st, w_effect st, refreshes st, opened_sockets st, startup st)"

definition pulse :: "web \<Rightarrow> nat \<times> nat list" where
  "pulse st = (w_effect st, refreshes st)"

named_theorems link_frames \<open>operations that do not touch the connection\<close>
named_theorems pulse_frames \<open>operations that begin and end no effect of the token\<close>

interpretation link_part: web_part link
  by unfold_locales
    (auto simp: link_def emit_def suspend_def refreshes_def opened_sockets_def startup_def split: web_task.split)

lemmas part_link [link_frames] = link_part.frames

lemma frame_link [link_frames]: "link (emit (O_frame k j) st) = link st"
  by (simp add: link_def emit_def refreshes_def opened_sockets_def startup_def)

lemma field_link [link_frames]:
  "link (st\<lparr>w_pending := ps\<rparr>) = link st" "link (st\<lparr>w_settled := ss\<rparr>) = link st" "link (st\<lparr>w_sockets := ks\<rparr>) = link st"
  "link (st\<lparr>w_cursors := cs\<rparr>) = link st"
  by (simp_all add: link_def refreshes_def opened_sockets_def startup_def)

lemma call_link [link_frames]:
  "link (set_socket i s st) = link st" "link (settle_request env q r st) = link st"
  "link (sendGatewayProxy env verb path b raw c st) = link st"
  by (simp_all add: set_socket_def settle_request_def sendGatewayProxy_def link_frames split: option.split)

lemma request_link [link_frames]:
  "link (web_timeout env q st) = link st" "link (ask_models env st) = link st" "link (on_proxy_response env m st) = link st"
  "link (shut_socket k st) = link st"
  by (simp_all add: web_timeout_def ask_models_def on_proxy_response_def shut_socket_def link_frames
      split: option.split json.split)

lemma reject_link [link_frames]: "link (reject_requests env e is st) = link st"
  unfolding reject_requests_def by (induction "is" arbitrary: st) (simp_all add: link_frames)

lemma opened_link [link_frames]: "link (socket_opened env i st) = link st"
  by (auto simp: socket_opened_def Let_def link_frames split: option.split)

lemma cursor_link [link_frames]:
  "link (forget_account st) = link st" "link (saveCursor env s n st) = link st" "link (resetCursor env s n st) = link st"
  by (simp_all add: forget_account_def saveCursor_def resetCursor_def Let_def link_frames)

lemma load_done_link [link_frames]: "link (load_done env l st) = link st"
  by (simp add: load_done_def Let_def link_frames split: option.split)

lemma load_link [link_frames]: "link (load_resumes env i pr st) = link st"
  by (simp add: load_resumes_def Let_def link_frames split: option.split page_step.split)

lemma save_link [link_frames]: "link (save_number env m st) = link st"
  by (simp add: save_number_def link_frames split: option.split)

lemma show_link [link_frames]: "link (show_event env m st) = link st"
  by (simp add: show_event_def Let_def link_frames split: option.split json.split)

lemma adopt_link [link_frames]: "link (fold (adopt_cursor env) fs st) = link st"
  by (induction fs arbitrary: st) (simp_all add: adopt_cursor_def link_frames split: json.split)

lemma live_frame_link [link_frames]:
  "link (live_event env t m st) = link st" "link (on_history_gap env m st) = link st"
  by (simp_all add: live_event_def on_history_gap_def Let_def link_frames split: option.split json.split event_verdict.split)

lemma resume_complete_link [link_frames]: "link (on_resume_complete env i m st) = link st"
  by (simp add: on_resume_complete_def Let_def link_frames split: option.split json.split)

lemma message_link [link_frames]: "link (socket_message env i m st) = link st"
  by (simp add: socket_message_def Let_def link_frames split: option.split)

lemma action_link [link_frames]:
  "link (sendPrompt env r p a opts st) = link st" "link (downloadFile env f st) = link st"
  "link (sendApprovalDecision env i d am t st) = link st" "link (interruptTask env st) = link st"
  "link (resumeTask env st) = link st" "link (setSessionPolicyMode env m c st) = link st"
  "link (createNewSession env r ps st) = link st" "link (forkSession env s st) = link st" "link (device_effect env st) = link st"
  by (simp_all add: sendPrompt_def downloadFile_def sendApprovalDecision_def interruptTask_def resumeTask_def
      setSessionPolicyMode_def createNewSession_def forkSession_def device_effect_def Let_def link_frames)

section \<open>Refreshes belong to an effect\<close>

lemma pulse_link: "link st' = link st \<Longrightarrow> pulse st' = pulse st"
  by (simp add: link_def pulse_def)

lemma field_pulse [pulse_frames]:
  "pulse (st\<lparr>w_token := t\<rparr>) = pulse st" "pulse (st\<lparr>w_view := v\<rparr>) = pulse st" "pulse (st\<lparr>w_socket := k\<rparr>) = pulse st"
  "pulse (st\<lparr>w_reconnect := rc\<rparr>) = pulse st" "pulse (emit out st) = pulse st"
  by (simp_all add: pulse_def refreshes_def emit_def)

lemmas part_pulse [pulse_frames] = link_frames [THEN pulse_link]

lemma connect_pulse [pulse_frames]: "pulse (connectWs t st) = pulse st"
  by (simp add: connectWs_def Let_def pulse_frames)

lemma socket_pulse [pulse_frames]:
  "pulse (end_connection st) = pulse st" "pulse (open_account d s t st) = pulse st" "pulse (reconnect_fires st) = pulse st"
  "pulse (socket_closed env i st) = pulse st"
  by (simp_all add: end_connection_def open_account_def reconnect_fires_def socket_closed_def Let_def pulse_frames
      split: option.split)

lemma account_pulse [pulse_frames]:
  "pulse (data_loaded d s r r' st) = pulse st" "pulse (sign_in_answered u r st) = pulse st"
  "pulse (register_answered u r st) = pulse st" "pulse (session_token_answered r st) = pulse st" "pulse (logout st) = pulse st"
  "pulse (refresh_answered env k t x d s r st) = pulse st"
  by (auto simp: data_loaded_def sign_in_answered_def register_answered_def session_token_answered_def logout_def
      refresh_answered_def Let_def pulse_frames split: fetch_result.split option.split list.split)

definition refreshes_ok :: "web \<Rightarrow> bool" where
  "refreshes_ok st \<longleftrightarrow> (\<forall>k\<in>set (refreshes st). k \<le> w_effect st)"

lemma refreshes_ok_pulse: "pulse st' = pulse st \<Longrightarrow> refreshes_ok st' = refreshes_ok st"
  by (simp add: pulse_def refreshes_ok_def)

lemma refreshes_delete: "set (refreshes (st\<lparr>w_tasks := AList.delete i (w_tasks st)\<rparr>)) \<subseteq> set (refreshes st)"
  unfolding refreshes_def using set_delete_subset [of i "w_tasks st"] by simp blast

lemma refreshes_effect: "refreshes (st\<lparr>w_effect := n\<rparr>) = refreshes st"
  by (simp add: refreshes_def)

lemma refreshes_suspend:
  "refreshes (suspend (T_refresh k t x d s) st) = refreshes st @ [k]" "w_effect (suspend task st) = w_effect st"
  by (simp_all add: refreshes_def suspend_def)

lemma bootstrap_refreshes: "refreshes_ok st \<Longrightarrow> refreshes_ok (bootstrap env st)"
proof -
  assume ok: "refreshes_ok st"
  have "refreshes_ok (suspend (T_refresh (w_effect st) t x d s) (emit out st))" for t x d s out
  proof -
    have "pulse (emit out st) = pulse st" by (simp add: pulse_frames)
    then show ?thesis using ok by (auto simp: refreshes_ok_def refreshes_suspend pulse_def)
  qed
  then show ?thesis
    using ok refreshes_ok_pulse [OF socket_pulse(2)] by (simp add: bootstrap_def Let_def split: option.split)
qed

lemma task_refreshes: "refreshes_ok st \<Longrightarrow> refreshes_ok (task_resumes env i r r' st)"
proof -
  assume ok: "refreshes_ok st"
  let ?st = "st\<lparr>w_tasks := AList.delete i (w_tasks st)\<rparr>"
  have "refreshes_ok ?st" using ok refreshes_delete [of i st] by (auto simp: refreshes_ok_def)
  moreover have "pulse (task_resumes env i r r' st) \<in> {pulse st, pulse ?st}"
    by (simp add: task_resumes_def Let_def pulse_frames split: option.split web_task.split)
  ultimately show ?thesis using ok refreshes_ok_pulse by blast
qed

lemma render_refreshes:
  assumes "refreshes_ok st"
  shows "refreshes_ok (render env st)"
proof -
  define st0 where "st0 = st\<lparr>w_view := view_of st, w_activeToken := w_token st\<rparr>"
  define changed where "changed = (v_token (w_view st0) \<noteq> v_token (w_view st))"
  define st1 where "st1 = (if changed then (end_connection st0)\<lparr>w_effect := Suc (w_effect st0)\<rparr> else st0)"
  define st3 where "st3 = (let st2 = (if v_session (w_view st0) \<noteq> v_session (w_view st) \<or> changed then session_effect st1 else st1)
    in if v_device (w_view st0) \<noteq> v_device (w_view st) then device_effect env st2 else st2)"
  have "pulse st0 = pulse st" by (simp add: st0_def pulse_frames)
  then have "refreshes_ok st1"
    using assms socket_pulse(1) [of st0] by (auto simp: st1_def refreshes_ok_def pulse_def refreshes_effect le_SucI)
  moreover have "pulse st3 = pulse st1" by (simp add: st3_def Let_def pulse_frames)
  ultimately have "refreshes_ok st3" using refreshes_ok_pulse by blast
  then have "refreshes_ok (token_effect env st3)"
    using bootstrap_refreshes refreshes_ok_pulse [OF pulse_link [OF link_part.basic_frames(10)]] by (simp add: token_effect_def)
  moreover have "render env st = (if changed then token_effect env st3 else st3)"
    unfolding render_def st3_def st1_def changed_def st0_def Let_def ..
  ultimately show ?thesis using \<open>refreshes_ok st3\<close> by simp
qed

lemma step_refreshes: "refreshes_ok st \<Longrightarrow> refreshes_ok (web_step e st)"
proof (cases "w_crashed st")
  case False
  assume ok: "refreshes_ok st"
  obtain env ev where e: "e = (env, ev)" by (cases e)
  have frames: "refreshes_ok st'" if "pulse st' = pulse st" for st' using refreshes_ok_pulse [OF that] ok by simp
  have "refreshes_ok (web_event_step env ev st)"
    using ok
    by (cases ev) (simp_all add: web_event_step_def render_refreshes task_refreshes frames pulse_frames)
  then show ?thesis using False e by (simp add: web_step_def)
qed (simp add: web_step_def)

lemma run_refreshes: "refreshes_ok st \<Longrightarrow> refreshes_ok (web_run es st)"
  by (induction es arbitrary: st) (simp_all add: web_run_def step_refreshes)

lemma mount_refreshes: "refreshes_ok (mount env user token cursors)"
  by (simp add: mount_def refreshes_ok_def refreshes_def suspend_def emit_def Let_def split: option.split list.split)

section \<open>Signed out\<close>

definition signed_out :: "web \<Rightarrow> bool" where
  "signed_out st \<longleftrightarrow>
     w_token st = [] \<and> v_token (w_view st) = [] \<and> w_socket st = None \<and> w_reconnect st = None
     \<and> (\<forall>k\<in>set (refreshes st). k < w_effect st) \<and> \<not> startup st"

text \<open>The answers to a login or a registration.\<close>

definition signs_in :: "web_event \<Rightarrow> web \<Rightarrow> bool" where
  "signs_in ev st =
     (case ev of
        Ev_task i r r' \<Rightarrow>
          (case map_of (w_tasks st) i of
             Some (T_login u) \<Rightarrow> True
           | Some (T_register u) \<Rightarrow> True
           | _ \<Rightarrow> False)
      | _ \<Rightarrow> False)"

fun nobody_signs_in :: "(web_env \<times> web_event) list \<Rightarrow> web \<Rightarrow> bool" where
  "nobody_signs_in [] st = True"
| "nobody_signs_in (e # es) st = (\<not> signs_in (snd e) st \<and> nobody_signs_in es (web_step e st))"

definition quiet :: "web \<Rightarrow> web \<Rightarrow> bool" where
  "quiet st st' \<longleftrightarrow> signed_out st' \<and> opened_sockets st' = opened_sockets st"

lemma quiet_link: "signed_out st \<Longrightarrow> link st' = link st \<Longrightarrow> quiet st st'"
  by (simp add: quiet_def signed_out_def link_def)

lemma quiet_render: "signed_out st \<Longrightarrow> quiet st (render env st)"
proof -
  assume out: "signed_out st"
  let ?st0 = "st\<lparr>w_view := view_of st, w_activeToken := w_token st\<rparr>"
  have "link ?st0 = link st"
    using out by (simp add: link_def view_of_def signed_out_def refreshes_def opened_sockets_def startup_def)
  moreover have "v_token (w_view ?st0) = v_token (w_view st)" using out by (simp add: view_of_def signed_out_def)
  ultimately have "link (render env st) = link st"
    by (simp add: render_def Let_def link_frames)
  then show ?thesis by (rule quiet_link [OF out])
qed

lemma quiet_closed: "signed_out st \<Longrightarrow> quiet st (socket_closed env i st)"
proof -
  assume out: "signed_out st"
  let ?st0 = "set_socket i W_closed st"
  let ?st1 = "reject_requests env E_closed (map fst (filter (\<lambda>(_, p). wp_socket p = i) (w_pending ?st0))) ?st0"
  have same: "link ?st1 = link st" by (simp add: link_frames)
  then have "w_socket ?st1 = None" using out by (simp add: link_def signed_out_def)
  then have "link (socket_closed env i st) = link st"
    using same by (simp add: socket_closed_def Let_def split: option.split)
  then show ?thesis by (rule quiet_link [OF out])
qed

lemma quiet_logout: "signed_out st \<Longrightarrow> quiet st (logout st)"
proof -
  assume out: "signed_out st"
  have "link (st\<lparr>w_token := []\<rparr>) = link st"
    using out by (simp add: link_def signed_out_def refreshes_def opened_sockets_def startup_def)
  moreover have "link (logout st) = link ((forget_account st)\<lparr>w_token := []\<rparr>)"
    using out by (simp add: logout_def Let_def link_frames signed_out_def)
  moreover have "link ((forget_account st)\<lparr>w_token := []\<rparr>) = link (st\<lparr>w_token := []\<rparr>)"
    by (simp add: forget_account_def link_def refreshes_def opened_sockets_def startup_def)
  ultimately show ?thesis using quiet_link [OF out] by simp
qed

lemma quiet_task:
  assumes "signed_out st" "\<not> signs_in (Ev_task i r r') st"
  shows "quiet st (task_resumes env i r r' st)"
proof -
  let ?st = "st\<lparr>w_tasks := AList.delete i (w_tasks st)\<rparr>"
  have out: "signed_out ?st" "opened_sockets ?st = opened_sockets st"
    using assms(1) refreshes_delete [of i st] set_delete_subset [of i "w_tasks st"]
    by (auto simp: signed_out_def opened_sockets_def startup_def list_ex_iff)
  have idle: "link (?st\<lparr>w_token := []\<rparr>) = link ?st"
    using out by (simp add: link_def signed_out_def refreshes_def opened_sockets_def startup_def)
  have data: "link (data_loaded d s r r' ?st) = link ?st" for d s
  proof -
    have "link (showError E_login_expired (?st\<lparr>w_token := [], w_device := [], w_session := []\<rparr>)) = link ?st"
      using idle by (simp add: link_frames)
    then show ?thesis by (simp add: data_loaded_def Let_def link_frames split: fetch_result.split option.split)
  qed
  have refresh: "link (refresh_answered env k t x d s r ?st) = link ?st" if "map_of (w_tasks st) i = Some (T_refresh k t x d s)" for k t x d s
  proof -
    have "k \<in> set (refreshes st)" using map_of_SomeD [OF that] by (force simp: refreshes_def)
    then have "k \<noteq> w_effect ?st" using assms(1) by (auto simp: signed_out_def)
    then show ?thesis by (simp add: refresh_answered_def Let_def)
  qed
  have "link (task_resumes env i r r' st) \<in> {link st, link ?st}"
  proof (cases "map_of (w_tasks st) i")
    case (Some task)
    show ?thesis
    proof (cases task)
      case (T_data t d s)
      then show ?thesis using Some data [of d s] by (simp add: task_resumes_def Let_def)
    next
      case (T_refresh k t x d s)
      then have "link (refresh_answered env k t x d s r ?st) = link ?st" using Some by (intro refresh) simp
      then show ?thesis using Some T_refresh by (simp add: task_resumes_def Let_def)
    next
      case (T_revoke d)
      then show ?thesis using Some link_part.account_frames(4) [of d r ?st] by (simp add: task_resumes_def Let_def)
    next
      case T_session_token
      then have "startup st" using map_of_SomeD [OF Some] by (auto simp: startup_def list_ex_iff)
      then show ?thesis using assms(1) by (simp add: signed_out_def)
    qed (use Some assms(2) in \<open>simp_all add: signs_in_def\<close>)
  qed (simp add: task_resumes_def)
  then consider "link (task_resumes env i r r' st) = link st" | "link (task_resumes env i r r' st) = link ?st" by blast
  then show ?thesis
  proof cases
    case 1
    then show ?thesis by (rule quiet_link [OF assms(1)])
  next
    case 2
    then have "quiet ?st (task_resumes env i r r' st)" by (rule quiet_link [OF out(1)])
    then show ?thesis unfolding quiet_def out(2) .
  qed
qed

lemma quiet_step:
  assumes "signed_out st" "\<not> signs_in (snd e) st"
  shows "quiet st (web_step e st)"
proof (cases "w_crashed st")
  case False
  obtain env ev where e: "e = (env, ev)" by (cases e)
  have frames: "quiet st st'" if "link st' = link st" for st' by (rule quiet_link [OF assms(1) that])
  have "quiet st (reconnect_fires st)" using assms(1) by (simp add: reconnect_fires_def signed_out_def frames)
  then have "quiet st (web_event_step env ev st)"
    using assms e
    by (cases ev) (simp_all add: web_event_step_def quiet_render quiet_closed quiet_logout quiet_task frames link_frames)
  then show ?thesis using False e by (simp add: web_step_def)
qed (use assms in \<open>simp add: web_step_def quiet_def\<close>)

lemma quiet_run: "signed_out st \<Longrightarrow> nobody_signs_in es st \<Longrightarrow> opened_sockets (web_run es st) = opened_sockets st"
proof (induction es arbitrary: st)
  case (Cons e es)
  have "quiet st (web_step e st)" using Cons.prems by (simp add: quiet_step)
  then show ?case using Cons by (simp add: web_run_def quiet_def)
qed (simp add: web_run_def)

text \<open>A logout and the render that follows it leave the client signed out.\<close>

lemma end_connection_link:
  "link (end_connection st) = (w_token st, v_token (w_view st), None, None, w_effect st, refreshes st, opened_sockets st, startup st)"
proof -
  have "link (end_connection st) = link (st\<lparr>w_reconnect := None, w_heartbeat := None, w_socket := None\<rparr>)"
    by (simp add: end_connection_def Let_def link_frames) (simp add: clear_gaps_def link_def refreshes_def opened_sockets_def startup_def)
  then show ?thesis by (simp add: link_def refreshes_def opened_sockets_def startup_def)
qed

lemma logout_link:
  "link (logout st) = ([], v_token (w_view st), w_socket st, w_reconnect st, w_effect st, refreshes st, opened_sockets st, startup st)"
proof -
  have "link (logout st) = link (st\<lparr>w_token := []\<rparr>)"
    by (simp add: logout_def Let_def link_frames)
      (simp add: forget_account_def link_def refreshes_def opened_sockets_def startup_def emit_def)
  then show ?thesis by (simp add: link_def refreshes_def opened_sockets_def startup_def)
qed

lemma logout_signs_out:
  assumes "refreshes_ok st" "v_token (w_view st) \<noteq> []" "\<not> startup st"
  shows "signed_out (render env (logout st)) \<and> opened_sockets (render env (logout st)) = opened_sockets st"
proof -
  let ?st = "logout st"
  let ?rendered = "?st\<lparr>w_view := view_of ?st, w_activeToken := w_token ?st\<rparr>"
  let ?ended = "(end_connection ?rendered)\<lparr>w_effect := Suc (w_effect ?rendered)\<rparr>"
  have out: "w_token ?st = []" "v_token (w_view ?st) \<noteq> []" "w_effect ?st = w_effect st" "refreshes ?st = refreshes st"
      "opened_sockets ?st = opened_sockets st" "startup ?st = startup st"
    using logout_link [of st] assms(2) by (simp_all add: link_def)
  have st0: "w_token ?rendered = []" "v_token (w_view ?rendered) = []" "w_effect ?rendered = w_effect st" "refreshes ?rendered = refreshes st"
      "opened_sockets ?rendered = opened_sockets st" "startup ?rendered = startup st"
    using out by (simp_all add: view_of_def refreshes_def opened_sockets_def startup_def)
  have st1: "link ?ended = ([], [], None, None, Suc (w_effect st), refreshes st, opened_sockets st, startup st)"
    using end_connection_link [of ?rendered] st0 by (simp add: link_def refreshes_def opened_sockets_def startup_def)
  have "link (render env ?st) = link ?ended"
  proof -
    let ?last = "if v_device (w_view ?rendered) \<noteq> v_device (w_view ?st) then device_effect env (session_effect ?ended) else session_effect ?ended"
    have st3: "link ?last = link ?ended" by (simp add: link_frames)
    then have "v_token (w_view ?last) = []" using st1 by (simp add: link_def)
    then have "link (token_effect env ?last) = link ?ended"
      using st3 by (simp add: token_effect_def link_frames)
    moreover have "render env ?st = token_effect env ?last"
      using out st0 by (simp add: render_def Let_def)
    ultimately show ?thesis by simp
  qed
  then have "link (render env ?st) = ([], [], None, None, Suc (w_effect st), refreshes st, opened_sockets st, startup st)" using st1 by simp
  then show ?thesis using assms(1,3) by (auto simp: link_def signed_out_def refreshes_ok_def le_imp_less_Suc)
qed

lemma crashed_run: "w_crashed st \<Longrightarrow> web_run es st = st"
  by (induction es) (simp_all add: web_run_def web_step_def)

lemma logout_alive: "w_crashed (logout st) = w_crashed st"
  by (simp add: logout_def emit_def forget_account_def clear_gaps_def shut_socket_def set_socket_def Let_def split: option.split)

text \<open>C23. After a logout the web client opens no connection until somebody signs in again with a login or a registration:
  whatever happens next, be it timers, answers that were still under way or the end of the old connection, no
  socket is opened. The page was signed in and is rendered right after the logout, as it is when the state of the page changes; and
  the request for a stored token that the client makes when it starts has been answered before. That
  condition is needed: a late answer to this request does open a connection (\<open>late_token_opens_a_socket\<close>).\<close>

theorem logout_opens_no_socket:
  assumes "st = web_run before (mount env user token cursors)" "v_token (w_view st) \<noteq> []" "\<not> startup st"
    and "nobody_signs_in es (web_run [(e1, Ev_logout), (e2, Ev_render)] st)"
  shows "opened_sockets (web_run ((e1, Ev_logout) # (e2, Ev_render) # es) st) = opened_sockets st"
proof (cases "w_crashed st")
  case False
  have run: "web_run [(e1, Ev_logout), (e2, Ev_render)] st = render e2 (logout st)"
    using False by (simp add: web_run_def web_step_def web_event_step_def logout_alive)
  have "refreshes_ok st" using assms(1) run_refreshes [OF mount_refreshes] by simp
  then have "signed_out (render e2 (logout st)) \<and> opened_sockets (render e2 (logout st)) = opened_sockets st"
    using assms(2,3) by (rule logout_signs_out)
  then have "opened_sockets (web_run es (render e2 (logout st))) = opened_sockets st" using quiet_run assms(4) run by simp
  then show ?thesis using run by (simp add: web_run_def)
qed (simp add: crashed_run)

lemma sample_logout:
  "v_token (w_view (web_run [(plain_env ''u1'', Ev_render)] (mount (plain_env ''u0'') None (Some ''tok'') None))) = ''tok''
   \<and> \<not> startup (web_run [(plain_env ''u1'', Ev_render)] (mount (plain_env ''u0'') None (Some ''tok'') None))
   \<and> length (opened_sockets (web_run [(plain_env ''u1'', Ev_render)] (mount (plain_env ''u0'') None (Some ''tok'') None))) = 1
   \<and> nobody_signs_in [(plain_env ''u5'', Ev_close 0)]
       (web_run [(plain_env ''u3'', Ev_logout), (plain_env ''u4'', Ev_render)]
          (web_run [(plain_env ''u1'', Ev_render)] (mount (plain_env ''u0'') None (Some ''tok'') None)))"
  by code_simp

text \<open>Somebody signs in before the request for a stored token is answered and signs out again; the answer then
  arrives and opens a connection.\<close>

definition sample_early_login :: "(web_env \<times> web_event) list" where
  "sample_early_login = map (Pair (plain_env ''u1''))
     [Ev_type_user ''ann'', Ev_type_password ''secret'', Ev_render, Ev_login None,
      Ev_task 1 (F_response 200 (Some (JObj [(''token'', JStr ''tok'')]))) F_error, Ev_render]"

definition sample_late_token :: "(web_env \<times> web_event) list" where
  "sample_late_token = map (Pair (plain_env ''u1''))
     [Ev_task 0 (F_response 200 (Some (JObj [(''token'', JStr ''0123456789abcdefg'')]))) F_error, Ev_render]"

lemma late_token_opens_a_socket:
  "let st = web_run sample_early_login (mount (plain_env ''u0'') None None None);
       out = [(plain_env ''u3'', Ev_logout), (plain_env ''u4'', Ev_render)]
   in v_token (w_view st) = ''tok'' \<and> nobody_signs_in sample_late_token (web_run out st)
      \<and> length (opened_sockets (web_run (out @ sample_late_token) st)) = Suc (length (opened_sockets st))"
  by code_simp

theorem logout_opens_no_socket_witness:
  "\<exists>st. st = web_run [(plain_env ''u1'', Ev_render)] (mount (plain_env ''u0'') None (Some ''tok'') None)
    \<and> length (opened_sockets (web_run [(plain_env ''u3'', Ev_logout), (plain_env ''u4'', Ev_render),
        (plain_env ''u5'', Ev_close 0)] st)) = 1"
  using logout_opens_no_socket [OF refl, of "[(plain_env ''u1'', Ev_render)]" "plain_env ''u0''" None "Some ''tok''" None
      "[(plain_env ''u5'', Ev_close 0)]" "plain_env ''u3''" "plain_env ''u4''"]
    sample_logout by simp

end
