(* ===== verification/WebRequests.thy ===== *)
theory WebRequests
  imports WebFrames "HOL-Library.Multiset"
begin

text \<open>
  Properties of the requests of the web client: each is settled once and none waits for a closed socket; a load
  of the history comes to an end; after a logout no socket is opened.
\<close>

section \<open>Loads come to an end\<close>

text \<open>The pages that a load asks for, when the answers are \<open>rs\<close>.\<close>

fun load_trace :: "page_result list \<Rightarrow> history_load \<Rightarrow> history_load list" where
  "load_trace [] l = [l]"
| "load_trace (r # rs) l =
     l # (case load_page r l of Load_continues l' \<Rightarrow> load_trace rs l' | _ \<Rightarrow> [])"

lemma load_continues:
  assumes "load_page r l = Load_continues l'"
  shows "hl_page l' = Suc (hl_page l) \<and> hl_page l' < 100 \<and> hl_after l < hl_after l' \<and> hl_session l' = hl_session l"
  using assms
  by (auto simp: load_page_def Let_def split: page_result.splits if_splits option.splits json.splits)

lemma load_trace_bounds:
  "hl_page l < 100 \<Longrightarrow> length (load_trace rs l) + hl_page l \<le> 100
   \<and> (\<forall>k\<in>set (tl (load_trace rs l)). hl_after l < hl_after k) \<and> sorted_wrt (<) (map hl_after (load_trace rs l))"
proof (induction rs arbitrary: l)
  case (Cons r rs)
  show ?case
  proof (cases "load_page r l")
    case (Load_continues l')
    note next_page = load_continues [OF Load_continues]
    have IH: "length (load_trace rs l') + hl_page l' \<le> 100 \<and> (\<forall>k\<in>set (tl (load_trace rs l')). hl_after l' < hl_after k)
        \<and> sorted_wrt (<) (map hl_after (load_trace rs l'))"
      using next_page by (intro Cons.IH) simp
    have "\<forall>k\<in>set (load_trace rs l'). hl_after l < hl_after k"
      using IH next_page by (cases rs) (auto split: page_step.splits)
    then show ?thesis using Load_continues IH next_page by simp
  qed (use Cons.prems in auto)
qed simp

text \<open>Loading the history of a session comes to an end whatever the relay answers: the client asks for at most
  100 pages, and every page begins after the one before it, so none is asked for twice.\<close>

theorem history_load_ends:
  "length (load_trace rs \<lparr>hl_session = sid, hl_token = t, hl_revision = k, hl_list = [], hl_after = 0, hl_page = 0\<rparr>) \<le> 100
   \<and> sorted_wrt (<) (map hl_after
       (load_trace rs \<lparr>hl_session = sid, hl_token = t, hl_revision = k, hl_list = [], hl_after = 0, hl_page = 0\<rparr>))"
  using load_trace_bounds [of "\<lparr>hl_session = sid, hl_token = t, hl_revision = k, hl_list = [], hl_after = 0, hl_page = 0\<rparr>" rs]
  by simp

section \<open>Requests are settled once\<close>

text \<open>The ids of the requests to the gateway among the frames that have been sent.\<close>

definition asked_id :: "web_output \<Rightarrow> string option" where
  "asked_id out =
     (case out of
        O_frame k j \<Rightarrow> if jget j ''type'' = Some (JStr ''gateway-proxy'') then as_str (jget j ''requestId'') else None
      | _ \<Rightarrow> None)"

definition asked :: "web \<Rightarrow> string list" where
  "asked st = List.map_filter asked_id (w_outputs st)"

lemma asked_emit: "asked (emit out st) = asked st @ (case asked_id out of Some i \<Rightarrow> [i] | None \<Rightarrow> [])"
  by (simp add: asked_def emit_def map_filter_def split: option.split)

lemma asked_cong: "w_outputs st' = w_outputs st \<Longrightarrow> asked st' = asked st"
  by (simp add: asked_def)

text \<open>The part of the state that requests live in.\<close>

definition calls ::
  "web \<Rightarrow> (string \<times> web_pending) list \<times> (string \<times> call_result) list \<times> (nat \<times> web_socket) list \<times> string list" where
  "calls st = (w_pending st, w_settled st, w_sockets st, asked st)"

named_theorems call_frames \<open>operations that do not touch requests and sockets\<close>

interpretation call_part: web_part calls
  by unfold_locales (simp_all add: calls_def asked_def emit_def suspend_def map_filter_def asked_id_def)

lemmas part_calls [call_frames] = call_part.frames

lemma field_calls [call_frames]:
  "calls (st\<lparr>w_tasks := ts\<rparr>) = calls st" "calls (st\<lparr>w_token := t\<rparr>) = calls st" "calls (st\<lparr>w_view := vw\<rparr>) = calls st"
  "calls (st\<lparr>w_effect := ef\<rparr>) = calls st" "calls (st\<lparr>w_reconnect := rc\<rparr>) = calls st" "calls (st\<lparr>w_socket := sk\<rparr>) = calls st"
  "calls (suspend tk st) = calls st" "calls (st\<lparr>w_cursors := cs\<rparr>) = calls st"
  by (simp_all add: calls_def suspend_def asked_def)

lemma cursor_calls [call_frames]:
  "calls (forget_account st) = calls st" "calls (saveCursor env s n st) = calls st" "calls (resetCursor env s n st) = calls st"
  by (simp_all add: forget_account_def saveCursor_def resetCursor_def Let_def call_frames)

lemma load_done_calls [call_frames]: "calls (load_done env l st) = calls st"
  by (simp add: load_done_def Let_def call_frames split: option.split)

lemma load_calls [call_frames]: "calls (load_resumes env i pr st) = calls st"
  by (simp add: load_resumes_def Let_def call_frames split: option.split page_step.split)

lemma event_calls [call_frames]:
  "calls (save_number env m st) = calls st" "calls (show_event env m st) = calls st" "calls (live_event env t m st) = calls st"
  "calls (on_history_gap env m st) = calls st"
proof -
  show save: "calls (save_number env m st) = calls st" for st
    by (simp add: save_number_def call_frames split: option.split)
  show shown: "calls (show_event env m st) = calls st" for st
    by (simp add: show_event_def Let_def call_frames save split: option.split json.split)
  show "calls (live_event env t m st) = calls st"
    by (simp add: live_event_def call_frames save shown split: event_verdict.split)
  show "calls (on_history_gap env m st) = calls st"
    by (simp add: on_history_gap_def Let_def call_frames split: option.split json.split)
qed

lemma adopt_cursors_calls [call_frames]: "calls (fold (adopt_cursor env) fs st) = calls st"
  by (induction fs arbitrary: st) (simp_all add: adopt_cursor_def call_frames split: json.split)

lemma resume_complete_calls [call_frames]: "calls (on_resume_complete env i m st) = calls st"
  by (simp add: on_resume_complete_def Let_def call_frames split: option.split json.split)

lemma account_calls [call_frames]:
  "calls (session_token_answered r st) = calls st" "calls (data_loaded d s r r' st) = calls st"
  "calls (sign_in_answered u r st) = calls st" "calls (register_answered u r st) = calls st"
  by (auto simp: session_token_answered_def data_loaded_def sign_in_answered_def register_answered_def Let_def call_frames
      split: fetch_result.split option.split list.split)

subsection \<open>The invariant\<close>

definition known_ids :: "web \<Rightarrow> string set" where
  "known_ids st = fst ` set (w_pending st) \<union> fst ` set (w_settled st)"

definition sock_alive :: "web \<Rightarrow> nat \<Rightarrow> bool" where
  "sock_alive st k = (case map_of (w_sockets st) k of Some s \<Rightarrow> wk_state s \<noteq> W_closed | None \<Rightarrow> False)"

text \<open>Every request that was sent is pending or settled, once; a pending one has a socket that may still answer
  it.\<close>

definition ids_ok :: "web \<Rightarrow> bool" where
  "ids_ok st \<longleftrightarrow> distinct (map fst (w_pending st) @ map fst (w_settled st))
     \<and> mset (asked st) = mset (map fst (w_pending st) @ map fst (w_settled st))"

definition requests_ok :: "web \<Rightarrow> bool" where
  "requests_ok st \<longleftrightarrow> ids_ok st \<and> (\<forall>x\<in>set (w_pending st). sock_alive st (wp_socket (snd x)))"

lemma calls_eqD:
  assumes "calls st' = calls st"
  shows "w_pending st' = w_pending st" "w_settled st' = w_settled st" "w_sockets st' = w_sockets st" "asked st' = asked st"
  using assms by (simp_all add: calls_def)

lemma calls_cong:
  assumes "calls st' = calls st"
  shows "requests_ok st' = requests_ok st" "known_ids st' = known_ids st" "sock_alive st' = sock_alive st"
  using calls_eqD [OF assms] by (simp_all add: requests_ok_def ids_ok_def known_ids_def sock_alive_def fun_eq_iff)

text \<open>Changes of sockets that close none of them.\<close>

definition sockets_grow :: "web \<Rightarrow> web \<Rightarrow> bool" where
  "sockets_grow st st' \<longleftrightarrow>
     w_pending st' = w_pending st \<and> w_settled st' = w_settled st \<and> asked st' = asked st \<and> (\<forall>k. sock_alive st k \<longrightarrow> sock_alive st' k)"

lemma sockets_grow_ok: "sockets_grow st st' \<Longrightarrow> requests_ok st \<Longrightarrow> requests_ok st'"
  by (auto simp: sockets_grow_def requests_ok_def ids_ok_def)

lemma sockets_grow_known: "sockets_grow st st' \<Longrightarrow> known_ids st' = known_ids st"
  by (simp add: sockets_grow_def known_ids_def)

lemma sockets_grow_trans: "sockets_grow st st' \<Longrightarrow> sockets_grow st' st'' \<Longrightarrow> sockets_grow st st''"
  by (simp add: sockets_grow_def)

lemma sockets_grow_frame: "calls st' = calls st \<Longrightarrow> sockets_grow st st'"
  unfolding sockets_grow_def using calls_eqD calls_cong(3) by metis

lemma map_of_set_socket:
  "map_of (w_sockets (set_socket i s st)) k =
     map_option (\<lambda>x. if k = i then x\<lparr>wk_state := s\<rparr> else x) (map_of (w_sockets st) k)"
proof -
  have "map_of (map (\<lambda>(k, x). (k, if k = i then x\<lparr>wk_state := s\<rparr> else x)) xs) k =
      map_option (\<lambda>x. if k = i then x\<lparr>wk_state := s\<rparr> else x) (map_of xs k)" for xs :: "(nat \<times> web_socket) list"
    by (induction xs) auto
  then show ?thesis by (simp add: set_socket_def)
qed

lemma set_socket_grow: "s \<noteq> W_closed \<Longrightarrow> sockets_grow st (set_socket i s st)"
  by (auto simp: sockets_grow_def sock_alive_def map_of_set_socket split: option.splits) (simp_all add: set_socket_def asked_def)

lemma shut_socket_grow: "sockets_grow st (shut_socket k st)"
  by (auto simp: shut_socket_def set_socket_grow sockets_grow_frame split: option.split)

lemma connectWs_grow: "sockets_grow st (connectWs t st)"
proof (cases "t = []")
  case False
  let ?st = "shut_socket (w_socket st) st"
  have "sockets_grow ?st (connectWs t st)"
    using False
    by (auto simp: connectWs_def Let_def sockets_grow_def sock_alive_def asked_emit asked_id_def map_add_Some_iff
        split: option.splits) (simp_all add: emit_def asked_def map_add_Some_iff)
  then show ?thesis using shut_socket_grow sockets_grow_trans by blast
qed (simp add: connectWs_def sockets_grow_frame)

lemma end_connection_grow: "sockets_grow st (end_connection st)"
proof -
  have "sockets_grow st ((clear_gaps (st\<lparr>w_reconnect := None, w_heartbeat := None\<rparr>))\<lparr>w_socket := None\<rparr>)"
    by (rule sockets_grow_frame) (simp add: call_frames)
  then show ?thesis unfolding end_connection_def Let_def by (rule sockets_grow_trans) (rule shut_socket_grow)
qed

lemma open_account_grow: "sockets_grow st (open_account d s t st)"
  unfolding open_account_def
  by (rule sockets_grow_trans [OF sockets_grow_frame connectWs_grow]) (simp add: call_frames)

lemma bootstrap_grow: "sockets_grow st (bootstrap env st)"
  by (auto simp: bootstrap_def Let_def open_account_grow sockets_grow_frame call_frames split: option.split)

lemma refresh_grow: "sockets_grow st (refresh_answered env k t x d s r st)"
  by (simp add: refresh_answered_def Let_def open_account_grow sockets_grow_frame call_frames)

lemma ok_frame: "calls st' = calls st \<Longrightarrow> requests_ok st \<Longrightarrow> requests_ok st'"
  using calls_cong(1) by blast

lemma mset_delete:
  assumes "map_wf m" "i \<in> fst ` set m"
  shows "mset (map fst m) = add_mset i (mset (map fst (AList.delete i m)))"
proof -
  have "set_mset (mset (map fst m)) = set_mset (add_mset i (mset (map fst (AList.delete i m))))"
    using assms(2) by (auto simp: dom_delete_keys)
  moreover have "distinct (i # map fst (AList.delete i m))"
    using assms(1) by (simp add: map_wf_delete dom_delete_keys)
  ultimately show ?thesis
    using assms(1) by (metis mset.simps(2) set_eq_iff_mset_eq_distinct set_mset_mset)
qed

text \<open>Settling a request, also while its socket is already closed.\<close>

lemma settle_request_ids:
  assumes "ids_ok st"
  shows "ids_ok (settle_request env i r st)
    \<and> w_pending (settle_request env i r st) = AList.delete i (w_pending st)
    \<and> w_sockets (settle_request env i r st) = w_sockets st"
proof (cases "map_of (w_pending st) i")
  case None
  then have "AList.delete i (w_pending st) = w_pending st"
    by (simp add: delete_fresh map_of_eq_None_iff)
  then show ?thesis using None assms by (simp add: settle_request_def)
next
  case (Some p)
  let ?st = "st\<lparr>w_pending := AList.delete i (w_pending st), w_settled := w_settled st @ [(i, r)]\<rparr>"
  have "i \<in> fst ` set (w_pending st)" using Some by (metis domI dom_map_of_conv_image_fst)
  then have "ids_ok ?st"
    using assms mset_delete [of "w_pending st" i] by (auto simp: ids_ok_def asked_def map_wf_delete dom_delete_keys)
  moreover have "settle_request env i r st = resume_call env (wp_call p) r ?st" using Some by (simp add: settle_request_def)
  moreover have "ids_ok (resume_call env (wp_call p) r ?st) = ids_ok ?st"
    unfolding ids_ok_def calls_eqD [OF call_part.call_frames(1)] ..
  ultimately show ?thesis by (simp add: calls_eqD [OF call_part.call_frames(1)])
qed

lemma settle_request_ok:
  assumes "requests_ok st"
  shows "requests_ok (settle_request env i r st)"
proof -
  have "ids_ok st" using assms by (simp add: requests_ok_def)
  note settled = settle_request_ids [OF this, of env i r]
  then have "sock_alive (settle_request env i r st) = sock_alive st" by (simp add: sock_alive_def fun_eq_iff)
  then show ?thesis
    using settled assms set_delete_subset [of i "w_pending st"] unfolding requests_ok_def by auto
qed

lemma reject_requests_ids:
  assumes "ids_ok st"
  shows "ids_ok (reject_requests env e is st)
    \<and> set (w_pending (reject_requests env e is st)) \<subseteq> {x\<in>set (w_pending st). fst x \<notin> set is}
    \<and> w_sockets (reject_requests env e is st) = w_sockets st"
  using assms
proof (induction "is" arbitrary: st)
  case (Cons i "is")
  let ?st = "settle_request env i (Rejected e) st"
  have ok: "ids_ok ?st" "w_pending ?st = AList.delete i (w_pending st)" "w_sockets ?st = w_sockets st"
    using settle_request_ids [OF Cons.prems] by blast+
  have "set (w_pending ?st) \<subseteq> {x\<in>set (w_pending st). fst x \<noteq> i}"
    using ok(2) dom_delete_keys [of i "w_pending st"] set_delete_subset [of i "w_pending st"] by auto
  then show ?case using Cons.IH [OF ok(1)] ok(3) by (auto simp: reject_requests_def)
qed (simp add: reject_requests_def)

lemma proxy_frame_asked: "asked_id (O_frame k (proxy_frame env d verb path body)) = Some (we_uuid env)"
  by (simp add: asked_id_def proxy_frame_def jget_def as_str_def)

lemma send_ok:
  assumes "requests_ok st" "we_uuid env \<notin> known_ids st"
  shows "requests_ok (sendGatewayProxy env verb path body raw call st)"
proof (cases "sock_in W_open (w_socket st) st \<and> v_device (w_view st) \<noteq> []")
  case True
  then obtain i s where i: "w_socket st = Some i" "map_of (w_sockets st) i = Some s" "wk_state s = W_open"
    by (auto simp: sock_in_def split: option.splits)
  let ?p = "\<lparr>wp_call = call, wp_socket = i, wp_raw = raw, wp_method = verb, wp_path = path\<rparr>"
  let ?st = "emit (O_frame i (proxy_frame env (v_device (w_view st)) verb path body))
      (st\<lparr>w_pending := AList.update (we_uuid env) ?p (w_pending st)\<rparr>)"
  have pend: "w_pending ?st = w_pending st @ [(we_uuid env, ?p)]"
    using assms(2) by (simp add: emit_def update_fresh known_ids_def)
  have rest: "w_settled ?st = w_settled st" "w_sockets ?st = w_sockets st" by (simp_all add: emit_def)
  have ask: "asked ?st = asked st @ [we_uuid env]"
    by (simp add: asked_emit proxy_frame_asked) (simp add: asked_def)
  have "requests_ok ?st"
    using assms i unfolding requests_ok_def ids_ok_def sock_alive_def known_ids_def pend rest ask by auto
  then show ?thesis using True i(1) by (simp add: sendGatewayProxy_def)
qed (use assms in \<open>auto simp: sendGatewayProxy_def calls_cong(1) [OF call_part.call_frames(1)]\<close>)

lemma send_after:
  assumes "sockets_grow st st'" "requests_ok st" "we_uuid env \<notin> known_ids st"
  shows "requests_ok (sendGatewayProxy env verb path body raw call st')"
  using send_ok sockets_grow_ok [OF assms(1,2)] sockets_grow_known [OF assms(1)] assms(3) by simp

text \<open>A step makes at most one request; this is the id it would get.\<close>

definition step_id :: "web_env \<times> web_event \<Rightarrow> string" where
  "step_id e =
     (case snd e of
        Ev_prompt request p a opts \<Rightarrow> we_uuid request
      | Ev_create request ps \<Rightarrow> we_uuid request
      | _ \<Rightarrow> we_uuid (fst e))"

lemma web_opened_ok:
  assumes "requests_ok st" "we_uuid env \<notin> known_ids st"
  shows "requests_ok (socket_opened env i st)"
proof (cases "\<exists>s. map_of (w_sockets st) i = Some s \<and> wk_state s = W_connecting")
  case True
  then obtain s where s: "map_of (w_sockets st) i = Some s" "wk_state s = W_connecting" by blast
  define st1 where "st1 = (set_socket i W_open st)\<lparr>w_status := L_connected, w_error := None, w_reconnectAttempts := 0, w_resumeAttempts := 0\<rparr>"
  define st2 where "st2 = (if v_device (w_view st) \<noteq> [] then emit (O_frame i (subscribe_frame (v_device (w_view st)))) st1 else st1)"
  define st3 where "st3 = (if w_cursors st2 \<noteq> [] then emit (O_frame i (resume_frame (w_cursors st2))) st2 else st2)"
  define st4 where "st4 = (if v_session (w_view st3) \<noteq> [] then loadSessionEvents (v_session (w_view st3)) (wk_token s) st3 else st3)"
  have "sockets_grow st (set_socket i W_open st)" by (rule set_socket_grow) simp
  moreover have "calls st4 = calls (set_socket i W_open st)"
    by (simp add: st4_def st3_def st2_def st1_def call_frames)
  ultimately have grow: "sockets_grow st st4" using sockets_grow_frame sockets_grow_trans by blast
  have "requests_ok (if v_device (w_view st) \<noteq> [] then ask_models env st4 else st4)"
    using send_after [OF grow assms] sockets_grow_ok [OF grow assms(1)] by (simp add: ask_models_def)
  moreover have "socket_opened env i st
      = (if v_device (w_view st) \<noteq> [] then ask_models env st4 else st4)\<lparr>w_heartbeat := Some i\<rparr>"
    unfolding socket_opened_def st4_def st3_def st2_def st1_def using s by (simp add: Let_def)
  ultimately show ?thesis using ok_frame [OF call_part.kept(8)] by metis
qed (use assms in \<open>auto simp: socket_opened_def split: option.splits\<close>)

lemma web_closed_ok:
  assumes "requests_ok st"
  shows "requests_ok (socket_closed env i st)"
proof (cases "\<exists>s. map_of (w_sockets st) i = Some s \<and> wk_state s \<noteq> W_closed")
  case True
  then obtain s where s: "map_of (w_sockets st) i = Some s" "wk_state s \<noteq> W_closed" by blast
  define st0 where "st0 = set_socket i W_closed st"
  define st1 where "st1 = reject_requests env E_closed (map fst (filter (\<lambda>(_, p). wp_socket p = i) (w_pending st0))) st0"
  define st2 where "st2 = reject_requests env E_lost (map fst (w_pending st1)) (st1\<lparr>w_heartbeat := None\<rparr>)"
  have "ids_ok st0" using assms by (simp add: st0_def set_socket_def ids_ok_def requests_ok_def asked_def)
  note r1 = reject_requests_ids [OF this, of env E_closed "map fst (filter (\<lambda>(_, p). wp_socket p = i) (w_pending st0))", folded st1_def]
  have "requests_ok st1"
    unfolding requests_ok_def
  proof (intro conjI ballI)
    show "ids_ok st1" using r1 by blast
    have same: "w_pending st0 = w_pending st" by (simp add: st0_def set_socket_def)
    fix x assume "x \<in> set (w_pending st1)"
    then have "x \<in> set (w_pending st)" "fst x \<notin> fst ` set (filter (\<lambda>(_, p). wp_socket p = i) (w_pending st))"
      using r1 unfolding same set_map by blast+
    then have x: "x \<in> set (w_pending st)" "wp_socket (snd x) \<noteq> i" by (force simp: image_iff)+
    then have "sock_alive st (wp_socket (snd x))" using assms by (simp add: requests_ok_def)
    then show "sock_alive st1 (wp_socket (snd x))"
      using x r1 by (auto simp: sock_alive_def st0_def map_of_set_socket split: option.splits)
  qed
  moreover have "requests_ok st2"
  proof -
    have "ids_ok (st1\<lparr>w_heartbeat := None\<rparr>)" using r1 by (simp add: ids_ok_def asked_def)
    note r2 = reject_requests_ids [OF this, of env E_lost "map fst (w_pending st1)", folded st2_def]
    have "set (w_pending st2) \<subseteq> {x \<in> set (w_pending st1). fst x \<notin> set (map fst (w_pending st1))}" using r2 by simp
    then have "w_pending st2 = []" by (cases "w_pending st2") auto
    then show ?thesis using r2 by (simp add: requests_ok_def ids_ok_def)
  qed
  moreover have "calls (socket_closed env i st) \<in> {calls st1, calls st2}"
    using s by (simp add: socket_closed_def Let_def st0_def [symmetric] st1_def [symmetric] st2_def [symmetric] call_frames)
  ultimately show ?thesis using calls_cong(1) by blast
qed (use assms in \<open>auto simp: socket_closed_def split: option.splits\<close>)

lemma web_message_ok: "requests_ok st \<Longrightarrow> requests_ok (socket_message env i m st)"
proof -
  assume ok: "requests_ok st"
  have "requests_ok (on_proxy_response env x st)" for x
    using ok settle_request_ok by (simp add: on_proxy_response_def split: option.split json.split)
  then show ?thesis
    using ok ok_frame [OF event_calls(3)] ok_frame [OF event_calls(4)] ok_frame [OF resume_complete_calls]
    by (auto simp: socket_message_def Let_def split: option.split)
qed

lemma timeout_ok: "requests_ok st \<Longrightarrow> requests_ok (web_timeout env i st)"
  using settle_request_ok by (simp add: web_timeout_def split: option.split)

lemma web_reconnect_ok: "requests_ok st \<Longrightarrow> requests_ok (reconnect_fires st)"
proof -
  assume ok: "requests_ok st"
  have "requests_ok (connectWs t (st\<lparr>w_reconnect := None\<rparr>))" for t
    by (rule sockets_grow_ok [OF connectWs_grow]) (rule ok_frame [OF field_calls(5) ok])
  then show ?thesis using ok by (simp add: reconnect_fires_def split: option.split)
qed

lemma task_ok: "requests_ok st \<Longrightarrow> requests_ok (task_resumes env i r r' st)"
proof -
  assume ok: "requests_ok st"
  let ?st = "st\<lparr>w_tasks := AList.delete i (w_tasks st)\<rparr>"
  have ok1: "requests_ok ?st" by (rule ok_frame [OF field_calls(1) ok])
  have frame: "requests_ok (data_loaded d s r r' ?st)" "requests_ok (sign_in_answered u r ?st)"
    "requests_ok (register_answered u r ?st)" "requests_ok (session_token_answered r ?st)" "requests_ok (revoke_answered d r ?st)"
    for d s u
    by (rule ok_frame [OF _ ok1], simp add: call_frames)+
  have "requests_ok (refresh_answered env k t x d s r ?st)" for k t x d s
    by (rule sockets_grow_ok [OF refresh_grow ok1])
  then show ?thesis
    using ok frame by (simp add: task_resumes_def Let_def split: option.split web_task.split)
qed

lemma render_ok:
  assumes "requests_ok st" "we_uuid env \<notin> known_ids st"
  shows "requests_ok (render env st)"
proof -
  define st0 where "st0 = st\<lparr>w_view := view_of st, w_activeToken := w_token st\<rparr>"
  define changed where "changed = (v_token (w_view st0) \<noteq> v_token (w_view st))"
  define st1 where "st1 = (if changed then (end_connection st0)\<lparr>w_effect := Suc (w_effect st0)\<rparr> else st0)"
  define st2 where "st2 = (if v_session (w_view st0) \<noteq> v_session (w_view st) \<or> changed then session_effect st1 else st1)"
  define st3 where "st3 = (if v_device (w_view st0) \<noteq> v_device (w_view st) then device_effect env st2 else st2)"
  have "sockets_grow st st0" by (rule sockets_grow_frame) (simp add: st0_def call_frames)
  moreover have "sockets_grow st0 st1"
  proof (cases changed)
    case True
    have "sockets_grow (end_connection st0) st1"
      using True by (intro sockets_grow_frame) (simp add: st1_def call_frames)
    then show ?thesis by (rule sockets_grow_trans [OF end_connection_grow])
  qed (simp add: st1_def sockets_grow_frame)
  moreover have "sockets_grow st1 st2" by (rule sockets_grow_frame) (simp add: st2_def session_effect_def call_frames)
  ultimately have grow: "sockets_grow st st2" using sockets_grow_trans by blast
  have "requests_ok (device_effect env st2)"
  proof (cases "sock_in W_open (w_socket st2) st2 \<and> v_device (w_view st2) \<noteq> []")
    case True
    have "sockets_grow st (emit (O_frame (the (w_socket st2)) (subscribe_frame (v_device (w_view st2)))) st2)"
      by (rule sockets_grow_trans [OF grow sockets_grow_frame]) (simp add: call_frames)
    then show ?thesis using True send_after [OF _ assms] by (simp add: device_effect_def ask_models_def)
  qed (use sockets_grow_ok [OF grow assms(1)] in \<open>auto simp: device_effect_def\<close>)
  then have st3: "requests_ok st3" using sockets_grow_ok [OF grow assms(1)] by (simp add: st3_def)
  then have "requests_ok (token_effect env st3)"
    using sockets_grow_ok [OF bootstrap_grow] ok_frame [OF call_part.basic_frames(10)] by (simp add: token_effect_def)
  moreover have "render env st = (if changed then token_effect env st3 else st3)"
    unfolding render_def st3_def st2_def st1_def changed_def st0_def Let_def ..
  ultimately show ?thesis using st3 by simp
qed

lemma logout_ok: "requests_ok st \<Longrightarrow> requests_ok (logout st)"
proof -
  assume ok: "requests_ok st"
  let ?st1 = "if v_token (w_view st) \<noteq> [] then emit (O_fetch ''POST'' ''/auth/logout'' (v_token (w_view st)) None) st else st"
  let ?st3 = "clear_gaps ((forget_account ?st1)\<lparr>w_token := [], w_devices := [], w_device := [], w_sessions := [],
      w_session := [], w_rawEvents := [], w_turns := [], w_activeToken := []\<rparr>)"
  have "requests_ok ?st3" by (rule ok_frame [OF _ ok]) (simp add: call_frames)
  then have "requests_ok (shut_socket (w_socket ?st3) ?st3)" by (rule sockets_grow_ok [OF shut_socket_grow])
  then show ?thesis unfolding logout_def Let_def .
qed

lemma prompt_ok:
  assumes "requests_ok st" "we_uuid request \<notin> known_ids st"
  shows "requests_ok (sendPrompt env request p a opts st)"
proof -
  let ?st2 = "update_turns env (view_session (st\<lparr>w_seen := set_add (''request:'' @ we_uuid env) (w_seen st)\<rparr>))
      (optimistic_event env (v_session (w_view st)) p a) (st\<lparr>w_seen := set_add (''request:'' @ we_uuid env) (w_seen st)\<rparr>)"
  have "sockets_grow st ?st2" by (rule sockets_grow_frame) (simp add: call_frames)
  from send_after [OF this assms] show ?thesis using assms(1) by (simp add: sendPrompt_def Let_def)
qed

lemma action_ok:
  assumes "requests_ok st" "we_uuid env \<notin> known_ids st"
  shows "requests_ok (downloadFile env f st)" "requests_ok (sendApprovalDecision env i d am t st)"
    "requests_ok (interruptTask env st)" "requests_ok (resumeTask env st)" "requests_ok (setSessionPolicyMode env m c st)"
    "requests_ok (createNewSession env' env ps st)" "requests_ok (forkSession env s st)"
  using assms send_ok [OF assms]
  by (simp_all add: downloadFile_def sendApprovalDecision_def interruptTask_def resumeTask_def setSessionPolicyMode_def
      createNewSession_def forkSession_def Let_def)

lemma event_ok:
  assumes "requests_ok st" "step_id e \<notin> known_ids st"
  shows "requests_ok (web_step e st)"
proof (cases "w_crashed st")
  case False
  obtain env ev where e: "e = (env, ev)" by (cases e)
  have step: "web_step e st = web_event_step env ev st" using False e by (simp add: web_step_def)
  have frames: "requests_ok st'" if "calls st' = calls st" for st' by (rule ok_frame [OF that assms(1)])
  show ?thesis unfolding step
    using assms e
    by (cases ev)
      (simp_all add: web_event_step_def step_id_def render_ok web_opened_ok web_closed_ok web_message_ok timeout_ok web_reconnect_ok task_ok
        logout_ok prompt_ok action_ok frames call_frames)
qed (use assms in \<open>simp add: web_step_def\<close>)

text \<open>The ids of requests are new, as those of \<open>crypto.randomUUID\<close> are.\<close>

fun fresh_ids :: "(web_env \<times> web_event) list \<Rightarrow> web \<Rightarrow> bool" where
  "fresh_ids [] st = True"
| "fresh_ids (e # es) st = (step_id e \<notin> known_ids st \<and> fresh_ids es (web_step e st))"

lemma run_ok: "requests_ok st \<Longrightarrow> fresh_ids es st \<Longrightarrow> requests_ok (web_run es st)"
  by (induction es arbitrary: st) (simp_all add: web_run_def event_ok)

text \<open>C19. A request that the web client sends to the gateway ends exactly once: with the answer, after its time, or
  when the connection is lost. At every moment the ids of the \<open>gateway-proxy\<close> frames that have been sent are, as a
  multiset, those of the requests that wait for an answer together with those that have been settled, so that none is
  forgotten and none is settled twice; and one that waits has a socket that is not closed, so no call hangs on a
  connection that is gone. (The ids are new, as random ones are.)\<close>

theorem web_requests_settle_once:
  assumes "fresh_ids es (mount env user token cursors)" "st = web_run es (mount env user token cursors)"
  shows "mset (asked st) = mset (map fst (w_pending st)) + mset (map fst (w_settled st)) \<and> distinct (asked st)
    \<and> (\<forall>(i, p)\<in>set (w_pending st). \<exists>s. map_of (w_sockets st) (wp_socket p) = Some s \<and> wk_state s \<noteq> W_closed)"
proof -
  have "requests_ok (mount env user token cursors)"
    by (simp add: mount_def requests_ok_def ids_ok_def asked_def map_filter_def asked_id_def suspend_def emit_def Let_def
        split: option.split list.split)
  then have ok: "requests_ok st" using run_ok assms by blast
  then have "mset (asked st) = mset (map fst (w_pending st) @ map fst (w_settled st))"
    "distinct (map fst (w_pending st) @ map fst (w_settled st))"
    by (simp_all add: requests_ok_def ids_ok_def)
  moreover from this have "distinct (asked st)" by (metis mset_eq_imp_distinct_iff)
  ultimately show ?thesis
    using ok unfolding requests_ok_def sock_alive_def by (force split: option.splits)
qed

lemma sample_requests:
  "fresh_ids (sample_connect @ [(plain_env ''u2'', Ev_close 0)]) (mount (plain_env ''u0'') None (Some ''tok'') None)
   \<and> map fst (w_settled (web_run (sample_connect @ [(plain_env ''u2'', Ev_close 0)]) (mount (plain_env ''u0'') None (Some ''tok'') None)))
     = [''u1''] \<and> asked (web_run (sample_connect @ [(plain_env ''u2'', Ev_close 0)]) (mount (plain_env ''u0'') None (Some ''tok'') None)) = [''u1'']"
  by code_simp

theorem web_requests_settle_once_witness:
  "\<exists>st. st = web_run (sample_connect @ [(plain_env ''u2'', Ev_close 0)]) (mount (plain_env ''u0'') None (Some ''tok'') None)
    \<and> asked st = [''u1''] \<and> map fst (w_settled st) = [''u1''] \<and> map fst (w_pending st) = []"
proof -
  define st where "st = web_run (sample_connect @ [(plain_env ''u2'', Ev_close 0)]) (mount (plain_env ''u0'') None (Some ''tok'') None)"
  note sample = sample_requests [folded st_def]
  have all: "mset (asked st) = mset (map fst (w_pending st)) + mset (map fst (w_settled st))"
    using web_requests_settle_once [OF conjunct1 [OF sample] st_def] by (rule conjunct1)
  have settled: "map fst (w_settled st) = [''u1'']" and asked: "asked st = [''u1'']"
    using conjunct2 [OF sample] by (rule conjunct1, rule conjunct2)
  have "map fst (w_pending st) = []" using all unfolding settled asked by (cases "map fst (w_pending st)") simp_all
  then show ?thesis by (intro exI [of _ st] conjI st_def asked settled)
qed

end
