(* ===== verification/Markdown.thy ===== *)
theory Markdown
  imports Prelude
begin

text \<open>
  The answers of Codex as the web client shows them, after \<open>MarkdownView.tsx\<close>: a line parser
  (\<open>parseBlocks\<close>) that cuts the text into blocks and an inline parser (\<open>renderInline\<close>) that cuts a line into
  emphasis, code and links. A React node is a value of a datatype; the keys that number nodes for React and
  class names are left out. The regular expressions of the source are matchers with continuations, so that
  lazy repetition and the order of alternatives are those of JavaScript. The parser of the browser for
  addresses (\<open>new URL\<close>) is an argument that gives the protocol of an address or nothing.

  The loop of \<open>parseBlocks\<close> may run for ever, so it is a partial function: the value None stands for a page
  that hangs.
\<close>

section \<open>Regular expressions\<close>

text \<open>\<open>.\<close> matches every character but the ends of lines.\<close>

definition line_end :: "char \<Rightarrow> bool" where
  "line_end c = (c = CHR 0x0A \<or> c = CHR 0x0D)"

text \<open>A literal, followed by what the continuation matches.\<close>

definition lit :: "string \<Rightarrow> (string \<Rightarrow> 'a option) \<Rightarrow> string \<Rightarrow> 'a option" where
  "lit p k s = (if starts_with s p then k (drop (length p) s) else None)"

text \<open>\<open>(.*?)\<close> before a continuation: the shortest text after which the continuation matches, and its result.\<close>

primrec lazy_dots :: "(string \<Rightarrow> 'a option) \<Rightarrow> string \<Rightarrow> (string \<times> 'a) option" where
  "lazy_dots k [] = map_option (\<lambda>r. ([], r)) (k [])"
| "lazy_dots k (c # s) =
     (case k (c # s) of
        Some r \<Rightarrow> Some ([], r)
      | None \<Rightarrow> if line_end c then None else map_option (\<lambda>(t, r). (c # t, r)) (lazy_dots k s))"

text \<open>An expression without anchor: the first position at which it matches.\<close>

primrec search_from :: "(string \<Rightarrow> 'a option) \<Rightarrow> string \<Rightarrow> 'a option" where
  "search_from k [] = k []"
| "search_from k (c # s) = (case k (c # s) of Some r \<Rightarrow> Some r | None \<Rightarrow> search_from k s)"

section \<open>Inline text\<close>

datatype inline_node =
    PlainText string
  | StrongText string
  | EmText string
  | InlineCode string
  | LinkNode (link_href: string) (link_title: string)

text \<open>\<open>\[(.*?)\]\((.*?)\)\<close>: the title, the address and the rest.\<close>

definition link_groups :: "string \<Rightarrow> (string \<times> string \<times> string) option" where
  "link_groups = lit ''['' (lazy_dots (lit '']('' (lazy_dots (lit '')'' Some))))"

text \<open>The expression of \<open>renderInline\<close> at one position: what follows the token.\<close>

definition delimited :: "string \<Rightarrow> string \<Rightarrow> string option" where
  "delimited d s = map_option snd (lit d (lazy_dots (lit d Some)) s)"

definition inline_regex :: "string \<Rightarrow> string option" where
  "inline_regex s =
     (case delimited ''**'' s of Some r \<Rightarrow> Some r
      | None \<Rightarrow>
     (case delimited ''*'' s of Some r \<Rightarrow> Some r
      | None \<Rightarrow>
     (case delimited ''`'' s of Some r \<Rightarrow> Some r
      | None \<Rightarrow> map_option (snd \<circ> snd) (link_groups s))))"

text \<open>\<open>regex.exec(text)\<close> from \<open>lastIndex\<close> on: the text before the token, the token, the text after it.\<close>

primrec exec_inline :: "string \<Rightarrow> (string \<times> string \<times> string) option" where
  "exec_inline [] = None"
| "exec_inline (c # s) =
     (case inline_regex (c # s) of
        Some r \<Rightarrow> Some ([], take (length (c # s) - length r) (c # s), r)
      | None \<Rightarrow> map_option (\<lambda>(b, t, r). (c # b, t, r)) (exec_inline s))"

definition script_scheme :: "string \<Rightarrow> bool" where
  "script_scheme href =
     (\<exists>p\<in>{''javascript:'', ''data:'', ''vbscript:''}. starts_with (toLowerCase href) p)"

definition safeMarkdownHref :: "(string \<Rightarrow> string option) \<Rightarrow> string \<Rightarrow> string option" where
  "safeMarkdownHref protocol_of value =
     (let href = trim value
      in if href = [] \<or> script_scheme href then None
         else case protocol_of href of
                None \<Rightarrow> None
              | Some p \<Rightarrow> if p \<in> {''http:'', ''https:'', ''mailto:''} then Some href else None)"

text \<open>\<open>token.slice(n, -n)\<close>.\<close>

definition slice_inner :: "nat \<Rightarrow> string \<Rightarrow> string" where
  "slice_inner n token = drop n (take (length token - n) token)"

definition inline_token :: "(string \<Rightarrow> string option) \<Rightarrow> string \<Rightarrow> inline_node" where
  "inline_token protocol_of token =
     (if starts_with token ''**'' \<and> ends_with token ''**'' \<and> 4 \<le> length token
      then StrongText (slice_inner 2 token)
      else if starts_with token ''*'' \<and> ends_with token ''*'' \<and> 2 \<le> length token
      then EmText (slice_inner 1 token)
      else if starts_with token ''`'' \<and> ends_with token ''`'' \<and> 2 \<le> length token
      then InlineCode (slice_inner 1 token)
      else if starts_with token ''['' \<and> includes_str token '']('' \<and> ends_with token '')''
      then (case search_from link_groups token of
              Some (title, address, _) \<Rightarrow>
                (case safeMarkdownHref protocol_of address of
                   None \<Rightarrow> PlainText title
                 | Some href \<Rightarrow> LinkNode href title)
            | None \<Rightarrow> PlainText token)
      else PlainText token)"

lemma lit_length: "lit p k s = Some r \<Longrightarrow> \<exists>s'. s = p @ s' \<and> k s' = Some r"
  by (auto simp: lit_def starts_with_iff split: if_splits)

lemma lazy_dots_SomeD: "lazy_dots k s = Some (t, r) \<Longrightarrow> \<exists>s'. s = t @ s' \<and> k s' = Some r"
  by (induction s arbitrary: t) (auto split: option.splits if_splits)

lemma delimited_SomeD: "delimited d s = Some r \<Longrightarrow> \<exists>t. s = d @ t @ d @ r"
  unfolding delimited_def by (fastforce dest!: lit_length lazy_dots_SomeD)

lemma link_groups_SomeD: "link_groups s = Some (t, a, r) \<Longrightarrow> s = ''['' @ t @ '']('' @ a @ '')'' @ r"
  unfolding link_groups_def by (fastforce dest!: lit_length lazy_dots_SomeD)

text \<open>A match of the expression has at least two characters.\<close>

lemma inline_regex_shorter: "inline_regex s = Some r \<Longrightarrow> \<exists>t. s = t @ r \<and> 2 \<le> length t"
proof -
  assume m: "inline_regex s = Some r"
  then consider d where "delimited d s = Some r" "d \<noteq> []" | t a where "link_groups s = Some (t, a, r)"
    by (auto simp: inline_regex_def split: option.splits)
  then show ?thesis
  proof cases
    case 1
    then obtain t where "s = d @ t @ d @ r" using delimited_SomeD by blast
    with 1(2) show ?thesis by (intro exI [of _ "d @ t @ d"]) (cases d; simp)
  next
    case 2
    from link_groups_SomeD [OF this] show ?thesis
      by (intro exI [of _ "''['' @ t @ '']('' @ a @ '')''"]) simp
  qed
qed

lemma exec_inline_SomeD: "exec_inline s = Some (b, t, r) \<Longrightarrow> s = b @ t @ r \<and> 2 \<le> length t"
proof (induction s arbitrary: b)
  case (Cons c s)
  show ?case
  proof (cases "inline_regex (c # s)")
    case None
    with Cons show ?thesis by auto
  next
    case (Some r')
    then obtain u where u: "c # s = u @ r'" "2 \<le> length u" using inline_regex_shorter by blast
    then have "take (length (c # s) - length r') (c # s) = u" by simp
    with Some Cons.prems have "b = [] \<and> t = u \<and> r = r'" by auto
    with u show ?thesis by simp
  qed
qed simp

function (sequential) renderInline :: "(string \<Rightarrow> string option) \<Rightarrow> string \<Rightarrow> inline_node list" where
  "renderInline protocol_of text =
     (case exec_inline text of
        None \<Rightarrow> if text = [] then [] else [PlainText text]
      | Some (before, token, rest) \<Rightarrow>
          (if before = [] then [] else [PlainText before])
          @ inline_token protocol_of token # renderInline protocol_of rest)"
  by pat_completeness auto
termination
  by (relation "measure (length \<circ> snd)") (auto dest!: exec_inline_SomeD)

declare renderInline.simps [simp del]

section \<open>Blocks\<close>

datatype md_block =
    CodeBlock (code_text: string) (code_language: string)
  | HeadingBlock nat "inline_node list"
  | QuoteBlock "inline_node list list"
  | ListBlock "inline_node list list"
  | OrderedBlock "inline_node list list"
  | RuleBlock
  | TableBlock "inline_node list list" "inline_node list list list"
  | ParagraphBlock "inline_node list"

definition fence_line :: "string \<Rightarrow> bool" where
  "fence_line line = starts_with (trim line) ''```''"

definition fence_language :: "string \<Rightarrow> string" where
  "fence_language line = (let lang = trim (drop 3 (trim line)) in if lang = [] then ''text'' else lang)"

text \<open>The marks of headings, with their levels, in the order of the source.\<close>

definition heading_of :: "string \<Rightarrow> (nat \<times> string) option" where
  "heading_of line =
     (if starts_with line ''# '' then Some (1, drop 2 line)
      else if starts_with line ''## '' then Some (2, drop 3 line)
      else if starts_with line ''### '' then Some (3, drop 4 line)
      else if starts_with line ''#### '' then Some (4, drop 5 line)
      else None)"

definition quote_line :: "string \<Rightarrow> bool" where
  "quote_line line = starts_with line ''> ''"

text \<open>\<open>/^[-*+]\s+/\<close> and \<open>/^\d+\.\s+/\<close>: what is left of the line when the mark is removed.\<close>

definition after_blank :: "string \<Rightarrow> string option" where
  "after_blank s = (case s of [] \<Rightarrow> None | c # _ \<Rightarrow> if is_ws c then Some (dropWhile is_ws s) else None)"

definition bullet_item :: "string \<Rightarrow> string option" where
  "bullet_item line =
     (case line of [] \<Rightarrow> None | c # s \<Rightarrow> if c \<in> set ''-*+'' then after_blank s else None)"

definition is_digit :: "char \<Rightarrow> bool" where
  "is_digit c = (48 \<le> (of_char c :: nat) \<and> (of_char c :: nat) \<le> 57)"

definition numbered_item :: "string \<Rightarrow> string option" where
  "numbered_item line =
     (case line of
        [] \<Rightarrow> None
      | c # _ \<Rightarrow> if is_digit c then lit ''.'' after_blank (dropWhile is_digit line) else None)"

definition rule_line :: "string \<Rightarrow> bool" where
  "rule_line line = (trim line \<in> {''***'', ''---'', ''___''})"

text \<open>\<open>/\|?\s*[-:]+[-| :]*\s*\|?/\<close>. Everything after the first of \<open>[-:]\<close> is optional, and \<open>[-:]\<close> and \<open>\s\<close> have
  no character in common, so blanks are never given back.\<close>

definition divider_mark :: "string \<Rightarrow> unit option" where
  "divider_mark s =
     (case dropWhile is_ws s of
        c # _ \<Rightarrow> if c \<in> set ''-:'' then Some () else None
      | [] \<Rightarrow> None)"

definition divider_at :: "string \<Rightarrow> unit option" where
  "divider_at s = (case lit ''|'' divider_mark s of Some u \<Rightarrow> Some u | None \<Rightarrow> divider_mark s)"

definition divider_line :: "string \<Rightarrow> bool" where
  "divider_line line = (search_from divider_at line \<noteq> None)"

definition bar_line :: "string \<Rightarrow> bool" where
  "bar_line line = includes_str line ''|''"

definition table_cells :: "string \<Rightarrow> string list" where
  "table_cells line = filter (\<lambda>c. c \<noteq> []) (map trim (split_on (CHR ''|'') line))"

definition starts_table :: "string \<Rightarrow> string list \<Rightarrow> bool" where
  "starts_table line more =
     (bar_line line \<and> (case more of [] \<Rightarrow> False | next # _ \<Rightarrow> next \<noteq> [] \<and> divider_line next))"

definition table_block :: "(string \<Rightarrow> string option) \<Rightarrow> string \<Rightarrow> string list \<Rightarrow> md_block" where
  "table_block protocol_of line body =
     TableBlock (map (renderInline protocol_of) (table_cells line))
       (map (map (renderInline protocol_of)) (filter (\<lambda>cells. cells \<noteq> []) (map table_cells body)))"

definition paragraph_line :: "string \<Rightarrow> bool" where
  "paragraph_line line =
     (trim line \<noteq> [] \<and> \<not> starts_with line ''```'' \<and> \<not> starts_with line ''#'' \<and> \<not> quote_line line
      \<and> bullet_item line = None \<and> numbered_item line = None \<and> \<not> rule_line line)"

definition is_some :: "'a option \<Rightarrow> bool" where
  "is_some x = (x \<noteq> None)"

text \<open>One pass of the loop of \<open>parseBlocks\<close> at a line: the blocks it adds and the lines it leaves.\<close>

definition block_pass :: "(string \<Rightarrow> string option) \<Rightarrow> string \<Rightarrow> string list \<Rightarrow> md_block list \<times> string list" where
  "block_pass protocol_of line more =
     (let inl = renderInline protocol_of; lines = line # more
      in if fence_line line then
           ([CodeBlock (join [CHR 0x0A] (takeWhile (\<lambda>l. \<not> fence_line l) more)) (fence_language line)],
            drop 1 (dropWhile (\<lambda>l. \<not> fence_line l) more))
         else case heading_of line of
           Some (level, title) \<Rightarrow> ([HeadingBlock level (inl title)], more)
         | None \<Rightarrow>
         if quote_line line then
           ([QuoteBlock (map (\<lambda>l. inl (drop 2 l)) (takeWhile quote_line lines))], dropWhile quote_line lines)
         else if is_some (bullet_item line) then
           ([ListBlock (map inl (List.map_filter bullet_item (takeWhile (\<lambda>l. is_some (bullet_item l)) lines)))],
            dropWhile (\<lambda>l. is_some (bullet_item l)) lines)
         else if is_some (numbered_item line) then
           ([OrderedBlock (map inl (List.map_filter numbered_item (takeWhile (\<lambda>l. is_some (numbered_item l)) lines)))],
            dropWhile (\<lambda>l. is_some (numbered_item l)) lines)
         else if rule_line line then ([RuleBlock], more)
         else if starts_table line more then
           ([table_block protocol_of line (takeWhile bar_line (drop 1 more))], dropWhile bar_line (drop 1 more))
         else if trim line = [] then ([], more)
         else ([ParagraphBlock (inl (join '' '' (takeWhile paragraph_line lines)))], dropWhile paragraph_line lines))"

partial_function (option) parse_loop ::
  "(string \<Rightarrow> string option) \<Rightarrow> string list \<Rightarrow> md_block list \<Rightarrow> md_block list option" where
  "parse_loop protocol_of lines blocks =
     (case lines of
        [] \<Rightarrow> Some blocks
      | line # more \<Rightarrow>
          parse_loop protocol_of (snd (block_pass protocol_of line more))
            (blocks @ fst (block_pass protocol_of line more)))"

declare parse_loop.simps [code]

definition parseBlocks :: "(string \<Rightarrow> string option) \<Rightarrow> string \<Rightarrow> md_block list option" where
  "parseBlocks protocol_of raw = parse_loop protocol_of (split_on (CHR 0x0A) raw) []"

datatype md_view =
    NothingShown
  | CursorShown
  | BodyShown (body_blocks: "md_block list") (body_cursor: bool)

definition MarkdownView :: "(string \<Rightarrow> string option) \<Rightarrow> string \<Rightarrow> bool \<Rightarrow> md_view option" where
  "MarkdownView protocol_of content isStreaming =
     (if content = [] then Some (if isStreaming then CursorShown else NothingShown)
      else map_option (\<lambda>blocks. BodyShown blocks isStreaming) (parseBlocks protocol_of content))"

end
