(* ===== verification/MarkdownProps.thy ===== *)
theory MarkdownProps
  imports Markdown "HOL-Library.Sublist"
begin

text \<open>
  Properties of the view of an answer: when the parser of \<open>MarkdownView.tsx\<close> returns, when it hangs, which
  links it shows, that fenced code is shown as it is, and which line a table hides.
\<close>

section \<open>The end of the parser\<close>

text \<open>A line that starts with \<open>#\<close> and is no heading: neither the branch of headings nor a paragraph takes it.\<close>

definition stray_hash :: "string \<Rightarrow> bool" where
  "stray_hash line = (starts_with line ''#'' \<and> heading_of line = None)"

lemma parse_loop_Nil [simp]: "parse_loop p [] bs = Some bs"
  by (simp add: parse_loop.simps)

lemma parse_loop_Cons:
  "parse_loop p (l # more) bs = parse_loop p (snd (block_pass p l more)) (bs @ fst (block_pass p l more))"
  by (subst parse_loop.simps) simp

lemma starts_hash: "starts_with l ''#'' \<longleftrightarrow> (\<exists>s. l = CHR ''#'' # s)"
  by (auto simp: starts_with_iff)

lemma dropWhile_keeps: "dropWhile P zs = zs \<Longrightarrow> \<exists>ys. dropWhile P (xs @ zs) = ys @ zs"
proof (induction xs)
  case (Cons a xs)
  then show ?case by (cases "P a") (auto intro: exI [of _ "a # xs"])
qed (auto intro: exI [of _ "[]"])

text \<open>Trimming a text keeps what it starts with, if that has no blanks.\<close>

lemma trim_prefix:
  assumes "\<forall>c\<in>set p. \<not> is_ws c"
  shows "\<exists>t. trim (p @ s) = p @ t"
proof (cases "p = []")
  case False
  with assms have start: "trim_start (p @ s) = p @ s" by (cases p) (simp_all add: trim_start_def)
  have "dropWhile is_ws (rev p) = rev p"
    using assms by (simp add: dropWhile_eq_self_iff hd_rev False last_in_set)
  then obtain ys where "dropWhile is_ws (rev s @ rev p) = ys @ rev p"
    using dropWhile_keeps [of is_ws "rev p" "rev s"] by blast
  with start show ?thesis by (auto simp: trim_def trim_end_def)
qed simp

lemma hash_not_ws [simp]: "\<not> is_ws (CHR ''#'')"
  by (simp add: is_ws_def)

text \<open>A stray line is left where it is: the pass adds an empty paragraph.\<close>

lemma stray_hash_pass:
  assumes "stray_hash l" "\<not> bar_line l"
  shows "block_pass p l more = ([ParagraphBlock []], l # more)"
proof -
  from assms(1) obtain s where l: "l = CHR ''#'' # s" by (auto simp: stray_hash_def starts_hash)
  then obtain s' where "trim l = CHR ''#'' # s'" using trim_prefix [of "''#''" s] by auto
  then show ?thesis
    using assms l
    by (simp add: block_pass_def Let_def stray_hash_def fence_line_def quote_line_def bullet_item_def
        numbered_item_def is_digit_def is_some_def rule_line_def starts_table_def paragraph_line_def starts_with_def
        renderInline.simps)
qed

text \<open>Every other line is consumed.\<close>

lemma not_fence_start: "\<not> fence_line l \<Longrightarrow> \<not> starts_with l ''```''"
  using trim_prefix [of "''```''"] by (auto simp: fence_line_def starts_with_iff is_ws_def)

lemma paragraph_lineI:
  "\<not> fence_line l \<Longrightarrow> heading_of l = None \<Longrightarrow> \<not> stray_hash l \<Longrightarrow> \<not> quote_line l \<Longrightarrow> \<not> is_some (bullet_item l) \<Longrightarrow>
   \<not> is_some (numbered_item l) \<Longrightarrow> \<not> rule_line l \<Longrightarrow> trim l \<noteq> [] \<Longrightarrow> paragraph_line l"
  using not_fence_start by (auto simp: paragraph_line_def stray_hash_def is_some_def)

lemma suffix_drop_dropWhile: "suffix (drop n (dropWhile P xs)) xs" "suffix (dropWhile P (drop n xs)) xs"
  by (meson suffix_drop suffix_dropWhile suffix_order.trans)+

lemma block_pass_shrinks:
  assumes "\<not> stray_hash l"
  shows "suffix (snd (block_pass p l more)) more"
  using assms
  by (auto simp: block_pass_def Let_def suffix_drop_dropWhile suffix_dropWhile paragraph_lineI split: option.split)

lemma block_pass_one: "length (fst (block_pass p l more)) \<le> 1"
  by (auto simp: block_pass_def Let_def split: option.split)

lemma parse_loop_ends:
  assumes "\<forall>l\<in>set lines. \<not> stray_hash l"
  shows "\<exists>bs'. parse_loop p lines bs = Some (bs @ bs') \<and> length bs' \<le> length lines"
  using assms
proof (induction "length lines" arbitrary: lines bs rule: less_induct)
  case less
  show ?case
  proof (cases lines)
    case (Cons l more)
    let ?rest = "snd (block_pass p l more)"
    have sub: "suffix ?rest more" using less.prems Cons by (intro block_pass_shrinks) simp
    then have len: "length ?rest \<le> length more" and set: "set ?rest \<subseteq> set more"
      by (simp_all add: suffix_length_le set_mono_suffix)
    have "\<exists>bs'. parse_loop p ?rest (bs @ fst (block_pass p l more)) = Some ((bs @ fst (block_pass p l more)) @ bs')
        \<and> length bs' \<le> length ?rest"
      using less.prems set Cons len by (intro less.hyps) auto
    then obtain bs' where "parse_loop p ?rest (bs @ fst (block_pass p l more)) = Some ((bs @ fst (block_pass p l more)) @ bs')"
        "length bs' \<le> length ?rest"
      by blast
    with len Cons block_pass_one [of p l more] show ?thesis
      by (intro exI [of _ "fst (block_pass p l more) @ bs'"]) (simp add: parse_loop_Cons)
  qed simp
qed

fun shown_blocks :: "md_view \<Rightarrow> md_block list" where
  "shown_blocks (BodyShown bs _) = bs"
| "shown_blocks _ = []"

text \<open>C26. The view of an answer is computed in finitely many passes, whatever the text, if every line that starts
  with \<open>#\<close> is a heading of one of the four levels; it has at most one block for each line.\<close>

theorem markdown_view_ends:
  assumes "\<forall>l\<in>set (split_on (CHR 0x0A) content). starts_with l ''#'' \<longrightarrow> heading_of l \<noteq> None"
  shows "\<exists>v. MarkdownView protocol_of content isStreaming = Some v
           \<and> length (shown_blocks v) \<le> length (split_on (CHR 0x0A) content)"
proof -
  obtain bs where "parse_loop protocol_of (split_on (CHR 0x0A) content) [] = Some bs"
      "length bs \<le> length (split_on (CHR 0x0A) content)"
    using parse_loop_ends [of "split_on (CHR 0x0A) content" protocol_of "[]"] assms
    by (auto simp: stray_hash_def)
  then show ?thesis by (auto simp: MarkdownView_def parseBlocks_def)
qed

section \<open>Lines on which it hangs\<close>

text \<open>Before a stray line, and away from code and tables, a pass never goes beyond that line.\<close>

lemma dropWhile_stops: "\<not> P x \<Longrightarrow> \<exists>zs. dropWhile P (ys @ x # more) = zs @ x # more \<and> suffix zs ys"
  by (induction ys) (auto simp: suffix_Cons)

lemma stray_stops:
  assumes "stray_hash l"
  shows "\<not> quote_line l" "\<not> is_some (bullet_item l)" "\<not> is_some (numbered_item l)" "\<not> paragraph_line l"
proof -
  from assms obtain s where l: "l = CHR ''#'' # s" by (auto simp: stray_hash_def starts_hash)
  show "\<not> quote_line l" "\<not> is_some (bullet_item l)" "\<not> is_some (numbered_item l)" "\<not> paragraph_line l"
    by (simp_all add: l quote_line_def bullet_item_def numbered_item_def is_digit_def is_some_def
      starts_with_def paragraph_line_def)
qed

lemma pass_before_stray:
  assumes "stray_hash x" "\<not> fence_line l" "\<not> bar_line l"
  shows "\<exists>zs. snd (block_pass p l (ys @ x # more)) = zs @ x # more \<and> suffix zs (l # ys)"
  using assms stray_stops [OF assms(1)]
    dropWhile_stops [of quote_line x "l # ys" more]
    dropWhile_stops [of "\<lambda>l. is_some (bullet_item l)" x "l # ys" more]
    dropWhile_stops [of "\<lambda>l. is_some (numbered_item l)" x "l # ys" more]
    dropWhile_stops [of paragraph_line x "l # ys" more]
  by (auto simp: block_pass_def Let_def starts_table_def suffix_Cons split: option.split)

lemma parse_loop_hangs:
  assumes x: "stray_hash x" "\<not> bar_line x" and ys: "\<forall>l\<in>set ys. \<not> fence_line l \<and> \<not> bar_line l"
  shows "parse_loop p (ys @ x # more) bs = None"
proof (rule ccontr)
  assume "parse_loop p (ys @ x # more) bs \<noteq> None"
  then obtain r where r: "parse_loop p (ys @ x # more) bs = Some r" by blast
  let ?P = "\<lambda>(p :: string \<Rightarrow> string option) lines (bs :: md_block list) (r :: md_block list).
      \<not> (\<exists>ys. lines = ys @ x # more \<and> (\<forall>l\<in>set ys. \<not> fence_line l \<and> \<not> bar_line l))"
  have "?P p (ys @ x # more) bs r"
  proof (rule parse_loop.raw_induct [where P = ?P, OF _ r])
    fix f p lines bs r
    assume IH: "\<And>p lines bs r. f p lines bs = Some r \<Longrightarrow> ?P p lines bs r"
      and eq: "(case lines of [] \<Rightarrow> Some bs
          | line # more \<Rightarrow> f p (snd (block_pass p line more)) (bs @ fst (block_pass p line more))) = Some r"
    show "?P p lines bs r"
    proof
      assume "\<exists>ys. lines = ys @ x # more \<and> (\<forall>l\<in>set ys. \<not> fence_line l \<and> \<not> bar_line l)"
      then obtain ys where ys: "lines = ys @ x # more" "\<forall>l\<in>set ys. \<not> fence_line l \<and> \<not> bar_line l" by blast
      then obtain l rest where l: "lines = l # rest" by (cases ys) auto
      have "\<exists>zs. snd (block_pass p l rest) = zs @ x # more \<and> set zs \<subseteq> set ys"
      proof (cases ys)
        case Nil
        with ys l x stray_hash_pass [of x p more] show ?thesis by simp
      next
        case (Cons l' ys')
        with ys l pass_before_stray [OF x(1), of l p ys' more] show ?thesis
          by (auto dest: set_mono_suffix)
      qed
      then obtain zs where "snd (block_pass p l rest) = zs @ x # more" "set zs \<subseteq> set ys" by blast
      with IH [of p "snd (block_pass p l rest)"] eq l ys show False by auto
    qed
  qed
  with ys show False by auto
qed

text \<open>C24. A line that starts with \<open>#\<close> and is no heading of the first four levels (a hashtag, a line of a shell
  script, a heading of the fifth level) makes the view hang: when no line before it opens code or contains a
  bar, the loop of the parser does not return.\<close>

theorem stray_hash_hangs_the_view:
  assumes "split_on (CHR 0x0A) content = earlier @ line # later"
    and "starts_with line ''#''" and "heading_of line = None" and "\<not> bar_line line"
    and "\<forall>l\<in>set earlier. \<not> fence_line l \<and> \<not> bar_line l"
  shows "MarkdownView protocol_of content isStreaming = None"
proof -
  have "content \<noteq> []" using assms(1,2) by (auto simp: Cons_eq_append_conv starts_hash)
  moreover have "parse_loop protocol_of (split_on (CHR 0x0A) content) [] = None"
    unfolding assms(1) using assms by (intro parse_loop_hangs) (auto simp: stray_hash_def)
  ultimately show ?thesis by (simp add: MarkdownView_def parseBlocks_def)
qed

text \<open>The finding at work: an answer that quotes a line of C, after a heading and a list.\<close>

theorem stray_hash_hangs_the_view_witness:
  "MarkdownView (\<lambda>_. None) ''# Title
- first
##### Deep
end'' True = None"
  by (rule stray_hash_hangs_the_view [of _ "[''# Title'', ''- first'']" "''##### Deep''" "[''end'']"])
    (simp_all add: starts_with_def heading_of_def bar_line_def fence_line_def trim_def trim_start_def trim_end_def is_ws_def)

theorem markdown_view_ends_witness:
  "\<exists>v. MarkdownView (\<lambda>_. None) ''# Title
- a | b

text'' False = Some v
   \<and> length (shown_blocks v) \<le> Suc (Suc (Suc (Suc 0)))"
  using markdown_view_ends [of "''# Title
- a | b

text''" "\<lambda>_. None" False]
  by (simp add: starts_with_def heading_of_def)

section \<open>Links\<close>

definition node_links :: "inline_node list \<Rightarrow> string set" where
  "node_links ns = {href. \<exists>title. LinkNode href title \<in> set ns}"

fun block_links :: "md_block \<Rightarrow> string set" where
  "block_links (CodeBlock _ _) = {}"
| "block_links (HeadingBlock _ ns) = node_links ns"
| "block_links (QuoteBlock nss) = (\<Union>ns\<in>set nss. node_links ns)"
| "block_links (ListBlock nss) = (\<Union>ns\<in>set nss. node_links ns)"
| "block_links (OrderedBlock nss) = (\<Union>ns\<in>set nss. node_links ns)"
| "block_links RuleBlock = {}"
| "block_links (TableBlock hs rows) = (\<Union>ns\<in>set (hs @ concat rows). node_links ns)"
| "block_links (ParagraphBlock ns) = node_links ns"

definition view_links :: "md_view \<Rightarrow> string set" where
  "view_links v = (\<Union>b\<in>set (shown_blocks v). block_links b)"

definition web_href :: "(string \<Rightarrow> string option) \<Rightarrow> string \<Rightarrow> bool" where
  "web_href protocol_of href =
     (protocol_of href \<in> Some ` {''http:'', ''https:'', ''mailto:''} \<and> \<not> script_scheme href)"

lemma token_link: "inline_token p token = LinkNode href title \<Longrightarrow> web_href p href"
  by (auto simp: inline_token_def safeMarkdownHref_def web_href_def Let_def split: if_splits option.splits)

lemma node_links_simps [simp]:
  "node_links [] = {}"
  "node_links (n # ns) = (case n of LinkNode href _ \<Rightarrow> {href} | _ \<Rightarrow> {}) \<union> node_links ns"
  "node_links (ns @ ms) = node_links ns \<union> node_links ms"
  by (auto simp: node_links_def split: inline_node.splits)

lemma inline_links: "node_links (renderInline p s) \<subseteq> Collect (web_href p)"
proof (induction p s rule: renderInline.induct)
  case (1 p s)
  show ?case
  proof (cases "exec_inline s")
    case None
    then show ?thesis by (simp add: renderInline.simps [of p s])
  next
    case (Some m)
    obtain before token rest where m: "m = (before, token, rest)" by (cases m)
    with 1 Some have "node_links (renderInline p rest) \<subseteq> Collect (web_href p)" by auto
    with Some m show ?thesis
      by (auto simp: renderInline.simps [of p s] dest: token_link split: inline_node.splits)
  qed
qed

lemma pass_links: "b \<in> set (fst (block_pass p l more)) \<Longrightarrow> block_links b \<subseteq> Collect (web_href p)"
  using inline_links [of p]
  by (auto simp: block_pass_def Let_def table_block_def split: option.splits if_splits prod.splits)

lemma loop_links:
  assumes ret: "parse_loop p lines bs = Some r" and bs: "\<forall>b\<in>set bs. block_links b \<subseteq> Collect (web_href p)"
  shows "\<forall>b\<in>set r. block_links b \<subseteq> Collect (web_href p)"
proof -
  let ?ok = "\<lambda>p bs. \<forall>b\<in>set bs. block_links b \<subseteq> Collect (web_href p)"
  have "?ok p bs \<longrightarrow> ?ok p r"
  proof (rule parse_loop.raw_induct [where P = "\<lambda>p lines bs r. ?ok p bs \<longrightarrow> ?ok p r", OF _ ret])
    fix f p lines bs r
    assume IH: "\<And>p lines bs r. f p lines bs = Some r \<Longrightarrow> ?ok p bs \<longrightarrow> ?ok p r"
      and eq: "(case lines of [] \<Rightarrow> Some bs
          | line # more \<Rightarrow> f p (snd (block_pass p line more)) (bs @ fst (block_pass p line more))) = Some r"
    show "?ok p bs \<longrightarrow> ?ok p r"
    proof (cases lines)
      case (Cons l more)
      with eq have "?ok p (bs @ fst (block_pass p l more)) \<longrightarrow> ?ok p r" by (intro IH) simp
      moreover have "?ok p (fst (block_pass p l more))" using pass_links by blast
      ultimately show ?thesis by auto
    qed (use eq in simp)
  qed
  with bs show ?thesis by blast
qed

text \<open>C25. Every link that the view of an answer shows leads to an address that the browser reads as http, https or
  mailto, and none starts with a scheme that runs scripts or carries data, in any spelling of upper and lower
  case.\<close>

theorem markdown_links_are_web_links:
  assumes "MarkdownView protocol_of content isStreaming = Some v" and "href \<in> view_links v"
  shows "(\<exists>p\<in>{''http:'', ''https:'', ''mailto:''}. protocol_of href = Some p) \<and> \<not> script_scheme href"
proof -
  from assms obtain bs where "parse_loop protocol_of (split_on (CHR 0x0A) content) [] = Some bs"
      "\<exists>b\<in>set bs. href \<in> block_links b"
    by (fastforce simp: MarkdownView_def parseBlocks_def view_links_def split: if_splits)
  with loop_links [of protocol_of _ "[]" bs] have "web_href protocol_of href" by auto
  then show ?thesis by (auto simp: web_href_def)
qed

definition sample_protocol :: "string \<Rightarrow> string option" where
  "sample_protocol href =
     (if starts_with href ''https:'' then Some ''https:''
      else if starts_with href ''ftp:'' then Some ''ftp:'' else Some ''http:'')"

definition sample_answer :: string where
  "sample_answer = ''> see [docs](https://a.b) or [x](JavaScript:1)
| *a* | [f](ftp://c) |
|---|---|''"

lemma sample_answer_view:
  "MarkdownView sample_protocol sample_answer False =
     Some (BodyShown
       [QuoteBlock [[PlainText ''see '', LinkNode ''https://a.b'' ''docs'', PlainText '' or '', PlainText ''x'']],
        TableBlock [[EmText ''a''], [PlainText ''f'']] []] False)"
  by code_simp

theorem markdown_links_are_web_links_witness:
  "MarkdownView sample_protocol sample_answer False \<noteq> None
   \<and> (\<exists>p\<in>{''http:'', ''https:'', ''mailto:''}. sample_protocol ''https://a.b'' = Some p)
   \<and> \<not> script_scheme ''https://a.b''"
  using markdown_links_are_web_links [OF sample_answer_view, of "''https://a.b''"] sample_answer_view
  by (simp add: view_links_def node_links_def)

section \<open>Code and tables\<close>

lemma split_on_lines:
  "CHR 0x0A \<notin> set l \<Longrightarrow> split_on (CHR 0x0A) l = [l]"
  "CHR 0x0A \<notin> set l \<Longrightarrow> split_on (CHR 0x0A) (l @ CHR 0x0A # s) = l # split_on (CHR 0x0A) s"
  by (induction l) auto

lemma split_on_join_lines:
  "\<forall>l\<in>set ls. CHR 0x0A \<notin> set l \<Longrightarrow> ls \<noteq> [] \<Longrightarrow> split_on (CHR 0x0A) (join [CHR 0x0A] ls) = ls"
  by (induction "[CHR 0x0A]" ls rule: join.induct) (auto simp: split_on_lines)

text \<open>Code between two fences is shown as it is, and nothing in it is read as markup.\<close>

lemma fenced_code_is_verbatim:
  assumes "\<forall>l\<in>set code. \<not> fence_line l \<and> CHR 0x0A \<notin> set l"
    and "fence_line first" "CHR 0x0A \<notin> set first" "fence_line final" "CHR 0x0A \<notin> set final"
  shows "parseBlocks p (join [CHR 0x0A] (first # code @ [final]))
     = Some [CodeBlock (join [CHR 0x0A] code) (fence_language first)]"
proof -
  have "split_on (CHR 0x0A) (join [CHR 0x0A] (first # code @ [final])) = first # code @ [final]"
    using assms by (intro split_on_join_lines) auto
  moreover have "takeWhile (\<lambda>l. \<not> fence_line l) (code @ [final]) = code"
      "dropWhile (\<lambda>l. \<not> fence_line l) (code @ [final]) = [final]"
    using assms by (auto simp: takeWhile_append dropWhile_append)
  ultimately show ?thesis
    using assms(2) by (simp add: parseBlocks_def parse_loop_Cons block_pass_def Let_def)
qed

text \<open>The test for the divider of a table accepts every line that contains a hyphen or a colon.\<close>

lemma divider_mark_set: "divider_mark s \<noteq> None \<Longrightarrow> CHR ''-'' \<in> set s \<or> CHR '':'' \<in> set s"
proof -
  assume "divider_mark s \<noteq> None"
  then obtain c t where "dropWhile is_ws s = c # t" "c \<in> set ''-:''"
    by (auto simp: divider_mark_def split: list.splits if_splits)
  then show ?thesis using set_dropWhileD [of c is_ws s] by auto
qed

lemma divider_line_iff: "divider_line l \<longleftrightarrow> CHR ''-'' \<in> set l \<or> CHR '':'' \<in> set l"
proof (induction l)
  case (Cons c l)
  have "divider_at (c # l) \<noteq> None" if "c \<in> set ''-:''"
    using that by (auto simp: divider_at_def divider_mark_def is_ws_def lit_def starts_with_def)
  moreover have "CHR ''-'' \<in> set (c # l) \<or> CHR '':'' \<in> set (c # l)" if "divider_at (c # l) \<noteq> None"
    using that divider_mark_set [of "c # l"] divider_mark_set [of l]
    by (auto simp: divider_at_def lit_def split: if_splits option.splits)
  ultimately show ?case using Cons by (auto simp: divider_line_def split: option.splits)
qed (simp add: divider_line_def divider_at_def divider_mark_def lit_def starts_with_def)

text \<open>So a text line below a line with a bar is not shown when it contains a hyphen or a colon: the view is the
  same whatever else that line says.\<close>

lemma line_below_a_bar_is_hidden:
  assumes "bar_line l" "\<not> fence_line l" "heading_of l = None" "\<not> quote_line l"
    "bullet_item l = None" "numbered_item l = None" "\<not> rule_line l"
    and "\<forall>d\<in>{d1, d2}. CHR ''-'' \<in> set d \<or> CHR '':'' \<in> set d"
  shows "parse_loop p (l # d1 # more) bs = parse_loop p (l # d2 # more) bs"
proof -
  have "block_pass p l (d # more) = ([table_block p l (takeWhile bar_line more)], dropWhile bar_line more)"
    if "d \<in> {d1, d2}" for d
    using that assms by (auto simp: block_pass_def Let_def starts_table_def divider_line_iff is_some_def)
  then show ?thesis by (simp add: parse_loop_Cons)
qed

end
