(* ===== verification/Settings.thy ===== *)
theory Settings
  imports Paths
begin

text \<open>
  The configuration of the gateway: \<open>config.ts\<close> (what the server reads when it starts), \<open>codexPath.ts\<close> (the
  search for the Codex command) and \<open>cli.ts\<close> (the launcher that writes, repairs and checks the configuration
  file). A command of the launcher is a function on a machine: its environment variables, its text files,
  what it has printed, whether it has started the server and whether an exception has ended it.

  What a command learns from the system and cannot change is a record of its own, \<open>host\<close>: arguments,
  directories, the \<open>path\<close> module of the platform, network interfaces, the answers of ports, of \<open>which\<close> and of
  \<open>Number\<close> (None is NaN; infinite values are not told apart from it). A configuration path that names a
  directory is not represented.
\<close>

section \<open>The machine\<close>

type_synonym env = "(string, string) js_map"

record path_api =
  pa_join :: "string list \<Rightarrow> string"
  pa_resolve :: "string \<Rightarrow> string"
  pa_dirname :: "string \<Rightarrow> string"
  pa_basename :: "string \<Rightarrow> string"
  pa_extname :: "string \<Rightarrow> string"

text \<open>The answer of \<open>fetch\<close>: the field \<open>ok\<close> of the response, and its body if that is an object (the value of
  its field \<open>ok\<close> is true or not, and its text \<open>publicOrigin\<close>).\<close>

record health_answer =
  ha_response_ok :: bool
  ha_ok :: bool
  ha_publicOrigin :: "string option"

record host =
  h_platform :: string
  h_argv :: "string list"
  h_execPath :: string
  h_module_dir :: string
  h_home :: string
  h_cwd :: string
  h_path :: path_api
  h_exists :: "string \<Rightarrow> bool"
  h_readable :: "string \<Rightarrow> bool"
  h_lookup :: "string \<Rightarrow> string \<Rightarrow> int option \<times> string option"
  h_interfaces :: "(string \<times> bool \<times> string) list"
  h_port_open :: "js_number \<Rightarrow> bool"
  h_fetch_health :: "js_number option \<Rightarrow> health_answer option"
  h_hostname :: "string \<Rightarrow> string option"
  h_number :: "string \<Rightarrow> js_number option"
  h_tokens :: "string \<times> string"

record machine =
  m_env :: env
  m_files :: "(string, string) js_map"
  m_out :: "string list"
  m_exit :: nat
  m_started :: bool
  m_crashed :: bool

definition existsSync :: "host \<Rightarrow> machine \<Rightarrow> string \<Rightarrow> bool" where
  "existsSync h m p = (map_has (m_files m) p \<or> h_exists h p)"

definition isReadable :: "host \<Rightarrow> machine \<Rightarrow> string \<Rightarrow> bool" where
  "isReadable h m p = (map_has (m_files m) p \<or> h_readable h p)"

definition say :: "string list \<Rightarrow> machine \<Rightarrow> machine" where
  "say ls m = m\<lparr>m_out := m_out m @ ls\<rparr>"

definition env_or :: "env \<Rightarrow> string \<Rightarrow> string \<Rightarrow> string" where
  "env_or e k d = (case map_of e k of Some v \<Rightarrow> v | None \<Rightarrow> d)"

text \<open>\<open>a || b\<close> on texts that may be undefined.\<close>

definition text_or :: "string option \<Rightarrow> string \<Rightarrow> string" where
  "text_or v d = (case v of Some s \<Rightarrow> if s = [] then d else s | None \<Rightarrow> d)"

definition number_text :: "js_number option \<Rightarrow> string" where
  "number_text n = (case n of Some x \<Rightarrow> num_str x | None \<Rightarrow> ''NaN'')"

section \<open>Environment files\<close>

definition ident_start :: "char \<Rightarrow> bool" where
  "ident_start c = (let n = of_char c :: int in (65 \<le> n \<and> n \<le> 90) \<or> (97 \<le> n \<and> n \<le> 122) \<or> n = 95)"

definition ident_char :: "char \<Rightarrow> bool" where
  "ident_char c = (ident_start c \<or> (let n = of_char c :: int in 48 \<le> n \<and> n \<le> 57))"

text \<open>\<open>/^([A-Za-z_][A-Za-z0-9_]*)=(.*)$/\<close>.\<close>

definition env_line :: "string \<Rightarrow> (string \<times> string) option" where
  "env_line line =
     (let key = takeWhile ident_char line
      in case dropWhile ident_char line of
           c # value \<Rightarrow>
             if key \<noteq> [] \<and> ident_start (hd key) \<and> c = CHR ''='' \<and> CHR 0x0A \<notin> set value \<and> CHR 0x0D \<notin> set value
             then Some (key, value) else None
         | [] \<Rightarrow> None)"

definition is_quote :: "char \<Rightarrow> bool" where
  "is_quote c = (c = CHR 0x27 \<or> c = CHR 0x22)"

text \<open>\<open>value.replace(/^['"]|['"]$/g, "")\<close>.\<close>

definition unquote :: "string \<Rightarrow> string" where
  "unquote value =
     (let v = (case value of c # s \<Rightarrow> if is_quote c then s else value | [] \<Rightarrow> [])
      in if v \<noteq> [] \<and> is_quote (last v) then butlast v else v)"

text \<open>\<open>text.split(/\r?\n/)\<close>.\<close>

definition drop_cr :: "string \<Rightarrow> string" where
  "drop_cr l = (if l \<noteq> [] \<and> last l = CHR 0x0D then butlast l else l)"

definition split_crlf :: "string \<Rightarrow> string list" where
  "split_crlf s = (let ls = split_on (CHR 0x0A) s in map drop_cr (butlast ls) @ [last ls])"

text \<open>Assigning a text to \<open>__proto__\<close> of an object does nothing, and every object has the properties of
  \<open>Object.prototype\<close>.\<close>

definition prototype_keys :: "string list" where
  "prototype_keys = [''__proto__'', ''constructor'', ''hasOwnProperty'', ''isPrototypeOf'', ''propertyIsEnumerable'',
     ''toLocaleString'', ''toString'', ''valueOf'', ''__defineGetter__'', ''__defineSetter__'', ''__lookupGetter__'',
     ''__lookupSetter__'']"

text \<open>One line of \<open>readEnvFile\<close> of the launcher: a later line replaces an earlier one.\<close>

definition read_env_line :: "string \<Rightarrow> env \<Rightarrow> env" where
  "read_env_line line e =
     (case env_line (trim line) of
        Some (k, v) \<Rightarrow> if k = ''__proto__'' then e else AList.update k (unquote v) e
      | None \<Rightarrow> e)"

definition readEnvFile :: "machine \<Rightarrow> string \<Rightarrow> env" where
  "readEnvFile m p =
     (case map_of (m_files m) p of None \<Rightarrow> [] | Some s \<Rightarrow> fold read_env_line (split_crlf s) [])"

text \<open>One line of \<open>loadDotenv\<close> of the server: a variable that is set already keeps its value.\<close>

definition load_line :: "string \<Rightarrow> env \<Rightarrow> env" where
  "load_line line e =
     (let trimmed = trim line
      in if trimmed = [] \<or> starts_with trimmed ''#'' then e
         else case env_line trimmed of
                Some (k, v) \<Rightarrow>
                  if map_of e k = None \<and> k \<notin> set prototype_keys then AList.update k (unquote v) e else e
              | None \<Rightarrow> e)"

definition env_order :: "string list" where
  "env_order = [''HOST'', ''PORT'', ''PUBLIC_ORIGIN'', ''ADMIN_TOKEN'', ''SESSION_SECRET'', ''CODEX_BIN'', ''CODEX_HOME'',
     ''CODEX_APP_SERVER_PORT'', ''SESSION_TTL_HOURS'', ''APP_UPDATE_VERSION_CODE'', ''APP_UPDATE_VERSION_NAME'',
     ''APP_UPDATE_NOTES'', ''APP_UPDATE_APK_PATH'', ''APP_UPDATE_PUBLIC_DOWNLOAD'', ''RELAY_URL'', ''RELAY_ORIGIN'',
     ''RELAY_ACCOUNT_TOKEN'', ''RELAY_ACCOUNT_USERNAME'', ''RELAY_ACCOUNT_PASSWORD'', ''RELAY_SERVER_TOKEN'',
     ''RELAY_DEVICE_NAME'']"

definition env_pair :: "string \<times> string \<Rightarrow> string" where
  "env_pair kv = fst kv @ ''='' @ snd kv"

definition ordered_pairs :: "env \<Rightarrow> (string \<times> string) list" where
  "ordered_pairs e =
     List.map_filter (\<lambda>k. map_option (Pair k) (map_of e k)) env_order
     @ filter (\<lambda>(k, _). k \<notin> set env_order) e"

definition env_text :: "(string \<times> string) list \<Rightarrow> string" where
  "env_text kvs = join [CHR 0x0A] (map env_pair kvs) @ [CHR 0x0A]"

definition writeEnvFile :: "string \<Rightarrow> env \<Rightarrow> machine \<Rightarrow> machine" where
  "writeEnvFile p e m = m\<lparr>m_files := AList.update p (env_text (ordered_pairs e)) (m_files m)\<rparr>"

section \<open>Where the configuration is\<close>

definition argValue :: "host \<Rightarrow> string \<Rightarrow> string option" where
  "argValue h name =
     (let prefix = name @ ''='';
          assigned = map_option (drop (length prefix)) (List.find (\<lambda>a. starts_with a prefix) (h_argv h))
      in case dropWhile (\<lambda>a. a \<noteq> name) (h_argv h) of
           _ # v # _ \<Rightarrow> if v \<noteq> [] then Some v else assigned
         | _ \<Rightarrow> assigned)"

definition join_path :: "host \<Rightarrow> string list \<Rightarrow> string" where
  "join_path h parts = pa_join (h_path h) parts"

definition defaultConfigPath :: "host \<Rightarrow> machine \<Rightarrow> string" where
  "defaultConfigPath h m =
     (if h_platform h = ''win32''
      then join_path h [env_or (m_env m) ''APPDATA'' (join_path h [h_home h, ''AppData'', ''Roaming'']),
             ''aCode-server'', ''config.env'']
      else join_path h [h_home h, ''.acode-server'', ''config.env''])"

definition explicit_config :: "host \<Rightarrow> machine \<Rightarrow> string option" where
  "explicit_config h m =
     (case argValue h ''--config'' of Some v \<Rightarrow> Some v | None \<Rightarrow> map_of (m_env m) ''ACODE_CONFIG'')"

text \<open>\<open>resolveConfigPath\<close> of the server and \<open>resolveReadableConfigPath\<close> of the launcher.\<close>

definition resolveConfigPath :: "host \<Rightarrow> machine \<Rightarrow> string" where
  "resolveConfigPath h m =
     (case explicit_config h m of
        Some (c # s) \<Rightarrow> pa_resolve (h_path h) (c # s)
      | _ \<Rightarrow>
          (let userConfigPath = defaultConfigPath h m
           in if existsSync h m userConfigPath then userConfigPath else join_path h [h_cwd h, ''.env'']))"

definition resolveReadableConfigPath :: "host \<Rightarrow> machine \<Rightarrow> string" where
  "resolveReadableConfigPath h m =
     (case explicit_config h m of
        Some (c # s) \<Rightarrow> pa_resolve (h_path h) (c # s)
      | _ \<Rightarrow> defaultConfigPath h m)"

definition loadDotenv :: "host \<Rightarrow> machine \<Rightarrow> env" where
  "loadDotenv h m =
     (case map_of (m_files m) (resolveConfigPath h m) of
        None \<Rightarrow> m_env m
      | Some s \<Rightarrow> fold load_line (split_crlf s) (m_env m))"

section \<open>The configuration of the server\<close>

datatype config_error = NotANumber string | IsRequired string

record app_config =
  ac_host :: string
  ac_port :: js_number
  ac_publicOrigin :: string
  ac_gatewayName :: string
  ac_gatewayVersion :: string
  ac_gatewayAuthUsername :: string
  ac_gatewayAuthPassword :: string
  ac_gatewayAuthToken :: string
  ac_allowedFilesystemRoots :: "string list"
  ac_adminToken :: string
  ac_sessionSecret :: string
  ac_sessionTtlHours :: js_number
  ac_codexHome :: string
  ac_codexBin :: string
  ac_codexAppServerPort :: js_number
  ac_auditDir :: string
  ac_gatewayDataDir :: string
  ac_relayUrl :: string
  ac_relayAccountToken :: string
  ac_relayAccountUsername :: string
  ac_relayAccountPassword :: string
  ac_relayOrigin :: string
  ac_relayServerToken :: string
  ac_relayDeviceName :: string
  ac_appUpdateVersionCode :: js_number
  ac_appUpdateVersionName :: string
  ac_appUpdateNotes :: string
  ac_appUpdateApkPath :: string
  ac_appUpdatePublicDownload :: bool

definition envNumber :: "host \<Rightarrow> env \<Rightarrow> string \<Rightarrow> js_number \<Rightarrow> config_error + js_number" where
  "envNumber h e key fallback =
     (case map_of e key of
        Some (c # s) \<Rightarrow> (case h_number h (c # s) of Some n \<Rightarrow> Inr n | None \<Rightarrow> Inl (NotANumber key))
      | _ \<Rightarrow> Inr fallback)"

definition required :: "env \<Rightarrow> string \<Rightarrow> config_error + string" where
  "required e key =
     (case map_of e key of
        Some v \<Rightarrow> if v = [] \<or> includes_str v ''replace-with-'' then Inl (IsRequired key) else Inr v
      | None \<Rightarrow> Inl (IsRequired key))"

text \<open>\<open>value.split(/\s+/).filter(Boolean)\<close>.\<close>

fun words :: "string \<Rightarrow> string list" where
  "words [] = []"
| "words (c # s) =
     (if is_ws c then words s
      else (case s of
              [] \<Rightarrow> [[c]]
            | d # _ \<Rightarrow> if is_ws d then [c] # words s
                      else (case words s of w # ws \<Rightarrow> (c # w) # ws | [] \<Rightarrow> [[c]])))"

definition trimmed_or :: "env \<Rightarrow> string \<Rightarrow> string \<Rightarrow> string" where
  "trimmed_or e key d = text_or (map_option trim (map_of e key)) d"

definition update_notes :: string where
  "update_notes = ''aCode Android '' @ map char_of [230, 155, 180, 230, 150, 176, 229, 140, 133 :: nat]"

definition bind_result :: "'e + 'a \<Rightarrow> ('a \<Rightarrow> 'e + 'b) \<Rightarrow> 'e + 'b" where
  "bind_result r f = (case r of Inl x \<Rightarrow> Inl x | Inr v \<Rightarrow> f v)"

definition config_of :: "host \<Rightarrow> env \<Rightarrow> config_error + app_config" where
  "config_of h e =
     (let get = env_or e;
          codexHome = get ''CODEX_HOME'' (join_path h [h_home h, ''.codex''])
      in bind_result (envNumber h e ''PORT'' 8787) (\<lambda>port.
         bind_result (required e ''ADMIN_TOKEN'') (\<lambda>adminToken.
         bind_result (required e ''SESSION_SECRET'') (\<lambda>sessionSecret.
         bind_result (envNumber h e ''SESSION_TTL_HOURS'' (30 * 24)) (\<lambda>ttl.
         bind_result (envNumber h e ''CODEX_APP_SERVER_PORT'' 8790) (\<lambda>appServerPort.
         bind_result (envNumber h e ''APP_UPDATE_VERSION_CODE'' 1) (\<lambda>versionCode.
           Inr \<lparr>ac_host = get ''HOST'' ''127.0.0.1'', ac_port = port,
             ac_publicOrigin = get ''PUBLIC_ORIGIN'' (''http://127.0.0.1:'' @ get ''PORT'' ''8787''),
             ac_gatewayName = get ''GATEWAY_NAME'' ''remote-vibecoding-gateway'',
             ac_gatewayVersion = get ''GATEWAY_VERSION'' ''1.1.37-compatible'',
             ac_gatewayAuthUsername = get ''GATEWAY_AUTH_USERNAME'' [],
             ac_gatewayAuthPassword = get ''GATEWAY_AUTH_PASSWORD'' (get ''ADMIN_TOKEN'' []),
             ac_gatewayAuthToken = get ''GATEWAY_AUTH_TOKEN'' (get ''ADMIN_TOKEN'' []),
             ac_allowedFilesystemRoots = words (get ''GATEWAY_ALLOWED_PATHS'' (h_cwd h)),
             ac_adminToken = adminToken, ac_sessionSecret = sessionSecret, ac_sessionTtlHours = ttl,
             ac_codexHome = codexHome, ac_codexBin = get ''CODEX_BIN'' ''codex'', ac_codexAppServerPort = appServerPort,
             ac_auditDir = get ''AUDIT_DIR'' (join_path h [codexHome, ''remote-control'']),
             ac_gatewayDataDir = get ''GATEWAY_DATA_DIR'' (join_path h [codexHome, ''remote-control'', ''gateway-data'']),
             ac_relayUrl = trimmed_or e ''RELAY_URL'' [],
             ac_relayAccountToken = trimmed_or e ''RELAY_ACCOUNT_TOKEN'' (trimmed_or e ''CODEHARBOR_ACCOUNT_TOKEN'' []),
             ac_relayAccountUsername =
               trimmed_or e ''RELAY_ACCOUNT_USERNAME'' (trimmed_or e ''CODEHARBOR_ACCOUNT_USERNAME'' []),
             ac_relayAccountPassword = get ''RELAY_ACCOUNT_PASSWORD'' (get ''CODEHARBOR_ACCOUNT_PASSWORD'' []),
             ac_relayOrigin = trimmed_or e ''RELAY_ORIGIN'' [],
             ac_relayServerToken = trimmed_or e ''RELAY_SERVER_TOKEN'' [],
             ac_relayDeviceName = trimmed_or e ''RELAY_DEVICE_NAME'' [],
             ac_appUpdateVersionCode = versionCode,
             ac_appUpdateVersionName = get ''APP_UPDATE_VERSION_NAME'' ''1.0'',
             ac_appUpdateNotes = get ''APP_UPDATE_NOTES'' update_notes,
             ac_appUpdateApkPath =
               pa_resolve (h_path h) (get ''APP_UPDATE_APK_PATH'' (join_path h [h_cwd h, ''aCode-debug.apk''])),
             ac_appUpdatePublicDownload = (map_of e ''APP_UPDATE_PUBLIC_DOWNLOAD'' \<noteq> Some ''false'')\<rparr>)))))))"

text \<open>What \<open>config.ts\<close> computes when the server imports it.\<close>

definition load_config :: "host \<Rightarrow> machine \<Rightarrow> config_error + app_config" where
  "load_config h m = config_of h (loadDotenv h m)"

end
