(* ===== verification/Launcher.thy ===== *)
theory Launcher
  imports Settings
begin

text \<open>
  The launcher of the gateway, after \<open>cli.ts\<close>, with the search for the Codex command of \<open>codexPath.ts\<close> and the
  address of the official relay. A command is a function on the machine of theory \<open>Settings\<close>. Console lines are
  recorded; a port is probed once in a command, so that the answers of \<open>h_port_open\<close> and \<open>h_fetch_health\<close> are
  functions of the port.
\<close>

section \<open>The Codex command\<close>

definition looksLikePath :: "string \<Rightarrow> bool" where
  "looksLikePath command =
     (includes_str command ''/'' \<or> includes_str command [CHR 0x5C]
      \<or> (case command of
           c # d # _ \<Rightarrow> (let n = of_char c :: int in (65 \<le> n \<and> n \<le> 90) \<or> (97 \<le> n \<and> n \<le> 122)) \<and> d = CHR '':''
         | _ \<Rightarrow> False))"

definition normalizeCodexCommand :: "host \<Rightarrow> machine \<Rightarrow> string \<Rightarrow> string" where
  "normalizeCodexCommand h m command =
     (let value = trim command
      in if h_platform h \<noteq> ''win32'' \<or> \<not> looksLikePath value then value
         else if pa_extname (h_path h) value = []
         then (case List.find (existsSync h m) (map (\<lambda>x. value @ x) [''.cmd'', ''.bat'', ''.exe'']) of
                 Some candidate \<Rightarrow> candidate
               | None \<Rightarrow> value)
         else value)"

text \<open>\<open>text.split(/\r?\n/).map(trim).filter(Boolean)\<close>.\<close>

definition text_lines :: "string \<Rightarrow> string list" where
  "text_lines s = filter (\<lambda>l. l \<noteq> []) (map trim (split_crlf s))"

definition resolveCodexCommand :: "host \<Rightarrow> machine \<Rightarrow> string \<Rightarrow> string option" where
  "resolveCodexCommand h m command =
     (if command = [] then None
      else let normalized = normalizeCodexCommand h m command
           in if looksLikePath normalized then (if existsSync h m normalized then Some normalized else None)
              else let (status, stdout) = h_lookup h (if h_platform h = ''win32'' then ''where.exe'' else ''which'') normalized
                   in if status \<noteq> Some 0 then None
                      else let matches = text_lines (case stdout of Some s \<Rightarrow> s | None \<Rightarrow> []);
                               candidates = map (normalizeCodexCommand h m) matches
                           in case List.find (existsSync h m) candidates of
                                Some candidate \<Rightarrow> Some candidate
                              | None \<Rightarrow> (case candidates of c # _ \<Rightarrow> Some c | [] \<Rightarrow> None))"

definition codex_candidates :: "host \<Rightarrow> string list" where
  "codex_candidates h =
     (if h_platform h = ''win32''
      then [''codex.cmd'', ''codex.exe'', join_path h [h_home h, ''AppData'', ''Roaming'', ''npm'', ''codex.cmd''],
            join_path h [h_home h, ''AppData'', ''Roaming'', ''npm'', ''codex.exe''], ''codex'']
      else [''codex'', join_path h [h_home h, ''.local'', ''bin'', ''codex''],
            join_path h [h_home h, ''.bun'', ''bin'', ''codex''], join_path h [h_home h, ''.npm-global'', ''bin'', ''codex''],
            ''/opt/homebrew/bin/codex'', ''/usr/local/bin/codex''])"

primrec first_resolved :: "host \<Rightarrow> machine \<Rightarrow> string list \<Rightarrow> string" where
  "first_resolved h m [] = ''codex''"
| "first_resolved h m (c # cs) =
     (case resolveCodexCommand h m c of Some r \<Rightarrow> if r \<noteq> [] then r else first_resolved h m cs | None \<Rightarrow> first_resolved h m cs)"

definition detectCodexBin :: "host \<Rightarrow> machine \<Rightarrow> string" where
  "detectCodexBin h m =
     (case map_of (m_env m) ''CODEX_BIN'' of
        Some (c # s) \<Rightarrow> first_resolved h m ((c # s) # codex_candidates h)
      | _ \<Rightarrow> first_resolved h m (codex_candidates h))"

definition commandExists :: "host \<Rightarrow> machine \<Rightarrow> string \<Rightarrow> bool" where
  "commandExists h m command = (resolveCodexCommand h m command \<noteq> None)"

definition sqliteBin :: "host \<Rightarrow> machine \<Rightarrow> string" where
  "sqliteBin h m =
     (case map_of (m_env m) ''SQLITE_BIN'' of
        Some (c # s) \<Rightarrow> c # s
      | _ \<Rightarrow>
          (let up = pa_dirname (h_path h);
               packaged = join_path h [up (up (h_module_dir h)), ''runtime'', ''sqlite'',
                 if h_platform h = ''win32'' then ''sqlite3.exe'' else ''sqlite3'']
           in if packaged \<noteq> [] \<and> existsSync h m packaged then packaged else ''sqlite3''))"

section \<open>Addresses and directories\<close>

definition official_url :: string where
  "official_url = ''https://code.pixlnan.com''"

definition lanAddresses :: "host \<Rightarrow> string list" where
  "lanAddresses h = map (\<lambda>(_, _, a). a) (filter (\<lambda>(family, internal, _). family = ''IPv4'' \<and> \<not> internal) (h_interfaces h))"

definition firstLanAddress :: "host \<Rightarrow> string" where
  "firstLanAddress h = (case lanAddresses h of a # _ \<Rightarrow> a | [] \<Rightarrow> ''127.0.0.1'')"

text \<open>\<open>/^https?:\/\/(127\.0\.0\.1|localhost)(:\d+)?\/?$/i\<close>.\<close>

definition is_decimal :: "char \<Rightarrow> bool" where
  "is_decimal c = (let n = of_char c :: int in 48 \<le> n \<and> n \<le> 57)"

definition strip_prefix :: "string \<Rightarrow> string \<Rightarrow> string option" where
  "strip_prefix p s = (if starts_with s p then Some (drop (length p) s) else None)"

definition origin_end :: "string \<Rightarrow> bool" where
  "origin_end s = (s = [] \<or> s = ''/'')"

definition port_and_end :: "string \<Rightarrow> bool" where
  "port_and_end s =
     (origin_end s
      \<or> (case s of
           c # d # t \<Rightarrow> c = CHR '':'' \<and> is_decimal d \<and> origin_end (dropWhile is_decimal t)
         | _ \<Rightarrow> False))"

definition isLocalOrigin :: "string \<Rightarrow> bool" where
  "isLocalOrigin origin =
     (\<exists>scheme\<in>{''http://'', ''https://''}. \<exists>name\<in>{''127.0.0.1'', ''localhost''}.
        case strip_prefix (scheme @ name) (toLowerCase origin) of Some rest \<Rightarrow> port_and_end rest | None \<Rightarrow> False)"

definition isPrivateIpv4 :: "string \<Rightarrow> bool" where
  "isPrivateIpv4 host =
     (starts_with host ''10.'' \<or> starts_with host ''192.168.''
      \<or> (case strip_prefix ''172.'' host of
           Some (a # b # c # _) \<Rightarrow>
             c = CHR ''.'' \<and> is_decimal b
             \<and> (a = CHR ''1'' \<and> 54 \<le> (of_char b :: int) \<or> a = CHR ''2'' \<or> a = CHR ''3'' \<and> (of_char b :: int) \<le> 49)
         | _ \<Rightarrow> False))"

definition isStaleLanOrigin :: "host \<Rightarrow> string \<Rightarrow> bool" where
  "isStaleLanOrigin h origin =
     (case h_hostname h origin of
        None \<Rightarrow> False
      | Some name \<Rightarrow> isPrivateIpv4 name \<and> name \<notin> set (lanAddresses h))"

definition codex_homes :: "host \<Rightarrow> machine \<Rightarrow> string list" where
  "codex_homes h m =
     [join_path h [h_home h, ''.codex''],
      join_path h [env_or (m_env m) ''APPDATA'' (join_path h [h_home h, ''AppData'', ''Roaming'']), ''Codex''],
      join_path h [env_or (m_env m) ''LOCALAPPDATA'' (join_path h [h_home h, ''AppData'', ''Local'']), ''Codex''],
      join_path h [env_or (m_env m) ''XDG_STATE_HOME'' (join_path h [h_home h, ''.local'', ''state'']), ''codex''],
      join_path h [env_or (m_env m) ''XDG_CONFIG_HOME'' (join_path h [h_home h, ''.config'']), ''codex'']]"

definition state_file :: "host \<Rightarrow> string \<Rightarrow> string" where
  "state_file h dir = join_path h [dir, ''state_5.sqlite'']"

text \<open>The directories in their order: first one with a database of Codex, then one that exists. An empty path
  counts as none, as a falsy value does.\<close>

definition found_home :: "host \<Rightarrow> machine \<Rightarrow> string" where
  "found_home h m =
     (let first_existing = (case List.find (existsSync h m) (codex_homes h m) of
            Some d \<Rightarrow> d | None \<Rightarrow> join_path h [h_home h, ''.codex''])
      in case List.find (\<lambda>d. existsSync h m (state_file h d)) (codex_homes h m) of
           Some (c # s) \<Rightarrow> c # s
         | _ \<Rightarrow> first_existing)"

definition detectCodexHome :: "host \<Rightarrow> machine \<Rightarrow> string" where
  "detectCodexHome h m =
     (case map_of (m_env m) ''CODEX_HOME'' of
        Some (c # s) \<Rightarrow> if existsSync h m (c # s) then c # s else found_home h m
      | _ \<Rightarrow> found_home h m)"

definition appBaseDir :: "host \<Rightarrow> string" where
  "appBaseDir h =
     (let dir = pa_dirname (h_path h); base = pa_basename (h_path h);
          entryDir = dir (case h_argv h of _ # (c # s) # _ \<Rightarrow> pa_resolve (h_path h) (c # s) | _ \<Rightarrow> h_cwd h)
      in if base entryDir = ''dist'' \<and> base (dir entryDir) = ''server'' then dir (dir entryDir) else entryDir)"

section \<open>Ports\<close>

definition readExistingHealth :: "host \<Rightarrow> js_number option \<Rightarrow> health_answer option" where
  "readExistingHealth h port =
     (case h_fetch_health h port of
        Some a \<Rightarrow> if ha_response_ok a \<and> ha_ok a then Some a else None
      | None \<Rightarrow> None)"

text \<open>\<open>isPortOpen\<close>: \<open>createConnection\<close> throws on a number that is no port, which is None.\<close>

definition isPortOpen :: "host \<Rightarrow> js_number option \<Rightarrow> bool option" where
  "isPortOpen h port =
     (case port of
        None \<Rightarrow> None
      | Some p \<Rightarrow> if p = of_int \<lfloor>p\<rfloor> \<and> 0 \<le> p \<and> p \<le> 65535 then Some (h_port_open h p) else None)"

text \<open>The loop of \<open>pickAvailablePort\<close>, with the number of ports that are left to try.\<close>

primrec next_free_port :: "host \<Rightarrow> js_number \<Rightarrow> js_number \<Rightarrow> nat \<Rightarrow> (js_number \<times> string list) option" where
  "next_free_port h preferred port 0 = Some (preferred, [])"
| "next_free_port h preferred port (Suc n) =
     (case isPortOpen h (Some port) of
        None \<Rightarrow> None
      | Some False \<Rightarrow>
          Some (port, [''Port '' @ num_str preferred @ '' is busy. Using '' @ num_str port @ '' instead.''])
      | Some True \<Rightarrow> next_free_port h preferred (port + 1) n)"

definition pickAvailablePort :: "host \<Rightarrow> js_number option \<Rightarrow> (js_number \<times> string list) option" where
  "pickAvailablePort h preferred =
     (case (isPortOpen h preferred, preferred) of
        (Some False, Some p) \<Rightarrow> Some (p, [])
      | (Some True, Some p) \<Rightarrow>
          if readExistingHealth h preferred \<noteq> None then Some (p, []) else next_free_port h p (p + 1) 20
      | _ \<Rightarrow> None)"

section \<open>Writing and repairing the configuration\<close>

definition hasRelayAccountCredentials :: "machine \<Rightarrow> env \<Rightarrow> bool" where
  "hasRelayAccountCredentials m e =
     (let any_of = (\<lambda>a b. text_or (map_of e a) (text_or (map_of e b) (text_or (map_of (m_env m) a) (text_or (map_of (m_env m) b) []))));
          token = any_of ''RELAY_ACCOUNT_TOKEN'' ''CODEHARBOR_ACCOUNT_TOKEN'';
          username = any_of ''RELAY_ACCOUNT_USERNAME'' ''CODEHARBOR_ACCOUNT_USERNAME'';
          password = env_or e ''RELAY_ACCOUNT_PASSWORD'' (env_or e ''CODEHARBOR_ACCOUNT_PASSWORD''
            (env_or (m_env m) ''RELAY_ACCOUNT_PASSWORD'' (env_or (m_env m) ''CODEHARBOR_ACCOUNT_PASSWORD'' [])))
      in token \<noteq> [] \<or> username \<noteq> [] \<and> password \<noteq> [])"

definition drop_slashes :: "string \<Rightarrow> string" where
  "drop_slashes s = rev (dropWhile (\<lambda>c. c = CHR ''/'') (rev s))"

definition printConnectionHint :: "host \<Rightarrow> env \<Rightarrow> machine \<Rightarrow> machine" where
  "printConnectionHint h e m =
     (if map_of e ''RELAY_URL'' = Some official_url
      then say ([''Official relay URL is preconfigured.'']
             @ (if hasRelayAccountCredentials m e
                then [''Relay account credentials are configured; start the gateway to enroll this computer.'']
                else [''Set RELAY_ACCOUNT_TOKEN at runtime, or set RELAY_ACCOUNT_USERNAME and RELAY_ACCOUNT_PASSWORD in the config before starting.'',
                      ''Credentials are used only for enrollment and are never printed by this launcher.''])
             @ [''After enrollment, the per-device credential is stored locally and reused on reconnect.'']) m
      else let origin = env_or e ''PUBLIC_ORIGIN'' (''http://'' @ firstLanAddress h @ '':'' @ env_or e ''PORT'' ''8787'')
           in say [''Service URL: '' @ origin, ''Admin token: '' @ env_or e ''ADMIN_TOKEN'' ''(missing)'',
                   ''APK URL: '' @ drop_slashes origin @ ''/download/aCode-latest.apk''] m)"

definition when_update :: "bool \<Rightarrow> string \<Rightarrow> string \<Rightarrow> (string \<times> string) list" where
  "when_update b k v = (if b then [(k, v)] else [])"

definition config_updates :: "host \<Rightarrow> machine \<Rightarrow> env \<Rightarrow> (string \<times> string) list" where
  "config_updates h m e =
     (let get = (\<lambda>k. text_or (map_of e k) []);
          currentPort = h_number h (env_or e ''PORT'' ''8787'');
          officialRelayMode = (map_of e ''RELAY_URL'' = Some official_url);
          local = ''http://127.0.0.1:'' @ number_text currentPort;
          packageApkPath = join_path h [appBaseDir h, ''aCode-latest.apk'']
      in when_update (get ''CODEX_BIN'' = [] \<or> get ''CODEX_BIN'' = ''codex'' \<or> \<not> commandExists h m (get ''CODEX_BIN''))
           ''CODEX_BIN'' (detectCodexBin h m)
         @ when_update (get ''CODEX_HOME'' = [] \<or> \<not> existsSync h m (state_file h (get ''CODEX_HOME'')))
             ''CODEX_HOME'' (detectCodexHome h m)
         @ (if officialRelayMode
            then when_update (map_of e ''PUBLIC_ORIGIN'' \<noteq> Some local) ''PUBLIC_ORIGIN'' local
            else when_update (get ''PUBLIC_ORIGIN'' = [] \<or> isLocalOrigin (get ''PUBLIC_ORIGIN'')
                   \<or> isStaleLanOrigin h (get ''PUBLIC_ORIGIN''))
                   ''PUBLIC_ORIGIN'' (''http://'' @ firstLanAddress h @ '':'' @ number_text currentPort))
         @ when_update (existsSync h m packageApkPath
             \<and> (get ''APP_UPDATE_APK_PATH'' = [] \<or> \<not> isReadable h m (get ''APP_UPDATE_APK_PATH'')))
             ''APP_UPDATE_APK_PATH'' packageApkPath)"

text \<open>\<open>{ ...env, ...updates }\<close>.\<close>

definition with_updates :: "env \<Rightarrow> (string \<times> string) list \<Rightarrow> env" where
  "with_updates e us = fold (\<lambda>(k, v). AList.update k v) us e"

definition reconcileConfig :: "host \<Rightarrow> string \<Rightarrow> machine \<Rightarrow> machine" where
  "reconcileConfig h configPath m =
     (if \<not> existsSync h m configPath then m
      else let e = readEnvFile m configPath; updates = config_updates h m e
           in if updates = [] then m
              else say ((''Config auto-updated: '' @ configPath) # map (\<lambda>(k, v). ''AUTO '' @ k @ '': '' @ v) updates)
                     (writeEnvFile configPath (with_updates e updates) m))"

definition initial_lines :: "host \<Rightarrow> machine \<Rightarrow> bool \<Rightarrow> js_number \<Rightarrow> (string \<times> string) list" where
  "initial_lines h m official port =
     (let get = env_or (m_env m); p = num_str port
      in [(''HOST'', if official then ''127.0.0.1'' else get ''HOST'' ''0.0.0.0''),
          (''PORT'', p),
          (''PUBLIC_ORIGIN'', if official then ''http://127.0.0.1:'' @ p
             else get ''PUBLIC_ORIGIN'' (''http://'' @ firstLanAddress h @ '':'' @ p)),
          (''ADMIN_TOKEN'', fst (h_tokens h)),
          (''SESSION_SECRET'', snd (h_tokens h)),
          (''CODEX_BIN'', get ''CODEX_BIN'' (detectCodexBin h m)),
          (''CODEX_HOME'', get ''CODEX_HOME'' (detectCodexHome h m)),
          (''CODEX_APP_SERVER_PORT'', get ''CODEX_APP_SERVER_PORT'' ''8790''),
          (''SESSION_TTL_HOURS'', get ''SESSION_TTL_HOURS'' ''720''),
          (''APP_UPDATE_VERSION_CODE'', get ''APP_UPDATE_VERSION_CODE'' ''100030018''),
          (''APP_UPDATE_VERSION_NAME'', get ''APP_UPDATE_VERSION_NAME'' ''1.0.3.18''),
          (''APP_UPDATE_NOTES'', [CHR 0x22] @ update_notes @ [CHR 0x22]),
          (''APP_UPDATE_APK_PATH'', join_path h [appBaseDir h, ''aCode-latest.apk'']),
          (''APP_UPDATE_PUBLIC_DOWNLOAD'', ''true'')]
         @ (if official then [(''RELAY_URL'', official_url), (''RELAY_DEVICE_NAME'', [])] else []))"

text \<open>An exception that nobody catches ends the process with the exit code 1.\<close>

definition crash :: "machine \<Rightarrow> machine" where
  "crash m = m\<lparr>m_crashed := True, m_exit := 1\<rparr>"

definition initConfig :: "host \<Rightarrow> bool \<Rightarrow> machine \<Rightarrow> machine" where
  "initConfig h official m =
     (let configPath = resolveReadableConfigPath h m
      in if existsSync h m configPath \<and> ''--force'' \<notin> set (h_argv h)
         then (let m1 = reconcileConfig h configPath (say [''Config already exists: '' @ configPath] m)
               in printConnectionHint h (readEnvFile m1 configPath) m1)
         else case pickAvailablePort h (h_number h (env_or (m_env m) ''PORT'' ''8787'')) of
                None \<Rightarrow> crash m
              | Some (port, notes) \<Rightarrow>
                  (let m1 = say notes m;
                       m2 = m1\<lparr>m_files := AList.update configPath (env_text (initial_lines h m1 official port)) (m_files m1)\<rparr>;
                       m3 = say ((''Config written: '' @ configPath)
                         # (if official then [''Official relay mode configured.''] else [])) m2
                   in printConnectionHint h (readEnvFile m3 configPath) m3))"

section \<open>Commands\<close>

definition start_port :: "host \<Rightarrow> machine \<Rightarrow> js_number option" where
  "start_port h m =
     (let e = readEnvFile m (resolveReadableConfigPath h m)
      in h_number h (env_or e ''PORT'' (env_or (m_env m) ''PORT'' ''8787'')))"

definition prepare_start :: "host \<Rightarrow> bool \<Rightarrow> machine \<Rightarrow> machine" where
  "prepare_start h official m =
     (let m1 = (if official \<and> text_or (map_of (m_env m) ''ACODE_FRIENDLY_LOGS'') [] = []
                then m\<lparr>m_env := AList.update ''ACODE_FRIENDLY_LOGS'' ''true'' (m_env m)\<rparr> else m);
          m2 = (if official \<and> \<not> existsSync h m1 (resolveReadableConfigPath h m1) then initConfig h True m1 else m1)
      in if m_crashed m2 then m2 else reconcileConfig h (resolveReadableConfigPath h m2) m2)"

definition launcher_start :: "host \<Rightarrow> bool \<Rightarrow> machine \<Rightarrow> machine" where
  "launcher_start h official m0 =
     (let m = prepare_start h official m0; port = start_port h m
      in if m_crashed m then m
         else case readExistingHealth h port of
           Some a \<Rightarrow>
             say ([''aCode Server is already running on port '' @ number_text port @ ''.'']
               @ (case ha_publicOrigin a of Some url \<Rightarrow> [''Running service URL: '' @ url] | None \<Rightarrow> [])
               @ [''This launcher will not start a second server.'',
                  ''If you generated a new Admin token just now, stop the old service first or keep using the old service token.'']) m
         | None \<Rightarrow>
             (case isPortOpen h port of
                None \<Rightarrow> crash m
              | Some True \<Rightarrow>
                  (say [''Port '' @ number_text port @ '' is already in use, but it does not look like aCode Server.'',
                        ''Stop the process using this port, or change PORT in the config file.''] m)\<lparr>m_exit := 1\<rparr>
              | Some False \<Rightarrow> m\<lparr>m_started := True\<rparr>))"

definition doctor_checks :: "host \<Rightarrow> machine \<Rightarrow> (string \<times> bool \<times> string) list" where
  "doctor_checks h m =
     (let path = resolveReadableConfigPath h m; e = readEnvFile m path;
          secret = (\<lambda>k. let v = text_or (map_of e k) [] in (k, 16 \<le> length v, if v \<noteq> [] then ''set'' else ''missing''));
          codexBin = text_or (map_of e ''CODEX_BIN'') (detectCodexBin h m);
          codexHome = text_or (map_of e ''CODEX_HOME'') (detectCodexHome h m)
      in [(''config'', existsSync h m path, path), secret ''ADMIN_TOKEN'', secret ''SESSION_SECRET'',
          (''codex'', commandExists h m codexBin, codexBin),
          (''sqlite'', commandExists h m (sqliteBin h m), sqliteBin h m),
          (''codex home'', existsSync h m codexHome, codexHome),
          (''state db'', existsSync h m (state_file h codexHome), state_file h codexHome),
          (''apk'', isReadable h m (env_or e ''APP_UPDATE_APK_PATH'' (join_path h [h_cwd h, ''aCode-debug.apk''])),
             env_or e ''APP_UPDATE_APK_PATH'' ''aCode-debug.apk'')])"

definition doctor_hints :: "host \<Rightarrow> machine \<Rightarrow> string list" where
  "doctor_hints h m =
     (let path = resolveReadableConfigPath h m; e = readEnvFile m path;
          failed = map fst (filter (\<lambda>(_, ok, _). \<not> ok) (doctor_checks h m));
          codexBin = text_or (map_of e ''CODEX_BIN'') (detectCodexBin h m);
          codexHome = text_or (map_of e ''CODEX_HOME'') (detectCodexHome h m);
          origin = text_or (map_of e ''PUBLIC_ORIGIN'') []
      in if failed = [] then []
         else [[], ''Hints:'']
           @ (if ''codex'' \<in> set failed
              then [''- Codex command was not found. Install Codex or set CODEX_BIN in '' @ path @ ''. Current value: '' @ codexBin] else [])
           @ (if ''codex home'' \<in> set failed \<or> ''state db'' \<in> set failed
              then [''- No Codex history was found at '' @ codexHome
                @ ''. Run Codex once on this computer, or set CODEX_HOME to the folder that contains state_5.sqlite.''] else [])
           @ (if ''apk'' \<in> set failed
              then [''- APK file was not readable. Set APP_UPDATE_APK_PATH in '' @ path @ '' if you moved the package.''] else [])
           @ (if origin = [] \<or> isLocalOrigin origin
              then [''- PUBLIC_ORIGIN should use this computer's LAN IP so the Android app can connect from your phone.''] else []))"

definition doctor :: "host \<Rightarrow> machine \<Rightarrow> machine" where
  "doctor h m =
     (let checks = doctor_checks h m;
          m1 = say (map (\<lambda>(name, ok, detail). (if ok then ''OK '' else ''ERR'') @ '' '' @ name @ '': '' @ detail) checks
            @ doctor_hints h m) m
      in if \<exists>(name, ok, detail)\<in>set checks. \<not> ok then m1\<lparr>m_exit := 1\<rparr> else m1)"

definition macLaunchAgent :: "host \<Rightarrow> string \<Rightarrow> string \<Rightarrow> string \<Rightarrow> string" where
  "macLaunchAgent h nodePath entryPath configPath =
     (let q = (\<lambda>s. [CHR 0x22] @ s @ [CHR 0x22]); str = (\<lambda>s. ''<string>'' @ s @ ''</string>'');
          log = (\<lambda>name. join_path h [pa_dirname (h_path h) configPath, name])
      in concat (map (\<lambda>l. l @ [CHR 0x0A])
        [''<?xml version='' @ q ''1.0'' @ '' encoding='' @ q ''UTF-8'' @ ''?>'',
         ''<!DOCTYPE plist PUBLIC '' @ q ''-//Apple//DTD PLIST 1.0//EN'' @ '' ''
           @ q ''http://www.apple.com/DTDs/PropertyList-1.0.dtd'' @ ''>'',
         ''<plist version='' @ q ''1.0'' @ ''>'',
         ''<dict>'',
         ''  <key>Label</key><string>org.acode.gateway</string>'',
         ''  <key>ProgramArguments</key>'',
         ''  <array>'',
         ''    '' @ str nodePath @ str entryPath @ str ''start'' @ str ''--config'' @ str configPath,
         ''  </array>'',
         ''  <key>RunAtLoad</key><true/>'',
         ''  <key>KeepAlive</key><true/>'',
         ''  <key>EnvironmentVariables</key>'',
         ''  <dict>'',
         ''    <key>PATH</key><string>/opt/homebrew/bin:/usr/local/bin:/usr/bin:/bin:/usr/sbin:/sbin</string>'',
         ''  </dict>'',
         ''  <key>StandardOutPath</key>'' @ str (log ''server.log''),
         ''  <key>StandardErrorPath</key>'' @ str (log ''server.err.log''),
         ''</dict>'',
         ''</plist>'']))"

definition linuxSystemdUser :: "string \<Rightarrow> string \<Rightarrow> string \<Rightarrow> string" where
  "linuxSystemdUser nodePath entryPath configPath =
     concat (map (\<lambda>l. l @ [CHR 0x0A])
       [''[Unit]'', ''Description=aCode server'', ''After=network.target'', [], ''[Service]'',
        ''ExecStart='' @ nodePath @ '' '' @ entryPath @ '' start --config '' @ configPath,
        ''Restart=always'', ''RestartSec=3'', [], ''[Install]'', ''WantedBy=default.target''])"

definition put_file :: "string \<Rightarrow> string \<Rightarrow> machine \<Rightarrow> machine" where
  "put_file p s m = m\<lparr>m_files := AList.update p s (m_files m)\<rparr>"

definition entry_path :: "host \<Rightarrow> string" where
  "entry_path h = (case h_argv h of _ # e # _ \<Rightarrow> e | _ \<Rightarrow> [])"

definition installService :: "host \<Rightarrow> bool \<Rightarrow> machine \<Rightarrow> machine" where
  "installService h official m =
     (let configPath = resolveReadableConfigPath h m; nodePath = h_execPath h; entryPath = entry_path h;
          startCommand = (if official then ''official-start'' else ''start'');
          q = (\<lambda>s. [CHR 0x5C, CHR 0x22] @ s @ [CHR 0x5C, CHR 0x22])
      in if h_platform h = ''darwin''
         then (let plistPath = join_path h [h_home h, ''Library'', ''LaunchAgents'', ''org.acode.gateway.plist'']
               in say [''LaunchAgent written: '' @ plistPath, ''Load with: launchctl bootstrap gui/$(id -u) '' @ plistPath]
                    (put_file plistPath (macLaunchAgent h nodePath entryPath configPath) m))
         else if h_platform h = ''linux''
         then (let servicePath = join_path h [h_home h, ''.config'', ''systemd'', ''user'', ''acode-server.service'']
               in say [''systemd user service written: '' @ servicePath,
                       ''Run: systemctl --user daemon-reload && systemctl --user enable --now acode-server'']
                    (put_file servicePath (linuxSystemdUser nodePath entryPath configPath) m))
         else if h_platform h = ''win32''
         then say [''Run this PowerShell command as the current user:'',
                   ''schtasks /Create /TN aCodeServer /SC ONLOGON /TR '' @ [CHR 0x22] @ q nodePath @ '' '' @ q entryPath @ '' ''
                     @ startCommand @ '' --config '' @ q configPath @ [CHR 0x22] @ '' /F''] m
         else say [''Unsupported platform: '' @ h_platform h] m)"

definition uninstallService :: "host \<Rightarrow> machine \<Rightarrow> machine" where
  "uninstallService h m =
     (if h_platform h = ''darwin''
      then say [''Run: launchctl bootout gui/$(id -u) ~/Library/LaunchAgents/org.acode.gateway.plist''] m
      else if h_platform h = ''linux'' then say [''Run: systemctl --user disable --now acode-server''] m
      else if h_platform h = ''win32'' then say [''Run: schtasks /Delete /TN aCodeServer /F''] m
      else m)"

datatype launcher_command =
    CmdInit | CmdOfficialInit | CmdStart | CmdOfficialStart | CmdDoctor
  | CmdInstall | CmdOfficialInstall | CmdUninstall | CmdHelp

definition command_names :: "(string \<times> launcher_command) list" where
  "command_names = [(''init'', CmdInit), (''official-init'', CmdOfficialInit), (''start'', CmdStart),
     (''official-start'', CmdOfficialStart), (''doctor'', CmdDoctor), (''install-service'', CmdInstall),
     (''official-install-service'', CmdOfficialInstall), (''uninstall-service'', CmdUninstall)]"

definition normalizeCommand :: "string option \<Rightarrow> launcher_command \<times> string list" where
  "normalizeCommand value =
     (case value of
        None \<Rightarrow> (CmdHelp, [])
      | Some v \<Rightarrow>
          if v \<in> {[], ''-h'', ''--help'', ''help''} then (CmdHelp, [])
          else case map_of command_names v of
                 Some c \<Rightarrow> (c, [])
               | None \<Rightarrow> (CmdHelp, [''Unknown command: '' @ v]))"

definition help_lines :: "string list" where
  "help_lines = [''aCode server'', [], ''Usage:'', ''  acode-server init [--force]'', ''  acode-server official-init [--force]'',
     ''  acode-server start [--config path]'', ''  acode-server official-start [--config path]'',
     ''  acode-server doctor [--config path]'', ''  acode-server install-service [--config path]'',
     ''  acode-server official-install-service [--config path]'', ''  acode-server uninstall-service'', []]"

text \<open>The program: \<open>process.argv[2]\<close> names the command.\<close>

definition launcher :: "host \<Rightarrow> machine \<Rightarrow> machine" where
  "launcher h m0 =
     (let (command, notes) = normalizeCommand (case h_argv h of _ # _ # v # _ \<Rightarrow> Some v | _ \<Rightarrow> None);
          m = say notes m0
      in case command of
           CmdInit \<Rightarrow> initConfig h False m
         | CmdOfficialInit \<Rightarrow> initConfig h True m
         | CmdStart \<Rightarrow> launcher_start h False m
         | CmdOfficialStart \<Rightarrow> launcher_start h True m
         | CmdDoctor \<Rightarrow> doctor h m
         | CmdInstall \<Rightarrow> installService h False m
         | CmdOfficialInstall \<Rightarrow>
             (let m1 = initConfig h True m in if m_crashed m1 then m1 else installService h True m1)
         | CmdUninstall \<Rightarrow> uninstallService h m
         | CmdHelp \<Rightarrow> say help_lines m)"

end
