(* ===== verification/LauncherProps.thy ===== *)
theory LauncherProps
  imports Launcher
begin

text \<open>
  Properties of the configuration: what a repair of the file keeps of it, that the official mode listens on
  the loopback address only, which settings the server insists on, which port the launcher picks, and which
  port it looks at.
\<close>

section \<open>Reading what was written\<close>

definition is_key :: "string \<Rightarrow> bool" where
  "is_key k = (k \<noteq> [] \<and> ident_start (hd k) \<and> (\<forall>c\<in>set k. ident_char c) \<and> k \<noteq> ''__proto__'')"

definition one_line :: "string \<Rightarrow> bool" where
  "one_line v = (CHR 0x0A \<notin> set v \<and> CHR 0x0D \<notin> set v)"

text \<open>A value after a write and a read: blanks at the end and one layer of quotes are lost.\<close>

definition reread :: "string \<Rightarrow> string" where
  "reread v = unquote (trim_end v)"

lemma set_trim_end: "set (trim_end v) \<subseteq> set v"
  by (auto simp: trim_end_def dest!: set_dropWhileD)

lemma dropWhile_before: "dropWhile P zs = zs \<Longrightarrow> dropWhile P (xs @ zs) = dropWhile P xs @ zs"
  by (induction xs) auto

lemma trim_end_append: "\<not> is_ws (last (c # p)) \<Longrightarrow> trim_end ((c # p) @ v) = (c # p) @ trim_end v"
proof -
  assume "\<not> is_ws (last (c # p))"
  then have "dropWhile is_ws (rev (c # p)) = rev (c # p)"
    by (simp add: dropWhile_eq_self_iff hd_rev del: rev.simps)
  then have "dropWhile is_ws (rev v @ rev (c # p)) = dropWhile is_ws (rev v) @ rev (c # p)"
    by (rule dropWhile_before)
  then show ?thesis by (simp add: trim_end_def)
qed

lemma ident_not_ws: "ident_char c \<Longrightarrow> \<not> is_ws c"
proof -
  have "(of_char c :: int) = int (of_char c)" by (simp only: of_nat_of_char)
  then show ?thesis if "ident_char c"
    using that unfolding ident_char_def ident_start_def is_ws_def Let_def by auto
qed

lemma equals_not_ident [simp]: "\<not> ident_char (CHR ''='')"
  by (simp add: ident_char_def ident_start_def)

lemma env_line_pair:
  assumes "is_key k" "one_line v"
  shows "env_line (trim (env_pair (k, v))) = Some (k, trim_end v)"
proof -
  obtain c s where k: "k = c # s" using assms(1) by (cases k) (auto simp: is_key_def)
  have "ident_char c" using assms(1) by (auto simp: is_key_def k)
  then have "trim_start (k @ ''='' @ v) = k @ ''='' @ v" by (simp add: k trim_start_def ident_not_ws)
  then have t: "trim (env_pair (k, v)) = k @ CHR ''='' # trim_end v"
    using trim_end_append [of c "s @ ''=''" v] by (simp add: trim_def env_pair_def k is_ws_def)
  have "takeWhile ident_char (k @ CHR ''='' # trim_end v) = k"
    "dropWhile ident_char (k @ CHR ''='' # trim_end v) = CHR ''='' # trim_end v"
    using assms(1) by (auto simp: is_key_def takeWhile_append2 dropWhile_append2)
  with assms set_trim_end [of v] show ?thesis
    by (auto simp: t env_line_def Let_def is_key_def one_line_def)
qed

lemma split_on_joined:
  assumes "\<forall>l\<in>set ls. CHR 0x0A \<notin> set l" "ls \<noteq> []"
  shows "split_on (CHR 0x0A) (join [CHR 0x0A] ls @ [CHR 0x0A]) = ls @ [[]]"
proof -
  have end_line: "split_on (CHR 0x0A) (l @ CHR 0x0A # s) = l # split_on (CHR 0x0A) s" if "CHR 0x0A \<notin> set l" for l s
    using that by (induction l) auto
  show ?thesis
    using assms by (induction "[CHR 0x0A]" ls rule: join.induct) (auto simp: end_line)
qed

lemma split_env_text:
  assumes "\<forall>(k, v)\<in>set kvs. is_key k \<and> one_line v" "kvs \<noteq> []"
  shows "split_crlf (env_text kvs) = map env_pair kvs @ [[]]"
proof -
  have key: "CHR 0x0A \<notin> set k" "CHR 0x0D \<notin> set k" if "is_key k" for k
    using that by (auto simp: is_key_def ident_char_def ident_start_def)
  then have lines: "\<forall>l\<in>set (map env_pair kvs). CHR 0x0A \<notin> set l \<and> CHR 0x0D \<notin> set l"
    using assms(1) by (fastforce simp: env_pair_def one_line_def)
  then have "map drop_cr (map env_pair kvs) = map env_pair kvs"
    by (intro map_idI) (auto simp: drop_cr_def dest!: bspec dest: last_in_set)
  with lines assms(2) show ?thesis
    by (simp add: split_crlf_def env_text_def split_on_joined Let_def)
qed

lemma read_pair:
  "is_key k \<Longrightarrow> one_line v \<Longrightarrow> read_env_line (env_pair (k, v)) e = AList.update k (reread v) e"
  by (auto simp: read_env_line_def env_line_pair reread_def is_key_def)

lemma read_blank [simp]: "read_env_line [] e = e"
  by (simp add: read_env_line_def trim_def trim_start_def trim_end_def env_line_def)

lemma read_pairs:
  assumes "\<forall>(k, v)\<in>set kvs. is_key k \<and> one_line v" "map_wf kvs"
  shows "map_of (fold read_env_line (map env_pair kvs) e) k
     = (case map_of kvs k of Some v \<Rightarrow> Some (reread v) | None \<Rightarrow> map_of e k)"
  using assms
proof (induction kvs arbitrary: e)
  case (Cons kv kvs)
  obtain a b where kv: "kv = (a, b)" by (cases kv)
  with Cons have "map_of kvs a = None" by (simp add: map_of_eq_None_iff)
  with Cons kv show ?case by (auto simp: read_pair update_conv split: option.splits)
qed simp

lemma read_env_text:
  assumes "\<forall>(k, v)\<in>set kvs. is_key k \<and> one_line v" "map_wf kvs" "map_of (m_files m) p = Some (env_text kvs)" "kvs \<noteq> []"
  shows "map_of (readEnvFile m p) k = map_option reread (map_of kvs k)"
  using assms read_pairs [OF assms(1,2), of "[]" k]
  by (auto simp: readEnvFile_def split_env_text split: option.splits)

section \<open>The order of a written file\<close>

lemma env_order_distinct: "distinct env_order"
  by (simp add: env_order_def)

lemma map_of_ordered_part:
  "map_of (List.map_filter (\<lambda>k. map_option (Pair k) (f k)) ks) k = (if k \<in> set ks then f k else None)"
  by (induction ks) (auto simp: map_filter_simps split: option.splits)

lemma map_of_filter_out: "map_of (filter (\<lambda>(k, _). k \<notin> K) e) k = (if k \<in> K then None else map_of e k)"
  by (induction e) auto

lemma map_of_ordered: "map_of (ordered_pairs e) = map_of e"
  by (rule ext) (auto simp: ordered_pairs_def map_of_ordered_part map_of_filter_out map_add_def split: option.splits)

lemma ordered_part_keys:
  "map fst (List.map_filter (\<lambda>k. map_option (Pair k) (f k)) ks) = filter (\<lambda>k. f k \<noteq> None) ks"
  by (induction ks) (auto simp: map_filter_simps split: option.splits)

lemma ordered_wf: "map_wf e \<Longrightarrow> map_wf (ordered_pairs e)"
proof -
  assume "map_wf e"
  then have "map_wf (filter (\<lambda>(k, _). k \<notin> set env_order) e)" by (rule map_wf_filter)
  moreover have "set (map fst (filter (\<lambda>(k, _). k \<notin> set env_order) e)) \<inter> set env_order = {}" by auto
  ultimately show ?thesis
    using env_order_distinct by (auto simp: ordered_pairs_def ordered_part_keys)
qed

lemma ordered_set: "map_wf e \<Longrightarrow> set (ordered_pairs e) = set e"
  by (metis map_of_ordered map_of_inject_set ordered_wf)

text \<open>What the launcher reads from a file has keys that are names and values of one line.\<close>

lemma env_line_SomeD: "env_line l = Some (k, v) \<Longrightarrow> k \<noteq> ''__proto__'' \<Longrightarrow> is_key k \<and> one_line v"
  by (auto simp: env_line_def is_key_def one_line_def Let_def dest: set_takeWhileD split: list.splits if_splits)

lemma unquote_one_line: "one_line v \<Longrightarrow> one_line (unquote v)"
  by (auto simp: one_line_def unquote_def Let_def dest: in_set_butlastD split: list.splits if_splits)

definition env_ok :: "env \<Rightarrow> bool" where
  "env_ok e = (map_wf e \<and> (\<forall>(k, v)\<in>set e. is_key k \<and> one_line v))"

lemma env_ok_update: "env_ok e \<Longrightarrow> is_key k \<Longrightarrow> one_line v \<Longrightarrow> env_ok (AList.update k v e)"
  by (auto simp: env_ok_def distinct_update dest!: set_update_cases)

lemma read_line_ok: "env_ok e \<Longrightarrow> env_ok (read_env_line l e)"
  using env_line_SomeD [of "trim l"] env_ok_update [of e]
  by (auto simp: read_env_line_def unquote_one_line split: option.splits)

lemma readEnvFile_ok: "env_ok (readEnvFile m p)"
proof -
  have "env_ok (fold read_env_line ls e)" if "env_ok e" for ls e
    using that by (induction ls arbitrary: e) (auto simp: read_line_ok)
  moreover have "env_ok []" by (simp add: env_ok_def)
  ultimately show ?thesis by (simp add: readEnvFile_def split: option.splits)
qed

lemma with_updates_ok:
  "env_ok e \<Longrightarrow> \<forall>(k, v)\<in>set us. is_key k \<and> one_line v \<Longrightarrow> env_ok (with_updates e us)"
  unfolding with_updates_def by (induction us arbitrary: e) (auto simp: env_ok_update)

lemma with_updates_other: "k \<notin> fst ` set us \<Longrightarrow> map_of (with_updates e us) k = map_of e k"
  unfolding with_updates_def by (induction us arbitrary: e) (auto simp: update_conv)

definition repaired_keys :: "string set" where
  "repaired_keys = {''CODEX_BIN'', ''CODEX_HOME'', ''PUBLIC_ORIGIN'', ''APP_UPDATE_APK_PATH''}"

lemma config_updates_keys: "fst ` set (config_updates h m e) \<subseteq> repaired_keys"
  by (auto simp: config_updates_def when_update_def repaired_keys_def Let_def)

lemma repaired_is_key: "k \<in> repaired_keys \<Longrightarrow> is_key k"
  by (auto simp: repaired_keys_def is_key_def ident_char_def ident_start_def)

lemma with_updates_nonempty: "us \<noteq> [] \<Longrightarrow> with_updates e us \<noteq> []"
  unfolding with_updates_def by (induction us rule: rev_induct) (auto simp: update_nonempty)

section \<open>Repairing a file\<close>

text \<open>C27. When the launcher repairs the configuration file, every setting but the four it looks after is afterwards read
  as it was, less blanks at its end and less one more layer of quotes: secrets and settings the launcher does
  not know survive if they have neither, and settings that were absent stay absent.\<close>

theorem repair_keeps_other_settings:
  assumes "existsSync h m p" and "config_updates h m (readEnvFile m p) \<noteq> []"
    and "\<forall>v\<in>snd ` set (config_updates h m (readEnvFile m p)). one_line v"
    and "k \<notin> repaired_keys"
  shows "map_of (readEnvFile (reconcileConfig h p m) p) k = map_option reread (map_of (readEnvFile m p) k)"
proof -
  let ?us = "config_updates h m (readEnvFile m p)" and ?e = "with_updates (readEnvFile m p)"
  have us: "\<forall>(k, v)\<in>set ?us. is_key k \<and> one_line v"
    using assms(3) config_updates_keys [of h m] repaired_is_key by fastforce
  have ok: "env_ok (?e ?us)" by (rule with_updates_ok [OF readEnvFile_ok us])
  then have pairs: "\<forall>(k, v)\<in>set (ordered_pairs (?e ?us)). is_key k \<and> one_line v" "map_wf (ordered_pairs (?e ?us))"
    by (auto simp: env_ok_def ordered_set ordered_wf)
  have ne: "ordered_pairs (?e ?us) \<noteq> []"
    using with_updates_nonempty [OF assms(2)] ok ordered_set [of "?e ?us"] by (auto simp: env_ok_def)
  have "map_of (m_files (reconcileConfig h p m)) p = Some (env_text (ordered_pairs (?e ?us)))"
    using assms(1,2) by (simp add: reconcileConfig_def Let_def say_def writeEnvFile_def update_conv)
  then have "map_of (readEnvFile (reconcileConfig h p m) p) k = map_option reread (map_of (?e ?us) k)"
    using read_env_text [OF pairs _ ne] by (simp add: map_of_ordered)
  moreover have "map_of (?e ?us) k = map_of (readEnvFile m p) k"
    using assms(4) config_updates_keys [of h m] by (intro with_updates_other) blast
  ultimately show ?thesis by simp
qed

section \<open>The configuration that the server loads\<close>

lemma load_line_keeps: "map_of e k = Some v \<Longrightarrow> map_of (load_line l e) k = Some v"
  by (auto simp: load_line_def Let_def update_conv split: option.splits)

lemma load_lines_keep: "map_of e k = Some v \<Longrightarrow> map_of (fold load_line ls e) k = Some v"
  by (induction ls arbitrary: e) (auto simp: load_line_keeps)

text \<open>A variable of the process wins over the file.\<close>

lemma process_wins: "map_of (m_env m) k = Some v \<Longrightarrow> map_of (loadDotenv h m) k = Some v"
  by (auto simp: loadDotenv_def load_lines_keep split: option.splits)

lemma bind_result_Inr: "bind_result r f = Inr v \<longleftrightarrow> (\<exists>x. r = Inr x \<and> f x = Inr v)"
  by (auto simp: bind_result_def split: sum.splits)

lemma config_of_InrD:
  assumes "config_of h e = Inr c"
  shows "envNumber h e ''PORT'' 8787 = Inr (ac_port c)" "required e ''ADMIN_TOKEN'' = Inr (ac_adminToken c)"
    "required e ''SESSION_SECRET'' = Inr (ac_sessionSecret c)" "ac_host c = env_or e ''HOST'' ''127.0.0.1''"
  using assms by (auto simp: config_of_def Let_def bind_result_Inr)

text \<open>The server does not start without its two secrets, and not with the placeholders of the example file.\<close>

lemma server_needs_secrets:
  assumes "load_config h m = Inr c"
  shows "ac_adminToken c \<noteq> [] \<and> ac_sessionSecret c \<noteq> []
     \<and> \<not> includes_str (ac_adminToken c) ''replace-with-'' \<and> \<not> includes_str (ac_sessionSecret c) ''replace-with-''"
  using config_of_InrD(2,3) [OF assms [unfolded load_config_def]]
  by (auto simp: required_def split: option.splits if_splits)

text \<open>The launcher looks at the port of the file, the server listens on the port of the environment.\<close>

lemma launcher_looks_at_another_port:
  assumes "map_of (m_env m) ''PORT'' = Some q" "q \<noteq> []"
    and "map_of (readEnvFile m (resolveReadableConfigPath h m)) ''PORT'' = Some p"
    and "load_config h m = Inr c"
  shows "start_port h m = h_number h p \<and> Some (ac_port c) = h_number h q"
proof -
  have "envNumber h (loadDotenv h m) ''PORT'' 8787 = Inr (ac_port c)"
    using config_of_InrD(1) assms(4) unfolding load_config_def .
  with process_wins [OF assms(1), of h] assms(2) have "Some (ac_port c) = h_number h q"
    by (cases q) (auto simp: envNumber_def split: option.splits)
  with assms(3) show ?thesis by (simp add: start_port_def env_or_def)
qed

section \<open>A new configuration\<close>

lemma printConnectionHint_frame [simp]:
  "m_files (printConnectionHint h e m) = m_files m" "m_env (printConnectionHint h e m) = m_env m"
  by (simp_all add: printConnectionHint_def say_def Let_def)

lemma initConfig_new:
  assumes "\<not> existsSync h m (resolveReadableConfigPath h m)" "\<not> m_crashed (initConfig h official m)"
  shows "\<exists>port msgs. m_files (initConfig h official m) =
      AList.update (resolveReadableConfigPath h m) (env_text (initial_lines h (say msgs m) official port)) (m_files m)
    \<and> m_env (initConfig h official m) = m_env m"
  using assms by (auto simp: initConfig_def Let_def say_def crash_def split: option.splits)

lemma readable_path_frame:
  "m_env m' = m_env m \<Longrightarrow> resolveReadableConfigPath h m' = resolveReadableConfigPath h m"
  by (auto simp: resolveReadableConfigPath_def explicit_config_def defaultConfigPath_def split: option.split list.split)

lemma server_reads_launcher_file:
  "existsSync h m (resolveReadableConfigPath h m) \<Longrightarrow> resolveConfigPath h m = resolveReadableConfigPath h m"
  by (auto simp: resolveConfigPath_def resolveReadableConfigPath_def Let_def split: option.splits list.splits)

lemma first_line: "CHR 0x0A \<notin> set l \<Longrightarrow> CHR 0x0D \<notin> set l \<Longrightarrow> \<exists>ls. split_crlf (l @ CHR 0x0A # s) = l # ls"
proof -
  assume l: "CHR 0x0A \<notin> set l" "CHR 0x0D \<notin> set l"
  have "split_on (CHR 0x0A) (l @ CHR 0x0A # s) = l # split_on (CHR 0x0A) s"
    using l(1) by (induction l) auto
  moreover have "drop_cr l = l" using l(2) last_in_set [of l] unfolding drop_cr_def by metis
  ultimately show ?thesis
    using split_on_nonempty [of "CHR 0x0A" s] by (simp add: split_crlf_def Let_def)
qed

lemma load_host: "load_line ''HOST=127.0.0.1'' e = (if map_of e ''HOST'' = None then AList.update ''HOST'' ''127.0.0.1'' e else e)"
  by (simp add: load_line_def env_line_def trim_def trim_start_def trim_end_def is_ws_def starts_with_def ident_char_def
      ident_start_def prototype_keys_def unquote_def is_quote_def)

text \<open>C28. A configuration that the launcher creates for the official relay makes the server listen on the loopback
  address and nowhere else, whatever else the environment sets, unless it sets \<open>HOST\<close> itself.\<close>

theorem official_mode_listens_locally:
  assumes "\<not> existsSync h m (resolveReadableConfigPath h m)" and "map_of (m_env m) ''HOST'' = None"
    and "\<not> m_crashed (initConfig h True m)" and "load_config h (initConfig h True m) = Inr c"
  shows "ac_host c = ''127.0.0.1''"
proof -
  let ?m = "initConfig h True m" and ?p = "resolveReadableConfigPath h m"
  obtain port msgs where files: "m_files ?m = AList.update ?p (env_text (initial_lines h (say msgs m) True port)) (m_files m)"
      and env: "m_env ?m = m_env m"
    using initConfig_new [OF assms(1,3)] by blast
  have saved: "map_of (m_files ?m) ?p = Some (env_text (initial_lines h (say msgs m) True port))"
    by (simp add: files update_conv)
  then have path: "resolveConfigPath h ?m = ?p"
    using server_reads_launcher_file [of h ?m] readable_path_frame [OF env, of h] by (simp add: existsSync_def)
  obtain s where "env_text (initial_lines h (say msgs m) True port) = ''HOST=127.0.0.1'' @ CHR 0x0A # s"
    by (simp add: initial_lines_def env_text_def env_pair_def Let_def)
  then obtain ls where "split_crlf (env_text (initial_lines h (say msgs m) True port)) = ''HOST=127.0.0.1'' # ls"
    using first_line [of "''HOST=127.0.0.1''" s] by auto
  then have "loadDotenv h ?m = fold load_line ls (load_line ''HOST=127.0.0.1'' (m_env m))"
    by (simp add: loadDotenv_def path saved env)
  moreover have "map_of (load_line ''HOST=127.0.0.1'' (m_env m)) ''HOST'' = Some ''127.0.0.1''"
    using assms(2) by (simp add: load_host)
  ultimately have "map_of (loadDotenv h ?m) ''HOST'' = Some ''127.0.0.1''"
    by (simp add: load_lines_keep)
  then show ?thesis
    using config_of_InrD(4) [of h "loadDotenv h ?m" c] assms(4) by (simp add: load_config_def env_or_def)
qed

section \<open>A sample machine\<close>

definition posix_paths :: path_api where
  "posix_paths = \<lparr>pa_join = path_join, pa_resolve = (\<lambda>p. path_resolve ''/w'' [p]), pa_dirname = dirname,
     pa_basename = basename, pa_extname = extname\<rparr>"

definition sample_host :: host where
  "sample_host = \<lparr>h_platform = ''linux'', h_argv = [''node'', ''/app/cli.js'', ''start''], h_execPath = ''node'',
     h_module_dir = ''/app'', h_home = ''/home/u'', h_cwd = ''/w'', h_path = posix_paths,
     h_exists = (\<lambda>p. p = ''/usr/bin/codex''), h_readable = (\<lambda>_. False),
     h_lookup = (\<lambda>_ _. (Some 0, Some ''/usr/bin/codex'')), h_interfaces = [(''IPv4'', False, ''192.168.1.5'')],
     h_port_open = (\<lambda>_. False), h_fetch_health = (\<lambda>_. None), h_hostname = (\<lambda>_. None),
     h_number = (\<lambda>_. Some 7),
     h_tokens = (''0123456789abcdef'', ''fedcba9876543210'')\<rparr>"

definition sample_path :: string where
  "sample_path = ''/home/u/.acode-server/config.env''"

definition new_machine :: machine where
  "new_machine = \<lparr>m_env = [], m_files = [], m_out = [], m_exit = 0, m_started = False, m_crashed = False\<rparr>"

definition old_machine :: machine where
  "old_machine = new_machine\<lparr>m_files := [(sample_path,
     ''CODEX_BIN=codex'' @ [CHR 0x0A] @ ''RELAY_ACCOUNT_PASSWORD='' @ [CHR 0x22] @ ''a '' @ [CHR 0x22])]\<rparr>"

text \<open>A password that ends with a blank loses it.\<close>

theorem repair_keeps_other_settings_witness:
  "map_of (readEnvFile old_machine sample_path) ''RELAY_ACCOUNT_PASSWORD'' = Some ''a ''
   \<and> map_of (readEnvFile (reconcileConfig sample_host sample_path old_machine) sample_path) ''RELAY_ACCOUNT_PASSWORD'' = Some ''a''"
proof -
  have "existsSync sample_host old_machine sample_path"
    "config_updates sample_host old_machine (readEnvFile old_machine sample_path) \<noteq> []"
    "\<forall>v\<in>snd ` set (config_updates sample_host old_machine (readEnvFile old_machine sample_path)). one_line v"
    "''RELAY_ACCOUNT_PASSWORD'' \<notin> repaired_keys"
    by (simp add: existsSync_def old_machine_def, code_simp, code_simp, simp add: repaired_keys_def)
  from repair_keeps_other_settings [OF this]
  have "map_of (readEnvFile (reconcileConfig sample_host sample_path old_machine) sample_path) ''RELAY_ACCOUNT_PASSWORD''
      = map_option reread (map_of (readEnvFile old_machine sample_path) ''RELAY_ACCOUNT_PASSWORD'')" .
  moreover have "map_of (readEnvFile old_machine sample_path) ''RELAY_ACCOUNT_PASSWORD'' = Some ''a ''" by code_simp
  moreover have "reread ''a '' = ''a''" by code_simp
  ultimately show ?thesis by simp
qed

lemma sample_configured: "\<exists>c. load_config sample_host (initConfig sample_host True new_machine) = Inr c"
proof -
  have "case load_config sample_host (initConfig sample_host True new_machine) of Inr _ \<Rightarrow> True | Inl _ \<Rightarrow> False" by code_simp
  then show ?thesis by (auto split: sum.splits)
qed

theorem official_mode_listens_locally_witness:
  "\<exists>c. load_config sample_host (initConfig sample_host True new_machine) = Inr c \<and> ac_host c = ''127.0.0.1''"
proof -
  obtain c where c: "load_config sample_host (initConfig sample_host True new_machine) = Inr c"
    using sample_configured by blast
  have "\<not> existsSync sample_host new_machine (resolveReadableConfigPath sample_host new_machine)"
    "map_of (m_env new_machine) ''HOST'' = None" "\<not> m_crashed (initConfig sample_host True new_machine)"
    by (code_simp, simp add: new_machine_def, code_simp)
  from official_mode_listens_locally [OF this c] c show ?thesis by blast
qed

section \<open>Ports and services\<close>

lemma next_free_port_bounds:
  "next_free_port h p q n = Some (r, msgs) \<Longrightarrow> p \<le> q \<Longrightarrow> r = p \<or> q \<le> r \<and> r + 1 \<le> q + of_nat n \<and> \<not> h_port_open h r"
  by (induction n arbitrary: q) (fastforce simp: isPortOpen_def split: option.splits if_splits bool.splits)+

text \<open>The port that the launcher picks is the preferred one or a free one of the twenty after it.\<close>

lemma picked_port_is_near:
  "pickAvailablePort h (Some p) = Some (q, msgs) \<Longrightarrow> q = p \<or> p < q \<and> q \<le> p + 20 \<and> \<not> h_port_open h q"
  using next_free_port_bounds [of h p "p + 1" 20 q msgs]
  by (auto simp: pickAvailablePort_def split: option.splits bool.splits if_splits)

text \<open>On macOS and Linux the service of the official mode is the service of the ordinary one.\<close>

lemma official_service_is_ordinary:
  "h_platform h = ''darwin'' \<or> h_platform h = ''linux'' \<Longrightarrow> installService h True m = installService h False m"
  by (auto simp: installService_def Let_def)

end
