(* ===== verification/GatewayReads.thy ===== *)
theory GatewayReads
  imports Gateway
begin

text \<open>
  The routes of \<open>index.ts\<close> that only read: a session, the detail of a thread with its two fallbacks, a page of
  events, the threads that can be imported, the diagnostics and the summary for the widget of a phone. A route
  is a function of the gateway at the end of its awaits and of their answers; \<open>session\<close> is what the store held
  when the request came. A failing append to the audit log is left out. Reading moves entries of the event cache, and the check of stale runs may set a session
  idle, so the gateway is returned too.
\<close>

section \<open>One session\<close>

datatype read_reply =
    ReadSession gateway_session
  | ReadDetail json
  | ReadEvents "gateway_message list" js_number bool
  | ReadRefused nat string
  | ReadThrows js_error

text \<open>The beginning that the three routes share.\<close>

definition read_context ::
  "gateway_config \<Rightarrow> gateway_session option \<Rightarrow> (string option \<Rightarrow> js_error + thread_listing) \<Rightarrow> fs_view \<Rightarrow> bool \<Rightarrow> string \<Rightarrow>
   read_reply + thread_context" where
  "read_context cfg session pages fs timedOut i =
     (if \<not> is_uuid i then Inl (ReadRefused 400 ''invalid_request'')
      else case authorizedThreadContext cfg session pages fs timedOut i of
        Inl e \<Rightarrow> Inl (ReadThrows e)
      | Inr None \<Rightarrow> Inl (ReadRefused 404 ''session_not_found'')
      | Inr (Some cx) \<Rightarrow> if cx_workspace cx = None then Inl (ReadRefused 403 ''forbidden'') else Inr cx)"

definition get_session_route ::
  "gateway_config \<Rightarrow> gateway_session option \<Rightarrow> (string option \<Rightarrow> js_error + thread_listing) \<Rightarrow> fs_view \<Rightarrow> bool \<Rightarrow> string \<Rightarrow>
   read_reply" where
  "get_session_route cfg session pages fs timedOut i =
     (case read_context cfg session pages fs timedOut i of
        Inl r \<Rightarrow> r
      | Inr cx \<Rightarrow>
          (case (cx_session cx, cx_thread cx) of
             (Some s, _) \<Rightarrow> ReadSession s
           | (None, Some t) \<Rightarrow> ReadSession (threadToSession (cf_codexBin cfg) t None)
           | (None, None) \<Rightarrow> ReadRefused 404 ''session_not_found''))"

text \<open>\<open>bridge\<close> is the answer of \<open>codexBridge.readThread\<close> and \<open>fallback\<close> that of \<open>readThreadFallback\<close>; the last resort is
  a snapshot of what the gateway itself has recorded.\<close>

definition readThreadDetail ::
  "gateway_config \<Rightarrow> int \<Rightarrow> js_error + json \<Rightarrow> js_error + json \<Rightarrow> string \<Rightarrow> gateway \<Rightarrow> (js_error + json) \<times> gateway" where
  "readThreadDetail cfg now bridge fallback i g =
     (case bridge of
        Inr detail \<Rightarrow> (Inr detail, g)
      | Inl _ \<Rightarrow>
          (case fallback of
             Inr detail \<Rightarrow> (Inr detail, g)
           | Inl e \<Rightarrow>
               (case getSession (g_store g) i of
                  None \<Rightarrow> (Inl e, g)
                | Some s \<Rightarrow>
                    (let (es, st) = listEvents (s_id s) (g_store g)
                     in (Inr (gatewaySessionToThreadDetail (cf_date_parse cfg) (of_int now) s es), g\<lparr>g_store := st\<rparr>)))))"

definition get_thread_route ::
  "gateway_config \<Rightarrow> int \<Rightarrow> gateway_session option \<Rightarrow> (string option \<Rightarrow> js_error + thread_listing) \<Rightarrow> fs_view \<Rightarrow> bool \<Rightarrow>
   js_error + json \<Rightarrow> js_error + json \<Rightarrow> string \<Rightarrow> gateway \<Rightarrow> read_reply \<times> gateway" where
  "get_thread_route cfg now session pages fs timedOut bridge fallback i g =
     (case read_context cfg session pages fs timedOut i of
        Inl r \<Rightarrow> (r, g)
      | Inr _ \<Rightarrow>
          (case readThreadDetail cfg now bridge fallback i g of
             (Inr detail, g') \<Rightarrow> (ReadDetail detail, g')
           | (Inl e, g') \<Rightarrow> (ReadThrows e, g')))"

definition valid_page_query :: "js_number \<Rightarrow> js_number \<Rightarrow> bool" where
  "valid_page_query after limit =
     (after = of_int \<lfloor>after\<rfloor> \<and> 0 \<le> after \<and> limit = of_int \<lfloor>limit\<rfloor> \<and> 1 \<le> limit \<and> limit \<le> 5000)"

definition get_session_events ::
  "gateway_config \<Rightarrow> int \<Rightarrow> gateway_session option \<Rightarrow> (string option \<Rightarrow> js_error + thread_listing) \<Rightarrow> fs_view \<Rightarrow> bool \<Rightarrow>
   js_error + json \<Rightarrow> js_error + json \<Rightarrow> string \<Rightarrow> js_number \<Rightarrow> js_number \<Rightarrow> gateway \<Rightarrow> read_reply \<times> gateway" where
  "get_session_events cfg now session pages fs timedOut bridge fallback i after limit g =
     (case read_context cfg session pages fs timedOut i of
        Inl r \<Rightarrow> (r, g)
      | Inr _ \<Rightarrow>
          if \<not> valid_page_query after limit then (ReadRefused 400 ''invalid_request'', g)
          else let (page, st) = listEventsAfterLimited i after limit (g_store g); g1 = g\<lparr>g_store := st\<rparr>
               in if pg_entries page \<noteq> [] \<or> hasEvents st i
                  then (ReadEvents (pg_entries page) (pg_nextCursor page) (pg_truncated page), g1)
                  else (case readThreadDetail cfg now bridge fallback i g1 of
                          (Inl _, g2) \<Rightarrow> (ReadRefused 404 ''session_not_found'', g2)
                        | (Inr detail, g2) \<Rightarrow>
                            (let (es, next, truncated) =
                               detail_page after (nat \<lfloor>limit\<rfloor>) (threadDetailToGatewayEvents (of_int now) detail)
                             in (ReadEvents es next truncated, g2))))"

section \<open>Listings\<close>

record importable_thread =
  im_id :: string
  im_title :: string
  im_workspacePath :: string
  im_prompt :: string
  im_createdAt :: string
  im_updatedAt :: string
  im_modelLabel :: "string option"
  im_modelProvider :: string

definition get_importable ::
  "gateway_config \<Rightarrow> fs_view \<Rightarrow> bool \<Rightarrow> js_error + thread_listing \<Rightarrow> js_error + importable_thread list" where
  "get_importable cfg fs timedOut listing =
     (case listing of
        Inl e \<Rightarrow> Inl e
      | Inr (rawData, _) \<Rightarrow>
          Inr (map (\<lambda>t. \<lparr>im_id = t_id t, im_title = t_title t, im_workspacePath = t_cwd t, im_prompt = t_preview t,
                 im_createdAt = date_iso (t_createdAtMs t), im_updatedAt = date_iso (t_updatedAtMs t),
                 im_modelLabel = t_model t, im_modelProvider = t_modelProvider t\<rparr>)
               (filterAllowedThreads (resolve_ws cfg fs timedOut) rawData)))"

definition is_running :: "gateway_session \<Rightarrow> bool" where
  "is_running s = (status s = Running \<or> status s = Starting)"

text \<open>The counters of \<open>/diagnostics\<close>.\<close>

definition get_diagnostics :: "js_error + thread_listing \<Rightarrow> gateway \<Rightarrow> js_error + nat \<times> nat \<times> nat" where
  "get_diagnostics listing g =
     (case listing of
        Inl e \<Rightarrow> Inl e
      | Inr (data, _) \<Rightarrow>
          (let ss = listSessions (g_store g)
           in Inr (max (length data) (length ss), length (filter is_running ss),
                length (filter (\<lambda>s. status s = WaitingApproval) ss))))"

section \<open>The widget\<close>

definition isLiveWidgetSession :: "gateway_config \<Rightarrow> int \<Rightarrow> gateway_session \<Rightarrow> bool" where
  "isLiveWidgetSession cfg now s =
     (if \<not> is_running s \<and> status s \<noteq> WaitingApproval then True
      else of_int now - parse_or (cf_date_parse cfg) (lastUpdatedAt s) 0 \<le> 10 * 60 * 1000)"

definition mergeWidgetSessions :: "gateway_session list \<Rightarrow> gateway_session list \<Rightarrow> gateway_session list" where
  "mergeWidgetSessions primary secondary =
     (let merged = fold (\<lambda>s. AList.update (s_id s) s) primary (fold (\<lambda>s. AList.update (s_id s) s) secondary [])
      in rev (sort_key lastUpdatedAt (rev (map snd merged))))"

definition compactWidgetText :: "string \<Rightarrow> string" where
  "compactWidgetText value =
     (let text = trim (collapse_ws value)
      in if text = [] \<or> starts_with text ''{'' \<or> starts_with text ''diff --git '' then []
         else if length text > 160 then take 157 text @ ''...'' else text)"

definition completedAgentFeedbackText :: "gateway_message \<Rightarrow> string" where
  "completedAgentFeedbackText m =
     (let payload = JObj (m_payload m)
      in if str_field payload ''eventType'' \<noteq> Some ''item/completed'' then []
         else case jget payload ''jsonPayload'' of
                None \<Rightarrow> []
              | Some jp \<Rightarrow>
                  (case jget jp ''item'' of
                     None \<Rightarrow> []
                   | Some item \<Rightarrow>
                       if str_field item ''type'' = Some ''agentMessage''
                       then (case str_field item ''text'' of Some txt \<Rightarrow> compactWidgetText txt | None \<Rightarrow> [])
                       else []))"

definition promptFeedbackText :: "gateway_message \<Rightarrow> string" where
  "promptFeedbackText m =
     (let payload = JObj (m_payload m)
      in case str_field payload ''prompt'' of
           Some t \<Rightarrow> compactWidgetText t
         | None \<Rightarrow>
             (case str_field payload ''text'' of
                Some t \<Rightarrow> compactWidgetText t
              | None \<Rightarrow> (case str_field payload ''message'' of Some t \<Rightarrow> compactWidgetText t | None \<Rightarrow> [])))"

definition agent_deltas :: "gateway_message list \<Rightarrow> string" where
  "agent_deltas ms =
     concat (List.map_filter (\<lambda>m. if str_field (JObj (m_payload m)) ''eventType'' = Some ''item/agentMessage/delta''
                                 then str_field (JObj (m_payload m)) ''chunk'' else None) ms)"

definition latestWidgetFeedback :: "gateway_message list \<Rightarrow> string option" where
  "latestWidgetFeedback ms =
     (case List.find (\<lambda>t. t \<noteq> []) (map completedAgentFeedbackText (rev ms)) of
        Some t \<Rightarrow> Some t
      | None \<Rightarrow>
          (let compactDelta = compactWidgetText (agent_deltas ms)
           in if compactDelta \<noteq> [] then Some compactDelta
              else List.find (\<lambda>t. t \<noteq> []) (map promptFeedbackText (rev ms))))"

record widget =
  wi_sessions :: "gateway_session list"
  wi_status :: string
  wi_current :: "gateway_session option"
  wi_feedback :: "string option"
  wi_running :: nat
  wi_pendingApproval :: nat
  wi_trend :: "int list"

definition trend_value :: "gateway_config \<Rightarrow> int \<Rightarrow> gateway_session \<Rightarrow> int" where
  "trend_value cfg now s =
     max 1 (min 9 (\<lfloor>parse_or (cf_date_parse cfg) (lastUpdatedAt s) (of_int now) / 60000 + 1 / 2\<rfloor> mod 10))"

text \<open>\<open>wi_feedback\<close> is None where the route answers with its text for no feedback.\<close>

definition get_widget ::
  "gateway_config \<Rightarrow> int \<Rightarrow> js_error + thread_listing \<Rightarrow> fs_view \<Rightarrow> bool \<Rightarrow> gateway \<Rightarrow> widget \<times> gateway" where
  "get_widget cfg now listing fs timedOut g =
     (let data = (case listing of Inr (d, _) \<Rightarrow> d | Inl _ \<Rightarrow> []);
          (threads, g1) = with_statuses cfg now (filterAllowedThreads (resolve_ws cfg fs timedOut) data) g;
          threadSessions = map (\<lambda>t. threadToSession (cf_codexBin cfg) t (Some (mapThreadStatus (t_status t)))) threads;
          liveSessions = filter (isLiveWidgetSession cfg now)
            (filterAllowedSessions (resolve_ws cfg fs timedOut) (listSessions (g_store g)));
          merged = mergeWidgetSessions liveSessions threadSessions;
          running = filter is_running merged;
          pending = filter (\<lambda>s. status s = WaitingApproval) merged;
          current = (case running of s # _ \<Rightarrow> Some s | [] \<Rightarrow> (case merged of s # _ \<Rightarrow> Some s | [] \<Rightarrow> None));
          (recent, st) = (case current of
             Some s \<Rightarrow> (let (es, st) = listEvents (s_id s) (g_store g1) in (slice_last 20 es, st))
           | None \<Rightarrow> ([], g_store g1))
      in (\<lparr>wi_sessions = merged,
           wi_status = (if running \<noteq> [] then ''running'' else if pending \<noteq> [] then ''waiting-approval'' else ''idle''),
           wi_current = current, wi_feedback = latestWidgetFeedback recent,
           wi_running = length running, wi_pendingApproval = length pending,
           wi_trend = map (trend_value cfg now) (take 10 merged)\<rparr>, g1\<lparr>g_store := st\<rparr>))"

section \<open>Lemmas\<close>

text \<open>A thread that is no session of the gateway is read only if its directory lies inside an allowed root.\<close>

lemma read_context_inside:
  assumes "read_context cfg None pages fs timedOut i = Inr cx"
  shows "\<exists>t workspace. cx_thread cx = Some t \<and> cx_workspace cx = Some workspace
     \<and> fs_realpath fs (path_resolve (cf_cwd cfg) [t_cwd t]) = Some workspace
     \<and> (\<exists>rootPath\<in>set (cf_roots cfg). \<exists>r. fs_realpath fs (path_resolve (cf_cwd cfg) [rootPath]) = Some r
          \<and> prefix (resolve_components (cf_cwd cfg) [r]) (resolve_components (cf_cwd cfg) [workspace]))"
proof -
  have cx: "authorizedThreadContext cfg None pages fs timedOut i = Inr (Some cx)" "cx_workspace cx \<noteq> None"
    using assms by (simp_all add: read_context_def split: sum.splits option.splits if_splits)
  then obtain t where t: "cx_thread cx = Some t"
      "cx_workspace cx = (if t_cwd t = [] then None else resolve_ws cfg fs timedOut (t_cwd t) False)"
    by (cases "findThreadSummary pages i") (auto simp: authorizedThreadContext_def split: option.splits)
  with cx(2) obtain workspace where w: "cx_workspace cx = Some workspace"
      "resolveAllowedWorkspace fs (cf_cwd cfg) (cf_roots cfg) timedOut (t_cwd t) False = Some workspace"
    by (auto simp: resolve_ws_def split: if_splits)
  from resolved_inside_a_root [OF w(2)] t(1) w(1) show ?thesis by blast
qed

fun shows_content :: "read_reply \<Rightarrow> bool" where
  "shows_content (ReadRefused _ _) = False"
| "shows_content (ReadThrows _) = False"
| "shows_content _ = True"

lemma refused_context:
  "read_context cfg session pages fs timedOut i = Inl r \<Longrightarrow> \<not> shows_content r"
  by (auto simp: read_context_def split: sum.splits option.splits if_splits)

text \<open>C31. The routes that read a session, a thread or its events give content of a thread that is not a session of the
  gateway only when the thread is found in the listings of Codex and its directory, with links followed, lies
  inside one of the allowed roots.\<close>

theorem reads_stay_in_allowed_roots:
  assumes "reply = get_session_route cfg None pages fs timedOut i
      \<or> reply = fst (get_thread_route cfg now None pages fs timedOut bridge fallback i g)
      \<or> reply = fst (get_session_events cfg now None pages fs timedOut bridge fallback i after limit g)"
    and "shows_content reply"
  shows "\<exists>t workspace. findThreadSummary pages i = Inr (Some t)
     \<and> fs_realpath fs (path_resolve (cf_cwd cfg) [t_cwd t]) = Some workspace
     \<and> (\<exists>rootPath\<in>set (cf_roots cfg). \<exists>r. fs_realpath fs (path_resolve (cf_cwd cfg) [rootPath]) = Some r
          \<and> prefix (resolve_components (cf_cwd cfg) [r]) (resolve_components (cf_cwd cfg) [workspace]))"
proof -
  have "\<not> shows_content reply" if "read_context cfg None pages fs timedOut i = Inl r" for r
    using assms(1) refused_context [OF that]
    by (auto simp: get_session_route_def get_thread_route_def get_session_events_def that)
  with assms(2) obtain cx where cx: "read_context cfg None pages fs timedOut i = Inr cx"
    by (cases "read_context cfg None pages fs timedOut i") auto
  obtain t where "cx_thread cx = Some t" using read_context_inside [OF cx] by blast
  moreover have "findThreadSummary pages i = Inr (cx_thread cx)"
    using cx by (cases "findThreadSummary pages i")
      (auto simp: read_context_def authorizedThreadContext_def Let_def split: option.splits if_splits)
  ultimately show ?thesis using read_context_inside [OF cx] by auto
qed

definition read_config :: gateway_config where
  "read_config = \<lparr>cf_parse = (\<lambda>_. None), cf_date_parse = (\<lambda>_. None), cf_is_datetime = (\<lambda>_. True), cf_codexBin = ''codex'',
     cf_gatewayName = ''gateway'', cf_cwd = ''/'', cf_roots = [''/w'']\<rparr>"

definition read_id :: string where
  "read_id = ''00000000-0000-4000-8000-000000000000''"

definition read_pages :: "string \<Rightarrow> string option \<Rightarrow> js_error + thread_listing" where
  "read_pages dir cursor = Inr ([\<lparr>t_id = read_id, t_title = ''t'', t_cwd = dir, t_preview = [], t_model = None,
     t_modelProvider = ''openai'', t_source = ''cli'', t_status = ''idle'', t_createdAtMs = 0, t_updatedAtMs = 0,
     t_tokensUsed = 0, t_archived = False, t_gitBranch = None\<rparr>], None)"

theorem reads_stay_in_allowed_roots_witness:
  "shows_content (get_session_route read_config None (read_pages ''/w/a'') sample_fs False read_id)
   \<and> \<not> shows_content (get_session_route read_config None (read_pages ''/w/link'') sample_fs False read_id)
   \<and> (\<exists>t workspace. findThreadSummary (read_pages ''/w/a'') read_id = Inr (Some t)
     \<and> fs_realpath sample_fs (path_resolve (cf_cwd read_config) [t_cwd t]) = Some workspace
     \<and> (\<exists>rootPath\<in>set (cf_roots read_config). \<exists>r. fs_realpath sample_fs (path_resolve (cf_cwd read_config) [rootPath]) = Some r
          \<and> prefix (resolve_components (cf_cwd read_config) [r]) (resolve_components (cf_cwd read_config) [workspace])))"
proof -
  have "shows_content (get_session_route read_config None (read_pages ''/w/a'') sample_fs False read_id)"
    "\<not> shows_content (get_session_route read_config None (read_pages ''/w/link'') sample_fs False read_id)"
    by code_simp+
  with reads_stay_in_allowed_roots [where cfg = read_config and pages = "read_pages ''/w/a''" and fs = sample_fs
      and timedOut = False and i = read_id, OF disjI1 [OF refl]]
  show ?thesis by blast
qed

lemma compactWidgetText_short: "length (compactWidgetText s) \<le> 160"
  by (simp add: compactWidgetText_def Let_def)

lemma find_mapD: "List.find P (map f xs) = Some y \<Longrightarrow> \<exists>x\<in>set xs. y = f x"
  by (induction xs) (auto split: if_splits)

text \<open>The widget shows a text of at most 160 characters.\<close>

lemma latestWidgetFeedback_short: "latestWidgetFeedback ms = Some t \<Longrightarrow> length t \<le> 160"
proof -
  have short: "length (completedAgentFeedbackText m) \<le> 160" "length (promptFeedbackText m) \<le> 160" for m
    by (simp_all add: completedAgentFeedbackText_def promptFeedbackText_def Let_def compactWidgetText_short split: option.split)
  assume "latestWidgetFeedback ms = Some t"
  then show ?thesis
    using short compactWidgetText_short
    by (auto simp: latestWidgetFeedback_def Let_def dest!: find_mapD split: option.splits if_splits)
qed

lemma keyed_fold:
  assumes "\<forall>(k, s)\<in>set m. k = s_id s" "map_wf m"
  shows "(\<forall>(k, s)\<in>set (fold (\<lambda>s. AList.update (s_id s) s) ss m). k = s_id s)
     \<and> map_wf (fold (\<lambda>s. AList.update (s_id s) s) ss m)"
  using assms
proof (induction ss arbitrary: m)
  case (Cons s ss)
  show ?case
    using Cons.prems by (simp, intro Cons.IH) (auto simp: distinct_update dest!: set_update_cases)
qed simp

text \<open>It counts every session once.\<close>

lemma widget_sessions_distinct: "distinct (map s_id (mergeWidgetSessions primary secondary))"
proof -
  let ?m = "fold (\<lambda>s. AList.update (s_id s) s) primary (fold (\<lambda>s. AList.update (s_id s) s) secondary [])"
  have m: "\<forall>(k, s)\<in>set ?m. k = s_id s" "map_wf ?m"
    using keyed_fold [of "fold (\<lambda>s. AList.update (s_id s) s) secondary []" primary] keyed_fold [of "[]" secondary] by auto
  have "distinct (map s_id (map snd m))" if "\<forall>(k, s)\<in>set m. k = s_id s" "map_wf m" for m :: "(string \<times> gateway_session) list"
  proof -
    have "map s_id (map snd m) = map fst m" using that(1) by auto
    with that(2) show ?thesis by (simp only:)
  qed
  from this [OF m] have "distinct (map snd ?m)" "inj_on s_id (set (map snd ?m))"
    by (simp_all only: distinct_map)
  then show ?thesis by (simp add: mergeWidgetSessions_def Let_def distinct_map)
qed

end
