(* ===== verification/Spec2Isabelle.thy ===== *)
theory Spec2Isabelle
  imports Gate StorePaging StoreLedger Attachments Auth BridgeIo ThreadsProps EventProps Workspace
    ClientProps GatewayProps GatewayLoop GatewayStatus RelaySessions TimelineProps WebProps WebLink WebRequests MarkdownProps
    LauncherProps GatewayReads
begin

text \<open>
  A verification of the CodeHarbor gateway and of the state of its web client.

  CodeHarbor lets a browser drive the Codex command line agent on the user's computer. The first
  program verified here is the gateway that runs on that computer: a Fastify server in TypeScript under
  \<open>src/gateway/acode-upstream/server/src\<close>. It starts Codex as a child process and talks JSON-RPC to it,
  keeps sessions and their event logs on disk, accepts prompts over HTTP, and sends events to browsers
  over WebSockets. All of it runs in one Node process, one callback at a time. The second is the logic of the
  web client under \<open>src/gateway/acode-upstream/app/src\<close>: the hook that keeps the connection, the cursors and the
  requests of a page, and the aggregator that turns events into the timeline that is shown.

  \<^bold>\<open>Parts of the program and their theories\<close>

  \<^item> \<open>Prelude\<close>: the values of JavaScript (numbers, strings, JSON, maps and sets in insertion order,
    optional properties) and the lemmas on them that all parts share; the interface \<open>recency_cache\<close> of the
    bounded maps.
  \<^item> \<open>Gate\<close>: \<open>turnGate.ts\<close> and \<open>sessionRunState.ts\<close>, the admission of turns and the run generations.
  \<^item> \<open>Store\<close>: \<open>gatewayStore.ts\<close>, a record with the sessions, the cache of event logs, the queues of pending
    writes, the files, and the ledgers of request ids. \<open>StoreLog\<close> and \<open>StoreRefine\<close> show that it refines an
    abstract log (a map from session ids to lists of events), \<open>StoreProps\<close>, \<open>StorePaging\<close>, \<open>StoreRestart\<close> and
    \<open>StoreLedger\<close> draw the consequences: sequence numbers, paging, restarts, idempotent requests.
  \<^item> \<open>Paths\<close>, \<open>Attachments\<close>: path arithmetic of Node and \<open>attachments.ts\<close>; \<open>Workspace\<close>: the checks of
    \<open>index.ts\<close> on workspaces, listings and downloads. Both path checks are interpretations of \<open>path_guard\<close>.
  \<^item> \<open>Auth\<close>: \<open>auth.ts\<close> and the access control and login routes of \<open>index.ts\<close>.
  \<^item> \<open>Bridge\<close>: \<open>codexBridge.ts\<close>, the JSON-RPC client; \<open>BridgeApprovals\<close>, \<open>BridgeRequests\<close> and \<open>BridgeIo\<close>
    hold its properties: approvals fail closed, every request is settled once, framing, limits.
  \<^item> \<open>Threads\<close>, \<open>ThreadsProps\<close>: \<open>threads.ts\<close>, the history of Codex on disk.
  \<^item> \<open>GatewayEvents\<close>, \<open>EventProps\<close>: the functions of \<open>index.ts\<close> that turn events and answers of Codex into
    messages, sessions and timelines.
  \<^item> \<open>Clients\<close>, \<open>ClientProps\<close>: the WebSocket clients, their backpressure and the replay of missed events.
  \<^item> \<open>Gateway\<close>: the state of \<open>index.ts\<close> and the functions that its handlers share, \<open>broadcastGateway\<close> first
    of all. \<open>GatewayRoutes\<close>, \<open>GatewayTurns\<close> and \<open>GatewayControl\<close>: the request handlers. \<open>GatewayRun\<close>: runs.
    \<open>GatewayInv\<close> and \<open>GatewaySteps\<close>: the interface \<open>gateway_invariant\<close> and the proof that an invariant that
    meets it survives every run. \<open>GatewayProps\<close>, \<open>GatewayLoop\<close> and \<open>GatewayStatus\<close>: the properties of runs, as
    interpretations of that interface.
  \<^item> \<open>GatewayReads\<close>: the routes of \<open>index.ts\<close> that only read, and the widget.
  \<^item> \<open>Settings\<close>, \<open>Launcher\<close>, \<open>LauncherProps\<close>: \<open>config.ts\<close>, \<open>cli.ts\<close> and \<open>codexPath.ts\<close>, the configuration of the
    server and the launcher that writes, repairs and checks it, as functions on a machine with its variables,
    files and console.
  \<^item> \<open>RelaySync\<close>, \<open>RelayProxy\<close>: \<open>relaySessionSync.ts\<close> and \<open>relayProxy.ts\<close>, the session list and the browser
    requests that pass through the cloud relay. \<open>Relay\<close>: \<open>relayClient.ts\<close>, the connection to that relay with its
    timers, suspended calls and identity file; \<open>RelayProps\<close>: its life cycle; \<open>RelaySessions\<close>: the session list,
    pairing requests and account devices.
  \<^item> \<open>Timeline\<close>, \<open>TimelineProps\<close>: \<open>aggregator.ts\<close>, the timeline of a session as the web client shows it.
  \<^item> \<open>WebClient\<close>: \<open>useCodeHarbor.ts\<close>, a record with the state, the refs and the sockets of the hook; its steps
    are frames and ends of sockets, ends of requests, timers, calls of the actions, and renders, which run the
    effects whose dependencies have changed. \<open>WebFrames\<close>: the interface \<open>web_part\<close> of a part of that state that
    an operation leaves alone. \<open>WebProps\<close>: the order of live events; \<open>WebLink\<close>: the life of the connection;
    \<open>WebRequests\<close>: the requests over the socket and the end of a history load.
  \<^item> \<open>Markdown\<close>, \<open>MarkdownProps\<close>: \<open>MarkdownView.tsx\<close>, the parser that shows an answer: when it ends, on which
    lines it hangs, and which links it shows.

  \<^bold>\<open>How code becomes definitions\<close>

  Definitions have the names of the functions they model; auxiliary ones name a loop body, a branch or a
  literal of such a function. A class is a record of its fields, and a method is a function on that
  record. Asynchronous code is cut at its awaits: the part before the first await and the continuation of
  every await are definitions of their own, a suspended handler is a value of \<open>fg_task\<close> or \<open>bg_task\<close> with the
  variables it has captured, and a run is any sequence of events (arrivals, ends of awaits with any answer,
  timers, output of Codex, messages of clients). So every interleaving that Node can produce is a run.
  Exceptions are values of a sum or option type. The clock, random ids, \<open>JSON.parse\<close>, \<open>Date.parse\<close>, HMAC, the
  file system as seen by a check, and answers of Codex are arguments.

  \<^bold>\<open>Bounds and loops\<close>

  Every loop but one is a structural recursion or has a measure; there is no fuel that changes a
  result. The exception is the block parser of \<open>Markdown\<close>, which really may not end: it is a partial function
  with the value None for a page that hangs. The search in the tree of rollout files is bounded by the size of the tree, \<open>findThreadSummary\<close> has
  the program's own bound of ten pages, the web client reads at most one hundred pages of history
  (\<open>history_load_ends\<close>), and all limits are the constants of the source.

  \<^bold>\<open>Not modelled\<close>

  The React components of the web client other than the view of answers, its styles, its display helpers, and
  the saving of a downloaded file; the app package of phones and its download routes; a failing write of the relay
  identity to disk; \<open>sqlite.ts\<close> and \<open>audit.ts\<close> (a process and a file append, whose outcome is an argument of the
  model); the desktop shell, the packaging scripts, and the relay server in Go.
  Numbers are exact rationals, so rounding above \<open>2^53\<close> is not represented. The synchronisation calls to the
  relay and log lines inside handlers have no effect on the state and are left out. In \<open>GatewayEvents\<close> an
  event whose turn or item is null, on which the code would throw, is treated like an empty one.
\<close>

end
